(* ===== verification/Syscape_Prelude.thy ===== *)
theory Syscape_Prelude
  imports Main "HOL-Library.Word" "HOL-Library.Multiset"
begin

text \<open>
  Shared vocabulary of the development: the machine-integer types of the C++ sources, the view
  of \<open>std::string\<close> and \<open>std::string_view\<close> as lists of bytes, and the generic lemmas on words,
  bytes and lists that the component theories rest on.

  A \<open>std::size_t\<close> offset or length is a \<^typ>\<open>nat\<close>: every such value in the sources is bounded
  by the size of an object in memory, so no addition on it wraps. A fixed-width integer that
  carries platform data is a word of its width.
\<close>

unbundle bit_operations_syntax

type_synonym u8 = "8 word"
type_synonym u16 = "16 word"
type_synonym u32 = "32 word"
type_synonym u64 = "64 word"

text \<open>The two rule collections the component proofs add to the simplifier.\<close>

named_theorems word_nat_simps \<open>moving word expressions to natural-number arithmetic\<close>
named_theorems text_simps \<open>evaluating the byte-string helpers\<close>

section \<open>Bytes\<close>

text \<open>\<open>static_cast<unsigned char>(c)\<close>, as a number and as a 32-bit operand.\<close>

abbreviation uchar :: "char \<Rightarrow> nat" where
  "uchar c \<equiv> of_char c"

definition byte32 :: "char \<Rightarrow> u32" where
  "byte32 c = of_nat (uchar c)"

text \<open>\<open>static_cast<char>(x)\<close> keeps the low eight bits.\<close>

definition to_char :: "'a::len word \<Rightarrow> char" where
  "to_char w = char_of (unat w)"

lemma uchar_less [simp]: "uchar c < 256"
proof -
  have "uchar c = uchar c mod 256"
    by (metis char_of_char of_char_of)
  then show ?thesis
    by (metis mod_less_divisor zero_less_numeral)
qed

lemma uchar_eq_iff: "uchar c = uchar d \<longleftrightarrow> c = d"
  by (metis char_of_char)

lemma uchar_char_of [simp]: "n < 256 \<Longrightarrow> uchar (char_of n) = n" for n :: nat
  by simp

lemma unat_byte32 [word_nat_simps, simp]: "unat (byte32 c) = uchar c"
proof -
  have "uchar c < 2 ^ 32"
    using uchar_less [of c] by (rule less_trans) simp
  then show ?thesis
    by (simp add: byte32_def unat_of_nat take_bit_nat_eq_self)
qed

lemma uchar_to_char [word_nat_simps]: "uchar (to_char w) = unat w mod 256"
  by (simp add: to_char_def)

section \<open>Words as natural numbers\<close>

lemma unat_push_bit_small:
  fixes a :: "'a::len word"
  assumes "unat a * 2 ^ n < 2 ^ LENGTH('a)"
  shows "unat (push_bit n a) = unat a * 2 ^ n"
  using assms by (simp add: unsigned_push_bit_eq push_bit_eq_mult [of n "unat a"] take_bit_nat_eq_self)

lemma unat_shift_or:
  fixes a b :: "'a::len word"
  assumes "unat b < 2 ^ n" and "unat a * 2 ^ n < 2 ^ LENGTH('a)"
  shows "unat (push_bit n a OR b) = unat a * 2 ^ n + unat b"
proof -
  have "push_bit n (unat a) OR unat b = push_bit n (unat a) + unat b"
  proof (rule disjunctive_add [symmetric])
    fix m
    show "\<not> bit (push_bit n (unat a)) m \<or> \<not> bit (unat b) m"
      using assms(1) by (metis bit_push_bit_iff bit_take_bit_iff not_le take_bit_nat_eq_self)
  qed
  then show ?thesis
    using unat_push_bit_small [OF assms(2)]
    by (simp add: unsigned_or_eq push_bit_eq_mult [of n "unat a"])
qed

lemma unat_and_mask: "unat (w AND mask n) = unat w mod 2 ^ n" for w :: "'a::len word"
  by (simp add: unsigned_take_bit_eq take_bit_eq_mod [of n "unat w"] flip: take_bit_eq_mask)

lemma unat_drop_bit [word_nat_simps]: "unat (drop_bit n w) = unat w div 2 ^ n"
  for w :: "'a::len word"
  by (simp add: unsigned_drop_bit_eq drop_bit_eq_div [of n "unat w"] take_bit_nat_eq_self
      unsigned_less)

lemma unat_and_low [word_nat_simps]:
  fixes w :: "'a::len word"
  shows "unat (w AND 0x07) = unat w mod 8"
    and "unat (w AND 0x0F) = unat w mod 16"
    and "unat (w AND 0x1F) = unat w mod 32"
    and "unat (w AND 0x3F) = unat w mod 64"
    and "unat (w AND 0xFF) = unat w mod 256"
    and "unat (w AND 0x3FF) = unat w mod 1024"
  using unat_and_mask [of w 3] unat_and_mask [of w 4] unat_and_mask [of w 5]
    unat_and_mask [of w 6] unat_and_mask [of w 8] unat_and_mask [of w 10]
  by (simp_all add: mask_eq_exp_minus_1)

lemmas word_order_nat = word_le_nat_alt word_less_nat_alt

lemma unat_add_small:
  "unat a + unat b < 2 ^ LENGTH('a) \<Longrightarrow> unat (a + b) = unat a + unat b" for a b :: "'a::len word"
  by (simp add: unat_word_ariths)

lemma unat_mult_small:
  "unat a * unat b < 2 ^ LENGTH('a) \<Longrightarrow> unat (a * b) = unat a * unat b" for a b :: "'a::len word"
  by (simp add: unat_word_ariths)

lemma unat_ucast_up: "LENGTH('a) \<le> LENGTH('b) \<Longrightarrow> unat (ucast x :: 'b::len word) = unat x"
  for x :: "'a::len word"
  by (simp add: unsigned_ucast_eq take_bit_nat_eq_self unsigned_less less_le_trans [OF unsigned_less])

lemma unat_sub_le: "b \<le> a \<Longrightarrow> unat (a - b) = unat a - unat b" for a b :: "'a::len word"
  by (rule unat_sub)

section \<open>Lists\<close>

text \<open>Splitting a loop index out of a list: \<open>drop n\<close> is never empty below the length.\<close>

lemma drop_cons_nth: "n < length xs \<Longrightarrow> drop n xs = xs ! n # drop (Suc n) xs"
  by (simp add: Cons_nth_drop_Suc)

lemma list_all_append_iff [text_simps]:
  "list_all P (xs @ ys) \<longleftrightarrow> list_all P xs \<and> list_all P ys"
  by simp

lemma takeWhile_all: "list_all P xs \<Longrightarrow> takeWhile P xs = xs"
  by (induction xs) auto

lemma dropWhile_all: "list_all P xs \<Longrightarrow> dropWhile P xs = []"
  by (induction xs) auto

section \<open>Index loops\<close>

text \<open>\<open>while (i < n && p(i)) { ++i; }\<close>, the scanning loop of the parsers.\<close>

function scan_up :: "(nat \<Rightarrow> bool) \<Rightarrow> nat \<Rightarrow> nat \<Rightarrow> nat" where
  "scan_up p i n = (if i < n \<and> p i then scan_up p (Suc i) n else i)"
  by pat_completeness auto
termination
  by (relation "measure (\<lambda>(p, i, n). n - i)") auto

declare scan_up.simps [simp del]

lemma scan_up_ge: "i \<le> scan_up p i n"
  by (induction p i n rule: scan_up.induct) (subst scan_up.simps, auto)

lemma scan_up_le: "i \<le> n \<Longrightarrow> scan_up p i n \<le> n"
  by (induction p i n rule: scan_up.induct) (subst scan_up.simps, auto)

lemma scan_up_stop: "scan_up p i n < n \<Longrightarrow> \<not> p (scan_up p i n)"
  by (induction p i n rule: scan_up.induct) (subst (asm) (2) scan_up.simps, subst scan_up.simps, auto split: if_splits)

lemma scan_up_before: "i \<le> j \<Longrightarrow> j < scan_up p i n \<Longrightarrow> p j"
proof (induction p i n rule: scan_up.induct)
  case (1 p i n)
  show ?case
  proof (cases "i < n \<and> p i")
    case True
    then show ?thesis
      using 1 by (cases "i = j") (auto simp: scan_up.simps [of p i n])
  next
    case False
    then have "scan_up p i n = i" by (subst scan_up.simps) auto
    then show ?thesis using 1(2,3) by simp
  qed
qed

text \<open>How the loop ends when the stopping place is known.\<close>

lemma scan_up_eqI:
  assumes "i \<le> m" "m \<le> n" "\<And>j. i \<le> j \<Longrightarrow> j < m \<Longrightarrow> p j" "m = n \<or> \<not> p m"
  shows "scan_up p i n = m"
  using assms
proof (induction p i n rule: scan_up.induct)
  case (1 p i n)
  show ?case
  proof (cases "i = m")
    case True
    then show ?thesis using 1(5) by (subst scan_up.simps) auto
  next
    case False
    then have "i < n \<and> p i" using 1(2,3,4) by auto
    then show ?thesis using 1 False by (subst scan_up.simps) auto
  qed
qed

end
