(* ===== verification/Foundation.thy ===== *)
theory Foundation
  imports Syscape_Prelude
begin

text \<open>
  The vocabulary every query of the library returns: the portable error enumeration and its
  category (\<open>include/syscape/error.hpp\<close>), the value-or-error container \<open>result<T>\<close>
  (\<open>include/syscape/result.hpp\<close>) and the capability observation
  (\<open>include/syscape/capability.hpp\<close>). The last section states, as locales, the contract of the
  boundary validators \<open>validate_*\<close> that every module applies to what a platform backend returns.
\<close>

section \<open>Errors\<close>

datatype errc =
    success
  | unknown
  | not_supported
  | permission_denied
  | not_found
  | temporarily_unavailable
  | malformed_data
  | io_error
  | invalid_encoding
  | value_too_large
  | resource_exhausted
  | invalid_argument

text \<open>\<open>static_cast<int>(errc)\<close> and the values \<open>static_cast<errc>(int)\<close> gives a name to.\<close>

fun errc_value :: "errc \<Rightarrow> int" where
  "errc_value errc.success = 0"
| "errc_value errc.unknown = 1"
| "errc_value errc.not_supported = 2"
| "errc_value errc.permission_denied = 3"
| "errc_value errc.not_found = 4"
| "errc_value errc.temporarily_unavailable = 5"
| "errc_value errc.malformed_data = 6"
| "errc_value errc.io_error = 7"
| "errc_value errc.invalid_encoding = 8"
| "errc_value errc.value_too_large = 9"
| "errc_value errc.resource_exhausted = 10"
| "errc_value errc.invalid_argument = 11"

definition errc_of_int :: "int \<Rightarrow> errc option" where
  "errc_of_int v = find (\<lambda>e. errc_value e = v)
     [errc.success, errc.unknown, errc.not_supported, errc.permission_denied, errc.not_found,
      errc.temporarily_unavailable, errc.malformed_data, errc.io_error, errc.invalid_encoding,
      errc.value_too_large, errc.resource_exhausted, errc.invalid_argument]"

datatype error_category = syscape_category | generic_category | system_category

record error_code =
  ec_value :: int
  ec_category :: error_category

text \<open>A default-constructed \<open>std::error_code\<close>: value zero in the system category.\<close>

definition success_code :: error_code where
  "success_code = \<lparr>ec_value = 0, ec_category = system_category\<rparr>"

text \<open>\<open>error_code::operator bool\<close>.\<close>

definition code_is_error :: "error_code \<Rightarrow> bool" where
  "code_is_error c \<longleftrightarrow> ec_value c \<noteq> 0"

definition make_error_code :: "errc \<Rightarrow> error_code" where
  "make_error_code e = \<lparr>ec_value = errc_value e, ec_category = syscape_category\<rparr>"

fun errc_message :: "errc \<Rightarrow> string" where
  "errc_message errc.success = ''success''"
| "errc_message errc.unknown = ''unknown error''"
| "errc_message errc.not_supported = ''capability not supported''"
| "errc_message errc.permission_denied = ''permission denied''"
| "errc_message errc.not_found = ''information not found''"
| "errc_message errc.temporarily_unavailable = ''information temporarily unavailable''"
| "errc_message errc.malformed_data = ''malformed platform data''"
| "errc_message errc.io_error = ''input or output error''"
| "errc_message errc.invalid_encoding = ''invalid text encoding''"
| "errc_message errc.value_too_large = ''value too large''"
| "errc_message errc.resource_exhausted = ''resource exhausted''"
| "errc_message errc.invalid_argument = ''invalid argument''"

definition category_message :: "int \<Rightarrow> string" where
  "category_message v =
     (case errc_of_int v of Some e \<Rightarrow> errc_message e | None \<Rightarrow> ''unrecognized syscape error'')"

text \<open>The \<open>std::errc\<close> conditions that the category maps onto.\<close>

datatype std_errc =
    std_operation_not_supported
  | std_permission_denied
  | std_no_such_file_or_directory
  | std_resource_unavailable_try_again
  | std_illegal_byte_sequence
  | std_io_error
  | std_value_too_large
  | std_not_enough_memory
  | std_invalid_argument

datatype error_condition = Empty_condition | Generic_condition std_errc | Own_condition int

fun errc_condition :: "errc \<Rightarrow> error_condition option" where
  "errc_condition errc.success = Some Empty_condition"
| "errc_condition errc.not_supported = Some (Generic_condition std_operation_not_supported)"
| "errc_condition errc.permission_denied = Some (Generic_condition std_permission_denied)"
| "errc_condition errc.not_found = Some (Generic_condition std_no_such_file_or_directory)"
| "errc_condition errc.temporarily_unavailable =
     Some (Generic_condition std_resource_unavailable_try_again)"
| "errc_condition errc.malformed_data = Some (Generic_condition std_illegal_byte_sequence)"
| "errc_condition errc.invalid_encoding = Some (Generic_condition std_illegal_byte_sequence)"
| "errc_condition errc.io_error = Some (Generic_condition std_io_error)"
| "errc_condition errc.value_too_large = Some (Generic_condition std_value_too_large)"
| "errc_condition errc.resource_exhausted = Some (Generic_condition std_not_enough_memory)"
| "errc_condition errc.invalid_argument = Some (Generic_condition std_invalid_argument)"
| "errc_condition errc.unknown = None"

definition default_error_condition :: "int \<Rightarrow> error_condition" where
  "default_error_condition v =
     (case errc_of_int v of
        None \<Rightarrow> Own_condition v
      | Some e \<Rightarrow> (case errc_condition e of None \<Rightarrow> Own_condition v | Some c \<Rightarrow> c))"

section \<open>Value or error\<close>

datatype 'a result = Value 'a | Unexpected error_code

text \<open>\<open>fail(errc)\<close>; the overload \<open>fail(std::error_code)\<close> is the constructor
  \<^const>\<open>Unexpected\<close>.\<close>

definition fail :: "errc \<Rightarrow> 'a result" where
  "fail e = Unexpected (make_error_code e)"

fun has_value :: "'a result \<Rightarrow> bool" where
  "has_value (Value v) = True"
| "has_value (Unexpected c) = False"

text \<open>\<open>error()\<close> never reads a value: it answers the success code for a result that holds one.\<close>

fun result_error :: "'a result \<Rightarrow> error_code" where
  "result_error (Value v) = success_code"
| "result_error (Unexpected c) = c"

fun value_or :: "'a result \<Rightarrow> 'a \<Rightarrow> 'a" where
  "value_or (Value v) fallback = v"
| "value_or (Unexpected c) fallback = fallback"

text \<open>
  \<open>value()\<close> throws \<open>bad_result_access\<close> on a failed result. The exception's text is the message
  of the stored code, which for a foreign category is the standard library's: a parameter.
\<close>

record bad_result_access =
  bra_what :: string
  bra_error :: error_code

definition error_code_message :: "(error_code \<Rightarrow> string) \<Rightarrow> error_code \<Rightarrow> string" where
  "error_code_message foreign c =
     (if ec_category c = syscape_category then category_message (ec_value c) else foreign c)"

definition make_bad_result_access ::
    "(error_code \<Rightarrow> string) \<Rightarrow> error_code \<Rightarrow> bad_result_access" where
  "make_bad_result_access foreign c =
     \<lparr>bra_what = (if code_is_error c then error_code_message foreign c
                  else ''result has no value''),
      bra_error = c\<rparr>"

fun result_value :: "(error_code \<Rightarrow> string) \<Rightarrow> 'a result \<Rightarrow> bad_result_access + 'a" where
  "result_value foreign (Value v) = Inr v"
| "result_value foreign (Unexpected c) = Inl (make_bad_result_access foreign c)"

text \<open>
  \<open>if (!r) { return fail(r.error()); }\<close> followed by uses of \<open>*r\<close>: the propagation idiom of
  every query.
\<close>

fun and_then :: "'a result \<Rightarrow> ('a \<Rightarrow> 'b result) \<Rightarrow> 'b result" where
  "and_then (Value v) f = f v"
| "and_then (Unexpected c) f = Unexpected c"

text \<open>
  \<open>for (const auto& x : xs) { ... return fail(...) ... }\<close>: the loop that stops at the first
  element whose check fails.
\<close>

fun each :: "('a \<Rightarrow> unit result) \<Rightarrow> 'a list \<Rightarrow> unit result" where
  "each check [] = Value ()"
| "each check (x # xs) = and_then (check x) (\<lambda>_. each check xs)"

text \<open>The whole-snapshot validator built from such a loop.\<close>

definition validate_each :: "('a \<Rightarrow> unit result) \<Rightarrow> 'a list result \<Rightarrow> 'a list result" where
  "validate_each check r = and_then r (\<lambda>xs. and_then (each check xs) (\<lambda>_. Value xs))"

text \<open>\<open>if (condition) { return fail(e); }\<close> before the rest of a body.\<close>

definition fail_if :: "bool \<Rightarrow> errc \<Rightarrow> 'a result \<Rightarrow> 'a result" where
  "fail_if b e rest = (if b then fail e else rest)"

section \<open>Capabilities\<close>

datatype capability_state =
    unknown
  | unsupported
  | available
  | permission_required
  | temporarily_unavailable

record capability =
  cap_state :: capability_state

definition default_capability :: capability where
  "default_capability = \<lparr>cap_state = capability_state.unknown\<rparr>"

definition capability_available :: "capability \<Rightarrow> bool" where
  "capability_available c \<longleftrightarrow> cap_state c = capability_state.available"

definition capability_recognized :: "capability \<Rightarrow> bool" where
  "capability_recognized c \<longleftrightarrow> cap_state c \<noteq> capability_state.unknown"

fun capability_state_name :: "capability_state \<Rightarrow> string" where
  "capability_state_name capability_state.unsupported = ''unsupported''"
| "capability_state_name capability_state.available = ''available''"
| "capability_state_name capability_state.permission_required = ''permission-required''"
| "capability_state_name capability_state.temporarily_unavailable = ''temporarily-unavailable''"
| "capability_state_name capability_state.unknown = ''unknown''"

section \<open>Lemmas on results\<close>

lemma fail_ne_Value [simp]: "fail e \<noteq> Value v" "Value v \<noteq> fail e"
  by (simp_all add: fail_def)

lemma fail_inject [simp]: "fail e = fail e' \<longleftrightarrow> e = e'"
  by (cases e; cases e') (simp_all add: fail_def make_error_code_def)

lemma has_value_fail [simp]: "\<not> has_value (fail e)"
  by (simp add: fail_def)

lemma and_then_fail [simp]: "and_then (fail e) f = fail e"
  by (simp add: fail_def)

lemma and_then_Value_iff:
  "and_then r f = Value w \<longleftrightarrow> (\<exists>v. r = Value v \<and> f v = Value w)"
  by (cases r) auto

lemma and_then_assoc: "and_then (and_then r f) g = and_then r (\<lambda>v. and_then (f v) g)"
  by (cases r) auto

lemma has_value_iff: "has_value r \<longleftrightarrow> (\<exists>v. r = Value v)"
  by (cases r) auto

lemma fail_if_Value_iff [simp]: "fail_if b e rest = Value v \<longleftrightarrow> \<not> b \<and> rest = Value v"
  by (simp add: fail_if_def)

lemma fail_if_simps [simp]: "fail_if True e rest = fail e" "fail_if False e rest = rest"
  by (simp_all add: fail_if_def)

lemma each_Value_iff: "each check xs = Value () \<longleftrightarrow> (\<forall>x \<in> set xs. check x = Value ())"
  by (induction xs) (auto simp: and_then_Value_iff)

text \<open>A failing loop reports the failure of the first offending element.\<close>

lemma each_Unexpected:
  "each check xs = Unexpected c \<longleftrightarrow>
     (\<exists>pre x post. xs = pre @ x # post \<and> each check pre = Value () \<and> check x = Unexpected c)"
proof (induction xs)
  case Nil
  then show ?case by simp
next
  case (Cons y ys)
  show ?case
  proof (cases "check y")
    case (Value u)
    have "each check (y # ys) = Unexpected c \<longleftrightarrow> each check ys = Unexpected c"
      using Value by simp
    also have "\<dots> \<longleftrightarrow> (\<exists>pre x post. y # ys = pre @ x # post \<and> each check pre = Value ()
        \<and> check x = Unexpected c)" (is "_ \<longleftrightarrow> ?R")
    proof
      assume "each check ys = Unexpected c"
      with Cons.IH obtain pre x post where
        "ys = pre @ x # post" "each check pre = Value ()" "check x = Unexpected c" by blast
      then show ?R
        using Value by (intro exI [of _ "y # pre"] exI [of _ x] exI [of _ post]) simp
    next
      assume ?R
      then obtain pre x post where *: "y # ys = pre @ x # post" "each check pre = Value ()"
        "check x = Unexpected c" by blast
      with Value obtain pre' where "pre = y # pre'" by (cases pre) auto
      with * Value Cons.IH show "each check ys = Unexpected c" by auto
    qed
    finally show ?thesis .
  next
    case (Unexpected d)
    have "\<lbrakk>y # ys = pre @ x # post; each check pre = Value ()\<rbrakk> \<Longrightarrow> pre = []" for pre x post
      using Unexpected by (cases pre) auto
    then show ?thesis
      using Unexpected by (fastforce intro: exI [of _ "[]"])
  qed
qed

lemma errc_of_int_value [simp]: "errc_of_int (errc_value e) = Some e"
  by (cases e) (simp_all add: errc_of_int_def)

section \<open>Contracts of the boundary validators\<close>

text \<open>
  A validator applied at the public boundary passes a backend's error through and may only turn
  values into other values that it would itself accept unchanged. \<open>ok\<close> is the promise made to
  the callers of the public header.
\<close>

locale boundary_normaliser =
  fixes validate :: "'a result \<Rightarrow> 'a result"
    and ok :: "'a \<Rightarrow> bool"
  assumes passes_error: "validate (Unexpected c) = Unexpected c"
    and fixes_ok: "ok v \<Longrightarrow> validate (Value v) = Value v"
    and yields_ok: "validate (Value v) = Value w \<Longrightarrow> ok w"
begin

lemma validated_ok: "validate r = Value w \<Longrightarrow> ok w"
  by (cases r) (auto simp: passes_error dest: yields_ok)

lemma validate_idem: "validate (validate r) = validate r"
proof (cases "validate r")
  case (Value w)
  then show ?thesis by (simp add: fixes_ok validated_ok)
next
  case (Unexpected c)
  then show ?thesis by (simp add: passes_error)
qed

lemma range_iff_ok: "(\<exists>r. validate r = Value w) \<longleftrightarrow> ok w"
  using fixes_ok validated_ok by blast

end

text \<open>The stronger contract of a validator that never rewrites platform data.\<close>

locale boundary_validator =
  fixes validate :: "'a result \<Rightarrow> 'a result"
    and ok :: "'a \<Rightarrow> bool"
  assumes passes_error: "validate (Unexpected c) = Unexpected c"
    and accepts: "ok v \<Longrightarrow> validate (Value v) = Value v"
    and rejects: "\<not> ok v \<Longrightarrow> \<not> has_value (validate (Value v))"
begin

lemma accepts_iff: "validate r = Value w \<longleftrightarrow> r = Value w \<and> ok w"
proof (cases r)
  case (Value v)
  then show ?thesis
    using accepts [of v] rejects [of v] by (cases "ok v") (auto simp: has_value_iff)
next
  case (Unexpected c)
  then show ?thesis by (simp add: passes_error)
qed

sublocale normal: boundary_normaliser validate ok
proof unfold_locales
  show "validate (Unexpected c) = Unexpected c" for c
    by (rule passes_error)
  show "ok v \<Longrightarrow> validate (Value v) = Value v" for v
    by (rule accepts)
  show "validate (Value v) = Value w \<Longrightarrow> ok w" for v w
    by (simp add: accepts_iff)
qed

end

text \<open>Whole-snapshot validation: one unusable record fails the snapshot.\<close>

locale record_check =
  fixes check :: "'a \<Rightarrow> unit result"
    and ok_record :: "'a \<Rightarrow> bool"
  assumes check_iff: "check x = Value () \<longleftrightarrow> ok_record x"
begin

lemma each_check_iff: "each check xs = Value () \<longleftrightarrow> list_all ok_record xs"
  by (simp add: each_Value_iff check_iff list_all_iff)

sublocale snapshot: boundary_validator "validate_each check" "list_all ok_record"
proof unfold_locales
  show "validate_each check (Unexpected c) = Unexpected c" for c
    by (simp add: validate_each_def)
  show "list_all ok_record v \<Longrightarrow> validate_each check (Value v) = Value v" for v
    by (simp add: validate_each_def flip: each_check_iff)
  show "\<not> list_all ok_record v \<Longrightarrow> \<not> has_value (validate_each check (Value v))" for v
    by (auto simp: validate_each_def has_value_iff and_then_Value_iff each_check_iff)
qed

text \<open>The error of a rejected snapshot is the error of its first unusable record.\<close>

lemma snapshot_error:
  "validate_each check (Value xs) = Unexpected c \<longleftrightarrow>
     (\<exists>pre x post. xs = pre @ x # post \<and> list_all ok_record pre \<and> check x = Unexpected c)"
proof -
  have "validate_each check (Value xs) = Unexpected c \<longleftrightarrow> each check xs = Unexpected c"
    by (cases "each check xs") (auto simp: validate_each_def)
  then show ?thesis
    by (simp add: each_Unexpected each_check_iff)
qed

end

end
