(* ===== verification/Utf8_Correct.thy ===== *)
theory Utf8_Correct
  imports Utf8
begin

text \<open>
  Correctness of the text codec: \<open>decode_utf8_code_point\<close> accepts exactly the UTF-8 encodings
  of Unicode scalar values (no overlong forms, no surrogates, nothing beyond U+10FFFF), so
  \<open>is_valid_utf8\<close> is well-formedness, and the two conversions are mutually inverse.
\<close>

unbundle bit_operations_syntax

section \<open>The reference encodings\<close>

definition scalar_value :: "nat \<Rightarrow> bool" where
  "scalar_value n \<longleftrightarrow> n < 0x110000 \<and> \<not> (0xD800 \<le> n \<and> n \<le> 0xDFFF)"

definition utf8_bytes :: "nat \<Rightarrow> nat list" where
  "utf8_bytes n =
     (if n < 0x80 then [n]
      else if n < 0x800 then [0xC0 + n div 64, 0x80 + n mod 64]
      else if n < 0x10000 then [0xE0 + n div 4096, 0x80 + n div 64 mod 64, 0x80 + n mod 64]
      else [0xF0 + n div 262144, 0x80 + n div 4096 mod 64, 0x80 + n div 64 mod 64, 0x80 + n mod 64])"

definition utf8_enc :: "nat \<Rightarrow> string" where
  "utf8_enc n = map char_of (utf8_bytes n)"

definition utf16_units :: "nat \<Rightarrow> nat list" where
  "utf16_units n =
     (if n < 0x10000 then [n]
      else [0xD800 + (n - 0x10000) div 1024, 0xDC00 + (n - 0x10000) mod 1024])"

definition utf16_enc :: "nat \<Rightarrow> u16 list" where
  "utf16_enc n = map of_nat (utf16_units n)"

section \<open>Bit operations as arithmetic\<close>

lemma mod_bounds:
  "n mod 8 < (8::nat)" "n mod 16 < (16::nat)" "n mod 32 < (32::nat)" "n mod 64 < (64::nat)"
  by simp_all

lemma unat_low_two:
  "unat (push_bit 6 (byte32 a AND 0x3F) OR (byte32 b AND 0x3F)) = uchar a mod 64 * 64 + uchar b mod 64"
proof -
  have "uchar a mod 64 * 64 < 2 ^ 32"
    using mod_bounds(4) [of "uchar a"] by simp
  then show ?thesis
    using unat_shift_or [of "byte32 b AND 0x3F" 6 "byte32 a AND 0x3F"]
    by (simp add: word_nat_simps)
qed

lemma unat_join2: "unat (join2 a b) = uchar a mod 32 * 64 + uchar b mod 64"
proof -
  have "uchar a mod 32 * 64 < 2 ^ 32"
    using mod_bounds(3) [of "uchar a"] by simp
  then show ?thesis
    using unat_shift_or [of "byte32 b AND 0x3F" 6 "byte32 a AND 0x1F"]
    by (simp add: word_nat_simps join2_def)
qed

lemma unat_join3: "unat (join3 a b c) = uchar a mod 16 * 4096 + (uchar b mod 64 * 64 + uchar c mod 64)"
proof -
  have "uchar a mod 16 * 4096 < 2 ^ 32" and "uchar b mod 64 * 64 + uchar c mod 64 < 2 ^ 12"
    using mod_bounds(2) [of "uchar a"] mod_bounds(4) [of "uchar b"] mod_bounds(4) [of "uchar c"]
    by simp_all
  then show ?thesis
    unfolding join3_def
    by (subst unat_shift_or) (simp_all only: unat_low_two unat_and_low unat_byte32 len_of_numeral_defs, simp_all)
qed

lemma unat_low_three:
  "unat (push_bit 12 (byte32 a AND 0x3F) OR (push_bit 6 (byte32 b AND 0x3F) OR (byte32 c AND 0x3F))) =
     uchar a mod 64 * 4096 + (uchar b mod 64 * 64 + uchar c mod 64)"
proof -
  have "uchar a mod 64 * 4096 < 2 ^ 32" and "uchar b mod 64 * 64 + uchar c mod 64 < 2 ^ 12"
    using mod_bounds(4) [of "uchar a"] mod_bounds(4) [of "uchar b"] mod_bounds(4) [of "uchar c"]
    by simp_all
  then show ?thesis
    by (subst unat_shift_or) (simp_all only: unat_low_two unat_and_low unat_byte32 len_of_numeral_defs, simp_all)
qed

lemma unat_join4:
  "unat (join4 a b c d) =
     uchar a mod 8 * 262144 + (uchar b mod 64 * 4096 + (uchar c mod 64 * 64 + uchar d mod 64))"
proof -
  have "uchar a mod 8 * 262144 < 2 ^ 32"
    and "uchar b mod 64 * 4096 + (uchar c mod 64 * 64 + uchar d mod 64) < 2 ^ 18"
    using mod_bounds(1) [of "uchar a"] mod_bounds(4) [of "uchar b"] mod_bounds(4) [of "uchar c"]
      mod_bounds(4) [of "uchar d"] by simp_all
  then show ?thesis
    unfolding join4_def
    by (subst unat_shift_or) (simp_all only: unat_low_three unat_and_low unat_byte32 len_of_numeral_defs, simp_all)
qed

lemmas unat_joined = unat_join2 unat_join3 unat_join4

lemma unat_or_lead:
  fixes w :: u32
  shows "unat w < 64 \<Longrightarrow> unat (0x80 OR w) = 0x80 + unat w"
    and "unat w < 32 \<Longrightarrow> unat (0xC0 OR w) = 0xC0 + unat w"
    and "unat w < 16 \<Longrightarrow> unat (0xE0 OR w) = 0xE0 + unat w"
    and "unat w < 8 \<Longrightarrow> unat (0xF0 OR w) = 0xF0 + unat w"
  using unat_shift_or [of w 6 2] unat_shift_or [of w 5 6] unat_shift_or [of w 4 14]
    unat_shift_or [of w 3 30] by (simp_all add: push_bit_eq_mult)

lemma to_char_lead:
  fixes w :: u32
  shows "unat w < 64 \<Longrightarrow> to_char (0x80 OR w) = char_of (0x80 + unat w)"
    and "unat w < 32 \<Longrightarrow> to_char (0xC0 OR w) = char_of (0xC0 + unat w)"
    and "unat w < 16 \<Longrightarrow> to_char (0xE0 OR w) = char_of (0xE0 + unat w)"
    and "unat w < 8 \<Longrightarrow> to_char (0xF0 OR w) = char_of (0xF0 + unat w)"
  by (simp_all add: to_char_def unat_or_lead)

lemma append_utf8_enc:
  assumes "unat v < 0x110000"
  shows "append_utf8 output v = output @ utf8_enc (unat v)"
proof -
  have lead: "unat v < 0x800 \<Longrightarrow> unat v div 64 < 32" "unat v < 0x10000 \<Longrightarrow> unat v div 4096 < 16"
    "unat v div 262144 < 8"
    using assms by linarith+
  show ?thesis
    using assms lead
    by (auto simp: append_utf8_def utf8_enc_def utf8_bytes_def word_order_nat word_nat_simps
        to_char_lead to_char_def [of v])
qed

section \<open>Decoding\<close>

lemma length_utf8_enc: "length (utf8_enc n) =
   (if n < 0x80 then 1 else if n < 0x800 then 2 else if n < 0x10000 then 3 else 4)"
  by (simp add: utf8_enc_def utf8_bytes_def)

lemma decode_drop:
  "decode_utf8_code_point input off = decode_utf8_code_point (drop off input) 0"
proof (cases "off \<le> length input")
  case True
  have len: "(length (drop off input) \<le> k) = (length input \<le> off + k)" for k
    by auto
  have nth: "drop off input ! k = input ! (off + k)" for k
    using True by simp
  show ?thesis
    unfolding decode_utf8_code_point_def Let_def
    by (simp only: len nth add_0 add_0_right)
next
  case False
  then show ?thesis by (simp add: decode_utf8_code_point_def)
qed

lemma unat_eq_of_nat: "unat w = n \<Longrightarrow> w = of_nat n" for w :: "'a::len word"
  by auto

lemma lead_mods:
  "p < 32 \<Longrightarrow> (192 + p) mod 32 = (p::nat)" "p < 16 \<Longrightarrow> (224 + p) mod 16 = (p::nat)"
  "p < 8 \<Longrightarrow> (240 + p) mod 8 = (p::nat)" "p < 64 \<Longrightarrow> (128 + p) mod 64 = (p::nat)"
  using mod_mult_self3 [of 6 32 p] mod_mult_self3 [of 14 16 p] mod_mult_self3 [of 30 8 p]
    mod_mult_self3 [of 2 64 p] by simp_all

lemma recombine2: "n div 64 * 64 + n mod 64 = (n::nat)"
  by (rule div_mult_mod_eq)

lemma join_digits: "m = a * 64 + b \<Longrightarrow> n = m * k + c \<Longrightarrow> a * (64 * k) + (b * k + c) = n"
  for a b c k m n :: nat
  by (simp add: algebra_simps)

lemma recombine3: "n div 4096 * 4096 + (n div 64 mod 64 * 64 + n mod 64) = (n::nat)"
proof -
  have "n div 64 = n div 4096 * 64 + n div 64 mod 64"
    using div_mult2_eq [of n 64 64] recombine2 [of "n div 64"] by simp
  from join_digits [OF this recombine2 [symmetric]] show ?thesis by simp
qed

lemma recombine4:
  "n div 262144 * 262144 + (n div 4096 mod 64 * 4096 + (n div 64 mod 64 * 64 + n mod 64)) = (n::nat)"
proof -
  have "n div 4096 = n div 262144 * 64 + n div 4096 mod 64"
    using div_mult2_eq [of n 4096 64] recombine2 [of "n div 4096"] by simp
  from join_digits [OF this recombine3 [symmetric]] show ?thesis by simp
qed

lemmas recombine = recombine2 recombine3 recombine4

lemma mod_64_le [simp]: "n mod 64 \<le> (63::nat)"
  using mod_bounds(4) [of n] by simp

lemma decode_enc:
  assumes "scalar_value n"
  shows "decode_utf8_code_point (utf8_enc n @ rest) 0 = Value (mk_decoded (of_nat n) (length (utf8_enc n)))"
proof -
  consider "n < 0x80" | "0x80 \<le> n" "n < 0x800" | "0x800 \<le> n" "n < 0x10000" | "0x10000 \<le> n" "n < 0x110000"
    using assms by (fastforce simp: scalar_value_def)
  then show ?thesis
  proof cases
    case 1
    then have "byte32 (char_of n) = of_nat n" by (simp add: byte32_def)
    with 1 show ?thesis
      by (simp add: utf8_enc_def utf8_bytes_def decode_utf8_code_point_def)
  next
    case 2
    then have lead: "n div 64 < 32" "2 \<le> n div 64" by linarith+
    have "join2 (char_of (0xC0 + n div 64)) (char_of (0x80 + n mod 64)) = of_nat n"
      by (rule unat_eq_of_nat) (use lead in \<open>simp add: unat_join2 lead_mods recombine\<close>)
    with 2 lead show ?thesis
      unfolding length_utf8_enc
      by (simp add: utf8_enc_def utf8_bytes_def decode_utf8_code_point_def continuation_def Let_def)
  next
    case 3
    then have lead: "n div 4096 < 16" by linarith
    have "join3 (char_of (0xE0 + n div 4096)) (char_of (0x80 + n div 64 mod 64)) (char_of (0x80 + n mod 64)) = of_nat n"
      by (rule unat_eq_of_nat) (use lead in \<open>simp add: unat_join3 lead_mods recombine\<close>)
    moreover have "n div 4096 = 13 \<Longrightarrow> n div 64 mod 64 \<le> 31"
      using recombine3 [of n] assms mod_64_le [of n] mod_64_le [of "n div 64"]
      by (auto simp: scalar_value_def)
    moreover have "n div 4096 = 0 \<Longrightarrow> 32 \<le> n div 64 \<and> n div 64 \<le> 63"
      using 3 by linarith
    ultimately show ?thesis using 3 lead
      unfolding length_utf8_enc
      by (simp add: utf8_enc_def utf8_bytes_def decode_utf8_code_point_def continuation_def Let_def)
  next
    case 4 
    then have lead: "n div 262144 \<le> 4" by linarith
    have "join4 (char_of (0xF0 + n div 262144)) (char_of (0x80 + n div 4096 mod 64)) (char_of (0x80 + n div 64 mod 64)) (char_of (0x80 + n mod 64)) = of_nat n"
      by (rule unat_eq_of_nat) (use lead in \<open>simp add: unat_join4 lead_mods recombine\<close>)
    moreover have "n div 262144 = 4 \<Longrightarrow> n div 4096 mod 64 \<le> 15"
      using recombine4 [of n] 4 by simp
    moreover have "n div 262144 = 0 \<Longrightarrow> 16 \<le> n div 4096 \<and> n div 4096 \<le> 63"
      using 4 by linarith
    ultimately show ?thesis using 4 lead
      unfolding length_utf8_enc
      by (simp add: utf8_enc_def utf8_bytes_def decode_utf8_code_point_def continuation_def Let_def)
 qed qed

lemma decode_cases:
  assumes "decode_utf8_code_point s 0 = Value d"
  obtains
    (one) a rest where "s = a # rest" "uchar a \<le> 0x7F" "d = mk_decoded (byte32 a) 1"
  | (two) a b rest where "s = a # b # rest" "0xC2 \<le> uchar a" "uchar a \<le> 0xDF" "continuation b"
      "d = mk_decoded (join2 a b) 2"
  | (three) a b c rest where "s = a # b # c # rest" "0xE0 \<le> uchar a" "uchar a \<le> 0xEF"
      "continuation b" "continuation c" "uchar a = 0xE0 \<Longrightarrow> 0xA0 \<le> uchar b"
      "uchar a = 0xED \<Longrightarrow> uchar b \<le> 0x9F" "d = mk_decoded (join3 a b c) 3"
  | (four) a b c e rest where "s = a # b # c # e # rest" "0xF0 \<le> uchar a" "uchar a \<le> 0xF4"
      "continuation b" "continuation c" "continuation e" "uchar a = 0xF0 \<Longrightarrow> 0x90 \<le> uchar b"
      "uchar a = 0xF4 \<Longrightarrow> uchar b \<le> 0x8F" "d = mk_decoded (join4 a b c e) 4"
proof -
  from assms obtain a s1 where s: "s = a # s1"
    by (cases s) (auto simp: decode_utf8_code_point_def)
  note def = decode_utf8_code_point_def continuation_def Let_def
  consider "uchar a \<le> 0x7F" | "0xC2 \<le> uchar a" "uchar a \<le> 0xDF"
    | "0xE0 \<le> uchar a" "uchar a \<le> 0xEF" | "0xF0 \<le> uchar a" "uchar a \<le> 0xF4"
    using assms s by (auto simp: decode_utf8_code_point_def split: if_splits)
  then show ?thesis
  proof cases
    case 1
    with assms s one show ?thesis by (simp add: decode_utf8_code_point_def)
  next
    case 2
    with assms s obtain b rest where "s1 = b # rest"
      by (cases s1) (auto simp: def)
    with assms s 2 two show ?thesis by (simp add: def split: if_splits)
  next
    case 3
    with assms s obtain b c rest where "s1 = b # c # rest"
      by (cases s1; cases "tl s1") (auto simp: def)
    with assms s 3 three show ?thesis by (auto simp: def split: if_splits)
  next
    case 4
    with assms s obtain b c e rest where "s1 = b # c # e # rest"
      by (cases s1; cases "tl s1"; cases "tl (tl s1)") (auto simp: def)
    with assms s 4 four show ?thesis by (auto simp: def split: if_splits)
  qed
qed

lemma lead_digit: "k \<le> uchar a \<Longrightarrow> uchar a < k + m \<Longrightarrow> \<exists>p. uchar a = k + p \<and> p < m" for k m :: nat
  by (metis add_less_cancel_left le_Suc_ex)

lemma continuation_digit: "continuation b \<Longrightarrow> \<exists>q. uchar b = 0x80 + q \<and> q < 64"
  using lead_digit [of "0x80" b 64] by (simp add: continuation_def)

lemma char_of_eqI: "uchar a = n \<Longrightarrow> char_of n = a"
  by auto

lemma base64_digits: "q < 64 \<Longrightarrow> (p * 64 + q) div 64 = p \<and> (p * 64 + q) mod 64 = q" for p q :: nat
  by simp

lemma utf8_bytes_two:
  "p < 32 \<Longrightarrow> 2 \<le> p \<Longrightarrow> q < 64 \<Longrightarrow> utf8_bytes (p * 64 + q) = [0xC0 + p, 0x80 + q]"
  by (simp add: utf8_bytes_def)

lemma utf8_bytes_three:
  assumes "p < 16" "q < 64" "r < 64" "p = 0 \<longrightarrow> 32 \<le> q"
  shows "utf8_bytes (p * 4096 + (q * 64 + r)) = [0xE0 + p, 0x80 + q, 0x80 + r]"
proof -
  have eq: "p * 4096 + (q * 64 + r) = (p * 64 + q) * 64 + r"
    by simp
  have "(p * 64 + q) * 64 + r < 0x10000" "0x800 \<le> (p * 64 + q) * 64 + r"
    using assms by (cases "p = 0"; simp)+
  moreover have "((p * 64 + q) * 64 + r) div 4096 = p"
    using div_mult2_eq [of "(p * 64 + q) * 64 + r" 64 64] assms by simp
  ultimately show ?thesis
    unfolding eq utf8_bytes_def using base64_digits [of r "p * 64 + q"] base64_digits [of q p] assms
    by simp
qed

lemma utf8_bytes_four:
  assumes "p < 5" "q < 64" "r < 64" "t < 64" "p = 0 \<longrightarrow> 16 \<le> q"
  shows "utf8_bytes (p * 262144 + (q * 4096 + (r * 64 + t))) =
    [0xF0 + p, 0x80 + q, 0x80 + r, 0x80 + t]"
proof -
  let ?m = "(p * 64 + q) * 64 + r"
  have eq: "p * 262144 + (q * 4096 + (r * 64 + t)) = ?m * 64 + t"
    by simp
  have "0x10000 \<le> ?m * 64 + t"
    using assms by (cases "p = 0"; simp)
  moreover have d: "(?m * 64 + t) div 4096 = p * 64 + q"
    using div_mult2_eq [of "?m * 64 + t" 64 64] assms by simp
  moreover have "(?m * 64 + t) div 262144 = p"
    using div_mult2_eq [of "?m * 64 + t" 4096 64] d assms by simp
  ultimately show ?thesis
    unfolding eq utf8_bytes_def using base64_digits [of t ?m] base64_digits [of r "p * 64 + q"]
      base64_digits [of q p] assms by simp
qed

lemma decode_sound:
  assumes "decode_utf8_code_point s 0 = Value d"
  shows "scalar_value (unat (dcp_value d)) \<and> dcp_length d = length (utf8_enc (unat (dcp_value d)))
    \<and> s = utf8_enc (unat (dcp_value d)) @ drop (dcp_length d) s"
  using assms
proof (cases rule: decode_cases)
  case (one a rest)
  then show ?thesis
    by (simp add: mk_decoded_def scalar_value_def utf8_enc_def utf8_bytes_def)
next
  case (two a b rest)
  obtain p q where d: "uchar a = 0xC0 + p" "p < 32" "uchar b = 0x80 + q" "q < 64"
    using lead_digit [of "0xC0" a 32] continuation_digit [of b] two by auto
  then have "unat (join2 a b) = p * 64 + q" "2 \<le> p"
    using two by (simp_all add: unat_join2 lead_mods)
  with d two show ?thesis
    by (simp add: mk_decoded_def scalar_value_def utf8_enc_def utf8_bytes_two char_of_eqI)
next
  case (three a b c rest)
  obtain p q r where d: "uchar a = 0xE0 + p" "p < 16" "uchar b = 0x80 + q" "q < 64"
      "uchar c = 0x80 + r" "r < 64"
    using lead_digit [of "0xE0" a 16] continuation_digit [of b] continuation_digit [of c] three
    by auto
  then have v: "unat (join3 a b c) = p * 4096 + (q * 64 + r)"
    by (simp add: unat_join3 lead_mods)
  have "p = 0 \<longrightarrow> 32 \<le> q" and sur: "p = 13 \<longrightarrow> q < 32"
    using d three by auto
  moreover have "scalar_value (p * 4096 + (q * 64 + r))"
    using d sur by (cases "p = 13"; cases "p < 13") (auto simp: scalar_value_def)
  ultimately show ?thesis
    using d three v by (simp add: mk_decoded_def utf8_enc_def utf8_bytes_three char_of_eqI)
next
  case (four a b c e rest)
  obtain p q r t where d: "uchar a = 0xF0 + p" "p < 5" "uchar b = 0x80 + q" "q < 64"
      "uchar c = 0x80 + r" "r < 64" "uchar e = 0x80 + t" "t < 64"
    using lead_digit [of "0xF0" a 5] continuation_digit [of b] continuation_digit [of c]
      continuation_digit [of e] four by auto
  then have v: "unat (join4 a b c e) = p * 262144 + (q * 4096 + (r * 64 + t))"
    by (simp add: unat_join4 lead_mods)
  have "p = 0 \<longrightarrow> 16 \<le> q" and "p = 4 \<longrightarrow> q < 16"
    using d four by auto
  moreover from this have "scalar_value (p * 262144 + (q * 4096 + (r * 64 + t)))"
    using d by (cases "p = 4"; cases "p = 0") (auto simp: scalar_value_def)
  ultimately show ?thesis
    using d four v by (simp add: mk_decoded_def utf8_enc_def utf8_bytes_four char_of_eqI)
qed

section \<open>Streams of scalar values\<close>

locale scalar_stream =
  fixes enc :: "nat \<Rightarrow> 'u list"
    and read_one :: "'u list \<Rightarrow> (nat \<times> 'u list) option"
  assumes read_enc: "scalar_value n \<Longrightarrow> read_one (enc n @ rest) = Some (n, rest)"
    and read_sound: "read_one us = Some (n, rest) \<Longrightarrow> scalar_value n \<and> us = enc n @ rest"
    and read_nil: "read_one [] = None"
begin

lemma enc_nonempty: "scalar_value n \<Longrightarrow> enc n \<noteq> []"
  using read_enc [of n "[]"] read_nil by (metis append.right_neutral option.distinct(1))

lemma enc_prefix_free:
  assumes "scalar_value n" "scalar_value m" "enc n @ r = enc m @ r'"
  shows "n = m \<and> r = r'"
proof -
  have "Some (n, r) = Some (m, r')"
    using read_enc [OF assms(1), of r] read_enc [OF assms(2), of r'] assms(3) by metis
  then show ?thesis by simp
qed

lemma unique_decoding:
  "\<lbrakk>list_all scalar_value ns; list_all scalar_value ms;
    concat (map enc ns) = concat (map enc ms)\<rbrakk> \<Longrightarrow> ns = ms"
proof (induction ns arbitrary: ms)
  case Nil
  then show ?case by (cases ms) (auto dest: enc_nonempty)
next
  case (Cons n ns)
  then obtain m ms' where ms: "ms = m # ms'"
    by (cases ms) (auto dest: enc_nonempty)
  with Cons.prems have "n = m \<and> concat (map enc ns) = concat (map enc ms')"
    by (intro enc_prefix_free) auto
  with Cons ms show ?case by simp
qed

end

definition read_utf8 :: "string \<Rightarrow> (nat \<times> string) option" where
  "read_utf8 s =
     (case decode_utf8_code_point s 0 of
        Unexpected _ \<Rightarrow> None
      | Value d \<Rightarrow> Some (unat (dcp_value d), drop (dcp_length d) s))"

definition read_utf16_nat :: "u16 list \<Rightarrow> (nat \<times> u16 list) option" where
  "read_utf16_nat us =
     (case read_utf16 us of Unexpected _ \<Rightarrow> None | Value (v, rest) \<Rightarrow> Some (unat v, rest))"

lemma scalar_value_32: "scalar_value n \<Longrightarrow> unat (of_nat n :: u32) = n"
  by (simp add: scalar_value_def unat_of_nat take_bit_nat_eq_self)

interpretation utf8: scalar_stream utf8_enc read_utf8
proof unfold_locales
  show "read_utf8 (utf8_enc n @ rest) = Some (n, rest)" if "scalar_value n" for n rest
    using that by (simp add: read_utf8_def decode_enc mk_decoded_def scalar_value_32)
  show "scalar_value n \<and> s = utf8_enc n @ rest" if "read_utf8 s = Some (n, rest)" for s n rest
    using that decode_sound [of s] by (auto simp: read_utf8_def split: result.splits)
  show "read_utf8 [] = None"
    by (simp add: read_utf8_def decode_utf8_code_point_def fail_def)
qed

lemma unat_16_less: "unat (u :: u16) < 0x10000"
  using unsigned_less [of u] by simp

lemma unat_ucast_16 [simp]: "unat (ucast (u :: u16) :: u32) = unat u"
  using unat_16_less [of u] by (simp add: unsigned_ucast_eq take_bit_nat_eq_self)

lemma ucast_of_nat: "(ucast (v :: u32) :: u16) = of_nat (unat v)"
  by simp

lemma high_bound: "scalar_value n \<Longrightarrow> (n - 0x10000) div 1024 < 1024"
  by (auto simp: scalar_value_def intro!: less_mult_imp_div_less)

lemma push_utf16_enc:
  assumes "scalar_value (unat v)"
  shows "push_utf16 v = utf16_enc (unat v)"
proof (cases "unat v < 0x10000")
  case True
  then show ?thesis
    by (simp add: push_utf16_def utf16_enc_def utf16_units_def word_order_nat)
next
  case False
  let ?w = "v - 0x10000"
  have w: "unat ?w = unat v - 0x10000"
    using False by (simp add: unat_sub word_le_nat_alt)
  have "unat ?w div 1024 < 1024"
    using w high_bound [OF assms] by simp
  then have hi: "unat (0xD800 + drop_bit 10 ?w) = 0xD800 + unat ?w div 1024"
    by (simp add: unat_add_small unat_drop_bit)
  have lo: "unat (0xDC00 + (?w AND 0x3FF)) = 0xDC00 + unat ?w mod 1024"
    using mod_less_divisor [of 1024 "unat ?w"] by (subst unat_add_small) (simp_all add: unat_and_low)
  have "\<not> v \<le> 0xFFFF"
    using False by (simp add: word_le_nat_alt)
  moreover have "ucast (0xD800 + drop_bit 10 ?w) = (of_nat (0xD800 + unat ?w div 1024) :: u16)"
    and "ucast (0xDC00 + (?w AND 0x3FF)) = (of_nat (0xDC00 + unat ?w mod 1024) :: u16)"
    by (simp_all only: hi [symmetric] lo [symmetric] ucast_of_nat)
  ultimately show ?thesis
    using False w
    by (simp add: push_utf16_def Let_def utf16_enc_def utf16_units_def del: of_nat_add)
qed

lemma unat_surrogates:
  fixes first second :: u32
  assumes "0xD800 \<le> unat first" "unat first < 0xDC00" "0xDC00 \<le> unat second" "unat second < 0xE000"
  shows "unat (0x10000 + push_bit 10 (first - 0xD800) + (second - 0xDC00)) =
    0x10000 + (unat first - 0xD800) * 1024 + (unat second - 0xDC00)"
proof -
  have f: "unat (first - 0xD800) = unat first - 0xD800"
    and s: "unat (second - 0xDC00) = unat second - 0xDC00"
    using assms by (simp_all add: unat_sub word_le_nat_alt)
  have p: "unat (push_bit 10 (first - 0xD800)) = (unat first - 0xD800) * 1024"
    using f assms by (subst unat_push_bit_small) simp_all
  have "unat (0x10000 + push_bit 10 (first - 0xD800)) = 0x10000 + (unat first - 0xD800) * 1024"
    using p assms by (subst unat_add_small) simp_all
  then show ?thesis
    using s assms by (subst unat_add_small) simp_all
qed

lemma read_utf16_enc:
  assumes "scalar_value n"
  shows "read_utf16 (utf16_enc n @ rest) = Value (of_nat n, rest)"
proof (cases "n < 0x10000")
  case True
  then have "unat (of_nat n :: u16) = n"
    by (simp add: unat_of_nat take_bit_nat_eq_self)
  then have "unat (ucast (of_nat n :: u16) :: u32) = n" by simp
  moreover from this have "(ucast (of_nat n :: u16) :: u32) = of_nat n"
    by (rule unat_eq_of_nat)
  ultimately show ?thesis
    using assms True
    by (auto simp: read_utf16_def utf16_enc_def utf16_units_def Let_def word_order_nat scalar_value_def)
next
  case False
  define hi lo where "hi = 0xD800 + (n - 0x10000) div 1024" and "lo = 0xDC00 + (n - 0x10000) mod 1024"
  define h l where "h = (of_nat hi :: u16)" and "l = (of_nat lo :: u16)"
  have "hi < 0xDC00" "lo < 0xE000"
    using high_bound [OF assms] mod_less_divisor [of 1024 "n - 0x10000"]
    by (simp_all add: hi_def lo_def)
  then have hl: "unat (ucast h :: u32) = hi" "unat (ucast l :: u32) = lo"
    by (simp_all add: h_def l_def unat_of_nat take_bit_nat_eq_self)
  have "unat (0x10000 + push_bit 10 (ucast h - 0xD800 :: u32) + (ucast l - 0xDC00)) = n"
    using hl \<open>hi < 0xDC00\<close> \<open>lo < 0xE000\<close> False
    by (subst unat_surrogates) (simp_all add: hi_def lo_def)
  then have "0x10000 + push_bit 10 (ucast h - 0xD800 :: u32) + (ucast l - 0xDC00) = of_nat n"
    by (rule unat_eq_of_nat)
  moreover have "utf16_enc n = [h, l]"
    using False by (simp add: utf16_enc_def utf16_units_def h_def l_def hi_def lo_def)
  moreover have "0xD800 \<le> hi" "0xDC00 \<le> lo"
    by (simp_all add: hi_def lo_def)
  ultimately show ?thesis
    using hl \<open>hi < 0xDC00\<close> \<open>lo < 0xE000\<close>
    by (simp add: read_utf16_def Let_def word_order_nat)
qed

lemma read_utf16_sound:
  assumes "read_utf16 us = Value (v, rest)"
  shows "scalar_value (unat v) \<and> us = utf16_enc (unat v) @ rest"
proof -
  obtain u us1 where us: "us = u # us1"
    using assms by (cases us) (auto simp: read_utf16_def)
  show ?thesis
  proof (cases "0xD800 \<le> unat u \<and> unat u \<le> 0xDBFF")
    case True
    with assms us obtain u2 where us1: "us1 = u2 # rest" and lo: "0xDC00 \<le> unat u2" "unat u2 \<le> 0xDFFF"
      and v: "v = 0x10000 + push_bit 10 (ucast u - 0xD800) + (ucast u2 - 0xDC00)"
      by (auto simp: read_utf16_def Let_def word_order_nat split: list.splits if_splits)
    have n: "unat v = 0x10000 + (unat u - 0xD800) * 1024 + (unat u2 - 0xDC00)"
      unfolding v using True lo by (subst unat_surrogates) simp_all
    then have "unat v - 0x10000 = (unat u - 0xD800) * 1024 + (unat u2 - 0xDC00)"
      by simp
    then have "(unat v - 0x10000) div 1024 = unat u - 0xD800"
      "(unat v - 0x10000) mod 1024 = unat u2 - 0xDC00"
      using lo by (simp_all only: div_mult_self3 mod_mult_self3) simp_all
    moreover have "0x10000 \<le> unat v" "unat v < 0x110000"
      using n True lo by linarith+
    ultimately show ?thesis
      using us us1 True lo by (simp add: scalar_value_def utf16_enc_def utf16_units_def)
  next
    case False
    with assms us have "v = ucast u" "rest = us1" "\<not> (0xDC00 \<le> unat u \<and> unat u \<le> 0xDFFF)"
      by (auto simp: read_utf16_def Let_def word_order_nat split: if_splits)
    then show ?thesis
      using us False unat_16_less [of u] by (auto simp: scalar_value_def utf16_enc_def utf16_units_def)
  qed
qed

interpretation utf16: scalar_stream utf16_enc read_utf16_nat
proof unfold_locales
  show "read_utf16_nat (utf16_enc n @ rest) = Some (n, rest)" if "scalar_value n" for n rest
    using that by (simp add: read_utf16_nat_def read_utf16_enc scalar_value_32)
  show "scalar_value n \<and> us = utf16_enc n @ rest" if "read_utf16_nat us = Some (n, rest)" for us n rest
    using that read_utf16_sound [of us] by (auto simp: read_utf16_nat_def split: result.splits)
  show "read_utf16_nat [] = None"
    by (simp add: read_utf16_nat_def read_utf16_def fail_def)
qed

section \<open>The loops\<close>

lemma decode_shift:
  "decode_utf8_code_point (drop off input) k = decode_utf8_code_point input (off + k)"
  by (metis decode_drop drop_drop add.commute)

lemma less_drop_iff: "k < length (drop off xs) \<longleftrightarrow> off + k < length xs"
  by auto

lemma valid_from_shift: "valid_from (drop off input) k = valid_from input (off + k)"
proof (induction "drop off input" k rule: valid_from.induct)
  case (1 k)
  then show ?case
    by (subst (1 2) valid_from.simps)
       (simp add: decode_shift less_drop_iff add.assoc del: length_drop split: result.split)
qed

lemma is_valid_utf8_unfold:
  "is_valid_utf8 s \<longleftrightarrow> s = [] \<or>
     (\<exists>d. decode_utf8_code_point s 0 = Value d \<and> is_valid_utf8 (drop (dcp_length d) s))"
  unfolding is_valid_utf8_def
  by (subst valid_from.simps) (auto simp: valid_from_shift split: result.splits)

lemma is_valid_utf8_Nil [simp]: "is_valid_utf8 []"
  using is_valid_utf8_unfold [of "[]"] by simp

lemma is_valid_utf8_enc:
  "scalar_value n \<Longrightarrow> is_valid_utf8 (utf8_enc n @ s) = is_valid_utf8 s"
  by (subst is_valid_utf8_unfold) (auto simp: decode_enc mk_decoded_def dest: utf8.enc_nonempty)

lemma is_valid_utf8_concat: "list_all scalar_value ns \<Longrightarrow> is_valid_utf8 (concat (map utf8_enc ns))"
  by (induction ns) (simp_all add: is_valid_utf8_enc)

lemma is_valid_utf8_scalars:
  "is_valid_utf8 s \<Longrightarrow> \<exists>ns. list_all scalar_value ns \<and> s = concat (map utf8_enc ns)"
proof (induction s rule: length_induct)
  case (1 s)
  show ?case
  proof (cases "s = []")
    case True
    then show ?thesis by (intro exI [of _ "[]"]) simp
  next
    case False
    with "1.prems" obtain d where d: "decode_utf8_code_point s 0 = Value d"
      and v: "is_valid_utf8 (drop (dcp_length d) s)"
      by (metis is_valid_utf8_unfold)
    have "length (drop (dcp_length d) s) < length s"
      using False decode_length_pos [OF d] by simp
    with v "1.IH" obtain ns where ns: "list_all scalar_value ns" "drop (dcp_length d) s = concat (map utf8_enc ns)"
      by blast
    from decode_sound [OF d] have "scalar_value (unat (dcp_value d))"
      and "s = utf8_enc (unat (dcp_value d)) @ drop (dcp_length d) s" by blast+
    then show ?thesis
      unfolding ns(2) using ns(1) by (intro exI [of _ "unat (dcp_value d) # ns"]) simp
  qed
qed

lemma utf8_to_utf16_from_shift:
  "utf8_to_utf16_from (drop off input) k out = utf8_to_utf16_from input (off + k) out"
proof (induction "drop off input" k out rule: utf8_to_utf16_from.induct)
  case (1 k out)
  then show ?case
    by (subst (1 2) utf8_to_utf16_from.simps)
       (simp add: decode_shift less_drop_iff add.assoc del: length_drop split: result.split)
qed

lemma utf8_to_utf16_from_unfold:
  "utf8_to_utf16_from s 0 out =
     (if s = [] then Value out
      else and_then (decode_utf8_code_point s 0)
        (\<lambda>d. utf8_to_utf16_from (drop (dcp_length d) s) 0 (out @ push_utf16 (dcp_value d))))"
  by (subst utf8_to_utf16_from.simps) (simp add: utf8_to_utf16_from_shift split: result.split)

lemma utf8_to_utf16_from_concat:
  "list_all scalar_value ns \<Longrightarrow>
     utf8_to_utf16_from (concat (map utf8_enc ns)) 0 out = Value (out @ concat (map utf16_enc ns))"
proof (induction ns arbitrary: out)
  case Nil
  then show ?case by (simp add: utf8_to_utf16_from_unfold)
next
  case (Cons n ns)
  then show ?case
    by (subst utf8_to_utf16_from_unfold)
       (auto simp: decode_enc mk_decoded_def push_utf16_enc scalar_value_32 dest: utf8.enc_nonempty)
qed

lemma utf8_to_utf16_from_invalid:
  "\<not> is_valid_utf8 s \<Longrightarrow> utf8_to_utf16_from s 0 out = fail errc.invalid_encoding"
proof (induction s arbitrary: out rule: length_induct)
  case (1 s)
  then have "s \<noteq> []" by auto
  show ?case
  proof (cases "decode_utf8_code_point s 0")
    case (Value d)
    with "1.prems" \<open>s \<noteq> []\<close> have "\<not> is_valid_utf8 (drop (dcp_length d) s)"
      by (metis is_valid_utf8_unfold)
    moreover have "length (drop (dcp_length d) s) < length s"
      using \<open>s \<noteq> []\<close> decode_length_pos [OF Value] by simp
    ultimately show ?thesis
      using "1.IH" \<open>s \<noteq> []\<close> Value by (simp add: utf8_to_utf16_from_unfold [of s])
  next
    case (Unexpected c)
    then have "fail errc.invalid_encoding = (Unexpected c :: decoded_code_point result)"
      by (auto simp: decode_utf8_code_point_def Let_def split: if_splits)
    then have "make_error_code errc.invalid_encoding = c" by (simp add: fail_def)
    then show ?thesis
      using \<open>s \<noteq> []\<close> Unexpected by (simp add: utf8_to_utf16_from_unfold [of s] fail_def)
  qed
qed

lemma utf16_to_utf8_from_concat:
  "list_all scalar_value ns \<Longrightarrow>
     utf16_to_utf8_from (concat (map utf16_enc ns)) out = Value (out @ concat (map utf8_enc ns))"
proof (induction ns arbitrary: out)
  case Nil
  then show ?case by (simp add: utf16_to_utf8_from.simps)
next
  case (Cons n ns)
  then have "unat (of_nat n :: u32) = n" "n < 0x110000"
    by (auto simp: scalar_value_32 scalar_value_def)
  with Cons show ?case
    by (subst utf16_to_utf8_from.simps)
       (auto simp: read_utf16_enc append_utf8_enc dest: utf16.enc_nonempty)
qed

lemma utf16_to_utf8_from_scalars:
  "utf16_to_utf8_from us out = Value s \<Longrightarrow>
     \<exists>ns. list_all scalar_value ns \<and> us = concat (map utf16_enc ns) \<and> s = out @ concat (map utf8_enc ns)"
proof (induction us out rule: utf16_to_utf8_from.induct)
  case (1 us out)
  show ?case
  proof (cases "us = []")
    case True
    with "1.prems" show ?thesis
      by (intro exI [of _ "[]"]) (simp add: utf16_to_utf8_from.simps)
  next
    case False
    with "1.prems" obtain v rest where v: "read_utf16 us = Value (v, rest)"
      and r: "utf16_to_utf8_from rest (append_utf8 out v) = Value s"
      by (subst (asm) utf16_to_utf8_from.simps) (auto split: result.splits)
    with "1.IH" False obtain ns where ns: "list_all scalar_value ns" "rest = concat (map utf16_enc ns)"
      "s = append_utf8 out v @ concat (map utf8_enc ns)" by blast
    have "scalar_value (unat v)" "us = utf16_enc (unat v) @ rest"
      using read_utf16_sound [OF v] by auto
    moreover from this have "append_utf8 out v = out @ utf8_enc (unat v)"
      by (intro append_utf8_enc) (simp add: scalar_value_def)
    ultimately show ?thesis
      using ns by (intro exI [of _ "unat v # ns"]) simp
  qed
qed

section \<open>Properties\<close>

text \<open>
  C1. \<open>is_valid_utf8\<close> accepts a byte string exactly when it is a concatenation of the UTF-8
  encodings of Unicode scalar values: overlong forms, encoded surrogates, values beyond
  U+10FFFF, stray continuation bytes and truncated sequences are all refused, and nothing else.
\<close>

theorem is_valid_utf8_iff:
  "is_valid_utf8 s \<longleftrightarrow> (\<exists>ns. list_all scalar_value ns \<and> s = concat (map utf8_enc ns))"
  using is_valid_utf8_concat is_valid_utf8_scalars by blast

text \<open>
  C2. The two conversions are inverse to each other on everything they accept: converting a
  string to UTF-16 yields \<open>u\<close> exactly when converting \<open>u\<close> back yields that string. In
  particular no two strings share a conversion and surrogate pairs are reassembled exactly.
\<close>

theorem utf8_utf16_inverse: "utf8_to_utf16 s = Value u \<longleftrightarrow> utf16_to_utf8 u = Value s"
proof
  assume a: "utf8_to_utf16 s = Value u"
  then have "is_valid_utf8 s"
    by (metis fail_ne_Value(1) utf8_to_utf16_def utf8_to_utf16_from_invalid)
  then obtain ns where "list_all scalar_value ns" "s = concat (map utf8_enc ns)"
    using is_valid_utf8_scalars by blast
  with a show "utf16_to_utf8 u = Value s"
    using utf8_to_utf16_from_concat [of ns "[]"] utf16_to_utf8_from_concat [of ns "[]"]
    by (simp add: utf8_to_utf16_def utf16_to_utf8_def)
next
  assume "utf16_to_utf8 u = Value s"
  then obtain ns where "list_all scalar_value ns" "u = concat (map utf16_enc ns)"
      "s = concat (map utf8_enc ns)"
    using utf16_to_utf8_from_scalars [of u "[]" s] by (auto simp: utf16_to_utf8_def)
  then show "utf8_to_utf16 s = Value u"
    using utf8_to_utf16_from_concat [of ns "[]"] by (simp add: utf8_to_utf16_def)
qed

text \<open>
  The decoder is exact at every offset: it yields a value precisely when the input continues
  with the encoding of a scalar value, and then the value is that scalar and the length is the
  number of bytes of its (shortest) encoding.
\<close>

theorem decode_utf8_code_point_exact:
  "decode_utf8_code_point input offset = Value d \<longleftrightarrow>
     (\<exists>n rest. scalar_value n \<and> drop offset input = utf8_enc n @ rest
        \<and> d = mk_decoded (of_nat n) (length (utf8_enc n)))"
proof
  assume "decode_utf8_code_point input offset = Value d"
  then have "decode_utf8_code_point (drop offset input) 0 = Value d"
    by (simp flip: decode_drop)
  from decode_sound [OF this] show "\<exists>n rest. scalar_value n \<and> drop offset input = utf8_enc n @ rest
        \<and> d = mk_decoded (of_nat n) (length (utf8_enc n))"
    by (intro exI [of _ "unat (dcp_value d)"] exI [of _ "drop (dcp_length d) (drop offset input)"])
       (auto simp: mk_decoded_def)
next
  assume "\<exists>n rest. scalar_value n \<and> drop offset input = utf8_enc n @ rest
        \<and> d = mk_decoded (of_nat n) (length (utf8_enc n))"
  then show "decode_utf8_code_point input offset = Value d"
    by (subst decode_drop) (auto simp: decode_enc)
qed

text \<open>
  UTF-8 to UTF-16 conversion fails on exactly the strings that are not valid UTF-8, and
  always with \<open>errc::invalid_encoding\<close>: it never produces text from malformed bytes.
\<close>

theorem utf8_to_utf16_fails_iff:
  "utf8_to_utf16 s = fail errc.invalid_encoding \<longleftrightarrow> \<not> is_valid_utf8 s"
  using is_valid_utf8_scalars [of s] utf8_to_utf16_from_concat [of _ "[]"]
    utf8_to_utf16_from_invalid [of s "[]"]
  by (auto simp: utf8_to_utf16_def)

end
