(* ===== verification/Text_Scan.thy ===== *)
theory Text_Scan
  imports Foundation
begin

text \<open>
  What the parsers use of \<open>std::string_view\<close>, and the two loops that recur in them: walking a
  text line by line, and accumulating a decimal number behind an overflow guard. The guard is an
  interface (\<open>digit_guard\<close>): whichever way the code writes the test, a parser that uses it
  computes the decimal value exactly or refuses it.
\<close>

section \<open>String views\<close>

abbreviation nul :: char where "nul \<equiv> CHR 0x00"
abbreviation tab :: char where "tab \<equiv> CHR 0x09"
abbreviation newline :: char where "newline \<equiv> CHR 0x0A"
abbreviation carriage_return :: char where "carriage_return \<equiv> CHR 0x0D"
abbreviation backslash :: char where "backslash \<equiv> CHR 0x5C"

text \<open>\<open>s.find(c, from)\<close>, with \<open>npos\<close> as \<^const>\<open>None\<close>.\<close>

definition find_from :: "char \<Rightarrow> string \<Rightarrow> nat \<Rightarrow> nat option" where
  "find_from c s from =
     (let n = from + length (takeWhile (\<lambda>x. x \<noteq> c) (drop from s))
      in if n < length s then Some n else None)"

text \<open>\<open>s.rfind(c)\<close>.\<close>

definition rfind_char :: "char \<Rightarrow> string \<Rightarrow> nat option" where
  "rfind_char c s =
     (let n = length (takeWhile (\<lambda>x. x \<noteq> c) (rev s))
      in if n < length s then Some (length s - 1 - n) else None)"

text \<open>\<open>s.substr(pos, n)\<close> for \<open>pos <= s.size()\<close>.\<close>

definition substr :: "string \<Rightarrow> nat \<Rightarrow> nat \<Rightarrow> string" where
  "substr s pos n = take n (drop pos s)"

text \<open>\<open>s.find(text, from)\<close>, \<open>s.rfind(text, 0) == 0\<close> and \<open>s.find(text) != npos\<close>.\<close>

definition find_text :: "string \<Rightarrow> string \<Rightarrow> nat \<Rightarrow> nat option" where
  "find_text part s from =
     find (\<lambda>i. take (length part) (drop i s) = part) [from..<Suc (length s) - length part]"

definition has_prefix :: "string \<Rightarrow> string \<Rightarrow> bool" where
  "has_prefix p s \<longleftrightarrow> take (length p) s = p"

definition text_contains :: "string \<Rightarrow> string \<Rightarrow> bool" where
  "text_contains part s \<longleftrightarrow> find_text part s 0 \<noteq> None"

text \<open>
  Removing characters from the back and from the front while a predicate holds
  (\<open>remove_suffix\<close>, \<open>remove_prefix\<close>, \<open>pop_back\<close> loops).
\<close>

definition trim_back :: "(char \<Rightarrow> bool) \<Rightarrow> string \<Rightarrow> string" where
  "trim_back p s = rev (dropWhile p (rev s))"

definition trim_both :: "(char \<Rightarrow> bool) \<Rightarrow> string \<Rightarrow> string" where
  "trim_both p s = dropWhile p (trim_back p s)"

text \<open>
  The piece loop: \<open>while (offset < text.size()) { end = text.find(sep, offset); piece = ...;
  offset = end == npos ? text.size() : end + 1; ... }\<close>. The pieces it visits, in order; with
  the newline as separator these are the lines of a text.
\<close>

function pieces_of :: "char \<Rightarrow> string \<Rightarrow> string list" where
  "pieces_of sep s =
     (if s = [] then []
      else let piece = takeWhile (\<lambda>c. c \<noteq> sep) s
           in piece # pieces_of sep (drop (length piece + 1) s))"
  by pat_completeness auto
termination
  by (relation "measure (\<lambda>(sep, s). length s)") auto

declare pieces_of.simps [simp del]

abbreviation lines_of :: "string \<Rightarrow> string list" where
  "lines_of s \<equiv> pieces_of newline s"

text \<open>
  The token loop: skip separators, then take a maximal run of other characters, until the text
  is used up.
\<close>

function tokens_of :: "(char \<Rightarrow> bool) \<Rightarrow> string \<Rightarrow> string list" where
  "tokens_of sep s =
     (let t = dropWhile sep s
      in if t = [] then []
         else takeWhile (\<lambda>c. \<not> sep c) t # tokens_of sep (dropWhile (\<lambda>c. \<not> sep c) t))"
  by pat_completeness auto
termination
proof (relation "measure (\<lambda>(sep, s). length s)", goal_cases)
  case (2 sep s t)
  then obtain a l where t: "dropWhile sep s = a # l"
    by (cases "dropWhile sep s") auto
  then have "\<not> sep a"
    using hd_dropWhile [of sep s] by simp
  then have "length (dropWhile (\<lambda>c. \<not> sep c) (a # l)) \<le> length l"
    by (simp add: length_dropWhile_le)
  moreover have "Suc (length l) \<le> length s"
    using length_dropWhile_le [of sep s] t by simp
  ultimately show ?case
    using 2 t by simp
qed simp

declare tokens_of.simps [simp del]

section \<open>Decimal numbers\<close>

definition is_digit :: "char \<Rightarrow> bool" where
  "is_digit c \<longleftrightarrow> 48 \<le> uchar c \<and> uchar c \<le> 57"

text \<open>\<open>static_cast<std::uint64_t>(c - '0')\<close> of a digit.\<close>

definition digit_u64 :: "char \<Rightarrow> u64" where
  "digit_u64 c = of_nat (uchar c - 48)"

text \<open>
  The loop \<open>for (char c : text) { if (not a digit) fail; if (overflow) fail;
  value = value * 10 + digit; }\<close>, for the parsers that report both failures alike.
\<close>

fun accumulate :: "(u64 \<Rightarrow> u64 \<Rightarrow> bool) \<Rightarrow> u64 \<Rightarrow> string \<Rightarrow> u64 option" where
  "accumulate overflows v [] = Some v"
| "accumulate overflows v (c # cs) =
     (if \<not> is_digit c then None
      else if overflows v (digit_u64 c) then None
      else accumulate overflows (v * 10 + digit_u64 c) cs)"

text \<open>The number a digit string denotes, and the digits of a number.\<close>

definition dec_from :: "nat \<Rightarrow> string \<Rightarrow> nat" where
  "dec_from v s = foldl (\<lambda>v c. v * 10 + (uchar c - 48)) v s"

definition dec_value :: "string \<Rightarrow> nat" where
  "dec_value s = dec_from 0 s"

fun dec_string :: "nat \<Rightarrow> string" where
  "dec_string n = (if n < 10 then [char_of (48 + n)] else dec_string (n div 10) @ [char_of (48 + n mod 10)])"

declare dec_string.simps [simp del]

subsection \<open>Facts\<close>

lemma dec_from_simps [simp]:
  "dec_from v [] = v" "dec_from v (c # cs) = dec_from (v * 10 + (uchar c - 48)) cs"
  by (simp_all add: dec_from_def)

lemma dec_from_append: "dec_from v (xs @ ys) = dec_from (dec_from v xs) ys"
  by (simp add: dec_from_def)

lemma dec_from_mono: "v \<le> dec_from v s"
proof (induction s arbitrary: v)
  case (Cons c s)
  have "v \<le> v * 10 + (uchar c - 48)" by simp
  also have "\<dots> \<le> dec_from v (c # s)" using Cons.IH by simp
  finally show ?case .
qed simp

lemma is_digit_char_of: "n < 10 \<Longrightarrow> is_digit (char_of (48 + n))" for n :: nat
  by (simp add: is_digit_def)

lemma dec_string_digits: "list_all is_digit (dec_string n)"
proof (induction n rule: dec_string.induct)
  case (1 n)
  then show ?case
    by (subst dec_string.simps) (simp add: is_digit_char_of)
qed

lemma dec_value_string [simp]: "dec_value (dec_string n) = n"
proof (induction n rule: dec_string.induct)
  case (1 n)
  have "uchar (char_of (48 + n mod 10)) = 48 + n mod 10"
    using mod_less_divisor [of 10 n] by (intro uchar_char_of) linarith
  with 1 show ?case
    by (subst dec_string.simps) (simp add: dec_value_def dec_from_append)
qed

lemma dec_string_nonempty [simp]: "dec_string n \<noteq> []"
  by (subst dec_string.simps) simp

lemma unat_digit_u64: "unat (digit_u64 c) = uchar c - 48"
proof -
  have "uchar c - 48 < 2 ^ 64"
    using uchar_less [of c] by (rule le_less_trans [OF diff_le_self, THEN less_trans]) simp
  then show ?thesis
    by (simp add: digit_u64_def unat_of_nat take_bit_nat_eq_self del: of_nat_diff)
qed

lemma unat_digit_le: "is_digit c \<Longrightarrow> unat (digit_u64 c) \<le> 9"
  unfolding unat_digit_u64 is_digit_def by linarith

section \<open>Facts on searching and splitting\<close>

lemma takeWhile_until: "c \<notin> set ys \<Longrightarrow> takeWhile (\<lambda>x. x \<noteq> c) (ys @ c # zs) = ys"
  by (induction ys) auto

lemma find_from_append:
  "c \<notin> set ys \<Longrightarrow> find_from c (xs @ ys @ c # zs) (length xs) = Some (length xs + length ys)"
  by (simp add: find_from_def Let_def takeWhile_until)

lemma find_from_Some:
  assumes "find_from c s k = Some n" "k \<le> length s"
  obtains ys zs where "s = take k s @ ys @ c # zs" "c \<notin> set ys" "n = k + length ys"
proof -
  let ?ys = "takeWhile (\<lambda>x. x \<noteq> c) (drop k s)" and ?r = "dropWhile (\<lambda>x. x \<noteq> c) (drop k s)"
  from assms have n: "n = k + length ?ys" "n < length s"
    by (auto simp: find_from_def Let_def split: if_splits)
  have split: "drop k s = ?ys @ ?r" by simp
  have "length (drop k s) = length ?ys + length ?r"
    by (metis length_append split)
  then have "0 < length ?r" using n assms(2) by (simp only: length_drop)
  then have "?r \<noteq> []" by blast
  then have "?r = c # tl ?r"
    using hd_dropWhile [of "\<lambda>x. x \<noteq> c" "drop k s"] by (metis list.collapse)
  with split have "drop k s = ?ys @ c # tl ?r" by metis
  then have "s = take k s @ ?ys @ c # tl ?r"
    by (metis append_take_drop_id)
  moreover have "c \<notin> set ?ys"
    using set_takeWhileD by fastforce
  ultimately show ?thesis using that n by blast
qed

lemma pieces_of_Nil [simp]: "pieces_of sep [] = []"
  by (simp add: pieces_of.simps)

lemma pieces_of_append:
  "sep \<notin> set x \<Longrightarrow> pieces_of sep (x @ sep # rest) = x # pieces_of sep rest"
  by (subst pieces_of.simps) (simp add: takeWhile_until Let_def)

lemma pieces_of_last: "sep \<notin> set x \<Longrightarrow> x \<noteq> [] \<Longrightarrow> pieces_of sep x = [x]"
proof -
  assume a: "sep \<notin> set x" "x \<noteq> []"
  then have "takeWhile (\<lambda>c. c \<noteq> sep) x = x" by (auto simp: takeWhile_eq_all_conv)
  moreover have "pieces_of sep x = takeWhile (\<lambda>c. c \<noteq> sep) x #
      pieces_of sep (drop (length (takeWhile (\<lambda>c. c \<noteq> sep) x) + 1) x)"
    using a(2) by (subst pieces_of.simps) (simp add: Let_def)
  ultimately show ?thesis by (simp only:) simp
qed

fun join_with :: "char \<Rightarrow> string list \<Rightarrow> string" where
  "join_with sep [] = []"
| "join_with sep [x] = x"
| "join_with sep (x # y # xs) = x @ sep # join_with sep (y # xs)"

lemma pieces_of_join:
  "list_all (\<lambda>x. x \<noteq> [] \<and> sep \<notin> set x) xs \<Longrightarrow> pieces_of sep (join_with sep xs) = xs"
  by (induction sep xs rule: join_with.induct) (simp_all add: pieces_of_append pieces_of_last)

lemma lines_of_unlines:
  "list_all (\<lambda>l. newline \<notin> set l) ls \<Longrightarrow> lines_of (concat (map (\<lambda>l. l @ [newline]) ls)) = ls"
  by (induction ls) (simp_all add: pieces_of_append)

lemma set_join_with: "set (join_with sep xs) \<subseteq> insert sep (\<Union> (set (map set xs)))"
  by (induction sep xs rule: join_with.induct) auto

lemma trim_back_id: "s = [] \<or> \<not> p (last s) \<Longrightarrow> trim_back p s = s"
  by (cases s rule: rev_cases) (auto simp: trim_back_def)

lemma trim_both_id: "s = [] \<or> (\<not> p (hd s) \<and> \<not> p (last s)) \<Longrightarrow> trim_both p s = s"
  by (cases s) (auto simp: trim_both_def trim_back_id)

lemma tokens_of_Nil [simp]: "tokens_of sep [] = []"
  by (simp add: tokens_of.simps)

lemma tokens_of_sep [simp]: "sep c \<Longrightarrow> tokens_of sep (c # s) = tokens_of sep s"
  by (subst (1 2) tokens_of.simps) simp

lemma tokens_of_word:
  assumes "w \<noteq> []" "list_all (\<lambda>c. \<not> sep c) w" "s = [] \<or> sep (hd s)"
  shows "tokens_of sep (w @ s) = w # tokens_of sep s"
proof -
  obtain a v where w: "w = a # v" "\<not> sep a" using assms by (cases w) auto
  have "takeWhile (\<lambda>c. \<not> sep c) (w @ s) = w" "dropWhile (\<lambda>c. \<not> sep c) (w @ s) = s"
    using assms by (cases s; simp add: takeWhile_append2 dropWhile_append2 list_all_iff)+
  then show ?thesis
    using w by (subst tokens_of.simps) (simp add: Let_def)
qed

lemma tokens_of_props: "w \<in> set (tokens_of sep s) \<Longrightarrow> w \<noteq> [] \<and> list_all (\<lambda>c. \<not> sep c) w"
proof (induction sep s rule: tokens_of.induct)
  case (1 sep s)
  show ?case
  proof (cases "dropWhile sep s")
    case Nil
    with "1.prems" show ?thesis by (simp add: tokens_of.simps [of sep s])
  next
    case (Cons a r)
    then have "\<not> sep a" using hd_dropWhile [of sep s] by simp
    have "w = takeWhile (\<lambda>c. \<not> sep c) (a # r) \<or> w \<in> set (tokens_of sep (dropWhile (\<lambda>c. \<not> sep c) (a # r)))"
      using "1.prems" Cons by (simp add: tokens_of.simps [of sep s] Let_def)
    then show ?thesis
    proof
      assume "w = takeWhile (\<lambda>c. \<not> sep c) (a # r)"
      then show ?thesis
        using \<open>\<not> sep a\<close> by (auto simp: list_all_iff dest: set_takeWhileD)
    next
      assume "w \<in> set (tokens_of sep (dropWhile (\<lambda>c. \<not> sep c) (a # r)))"
      then show ?thesis using "1.IH" Cons by simp
    qed
  qed
qed

lemma digits_free: "list_all is_digit ds \<Longrightarrow> \<not> is_digit c \<Longrightarrow> c \<notin> set ds"
  by (auto simp: list_all_iff)

lemma of_nat_u64: "n < 2 ^ 64 \<Longrightarrow> unat (of_nat n :: u64) = n"
  by (simp add: unat_of_nat take_bit_nat_eq_self)

section \<open>The contract of an overflow guard\<close>

locale digit_guard =
  fixes overflows :: "u64 \<Rightarrow> u64 \<Rightarrow> bool"
  assumes overflows_iff: "unat d \<le> 9 \<Longrightarrow> overflows v d \<longleftrightarrow> 2 ^ 64 \<le> unat v * 10 + unat d"
begin

lemma accumulate_exact:
  "accumulate overflows v s =
     (if list_all is_digit s \<and> dec_from (unat v) s < 2 ^ 64
      then Some (of_nat (dec_from (unat v) s)) else None)"
proof (induction s arbitrary: v)
  case Nil
  have "unat v < 2 ^ 64" using unsigned_less [of v] by simp
  then show ?case by simp
next
  case (Cons c s)
  show ?case
  proof (cases "is_digit c")
    case True
    let ?next = "unat v * 10 + (uchar c - 48)"
    note d = unat_digit_u64 [of c] unat_digit_le [OF True]
    show ?thesis
    proof (cases "2 ^ 64 \<le> ?next")
      case big: True
      then have "overflows v (digit_u64 c)" using overflows_iff d by simp
      moreover have "2 ^ 64 \<le> dec_from (unat v) (c # s)"
        using big dec_from_mono [of ?next s] by simp
      ultimately show ?thesis using True by simp
    next
      case False
      then have "unat (v * 10) = unat v * 10"
        by (subst unat_mult_small) simp_all
      with False d have "unat (v * 10 + digit_u64 c) = ?next"
        by (subst unat_add_small) simp_all
      then show ?thesis
        using True False d overflows_iff Cons.IH by simp
    qed
  next
    case False
    then show ?thesis by simp
  qed
qed

lemma accumulate_Some_iff:
  "accumulate overflows 0 s = Some v \<longleftrightarrow> list_all is_digit s \<and> dec_value s = unat v"
proof -
  have "dec_value s < 2 ^ 64" if "dec_value s = unat v"
    using unsigned_less [of v] that by simp
  moreover have "dec_value s < 2 ^ 64 \<Longrightarrow> of_nat (dec_value s) = v \<longleftrightarrow> dec_value s = unat v"
    by (auto simp: unat_of_nat take_bit_nat_eq_self)
  moreover have "accumulate overflows 0 s =
      (if list_all is_digit s \<and> dec_value s < 2 ^ 64 then Some (of_nat (dec_value s)) else None)"
    by (simp add: accumulate_exact dec_value_def)
  ultimately show ?thesis by auto
qed

lemma accumulate_None_iff:
  "accumulate overflows 0 s = None \<longleftrightarrow> \<not> list_all is_digit s \<or> 2 ^ 64 \<le> dec_value s"
  by (auto simp: accumulate_exact dec_value_def)

lemma accumulate_string: "n < 2 ^ 64 \<Longrightarrow> accumulate overflows 0 (dec_string n) = Some (of_nat n)"
  using dec_value_string [of n] by (simp add: accumulate_exact dec_string_digits dec_value_def)

end

text \<open>\<open>value > (UINT64_MAX - digit) / 10U\<close>.\<close>

definition quotient_guard :: "u64 \<Rightarrow> u64 \<Rightarrow> bool" where
  "quotient_guard v d \<longleftrightarrow> v > (0xFFFFFFFFFFFFFFFF - d) div 10"

interpretation quotient: digit_guard quotient_guard
proof
  fix v d :: u64
  assume d: "unat d \<le> 9"
  have "unat (0xFFFFFFFFFFFFFFFF - d) = 2 ^ 64 - 1 - unat d"
    using d by (subst unat_sub) (simp_all add: word_le_nat_alt)
  then have "quotient_guard v d \<longleftrightarrow> (2 ^ 64 - 1 - unat d) div 10 < unat v"
    by (simp add: quotient_guard_def word_less_nat_alt unat_div)
  also have "\<dots> \<longleftrightarrow> 2 ^ 64 \<le> unat v * 10 + unat d"
    using d by (subst div_less_iff_less_mult) auto
  finally show "quotient_guard v d \<longleftrightarrow> 2 ^ 64 \<le> unat v * 10 + unat d" .
qed


section \<open>\<open>std::from_chars\<close>\<close>

text \<open>
  \<open>std::from_chars(first, last, v)\<close> with an unsigned 64-bit \<open>v\<close>: the longest run of decimal digits
  is converted; no digit and a value out of range are errors. The model returns the value and the
  characters from \<open>ptr\<close> on, or nothing when \<open>ec\<close> is set.
\<close>

definition from_chars_u64 :: "string \<Rightarrow> (u64 \<times> string) option" where
  "from_chars_u64 s =
     (let ds = takeWhile is_digit s in
      if ds = [] then None
      else map_option (\<lambda>v. (v, drop (length ds) s)) (accumulate quotient_guard 0 ds))"

lemma from_chars_u64_iff:
  "from_chars_u64 s = Some (v, rest) \<longleftrightarrow>
     (\<exists>ds. s = ds @ rest \<and> ds \<noteq> [] \<and> list_all is_digit ds \<and> dec_value ds = unat v \<and>
           (rest = [] \<or> \<not> is_digit (hd rest)))"
  (is "_ \<longleftrightarrow> (\<exists>ds. ?P ds)")
proof
  let ?ds = "takeWhile is_digit s"
  assume "from_chars_u64 s = Some (v, rest)"
  then have a: "?ds \<noteq> []" "list_all is_digit ?ds \<and> dec_value ?ds = unat v" "rest = drop (length ?ds) s"
    by (auto simp: from_chars_u64_def Let_def quotient.accumulate_Some_iff split: if_splits)
  have r: "rest = dropWhile is_digit s"
    using a(3) by (simp add: dropWhile_eq_drop)
  then have "rest = [] \<or> \<not> is_digit (hd rest)"
    using hd_dropWhile [of is_digit s] by blast
  then have "?P ?ds" using a(1,2) by (simp add: r)
  then show "\<exists>ds. ?P ds" ..
next
  assume "\<exists>ds. ?P ds"
  then obtain ds where d: "?P ds" ..
  then have t: "takeWhile is_digit s = ds"
    by (cases rest) (auto simp: takeWhile_append2 list_all_iff)
  then show "from_chars_u64 s = Some (v, rest)"
    using d by (simp add: from_chars_u64_def Let_def quotient.accumulate_Some_iff)
qed

lemma from_chars_u64_string:
  "n < 2 ^ 64 \<Longrightarrow> rest = [] \<or> \<not> is_digit (hd rest) \<Longrightarrow>
   from_chars_u64 (dec_string n @ rest) = Some (of_nat n, rest)"
  unfolding from_chars_u64_iff
  by (rule exI [of _ "dec_string n"]) (simp add: dec_string_digits of_nat_u64)

end
