(* ===== verification/Virtualization.thy ===== *)
theory Virtualization
  imports Text_Scan Utf8
begin

text \<open>
  The portable part of the virtualization module: \<open>detail/virtualization/common.hpp\<close> over the
  vocabulary of \<open>virtualization.hpp\<close>. Out-parameters of the C++ functions are passed in with
  their old values and returned with the new ones, so what a failing call has already written is
  visible. Signatures, container and namespace names are classified as the code does; the
  parsers of \<open>/proc/self/cgroup\<close>, \<open>cpu.max\<close>, cgroup limits, namespace links and mountinfo
  escapes are modelled whole.
\<close>

unbundle bit_operations_syntax

section \<open>Vocabulary\<close>

datatype hypervisor_vendor =
    unknown | none | kvm | qemu | vmware | virtualbox | hyper_v | xen | bhyve | parallels
  | apple_hypervisor | acrn | qnx_hypervisor | other

datatype container_runtime =
    unknown | none | docker | podman | lxc | lxd | containerd | kubernetes | systemd_nspawn
  | openvz | wsl | appbox | other

datatype cgroup_version = none | v1 | v2 | hybrid

datatype namespace_type =
    unknown | cgroup | ipc | mount | net | pid | pid_for_children | time | time_for_children
  | user | uts

section \<open>ASCII text\<close>

definition ascii_lower :: "char \<Rightarrow> char" where
  "ascii_lower c = (if 65 \<le> uchar c \<and> uchar c \<le> 90 then char_of (uchar c + 32) else c)"

definition virt_validate_identity_text :: "string result \<Rightarrow> string result" where
  "virt_validate_identity_text r =
     and_then r (\<lambda>s.
       fail_if (s = []) errc.malformed_data
         (fail_if (\<not> is_valid_utf8 s) errc.invalid_encoding (Value s)))"

definition ci_match_at :: "string \<Rightarrow> string \<Rightarrow> nat \<Rightarrow> bool" where
  "ci_match_at text needle i =
     list_all (\<lambda>j. ascii_lower (text ! (i + j)) = ascii_lower (needle ! j)) [0..<length needle]"

definition case_insensitive_contains :: "string \<Rightarrow> string \<Rightarrow> bool" where
  "case_insensitive_contains text needle =
     (if needle = [] then True
      else if length needle > length text then False
      else list_ex (ci_match_at text needle) [0..<length text - length needle + 1])"

definition case_insensitive_equal :: "string \<Rightarrow> string \<Rightarrow> bool" where
  "case_insensitive_equal a b =
     (if length a \<noteq> length b then False
      else list_all (\<lambda>i. ascii_lower (a ! i) = ascii_lower (b ! i)) [0..<length a])"

definition signature_blank :: "char \<Rightarrow> bool" where
  "signature_blank c \<longleftrightarrow>
     c = nul \<or> c = CHR '' '' \<or> c = tab \<or> c = carriage_return \<or> c = newline"

definition trim_signature :: "string \<Rightarrow> string" where
  "trim_signature input = trim_both signature_blank input"

section \<open>Hypervisors and containers\<close>

text \<open>The four bytes of a CPUID register, least significant first.\<close>

definition register_bytes :: "u32 \<Rightarrow> string" where
  "register_bytes r =
     [to_char (r AND 0xFF), to_char (drop_bit 8 r AND 0xFF), to_char (drop_bit 16 r AND 0xFF),
      to_char (drop_bit 24 r AND 0xFF)]"

definition decode_cpuid_signature :: "u32 \<Rightarrow> u32 \<Rightarrow> u32 \<Rightarrow> string" where
  "decode_cpuid_signature ebx ecx edx =
     trim_signature (register_bytes ebx @ register_bytes ecx @ register_bytes edx)"

definition classify_cpuid_signature :: "string \<Rightarrow> hypervisor_vendor" where
  "classify_cpuid_signature sig =
     (let trimmed = trim_signature sig in
      if trimmed = ''KVMKVMKVM'' then hypervisor_vendor.kvm
      else if trimmed = ''TCGTCGTCGTCG'' then hypervisor_vendor.qemu
      else if trimmed = ''VMwareVMware'' then hypervisor_vendor.vmware
      else if trimmed = ''Microsoft Hv'' then hypervisor_vendor.hyper_v
      else if trimmed = ''XenVMMXenVMM'' then hypervisor_vendor.xen
      else if trimmed = ''bhyve bhyve'' then hypervisor_vendor.bhyve
      else if trimmed = ''prl hyperv'' then hypervisor_vendor.parallels
      else if trimmed = ''VBoxVBoxVBox'' then hypervisor_vendor.virtualbox
      else if trimmed = ''ACRNACRNACRN'' then hypervisor_vendor.acrn
      else if trimmed = ''QNXQVMBSYS'' then hypervisor_vendor.qnx_hypervisor
      else if trimmed = ''Apple VMM'' then hypervisor_vendor.apple_hypervisor
      else if trimmed \<noteq> [] then hypervisor_vendor.other
      else hypervisor_vendor.unknown)"

definition classify_dmi_strings :: "string \<Rightarrow> string \<Rightarrow> string \<Rightarrow> hypervisor_vendor" where
  "classify_dmi_strings vendor product bios_vendor =
     (let has = case_insensitive_contains in
      if has vendor ''QEMU'' \<or> has product ''QEMU'' \<or> has bios_vendor ''QEMU'' \<or>
         has product ''Bochs'' \<or> has bios_vendor ''Bochs'' then hypervisor_vendor.qemu
      else if has vendor ''VirtualBox'' \<or> has product ''VirtualBox'' \<or>
         has bios_vendor ''VirtualBox'' \<or> has vendor ''innotek'' then hypervisor_vendor.virtualbox
      else if has vendor ''VMware'' \<or> has product ''VMware'' \<or> has bios_vendor ''VMware''
        then hypervisor_vendor.vmware
      else if has vendor ''KVM'' \<or> has product ''KVM'' \<or> has bios_vendor ''KVM''
        then hypervisor_vendor.kvm
      else if has vendor ''Xen'' \<or> has product ''Xen'' \<or> has bios_vendor ''Xen''
        then hypervisor_vendor.xen
      else if has vendor ''Microsoft'' \<and> has product ''Virtual Machine''
        then hypervisor_vendor.hyper_v
      else if has vendor ''Parallels'' \<or> has product ''Parallels''
        then hypervisor_vendor.parallels
      else if has vendor ''bhyve'' \<or> has product ''bhyve'' then hypervisor_vendor.bhyve
      else if has vendor ''Apple'' \<and> (has product ''Virtual'' \<or> has product ''Apple Virtualization'')
        then hypervisor_vendor.apple_hypervisor
      else if has vendor ''Amazon EC2'' \<or> has vendor ''Google'' \<or>
         has product ''Google Compute Engine'' then hypervisor_vendor.kvm
      else hypervisor_vendor.unknown)"

definition classify_container_name :: "string \<Rightarrow> container_runtime" where
  "classify_container_name name =
     (let trimmed = trim_signature name; eq = case_insensitive_equal trimmed in
      if eq ''docker'' then container_runtime.docker
      else if eq ''podman'' then container_runtime.podman
      else if eq ''lxc'' \<or> eq ''lxc-libvirt'' then container_runtime.lxc
      else if eq ''lxd'' then container_runtime.lxd
      else if eq ''containerd'' then container_runtime.containerd
      else if eq ''kubernetes'' \<or> eq ''k8s'' \<or> eq ''kubepods'' then container_runtime.kubernetes
      else if eq ''systemd-nspawn'' \<or> eq ''nspawn'' then container_runtime.systemd_nspawn
      else if eq ''openvz'' \<or> eq ''vz'' then container_runtime.openvz
      else if eq ''wsl'' then container_runtime.wsl
      else if eq ''appbox'' then container_runtime.appbox
      else if trimmed \<noteq> [] then container_runtime.other
      else container_runtime.unknown)"

definition classify_cgroup_line :: "string \<Rightarrow> container_runtime" where
  "classify_cgroup_line line =
     (let has = case_insensitive_contains line in
      if has ''/docker/'' \<or> has ''/docker-'' \<or> has ''docker.service'' then container_runtime.docker
      else if has ''/libpod-'' \<or> has ''/podman/'' then container_runtime.podman
      else if has ''/kubepods/'' \<or> has ''/kubepods.slice/'' then container_runtime.kubernetes
      else if has ''/lxc/'' \<or> has ''/lxc.payload.'' then container_runtime.lxc
      else if has ''/lxd/'' then container_runtime.lxd
      else if has ''/containerd/'' \<or> has ''containerd.service'' then container_runtime.containerd
      else container_runtime.none)"

section \<open>Namespaces\<close>

definition classify_namespace_name :: "string \<Rightarrow> namespace_type" where
  "classify_namespace_name name =
     (if name = ''cgroup'' then namespace_type.cgroup
      else if name = ''ipc'' then namespace_type.ipc
      else if name = ''mnt'' then namespace_type.mount
      else if name = ''net'' then namespace_type.net
      else if name = ''pid'' then namespace_type.pid
      else if name = ''pid_for_children'' then namespace_type.pid_for_children
      else if name = ''time'' then namespace_type.time
      else if name = ''time_for_children'' then namespace_type.time_for_children
      else if name = ''user'' then namespace_type.user
      else if name = ''uts'' then namespace_type.uts
      else namespace_type.unknown)"

text \<open>\<open>link.find(":[")\<close>.\<close>

fun find_open :: "string \<Rightarrow> nat option" where
  "find_open (a # b # rest) =
     (if a = CHR '':'' \<and> b = CHR ''['' then Some 0 else map_option Suc (find_open (b # rest)))"
| "find_open _ = None"

text \<open>Returns the verdict with the out-parameters \<open>type_name\<close> and \<open>inode\<close> afterwards.\<close>

definition parse_namespace_link :: "string \<Rightarrow> string \<Rightarrow> u64 \<Rightarrow> bool \<times> string \<times> u64" where
  "parse_namespace_link link type_name inode =
     (case find_open link of
        None \<Rightarrow> (False, type_name, inode)
      | Some open_pos \<Rightarrow>
          if open_pos = 0 then (False, type_name, inode)
          else let num_start = open_pos + 2 in
            (case find_from (CHR '']'') link num_start of
               None \<Rightarrow> (False, type_name, inode)
             | Some close_pos \<Rightarrow>
                 if close_pos = num_start \<or> close_pos + 1 \<noteq> length link
                 then (False, type_name, inode)
                 else let type_name' = substr link 0 open_pos;
                          num_str = substr link num_start (close_pos - num_start)
                      in (case accumulate quotient_guard 0 num_str of
                            None \<Rightarrow> (False, type_name', inode)
                          | Some v \<Rightarrow> (True, type_name', v))))"

text \<open>The overload that copies the name into a \<open>std::string\<close>, only on success.\<close>

definition parse_namespace_link_string :: "string \<Rightarrow> string \<Rightarrow> u64 \<Rightarrow> bool \<times> string \<times> u64" where
  "parse_namespace_link_string link type_name inode =
     (case parse_namespace_link link [] inode of
        (ok, view_name, inode') \<Rightarrow> if \<not> ok then (False, type_name, inode') else (True, view_name, inode'))"

section \<open>Cgroup limits\<close>

definition parse_cgroup_limit_value :: "string \<Rightarrow> u64 option result" where
  "parse_cgroup_limit_value text =
     (let trimmed = trim_signature text in
      if trimmed = [] then fail errc.malformed_data
      else if trimmed = ''max'' then Value None
      else if trimmed = ''-1'' then Value None
      else if hd trimmed = CHR ''-'' then fail errc.malformed_data
      else (case accumulate quotient_guard 0 trimmed of
              None \<Rightarrow> fail errc.malformed_data
            | Some v \<Rightarrow> if v \<ge> 0x7FFFFFFFFFFFF000 then Value None else Value (Some v)))"

definition parse_cgroup1_cpu_quota_value :: "string \<Rightarrow> u64 option result" where
  "parse_cgroup1_cpu_quota_value text =
     (let trimmed = trim_signature text in
      if trimmed = ''-1'' then Value None
      else if trimmed = [] \<or> hd trimmed = CHR ''-'' then fail errc.malformed_data
      else (case accumulate quotient_guard 0 trimmed of
              None \<Rightarrow> fail errc.malformed_data
            | Some v \<Rightarrow> if v = 0 \<or> v > 9223372036854775807 then fail errc.malformed_data
                       else Value (Some v)))"

text \<open>
  The continued-fraction comparison. A zero denominator is undefined behaviour in C++ (integer
  division by zero), which is the outcome \<^const>\<open>None\<close>.
\<close>

function ratio_less_loop :: "u64 \<Rightarrow> u64 \<Rightarrow> u64 \<Rightarrow> u64 \<Rightarrow> bool \<Rightarrow> bool option" where
  "ratio_less_loop lhs_numerator lhs_denominator rhs_numerator rhs_denominator inverted =
     (if lhs_denominator = 0 \<or> rhs_denominator = 0 then None
      else let lhs_quotient = lhs_numerator div lhs_denominator;
               rhs_quotient = rhs_numerator div rhs_denominator
        in if lhs_quotient \<noteq> rhs_quotient then
             Some (if inverted then lhs_quotient > rhs_quotient else lhs_quotient < rhs_quotient)
           else let lhs_remainder = lhs_numerator mod lhs_denominator;
                    rhs_remainder = rhs_numerator mod rhs_denominator
             in if lhs_remainder = 0 \<or> rhs_remainder = 0 then
                  (if lhs_remainder = 0 \<and> rhs_remainder = 0 then Some False
                   else let less_before_inversion = (lhs_remainder = 0)
                        in Some (if inverted then \<not> less_before_inversion
                                 else less_before_inversion))
                else ratio_less_loop lhs_denominator lhs_remainder rhs_denominator rhs_remainder
                       (\<not> inverted))"
  by pat_completeness auto
termination
proof (relation "measure (\<lambda>(a, b, c, d, i). unat b)", goal_cases)
  case (2 a b c d i q q' r r')
  then have "0 < unat b" by (simp add: unat_gt_0)
  then show ?case
    using 2 by (simp add: unat_mod)
qed simp

declare ratio_less_loop.simps [simp del]

definition positive_ratio_less :: "u64 \<Rightarrow> u64 \<Rightarrow> u64 \<Rightarrow> u64 \<Rightarrow> bool option" where
  "positive_ratio_less lhs_numerator lhs_denominator rhs_numerator rhs_denominator =
     ratio_less_loop lhs_numerator lhs_denominator rhs_numerator rhs_denominator False"

section \<open>Splitting\<close>

definition is_octal :: "char \<Rightarrow> bool" where
  "is_octal c \<longleftrightarrow> 48 \<le> uchar c \<and> uchar c \<le> 55"

definition octal_u32 :: "char \<Rightarrow> u32" where
  "octal_u32 c = of_nat (uchar c - 48)"

fun unescape_mountinfo_path :: "string \<Rightarrow> string" where
  "unescape_mountinfo_path (x # a # b # c # rest) =
     (if x = backslash \<and> is_octal a \<and> is_octal b \<and> is_octal c
      then to_char (push_bit 6 (octal_u32 a) OR push_bit 3 (octal_u32 b) OR octal_u32 c)
             # unescape_mountinfo_path rest
      else x # unescape_mountinfo_path (a # b # c # rest))"
| "unescape_mountinfo_path (x # xs) = x # unescape_mountinfo_path xs"
| "unescape_mountinfo_path [] = []"

definition token_space :: "char \<Rightarrow> bool" where
  "token_space c \<longleftrightarrow> c = CHR '' '' \<or> c = tab \<or> c = carriage_return \<or> c = newline"

definition split_whitespace :: "string \<Rightarrow> string list" where
  "split_whitespace text = tokens_of token_space text"

definition is_full_identity_uid_map :: "string \<Rightarrow> bool" where
  "is_full_identity_uid_map text =
     (let fields = split_whitespace text in
      length fields = 3 \<and> fields ! 0 = ''0'' \<and> fields ! 1 = ''0'' \<and> fields ! 2 = ''4294967295'')"

definition split_commas :: "string \<Rightarrow> string list" where
  "split_commas text =
     filter (\<lambda>t. t \<noteq> []) (map trim_signature (pieces_of (CHR '','') text))"

text \<open>Returns the verdict with \<open>quota_us\<close> and \<open>period_us\<close> afterwards.\<close>

definition parse_cgroup_cpu_max ::
    "string \<Rightarrow> u64 option \<Rightarrow> u64 option \<Rightarrow> unit result \<times> u64 option \<times> u64 option" where
  "parse_cgroup_cpu_max text quota_us period_us =
     (let tokens = split_whitespace text in
      if length tokens \<noteq> 2 then (fail errc.malformed_data, quota_us, period_us)
      else let quota_tok = tokens ! 0; period_tok = tokens ! 1;
               quota = (if quota_tok = ''max'' then Value None
                        else and_then (parse_cgroup_limit_value quota_tok)
                          (\<lambda>q. if q = None \<or> q = Some 0 then fail errc.malformed_data else Value q))
        in (case quota of
              Unexpected c \<Rightarrow> (Unexpected c, quota_us, period_us)
            | Value quota_us' \<Rightarrow>
                if period_tok = [] \<or> period_tok = ''max'' \<or> hd period_tok = CHR ''-''
                then (fail errc.malformed_data, quota_us', period_us)
                else (case accumulate quotient_guard 0 period_tok of
                        None \<Rightarrow> (fail errc.malformed_data, quota_us', period_us)
                      | Some period_val \<Rightarrow>
                          if period_val = 0 then (fail errc.malformed_data, quota_us', period_us)
                          else (Value (), quota_us', Some period_val))))"

section \<open>Cgroup paths\<close>

function strip_slashes :: "string \<Rightarrow> string" where
  "strip_slashes s =
     (if length s > 1 \<and> last s = CHR ''/'' then strip_slashes (butlast s) else s)"
  by pat_completeness auto
termination
  by (relation "measure length") auto

declare strip_slashes.simps [simp del]

definition cgroup_rel_path :: "string \<Rightarrow> string \<Rightarrow> string" where
  "cgroup_rel_path mount_root proc_cgroup_path =
     (if mount_root = ''/'' \<or> mount_root = [] then proc_cgroup_path
      else if proc_cgroup_path = mount_root then []
      else if length proc_cgroup_path > length mount_root \<and>
              take (length mount_root) proc_cgroup_path = mount_root \<and>
              proc_cgroup_path ! length mount_root = CHR ''/''
      then drop (length mount_root) proc_cgroup_path
      else [])"

definition join_path :: "string \<Rightarrow> string \<Rightarrow> string" where
  "join_path mount_point current =
     (let full = (if mount_point = [] \<or> last mount_point \<noteq> CHR ''/''
                  then mount_point @ ''/'' else mount_point)
      in if hd current = CHR ''/'' then full @ tl current else full @ current)"

lemma rfind_char_less: "rfind_char c s = Some n \<Longrightarrow> n < length s"
  by (auto simp: rfind_char_def Let_def split: if_splits)

function ancestors_from :: "string \<Rightarrow> string \<Rightarrow> string list" where
  "ancestors_from mount_point current =
     (if current = [] then []
      else join_path mount_point current #
        (case rfind_char (CHR ''/'') current of
           None \<Rightarrow> []
         | Some last_slash \<Rightarrow>
             if last_slash = 0 then []
             else ancestors_from mount_point (take last_slash current)))"
  by pat_completeness auto
termination
  by (relation "measure (\<lambda>(mount_point, current). length current)") (auto dest: rfind_char_less)

declare ancestors_from.simps [simp del]

definition get_cgroup_ancestor_dirs :: "string \<Rightarrow> string \<Rightarrow> string \<Rightarrow> string list" where
  "get_cgroup_ancestor_dirs mount_point mount_root proc_cgroup_path =
     (let rel = strip_slashes (cgroup_rel_path mount_root proc_cgroup_path);
          current = (if rel = ''/'' then [] else rel)
      in ancestors_from mount_point current @ [mount_point])"

definition controller_separator :: "char \<Rightarrow> bool" where
  "controller_separator c \<longleftrightarrow> token_space c \<or> c = CHR '',''"

definition split_cgroup_controllers :: "string \<Rightarrow> string list" where
  "split_cgroup_controllers text = tokens_of controller_separator text"

definition is_mount_root_prefix :: "string \<Rightarrow> string \<Rightarrow> bool" where
  "is_mount_root_prefix mount_root proc_cgroup_path =
     (if mount_root = [] \<or> mount_root = ''/'' then True
      else if mount_root = proc_cgroup_path then True
      else length proc_cgroup_path > length mount_root \<and>
           take (length mount_root) proc_cgroup_path = mount_root \<and>
           proc_cgroup_path ! length mount_root = CHR ''/'')"

section \<open>The process's cgroup file\<close>

record cgroup_v1_hierarchy =
  h_controllers :: "string list"
  h_path :: string

record parsed_cgroup_info =
  p_version :: cgroup_version
  p_v2_path :: string
  p_v1_hierarchies :: "cgroup_v1_hierarchy list"

record cgroup_scan =
  s_parsed :: parsed_cgroup_info
  s_has_v2 :: bool
  s_has_v1 :: bool

definition empty_cgroup_info :: parsed_cgroup_info where
  "empty_cgroup_info =
     \<lparr>p_version = cgroup_version.none, p_v2_path = [], p_v1_hierarchies = []\<rparr>"

definition line_end :: "char \<Rightarrow> bool" where
  "line_end c \<longleftrightarrow> c = carriage_return \<or> c = newline"

text \<open>The body of the loop after the two colons are found: one hierarchy entry.\<close>

definition cgroup_entry :: "u64 \<Rightarrow> string \<Rightarrow> string \<Rightarrow> cgroup_scan \<Rightarrow> cgroup_scan result" where
  "cgroup_entry hier_id ctrl_names ctrl_path st =
     (if ctrl_path = [] \<or> hd ctrl_path \<noteq> CHR ''/'' then fail errc.malformed_data
      else if hier_id = 0 then
        (if ctrl_names \<noteq> [] then fail errc.malformed_data
         else Value (st\<lparr>s_has_v2 := True,
                s_parsed := (if p_v2_path (s_parsed st) = []
                             then (s_parsed st)\<lparr>p_v2_path := ctrl_path\<rparr> else s_parsed st)\<rparr>))
      else
        (if ctrl_names = [] then fail errc.malformed_data
         else let controllers = split_commas ctrl_names in
           if controllers = [] then fail errc.malformed_data
           else Value (st\<lparr>s_has_v1 := True,
                  s_parsed := (s_parsed st)\<lparr>p_v1_hierarchies := p_v1_hierarchies (s_parsed st) @
                    [\<lparr>h_controllers = controllers, h_path = ctrl_path\<rparr>]\<rparr>\<rparr>)))"

definition cgroup_line :: "string \<Rightarrow> cgroup_scan \<Rightarrow> cgroup_scan result" where
  "cgroup_line raw st =
     (let line = trim_back line_end raw in
      if line = [] then Value st
      else (case find_from (CHR '':'') line 0 of
              None \<Rightarrow> fail errc.malformed_data
            | Some first_colon \<Rightarrow>
                let id_str = substr line 0 first_colon in
                if id_str = [] then fail errc.malformed_data
                else (case accumulate quotient_guard 0 id_str of
                        None \<Rightarrow> fail errc.malformed_data
                      | Some hier_id \<Rightarrow>
                          (case find_from (CHR '':'') line (first_colon + 1) of
                             None \<Rightarrow> fail errc.malformed_data
                           | Some second_colon \<Rightarrow>
                               cgroup_entry hier_id
                                 (substr line (first_colon + 1) (second_colon - first_colon - 1))
                                 (drop (second_colon + 1) line) st))))"

fun cgroup_lines :: "string list \<Rightarrow> cgroup_scan \<Rightarrow> cgroup_scan result" where
  "cgroup_lines [] st = Value st"
| "cgroup_lines (line # lines) st = and_then (cgroup_line line st) (cgroup_lines lines)"

definition scanned_version :: "cgroup_scan \<Rightarrow> cgroup_version" where
  "scanned_version st =
     (if s_has_v2 st \<and> s_has_v1 st then cgroup_version.hybrid
      else if s_has_v2 st then cgroup_version.v2
      else if s_has_v1 st then cgroup_version.v1
      else p_version (s_parsed st))"

definition parse_cgroup_proc_file_detailed :: "string \<Rightarrow> parsed_cgroup_info result" where
  "parse_cgroup_proc_file_detailed content =
     and_then
       (cgroup_lines (lines_of content)
          \<lparr>s_parsed = empty_cgroup_info, s_has_v2 = False, s_has_v1 = False\<rparr>)
       (\<lambda>st. Value ((s_parsed st)\<lparr>p_version := scanned_version st\<rparr>))"

text \<open>The compatibility parser writes the version and the primary path.\<close>

definition parse_cgroup_proc_file :: "string \<Rightarrow> cgroup_version \<times> string" where
  "parse_cgroup_proc_file content =
     (case parse_cgroup_proc_file_detailed content of
        Unexpected _ \<Rightarrow> (cgroup_version.none, [])
      | Value detailed \<Rightarrow>
          (p_version detailed,
           if p_v2_path detailed \<noteq> [] then p_v2_path detailed
           else if p_v1_hierarchies detailed \<noteq> [] then h_path (hd (p_v1_hierarchies detailed))
           else []))"

end
