(* ===== verification/Virtualization_Correct.thy ===== *)
theory Virtualization_Correct
  imports Virtualization Utf8_Correct "HOL-Library.Sublist"
begin

text \<open>
  Correctness of the portable virtualization module: the exact ratio comparison, the parsers
  against the text formats they read (reference renderings and their round trips), the search and
  path helpers against their declarative meaning, and the invariant of a parsed
  \<open>/proc/self/cgroup\<close>.
\<close>

unbundle bit_operations_syntax

section \<open>Ratios\<close>

lemma ratio_split:
  fixes a b c d :: nat
  assumes "0 < b" "0 < d" "a div b = c div d"
  shows "a * d < c * b \<longleftrightarrow> (a mod b) * d < (c mod d) * b"
proof -
  have "a * d = (a div b) * b * d + (a mod b) * d"
    by (metis add_mult_distrib div_mult_mod_eq)
  moreover have "c * b = (c div d) * b * d + (c mod d) * b"
    by (metis add_mult_distrib div_mult_mod_eq mult.assoc mult.commute)
  ultimately show ?thesis using assms(3) by simp
qed

lemma ratio_quotient_less:
  fixes a b c d :: nat
  assumes "0 < b" "0 < d" "a div b < c div d"
  shows "a * d < c * b"
proof -
  have "a < (a div b + 1) * b"
    using assms(1) by (metis dividend_less_div_times add.commute Suc_eq_plus1 mult.commute mult_Suc_right)
  then have "a * d < (a div b + 1) * b * d"
    using assms(2) by simp
  also have "\<dots> \<le> (c div d) * b * d"
    using assms(3) by (intro mult_le_mono1) simp
  also have "\<dots> \<le> c * b"
    by (metis div_times_less_eq_dividend mult.assoc mult.commute mult_le_mono2)
  finally show ?thesis .
qed

definition ratio_lt :: "u64 \<Rightarrow> u64 \<Rightarrow> u64 \<Rightarrow> u64 \<Rightarrow> bool" where
  "ratio_lt a b c d \<longleftrightarrow> unat a * unat d < unat c * unat b"

lemma ratio_less_loop_correct:
  assumes "b \<noteq> 0" "d \<noteq> 0"
  shows "ratio_less_loop a b c d iv = Some (if iv then ratio_lt c d a b else ratio_lt a b c d)"
  using assms
proof (induction a b c d iv rule: ratio_less_loop.induct)
  case (1 a b c d iv)
  have pos: "0 < unat b" "0 < unat d"
    using "1.prems" by (simp_all add: unat_gt_0)
  note unfold = ratio_less_loop.simps [of a b c d iv]
  show ?case
  proof (cases "a div b = c div d")
    case False
    have "unat (a div b) \<noteq> unat (c div d)" using False by (metis word_unat_eq_iff)
    then have ne: "unat a div unat b \<noteq> unat c div unat d" by (simp add: unat_div)
    have ord: "(a div b < c div d) = (unat a div unat b < unat c div unat d)"
        "(c div d < a div b) = (unat c div unat d < unat a div unat b)"
      by (simp_all add: word_less_nat_alt unat_div)
    consider "unat a div unat b < unat c div unat d" | "unat c div unat d < unat a div unat b"
      using ne by linarith
    then show ?thesis
    proof cases
      case 1
      then show ?thesis
        using ratio_quotient_less [OF pos 1] pos "1.prems" False ord
        by (simp add: unfold Let_def ratio_lt_def)
    next
      case 2
      then show ?thesis
        using ratio_quotient_less [OF pos(2) pos(1) 2] pos False ord \<open>b \<noteq> 0\<close> \<open>d \<noteq> 0\<close>
        by (simp add: unfold Let_def ratio_lt_def)
    qed
  next
    case True
    then have q: "unat a div unat b = unat c div unat d" by (metis unat_div)
    have m: "unat (a mod b) = unat a mod unat b" "unat (c mod d) = unat c mod unat d"
      by (simp_all add: unat_mod)
    have z: "(a mod b = 0) = (unat a mod unat b = 0)" "(c mod d = 0) = (unat c mod unat d = 0)"
      by (simp_all add: unat_eq_zero flip: m)
    note split = ratio_split [OF pos q] ratio_split [OF pos(2) pos(1) q [symmetric]]
    show ?thesis
    proof (cases "a mod b = 0 \<or> c mod d = 0")
      case zero: True
      then show ?thesis
        using True z pos "1.prems" split by (auto simp: unfold Let_def ratio_lt_def)
    next
      case False
      then have "ratio_less_loop b (a mod b) d (c mod d) (\<not> iv) =
          Some (if \<not> iv then ratio_lt d (c mod d) b (a mod b) else ratio_lt b (a mod b) d (c mod d))"
        using "1.IH" "1.prems" True by simp
      then show ?thesis
        using True False "1.prems" split m by (simp add: unfold Let_def ratio_lt_def mult.commute)
    qed
  qed
qed

section \<open>Namespace links\<close>

abbreviation ns_open :: string where "ns_open \<equiv> '':[''"

lemma find_open_append: "\<not> sublist ns_open t \<Longrightarrow> find_open (t @ ns_open @ rest) = Some (length t)"
proof (induction t)
  case (Cons a t)
  then have IH: "find_open (t @ ns_open @ rest) = Some (length t)"
    by (metis sublist_Cons_right)
  have no: "\<not> (a = CHR '':'' \<and> hd (t @ ns_open @ rest) = CHR ''['')"
  proof
    assume h: "a = CHR '':'' \<and> hd (t @ ns_open @ rest) = CHR ''[''"
    then obtain t' where "t = CHR ''['' # t'" by (cases t) auto
    with h Cons.prems show False
      by (metis append_Cons append_Nil sublist_appendI)
  qed
  obtain b r where "t @ ns_open @ rest = b # r" by (cases t) auto
  with no IH show ?case by simp
qed simp

lemma find_open_Some:
  "find_open s = Some n \<Longrightarrow> n \<le> length s \<and> (\<exists>rest. s = take n s @ ns_open @ rest) \<and> \<not> sublist ns_open (take n s)"
proof (induction s arbitrary: n rule: find_open.induct)
  case (1 a b rest)
  show ?case
  proof (cases "a = CHR '':'' \<and> b = CHR ''[''")
    case True
    with 1 show ?thesis by simp
  next
    case False
    with 1 obtain m where m: "n = Suc m" "find_open (b # rest) = Some m" by auto
    with 1 False obtain r where r: "m \<le> length (b # rest)" "b # rest = take m (b # rest) @ ns_open @ r"
      "\<not> sublist ns_open (take m (b # rest))" by blast
    have "\<not> prefix ns_open (a # take m (b # rest))"
      using False by (cases m) auto
    with r m False show ?thesis by (auto simp: sublist_Cons_right)
  qed
qed simp_all

section \<open>Digits and blanks\<close>

lemma digit_not_space: "is_digit c \<Longrightarrow> \<not> token_space c \<and> \<not> signature_blank c"
  by (auto simp: is_digit_def token_space_def signature_blank_def)

lemma trim_digits: "list_all is_digit s \<Longrightarrow> trim_signature s = s"
  unfolding trim_signature_def
  by (rule trim_both_id) (metis digit_not_space hd_in_set last_in_set list_all_iff)

lemma word_space: "token_space (CHR '' '')" "token_space newline"
  by (simp_all add: token_space_def)

lemma digits_not_word: "list_all is_digit t \<Longrightarrow> t \<noteq> ''max'' \<and> t \<noteq> ''-1'' \<and> (t \<noteq> [] \<longrightarrow> hd t \<noteq> CHR ''-'')"
  by (cases t) (auto simp: is_digit_def)

section \<open>Mountinfo escapes\<close>

text \<open>The kernel's rendering: every special character as a backslash and three octal digits.\<close>

definition octal_char :: "nat \<Rightarrow> char" where
  "octal_char n = char_of (48 + n mod 8)"

definition mangle_char :: "char \<Rightarrow> string" where
  "mangle_char c = [backslash, octal_char (uchar c div 64), octal_char (uchar c div 8), octal_char (uchar c)]"

definition mangle :: "(char \<Rightarrow> bool) \<Rightarrow> string \<Rightarrow> string" where
  "mangle special s = concat (map (\<lambda>c. if special c then mangle_char c else [c]) s)"

lemma octal_char_props: "is_octal (octal_char n)" "unat (octal_u32 (octal_char n)) = n mod 8"
proof -
  have "uchar (octal_char n) = 48 + n mod 8"
    using mod_less_divisor [of 8 n] by (simp add: octal_char_def)
  then show "is_octal (octal_char n)" "unat (octal_u32 (octal_char n)) = n mod 8"
    using mod_less_divisor [of 8 n]
    by (simp_all add: is_octal_def octal_u32_def unat_of_nat take_bit_nat_eq_self)
qed

lemma unat_octal_join:
  fixes a b c :: u32
  assumes "unat a < 8" "unat b < 8" "unat c < 8"
  shows "unat (push_bit 6 a OR push_bit 3 b OR c) = unat a * 64 + (unat b * 8 + unat c)"
proof -
  have "unat (push_bit 3 b OR c) = unat b * 8 + unat c"
    using assms by (subst unat_shift_or) simp_all
  then have "unat (push_bit 6 a OR (push_bit 3 b OR c)) = unat a * 64 + (unat b * 8 + unat c)"
    using assms by (subst unat_shift_or) simp_all
  then show ?thesis by (simp only: or.assoc)
qed

lemma octal_recombine: "n < 256 \<Longrightarrow> n div 64 mod 8 * 64 + (n div 8 mod 8 * 8 + n mod 8) = (n::nat)"
proof -
  assume "n < 256"
  then have "n div 64 mod 8 = n div 64" by simp
  moreover have "n div 64 = n div 8 div 8" using div_mult2_eq [of n 8 8] by simp
  moreover have "n = n div 8 * 8 + n mod 8" "n div 8 = n div 8 div 8 * 8 + n div 8 mod 8"
    by simp_all
  ultimately show ?thesis by linarith
qed

lemma mangle_char_value:
  "to_char (push_bit 6 (octal_u32 (octal_char (uchar c div 64))) OR
      push_bit 3 (octal_u32 (octal_char (uchar c div 8))) OR octal_u32 (octal_char (uchar c))) = c"
  by (simp add: to_char_def unat_octal_join octal_char_props octal_recombine)

lemma unescape_plain: "x \<noteq> backslash \<Longrightarrow> unescape_mountinfo_path (x # s) = x # unescape_mountinfo_path s"
  by (cases "x # s" rule: unescape_mountinfo_path.cases) auto

section \<open>Substring search\<close>

lemma ci_match_at_iff:
  assumes "i + length needle \<le> length text"
  shows "ci_match_at text needle i \<longleftrightarrow>
    map ascii_lower needle = take (length needle) (drop i (map ascii_lower text))"
proof -
  have "ci_match_at text needle i \<longleftrightarrow>
      (\<forall>j < length needle. ascii_lower (needle ! j) = ascii_lower (text ! (i + j)))"
    by (auto simp: ci_match_at_def list_all_iff)
  also have "\<dots> \<longleftrightarrow> (\<forall>j < length needle.
      map ascii_lower needle ! j = take (length needle) (drop i (map ascii_lower text)) ! j)"
    using assms by simp
  also have "\<dots> \<longleftrightarrow> map ascii_lower needle = take (length needle) (drop i (map ascii_lower text))"
    using assms by (subst list_eq_iff_nth_eq) simp
  finally show ?thesis .
qed

lemma sublist_iff_take_drop: "sublist xs ys \<longleftrightarrow> (\<exists>i. i + length xs \<le> length ys \<and> xs = take (length xs) (drop i ys))"
proof
  assume "sublist xs ys"
  then obtain ps ss where "ys = ps @ xs @ ss" by (auto simp: sublist_def)
  then show "\<exists>i. i + length xs \<le> length ys \<and> xs = take (length xs) (drop i ys)"
    by (intro exI [of _ "length ps"]) simp
next
  assume "\<exists>i. i + length xs \<le> length ys \<and> xs = take (length xs) (drop i ys)"
  then show "sublist xs ys"
    by (metis append_take_drop_id sublist_def)
qed

section \<open>Ancestor directories\<close>

lemma join_path_prefix:
  assumes "a \<noteq> []" "prefix a b"
  shows "prefix (join_path mp a) (join_path mp b)"
proof -
  have "hd a = hd b" using assms by (auto simp: prefix_def)
  moreover have "prefix (tl a) (tl b)"
    using assms by (auto simp: prefix_def)
  ultimately show ?thesis
    using assms by (auto simp: join_path_def Let_def)
qed

lemma mount_prefix_join: "prefix mp (join_path mp a)"
  by (auto simp: join_path_def Let_def)

lemma ancestors_shape: "d \<in> set (ancestors_from mp cur) \<Longrightarrow> prefix mp d \<and> (\<exists>a. a \<noteq> [] \<and> prefix a cur \<and> d = join_path mp a)"
proof (induction mp cur arbitrary: d rule: ancestors_from.induct)
  case (1 mp cur)
  show ?case
  proof (cases "d = join_path mp cur")
    case True
    then show ?thesis using "1.prems" mount_prefix_join by (auto simp: ancestors_from.simps [of mp cur] split: if_splits)
  next
    case False
    with "1.prems" obtain k where k: "cur \<noteq> []" "rfind_char (CHR ''/'') cur = Some k" "k \<noteq> 0"
      "d \<in> set (ancestors_from mp (take k cur))"
      by (cases "rfind_char (CHR ''/'') cur") (auto simp: ancestors_from.simps [of mp cur] split: if_splits)
    with "1.IH" show ?thesis
      by (meson prefix_order.trans take_is_prefix)
  qed
qed

lemma ancestors_sorted: "sorted_wrt (\<lambda>a b. prefix b a) (ancestors_from mp cur)"
proof (induction mp cur rule: ancestors_from.induct)
  case (1 mp cur)
  have "prefix d (join_path mp cur)" if "d \<in> set (ancestors_from mp (take k cur))" for d k
    using ancestors_shape [OF that] by (metis join_path_prefix prefix_order.trans take_is_prefix)
  then show ?case
    using 1 by (auto simp: ancestors_from.simps [of mp cur] split: option.splits)
qed

section \<open>The cgroup file\<close>

text \<open>A reference description of the file and its rendering.\<close>

datatype cgroup_file_entry =
    Unified string
  | Legacy u64 "string list" string

definition good_path :: "string \<Rightarrow> bool" where
  "good_path p \<longleftrightarrow> p \<noteq> [] \<and> hd p = CHR ''/'' \<and> newline \<notin> set p \<and> last p \<noteq> carriage_return"

definition good_controller :: "string \<Rightarrow> bool" where
  "good_controller c \<longleftrightarrow> c \<noteq> [] \<and> CHR '','' \<notin> set c \<and> CHR '':'' \<notin> set c \<and> newline \<notin> set c \<and> trim_signature c = c"

fun good_entry :: "cgroup_file_entry \<Rightarrow> bool" where
  "good_entry (Unified p) = good_path p"
| "good_entry (Legacy i cs p) = (i \<noteq> 0 \<and> cs \<noteq> [] \<and> list_all good_controller cs \<and> good_path p)"

fun cgroup_file_line :: "cgroup_file_entry \<Rightarrow> string" where
  "cgroup_file_line (Unified p) = ''0::'' @ p"
| "cgroup_file_line (Legacy i cs p) = dec_string (unat i) @ '':'' @ join_with (CHR '','') cs @ '':'' @ p"

definition cgroup_file :: "cgroup_file_entry list \<Rightarrow> string" where
  "cgroup_file es = concat (map (\<lambda>e. cgroup_file_line e @ [newline]) es)"

fun unified_paths :: "cgroup_file_entry list \<Rightarrow> string list" where
  "unified_paths [] = []"
| "unified_paths (Unified p # es) = p # unified_paths es"
| "unified_paths (Legacy i cs p # es) = unified_paths es"

fun legacy_hierarchies :: "cgroup_file_entry list \<Rightarrow> cgroup_v1_hierarchy list" where
  "legacy_hierarchies [] = []"
| "legacy_hierarchies (Unified p # es) = legacy_hierarchies es"
| "legacy_hierarchies (Legacy i cs p # es) = \<lparr>h_controllers = cs, h_path = p\<rparr> # legacy_hierarchies es"

definition described_version :: "cgroup_file_entry list \<Rightarrow> cgroup_version" where
  "described_version es =
     (if unified_paths es \<noteq> [] then
        (if legacy_hierarchies es \<noteq> [] then cgroup_version.hybrid else cgroup_version.v2)
      else if legacy_hierarchies es \<noteq> [] then cgroup_version.v1 else cgroup_version.none)"

lemma split_commas_join:
  "list_all good_controller cs \<Longrightarrow> split_commas (join_with (CHR '','') cs) = cs"
proof -
  assume a: "list_all good_controller cs"
  then have "pieces_of (CHR '','') (join_with (CHR '','') cs) = cs"
    by (intro pieces_of_join) (auto simp: list_all_iff good_controller_def)
  moreover have "map trim_signature cs = cs" "filter (\<lambda>t. t \<noteq> []) cs = cs"
    using a by (auto simp: list_all_iff good_controller_def intro: map_idI filter_True)
  ultimately show ?thesis by (simp add: split_commas_def)
qed

lemma join_controllers:
  assumes "list_all good_controller cs" "cs \<noteq> []"
  shows "join_with (CHR '','') cs \<noteq> []" "CHR '':'' \<notin> set (join_with (CHR '','') cs)"
    "newline \<notin> set (join_with (CHR '','') cs)"
proof -
  show "join_with (CHR '','') cs \<noteq> []"
    using assms by (cases cs; cases "tl cs") (auto simp: good_controller_def)
  show "CHR '':'' \<notin> set (join_with (CHR '','') cs)" "newline \<notin> set (join_with (CHR '','') cs)"
    using set_join_with [of "CHR '',''" cs] assms(1)
    by (auto simp: list_all_iff good_controller_def subset_iff)
qed

text \<open>One line: the three fields are found by the two colons.\<close>

lemma cgroup_line_fields:
  assumes "list_all is_digit ds" "ds \<noteq> []" "accumulate quotient_guard 0 ds = Some i"
    "CHR '':'' \<notin> set names" "good_path p"
  shows "cgroup_line (ds @ '':'' @ names @ '':'' @ p) st = cgroup_entry i names p st"
proof -
  let ?l = "ds @ '':'' @ names @ '':'' @ p"
  have "trim_back line_end ?l = ?l"
    using assms(5) by (intro trim_back_id) (auto simp: good_path_def line_end_def dest: last_in_set)
  moreover have "find_from (CHR '':'') ?l 0 = Some (length ds)"
    using find_from_append [of "CHR '':''" ds "[]" "names @ '':'' @ p"] digits_free [OF assms(1), of "CHR '':''"]
    by (simp add: is_digit_def)
  moreover have "find_from (CHR '':'') ?l (length ds + 1) = Some (length ds + 1 + length names)"
    using find_from_append [of "CHR '':''" names "ds @ '':''" p] assms(4) by simp
  moreover have "substr ?l 0 (length ds) = ds"
    "substr ?l (length ds + 1) (length ds + 1 + length names - length ds - 1) = names"
    "drop (length ds + 1 + length names + 1) ?l = p" "?l \<noteq> []"
    using assms(2) by (simp_all add: substr_def)
  ultimately show ?thesis
    using assms(2,3) by (simp only: cgroup_line_def Let_def option.case if_False)
qed

fun enter :: "cgroup_file_entry \<Rightarrow> cgroup_scan \<Rightarrow> cgroup_scan" where
  "enter (Unified p) st = st\<lparr>s_has_v2 := True,
      s_parsed := (if p_v2_path (s_parsed st) = [] then (s_parsed st)\<lparr>p_v2_path := p\<rparr> else s_parsed st)\<rparr>"
| "enter (Legacy i cs p) st = st\<lparr>s_has_v1 := True,
      s_parsed := (s_parsed st)\<lparr>p_v1_hierarchies := p_v1_hierarchies (s_parsed st) @
         [\<lparr>h_controllers = cs, h_path = p\<rparr>]\<rparr>\<rparr>"

lemma cgroup_line_enter:
  assumes "good_entry e"
  shows "cgroup_line (cgroup_file_line e) st = Value (enter e st)"
proof (cases e)
  case (Unified p)
  then have p: "good_path p" using assms by simp
  have "accumulate quotient_guard 0 ''0'' = Some 0"
    by (subst quotient.accumulate_Some_iff) (simp add: is_digit_def dec_value_def)
  then have "cgroup_line (''0'' @ '':'' @ [] @ '':'' @ p) st = cgroup_entry 0 [] p st"
    using p by (intro cgroup_line_fields) (simp_all add: is_digit_def)
  then show ?thesis
    using Unified p by (simp add: cgroup_entry_def good_path_def)
next
  case (Legacy i cs p)
  then have g: "i \<noteq> 0" "cs \<noteq> []" "list_all good_controller cs" "good_path p"
    using assms by simp_all
  have "accumulate quotient_guard 0 (dec_string (unat i)) = Some i"
    by (simp add: quotient.accumulate_Some_iff dec_string_digits)
  then have "cgroup_line (cgroup_file_line e) st = cgroup_entry i (join_with (CHR '','') cs) p st"
    unfolding Legacy cgroup_file_line.simps
    using g by (intro cgroup_line_fields) (simp_all add: join_controllers dec_string_digits)
  then show ?thesis
    using Legacy g by (simp add: cgroup_entry_def good_path_def join_controllers split_commas_join Let_def)
qed

lemma cgroup_lines_enter:
  "list_all good_entry es \<Longrightarrow> cgroup_lines (map cgroup_file_line es) st = Value (fold enter es st)"
  by (induction es arbitrary: st) (simp_all add: cgroup_line_enter)

lemma fold_enter:
  assumes "list_all good_entry es"
  shows "s_has_v2 (fold enter es st) = (s_has_v2 st \<or> unified_paths es \<noteq> [])"
    "s_has_v1 (fold enter es st) = (s_has_v1 st \<or> legacy_hierarchies es \<noteq> [])"
    "s_parsed (fold enter es st) = (s_parsed st)\<lparr>
       p_v2_path := (if p_v2_path (s_parsed st) = [] \<and> unified_paths es \<noteq> [] then hd (unified_paths es)
                     else p_v2_path (s_parsed st)),
       p_v1_hierarchies := p_v1_hierarchies (s_parsed st) @ legacy_hierarchies es\<rparr>"
  using assms
proof (induction es arbitrary: st)
  case (Cons e es)
  case 1
  then show ?case using Cons by (cases e) simp_all
  case 2
  then show ?case using Cons by (cases e) simp_all
  case 3
  then show ?case using Cons by (cases e) (simp_all add: good_path_def)
qed simp_all

lemma cgroup_file_line_newline: "good_entry e \<Longrightarrow> newline \<notin> set (cgroup_file_line e)"
  using digits_free [OF dec_string_digits, of newline]
  by (cases e) (auto simp: good_path_def join_controllers is_digit_def)

definition hierarchy_ok :: "cgroup_v1_hierarchy \<Rightarrow> bool" where
  "hierarchy_ok h \<longleftrightarrow> h_path h \<noteq> [] \<and> hd (h_path h) = CHR ''/'' \<and> h_controllers h \<noteq> [] \<and>
     list_all (\<lambda>c. c \<noteq> []) (h_controllers h)"

definition scan_ok :: "cgroup_scan \<Rightarrow> bool" where
  "scan_ok st \<longleftrightarrow>
     s_has_v2 st = (p_v2_path (s_parsed st) \<noteq> []) \<and>
     s_has_v1 st = (p_v1_hierarchies (s_parsed st) \<noteq> []) \<and>
     (p_v2_path (s_parsed st) \<noteq> [] \<longrightarrow> hd (p_v2_path (s_parsed st)) = CHR ''/'') \<and>
     list_all hierarchy_ok (p_v1_hierarchies (s_parsed st)) \<and>
     p_version (s_parsed st) = cgroup_version.none"

lemma split_commas_nonempty: "list_all (\<lambda>c. c \<noteq> []) (split_commas t)"
  by (auto simp: split_commas_def list_all_iff)

lemma cgroup_entry_ok:
  assumes ok: "scan_ok st" and st': "cgroup_entry i names p st = Value st'"
  shows "scan_ok st'"
proof -
  have p: "p \<noteq> []" "hd p = CHR ''/''"
    using st' by (simp_all add: cgroup_entry_def split: if_splits)
  show ?thesis
  proof (cases "i = 0")
    case True
    with st' p have "st' = enter (Unified p) st"
      by (simp add: cgroup_entry_def split: if_splits)
    with ok p show ?thesis by (simp add: scan_ok_def)
  next
    case False
    with st' p have "split_commas names \<noteq> []" "st' = enter (Legacy i (split_commas names) p) st"
      by (simp_all add: cgroup_entry_def Let_def split: if_splits)
    with ok p show ?thesis
      by (simp add: scan_ok_def hierarchy_ok_def split_commas_nonempty)
  qed
qed

lemma cgroup_line_ok: "scan_ok st \<Longrightarrow> cgroup_line l st = Value st' \<Longrightarrow> scan_ok st'"
proof -
  assume ok: "scan_ok st" and "cgroup_line l st = Value st'"
  then have "st' = st \<or> (\<exists>i names p. cgroup_entry i names p st = Value st')"
    unfolding cgroup_line_def Let_def by (auto split: if_splits option.splits)
  with ok show ?thesis using cgroup_entry_ok by blast
qed

lemma cgroup_lines_ok: "scan_ok st \<Longrightarrow> cgroup_lines ls st = Value st' \<Longrightarrow> scan_ok st'"
  by (induction ls arbitrary: st) (auto simp: and_then_Value_iff dest: cgroup_line_ok)

section \<open>Properties\<close>

text \<open>
  C3. \<open>positive_ratio_less\<close> compares two fractions exactly: for every pair of nonzero
  denominators the loop terminates and answers whether the first fraction is smaller, with no
  intermediate product that could wrap in 64 bits.
\<close>

theorem positive_ratio_less_exact:
  assumes "b \<noteq> 0" and "d \<noteq> 0"
  shows "positive_ratio_less a b c d = Some (unat a * unat d < unat c * unat b)"
  using ratio_less_loop_correct [OF assms, of a c False]
  by (simp add: positive_ratio_less_def ratio_lt_def)

theorem positive_ratio_less_exact_witness:
  "positive_ratio_less 18446744073709551615 3 18446744073709551614 2 = Some True"
  using positive_ratio_less_exact [of 3 2 18446744073709551615 18446744073709551614] by simp

text \<open>
  C4. \<open>/proc/self/cgroup\<close> round trip: whatever sequence of unified (v2) and legacy (v1) entries the
  kernel renders, \<open>parse_cgroup_proc_file_detailed\<close> recovers the version, the first unified path
  and every legacy hierarchy with its controllers, in order.
\<close>

theorem parse_cgroup_file_roundtrip:
  assumes "list_all good_entry es"
  shows "parse_cgroup_proc_file_detailed (cgroup_file es) =
    Value \<lparr>p_version = described_version es,
           p_v2_path = (if unified_paths es = [] then [] else hd (unified_paths es)),
           p_v1_hierarchies = legacy_hierarchies es\<rparr>"
proof -
  have "lines_of (cgroup_file es) = map cgroup_file_line es"
    using lines_of_unlines [of "map cgroup_file_line es"] assms cgroup_file_line_newline
    by (simp add: cgroup_file_def list_all_iff comp_def)
  then show ?thesis
    using assms
    by (simp add: parse_cgroup_proc_file_detailed_def cgroup_lines_enter fold_enter scanned_version_def
        empty_cgroup_info_def described_version_def)
qed

theorem parse_cgroup_file_roundtrip_witness:
  "parse_cgroup_proc_file_detailed
     (cgroup_file [Legacy 4 [''cpu'', ''cpuacct''] ''/a'', Unified ''/user.slice'']) =
   Value \<lparr>p_version = cgroup_version.hybrid, p_v2_path = ''/user.slice'',
     p_v1_hierarchies = [\<lparr>h_controllers = [''cpu'', ''cpuacct''], h_path = ''/a''\<rparr>]\<rparr>"
proof -
  have "list_all good_entry [Legacy 4 [''cpu'', ''cpuacct''] ''/a'', Unified ''/user.slice'']"
    by (simp add: good_path_def good_controller_def trim_signature_def trim_both_def trim_back_def
        signature_blank_def)
  from parse_cgroup_file_roundtrip [OF this] show ?thesis
    by (simp add: described_version_def)
qed

text \<open>
  Invariant of the cgroup parser: in anything it accepts, the reported version agrees with
  what was found (a unified path exactly for v2 and hybrid, hierarchies exactly for v1 and
  hybrid), every path is absolute, and every hierarchy names at least one controller, none empty.
\<close>

theorem parse_cgroup_file_invariant:
  assumes "parse_cgroup_proc_file_detailed content = Value info"
  shows "(p_version info \<in> {cgroup_version.v2, cgroup_version.hybrid} \<longleftrightarrow> p_v2_path info \<noteq> []) \<and>
    (p_version info \<in> {cgroup_version.v1, cgroup_version.hybrid} \<longleftrightarrow> p_v1_hierarchies info \<noteq> []) \<and>
    (p_v2_path info \<noteq> [] \<longrightarrow> hd (p_v2_path info) = CHR ''/'') \<and>
    list_all hierarchy_ok (p_v1_hierarchies info)"
proof -
  from assms obtain st where st: "cgroup_lines (lines_of content)
      \<lparr>s_parsed = empty_cgroup_info, s_has_v2 = False, s_has_v1 = False\<rparr> = Value st"
    and info: "info = (s_parsed st)\<lparr>p_version := scanned_version st\<rparr>"
    by (auto simp: parse_cgroup_proc_file_detailed_def and_then_Value_iff)
  from st have "scan_ok st"
    by (rule cgroup_lines_ok [rotated]) (simp add: scan_ok_def empty_cgroup_info_def)
  then show ?thesis
    by (auto simp: scan_ok_def info scanned_version_def)
qed
theorem parse_cgroup_file_invariant_witness:
  "list_all hierarchy_ok [\<lparr>h_controllers = [''cpu''], h_path = ''/a''\<rparr>]"
proof -
  have "list_all good_entry [Legacy 4 [''cpu''] ''/a'']"
    by (simp add: good_path_def good_controller_def trim_signature_def trim_both_def trim_back_def
        signature_blank_def)
  then have "cgroup_lines (map cgroup_file_line [Legacy 4 [''cpu''] ''/a''])
      \<lparr>s_parsed = empty_cgroup_info, s_has_v2 = False, s_has_v1 = False\<rparr> =
      Value (fold enter [Legacy 4 [''cpu''] ''/a'']
        \<lparr>s_parsed = empty_cgroup_info, s_has_v2 = False, s_has_v1 = False\<rparr>)"
    by (rule cgroup_lines_enter)
  moreover have "lines_of (cgroup_file_line (Legacy 4 [''cpu''] ''/a'')) =
      map cgroup_file_line [Legacy 4 [''cpu''] ''/a'']"
    using cgroup_file_line_newline [of "Legacy 4 [''cpu''] ''/a''"]
      \<open>list_all good_entry [Legacy 4 [''cpu''] ''/a'']\<close>
    by (simp add: pieces_of_last)
  ultimately have "parse_cgroup_proc_file_detailed (cgroup_file_line (Legacy 4 [''cpu''] ''/a'')) =
      Value \<lparr>p_version = cgroup_version.v1, p_v2_path = [],
        p_v1_hierarchies = [\<lparr>h_controllers = [''cpu''], h_path = ''/a''\<rparr>]\<rparr>"
    by (simp add: parse_cgroup_proc_file_detailed_def empty_cgroup_info_def scanned_version_def
        del: cgroup_file_line.simps)
  from parse_cgroup_file_invariant [OF this] show ?thesis by simp
qed

text \<open>
  \<open>parse_namespace_link\<close> accepts exactly the links of the form \<open>type:[digits]\<close> whose type is
  nonempty and whose number fits 64 bits, and returns that type and that number.
\<close>

theorem parse_namespace_link_exact:
  "parse_namespace_link link t0 i0 = (True, t, i) \<longleftrightarrow>
     (\<exists>digits. link = t @ '':['' @ digits @ '']'' \<and> t \<noteq> [] \<and> \<not> sublist '':['' t \<and>
        digits \<noteq> [] \<and> list_all is_digit digits \<and> dec_value digits = unat i)"
  (is "?L = ?R")
proof
  assume ?L
  then obtain n m where n: "find_open link = Some n" "n \<noteq> 0"
    and m: "find_from (CHR '']'') link (n + 2) = Some m" "m \<noteq> n + 2" "m + 1 = length link"
    and t: "t = take n link" and acc: "accumulate quotient_guard 0 (substr link (n + 2) (m - (n + 2))) = Some i"
    by (auto simp: parse_namespace_link_def Let_def substr_def split: option.splits if_splits)
  from find_open_Some [OF n(1)] obtain rest where
    rest: "link = t @ ns_open @ rest" "n = length t" and no: "\<not> sublist ns_open t"
    unfolding t by auto
  have "n + 2 \<le> length link" using rest by simp
  with m(1) obtain ys zs where ys: "link = take (n + 2) link @ ys @ CHR '']'' # zs" "m = n + 2 + length ys"
    by (metis find_from_Some)
  have "length link = n + 2 + length ys + 1 + length zs"
    using arg_cong [OF ys(1), of length] \<open>n + 2 \<le> length link\<close> by simp
  then have zs: "zs = []" "ys \<noteq> []" using m ys(2) by auto
  have tk: "take (n + 2) link = t @ ns_open" using rest by simp
  have link: "link = t @ ns_open @ ys @ '']''" using ys(1) zs(1) unfolding tk by simp
  have "substr link (n + 2) (m - (n + 2)) = ys"
    using link rest(2) ys(2) by (simp add: substr_def)
  with acc have "list_all is_digit ys" "dec_value ys = unat i"
    by (simp_all add: quotient.accumulate_Some_iff)
  then show ?R
    using link no zs(2) n(2) rest(2) by (intro exI [of _ ys]) auto
next
  assume ?R
  then obtain digits where link: "link = t @ ns_open @ digits @ '']''" and t: "t \<noteq> []" "\<not> sublist ns_open t"
    and d: "digits \<noteq> []" "list_all is_digit digits" "dec_value digits = unat i" by auto
  have "CHR '']'' \<notin> set digits"
    using d(2) by (auto simp: list_all_iff is_digit_def)
  then have "find_from (CHR '']'') link (length t + 2) = Some (length t + 2 + length digits)"
    using find_from_append [of "CHR '']''" digits "t @ ns_open" "[]"] link by simp
  moreover have "accumulate quotient_guard 0 digits = Some i"
    using d by (simp add: quotient.accumulate_Some_iff)
  ultimately show ?L
    using find_open_append [OF t(2), of "digits @ '']''"] link t d(1)
    by (simp add: parse_namespace_link_def Let_def substr_def)
qed
text \<open>
  \<open>parse_cgroup_limit_value\<close> on every input: "max" and "-1" mean no limit, a decimal number is
  returned exactly, the kernel's page-counter sentinel and everything above it means no limit, and
  all other text, including numbers beyond 64 bits, is malformed.
\<close>

theorem parse_cgroup_limit_value_exact:
  "parse_cgroup_limit_value text =
     (let t = trim_signature text in
      if t = ''max'' \<or> t = ''-1'' then Value None
      else if t \<noteq> [] \<and> list_all is_digit t \<and> dec_value t < 2 ^ 64
        then Value (if 0x7FFFFFFFFFFFF000 \<le> dec_value t then None else Some (of_nat (dec_value t)))
      else fail errc.malformed_data)"
proof -
  define t where "t = trim_signature text"
  have big: "(0x7FFFFFFFFFFFF000 \<le> v) = (0x7FFFFFFFFFFFF000 \<le> unat v)" for v :: u64
    by (simp add: word_le_nat_alt)
  show ?thesis
  proof (cases "accumulate quotient_guard 0 t")
    case None
    then have "\<not> (list_all is_digit t \<and> dec_value t < 2 ^ 64)"
      by (auto simp: quotient.accumulate_None_iff)
    with None show ?thesis
      by (auto simp: parse_cgroup_limit_value_def Let_def simp flip: t_def)
  next
    case (Some v)
    then have v: "list_all is_digit t" "dec_value t = unat v" "unat v < 2 ^ 64"
      using unsigned_less [of v] by (simp_all add: quotient.accumulate_Some_iff)
    with Some digits_not_word [OF v(1)] show ?thesis
      by (auto simp: parse_cgroup_limit_value_def Let_def big simp flip: t_def)
  qed
qed

text \<open>
  \<open>cpu.max\<close> round trip: a positive quota below the sentinel and a positive period, rendered as
  the kernel does, are read back exactly into the two out-parameters.
\<close>

theorem parse_cgroup_cpu_max_roundtrip:
  assumes q: "0 < q" "q < 0x7FFFFFFFFFFFF000" and p: "0 < p" "p < 2 ^ 64"
  shows "parse_cgroup_cpu_max (dec_string q @ '' '' @ dec_string p @ [newline]) q0 p0 =
    (Value (), Some (of_nat q), Some (of_nat p))"
proof -
  have sp: "list_all (\<lambda>c. \<not> token_space c) (dec_string n)" for n
    using dec_string_digits [of n] digit_not_space by (auto simp: list_all_iff)
  have "split_whitespace (dec_string q @ '' '' @ dec_string p @ [newline]) = [dec_string q, dec_string p]"
    unfolding split_whitespace_def by (simp add: tokens_of_word sp word_space)
  moreover have q64: "q < 2 ^ 64" using q by simp
  moreover have "parse_cgroup_limit_value (dec_string q) = Value (Some (of_nat q))"
    using q of_nat_u64 [OF q64] quotient.accumulate_string [OF q64] digits_not_word [OF dec_string_digits]
    by (simp add: parse_cgroup_limit_value_def trim_digits dec_string_digits Let_def word_le_nat_alt)
  moreover have "of_nat p \<noteq> (0 :: u64)" "of_nat q \<noteq> (0 :: u64)"
    using p q of_nat_u64 [OF p(2)] of_nat_u64 [OF q64] by (metis less_irrefl unat_0)+
  ultimately show ?thesis
    using quotient.accumulate_string [OF p(2)] digits_not_word [OF dec_string_digits]
    by (simp add: parse_cgroup_cpu_max_def Let_def)
qed
theorem parse_cgroup_cpu_max_roundtrip_witness:
  "parse_cgroup_cpu_max (dec_string 50000 @ '' '' @ dec_string 100000 @ [newline]) None None =
    (Value (), Some 50000, Some 100000)"
  using parse_cgroup_cpu_max_roundtrip [of 50000 100000 None None] by simp

text \<open>
  \<open>unescape_mountinfo_path\<close> undoes the kernel's escaping of mount paths, for every choice of
  escaped characters that includes the backslash.
\<close>

theorem unescape_mangle:
  assumes "special backslash"
  shows "unescape_mountinfo_path (mangle special s) = s"
proof (induction s)
  case Nil
  then show ?case by (simp add: mangle_def)
next
  case (Cons c s)
  show ?case
  proof (cases "special c")
    case True
    then have "mangle special (c # s) = mangle_char c @ mangle special s"
      by (simp add: mangle_def)
    then show ?thesis
      using Cons.IH by (simp add: mangle_char_def octal_char_props mangle_char_value)
  next
    case False
    then have "c \<noteq> backslash" "mangle special (c # s) = c # mangle special s"
      using assms by (auto simp: mangle_def)
    then show ?thesis using Cons.IH by (simp add: unescape_plain)
  qed
qed

theorem unescape_mangle_witness:
  "unescape_mountinfo_path (mangle (\<lambda>c. c = backslash \<or> c = CHR '' '') ''/mnt/a b'') = ''/mnt/a b''"
  using unescape_mangle [of "\<lambda>c. c = backslash \<or> c = CHR '' ''" "''/mnt/a b''"] by simp

text \<open>
  \<open>case_insensitive_contains\<close> decides whether the needle occurs in the text as a contiguous
  substring up to ASCII case.
\<close>

theorem case_insensitive_contains_iff:
  "case_insensitive_contains text needle \<longleftrightarrow> sublist (map ascii_lower needle) (map ascii_lower text)"
proof -
  consider "needle = []" | "needle \<noteq> []" "length text < length needle" | "needle \<noteq> []" "length needle \<le> length text"
    by linarith
  then show ?thesis
  proof cases
    case 1
    then show ?thesis by (simp add: case_insensitive_contains_def)
  next
    case 2
    then show ?thesis
      by (auto simp: case_insensitive_contains_def dest: sublist_length_le)
  next
    case 3
    have "i \<in> set [0..<length text - length needle + 1] \<longleftrightarrow> i + length needle \<le> length text" for i
      using 3 by auto
    then have "case_insensitive_contains text needle \<longleftrightarrow>
        (\<exists>i. i + length needle \<le> length text \<and> ci_match_at text needle i)"
      using 3 by (simp add: case_insensitive_contains_def list_ex_iff Bex_def del: set_upt upt_Suc)
    also have "\<dots> \<longleftrightarrow> sublist (map ascii_lower needle) (map ascii_lower text)"
      by (auto simp: sublist_iff_take_drop ci_match_at_iff)
    finally show ?thesis .
  qed
qed

text \<open>
  \<open>get_cgroup_ancestor_dirs\<close> terminates with a walk that only goes up: every directory is a
  path prefix of all the directories before it, and the last one is the mount point itself.
\<close>

theorem cgroup_ancestors_walk_up:
  "last (get_cgroup_ancestor_dirs mp root path) = mp \<and>
   sorted_wrt (\<lambda>a b. prefix b a) (get_cgroup_ancestor_dirs mp root path)"
  by (auto simp: get_cgroup_ancestor_dirs_def Let_def sorted_wrt_append ancestors_sorted dest: ancestors_shape)

end
