(* ===== verification/Ordering.thy ===== *)
theory Ordering
  imports Foundation "HOL-Library.Char_ord" "HOL-Library.List_Lexorder" "HOL-Library.Option_ord"
begin

text \<open>
  The deterministic ordering that the backends give to the lists they return. The comparators of
  the sources are chains \<open>if (a.k != b.k) return a.k < b.k;\<close>; here they are shown to be strict
  weak orders, the requirement \<open>std::sort\<close> puts on them. The order of \<open>std::string\<close> is the
  lexicographic order of unsigned bytes, the order of \<open>std::optional\<close> puts the empty value first:
  these are the instances of \<open>List_Lexorder\<close>, \<open>Char_ord\<close> and \<open>Option_ord\<close>.

  \<open>std::sort\<close> is modelled by an insertion sort. The standard leaves the order of equivalent
  elements open, so no theorem below uses more than that the result is an ordered permutation;
  \<open>sorted_permutation_equiv\<close> shows that any two such results agree up to equivalence.
\<close>

section \<open>Sorting and removal of duplicates\<close>

fun sorted_insert :: "('a \<Rightarrow> 'a \<Rightarrow> bool) \<Rightarrow> 'a \<Rightarrow> 'a list \<Rightarrow> 'a list" where
  "sorted_insert lt x [] = [x]"
| "sorted_insert lt x (y # ys) = (if lt y x then y # sorted_insert lt x ys else x # y # ys)"

fun std_sort :: "('a \<Rightarrow> 'a \<Rightarrow> bool) \<Rightarrow> 'a list \<Rightarrow> 'a list" where
  "std_sort lt [] = []"
| "std_sort lt (x # xs) = sorted_insert lt x (std_sort lt xs)"

text \<open>\<open>xs.erase(std::unique(xs.begin(), xs.end()), xs.end())\<close> is \<^const>\<open>remdups_adj\<close>.\<close>

abbreviation in_order :: "('a \<Rightarrow> 'a \<Rightarrow> bool) \<Rightarrow> 'a list \<Rightarrow> bool" where
  "in_order lt \<equiv> sorted_wrt (\<lambda>a b. \<not> lt b a)"

lemma mset_sorted_insert [simp]: "mset (sorted_insert lt x ys) = add_mset x (mset ys)"
  by (induction ys) auto

lemma mset_std_sort [simp]: "mset (std_sort lt xs) = mset xs"
  by (induction xs) auto

lemma set_std_sort [simp]: "set (std_sort lt xs) = set xs"
  using mset_std_sort [of lt xs] mset_eq_setD by blast

lemma length_std_sort [simp]: "length (std_sort lt xs) = length xs"
  using mset_std_sort [of lt xs] mset_eq_length by blast

lemma set_sorted_insert [simp]: "set (sorted_insert lt x ys) = insert x (set ys)"
  by (induction ys) auto

section \<open>Strict weak orders\<close>

locale strict_weak_order =
  fixes lt :: "'a \<Rightarrow> 'a \<Rightarrow> bool"
  assumes irrefl: "\<not> lt a a"
    and asym: "lt a b \<Longrightarrow> \<not> lt b a"
    and neg_trans: "lt a c \<Longrightarrow> lt a b \<or> lt b c"
begin

lemma trans: "lt a b \<Longrightarrow> lt b c \<Longrightarrow> lt a c"
  using asym neg_trans by blast

lemma std_sort_in_order: "in_order lt (std_sort lt xs)"
proof (induction xs)
  case (Cons x xs)
  have "in_order lt ys \<Longrightarrow> in_order lt (sorted_insert lt x ys)" for ys
    by (induction ys) (auto dest: asym, metis neg_trans)
  with Cons show ?case by simp
qed simp

lemma std_sort_id: "in_order lt xs \<Longrightarrow> std_sort lt xs = xs"
proof (induction xs)
  case (Cons x xs)
  then show ?case by (cases xs) auto
qed simp

lemma sorted_count_le:
  assumes "in_order lt ys" "i < length ys"
  shows "length (filter (\<lambda>z. lt z (ys ! i)) ys) \<le> i"
proof -
  have "filter (\<lambda>z. lt z (ys ! i)) (drop i ys) = []"
  proof (rule filter_False, rule ballI)
    fix z assume "z \<in> set (drop i ys)"
    then obtain k where "z = ys ! (i + k)" "i + k < length ys"
      by (auto simp: in_set_conv_nth)
    then show "\<not> lt z (ys ! i)"
      using assms irrefl sorted_wrt_nth_less [OF assms(1), of i "i + k"] by (cases k) auto
  qed
  then have "filter (\<lambda>z. lt z (ys ! i)) ys = filter (\<lambda>z. lt z (ys ! i)) (take i ys)"
    by (metis append.right_neutral append_take_drop_id filter_append)
  then show ?thesis
    by (metis assms(2) length_filter_le length_take less_imp_le min.absorb2)
qed

lemma sorted_count_gt:
  assumes "in_order lt xs" "i < length xs" "lt (xs ! i) y"
  shows "i < length (filter (\<lambda>z. lt z y) xs)"
proof -
  have "lt z y" if "z \<in> set (take (Suc i) xs)" for z
  proof -
    from that assms(2) obtain k where k: "z = xs ! k" "k \<le> i"
      by (auto simp: in_set_conv_nth less_Suc_eq_le)
    then have "\<not> lt (xs ! i) z"
      using assms irrefl sorted_wrt_nth_less [OF assms(1), of k i] by (cases "k = i") auto
    with assms(3) neg_trans show ?thesis by blast
  qed
  then have "length (filter (\<lambda>z. lt z y) (take (Suc i) xs)) = Suc i"
    using assms(2) by (simp add: filter_id_conv)
  then show ?thesis
    by (metis Suc_le_lessD append_take_drop_id filter_append le_add1 length_append)
qed

theorem sorted_permutation_equiv:
  assumes "in_order lt xs" "in_order lt ys" "mset xs = mset ys" "i < length xs"
  shows "\<not> lt (xs ! i) (ys ! i)"
proof
  assume lt: "lt (xs ! i) (ys ! i)"
  have "length (filter (\<lambda>z. lt z (ys ! i)) xs) = length (filter (\<lambda>z. lt z (ys ! i)) ys)"
    using assms(3) by (metis mset_filter size_mset)
  moreover have "i < length ys"
    using assms(3,4) mset_eq_length by metis
  ultimately show False
    using sorted_count_gt [OF assms(1,4) lt] sorted_count_le [OF assms(2), of i] by simp
qed

text \<open>Any other correct sort gives the same list up to elements the comparator does not separate.\<close>

corollary std_sort_determined:
  assumes "in_order lt ys" "mset ys = mset xs" "i < length xs"
  shows "\<not> lt (std_sort lt xs ! i) (ys ! i) \<and> \<not> lt (ys ! i) (std_sort lt xs ! i)"
  using assms mset_eq_length [OF assms(2)]
    sorted_permutation_equiv [OF std_sort_in_order [of xs] assms(1)]
    sorted_permutation_equiv [OF assms(1) std_sort_in_order [of xs]]
  by simp

end

text \<open>The two steps that build the comparators of the sources.\<close>

lemma swo_key: "strict_weak_order (\<lambda>a b. k a < k b)" for k :: "'a \<Rightarrow> 'b::linorder"
  by unfold_locales auto

lemma swo_chain:
  fixes k :: "'a \<Rightarrow> 'b::linorder"
  assumes "strict_weak_order r"
  shows "strict_weak_order (\<lambda>a b. if k a \<noteq> k b then k a < k b else r a b)"
  using strict_weak_order.irrefl [OF assms] strict_weak_order.asym [OF assms]
    strict_weak_order.neg_trans [OF assms]
  by unfold_locales (auto split: if_splits)

end
