(* ===== verification/Hardware.thy ===== *)
theory Hardware
  imports Utf8 Ordering
begin

text \<open>
  The portable part of the hardware module: the vocabulary of \<open>include/syscape/hardware.hpp\<close> and
  every function of \<open>detail/hardware/common.hpp\<close>, i.e. the classification of the bytes that SMBIOS
  and PCI record, UUID rendering and validation, the SMBIOS structure-table parser with its
  string extraction, the comparators of the device lists and the boundary validators.

  A pointer into a table buffer is the list of bytes from that place to the end of the buffer, so
  \<open>p[i]\<close> is \<open>p ! i\<close>.
\<close>

unbundle bit_operations_syntax

section \<open>Vocabulary\<close>

datatype form_factor =
    unknown
  | other
  | desktop
  | low_profile_desktop
  | pizza_box
  | mini_tower
  | tower
  | portable
  | laptop
  | notebook
  | hand_held
  | docking_station
  | all_in_one
  | sub_notebook
  | space_saving
  | lunch_box
  | main_server
  | expansion_chassis
  | sub_chassis
  | bus_expansion_chassis
  | peripheral_chassis
  | raid_chassis
  | rack_mount_chassis
  | sealed_case_pc
  | multi_system
  | compact_pci
  | advanced_tca
  | blade
  | blade_enclosure
  | tablet
  | convertible
  | detachable
  | iot_gateway
  | embedded_pc
  | mini_pc
  | stick_pc

datatype pci_class =
    unknown
  | unclassified
  | mass_storage
  | network_controller
  | display_controller
  | multimedia_controller
  | memory_controller
  | bridge
  | communication_controller
  | generic_system_peripheral
  | input_device_controller
  | docking_station
  | processor
  | serial_bus_controller
  | wireless_controller
  | intelligent_controller
  | satellite_communication
  | encryption_controller
  | signal_processing_controller
  | processing_accelerator
  | non_essential_instrumentation

datatype memory_form_factor =
    unknown
  | other
  | simm
  | sip
  | chip
  | dip
  | zip_module
  | soj
  | proprietary
  | dimm
  | tsop
  | row_of_chips
  | rimm
  | sodimm
  | srimm
  | fb_dimm
  | die
  | camm

datatype memory_type =
    unknown
  | other
  | dram
  | edram
  | vram
  | sram
  | ram
  | rom
  | flash
  | eeprom
  | feprom
  | eprom
  | cdram
  | three_d_ram
  | sdram
  | sgram
  | rdram
  | ddr
  | ddr2
  | ddr2_fb_dimm
  | ddr3
  | fbd2
  | ddr4
  | lpddr
  | lpddr2
  | lpddr3
  | lpddr4
  | logical_non_volatile
  | hbm
  | hbm2
  | ddr5
  | lpddr5
  | hbm3

datatype memory_device_state =
    unknown
  | not_installed
  | installed

datatype memory_speed_unit =
    unknown
  | megahertz
  | megatransfers_per_second

record memory_speed =
  ms_value :: u32
  ms_unit :: memory_speed_unit

text \<open>A \<open>double\<close> is only copied by the code modelled here; it is carried as its 64 bits.\<close>

type_synonym double_bits = u64

record pci_device =
  pci_domain :: "u16 option"
  pci_bus :: "u8 option"
  pci_dev_number :: "u8 option"
  pci_function :: "u8 option"
  pci_vendor_id :: u16
  pci_device_id :: u16
  pci_subsystem_vendor_id :: "u16 option"
  pci_subsystem_device_id :: "u16 option"
  pci_class_code :: "u8 option"
  pci_subclass_code :: "u8 option"
  pci_programming_interface :: "u8 option"
  pci_device_class :: pci_class
  pci_driver :: "string option"
  pci_slot_name :: "string option"

record usb_device =
  usb_bus_number :: "u8 option"
  usb_device_address :: "u8 option"
  usb_port_number :: "u8 option"
  usb_vendor_id :: u16
  usb_product_id :: u16
  usb_bcd_device :: "u16 option"
  usb_device_class :: "u8 option"
  usb_device_subclass :: "u8 option"
  usb_device_protocol :: "u8 option"
  usb_manufacturer :: "string option"
  usb_product :: "string option"
  usb_serial_number :: "string option"
  usb_speed_mbps :: "double_bits option"

record memory_device =
  md_locator :: string
  md_bank_locator :: "string option"
  md_state :: memory_device_state
  md_size_bytes :: "u64 option"
  md_form_factor :: memory_form_factor
  md_type :: memory_type
  md_speed :: "memory_speed option"
  md_configured_speed :: "memory_speed option"
  md_manufacturer :: "string option"
  md_serial_number :: "string option"
  md_part_number :: "string option"

text \<open>The member initialisers of \<open>memory_device\<close>.\<close>

definition default_memory_device :: memory_device where
  "default_memory_device =
     \<lparr>md_locator = [], md_bank_locator = None, md_state = memory_device_state.unknown,
      md_size_bytes = None, md_form_factor = memory_form_factor.unknown,
      md_type = memory_type.unknown, md_speed = None, md_configured_speed = None,
      md_manufacturer = None, md_serial_number = None, md_part_number = None\<rparr>"

section \<open>Identity text and classification\<close>

definition validate_identity_text :: "string result \<Rightarrow> string result" where
  "validate_identity_text value =
     and_then value (\<lambda>s.
       fail_if (s = []) errc.malformed_data
         (fail_if (\<not> is_valid_utf8 s) errc.invalid_encoding (Value s)))"

definition classify_chassis :: "u8 \<Rightarrow> form_factor result" where
  "classify_chassis recorded =
    (if recorded = 1 then Value form_factor.other
     else if recorded = 2 then Value form_factor.unknown
     else if recorded = 3 then Value form_factor.desktop
     else if recorded = 4 then Value form_factor.low_profile_desktop
     else if recorded = 5 then Value form_factor.pizza_box
     else if recorded = 6 then Value form_factor.mini_tower
     else if recorded = 7 then Value form_factor.tower
     else if recorded = 8 then Value form_factor.portable
     else if recorded = 9 then Value form_factor.laptop
     else if recorded = 10 then Value form_factor.notebook
     else if recorded = 11 then Value form_factor.hand_held
     else if recorded = 12 then Value form_factor.docking_station
     else if recorded = 13 then Value form_factor.all_in_one
     else if recorded = 14 then Value form_factor.sub_notebook
     else if recorded = 15 then Value form_factor.space_saving
     else if recorded = 16 then Value form_factor.lunch_box
     else if recorded = 17 then Value form_factor.main_server
     else if recorded = 18 then Value form_factor.expansion_chassis
     else if recorded = 19 then Value form_factor.sub_chassis
     else if recorded = 20 then Value form_factor.bus_expansion_chassis
     else if recorded = 21 then Value form_factor.peripheral_chassis
     else if recorded = 22 then Value form_factor.raid_chassis
     else if recorded = 23 then Value form_factor.rack_mount_chassis
     else if recorded = 24 then Value form_factor.sealed_case_pc
     else if recorded = 25 then Value form_factor.multi_system
     else if recorded = 26 then Value form_factor.compact_pci
     else if recorded = 27 then Value form_factor.advanced_tca
     else if recorded = 28 then Value form_factor.blade
     else if recorded = 29 then Value form_factor.blade_enclosure
     else if recorded = 30 then Value form_factor.tablet
     else if recorded = 31 then Value form_factor.convertible
     else if recorded = 32 then Value form_factor.detachable
     else if recorded = 33 then Value form_factor.iot_gateway
     else if recorded = 34 then Value form_factor.embedded_pc
     else if recorded = 35 then Value form_factor.mini_pc
     else if recorded = 36 then Value form_factor.stick_pc
     else fail errc.malformed_data)"

definition classify_pci_class :: "u8 \<Rightarrow> pci_class" where
  "classify_pci_class class_code =
    (if class_code = 0x00 then pci_class.unclassified
     else if class_code = 0x01 then pci_class.mass_storage
     else if class_code = 0x02 then pci_class.network_controller
     else if class_code = 0x03 then pci_class.display_controller
     else if class_code = 0x04 then pci_class.multimedia_controller
     else if class_code = 0x05 then pci_class.memory_controller
     else if class_code = 0x06 then pci_class.bridge
     else if class_code = 0x07 then pci_class.communication_controller
     else if class_code = 0x08 then pci_class.generic_system_peripheral
     else if class_code = 0x09 then pci_class.input_device_controller
     else if class_code = 0x0A then pci_class.docking_station
     else if class_code = 0x0B then pci_class.processor
     else if class_code = 0x0C then pci_class.serial_bus_controller
     else if class_code = 0x0D then pci_class.wireless_controller
     else if class_code = 0x0E then pci_class.intelligent_controller
     else if class_code = 0x0F then pci_class.satellite_communication
     else if class_code = 0x10 then pci_class.encryption_controller
     else if class_code = 0x11 then pci_class.signal_processing_controller
     else if class_code = 0x12 then pci_class.processing_accelerator
     else if class_code = 0x13 then pci_class.non_essential_instrumentation
     else pci_class.unknown)"

definition classify_memory_form_factor :: "u8 \<Rightarrow> memory_form_factor" where
  "classify_memory_form_factor recorded =
    (if recorded = 0x01 then memory_form_factor.other
     else if recorded = 0x02 then memory_form_factor.unknown
     else if recorded = 0x03 then memory_form_factor.simm
     else if recorded = 0x04 then memory_form_factor.sip
     else if recorded = 0x05 then memory_form_factor.chip
     else if recorded = 0x06 then memory_form_factor.dip
     else if recorded = 0x07 then memory_form_factor.zip_module
     else if recorded = 0x08 then memory_form_factor.soj
     else if recorded = 0x09 then memory_form_factor.proprietary
     else if recorded = 0x0A then memory_form_factor.dimm
     else if recorded = 0x0B then memory_form_factor.tsop
     else if recorded = 0x0C then memory_form_factor.row_of_chips
     else if recorded = 0x0D then memory_form_factor.rimm
     else if recorded = 0x0E then memory_form_factor.sodimm
     else if recorded = 0x0F then memory_form_factor.srimm
     else if recorded = 0x10 then memory_form_factor.fb_dimm
     else if recorded = 0x11 then memory_form_factor.die
     else if recorded = 0x12 then memory_form_factor.camm
     else memory_form_factor.unknown)"

definition classify_memory_type :: "u8 \<Rightarrow> memory_type" where
  "classify_memory_type recorded =
    (if recorded = 0x01 then memory_type.other
     else if recorded = 0x02 then memory_type.unknown
     else if recorded = 0x03 then memory_type.dram
     else if recorded = 0x04 then memory_type.edram
     else if recorded = 0x05 then memory_type.vram
     else if recorded = 0x06 then memory_type.sram
     else if recorded = 0x07 then memory_type.ram
     else if recorded = 0x08 then memory_type.rom
     else if recorded = 0x09 then memory_type.flash
     else if recorded = 0x0A then memory_type.eeprom
     else if recorded = 0x0B then memory_type.feprom
     else if recorded = 0x0C then memory_type.eprom
     else if recorded = 0x0D then memory_type.cdram
     else if recorded = 0x0E then memory_type.three_d_ram
     else if recorded = 0x0F then memory_type.sdram
     else if recorded = 0x10 then memory_type.sgram
     else if recorded = 0x11 then memory_type.rdram
     else if recorded = 0x12 then memory_type.ddr
     else if recorded = 0x13 then memory_type.ddr2
     else if recorded = 0x14 then memory_type.ddr2_fb_dimm
     else if recorded = 0x18 then memory_type.ddr3
     else if recorded = 0x19 then memory_type.fbd2
     else if recorded = 0x1A then memory_type.ddr4
     else if recorded = 0x1B then memory_type.lpddr
     else if recorded = 0x1C then memory_type.lpddr2
     else if recorded = 0x1D then memory_type.lpddr3
     else if recorded = 0x1E then memory_type.lpddr4
     else if recorded = 0x1F then memory_type.logical_non_volatile
     else if recorded = 0x20 then memory_type.hbm
     else if recorded = 0x21 then memory_type.hbm2
     else if recorded = 0x22 then memory_type.ddr5
     else if recorded = 0x23 then memory_type.lpddr5
     else if recorded = 0x24 then memory_type.hbm3
     else memory_type.unknown)"

section \<open>UUIDs\<close>

text \<open>\<open>uuid_octets::value\<close> holds sixteen octets.\<close>

definition uuid_records_no_identifier :: "u8 list \<Rightarrow> bool" where
  "uuid_records_no_identifier uuid =
     (let saw_nonzero = list_ex (\<lambda>b. b \<noteq> 0x00) uuid;
          saw_not_ff = list_ex (\<lambda>b. b \<noteq> 0xFF) uuid
      in \<not> saw_nonzero \<or> \<not> saw_not_ff)"

definition hex_digits :: string where
  "hex_digits = ''0123456789abcdef''"

text \<open>The lambda \<open>fixed\<close>: the loop fills the positions from the last one backwards.\<close>

fun fixed_hex :: "u64 \<Rightarrow> nat \<Rightarrow> string" where
  "fixed_hex v 0 = []"
| "fixed_hex v (Suc width) = fixed_hex (drop_bit 4 v) width @ [hex_digits ! unat (v AND 0xF)]"

definition render_canonical_uuid :: "u32 \<Rightarrow> u16 \<Rightarrow> u16 \<Rightarrow> u8 list \<Rightarrow> string" where
  "render_canonical_uuid time_low time_mid time_hi_and_version remaining =
     fixed_hex (ucast time_low) 8 @ ''-'' @ fixed_hex (ucast time_mid) 4 @ ''-'' @
     fixed_hex (ucast time_hi_and_version) 4 @ ''-'' @
     fixed_hex (ucast (remaining ! 0)) 2 @ fixed_hex (ucast (remaining ! 1)) 2 @ ''-'' @
     concat (map (\<lambda>index. fixed_hex (ucast (remaining ! index)) 2) [2..<8])"

definition hex_digit_value :: "char \<Rightarrow> int" where
  "hex_digit_value letter =
     (if 48 \<le> uchar letter \<and> uchar letter \<le> 57 then int (uchar letter) - 48
      else if 97 \<le> uchar letter \<and> uchar letter \<le> 102 then int (uchar letter) - 97 + 10
      else if 65 \<le> uchar letter \<and> uchar letter \<le> 70 then int (uchar letter) - 65 + 10
      else -1)"

definition hyphen_positions :: "nat list" where
  "hyphen_positions = [8, 13, 18, 23]"

text \<open>
  The loop over \<open>position\<close>, with the characters still to be read as its second argument: the
  length check before it makes the position reach 36 when no character is left.
\<close>

fun uuid_loop :: "nat \<Rightarrow> string \<Rightarrow> bool \<Rightarrow> bool \<Rightarrow> string \<Rightarrow> string result" where
  "uuid_loop position [] all_zero all_ff canonical =
     (if all_zero \<or> all_ff then fail errc.not_found else Value canonical)"
| "uuid_loop position (c # rest) all_zero all_ff canonical =
     (if position \<in> set hyphen_positions then
        (if c \<noteq> CHR ''-'' then fail errc.malformed_data
         else uuid_loop (position + 1) rest all_zero all_ff (canonical @ ''-''))
      else let digit = hex_digit_value c in
        if digit < 0 then fail errc.malformed_data
        else uuid_loop (position + 1) rest (all_zero \<and> digit = 0) (all_ff \<and> digit = 15)
               (canonical @ [if digit < 10 then char_of (nat (48 + digit))
                             else char_of (nat (97 + digit - 10))]))"

definition validate_uuid_text :: "string result \<Rightarrow> string result" where
  "validate_uuid_text value =
     and_then value (\<lambda>s.
       fail_if (length s \<noteq> 36) errc.malformed_data (uuid_loop 0 s True True []))"

section \<open>SMBIOS structures and their strings\<close>

record structure_view =
  sv_formatted :: "u8 list"
  sv_formatted_size :: u32
  sv_strings :: "u8 list"
  sv_strings_size :: u32

record extracted_string =
  es_present :: bool
  es_value :: string

definition absent_string :: extracted_string where
  "absent_string = \<lparr>es_present = False, es_value = []\<rparr>"

text \<open>
  The loop of \<open>extract_string\<close>: \<open>seen\<close> is an 8-bit counter that wraps, \<open>start\<close> the offset of the
  string it counts.
\<close>

function extract_loop :: "structure_view \<Rightarrow> u8 \<Rightarrow> u8 \<Rightarrow> nat \<Rightarrow> extracted_string result" where
  "extract_loop structure index seen start =
     (let size = unat (sv_strings_size structure) in
      if start \<ge> size then fail errc.malformed_data
      else let stop = scan_up (\<lambda>i. sv_strings structure ! i \<noteq> 0) start size in
        if seen = index then
          Value (if stop > start
                 then \<lparr>es_present = True,
                       es_value = map to_char (take (stop - start) (drop start (sv_strings structure)))\<rparr>
                 else absent_string)
        else if stop \<ge> size then fail errc.malformed_data
        else extract_loop structure index (seen + 1) (stop + 1))"
  by pat_completeness auto
termination
  by (relation "measure (\<lambda>(structure, index, seen, start). unat (sv_strings_size structure) - start)")
     (auto simp: less_Suc_eq_le intro!: diff_less_mono2 scan_up_ge)

definition extract_string :: "structure_view \<Rightarrow> u8 \<Rightarrow> extracted_string result" where
  "extract_string structure index =
     (if index = 0 then Value absent_string else extract_loop structure index 1 0)"

text \<open>\<open>store_string\<close> writes \<open>present\<close> and \<open>destination\<close>; the model returns the two.\<close>

definition store_string :: "structure_view \<Rightarrow> u8 \<Rightarrow> (bool \<times> string) result" where
  "store_string structure index =
     and_then (extract_string structure index) (\<lambda>e.
       Value (es_present e, if es_present e then es_value e else []))"

section \<open>Ordering of device lists\<close>

definition compare_pci_devices :: "pci_device \<Rightarrow> pci_device \<Rightarrow> bool" where
  "compare_pci_devices = (\<lambda>a b.
     if pci_domain a \<noteq> pci_domain b then pci_domain a < pci_domain b
     else if pci_bus a \<noteq> pci_bus b then pci_bus a < pci_bus b
     else if pci_dev_number a \<noteq> pci_dev_number b then pci_dev_number a < pci_dev_number b
     else if pci_function a \<noteq> pci_function b then pci_function a < pci_function b
     else if pci_vendor_id a \<noteq> pci_vendor_id b then pci_vendor_id a < pci_vendor_id b
     else if pci_device_id a \<noteq> pci_device_id b then pci_device_id a < pci_device_id b
     else if pci_subsystem_vendor_id a \<noteq> pci_subsystem_vendor_id b
       then pci_subsystem_vendor_id a < pci_subsystem_vendor_id b
     else if pci_subsystem_device_id a \<noteq> pci_subsystem_device_id b
       then pci_subsystem_device_id a < pci_subsystem_device_id b
     else if pci_class_code a \<noteq> pci_class_code b then pci_class_code a < pci_class_code b
     else if pci_subclass_code a \<noteq> pci_subclass_code b
       then pci_subclass_code a < pci_subclass_code b
     else if pci_programming_interface a \<noteq> pci_programming_interface b
       then pci_programming_interface a < pci_programming_interface b
     else if pci_driver a \<noteq> pci_driver b then pci_driver a < pci_driver b
     else pci_slot_name a < pci_slot_name b)"

definition compare_usb_devices :: "usb_device \<Rightarrow> usb_device \<Rightarrow> bool" where
  "compare_usb_devices = (\<lambda>a b.
     if usb_bus_number a \<noteq> usb_bus_number b then usb_bus_number a < usb_bus_number b
     else if usb_device_address a \<noteq> usb_device_address b
       then usb_device_address a < usb_device_address b
     else if usb_port_number a \<noteq> usb_port_number b then usb_port_number a < usb_port_number b
     else if usb_vendor_id a \<noteq> usb_vendor_id b then usb_vendor_id a < usb_vendor_id b
     else if usb_product_id a \<noteq> usb_product_id b then usb_product_id a < usb_product_id b
     else if usb_bcd_device a \<noteq> usb_bcd_device b then usb_bcd_device a < usb_bcd_device b
     else if usb_device_class a \<noteq> usb_device_class b then usb_device_class a < usb_device_class b
     else if usb_device_subclass a \<noteq> usb_device_subclass b
       then usb_device_subclass a < usb_device_subclass b
     else if usb_device_protocol a \<noteq> usb_device_protocol b
       then usb_device_protocol a < usb_device_protocol b
     else if usb_manufacturer a \<noteq> usb_manufacturer b then usb_manufacturer a < usb_manufacturer b
     else if usb_product a \<noteq> usb_product b then usb_product a < usb_product b
     else usb_serial_number a < usb_serial_number b)"

text \<open>\<open>static_cast<std::uint8_t>(state)\<close>.\<close>

fun memory_device_state_value :: "memory_device_state \<Rightarrow> u8" where
  "memory_device_state_value memory_device_state.unknown = 0"
| "memory_device_state_value memory_device_state.not_installed = 1"
| "memory_device_state_value memory_device_state.installed = 2"

definition compare_memory_devices :: "memory_device \<Rightarrow> memory_device \<Rightarrow> bool" where
  "compare_memory_devices = (\<lambda>a b.
     if md_locator a \<noteq> md_locator b then md_locator a < md_locator b
     else if md_bank_locator a \<noteq> md_bank_locator b then md_bank_locator a < md_bank_locator b
     else if md_state a \<noteq> md_state b
       then memory_device_state_value (md_state a) < memory_device_state_value (md_state b)
     else if md_size_bytes a \<noteq> md_size_bytes b then md_size_bytes a < md_size_bytes b
     else if md_manufacturer a \<noteq> md_manufacturer b then md_manufacturer a < md_manufacturer b
     else if md_serial_number a \<noteq> md_serial_number b then md_serial_number a < md_serial_number b
     else md_part_number a < md_part_number b)"

section \<open>The structure table\<close>

definition read_le_u16 :: "u8 list \<Rightarrow> u16" where
  "read_le_u16 p = (ucast (p ! 0) OR push_bit 8 (ucast (p ! 1)))"

definition read_le_u32 :: "u8 list \<Rightarrow> u32" where
  "read_le_u32 p =
     (ucast (p ! 0) OR push_bit 8 (ucast (p ! 1)) OR push_bit 16 (ucast (p ! 2)) OR
      push_bit 24 (ucast (p ! 3)))"

text \<open>Offset 0Ch: the installation state and the size in bytes.\<close>

definition memory_size_field ::
    "structure_view \<Rightarrow> (memory_device_state \<times> u64 option) result" where
  "memory_size_field view =
     (let raw_size = read_le_u16 (drop 0x0C (sv_formatted view)) in
      if raw_size = 0x0000 then Value (memory_device_state.not_installed, None)
      else if raw_size = 0xFFFF then Value (memory_device_state.installed, None)
      else if raw_size = 0x7FFF then
        (if sv_formatted_size view < 0x20 then fail errc.malformed_data
         else let ext_size = read_le_u32 (drop 0x1C (sv_formatted view)) in
           if ext_size AND 0x80000000 \<noteq> 0 \<or> ext_size = 0 then fail errc.malformed_data
           else Value (memory_device_state.installed, Some (ucast ext_size * 1024 * 1024)))
      else if raw_size AND 0x8000 \<noteq> 0 then
        (let size_kb = ucast (raw_size AND 0x7FFF) :: u64 in
         if size_kb = 0 then fail errc.malformed_data
         else Value (memory_device_state.installed, Some (size_kb * 1024)))
      else Value (memory_device_state.installed, Some (ucast raw_size * 1024 * 1024)))"

text \<open>
  Offsets 15h and 20h: a 16-bit speed, with the value FFFFh referring to a 32-bit one further on.
  The field exists from size \<open>need\<close> on, the extended one from size \<open>ext_need\<close> on.
\<close>

definition memory_speed_field ::
    "structure_view \<Rightarrow> memory_speed_unit \<Rightarrow> u32 \<Rightarrow> nat \<Rightarrow> u32 \<Rightarrow> nat \<Rightarrow> memory_speed option result" where
  "memory_speed_field view speed_unit need offset ext_need ext_offset =
     (if sv_formatted_size view < need then Value None
      else let speed = read_le_u16 (drop offset (sv_formatted view)) in
        if speed \<noteq> 0 \<and> speed \<noteq> 0xFFFF
          then Value (Some \<lparr>ms_value = ucast speed, ms_unit = speed_unit\<rparr>)
        else if speed = 0xFFFF \<and> sv_formatted_size view \<ge> ext_need then
          (let ext_speed = read_le_u32 (drop ext_offset (sv_formatted view)) in
           if ext_speed AND 0x80000000 \<noteq> 0 then fail errc.malformed_data
           else if ext_speed \<noteq> 0 then Value (Some \<lparr>ms_value = ext_speed, ms_unit = speed_unit\<rparr>)
           else Value None)
        else Value None)"

text \<open>The optional strings: the index byte exists from size \<open>need\<close> on.\<close>

definition memory_string_field ::
    "structure_view \<Rightarrow> u32 \<Rightarrow> nat \<Rightarrow> string option result" where
  "memory_string_field view need offset =
     (if sv_formatted_size view < need then Value None
      else and_then (store_string view (sv_formatted view ! offset)) (\<lambda>(has, str).
        Value (if has \<and> str \<noteq> [] then Some str else None)))"

definition parse_memory_device ::
    "structure_view \<Rightarrow> memory_speed_unit \<Rightarrow> memory_device result" where
  "parse_memory_device view speed_unit =
     (if sv_formatted_size view < 0x15 then fail errc.malformed_data
      else
        and_then (store_string view (sv_formatted view ! 0x10)) (\<lambda>(has_locator, locator).
        and_then (memory_string_field view 0x15 0x11) (\<lambda>bank.
        and_then (memory_size_field view) (\<lambda>(state, size_bytes).
        and_then (memory_speed_field view speed_unit 0x17 0x15 0x58 0x54) (\<lambda>speed.
        and_then (memory_string_field view 0x18 0x17) (\<lambda>manufacturer.
        and_then (memory_string_field view 0x19 0x18) (\<lambda>serial.
        and_then (memory_string_field view 0x1B 0x1A) (\<lambda>part.
        and_then (memory_speed_field view speed_unit 0x22 0x20 0x5C 0x58) (\<lambda>configured.
          Value (default_memory_device
            \<lparr>md_locator := locator, md_bank_locator := bank, md_state := state,
             md_size_bytes := size_bytes,
             md_form_factor := classify_memory_form_factor (sv_formatted view ! 0x0E),
             md_type := classify_memory_type (sv_formatted view ! 0x12),
             md_speed := speed, md_manufacturer := manufacturer, md_serial_number := serial,
             md_part_number := part, md_configured_speed := configured\<rparr>))))))))))"

text \<open>The place of the double null that ends the string area, or \<open>size - 1\<close> when there is none.\<close>

definition double_null_from :: "u8 list \<Rightarrow> nat \<Rightarrow> nat" where
  "double_null_from data offset =
     scan_up (\<lambda>i. \<not> (data ! i = 0 \<and> data ! (i + 1) = 0)) offset (length data - 1)"

text \<open>
  The structure at \<open>cursor\<close>: its view and the place of its double null. The view's string size is
  a 32-bit cast, and the next cursor is computed from the cast value.
\<close>

definition structure_at :: "u8 list \<Rightarrow> nat \<Rightarrow> (structure_view \<times> nat) result" where
  "structure_at data cursor =
     (if length data - cursor < 4 then fail errc.malformed_data
      else let formatted_size = unat (data ! (cursor + 1)) in
        if formatted_size < 4 \<or> formatted_size > length data - cursor then fail errc.malformed_data
        else let strings_offset = cursor + formatted_size;
                 scan = double_null_from data strings_offset in
          if scan + 1 \<ge> length data then fail errc.malformed_data
          else Value (\<lparr>sv_formatted = drop cursor data, sv_formatted_size = of_nat formatted_size,
                       sv_strings = drop strings_offset data,
                       sv_strings_size = of_nat (scan - strings_offset)\<rparr>, scan))"

definition next_cursor :: "nat \<Rightarrow> structure_view \<Rightarrow> nat" where
  "next_cursor cursor view =
     cursor + unat (sv_formatted_size view) + unat (sv_strings_size view) + 2"

text \<open>
  The walk over the structures of a table, which the memory parser here and the identity parser of
  the Windows backend write out in the same words. \<open>step\<close> is what the body does with one structure:
  it gets the type byte, the view and the bytes behind the structure, and either goes on with a
  new state or breaks out of the loop. The walk returns the state and whether it was broken out of.
\<close>

datatype 's walk_step = Go_on 's | Break_off 's

function walk_structures ::
    "(u8 \<Rightarrow> structure_view \<Rightarrow> u8 list \<Rightarrow> 's \<Rightarrow> 's walk_step result) \<Rightarrow> u8 list \<Rightarrow> nat \<Rightarrow> 's \<Rightarrow>
     ('s \<times> bool) result" where
  "walk_structures step data cursor s =
     (if cursor < length data then
        (case structure_at data cursor of
           Unexpected c \<Rightarrow> Unexpected c
         | Value (view, scan) \<Rightarrow>
             (case step (data ! cursor) view (drop (scan + 2) data) s of
                Unexpected c \<Rightarrow> Unexpected c
              | Value (Break_off s') \<Rightarrow> Value (s', True)
              | Value (Go_on s') \<Rightarrow> walk_structures step data (next_cursor cursor view) s'))
      else Value (s, False))"
  by pat_completeness auto
termination
  by (relation "measure (\<lambda>(step, data, cursor, s). length data - cursor)")
     (auto simp: next_cursor_def)

definition memory_step ::
    "memory_speed_unit \<Rightarrow> u8 \<Rightarrow> structure_view \<Rightarrow> u8 list \<Rightarrow> memory_device list \<Rightarrow>
     memory_device list walk_step result" where
  "memory_step speed_unit type view trailing devices =
     (if type = 127 then
        (if sv_formatted_size view \<noteq> 4 then fail errc.malformed_data
         else if list_ex (\<lambda>b. b \<noteq> 0) trailing then fail errc.malformed_data
         else Value (Break_off devices))
      else if type = 17 then
        and_then (parse_memory_device view speed_unit) (\<lambda>dev. Value (Go_on (devices @ [dev])))
      else Value (Go_on devices))"

text \<open>A null pointer and an empty buffer are refused alike; the model's empty list stands for both.\<close>

definition parse_smbios_memory_devices ::
    "u8 list \<Rightarrow> memory_speed_unit \<Rightarrow> memory_device list result" where
  "parse_smbios_memory_devices data speed_unit =
     (if data = [] then fail errc.malformed_data
      else and_then (walk_structures (memory_step speed_unit) data 0 []) (\<lambda>(devices, saw_end).
             if \<not> saw_end then fail errc.malformed_data
             else Value (std_sort compare_memory_devices devices)))"

section \<open>Boundary validators\<close>

definition optional_utf8 :: "string option \<Rightarrow> bool" where
  "optional_utf8 text = (case text of None \<Rightarrow> True | Some s \<Rightarrow> is_valid_utf8 s)"

definition check_pci_device :: "pci_device \<Rightarrow> unit result" where
  "check_pci_device dev =
     fail_if (\<not> optional_utf8 (pci_driver dev)) errc.invalid_encoding
       (fail_if (\<not> optional_utf8 (pci_slot_name dev)) errc.invalid_encoding (Value ()))"

definition validate_pci_devices :: "pci_device list result \<Rightarrow> pci_device list result" where
  "validate_pci_devices devices = validate_each check_pci_device devices"

definition check_usb_device :: "usb_device \<Rightarrow> unit result" where
  "check_usb_device dev =
     fail_if (\<not> optional_utf8 (usb_manufacturer dev)) errc.invalid_encoding
       (fail_if (\<not> optional_utf8 (usb_product dev)) errc.invalid_encoding
         (fail_if (\<not> optional_utf8 (usb_serial_number dev)) errc.invalid_encoding (Value ())))"

definition validate_usb_devices :: "usb_device list result \<Rightarrow> usb_device list result" where
  "validate_usb_devices devices = validate_each check_usb_device devices"

definition check_memory_device :: "memory_device \<Rightarrow> unit result" where
  "check_memory_device dev =
     fail_if (\<not> is_valid_utf8 (md_locator dev)) errc.invalid_encoding
       (fail_if (\<not> optional_utf8 (md_bank_locator dev)) errc.invalid_encoding
         (fail_if (\<not> optional_utf8 (md_manufacturer dev)) errc.invalid_encoding
           (fail_if (\<not> optional_utf8 (md_serial_number dev)) errc.invalid_encoding
             (fail_if (\<not> optional_utf8 (md_part_number dev)) errc.invalid_encoding (Value ())))))"

definition validate_memory_devices :: "memory_device list result \<Rightarrow> memory_device list result" where
  "validate_memory_devices devices = validate_each check_memory_device devices"

declare extract_loop.simps [simp del]
declare walk_structures.simps [simp del]

end
