(* ===== verification/Smbios_Identity.thy ===== *)
theory Smbios_Identity
  imports Hardware
begin

text \<open>
  The reduction of a raw SMBIOS table to the machine's identity, from
  \<open>detail/hardware/windows.hpp\<close>: \<open>parse_smbios_table\<close> with its choice of the one motherboard and
  the one enclosure, the two-stage fetch of the table \<open>fetch_table_with\<close>, the header handling of
  \<open>collect_identity_facts\<close>, and the answers \<open>interpret_*\<close>. The file repeats \<open>structure_view\<close>,
  \<open>extract_string\<close>, \<open>store_string\<close> and the structure walk of \<open>detail/hardware/common.hpp\<close> word for
  word; their models are those of theory Hardware.

  A pair \<open>has_x, x_value\<close> of members is one field of type \<^typ>\<open>bool \<times> string\<close>. \<open>std::memcpy\<close> into an
  integer reads it in the byte order of the only platform of this file, which is little-endian.
\<close>

unbundle bit_operations_syntax

section \<open>State\<close>

record identity_facts =
  if_major_version :: u8
  if_minor_version :: u8
  if_firmware_vendor :: "bool \<times> string"
  if_firmware_version :: "bool \<times> string"
  if_firmware_release_date :: "bool \<times> string"
  if_system_manufacturer :: "bool \<times> string"
  if_system_product_name :: "bool \<times> string"
  if_system_product_version :: "bool \<times> string"
  if_has_uuid :: bool
  if_uuid :: "u8 list"
  if_board_manufacturer :: "bool \<times> string"
  if_board_product_name :: "bool \<times> string"
  if_board_version :: "bool \<times> string"
  if_board_selection_ambiguous :: bool
  if_has_chassis_type :: bool
  if_chassis_type_value :: u8
  if_chassis_selection_ambiguous :: bool

record board_candidate =
  bc_manufacturer :: "bool \<times> string"
  bc_product_name :: "bool \<times> string"
  bc_version :: "bool \<times> string"
  bc_handle :: u16
  bc_identifies_motherboard :: bool
  bc_has_chassis_handle :: bool
  bc_chassis_handle :: u16
  bc_has_containment_fields :: bool

record chassis_candidate =
  cc_handle :: u16
  cc_type :: u8

text \<open>
  The facts before any record is read. \<open>uuid_octets\<close> has no initialiser; the octets are only read
  once \<open>has_uuid\<close> is set, and the model starts them at zero.
\<close>

definition initial_facts :: "u8 \<Rightarrow> u8 \<Rightarrow> identity_facts" where
  "initial_facts major minor =
     \<lparr>if_major_version = major, if_minor_version = minor,
      if_firmware_vendor = (False, []), if_firmware_version = (False, []),
      if_firmware_release_date = (False, []), if_system_manufacturer = (False, []),
      if_system_product_name = (False, []), if_system_product_version = (False, []),
      if_has_uuid = False, if_uuid = replicate 16 0,
      if_board_manufacturer = (False, []), if_board_product_name = (False, []),
      if_board_version = (False, []), if_board_selection_ambiguous = False,
      if_has_chassis_type = False, if_chassis_type_value = 0,
      if_chassis_selection_ambiguous = False\<rparr>"

text \<open>The locals of \<open>parse_smbios_table\<close> that the loop updates.\<close>

record identity_walk =
  iw_facts :: identity_facts
  iw_saw_firmware :: bool
  iw_saw_system :: bool
  iw_boards :: "board_candidate list"
  iw_chassis :: "chassis_candidate list"

section \<open>One structure\<close>

text \<open>\<open>view.formatted[i]\<close> as a string index.\<close>

definition string_at :: "structure_view \<Rightarrow> nat \<Rightarrow> (bool \<times> string) result" where
  "string_at view i = store_string view (sv_formatted view ! i)"

definition firmware_record :: "structure_view \<Rightarrow> identity_walk \<Rightarrow> identity_walk result" where
  "firmware_record view w =
     (if iw_saw_firmware w then fail errc.malformed_data
      else if sv_formatted_size view < 0x12 then fail errc.malformed_data
      else
        and_then (string_at view 4) (\<lambda>vendor.
        and_then (string_at view 5) (\<lambda>version.
        and_then (string_at view 8) (\<lambda>date.
          Value (w\<lparr>iw_saw_firmware := True,
                   iw_facts := (iw_facts w)\<lparr>if_firmware_vendor := vendor,
                                            if_firmware_version := version,
                                            if_firmware_release_date := date\<rparr>\<rparr>)))))"

definition system_record :: "structure_view \<Rightarrow> identity_walk \<Rightarrow> identity_walk result" where
  "system_record view w =
     (if iw_saw_system w then fail errc.malformed_data
      else if sv_formatted_size view < 0x08 then fail errc.malformed_data
      else
        and_then (string_at view 4) (\<lambda>manufacturer.
        and_then (string_at view 5) (\<lambda>product.
        and_then (string_at view 6) (\<lambda>version.
          (let facts = (iw_facts w)\<lparr>if_system_manufacturer := manufacturer,
                                    if_system_product_name := product,
                                    if_system_product_version := version\<rparr>;
               facts' = (if sv_formatted_size view \<ge> 0x18
                         then facts\<lparr>if_uuid := take 16 (drop 0x08 (sv_formatted view)),
                                    if_has_uuid := True\<rparr>
                         else facts)
           in Value (w\<lparr>iw_saw_system := True, iw_facts := facts'\<rparr>))))))"

definition board_record :: "structure_view \<Rightarrow> identity_walk \<Rightarrow> identity_walk result" where
  "board_record view w =
     (if sv_formatted_size view < 0x08 then fail errc.malformed_data
      else
        and_then (string_at view 4) (\<lambda>manufacturer.
        and_then (string_at view 5) (\<lambda>product.
        and_then (string_at view 6) (\<lambda>version.
          (let p = sv_formatted view; n = sv_formatted_size view;
               contained = unat (p ! 0x0E) in
           if n \<ge> 0x0F \<and> 0x0F + contained * 2 > unat n then fail errc.malformed_data
           else Value (w\<lparr>iw_boards := iw_boards w @
             [\<lparr>bc_manufacturer = manufacturer, bc_product_name = product, bc_version = version,
               bc_handle = read_le_u16 (drop 2 p),
               bc_identifies_motherboard =
                 (n \<ge> 0x0A \<and> p ! 9 AND 0x01 \<noteq> 0) \<or> (n \<ge> 0x0E \<and> p ! 0x0D = 0x0A),
               bc_has_chassis_handle = (n \<ge> 0x0D),
               bc_chassis_handle = (if n \<ge> 0x0D then read_le_u16 (drop 0x0B p) else 0),
               bc_has_containment_fields = (n \<ge> 0x0F)\<rparr>]\<rparr>))))))"

definition enclosure_record :: "structure_view \<Rightarrow> identity_walk \<Rightarrow> identity_walk result" where
  "enclosure_record view w =
     (if sv_formatted_size view < 0x09 then fail errc.malformed_data
      else Value (w\<lparr>iw_chassis := iw_chassis w @
             [\<lparr>cc_handle = read_le_u16 (drop 2 (sv_formatted view)),
               cc_type = sv_formatted view ! 5 AND 0x7F\<rparr>]\<rparr>))"

text \<open>\<open>end_of_table_type\<close> is 127; whatever follows the end marker is ignored here.\<close>

definition identity_step ::
    "u8 \<Rightarrow> structure_view \<Rightarrow> u8 list \<Rightarrow> identity_walk \<Rightarrow> identity_walk walk_step result" where
  "identity_step type view trailing w =
     (if type = 127 then Value (Break_off w)
      else if type = 0 then and_then (firmware_record view w) (\<lambda>w'. Value (Go_on w'))
      else if type = 1 then and_then (system_record view w) (\<lambda>w'. Value (Go_on w'))
      else if type = 2 then and_then (board_record view w) (\<lambda>w'. Value (Go_on w'))
      else if type = 3 then and_then (enclosure_record view w) (\<lambda>w'. Value (Go_on w'))
      else Value (Go_on w))"

section \<open>Choosing the motherboard and its enclosure\<close>

fun identified_boards ::
    "board_candidate list \<Rightarrow> board_candidate option \<Rightarrow> nat \<Rightarrow> (board_candidate option \<times> nat) result"
where
  "identified_boards [] selected identified = Value (selected, identified)"
| "identified_boards (b # bs) selected identified =
     (if \<not> bc_has_containment_fields b then fail errc.malformed_data
      else if bc_identifies_motherboard b then identified_boards bs (Some b) (identified + 1)
      else identified_boards bs selected identified)"

text \<open>The selected board and \<open>board_selection_ambiguous\<close>.\<close>

definition select_board :: "board_candidate list \<Rightarrow> (board_candidate option \<times> bool) result" where
  "select_board boards =
     (if length boards = 1 then Value (Some (hd boards), False)
      else if boards \<noteq> [] then
        and_then (identified_boards boards None 0) (\<lambda>(selected, identified).
          if identified \<noteq> 1 then Value (None, True) else Value (selected, False))
      else Value (None, False))"

fun matching_chassis ::
    "u16 \<Rightarrow> chassis_candidate list \<Rightarrow> chassis_candidate option \<Rightarrow> nat \<Rightarrow> chassis_candidate option \<times> nat"
where
  "matching_chassis handle [] selected matching = (selected, matching)"
| "matching_chassis handle (c # cs) selected matching =
     (if cc_handle c = handle then matching_chassis handle cs (Some c) (matching + 1)
      else matching_chassis handle cs selected matching)"

definition select_chassis ::
    "chassis_candidate list \<Rightarrow> board_candidate option \<Rightarrow> chassis_candidate option" where
  "select_chassis records board =
     (if length records = 1 then Some (hd records)
      else (case board of
              Some b \<Rightarrow>
                if records \<noteq> [] \<and> bc_has_chassis_handle b then
                  (let (selected, matching) = matching_chassis (bc_chassis_handle b) records None 0
                   in if matching \<noteq> 1 then None else selected)
                else None
            | None \<Rightarrow> None))"

section \<open>The table\<close>

definition requires_end :: "u8 \<Rightarrow> u8 \<Rightarrow> bool" where
  "requires_end major minor \<longleftrightarrow> major > 2 \<or> (major = 2 \<and> minor \<ge> 2)"

definition store_board :: "board_candidate option \<Rightarrow> identity_facts \<Rightarrow> identity_facts" where
  "store_board selected facts =
     (case selected of
        None \<Rightarrow> facts
      | Some b \<Rightarrow> facts\<lparr>if_board_manufacturer := bc_manufacturer b,
                        if_board_product_name := bc_product_name b,
                        if_board_version := bc_version b\<rparr>)"

definition store_chassis ::
    "chassis_candidate option \<Rightarrow> nat \<Rightarrow> identity_facts \<Rightarrow> identity_facts" where
  "store_chassis selected records facts =
     (case selected of
        Some c \<Rightarrow> facts\<lparr>if_has_chassis_type := True, if_chassis_type_value := cc_type c\<rparr>
      | None \<Rightarrow> (if records > 1 then facts\<lparr>if_chassis_selection_ambiguous := True\<rparr> else facts))"

definition reduce_walk :: "identity_walk \<Rightarrow> identity_facts result" where
  "reduce_walk w =
     and_then (select_board (iw_boards w)) (\<lambda>(board, ambiguous).
       (let facts = (if ambiguous then (iw_facts w)\<lparr>if_board_selection_ambiguous := True\<rparr>
                     else iw_facts w)
        in Value (store_chassis (select_chassis (iw_chassis w) board) (length (iw_chassis w))
                    (store_board board facts))))"

definition initial_walk :: "u8 \<Rightarrow> u8 \<Rightarrow> identity_walk" where
  "initial_walk major minor =
     \<lparr>iw_facts = initial_facts major minor, iw_saw_firmware = False, iw_saw_system = False,
      iw_boards = [], iw_chassis = []\<rparr>"

definition parse_smbios_table :: "u8 list \<Rightarrow> u8 \<Rightarrow> u8 \<Rightarrow> identity_facts result" where
  "parse_smbios_table data major minor =
     and_then (walk_structures identity_step data 0 (initial_walk major minor)) (\<lambda>(w, saw_end).
       if requires_end major minor \<and> \<not> saw_end then fail errc.malformed_data
       else reduce_walk w)"

section \<open>Fetching the table\<close>

text \<open>
  The platform call is a parameter: \<open>query n capacity\<close> is the answer of the \<open>n\<close>-th call, the size
  it returns and the bytes it has put into the buffer; \<open>last_error n\<close> is the error the platform
  records at that call.
\<close>

definition maximum_table_size :: nat where
  "maximum_table_size = 1024 * 1024"

definition raw_smbios_header_size :: nat where
  "raw_smbios_header_size = 8"

fun fetch_attempts ::
    "(nat \<Rightarrow> nat \<Rightarrow> u32 \<times> u8 list) \<Rightarrow> (nat \<Rightarrow> error_code) \<Rightarrow> nat \<Rightarrow> nat \<Rightarrow> nat \<Rightarrow> u8 list result" where
  "fetch_attempts query last_error 0 call capacity = fail errc.temporarily_unavailable"
| "fetch_attempts query last_error (Suc left) call capacity =
     (let (written, buffer) = query call capacity in
      if written = 0 then Unexpected (last_error call)
      else if unat written > maximum_table_size then fail errc.value_too_large
      else if unat written > capacity
        then fetch_attempts query last_error left (call + 1) (unat written)
      else if unat written \<le> raw_smbios_header_size then fail errc.malformed_data
      else Value (take (unat written) buffer))"

definition fetch_table_with ::
    "(nat \<Rightarrow> nat \<Rightarrow> u32 \<times> u8 list) \<Rightarrow> (nat \<Rightarrow> error_code) \<Rightarrow> u8 list result" where
  "fetch_table_with query last_error =
     (let initial_required = fst (query 0 0) in
      if initial_required = 0 then Unexpected (last_error 0)
      else if unat initial_required > maximum_table_size then fail errc.value_too_large
      else fetch_attempts query last_error 3 1 (unat initial_required))"

definition collect_identity_facts ::
    "(nat \<Rightarrow> nat \<Rightarrow> u32 \<times> u8 list) \<Rightarrow> (nat \<Rightarrow> error_code) \<Rightarrow> identity_facts result" where
  "collect_identity_facts query last_error =
     and_then (fetch_table_with query last_error) (\<lambda>table.
       (let header_length = read_le_u32 (drop 4 table) in
        if header_length > of_nat (length table - raw_smbios_header_size)
        then fail errc.malformed_data
        else parse_smbios_table
               (take (unat header_length) (drop raw_smbios_header_size table))
               (table ! 1) (table ! 2)))"

section \<open>Answers\<close>

definition interpret_text :: "bool \<times> string \<Rightarrow> string result" where
  "interpret_text slot = (let (present, value) = slot in
     if \<not> present then fail errc.not_found else Value value)"

definition interpret_chassis :: "identity_facts \<Rightarrow> form_factor result" where
  "interpret_chassis facts =
     (if if_chassis_selection_ambiguous facts then fail errc.not_supported
      else if \<not> if_has_chassis_type facts then fail errc.not_found
      else classify_chassis (if_chassis_type_value facts))"

definition interpret_board_text :: "identity_facts \<Rightarrow> bool \<times> string \<Rightarrow> string result" where
  "interpret_board_text facts slot =
     (if if_board_selection_ambiguous facts then fail errc.not_supported
      else interpret_text slot)"

definition interpret_uuid :: "identity_facts \<Rightarrow> string result" where
  "interpret_uuid facts =
     (if \<not> if_has_uuid facts then fail errc.not_found
      else if uuid_records_no_identifier (if_uuid facts) then fail errc.not_found
      else
        let b = (\<lambda>i. ucast (if_uuid facts ! i) :: u32);
            little_endian_fields =
              (if_major_version facts > 2 \<or>
               (if_major_version facts = 2 \<and> if_minor_version facts \<ge> 6));
            time_low =
              (if little_endian_fields
               then b 0 OR push_bit 8 (b 1) OR push_bit 16 (b 2) OR push_bit 24 (b 3)
               else push_bit 24 (b 0) OR push_bit 16 (b 1) OR push_bit 8 (b 2) OR b 3);
            time_mid =
              (if little_endian_fields then b 4 OR push_bit 8 (b 5)
               else push_bit 8 (b 4) OR b 5);
            time_hi_and_version =
              (if little_endian_fields then b 6 OR push_bit 8 (b 7)
               else push_bit 8 (b 6) OR b 7)
        in Value (render_canonical_uuid time_low (ucast time_mid) (ucast time_hi_and_version)
                    (drop 8 (if_uuid facts))))"

section \<open>Queries\<close>

text \<open>
  Every query collects the facts anew and reduces them to one answer; \<open>facts\<close> is the outcome of
  \<^const>\<open>collect_identity_facts\<close>.
\<close>

definition system_manufacturer :: "identity_facts result \<Rightarrow> string result" where
  "system_manufacturer facts = and_then facts (\<lambda>f. interpret_text (if_system_manufacturer f))"

definition system_product_name :: "identity_facts result \<Rightarrow> string result" where
  "system_product_name facts = and_then facts (\<lambda>f. interpret_text (if_system_product_name f))"

definition system_product_version :: "identity_facts result \<Rightarrow> string result" where
  "system_product_version facts = and_then facts (\<lambda>f. interpret_text (if_system_product_version f))"

definition motherboard_manufacturer :: "identity_facts result \<Rightarrow> string result" where
  "motherboard_manufacturer facts =
     and_then facts (\<lambda>f. interpret_board_text f (if_board_manufacturer f))"

definition motherboard_product_name :: "identity_facts result \<Rightarrow> string result" where
  "motherboard_product_name facts =
     and_then facts (\<lambda>f. interpret_board_text f (if_board_product_name f))"

definition motherboard_version :: "identity_facts result \<Rightarrow> string result" where
  "motherboard_version facts = and_then facts (\<lambda>f. interpret_board_text f (if_board_version f))"

definition firmware_vendor :: "identity_facts result \<Rightarrow> string result" where
  "firmware_vendor facts = and_then facts (\<lambda>f. interpret_text (if_firmware_vendor f))"

definition firmware_version :: "identity_facts result \<Rightarrow> string result" where
  "firmware_version facts = and_then facts (\<lambda>f. interpret_text (if_firmware_version f))"

definition firmware_release_date :: "identity_facts result \<Rightarrow> string result" where
  "firmware_release_date facts = and_then facts (\<lambda>f. interpret_text (if_firmware_release_date f))"

definition chassis_form_factor :: "identity_facts result \<Rightarrow> form_factor result" where
  "chassis_form_factor facts = and_then facts interpret_chassis"

definition hardware_uuid :: "identity_facts result \<Rightarrow> string result" where
  "hardware_uuid facts = and_then facts interpret_uuid"

end
