(* ===== verification/Uuid_Correct.thy ===== *)
theory Uuid_Correct
  imports Smbios_Identity
begin

text \<open>
  UUID text and the recorded UUID octets: the exact behaviour of \<open>validate_uuid_text\<close>, its contract
  as a boundary normaliser, and the round trip from the octets of an SMBIOS system record through
  \<open>interpret_uuid\<close> and \<open>render_canonical_uuid\<close>.
\<close>

unbundle bit_operations_syntax

section \<open>Hexadecimal text\<close>

definition hex_char :: "nat \<Rightarrow> char" where
  "hex_char d = (if d < 10 then char_of (48 + d) else char_of (87 + d))"

lemma hex_digits_nth: "d < 16 \<Longrightarrow> hex_digits ! d = hex_char d"
proof -
  assume "d < 16"
  then have "d \<in> set [0..<16]" by simp
  moreover have "\<forall>d\<in>set [0..<16]. hex_digits ! d = hex_char d" by code_simp
  ultimately show ?thesis by blast
qed

lemma hex_digit_value_range: "hex_digit_value c \<in> {-1..15}"
  by (auto simp: hex_digit_value_def)

lemma hex_digit_value_char: "d < 16 \<Longrightarrow> hex_digit_value (hex_char d) = int d"
  by (auto simp: hex_digit_value_def hex_char_def)

lemma hex_char_inj: "d < 16 \<Longrightarrow> e < 16 \<Longrightarrow> hex_char d = hex_char e \<longleftrightarrow> d = e"
  by (metis hex_digit_value_char of_nat_eq_iff)

text \<open>The reference rendering: the digits of a number in base sixteen, most significant first.\<close>

fun hex_text :: "nat \<Rightarrow> nat \<Rightarrow> string" where
  "hex_text n 0 = []"
| "hex_text n (Suc w) = hex_text (n div 16) w @ [hex_char (n mod 16)]"

lemma fixed_hex_text: "fixed_hex v w = hex_text (unat v) w"
  by (induction v w rule: fixed_hex.induct) (simp_all add: hex_digits_nth word_nat_simps)

lemma length_hex_text [simp]: "length (hex_text n w) = w"
  by (induction n w rule: hex_text.induct) simp_all

lemma hex_text_inj: "hex_text m w = hex_text n w \<Longrightarrow> m mod 16 ^ w = n mod 16 ^ w"
proof (induction w arbitrary: m n)
  case (Suc w)
  have "hex_text (m div 16) w = hex_text (n div 16) w" "hex_char (m mod 16) = hex_char (n mod 16)"
    using Suc.prems by simp_all
  then have "m div 16 mod 16 ^ w = n div 16 mod 16 ^ w \<and> m mod 16 = n mod 16"
    using hex_char_inj [of "m mod 16" "n mod 16"] by (auto dest: Suc.IH)
  then show ?case
    using mod_mult2_eq [of m 16 "16 ^ w"] mod_mult2_eq [of n 16 "16 ^ w"]
    by simp
qed simp

lemma hex_text_zero: "hex_text n w = replicate w (hex_char 0) \<longleftrightarrow> n mod 16 ^ w = 0"
proof -
  have z: "hex_text 0 w = replicate w (hex_char 0)"
    by (induction w) (simp_all add: replicate_append_same)
  have "hex_text n w = hex_text (n mod 16 ^ w) w"
    by (induction w arbitrary: n) (simp_all add: mod_mult2_eq)
  then show ?thesis using z hex_text_inj [of n w 0] by auto
qed

lemma hex_text_digits: "c \<in> set (hex_text n w) \<Longrightarrow> \<exists>d < 16. c = hex_char d"
proof (induction n w rule: hex_text.induct)
  case (2 n w)
  have "n mod 16 < 16" by simp
  show ?case
  proof (cases "c = hex_char (n mod 16)")
    case True
    with \<open>n mod 16 < 16\<close> show ?thesis by blast
  next
    case False
    with 2 show ?thesis by simp
  qed
qed simp

section \<open>UUID\<close>


text \<open>The shape of accepted text and its lower-case form.\<close>

definition uuid_char_ok :: "nat \<Rightarrow> char \<Rightarrow> bool" where
  "uuid_char_ok i c = (if i \<in> {8, 13, 18, 23} then c = CHR ''-'' else 0 \<le> hex_digit_value c)"

definition uuid_shape :: "string \<Rightarrow> bool" where
  "uuid_shape s \<longleftrightarrow> length s = 36 \<and> (\<forall>i < 36. uuid_char_ok i (s ! i))"

definition uuid_lower :: "char \<Rightarrow> char" where
  "uuid_lower c = (if c = CHR ''-'' then c else hex_char (nat (hex_digit_value c)))"

text \<open>All digits of the text have the value \<open>d\<close>.\<close>

definition uuid_all :: "int \<Rightarrow> string \<Rightarrow> bool" where
  "uuid_all d s \<longleftrightarrow> (\<forall>c \<in> set s. c \<noteq> CHR ''-'' \<longrightarrow> hex_digit_value c = d)"

lemma hyphen_value [simp]: "hex_digit_value CHR ''-'' = -1"
  by (simp add: hex_digit_value_def)

lemma canonical_digit:
  "0 \<le> hex_digit_value c \<Longrightarrow>
   (if hex_digit_value c < 10 then char_of (nat (48 + hex_digit_value c))
    else char_of (nat (97 + hex_digit_value c - 10))) = uuid_lower c"
proof -
  assume "0 \<le> hex_digit_value c"
  then obtain d where d: "hex_digit_value c = int d" using zero_le_imp_eq_int by blast
  moreover from this have "c \<noteq> CHR ''-''" by auto
  moreover have "nat (48 + int d) = 48 + d" "\<not> d < 10 \<Longrightarrow> nat (97 + int d - 10) = 87 + d" by simp_all
  ultimately show ?thesis by (auto simp: uuid_lower_def hex_char_def)
qed

lemma uuid_loop_exact:
  "uuid_loop p s az af can =
     (if \<exists>i < length s. \<not> uuid_char_ok (p + i) (s ! i) then fail errc.malformed_data
      else if az \<and> uuid_all 0 s \<or> af \<and> uuid_all 15 s then fail errc.not_found
      else Value (can @ map uuid_lower s))"
proof (induction p s az af can rule: uuid_loop.induct)
  case (2 p c s az af can)
  have split: "(\<exists>i < length (c # s). \<not> uuid_char_ok (p + i) ((c # s) ! i)) \<longleftrightarrow>
    \<not> uuid_char_ok p c \<or> (\<exists>i < length s. \<not> uuid_char_ok (p + 1 + i) (s ! i))"
    by (simp add: Ex_less_Suc2)
  show ?case
  proof (cases "p \<in> set hyphen_positions")
    case True
    then have ok: "uuid_char_ok p c \<longleftrightarrow> c = CHR ''-''"
      by (simp add: uuid_char_ok_def hyphen_positions_def)
    have all: "uuid_all d (CHR ''-'' # s) = uuid_all d s" for d
      by (simp add: uuid_all_def)
    show ?thesis
    proof (cases "c = CHR ''-''")
      case hyphen: True
      then show ?thesis
        using True 2(1) ok unfolding split by (simp add: all uuid_lower_def)
    next
      case False
      then show ?thesis using True ok unfolding split by simp
    qed
  next
    case False
    then have ok: "uuid_char_ok p c \<longleftrightarrow> 0 \<le> hex_digit_value c"
      by (auto simp: uuid_char_ok_def hyphen_positions_def)
    have all: "uuid_all d (c # s) \<longleftrightarrow> hex_digit_value c = d \<and> uuid_all d s"
      if "0 \<le> hex_digit_value c" for d
    proof -
      from that have "c \<noteq> CHR ''-''" by auto
      then show ?thesis by (simp add: uuid_all_def)
    qed
    show ?thesis
    proof (cases "0 \<le> hex_digit_value c")
      case neg: False
      then show ?thesis using False ok unfolding split by simp
    next
      case True
      have step: "uuid_loop p (c # s) az af can =
          uuid_loop (p + 1) s (az \<and> hex_digit_value c = 0) (af \<and> hex_digit_value c = 15)
            (can @ [uuid_lower c])"
        using False True canonical_digit [OF True] by (simp add: Let_def)
      have IH: "uuid_loop (p + 1) s (az \<and> hex_digit_value c = 0) (af \<and> hex_digit_value c = 15)
            (can @ [uuid_lower c]) =
         (if \<exists>i < length s. \<not> uuid_char_ok (p + 1 + i) (s ! i) then fail errc.malformed_data
          else if (az \<and> hex_digit_value c = 0) \<and> uuid_all 0 s
               \<or> (af \<and> hex_digit_value c = 15) \<and> uuid_all 15 s then fail errc.not_found
          else Value ((can @ [uuid_lower c]) @ map uuid_lower s))"
        using 2(2) [OF False refl] True unfolding canonical_digit [OF True] by simp
      show ?thesis
        unfolding step IH split ok all [OF True] using True by simp
    qed
  qed
qed (simp add: uuid_all_def)

lemma validate_uuid_text_exact:
  "validate_uuid_text (Value s) =
     (if \<not> uuid_shape s then fail errc.malformed_data
      else if uuid_all 0 s \<or> uuid_all 15 s then fail errc.not_found
      else Value (map uuid_lower s))"
  by (cases "length s = 36") (simp_all add: validate_uuid_text_def uuid_loop_exact uuid_shape_def)

text \<open>What the public query promises: canonical text that names an identifier.\<close>

definition canonical_uuid :: "string \<Rightarrow> bool" where
  "canonical_uuid s \<longleftrightarrow> uuid_shape s \<and> map uuid_lower s = s \<and> \<not> uuid_all 0 s \<and> \<not> uuid_all 15 s"

lemma uuid_lower_cases:
  "uuid_char_ok i c \<Longrightarrow> uuid_lower c = c \<and> c = CHR ''-'' \<or>
     c \<noteq> CHR ''-'' \<and> uuid_lower c \<noteq> CHR ''-'' \<and> hex_digit_value (uuid_lower c) = hex_digit_value c"
proof (cases "c = CHR ''-''")
  case False
  assume "uuid_char_ok i c"
  with False have c: "0 \<le> hex_digit_value c" by (simp add: uuid_char_ok_def split: if_splits)
  then have v: "hex_digit_value (uuid_lower c) = hex_digit_value c"
    using hex_digit_value_range [of c] hex_digit_value_char [of "nat (hex_digit_value c)"] False
    by (simp add: uuid_lower_def)
  with c have "uuid_lower c \<noteq> CHR ''-''" by (metis hyphen_value not_one_le_zero neg_0_le_iff_le)
  with v False show ?thesis by simp
qed (simp add: uuid_lower_def)

lemma uuid_char_ok_lower: "uuid_char_ok i c \<Longrightarrow> uuid_char_ok i (uuid_lower c)"
  using uuid_lower_cases [of i c] by (auto simp: uuid_char_ok_def split: if_splits)

lemma uuid_lower_idem: "uuid_char_ok i c \<Longrightarrow> uuid_lower (uuid_lower c) = uuid_lower c"
  using uuid_lower_cases [of i c] uuid_lower_def [of c] uuid_lower_def [of "uuid_lower c"] by auto

lemma uuid_shape_lower: "uuid_shape s \<Longrightarrow> uuid_shape (map uuid_lower s)"
  by (simp add: uuid_shape_def uuid_char_ok_lower)

lemma uuid_shape_chars: "uuid_shape s \<Longrightarrow> c \<in> set s \<Longrightarrow> \<exists>i. uuid_char_ok i c"
  by (auto simp: uuid_shape_def in_set_conv_nth)

lemma uuid_all_lower: "uuid_shape s \<Longrightarrow> uuid_all d (map uuid_lower s) = uuid_all d s"
  unfolding uuid_all_def using uuid_shape_chars uuid_lower_cases by (simp, metis)

interpretation uuid: boundary_normaliser validate_uuid_text canonical_uuid
proof unfold_locales
  show "validate_uuid_text (Unexpected c) = Unexpected c" for c
    by (simp add: validate_uuid_text_def)
  show "canonical_uuid v \<Longrightarrow> validate_uuid_text (Value v) = Value v" for v
    by (simp add: canonical_uuid_def validate_uuid_text_exact)
  show "canonical_uuid w" if "validate_uuid_text (Value v) = Value w" for v w
  proof -
    from that have v: "uuid_shape v" "\<not> uuid_all 0 v" "\<not> uuid_all 15 v" "w = map uuid_lower v"
      by (simp_all add: validate_uuid_text_exact split: if_splits)
    moreover have "map uuid_lower (map uuid_lower v) = map uuid_lower v"
      using uuid_shape_chars [OF v(1)] uuid_lower_idem by auto
    ultimately show ?thesis
      by (simp add: canonical_uuid_def uuid_shape_lower uuid_all_lower del: map_map)
  qed
qed

text \<open>
  Whatever a backend delivers, \<open>validate_uuid_text\<close> returns text exactly when it is a
  canonical lower-case hyphenated UUID that is not an SMBIOS absence marker, the values it can
  return are precisely those texts, and validating twice changes nothing.
\<close>

theorem validate_uuid_text_normalises:
  "((\<exists>r. validate_uuid_text r = Value w) \<longleftrightarrow> canonical_uuid w) \<and>
   validate_uuid_text (validate_uuid_text r) = validate_uuid_text r"
  using uuid.range_iff_ok uuid.validate_idem by blast

section \<open>Rendering\<close>

lemma hex_text_value: "c \<in> set (hex_text n w) \<Longrightarrow> 0 \<le> hex_digit_value c \<and> c \<noteq> CHR ''-'' \<and> uuid_lower c = c"
proof -
  assume "c \<in> set (hex_text n w)"
  then obtain d where d: "d < 16" "c = hex_char d" using hex_text_digits by blast
  then have v: "hex_digit_value c = int d" by (simp add: hex_digit_value_char)
  moreover have "c \<noteq> CHR ''-''" using v by auto
  ultimately show ?thesis using d by (simp add: uuid_lower_def)
qed

lemma uuid_all_append [simp]: "uuid_all d (s @ t) \<longleftrightarrow> uuid_all d s \<and> uuid_all d t"
  by (auto simp: uuid_all_def)

lemma uuid_all_hyphen [simp]: "uuid_all d (CHR ''-'' # t) \<longleftrightarrow> uuid_all d t"
  by (simp add: uuid_all_def)

lemma uuid_all_hex:
  assumes "d < 16"
  shows "uuid_all (int d) (hex_text n w) \<longleftrightarrow> hex_text n w = replicate w (hex_char d)"
proof
  assume "uuid_all (int d) (hex_text n w)"
  then have "c = hex_char d" if c: "c \<in> set (hex_text n w)" for c
  proof -
    obtain e where e: "e < 16" "c = hex_char e" using hex_text_digits [OF c] by blast
    have "hex_digit_value c = int d"
      using \<open>uuid_all (int d) (hex_text n w)\<close> c hex_text_value [OF c] unfolding uuid_all_def by blast
    with e show ?thesis by (simp add: hex_digit_value_char)
  qed
  then show "hex_text n w = replicate w (hex_char d)"
    using replicate_length_same [of "hex_text n w" "hex_char d"] by simp
next
  assume "hex_text n w = replicate w (hex_char d)"
  then have "c \<in> set (hex_text n w) \<Longrightarrow> c = hex_char d" for c
    by (metis in_set_replicate)
  then show "uuid_all (int d) (hex_text n w)"
    using assms hex_digit_value_char [of d] unfolding uuid_all_def by blast
qed

lemma hex_text_ff: "hex_text n w = replicate w (hex_char 15) \<longleftrightarrow> n mod 16 ^ w = 16 ^ w - 1"
proof -
  have z: "hex_text (16 ^ w - 1) w = replicate w (hex_char 15)"
  proof (induction w)
    case (Suc w)
    have "(16 ^ Suc w - 1) div 16 = 16 ^ w - (1::nat)" "(16 ^ Suc w - 1) mod 16 = (15::nat)"
    proof -
      obtain k where "16 ^ w = Suc k" using gr0_implies_Suc [of "16 ^ w"] by auto
      then have e: "16 ^ Suc w - 1 = 15 + (16 ^ w - 1) * (16::nat)" by simp
      show "(16 ^ Suc w - 1) div 16 = 16 ^ w - (1::nat)" unfolding e by simp
      show "(16 ^ Suc w - 1) mod 16 = (15::nat)" unfolding e by simp
    qed
    then show ?case using Suc by (simp add: replicate_append_same del: power_Suc)
  qed simp
  have "hex_text n w = hex_text (n mod 16 ^ w) w"
    by (induction w arbitrary: n) (simp_all add: mod_mult2_eq)
  moreover have "(16 ^ w - 1) mod 16 ^ w = (16 ^ w - 1 :: nat)" by (rule mod_less) simp
  ultimately show ?thesis using z hex_text_inj [of n w "16 ^ w - 1"] by metis
qed

definition uuid_ok_from :: "nat \<Rightarrow> string \<Rightarrow> bool" where
  "uuid_ok_from p s \<longleftrightarrow> (\<forall>i < length s. uuid_char_ok (p + i) (s ! i))"

lemma uuid_ok_from_append:
  "uuid_ok_from p (s @ t) \<longleftrightarrow> uuid_ok_from p s \<and> uuid_ok_from (p + length s) t"
proof -
  have "(\<forall>i < m + n. P i) \<longleftrightarrow> (\<forall>i < m. P i) \<and> (\<forall>j < n. P (m + j))" for P and m n :: nat
    by (metis add_diff_inverse_nat add_less_cancel_left trans_less_add1)
  from this [of "length s" "length t"] show ?thesis
    by (simp add: uuid_ok_from_def nth_append add.assoc)
qed

lemma uuid_ok_from_hyphen:
  "p \<in> {8, 13, 18, 23} \<Longrightarrow> uuid_ok_from p (CHR ''-'' # t) \<longleftrightarrow> uuid_ok_from (Suc p) t"
  using uuid_ok_from_append [of p "''-''" t] by (simp add: uuid_ok_from_def uuid_char_ok_def)

lemma uuid_ok_from_hex:
  "{8, 13, 18, 23} \<inter> {p..<p + w} = {} \<Longrightarrow> uuid_ok_from p (hex_text n w)"
proof -
  assume a: "{8, 13, 18, 23} \<inter> {p..<p + w} = {}"
  have "uuid_char_ok (p + i) (hex_text n w ! i)" if "i < w" for i
  proof -
    have "p + i \<notin> {8, 13, 18, 23}" using a that by (metis IntI atLeastLessThan_iff empty_iff le_add1 nat_add_left_cancel_less)
    moreover have "0 \<le> hex_digit_value (hex_text n w ! i)"
      using that hex_text_value [of "hex_text n w ! i" n w] by simp
    ultimately show ?thesis unfolding uuid_char_ok_def by simp
  qed
  then show ?thesis by (simp add: uuid_ok_from_def)
qed

text \<open>The reference text of a UUID given by its fields and its eight remaining octets.\<close>

lemma render_uuid_text:
  assumes "length r = 8"
  shows "render_canonical_uuid a b c r =
    hex_text (unat a) 8 @ CHR ''-'' # hex_text (unat b) 4 @ CHR ''-'' # hex_text (unat c) 4 @
    CHR ''-'' # hex_text (unat (r ! 0)) 2 @ hex_text (unat (r ! 1)) 2 @ CHR ''-'' #
    hex_text (unat (r ! 2)) 2 @ hex_text (unat (r ! 3)) 2 @ hex_text (unat (r ! 4)) 2 @
    hex_text (unat (r ! 5)) 2 @ hex_text (unat (r ! 6)) 2 @ hex_text (unat (r ! 7)) 2"
proof -
  have "[2..<8] = [2, 3, 4, 5, 6, 7 :: nat]" by code_simp
  then show ?thesis
    by (simp add: render_canonical_uuid_def fixed_hex_text unat_ucast_up)
qed

lemma render_uuid_shape:
  assumes "length r = 8"
  shows "uuid_shape (render_canonical_uuid a b c r)"
proof -
  have "uuid_ok_from 0 (render_canonical_uuid a b c r)"
    by (simp add: render_uuid_text [OF assms] uuid_ok_from_append uuid_ok_from_hyphen
        uuid_ok_from_hex)
  moreover have "length (render_canonical_uuid a b c r) = 36"
    by (simp add: render_uuid_text [OF assms])
  ultimately show ?thesis by (simp add: uuid_shape_def uuid_ok_from_def)
qed

lemma hex_text_fixed: "map uuid_lower (hex_text n w) = hex_text n w"
  by (rule map_idI) (simp add: hex_text_value)

lemma render_uuid_lower:
  assumes "length r = 8"
  shows "map uuid_lower (render_canonical_uuid a b c r) = render_canonical_uuid a b c r"
  by (simp add: render_uuid_text [OF assms] hex_text_fixed) (simp add: uuid_lower_def)

lemma hex_field_zero:
  "LENGTH('a) = 4 * w \<Longrightarrow> uuid_all 0 (hex_text (unat x) w) \<longleftrightarrow> x = 0" for x :: "'a::len word"
proof -
  assume w: "LENGTH('a) = 4 * w"
  then have "unat x < 16 ^ w" using unsigned_less [of x] by (simp add: power_mult)
  then show ?thesis
    using uuid_all_hex [of 0 "unat x" w] by (simp add: hex_text_zero unat_eq_zero)
qed

lemma hex_field_ff:
  "LENGTH('a) = 4 * w \<Longrightarrow> uuid_all 15 (hex_text (unat x) w) \<longleftrightarrow> x = -1" for x :: "'a::len word"
proof -
  assume w: "LENGTH('a) = 4 * w"
  then have p: "(16::nat) ^ w = 2 ^ LENGTH('a)" by (simp add: power_mult)
  have "unat (-1 :: 'a word) = 2 ^ LENGTH('a) - 1"
    by (simp add: unsigned_minus_1_eq_mask mask_eq_exp_minus_1)
  then show ?thesis
    using uuid_all_hex [of 15 "unat x" w] unsigned_less [of x]
    by (simp add: hex_text_ff p unsigned_word_eqI word_unat_eq_iff)
qed

lemma all_less_8: "(\<forall>i < 8. P i) \<longleftrightarrow> P 0 \<and> P 1 \<and> P 2 \<and> P 3 \<and> P 4 \<and> P 5 \<and> P 6 \<and> P (7::nat)"
  by (simp add: numeral_eq_Suc All_less_Suc conj_ac)

lemma render_uuid_zero:
  assumes "length r = 8"
  shows "uuid_all 0 (render_canonical_uuid a b c r) \<longleftrightarrow> a = 0 \<and> b = 0 \<and> c = 0 \<and> (\<forall>x \<in> set r. x = 0)"
  using assms
  by (simp add: render_uuid_text [OF assms] hex_field_zero all_set_conv_all_nth all_less_8 conj_ac)

lemma render_uuid_ff:
  assumes "length r = 8"
  shows "uuid_all 15 (render_canonical_uuid a b c r) \<longleftrightarrow>
    a = -1 \<and> b = -1 \<and> c = -1 \<and> (\<forall>x \<in> set r. x = -1)"
  using assms
  by (simp add: render_uuid_text [OF assms] hex_field_ff all_set_conv_all_nth all_less_8 conj_ac)

text \<open>
  Rendering a UUID and validating the text gives the text back, except that the two values
  SMBIOS reserves for "no identifier" are reported as \<open>not_found\<close>.
\<close>

lemma render_validate_uuid:
  "length r = 8 \<Longrightarrow>
   validate_uuid_text (Value (render_canonical_uuid a b c r)) =
     (if (a = 0 \<and> b = 0 \<and> c = 0 \<and> (\<forall>x \<in> set r. x = 0)) \<or>
         (a = -1 \<and> b = -1 \<and> c = -1 \<and> (\<forall>x \<in> set r. x = -1))
      then fail errc.not_found else Value (render_canonical_uuid a b c r))"
  by (simp only: validate_uuid_text_exact render_uuid_shape render_uuid_zero render_uuid_ff
      render_uuid_lower not_True_eq_False if_False)

lemma hex_field_inj:
  "LENGTH('a) = 4 * w \<Longrightarrow> hex_text (unat x) w = hex_text (unat y) w \<Longrightarrow> x = y" for x y :: "'a::len word"
proof -
  assume w: "LENGTH('a) = 4 * w" and e: "hex_text (unat x) w = hex_text (unat y) w"
  have "unat x < 16 ^ w" "unat y < 16 ^ w"
    using w unsigned_less [of x] unsigned_less [of y] by (simp_all add: power_mult)
  then show "x = y" using hex_text_inj [OF e] by (simp add: word_unat_eq_iff)
qed

lemma render_uuid_inj:
  assumes "length r = 8" "length r' = 8"
    and "render_canonical_uuid a b c r = render_canonical_uuid a' b' c' r'"
  shows "a = a' \<and> b = b' \<and> c = c' \<and> r = r'"
proof -
  note e = assms(3) [unfolded render_uuid_text [OF assms(1)] render_uuid_text [OF assms(2)]]
  have "a = a'" "b = b'" "c = c'" "\<forall>i < 8. r ! i = r' ! i"
    using e by (auto simp: all_less_8 intro: hex_field_inj [of 8] hex_field_inj [of 4] hex_field_inj [of 2])
  with assms show ?thesis by (simp add: list_eq_iff_nth_eq)
qed

section \<open>Little-endian fields\<close>

lemma unat_byte_less: "unat b < 256" for b :: u8
  using unsigned_less [of b] by simp

lemma join_bytes2:
  fixes a b :: u8
  assumes "16 \<le> LENGTH('a)"
  shows "unat (ucast a OR push_bit 8 (ucast b) :: 'a::len word) = unat a + 256 * unat b"
proof -
  have "(2::nat) ^ 16 \<le> 2 ^ LENGTH('a)" using assms by (intro power_increasing) simp_all
  then have "unat (push_bit 8 (ucast b) OR ucast a :: 'a word) = unat b * 2 ^ 8 + unat a"
    using assms unat_byte_less [of a] unat_byte_less [of b]
    by (subst unat_shift_or) (simp_all add: unat_ucast_up)
  then show ?thesis by (simp add: or.commute)
qed

lemma join_bytes4:
  fixes a b c d :: u8
  shows "unat (ucast a OR push_bit 8 (ucast b) OR push_bit 16 (ucast c) OR push_bit 24 (ucast d) :: u32)
    = unat a + 256 * unat b + 65536 * unat c + 16777216 * unat d"
proof -
  note l = unat_byte_less [of a] unat_byte_less [of b] unat_byte_less [of c] unat_byte_less [of d]
  let ?x = "push_bit 8 (ucast d) OR ucast c :: u32"
  have x: "unat ?x = unat d * 256 + unat c"
    using l by (subst unat_shift_or) (simp_all add: unat_ucast_up)
  let ?y = "push_bit 8 ?x OR ucast b :: u32"
  have y: "unat ?y = unat ?x * 256 + unat b"
    using l x by (subst unat_shift_or) (simp_all add: unat_ucast_up)
  let ?z = "push_bit 8 ?y OR ucast a :: u32"
  have z: "unat ?z = unat ?y * 256 + unat a"
    using l x y by (subst unat_shift_or) (simp_all add: unat_ucast_up)
  have "ucast a OR push_bit 8 (ucast b) OR push_bit 16 (ucast c) OR push_bit 24 (ucast d) = ?z"
    by (simp add: push_bit_or push_bit_push_bit ac_simps)
  then show ?thesis using x y z by simp
qed

lemma read_le_u16_value: "unat (read_le_u16 p) = unat (p ! 0) + 256 * unat (p ! 1)"
  by (simp add: read_le_u16_def join_bytes2)

lemma read_le_u32_value:
  "unat (read_le_u32 p) =
     unat (p ! 0) + 256 * unat (p ! 1) + 65536 * unat (p ! 2) + 16777216 * unat (p ! 3)"
  unfolding read_le_u32_def by (rule join_bytes4)

lemma digit_split: "x + k * y = x' + k * y' \<Longrightarrow> x < k \<Longrightarrow> x' < k \<Longrightarrow> x = x' \<and> y = y'"
  for x y k x' y' :: nat
proof -
  assume a: "x + k * y = x' + k * y'" "x < k" "x' < k"
  then have "x = x'" by (metis mod_less mod_mult_self2)
  with a show ?thesis by simp
qed

lemma join_bytes2_inj:
  fixes a b a' b' :: u8
  assumes "unat a + 256 * unat b = unat a' + 256 * unat b'"
  shows "a = a' \<and> b = b'"
  using digit_split [OF assms unat_byte_less unat_byte_less] by (simp add: word_unat_eq_iff)

lemma join_bytes4_inj:
  fixes a b c d a' b' c' d' :: u8
  assumes "unat a + 256 * unat b + 65536 * unat c + 16777216 * unat d =
    unat a' + 256 * unat b' + 65536 * unat c' + 16777216 * unat d'"
  shows "a = a' \<and> b = b' \<and> c = c' \<and> d = d'"
proof -
  have "unat a + 256 * (unat b + 256 * (unat c + 256 * unat d)) =
      unat a' + 256 * (unat b' + 256 * (unat c' + 256 * unat d'))"
    using assms by simp
  from digit_split [OF this unat_byte_less unat_byte_less]
  have 1: "unat a = unat a'"
    and e: "unat b + 256 * (unat c + 256 * unat d) = unat b' + 256 * (unat c' + 256 * unat d')"
    by simp_all
  from digit_split [OF e unat_byte_less unat_byte_less]
  have 2: "unat b = unat b'" and e: "unat c + 256 * unat d = unat c' + 256 * unat d'" by simp_all
  from digit_split [OF e unat_byte_less unat_byte_less] 1 2
  show ?thesis by (simp add: word_unat_eq_iff)
qed

text \<open>The fields that \<open>interpret_uuid\<close> assembles, for either byte order.\<close>

definition uuid_time_low :: "bool \<Rightarrow> u8 list \<Rightarrow> u32" where
  "uuid_time_low le u = read_le_u32 (if le then u else rev (take 4 u))"

definition uuid_time_mid :: "bool \<Rightarrow> u8 list \<Rightarrow> u16" where
  "uuid_time_mid le u = read_le_u16 (if le then drop 4 u else rev (take 2 (drop 4 u)))"

definition uuid_time_hi :: "bool \<Rightarrow> u8 list \<Rightarrow> u16" where
  "uuid_time_hi le u = read_le_u16 (if le then drop 6 u else rev (take 2 (drop 6 u)))"

definition uuid_little_endian :: "identity_facts \<Rightarrow> bool" where
  "uuid_little_endian f \<longleftrightarrow> if_major_version f > 2 \<or> (if_major_version f = 2 \<and> if_minor_version f \<ge> 6)"

lemma length_16_split:
  "length u = 16 \<Longrightarrow> \<exists>a b c d e f g h r. u = a # b # c # d # e # f # g # h # r \<and> length r = 8"
  by (auto simp: length_Suc_conv numeral_eq_Suc)

lemma ucast_join2: "ucast (ucast a OR push_bit 8 (ucast b) :: u32) = (ucast a OR push_bit 8 (ucast b) :: u16)"
  for a b :: u8
proof -
  have "unat a + 256 * unat b < 2 ^ 16" using unat_byte_less [of a] unat_byte_less [of b] by simp
  then show ?thesis
    by (simp add: word_unat_eq_iff unsigned_ucast_eq join_bytes2 take_bit_nat_eq_self)
qed

lemma interpret_uuid_fields:
  assumes "length (if_uuid f) = 16"
  shows "interpret_uuid f =
    (if \<not> if_has_uuid f \<or> uuid_records_no_identifier (if_uuid f) then fail errc.not_found
     else Value (render_canonical_uuid (uuid_time_low (uuid_little_endian f) (if_uuid f))
        (uuid_time_mid (uuid_little_endian f) (if_uuid f))
        (uuid_time_hi (uuid_little_endian f) (if_uuid f)) (drop 8 (if_uuid f))))"
proof -
  obtain a b c d e g h i r where u: "if_uuid f = a # b # c # d # e # g # h # i # r"
    using length_16_split [OF assms] by blast
  have x: "push_bit 24 (ucast a) OR push_bit 16 (ucast b) OR push_bit 8 (ucast c) OR ucast d =
    (ucast d OR push_bit 8 (ucast c) OR push_bit 16 (ucast b) OR push_bit 24 (ucast a) :: u32)"
    by (simp only: ac_simps)
  have y: "ucast (push_bit 8 (ucast e) OR ucast g :: u32) = (ucast g OR push_bit 8 (ucast e) :: u16)"
    for e g :: u8
    using ucast_join2 [of g e] by (simp only: ac_simps)
  show ?thesis
  proof (cases "uuid_little_endian f")
    case True
    then show ?thesis
      unfolding interpret_uuid_def uuid_time_low_def uuid_time_mid_def uuid_time_hi_def
        read_le_u16_def read_le_u32_def uuid_little_endian_def [symmetric] Let_def u if_P [OF True] ucast_join2
      by simp
  next
    case False
    then show ?thesis
      unfolding interpret_uuid_def uuid_time_low_def uuid_time_mid_def uuid_time_hi_def
        read_le_u16_def read_le_u32_def uuid_little_endian_def [symmetric] Let_def u if_not_P [OF False] y
      by (simp add: x)
  qed
qed

lemma read_le_u32_eq_iff:
  "read_le_u32 p = read_le_u32 q \<longleftrightarrow> p ! 0 = q ! 0 \<and> p ! 1 = q ! 1 \<and> p ! 2 = q ! 2 \<and> p ! 3 = q ! 3"
proof
  assume "read_le_u32 p = read_le_u32 q"
  from arg_cong [OF this, of unat, unfolded read_le_u32_value]
  show "p ! 0 = q ! 0 \<and> p ! 1 = q ! 1 \<and> p ! 2 = q ! 2 \<and> p ! 3 = q ! 3"
    by (rule join_bytes4_inj)
qed (simp add: read_le_u32_def)

lemma read_le_u16_eq_iff: "read_le_u16 p = read_le_u16 q \<longleftrightarrow> p ! 0 = q ! 0 \<and> p ! 1 = q ! 1"
proof
  assume "read_le_u16 p = read_le_u16 q"
  from arg_cong [OF this, of unat, unfolded read_le_u16_value]
  show "p ! 0 = q ! 0 \<and> p ! 1 = q ! 1" by (rule join_bytes2_inj)
qed (simp add: read_le_u16_def)

lemma uuid_fields_eq_iff:
  assumes "length u = 16" "length v = 16"
  shows "uuid_time_low le u = uuid_time_low le v \<and> uuid_time_mid le u = uuid_time_mid le v \<and>
    uuid_time_hi le u = uuid_time_hi le v \<and> drop 8 u = drop 8 v \<longleftrightarrow> u = v"
proof -
  obtain a b c d e f g h r where u: "u = a # b # c # d # e # f # g # h # r"
    using length_16_split [OF assms(1)] by blast
  obtain a' b' c' d' e' f' g' h' r' where v: "v = a' # b' # c' # d' # e' # f' # g' # h' # r'"
    using length_16_split [OF assms(2)] by blast
  show ?thesis
    unfolding u v uuid_time_low_def uuid_time_mid_def uuid_time_hi_def
    by (cases le) (auto simp: read_le_u32_eq_iff read_le_u16_eq_iff)
qed

lemma uuid_fields_constant:
  "uuid_time_low le (replicate 16 x) = read_le_u32 [x, x, x, x]"
  "uuid_time_mid le (replicate 16 x) = read_le_u16 [x, x]"
  "uuid_time_hi le (replicate 16 x) = read_le_u16 [x, x]"
  by (simp_all add: uuid_time_low_def uuid_time_mid_def uuid_time_hi_def numeral_eq_Suc
      read_le_u32_def read_le_u16_def)

lemma uuid_absent_iff:
  "length u = 16 \<Longrightarrow> uuid_records_no_identifier u \<longleftrightarrow> u = replicate 16 0 \<or> u = replicate 16 (-1)"
proof -
  assume l: "length u = 16"
  have "u = replicate 16 x \<longleftrightarrow> (\<forall>b \<in> set u. b = x)" for x :: u8
    using l replicate_length_same [of u x] by (auto simp: in_set_replicate)
  then show ?thesis by (auto simp: uuid_records_no_identifier_def Let_def list_ex_iff)
qed

lemma uuid_fields_same:
  assumes "length u = 16"
    and "uuid_time_low le u = read_le_u32 [x, x, x, x]" "uuid_time_mid le u = read_le_u16 [x, x]"
    and "uuid_time_hi le u = read_le_u16 [x, x]" "\<forall>y \<in> set (drop 8 u). y = x"
  shows "u = replicate 16 x"
proof -
  have "drop 8 u = replicate (length (drop 8 u)) x"
    by (rule replicate_length_same [symmetric]) (use assms(5) in blast)
  then have "drop 8 u = drop 8 (replicate 16 x)"
    using assms(1) by simp
  moreover have "length (replicate 16 x) = 16" by simp
  ultimately show ?thesis
    using uuid_fields_eq_iff [OF assms(1), of "replicate 16 x" le] assms(2-4)
    unfolding uuid_fields_constant by blast
qed

text \<open>
  C7. The firmware UUID of the Windows backend: with sixteen recorded octets, the boundary
  validation never alters or refuses what \<open>interpret_uuid\<close> renders, in either byte order of the
  fields; the query reports \<open>not_found\<close> exactly when there is no UUID field or it holds one of the
  two reserved values, and distinct octets give distinct text.
\<close>

theorem interpret_uuid_exact:
  "length (if_uuid f) = 16 \<Longrightarrow>
   validate_uuid_text (interpret_uuid f) = interpret_uuid f \<and>
   (interpret_uuid f = fail errc.not_found \<longleftrightarrow>
      \<not> if_has_uuid f \<or> if_uuid f = replicate 16 0 \<or> if_uuid f = replicate 16 (-1)) \<and>
   (length v = 16 \<and> interpret_uuid (f\<lparr>if_uuid := v\<rparr>) = interpret_uuid f \<and>
    has_value (interpret_uuid f) \<longrightarrow> v = if_uuid f)"
proof -
  assume l: "length (if_uuid f) = 16"
  let ?u = "if_uuid f" and ?le = "uuid_little_endian f"
  let ?r = "\<lambda>u. render_canonical_uuid (uuid_time_low ?le u) (uuid_time_mid ?le u) (uuid_time_hi ?le u) (drop 8 u)"
  have fields: "interpret_uuid f = (if \<not> if_has_uuid f \<or> uuid_records_no_identifier ?u
     then fail errc.not_found else Value (?r ?u))"
    by (rule interpret_uuid_fields [OF l])
  have zero: "read_le_u32 [0, 0, 0, 0] = 0" "read_le_u16 [0, 0] = 0"
    by (simp_all add: read_le_u32_def read_le_u16_def)
  have ff: "read_le_u32 [-1, -1, -1, -1] = -1" "read_le_u16 [-1, -1] = -1"
    by (simp_all add: word_unat_eq_iff read_le_u32_value read_le_u16_value unsigned_minus_1_eq_mask
        mask_eq_exp_minus_1)
  have valid: "validate_uuid_text (Value (?r ?u)) = Value (?r ?u)" if "\<not> uuid_records_no_identifier ?u"
    using that render_validate_uuid [of "drop 8 ?u"] l uuid_fields_same [OF l, of ?le 0] uuid_fields_same [OF l, of ?le "-1"]
      uuid_absent_iff [OF l]
    unfolding zero ff by auto
  have a: "validate_uuid_text (interpret_uuid f) = interpret_uuid f"
    using valid by (simp add: fields validate_uuid_text_def fail_def)
  have b: "interpret_uuid f = fail errc.not_found \<longleftrightarrow>
      \<not> if_has_uuid f \<or> ?u = replicate 16 0 \<or> ?u = replicate 16 (-1)"
    by (simp add: fields uuid_absent_iff [OF l])
  have c: "v = ?u" if v: "length v = 16" "interpret_uuid (f\<lparr>if_uuid := v\<rparr>) = interpret_uuid f"
    "has_value (interpret_uuid f)"
  proof -
    have "interpret_uuid (f\<lparr>if_uuid := v\<rparr>) = (if \<not> if_has_uuid f \<or> uuid_records_no_identifier v
       then fail errc.not_found else Value (?r v))"
      using interpret_uuid_fields [of "f\<lparr>if_uuid := v\<rparr>"] v(1) by (simp add: uuid_little_endian_def)
    with v fields have "?r v = ?r ?u" by (auto split: if_splits)
    then show ?thesis
      using render_uuid_inj [of "drop 8 v" "drop 8 ?u"] uuid_fields_eq_iff [OF v(1) l, of ?le] l v(1)
      by simp
  qed
  show ?thesis using a b c by blast
qed

definition example_facts :: identity_facts where
  "example_facts = (initial_facts 3 1)\<lparr>if_has_uuid := True,
     if_uuid := [0x33, 0x22, 0x11, 0x00, 0x55, 0x44, 0x77, 0x66,
                 0x88, 0x99, 0xAA, 0xBB, 0xCC, 0xDD, 0xEE, 0xFF]\<rparr>"

lemma example_uuid:
  "interpret_uuid example_facts = Value ''00112233-4455-6677-8899-aabbccddeeff''"
  by code_simp

theorem interpret_uuid_exact_witness:
  "length (if_uuid example_facts) = 16 \<and>
   validate_uuid_text (interpret_uuid example_facts) = interpret_uuid example_facts \<and>
   interpret_uuid example_facts = Value ''00112233-4455-6677-8899-aabbccddeeff''"
proof -
  have "length (if_uuid example_facts) = 16" by (simp add: example_facts_def)
  from interpret_uuid_exact [OF this, of "if_uuid example_facts"] this example_uuid
  show ?thesis by blast
qed

end
