(* ===== verification/Smbios_Correct.thy ===== *)
theory Smbios_Correct
  imports Uuid_Correct
begin

text \<open>
  The SMBIOS table parsers. A table written from well-formed structures is read back exactly
  (\<open>structure_reader\<close>, interpreted on both loop bodies), no body reads outside the two areas of
  its view. What accepted tables promise is in theory Hardware_Correct.
\<close>

unbundle bit_operations_syntax

section \<open>Reads stay inside the structure\<close>

text \<open>The view with everything behind its two declared areas cut off.\<close>

definition view_cut :: "structure_view \<Rightarrow> structure_view" where
  "view_cut v = v\<lparr>sv_formatted := take (unat (sv_formatted_size v)) (sv_formatted v),
                 sv_strings := take (unat (sv_strings_size v)) (sv_strings v)\<rparr>"

lemma view_cut_sizes [simp]:
  "sv_formatted_size (view_cut v) = sv_formatted_size v"
  "sv_strings_size (view_cut v) = sv_strings_size v"
  by (simp_all add: view_cut_def)

lemma scan_up_cong:
  "(\<And>j. i \<le> j \<Longrightarrow> j < n \<Longrightarrow> p j = q j) \<Longrightarrow> scan_up p i n = scan_up q i n"
proof (induction p i n rule: scan_up.induct)
  case (1 p i n)
  show ?case
  proof (cases "i < n \<and> p i")
    case True
    with 1 have "scan_up p (Suc i) n = scan_up q (Suc i) n" "q i" by auto
    with True show ?thesis by (subst (1 2) scan_up.simps) simp
  next
    case False
    with 1(2) [of i] show ?thesis by (subst (1 2) scan_up.simps) auto
  qed
qed

lemma take_drop_take: "j \<le> n \<Longrightarrow> take (j - i) (drop i (take n xs)) = take (j - i) (drop i xs)"
  by (simp add: drop_take min_def diff_le_mono)

lemma extract_loop_cut: "extract_loop (view_cut v) index seen start = extract_loop v index seen start"
proof (induction v index seen start rule: extract_loop.induct)
  case (1 v index seen start)
  let ?n = "unat (sv_strings_size v)"
  have scan: "scan_up (\<lambda>i. sv_strings (view_cut v) ! i \<noteq> 0) start ?n =
      scan_up (\<lambda>i. sv_strings v ! i \<noteq> 0) start ?n"
    by (rule scan_up_cong) (simp add: view_cut_def)
  let ?stop = "scan_up (\<lambda>i. sv_strings v ! i \<noteq> 0) start ?n"
  have take: "take (?stop - start) (drop start (sv_strings (view_cut v))) =
      take (?stop - start) (drop start (sv_strings v))" if "start < ?n"
    using that scan_up_le [of start ?n] by (simp add: view_cut_def take_drop_take)
  show ?case
  proof (cases "?n \<le> start")
    case True
    then show ?thesis by (subst (1 2) extract_loop.simps) simp
  next
    case False
    then show ?thesis
      using 1 [OF refl False refl] take
      by (subst (1 2) extract_loop.simps) (simp add: scan Let_def)
  qed
qed

lemma store_string_cut: "store_string (view_cut v) index = store_string v index"
  by (simp add: store_string_def extract_string_def extract_loop_cut)

lemma formatted_cut: "i < unat (sv_formatted_size v) \<Longrightarrow> sv_formatted (view_cut v) ! i = sv_formatted v ! i"
  by (simp add: view_cut_def)

lemma read_le_u16_cut:
  "i + 2 \<le> unat (sv_formatted_size v) \<Longrightarrow>
   read_le_u16 (drop i (sv_formatted (view_cut v))) = read_le_u16 (drop i (sv_formatted v))"
  by (cases "i \<le> length (sv_formatted v)") (simp_all add: read_le_u16_eq_iff view_cut_def drop_take)

lemma read_le_u32_cut:
  "i + 4 \<le> unat (sv_formatted_size v) \<Longrightarrow>
   read_le_u32 (drop i (sv_formatted (view_cut v))) = read_le_u32 (drop i (sv_formatted v))"
  by (simp add: read_le_u32_eq_iff view_cut_def drop_take)

lemma memory_string_field_cut:
  "offset < unat need \<Longrightarrow> memory_string_field (view_cut v) need offset = memory_string_field v need offset"
  by (simp add: memory_string_field_def store_string_cut formatted_cut word_order_nat)

lemma memory_speed_field_cut:
  "offset + 2 \<le> unat need \<Longrightarrow> ext + 4 \<le> unat ext_need \<Longrightarrow>
   memory_speed_field (view_cut v) u need offset ext_need ext = memory_speed_field v u need offset ext_need ext"
  by (simp add: memory_speed_field_def read_le_u16_cut read_le_u32_cut word_order_nat Let_def)

lemma memory_size_field_cut:
  "0x15 \<le> sv_formatted_size v \<Longrightarrow> memory_size_field (view_cut v) = memory_size_field v"
  by (simp add: memory_size_field_def read_le_u16_cut read_le_u32_cut word_order_nat Let_def)

lemma parse_memory_device_cut: "parse_memory_device (view_cut v) u = parse_memory_device v u"
proof (cases "sv_formatted_size v < 0x15")
  case True
  then show ?thesis by (simp add: parse_memory_device_def)
next
  case False
  then have "0x15 \<le> sv_formatted_size v" "21 \<le> unat (sv_formatted_size v)"
    by (simp_all add: word_order_nat)
  then show ?thesis
    by (simp add: parse_memory_device_def store_string_cut memory_string_field_cut
        memory_speed_field_cut memory_size_field_cut formatted_cut)
qed

lemma string_at_cut: "i < unat (sv_formatted_size v) \<Longrightarrow> string_at (view_cut v) i = string_at v i"
  by (simp add: string_at_def store_string_cut formatted_cut)

lemma firmware_record_cut: "firmware_record (view_cut v) w = firmware_record v w"
  by (simp add: firmware_record_def string_at_cut word_order_nat)

lemma system_record_cut: "system_record (view_cut v) w = system_record v w"
proof (cases "sv_formatted_size v < 0x08")
  case True
  then show ?thesis by (simp add: system_record_def)
next
  case False
  have "24 \<le> sv_formatted_size v \<Longrightarrow>
      take 16 (drop 8 (sv_formatted (view_cut v))) = take 16 (drop 8 (sv_formatted v))"
    using take_drop_take [of 24 "unat (sv_formatted_size v)" 8 "sv_formatted v"]
    by (simp add: view_cut_def word_order_nat)
  with False show ?thesis
    by (simp add: system_record_def string_at_cut word_order_nat cong: if_cong)
qed

lemma board_record_cut: "board_record (view_cut v) w = board_record v w"
proof (cases "sv_formatted_size v < 0x08")
  case True
  then show ?thesis by (simp add: board_record_def)
next
  case False
  then have "8 \<le> unat (sv_formatted_size v)" by (simp add: word_order_nat)
  then show ?thesis
    by (simp add: board_record_def string_at_cut read_le_u16_cut formatted_cut word_order_nat Let_def
        cong: if_cong conj_cong)
qed

lemma enclosure_record_cut: "enclosure_record (view_cut v) w = enclosure_record v w"
  by (simp add: enclosure_record_def read_le_u16_cut formatted_cut word_order_nat)

lemma identity_step_cut: "identity_step t (view_cut v) trailing w = identity_step t v trailing w"
  by (simp add: identity_step_def firmware_record_cut system_record_cut board_record_cut
      enclosure_record_cut)

lemma memory_step_cut: "memory_step u t (view_cut v) trailing ds = memory_step u t v trailing ds"
  by (simp add: memory_step_def parse_memory_device_cut)


text \<open>
  C6. Memory safety of the record handlers: none of them depends on a byte outside the formatted
  area and the string area that its view declares, so that cutting the buffer there changes
  nothing, whatever the record says about its own fields and string indices.
\<close>

theorem smbios_reads_inside:
  "parse_memory_device (view_cut v) u = parse_memory_device v u \<and>
   firmware_record (view_cut v) w = firmware_record v w \<and>
   system_record (view_cut v) w = system_record v w \<and>
   board_record (view_cut v) w = board_record v w \<and>
   enclosure_record (view_cut v) w = enclosure_record v w"
  by (intro conjI parse_memory_device_cut firmware_record_cut system_record_cut board_record_cut
      enclosure_record_cut)

section \<open>Tables written from structures\<close>

text \<open>One structure as a table records it: its type, the formatted bytes after the two-byte header, and its strings.\<close>

record smbios_structure =
  st_type :: u8
  st_body :: "u8 list"
  st_strings :: "string list"

definition byte_of :: "char \<Rightarrow> u8" where
  "byte_of c = of_nat (uchar c)"

definition encode_string :: "string \<Rightarrow> u8 list" where
  "encode_string s = map byte_of s @ [0]"

text \<open>The string area: null-terminated strings and one more null; two nulls when there is none.\<close>

definition encode_strings :: "string list \<Rightarrow> u8 list" where
  "encode_strings ss = (if ss = [] then [0, 0] else concat (map encode_string ss) @ [0])"

definition encode_structure :: "smbios_structure \<Rightarrow> u8 list" where
  "encode_structure st =
     st_type st # of_nat (length (st_body st) + 2) # st_body st @ encode_strings (st_strings st)"

definition smbios_text :: "string \<Rightarrow> bool" where
  "smbios_text s \<longleftrightarrow> s \<noteq> [] \<and> CHR 0x00 \<notin> set s"

definition smbios_wf :: "smbios_structure \<Rightarrow> bool" where
  "smbios_wf st \<longleftrightarrow> 2 \<le> length (st_body st) \<and> length (st_body st) \<le> 253 \<and>
     list_all smbios_text (st_strings st)"

text \<open>The view the walk makes of a structure followed by other bytes.\<close>

definition view_of :: "smbios_structure \<Rightarrow> u8 list \<Rightarrow> structure_view" where
  "view_of st tail =
     \<lparr>sv_formatted = encode_structure st @ tail,
      sv_formatted_size = of_nat (length (st_body st) + 2),
      sv_strings = encode_strings (st_strings st) @ tail,
      sv_strings_size = of_nat (length (encode_strings (st_strings st)) - 2)\<rparr>"

lemma byte_of_zero [simp]: "byte_of c = 0 \<longleftrightarrow> c = CHR 0x00"
proof -
  have "unat (byte_of c) = uchar c"
    by (simp add: byte_of_def unat_of_nat take_bit_nat_eq_self)
  moreover have "uchar c = 0 \<longleftrightarrow> c = CHR 0x00"
    using uchar_eq_iff [of c "CHR 0x00"] by simp
  ultimately show ?thesis by (simp add: unat_eq_zero [symmetric])
qed

lemma to_char_byte_of [simp]: "to_char (byte_of c) = c"
  by (simp add: byte_of_def to_char_def unat_of_nat take_bit_nat_eq_self)

lemma length_encode_strings: "2 \<le> length (encode_strings ss)"
  by (cases ss) (auto simp: encode_strings_def encode_string_def)

lemma smbios_text_bytes: "smbios_text s \<Longrightarrow> x \<in> set (map byte_of s) \<Longrightarrow> x \<noteq> 0"
  by (auto simp: smbios_text_def)

lemma encode_strings_Cons:
  "ss \<noteq> [] \<Longrightarrow> encode_strings (s # ss) = map byte_of s @ 0 # encode_strings ss"
  by (simp add: encode_strings_def encode_string_def)

lemma encode_strings_single: "encode_strings [s] = map byte_of s @ [0, 0]"
  by (simp add: encode_strings_def encode_string_def)

lemma encode_strings_end:
  "encode_strings ss ! (length (encode_strings ss) - 2) = 0"
  "encode_strings ss ! (length (encode_strings ss) - 1) = 0"
proof -
  have "\<exists>xs. encode_strings ss = xs @ [0, 0]"
    by (cases ss rule: rev_cases) (auto simp: encode_strings_def encode_string_def)
  then show "encode_strings ss ! (length (encode_strings ss) - 2) = 0"
    "encode_strings ss ! (length (encode_strings ss) - 1) = 0"
    by (auto simp: nth_append)
qed

lemma encode_strings_head: "list_all smbios_text ss \<Longrightarrow> ss \<noteq> [] \<Longrightarrow> encode_strings ss ! 0 \<noteq> 0"
  by (cases ss) (auto simp: encode_strings_def encode_string_def smbios_text_def nth_append neq_Nil_conv)

text \<open>No double null before the end of the area.\<close>

lemma encode_strings_no_double_null:
  "list_all smbios_text ss \<Longrightarrow> j + 2 < length (encode_strings ss) \<Longrightarrow>
   \<not> (encode_strings ss ! j = 0 \<and> encode_strings ss ! (j + 1) = 0)"
proof (induction ss arbitrary: j)
  case Nil
  then show ?case by (simp add: encode_strings_def)
next
  case (Cons s ss)
  then have s: "smbios_text s" "list_all smbios_text ss" by simp_all
  let ?b = "map byte_of s"
  have nz: "?b ! i \<noteq> 0" if "i < length s" for i
    using smbios_text_bytes [OF s(1), of "?b ! i"] that by (metis length_map nth_mem)
  show ?case
  proof (cases "ss = []")
    case True
    then have "j < length s" using Cons.prems by (simp add: encode_strings_single)
    then show ?thesis using nz [of j] True by (simp add: encode_strings_single nth_append)
  next
    case False
    note e = encode_strings_Cons [OF False, of s]
    consider "j < length s" | "j = length s" | k where "j = Suc (length s + k)"
      by (metis add_Suc_right less_imp_Suc_add nat_neq_iff)
    then show ?thesis
    proof cases
      case 1
      then show ?thesis using nz [of j] by (simp add: e nth_append)
    next
      case 2
      then show ?thesis
        using encode_strings_head [OF s(2) False] by (simp add: e nth_append)
    next
      case 3
      then have "k + 2 < length (encode_strings ss)" using Cons.prems by (simp add: e)
      from Cons.IH [OF s(2) this] 3 show ?thesis by (simp add: e nth_append)
    qed
  qed
qed


lemma unat_of_nat_small: "n < 2 ^ LENGTH('a) \<Longrightarrow> unat (of_nat n :: 'a::len word) = n"
  by (simp add: unat_of_nat take_bit_nat_eq_self)

lemma length_encode_structure:
  "length (encode_structure st) = length (st_body st) + 2 + length (encode_strings (st_strings st))"
  by (simp add: encode_structure_def)

lemma double_null_encoded:
  assumes "list_all smbios_text ss"
  shows "double_null_from (pre @ encode_strings ss @ tail) (length pre) =
    length pre + length (encode_strings ss) - 2"
proof -
  let ?e = "encode_strings ss" and ?d = "pre @ encode_strings ss @ tail"
  note l = length_encode_strings [of ss]
  have at: "?d ! (length pre + k) = ?e ! k" if "k < length ?e" for k
    using that by (simp add: nth_append)
  show ?thesis unfolding double_null_from_def
  proof (rule scan_up_eqI)
    show "length pre \<le> length pre + length ?e - 2" using l by simp
    show "length pre + length ?e - 2 \<le> length ?d - 1" using l by simp
    fix j assume "length pre \<le> j" "j < length pre + length ?e - 2"
    then obtain k where k: "j = length pre + k" "k + 2 < length ?e"
      using le_Suc_ex [of "length pre" j] by auto
    then show "\<not> (?d ! j = 0 \<and> ?d ! (j + 1) = 0)"
      using encode_strings_no_double_null [OF assms k(2)] at [of k] at [of "k + 1"] by simp
  next
    have "length pre + length ?e - 2 = length pre + (length ?e - 2)"
      "length pre + length ?e - 2 + 1 = length pre + (length ?e - 1)" using l by simp_all
    then show "length pre + length ?e - 2 = length ?d - 1 \<or>
      \<not> \<not> (?d ! (length pre + length ?e - 2) = 0 \<and> ?d ! (length pre + length ?e - 2 + 1) = 0)"
      using encode_strings_end [of ss] l at [of "length ?e - 2"] at [of "length ?e - 1"] by simp
  qed
qed

lemma structure_at_encoded:
  assumes "smbios_wf st"
  shows "structure_at (pre @ encode_structure st @ tail) (length pre) =
    Value (view_of st tail, length pre + length (encode_structure st) - 2)"
proof -
  let ?e = "encode_strings (st_strings st)" and ?d = "pre @ encode_structure st @ tail"
  let ?f = "length (st_body st) + 2"
  note l = length_encode_strings [of "st_strings st"]
  have size: "unat (of_nat ?f :: u8) = ?f"
    by (rule unat_of_nat_small) (use assms in \<open>simp add: smbios_wf_def\<close>)
  have d: "?d = (pre @ st_type st # of_nat ?f # st_body st) @ ?e @ tail"
    by (simp add: encode_structure_def)
  have off: "length pre + ?f = length (pre @ st_type st # of_nat ?f # st_body st)" by simp
  have scan: "double_null_from ?d (length pre + ?f) = length pre + ?f + length ?e - 2"
    unfolding d off using assms by (subst double_null_encoded) (simp_all add: smbios_wf_def)
  have nth: "?d ! (length pre + 1) = of_nat ?f"
    by (simp add: encode_structure_def nth_append)
  have strings: "drop (length pre + ?f) ?d = ?e @ tail"
    unfolding d off by (simp only: drop_append) simp
  have long: "length ?d = length pre + ?f + length ?e + length tail"
    by (simp add: length_encode_structure)
  have scan': "length pre + ?f + length ?e - 2 = length pre + length (encode_structure st) - 2"
    by (simp add: length_encode_structure)
  have ssize: "length pre + ?f + length ?e - 2 - (length pre + ?f) = length ?e - 2" using l by simp
  show ?thesis
    unfolding structure_at_def nth size Let_def scan strings ssize view_of_def
    using assms l by (simp add: long smbios_wf_def length_encode_structure)
qed

lemma next_cursor_encoded:
  assumes "smbios_wf st" "length (encode_structure st) < 2 ^ 32"
  shows "next_cursor c (view_of st tail) = c + length (encode_structure st)"
proof -
  have "unat (of_nat (length (st_body st) + 2) :: u32) = length (st_body st) + 2"
    by (rule unat_of_nat_small) (use assms in \<open>simp add: smbios_wf_def\<close>)
  moreover have "unat (of_nat (length (encode_strings (st_strings st)) - 2) :: u32) =
      length (encode_strings (st_strings st)) - 2"
    using assms(2) by (simp add: length_encode_structure unat_of_nat take_bit_nat_eq_self)
  ultimately show ?thesis
    using length_encode_strings [of "st_strings st"]
    by (simp add: next_cursor_def view_of_def length_encode_structure del: of_nat_add of_nat_diff)
qed

section \<open>Indexed strings\<close>

text \<open>What an index byte means: zero names no string, others count from one.\<close>

definition string_named :: "string list \<Rightarrow> u8 \<Rightarrow> (bool \<times> string) result" where
  "string_named ss index =
     (if index = 0 then Value (False, [])
      else if unat index \<le> length ss then Value (True, ss ! (unat index - 1))
      else fail errc.malformed_data)"

lemma extract_loop_encoded:
  assumes "list_all smbios_text ss" "ss \<noteq> []"
    and "sv_strings v = front @ encode_strings ss @ tail"
    and "unat (sv_strings_size v) = length front + length (encode_strings ss) - 2"
    and "unat seen \<le> unat index"
  shows "extract_loop v index seen (length front) =
    (if unat index - unat seen < length ss
     then Value \<lparr>es_present = True, es_value = ss ! (unat index - unat seen)\<rparr>
     else fail errc.malformed_data)"
  using assms
proof (induction ss arbitrary: front seen)
  case (Cons s ss)
  let ?b = "map byte_of s" and ?n = "unat (sv_strings_size v)"
  have s: "smbios_text s" "list_all smbios_text ss" using Cons.prems by simp_all
  have len: "length s > 0" using s by (simp add: smbios_text_def)
  obtain rest where rest: "sv_strings v = front @ ?b @ 0 # rest"
      "length front + length s \<le> ?n" "ss = [] \<longrightarrow> ?n = length front + length s"
      "ss \<noteq> [] \<longrightarrow> rest = encode_strings ss @ tail \<and> length front + length s < ?n"
  proof (cases "ss = []")
    case True
    then show ?thesis
      using Cons.prems that [of "0 # tail"] by (simp add: encode_strings_single)
  next
    case False
    then show ?thesis
      using Cons.prems length_encode_strings [of ss] that [of "encode_strings ss @ tail"]
      by (simp add: encode_strings_Cons)
  qed
  have stop: "scan_up (\<lambda>i. sv_strings v ! i \<noteq> 0) (length front) ?n = length front + length s"
  proof (rule scan_up_eqI)
    fix j assume "length front \<le> j" "j < length front + length s"
    then obtain k where k: "j = length front + k" "k < length s"
      using le_Suc_ex by (metis add_less_cancel_left)
    then show "sv_strings v ! j \<noteq> 0"
      using smbios_text_bytes [OF s(1), of "?b ! k"] nth_mem [of k "?b"]
      by (simp add: rest(1) nth_append)
  qed (use rest in \<open>auto simp: nth_append\<close>)
  have val: "map to_char (take (length s) (drop (length front) (sv_strings v))) = s"
    by (simp add: rest(1) comp_def)
  have before: "\<not> ?n \<le> length front" using rest(2) len by linarith
  show ?case
  proof (cases "seen = index")
    case True
    then show ?thesis
      using stop val len before by (subst extract_loop.simps) (simp add: Let_def)
  next
    case False
    then have lt: "unat seen < unat index"
      using Cons.prems(5) by (metis le_neq_implies_less word_unat_eq_iff)
    show ?thesis
    proof (cases "ss = []")
      case True
      then show ?thesis
        using False stop rest(2,3) before lt len by (subst extract_loop.simps) (simp add: Let_def)
    next
      case nonempty: False
      have succ: "unat (seen + 1) = unat seen + 1"
        using lt unat_byte_less [of index] by (subst unat_add_small) simp_all
      have "extract_loop v index (seen + 1) (length (front @ ?b @ [0])) =
        (if unat index - unat (seen + 1) < length ss
         then Value \<lparr>es_present = True, es_value = ss ! (unat index - unat (seen + 1))\<rparr>
         else fail errc.malformed_data)"
        using Cons.IH [OF s(2) nonempty, of "front @ ?b @ [0]" "seen + 1"] Cons.prems(4) rest nonempty lt succ
        by (simp add: encode_strings_Cons [OF nonempty])
      moreover have "unat index - unat seen = Suc (unat index - unat (seen + 1))" using lt succ by simp
      ultimately show ?thesis
        using False stop rest(2,4) before nonempty by (subst extract_loop.simps) (simp add: Let_def)
    qed
  qed
qed simp

lemma store_string_encoded:
  assumes "smbios_wf st" "length (encode_structure st) < 2 ^ 32"
  shows "store_string (view_of st tail) index = string_named (st_strings st) index"
proof -
  let ?e = "encode_strings (st_strings st)"
  have size: "unat (sv_strings_size (view_of st tail)) = length ?e - 2"
    using assms(2) by (simp add: view_of_def length_encode_structure unat_of_nat take_bit_nat_eq_self)
  show ?thesis
  proof (cases "index = 0 \<or> st_strings st = []")
    case True
    then show ?thesis
      using size by (auto simp: store_string_def extract_string_def string_named_def absent_string_def
          extract_loop.simps [of _ _ _ 0] encode_strings_def unat_eq_zero)
  next
    case False
    then have "1 \<le> unat index" by (simp add: Suc_le_eq unat_gt_0)
    then have "extract_loop (view_of st tail) index 1 (length []) =
      (if unat index - 1 < length (st_strings st)
       then Value \<lparr>es_present = True, es_value = st_strings st ! (unat index - 1)\<rparr>
       else fail errc.malformed_data)"
      using False assms(1) size
        extract_loop_encoded [of "st_strings st" "view_of st tail" "[]" tail 1 index]
      by (simp add: view_of_def smbios_wf_def)
    then show ?thesis
      using False \<open>1 \<le> unat index\<close>
      by (auto simp: store_string_def extract_string_def string_named_def)
  qed
qed


section \<open>Walking a written table\<close>

text \<open>A loop body applied to structures instead of bytes.\<close>

fun run_structures ::
    "(u8 \<Rightarrow> structure_view \<Rightarrow> u8 list \<Rightarrow> 's \<Rightarrow> 's walk_step result) \<Rightarrow> smbios_structure list \<Rightarrow> 's \<Rightarrow> 's result"
where
  "run_structures step [] s = Value s"
| "run_structures step (st # sts) s =
     (case step (st_type st) (view_of st []) [] s of
        Unexpected c \<Rightarrow> Unexpected c
      | Value (Break_off s') \<Rightarrow> Value s'
      | Value (Go_on s') \<Rightarrow> run_structures step sts s')"

text \<open>
  The contract of a loop body: it reads only the two areas of the view, looks at the bytes behind
  the structure only for the end marker, and breaks off only there.
\<close>

locale structure_reader =
  fixes step :: "u8 \<Rightarrow> structure_view \<Rightarrow> u8 list \<Rightarrow> 's \<Rightarrow> 's walk_step result"
  assumes reads_inside: "step t (view_cut v) tail s = step t v tail s"
    and tail_unused: "t \<noteq> 127 \<Longrightarrow> step t v tail s = step t v [] s"
    and goes_on: "t \<noteq> 127 \<Longrightarrow> step t v tail s \<noteq> Value (Break_off s')"
begin

lemma view_cut_of:
  assumes "smbios_wf st" "length (encode_structure st) < 2 ^ 32"
  shows "view_cut (view_of st tail) = view_cut (view_of st [])"
proof -
  have 1: "unat (of_nat (length (st_body st) + 2) :: u32) = length (st_body st) + 2"
    by (rule unat_of_nat_small) (use assms in \<open>simp add: smbios_wf_def\<close>)
  have 2: "unat (of_nat (length (encode_strings (st_strings st)) - 2) :: u32) =
      length (encode_strings (st_strings st)) - 2"
    by (rule unat_of_nat_small) (use assms in \<open>simp add: length_encode_structure\<close>)
  show ?thesis
    unfolding view_cut_def view_of_def structure_view.simps 1 2
    by (simp add: length_encode_structure)
qed

lemma step_of:
  assumes "smbios_wf st" "length (encode_structure st) < 2 ^ 32" "st_type st \<noteq> 127"
  shows "step (st_type st) (view_of st tail) tail s = step (st_type st) (view_of st []) [] s"
  using reads_inside [of _ "view_of st tail"] reads_inside [of _ "view_of st []"]
    view_cut_of [OF assms(1,2)] tail_unused [OF assms(3)] by metis

lemma walk_step_encoded:
  assumes "smbios_wf st" "length (encode_structure st) < 2 ^ 32"
  shows "walk_structures step (pre @ encode_structure st @ tail) (length pre) s =
    (case step (st_type st) (view_of st tail) tail s of
       Unexpected c \<Rightarrow> Unexpected c
     | Value (Break_off s') \<Rightarrow> Value (s', True)
     | Value (Go_on s') \<Rightarrow>
         walk_structures step ((pre @ encode_structure st) @ tail) (length (pre @ encode_structure st)) s')"
proof -
  have type: "(pre @ encode_structure st @ tail) ! length pre = st_type st"
    by (simp add: encode_structure_def nth_append)
  have drop: "drop (length pre + length (encode_structure st) - 2 + 2) (pre @ encode_structure st @ tail) = tail"
    by (simp add: length_encode_structure)
  have lt: "length pre < length pre + (length (encode_structure st) + length tail)"
    by (simp add: encode_structure_def)
  show ?thesis
    by (subst walk_structures.simps)
      (simp only: if_P [OF lt] structure_at_encoded [OF assms(1)] result.case prod.case type drop
        next_cursor_encoded [OF assms] append_assoc length_append)
qed

text \<open>The walk over a written table is the run over its structures.\<close>

lemma walk_encoded:
  assumes "list_all smbios_wf sts" "list_all (\<lambda>st. st_type st \<noteq> 127) sts"
    and "length (concat (map encode_structure sts)) < 2 ^ 32"
  shows "walk_structures step (pre @ concat (map encode_structure sts) @ tail) (length pre) s =
    (case run_structures step sts s of
       Unexpected c \<Rightarrow> Unexpected c
     | Value s' \<Rightarrow> walk_structures step (pre @ concat (map encode_structure sts) @ tail)
                    (length pre + length (concat (map encode_structure sts))) s')"
  using assms
proof (induction sts arbitrary: pre s)
  case (Cons st sts)
  let ?rest = "concat (map encode_structure sts) @ tail"
  have st: "smbios_wf st" "length (encode_structure st) < 2 ^ 32" "st_type st \<noteq> 127"
    using Cons.prems by simp_all
  show ?case
  proof (cases "step (st_type st) (view_of st []) [] s")
    case (Unexpected c)
    then show ?thesis
      using walk_step_encoded [OF st(1,2), of pre ?rest s] step_of [OF st, of ?rest] by simp
  next
    case (Value w)
    then obtain s' where w: "w = Go_on s'" using goes_on [OF st(3)] by (cases w) auto
    then show ?thesis
      using Value walk_step_encoded [OF st(1,2), of pre ?rest s] step_of [OF st, of ?rest]
        Cons.IH [of "pre @ encode_structure st" s'] Cons.prems
      by (simp add: add.assoc split: result.splits)
  qed
qed simp

end

text \<open>Both bodies satisfy the contract.\<close>

interpretation memory: structure_reader "memory_step u"
proof unfold_locales
  show "memory_step u t (view_cut v) tail s = memory_step u t v tail s" for t v tail s
    by (rule memory_step_cut)
qed (auto simp: memory_step_def and_then_Value_iff)

interpretation identity: structure_reader identity_step
proof unfold_locales
  show "identity_step t (view_cut v) tail s = identity_step t v tail s" for t v tail s
    by (rule identity_step_cut)
qed (auto simp: identity_step_def and_then_Value_iff)


section \<open>Properties of the parsers\<close>

text \<open>The end marker, \<open>padding\<close> standing for what a table has behind it.\<close>

definition end_marker :: smbios_structure where
  "end_marker = \<lparr>st_type = 127, st_body = [0, 0], st_strings = []\<rparr>"

definition written_table :: "smbios_structure list \<Rightarrow> u8 list \<Rightarrow> u8 list" where
  "written_table sts padding = concat (map encode_structure sts) @ encode_structure end_marker @ padding"

definition plain_structures :: "smbios_structure list \<Rightarrow> bool" where
  "plain_structures sts \<longleftrightarrow> list_all smbios_wf sts \<and> list_all (\<lambda>st. st_type st \<noteq> 127) sts \<and>
     length (concat (map encode_structure sts)) < 2 ^ 32"

lemma end_marker_wf: "smbios_wf end_marker" "length (encode_structure end_marker) < 2 ^ 32"
  by (simp_all add: end_marker_def smbios_wf_def length_encode_structure encode_strings_def)

lemma end_marker_type: "st_type end_marker = 127" and end_marker_size:
  "sv_formatted_size (view_of end_marker tail) = 4"
  by (simp_all add: end_marker_def view_of_def)

text \<open>The memory devices a list of structures records, in table order.\<close>

fun memory_records :: "memory_speed_unit \<Rightarrow> smbios_structure list \<Rightarrow> memory_device list result" where
  "memory_records u [] = Value []"
| "memory_records u (st # sts) =
     (if st_type st = 17 then
        and_then (parse_memory_device (view_of st []) u) (\<lambda>d.
        and_then (memory_records u sts) (\<lambda>ds. Value (d # ds)))
      else memory_records u sts)"

lemma memory_run:
  "list_all (\<lambda>st. st_type st \<noteq> 127) sts \<Longrightarrow>
   run_structures (memory_step u) sts ds = and_then (memory_records u sts) (\<lambda>ds'. Value (ds @ ds'))"
proof (induction sts arbitrary: ds)
  case (Cons st sts)
  show ?case
  proof (cases "st_type st = 17")
    case True
    then show ?thesis
      using Cons by (cases "parse_memory_device (view_of st []) u") (simp_all add: memory_step_def and_then_assoc)
  next
    case False
    then show ?thesis using Cons by (simp add: memory_step_def)
  qed
qed simp

text \<open>
  The memory parser reads back every table written from structures: on the bytes of any
  well-formed structures followed by the end marker and zero padding it returns the records of
  the memory-device structures, sorted; a single undecodable record, or a nonzero byte behind the
  end marker, fails the table.
\<close>

theorem parse_smbios_memory_roundtrip:
  "plain_structures sts \<Longrightarrow>
   parse_smbios_memory_devices (written_table sts padding) u =
     and_then (memory_records u sts) (\<lambda>ds.
       if list_all (\<lambda>b. b = 0) padding then Value (std_sort compare_memory_devices ds)
       else fail errc.malformed_data)"
proof -
  assume a: "plain_structures sts"
  let ?t = "written_table sts padding" and ?c = "concat (map encode_structure sts)"
  have "walk_structures (memory_step u) ?t (length ?c) ds =
      (if list_all (\<lambda>b. b = 0) padding then Value (ds, True) else fail errc.malformed_data)" for ds
    using memory.walk_step_encoded [OF end_marker_wf, where pre = "?c" and tail = padding and s = ds and u = u]
    by (simp add: written_table_def end_marker_type memory_step_def end_marker_size list_ex_iff
        list_all_iff fail_def)
  moreover have "walk_structures (memory_step u) ?t 0 [] =
      (case run_structures (memory_step u) sts [] of Unexpected c \<Rightarrow> Unexpected c
       | Value ds \<Rightarrow> walk_structures (memory_step u) ?t (length ?c) ds)"
    using memory.walk_encoded [where sts = sts and pre = "[]" and tail = "encode_structure end_marker @ padding" and u = u and s = "[]"] a
    unfolding written_table_def plain_structures_def append_Nil list.size add_0 by simp
  moreover have "?t \<noteq> []" by (simp add: written_table_def encode_structure_def)
  ultimately show ?thesis
    using memory_run [of sts u "[]"] a
    by (cases "memory_records u sts") (simp_all add: parse_smbios_memory_devices_def plain_structures_def)
qed

text \<open>
  C5. The identity parser of the Windows backend reads back every table written from structures:
  the facts are those of running the record handlers over the structures in order, the bytes
  behind the end marker being ignored.
\<close>

theorem parse_smbios_table_roundtrip:
  "plain_structures sts \<Longrightarrow>
   parse_smbios_table (written_table sts padding) major minor =
     and_then (run_structures identity_step sts (initial_walk major minor)) reduce_walk"
proof -
  assume a: "plain_structures sts"
  let ?t = "written_table sts padding" and ?c = "concat (map encode_structure sts)"
  have "walk_structures identity_step ?t (length ?c) w = Value (w, True)" for w
    using identity.walk_step_encoded [OF end_marker_wf, where pre = "?c" and tail = padding and s = w]
    by (simp add: written_table_def end_marker_type identity_step_def)
  moreover have "walk_structures identity_step ?t 0 w =
      (case run_structures identity_step sts w of Unexpected c \<Rightarrow> Unexpected c
       | Value w' \<Rightarrow> walk_structures identity_step ?t (length ?c) w')" for w
    using identity.walk_encoded [where sts = sts and pre = "[]" and tail = "encode_structure end_marker @ padding" and s = w] a
    unfolding written_table_def plain_structures_def append_Nil list.size add_0 by simp
  ultimately show ?thesis
    by (cases "run_structures identity_step sts (initial_walk major minor)") (simp_all add: parse_smbios_table_def)
qed


text \<open>An eight-gibibyte module in the first slot, recorded with two strings.\<close>

definition example_module :: smbios_structure where
  "example_module =
     \<lparr>st_type = 17,
      st_body = [0x40, 0x00, 0, 0, 0, 0, 64, 0, 64, 0, 0x00, 0x20, 0x09, 0, 1, 2, 0x1A, 0, 0, 0x80, 0x0C],
      st_strings = [''DIMM 0'', ''BANK 0'']\<rparr>"

definition example_device :: memory_device where
  "example_device = default_memory_device
     \<lparr>md_locator := ''DIMM 0'', md_bank_locator := Some ''BANK 0'',
      md_state := memory_device_state.installed, md_size_bytes := Some 8589934592,
      md_form_factor := memory_form_factor.proprietary, md_type := memory_type.ddr4,
      md_speed := Some \<lparr>ms_value = 3200, ms_unit = memory_speed_unit.megahertz\<rparr>\<rparr>"

lemma example_parse:
  "parse_memory_device (view_of example_module []) memory_speed_unit.megahertz = Value example_device"
  by code_simp

theorem parse_smbios_memory_roundtrip_witness:
  "plain_structures [example_module] \<and>
   parse_smbios_memory_devices (written_table [example_module] [0]) memory_speed_unit.megahertz =
     Value [example_device]"
proof -
  have p: "plain_structures [example_module]"
    by (simp add: plain_structures_def smbios_wf_def smbios_text_def example_module_def
        length_encode_structure encode_strings_def encode_string_def)
  have "memory_records memory_speed_unit.megahertz [example_module] = Value [example_device]"
    using example_parse by (simp add: example_module_def)
  with parse_smbios_memory_roundtrip [OF p, of "[0]" memory_speed_unit.megahertz]
  have "parse_smbios_memory_devices (written_table [example_module] [0]) memory_speed_unit.megahertz =
      Value [example_device]"
    by (simp only:) simp
  with p show ?thesis by (rule conjI)
qed

definition example_board :: smbios_structure where
  "example_board = \<lparr>st_type = 2, st_body = [2, 0, 1, 2, 0, 0], st_strings = [''Acme'', ''Board'']\<rparr>"

lemma example_identity_run:
  "and_then (run_structures identity_step [example_board] (initial_walk 3 0)) reduce_walk =
     Value ((initial_facts 3 0)\<lparr>if_board_manufacturer := (True, ''Acme''),
              if_board_product_name := (True, ''Board'')\<rparr>)"
  by code_simp

theorem parse_smbios_table_roundtrip_witness:
  "plain_structures [example_board] \<and>
   parse_smbios_table (written_table [example_board] [7]) 3 0 =
     Value ((initial_facts 3 0)\<lparr>if_board_manufacturer := (True, ''Acme''),
              if_board_product_name := (True, ''Board'')\<rparr>)"
proof -
  have p: "plain_structures [example_board]"
    by (simp add: plain_structures_def smbios_wf_def smbios_text_def example_board_def
        length_encode_structure encode_strings_def encode_string_def)
  show ?thesis
    using parse_smbios_table_roundtrip [OF p, of "[7]" 3 0, unfolded example_identity_run]
    by (rule conjI [OF p])
qed

end
