(* ===== verification/Hardware_Correct.thy ===== *)
theory Hardware_Correct
  imports Smbios_Correct
begin

text \<open>
  What the hardware queries promise: the device orders are strict weak orders, accepted memory
  devices are well-formed and sorted, the motherboard and the enclosure are chosen when and only
  when they are unique, the fetch of the firmware table makes a bounded number of calls, and the
  boundary validators accept exactly UTF-8 text.
\<close>

unbundle bit_operations_syntax

section \<open>What accepted memory devices satisfy\<close>

interpretation pci_order: strict_weak_order compare_pci_devices
  unfolding compare_pci_devices_def by (intro swo_chain swo_key)

interpretation usb_order: strict_weak_order compare_usb_devices
  unfolding compare_usb_devices_def by (intro swo_chain swo_key)

lemma memory_device_state_value_inj:
  "memory_device_state_value s = memory_device_state_value t \<longleftrightarrow> s = t"
  by (cases s; cases t) simp_all

interpretation memory_order: strict_weak_order compare_memory_devices
  unfolding compare_memory_devices_def memory_device_state_value_inj [symmetric]
  by (intro swo_chain swo_key)

definition speed_ok :: "memory_speed_unit \<Rightarrow> memory_speed option \<Rightarrow> bool" where
  "speed_ok u speed = (case speed of None \<Rightarrow> True
     | Some s \<Rightarrow> 0 < unat (ms_value s) \<and> unat (ms_value s) < 2 ^ 31 \<and> ms_unit s = u)"

definition size_ok :: "memory_device_state \<Rightarrow> u64 option \<Rightarrow> bool" where
  "size_ok state bytes = (case bytes of
     None \<Rightarrow> state = memory_device_state.installed \<or> state = memory_device_state.not_installed
   | Some n \<Rightarrow> state = memory_device_state.installed \<and> 0 < unat n \<and> 1024 dvd unat n \<and> unat n < 2 ^ 51)"

definition text_ok :: "string option \<Rightarrow> bool" where
  "text_ok text \<longleftrightarrow> text \<noteq> Some []"

definition device_ok :: "memory_speed_unit \<Rightarrow> memory_device \<Rightarrow> bool" where
  "device_ok u d \<longleftrightarrow> size_ok (md_state d) (md_size_bytes d) \<and> speed_ok u (md_speed d) \<and>
     speed_ok u (md_configured_speed d) \<and> text_ok (md_bank_locator d) \<and>
     text_ok (md_manufacturer d) \<and> text_ok (md_serial_number d) \<and> text_ok (md_part_number d)"

lemma top_bit_clear: "w AND 0x80000000 = 0 \<Longrightarrow> unat w < 2 ^ 31" for w :: u32
proof -
  assume a: "w AND 0x80000000 = 0"
  have "\<not> bit w 31"
  proof
    assume "bit w 31"
    then have "bit (w AND push_bit 31 1) 31" by (simp add: bit_simps)
    moreover have "push_bit 31 1 = (0x80000000 :: u32)" by (simp add: push_bit_eq_mult)
    ultimately show False using a by simp
  qed
  then have "take_bit 31 w = w"
    by (intro bit_word_eqI) (auto simp: bit_simps less_Suc_eq numeral_eq_Suc)
  then show ?thesis
    by (metis unsigned_take_bit_eq take_bit_nat_less_exp)
qed

lemma unat_u16_less: "unat x < 65536" for x :: u16
  using unsigned_less [of x] by simp

lemma memory_speed_field_ok:
  "memory_speed_field v u need off ext_need ext = Value s \<Longrightarrow> speed_ok u s"
proof -
  have small: "unat (ucast x :: u32) < 2 ^ 31" for x :: u16
    using unat_u16_less [of x] by (simp add: unat_ucast_up)
  assume "memory_speed_field v u need off ext_need ext = Value s"
  then show ?thesis
    using top_bit_clear [of "read_le_u32 (drop ext (sv_formatted v))"]
      small [of "read_le_u16 (drop off (sv_formatted v))"]
    by (auto simp: memory_speed_field_def speed_ok_def Let_def unat_gt_0 unat_ucast_up
        split: if_splits)
qed

lemma scaled_megabytes:
  fixes n :: u64
  assumes "unat n < 2 ^ 31" "n \<noteq> 0"
  shows "0 < unat (n * 1024 * 1024) \<and> 1024 dvd unat (n * 1024 * 1024) \<and> unat (n * 1024 * 1024) < 2 ^ 51"
proof -
  have 1: "unat (n * 1024) = unat n * 1024" using assms by (subst unat_mult_small) simp_all
  have 2: "unat (n * 1024 * 1024) = unat n * 1024 * 1024" using assms 1 by (subst unat_mult_small) simp_all
  from assms have "0 < unat n" by (simp add: unat_gt_0)
  with assms(1) show ?thesis unfolding 2 by simp
qed

lemma scaled_kilobytes:
  fixes n :: u64
  assumes "unat n < 2 ^ 15" "n \<noteq> 0"
  shows "0 < unat (n * 1024) \<and> 1024 dvd unat (n * 1024) \<and> unat (n * 1024) < 2 ^ 51"
proof -
  have 1: "unat (n * 1024) = unat n * 1024" using assms by (subst unat_mult_small) simp_all
  from assms have "0 < unat n" by (simp add: unat_gt_0)
  with assms(1) show ?thesis unfolding 1 by simp
qed

lemma memory_size_field_ok: "memory_size_field v = Value (state, bytes) \<Longrightarrow> size_ok state bytes"
proof -
  assume a: "memory_size_field v = Value (state, bytes)"
  let ?raw = "read_le_u16 (drop 0x0C (sv_formatted v))" and ?ext = "read_le_u32 (drop 0x1C (sv_formatted v))"
  have raw: "unat (ucast ?raw :: u64) < 2 ^ 31"
    using unat_u16_less [of ?raw] by (simp add: unat_ucast_up)
  have raw0: "(ucast ?raw :: u64) = 0 \<longleftrightarrow> ?raw = 0" "(ucast ?ext :: u64) = 0 \<longleftrightarrow> ?ext = 0"
    by (simp_all add: unat_eq_zero [symmetric] unat_ucast_up)
  have kb: "unat (ucast (?raw AND 0x7FFF) :: u64) < 2 ^ 15"
    using unat_and_mask [of ?raw 15] by (simp add: unat_ucast_up mask_eq_exp_minus_1)
  have ext: "?ext AND 0x80000000 = 0 \<Longrightarrow> unat (ucast ?ext :: u64) < 2 ^ 31"
    using top_bit_clear [of ?ext] by (simp add: unat_ucast_up)
  show ?thesis
    using a scaled_megabytes [OF raw] scaled_kilobytes [OF kb] scaled_megabytes [OF ext] raw0
    by (auto simp: memory_size_field_def size_ok_def Let_def split: if_splits)
qed

lemma memory_string_field_ok: "memory_string_field v need off = Value t \<Longrightarrow> text_ok t"
  by (auto simp: memory_string_field_def text_ok_def and_then_Value_iff split: if_splits)

lemma parse_memory_device_ok: "parse_memory_device v u = Value d \<Longrightarrow> device_ok u d"
  by (auto simp: parse_memory_device_def and_then_Value_iff device_ok_def default_memory_device_def
      dest: memory_size_field_ok memory_speed_field_ok memory_string_field_ok split: if_splits)

lemma walk_invariant:
  "walk_structures step data c s = Value (s', e) \<Longrightarrow> P s \<Longrightarrow>
   (\<And>t v tail s s'. P s \<Longrightarrow> step t v tail s = Value (Go_on s') \<Longrightarrow> P s') \<Longrightarrow>
   (\<And>t v tail s s'. P s \<Longrightarrow> step t v tail s = Value (Break_off s') \<Longrightarrow> P s') \<Longrightarrow> P s'"
proof (induction step data c s rule: walk_structures.induct)
  case (1 step data c s)
  show ?case
  proof (cases "c < length data")
    case False
    with 1(2,3) show ?thesis by (subst (asm) walk_structures.simps) simp
  next
    case True
    with 1(2) obtain view scan where v: "structure_at data c = Value (view, scan)"
      by (subst (asm) walk_structures.simps) (auto split: result.splits)
    with True 1(2) obtain w where w: "step (data ! c) view (drop (scan + 2) data) s = Value w"
      by (subst (asm) walk_structures.simps) (auto split: result.splits)
    show ?thesis
    proof (cases w)
      case (Break_off x)
      with w v True 1(2) have "x = s'" by (subst (asm) walk_structures.simps) simp
      with w Break_off 1(3,5) show ?thesis by blast
    next
      case (Go_on x)
      with w v True 1(2) have "walk_structures step data (next_cursor c view) x = Value (s', e)"
        by (subst (asm) walk_structures.simps) simp
      moreover have "P x" using w Go_on 1(3,4) by blast
      ultimately show ?thesis using 1(1) [OF True v refl w Go_on] 1(4,5) by blast
    qed
  qed
qed

text \<open>
  Whatever bytes the memory parser accepts, every returned record satisfies the promises of the
  public structure, i.e. a definite installation state, a size only when installed, positive, a
  multiple of a kibibyte and not wrapped around, speeds between 1 and 2^31 - 1 in the table's
  unit, no empty optional text, and the list is ordered.
\<close>

theorem parse_smbios_memory_devices_ok:
  "parse_smbios_memory_devices data u = Value ds \<Longrightarrow>
   list_all (device_ok u) ds \<and> in_order compare_memory_devices ds"
proof -
  assume "parse_smbios_memory_devices data u = Value ds"
  then obtain xs where w: "walk_structures (memory_step u) data 0 [] = Value (xs, True)"
    and ds: "ds = std_sort compare_memory_devices xs"
    by (auto simp: parse_smbios_memory_devices_def and_then_Value_iff split: if_splits)
  have "list_all (device_ok u) xs"
    by (rule walk_invariant [OF w, of "list_all (device_ok u)"])
      (auto simp: memory_step_def and_then_Value_iff parse_memory_device_ok split: if_splits)
  then show ?thesis
    unfolding ds by (simp add: list_all_iff memory_order.std_sort_in_order)
qed


text \<open>A table with one module in the eight-gibibyte example slot.\<close>

theorem parse_smbios_memory_devices_ok_witness:
  "list_all (device_ok memory_speed_unit.megahertz) [example_device] \<and>
   in_order compare_memory_devices [example_device]"
proof -
  have "parse_smbios_memory_devices (written_table [example_module] [0]) memory_speed_unit.megahertz =
     Value [example_device]"
    by code_simp
  then show ?thesis by (rule parse_smbios_memory_devices_ok)
qed

section \<open>Motherboard and enclosure\<close>

lemma identified_boards_exact:
  "identified_boards bs sel n =
     (if list_all bc_has_containment_fields bs
      then Value (case rev (filter bc_identifies_motherboard bs) of [] \<Rightarrow> sel | b # _ \<Rightarrow> Some b,
                  n + length (filter bc_identifies_motherboard bs))
      else fail errc.malformed_data)"
  by (induction bs arbitrary: sel n) (auto split: list.splits)

lemma matching_chassis_exact:
  "matching_chassis h cs sel n =
     (case rev (filter (\<lambda>c. cc_handle c = h) cs) of [] \<Rightarrow> sel | c # _ \<Rightarrow> Some c,
      n + length (filter (\<lambda>c. cc_handle c = h) cs))"
  by (induction cs arbitrary: sel n) (auto split: list.splits)

text \<open>The promise: a sole board record is the motherboard; of several, all of which must carry the
  containment fields, the one that identifies itself as motherboard, if exactly one does.\<close>

definition unique_board :: "board_candidate list \<Rightarrow> (board_candidate option \<times> bool) result" where
  "unique_board bs =
     (case bs of
        [] \<Rightarrow> Value (None, False)
      | [b] \<Rightarrow> Value (Some b, False)
      | _ \<Rightarrow> if list_all bc_has_containment_fields bs
             then (case filter bc_identifies_motherboard bs of
                     [b] \<Rightarrow> Value (Some b, False) | _ \<Rightarrow> Value (None, True))
             else fail errc.malformed_data)"

lemma select_board_exact: "select_board bs = unique_board bs"
  by (auto simp: select_board_def unique_board_def identified_boards_exact length_Suc_conv
      split: list.splits)

definition unique_chassis :: "chassis_candidate list \<Rightarrow> board_candidate option \<Rightarrow> chassis_candidate option" where
  "unique_chassis cs board =
     (case cs of
        [] \<Rightarrow> None
      | [c] \<Rightarrow> Some c
      | _ \<Rightarrow> (case board of
               None \<Rightarrow> None
             | Some b \<Rightarrow> if bc_has_chassis_handle b
                 then (case filter (\<lambda>c. cc_handle c = bc_chassis_handle b) cs of [c] \<Rightarrow> Some c | _ \<Rightarrow> None)
                 else None))"

lemma select_chassis_exact: "select_chassis cs board = unique_chassis cs board"
  by (auto simp: select_chassis_def unique_chassis_def matching_chassis_exact length_Suc_conv
      split: list.splits option.splits)

text \<open>
  After the table is read, the motherboard facts are those of the unique motherboard, the
  enclosure is the unique one that board names, and the two ambiguity flags, which make the
  queries answer \<open>not_supported\<close>, are set exactly when several records leave the choice open.
\<close>

theorem reduce_walk_exact:
  "reduce_walk w =
     and_then (unique_board (iw_boards w)) (\<lambda>(board, ambiguous).
       (let chassis = unique_chassis (iw_chassis w) board; facts = iw_facts w in
        Value (facts
           \<lparr>if_board_selection_ambiguous := (ambiguous \<or> if_board_selection_ambiguous facts),
            if_board_manufacturer := (case board of None \<Rightarrow> if_board_manufacturer facts | Some b \<Rightarrow> bc_manufacturer b),
            if_board_product_name := (case board of None \<Rightarrow> if_board_product_name facts | Some b \<Rightarrow> bc_product_name b),
            if_board_version := (case board of None \<Rightarrow> if_board_version facts | Some b \<Rightarrow> bc_version b),
            if_has_chassis_type := (case chassis of None \<Rightarrow> if_has_chassis_type facts | Some _ \<Rightarrow> True),
            if_chassis_type_value := (case chassis of None \<Rightarrow> if_chassis_type_value facts | Some c \<Rightarrow> cc_type c),
            if_chassis_selection_ambiguous :=
              (chassis = None \<and> length (iw_chassis w) > 1 \<or> if_chassis_selection_ambiguous facts)\<rparr>)))"
proof (cases "unique_board (iw_boards w)")
  case (Value r)
  obtain board ambiguous where r: "r = (board, ambiguous)" by (cases r)
  show ?thesis
    using Value r
    by (cases board; cases "unique_chassis (iw_chassis w) board"; cases ambiguous; cases "iw_facts w")
      (simp_all add: reduce_walk_def select_board_exact select_chassis_exact Let_def store_board_def
        store_chassis_def)
next
  case (Unexpected c)
  then show ?thesis by (simp add: reduce_walk_def select_board_exact)
qed

section \<open>The fetch\<close>

lemma fetch_attempts_Value:
  "fetch_attempts query err left call cap = Value t \<Longrightarrow> (\<And>n c. length (snd (query n c)) = c) \<Longrightarrow>
   8 < length t \<and> length t \<le> maximum_table_size"
proof (induction query err left call cap rule: fetch_attempts.induct)
  case (2 query err left call cap)
  obtain written buffer where q: "query call cap = (written, buffer)" by (cases "query call cap")
  have "length buffer = cap" using 2(3) [of call cap] q by simp
  then show ?case
    using 2 q by (auto simp: raw_smbios_header_size_def split: if_splits)
qed simp

lemma fetch_attempts_calls:
  "(\<And>n c. call \<le> n \<Longrightarrow> n < call + left \<Longrightarrow> query n c = query' n c \<and> err n = err' n) \<Longrightarrow>
   fetch_attempts query err left call cap = fetch_attempts query' err' left call cap"
  by (induction query err left call cap rule: fetch_attempts.induct) (simp_all add: Let_def split: prod.splits)

text \<open>
  Fetching the table makes at most four calls of the platform (the sizing call and three
  attempts, so a table that keeps growing cannot keep the query busy), and a table it returns has
  more bytes than the header and at most one mebibyte.
\<close>

theorem fetch_table_bounded:
  "(\<forall>n c. n \<le> 3 \<longrightarrow> query n c = query' n c \<and> last_error n = last_error' n) \<Longrightarrow>
   fetch_table_with query last_error = fetch_table_with query' last_error' \<and>
   ((\<forall>n c. length (snd (query n c)) = c) \<longrightarrow>
      (\<forall>t. fetch_table_with query last_error = Value t \<longrightarrow> 8 < length t \<and> length t \<le> 1048576))"
proof -
  assume same: "\<forall>n c. n \<le> 3 \<longrightarrow> query n c = query' n c \<and> last_error n = last_error' n"
  have "fetch_attempts query last_error 3 1 cap = fetch_attempts query' last_error' 3 1 cap" for cap
    by (rule fetch_attempts_calls) (use same in auto)
  moreover have "query 0 0 = query' 0 0" "last_error 0 = last_error' 0" using same by blast+
  ultimately have "fetch_table_with query last_error = fetch_table_with query' last_error'"
    by (simp add: fetch_table_with_def Let_def)
  moreover have "8 < length t \<and> length t \<le> 1048576"
    if "\<forall>n c. length (snd (query n c)) = c" "fetch_table_with query last_error = Value t" for t
    using that fetch_attempts_Value [of query last_error 3 1 _ t]
    by (auto simp: fetch_table_with_def Let_def maximum_table_size_def split: if_splits)
  ultimately show ?thesis by blast
qed

text \<open>A provider whose table has sixteen bytes.\<close>

definition steady_provider :: "nat \<Rightarrow> nat \<Rightarrow> u32 \<times> u8 list" where
  "steady_provider n capacity = (16, replicate capacity 0)"

theorem fetch_table_bounded_witness:
  "fetch_table_with steady_provider (\<lambda>_. success_code) = Value (replicate 16 0) \<and>
   8 < length (replicate 16 (0::u8)) \<and> length (replicate 16 (0::u8)) \<le> 1048576"
proof -
  have three: "fetch_attempts query err 3 = fetch_attempts query err (Suc 2)" for query err
    by (simp add: numeral_eq_Suc)
  have v: "fetch_table_with steady_provider (\<lambda>_. success_code) = Value (replicate 16 0)"
    unfolding fetch_table_with_def three fetch_attempts.simps
    by (simp add: steady_provider_def maximum_table_size_def raw_smbios_header_size_def)
  have "\<forall>n c. n \<le> 3 \<longrightarrow> steady_provider n c = steady_provider n c \<and> success_code = success_code"
    by simp
  from fetch_table_bounded [OF this]
  have "8 < length (replicate 16 (0::u8)) \<and> length (replicate 16 (0::u8)) \<le> 1048576"
    using v by (simp add: steady_provider_def)
  with v show ?thesis by blast
qed


section \<open>Boundary validators\<close>

interpretation pci_check: record_check check_pci_device
  "\<lambda>d. optional_utf8 (pci_driver d) \<and> optional_utf8 (pci_slot_name d)"
  by unfold_locales (simp add: check_pci_device_def)

interpretation usb_check: record_check check_usb_device
  "\<lambda>d. optional_utf8 (usb_manufacturer d) \<and> optional_utf8 (usb_product d) \<and>
       optional_utf8 (usb_serial_number d)"
  by unfold_locales (simp add: check_usb_device_def)

interpretation memory_check: record_check check_memory_device
  "\<lambda>d. is_valid_utf8 (md_locator d) \<and> optional_utf8 (md_bank_locator d) \<and>
       optional_utf8 (md_manufacturer d) \<and> optional_utf8 (md_serial_number d) \<and>
       optional_utf8 (md_part_number d)"
  by unfold_locales (simp add: check_memory_device_def)

interpretation identity_text: boundary_validator validate_identity_text
  "\<lambda>s. s \<noteq> [] \<and> is_valid_utf8 s"
proof unfold_locales
  show "\<not> has_value (validate_identity_text (Value v))" if "\<not> (v \<noteq> [] \<and> is_valid_utf8 v)" for v
    using that by (cases "v = []") (simp_all add: validate_identity_text_def)
qed (simp_all add: validate_identity_text_def)

text \<open>
  The boundary validators of the hardware module never alter platform data: each passes a
  backend's error through and returns a value exactly when the backend delivered that very value
  and all of its text is UTF-8 (and not empty, for an identity string).
\<close>

theorem hardware_validators_exact:
  "(validate_identity_text rs = Value s \<longleftrightarrow> rs = Value s \<and> s \<noteq> [] \<and> is_valid_utf8 s) \<and>
   (validate_pci_devices rp = Value ps \<longleftrightarrow> rp = Value ps \<and>
      list_all (\<lambda>d. optional_utf8 (pci_driver d) \<and> optional_utf8 (pci_slot_name d)) ps) \<and>
   (validate_usb_devices ru = Value us \<longleftrightarrow> ru = Value us \<and>
      list_all (\<lambda>d. optional_utf8 (usb_manufacturer d) \<and> optional_utf8 (usb_product d) \<and>
                    optional_utf8 (usb_serial_number d)) us) \<and>
   (validate_memory_devices rm = Value ms \<longleftrightarrow> rm = Value ms \<and>
      list_all (\<lambda>d. is_valid_utf8 (md_locator d) \<and> optional_utf8 (md_bank_locator d) \<and>
                    optional_utf8 (md_manufacturer d) \<and> optional_utf8 (md_serial_number d) \<and>
                    optional_utf8 (md_part_number d)) ms)"
  unfolding validate_pci_devices_def validate_usb_devices_def validate_memory_devices_def
  by (intro conjI identity_text.accepts_iff pci_check.snapshot.accepts_iff
      usb_check.snapshot.accepts_iff memory_check.snapshot.accepts_iff)

text \<open>
  The comparators of the PCI, USB and memory-device lists are strict weak orders, the
  requirement \<open>std::sort\<close> makes; so sorting with them yields an ordered permutation, and any other
  ordered permutation of the same records agrees with it position by position up to records the
  comparator does not separate.
\<close>

lemma device_orders_sort:
  "in_order compare_pci_devices (std_sort compare_pci_devices ps) \<and>
   in_order compare_usb_devices (std_sort compare_usb_devices us) \<and>
   mset (std_sort compare_usb_devices us) = mset us \<and>
   (\<forall>ps'. in_order compare_pci_devices ps' \<longrightarrow> mset ps' = mset ps \<longrightarrow>
     (\<forall>i < length ps. \<not> compare_pci_devices (std_sort compare_pci_devices ps ! i) (ps' ! i) \<and>
                       \<not> compare_pci_devices (ps' ! i) (std_sort compare_pci_devices ps ! i)))"
  using pci_order.std_sort_in_order usb_order.std_sort_in_order pci_order.std_sort_determined
  by (simp add: mset_std_sort)

end
