(* ===== verification/Network.thy ===== *)
theory Network
  imports Utf8_Correct
begin

text \<open>
  The network records and their boundary validation (\<open>detail/network/common.hpp\<close>): addresses, routes,
  interfaces, resolver configuration and traffic counters. A \<open>std::array<unsigned char, 16>\<close> is a list
  of sixteen bytes. The theorems read a route's destination as a number and show that the byte and
  bit tests of the code accept exactly the destinations without host bits.
\<close>

unbundle bit_operations_syntax

section \<open>Records\<close>

datatype address_family = ipv4 | ipv6

datatype interface_state =
    unknown
  | down
  | up

definition maximum_prefix_length :: "address_family \<Rightarrow> u8" where
  "maximum_prefix_length family = (if family = ipv4 then 32 else 128)"

record unicast_record =
  ur_family :: address_family
  ur_value :: "u8 list"
  ur_prefix_length :: u8
  ur_scope_id :: u32

record interface_record =
  ir_name :: string
  ir_index :: u32
  ir_state :: interface_state
  ir_loopback :: bool
  ir_hardware_address :: "u8 list"
  ir_addresses :: "unicast_record list"
  ir_mtu_bytes :: u32

record ip_address_record =
  ip_family :: address_family
  ip_value :: "u8 list"
  ip_scope_id :: u32

record route_record =
  rr_destination :: ip_address_record
  rr_prefix_length :: u8
  rr_next_hop :: "ip_address_record option"
  rr_interface_index :: u32
  rr_metric :: "u32 option"

record dns_server_record =
  ds_address :: ip_address_record
  ds_interface_index :: "u32 option"

record dns_record =
  dr_servers :: "dns_server_record list"
  dr_search_domains :: "string list option"
  dr_domain_name :: "string option"

record statistics_record =
  sr_name :: string
  sr_index :: u32
  sr_rx_bytes :: u64
  sr_tx_bytes :: u64
  sr_rx_packets :: u64
  sr_tx_packets :: u64
  sr_rx_errors :: u64
  sr_tx_errors :: u64
  sr_rx_dropped :: u64
  sr_tx_dropped :: u64
  sr_rx_multicast :: "u64 option"
  sr_collisions :: "u64 option"

section \<open>Validation\<close>

text \<open>The loop over \<open>value[from..to)\<close> that looks for a nonzero byte.\<close>

definition bytes_zero :: "u8 list \<Rightarrow> nat \<Rightarrow> nat \<Rightarrow> bool" where
  "bytes_zero bytes from to = list_all (\<lambda>i. bytes ! i = 0) [from..<to]"

text \<open>
  The family is one of the two enumerators in this model, so the first test of the code, which
  guards against other bit patterns of the enumeration, is vacuous.
\<close>

definition validate_ip_address :: "ip_address_record \<Rightarrow> unit result" where
  "validate_ip_address address =
     (if ip_family address \<noteq> ipv4 \<and> ip_family address \<noteq> ipv6 then fail errc.malformed_data
      else if ip_family address = ipv4 then
        (if ip_scope_id address \<noteq> 0 then fail errc.malformed_data
         else if \<not> bytes_zero (ip_value address) 4 (length (ip_value address))
           then fail errc.malformed_data
         else Value ())
      else Value ())"

definition address_length :: "address_family \<Rightarrow> nat" where
  "address_length family = (if family = ipv4 then 4 else 16)"

definition is_unspecified :: "ip_address_record \<Rightarrow> bool" where
  "is_unspecified address = bytes_zero (ip_value address) 0 (address_length (ip_family address))"

definition host_mask :: "u8 \<Rightarrow> u8" where
  "host_mask remainder = ucast (push_bit (8 - unat remainder) (1 :: u32) - 1)"

definition check_route :: "route_record \<Rightarrow> unit result" where
  "check_route entry =
     and_then (validate_ip_address (rr_destination entry)) (\<lambda>_.
       (let family = ip_family (rr_destination entry);
            bytes = ip_value (rr_destination entry);
            len = address_length family;
            whole = unat (rr_prefix_length entry div 8);
            remainder = rr_prefix_length entry mod 8;
            host_start = whole + (if remainder = 0 then 0 else 1)
        in
        if rr_interface_index entry = 0 \<or> rr_prefix_length entry > maximum_prefix_length family
          then fail errc.malformed_data
        else if remainder \<noteq> 0 \<and> whole < len \<and> bytes ! whole AND host_mask remainder \<noteq> 0
          then fail errc.malformed_data
        else if \<not> bytes_zero bytes host_start len then fail errc.malformed_data
        else (case rr_next_hop entry of
                None \<Rightarrow> Value ()
              | Some hop \<Rightarrow>
                  and_then (validate_ip_address hop) (\<lambda>_.
                    if ip_family hop \<noteq> family then fail errc.malformed_data else Value ()))))"

definition validate_route_records :: "route_record list result \<Rightarrow> route_record list result" where
  "validate_route_records records = validate_each check_route records"

definition check_unicast :: "unicast_record \<Rightarrow> unit result" where
  "check_unicast address =
     (if ur_prefix_length address > maximum_prefix_length (ur_family address)
        then fail errc.malformed_data
      else if ur_family address = ipv4 then
        (if ur_scope_id address \<noteq> 0 then fail errc.malformed_data
         else if \<not> bytes_zero (ur_value address) 4 (length (ur_value address))
           then fail errc.malformed_data
         else Value ())
      else Value ())"

definition check_interface :: "interface_record \<Rightarrow> unit result" where
  "check_interface entry =
     fail_if (ir_name entry = [] \<or> ir_index entry = 0) errc.malformed_data
       (fail_if (\<not> is_valid_utf8 (ir_name entry)) errc.invalid_encoding
         (each check_unicast (ir_addresses entry)))"

definition validate_interface_records ::
    "interface_record list result \<Rightarrow> interface_record list result" where
  "validate_interface_records records = validate_each check_interface records"

definition check_dns_server :: "dns_server_record \<Rightarrow> unit result" where
  "check_dns_server server =
     and_then (validate_ip_address (ds_address server)) (\<lambda>_.
       fail_if (ds_interface_index server = Some 0) errc.malformed_data (Value ()))"

definition check_domain :: "string \<Rightarrow> unit result" where
  "check_domain domain =
     fail_if (domain = [] \<or> CHR 0x00 \<in> set domain) errc.malformed_data
       (fail_if (\<not> is_valid_utf8 domain) errc.invalid_encoding (Value ()))"

definition validate_dns_record :: "dns_record result \<Rightarrow> dns_record result" where
  "validate_dns_record value =
     and_then value (\<lambda>dns.
     and_then (each check_dns_server (dr_servers dns)) (\<lambda>_.
     and_then (case dr_search_domains dns of None \<Rightarrow> Value () | Some ds \<Rightarrow> each check_domain ds) (\<lambda>_.
     and_then (case dr_domain_name dns of None \<Rightarrow> Value () | Some d \<Rightarrow> check_domain d) (\<lambda>_.
       Value dns))))"

definition add_statistics_counters :: "u64 \<Rightarrow> u64 \<Rightarrow> u64 result" where
  "add_statistics_counters left right =
     (if left > 0xFFFFFFFFFFFFFFFF - right then fail errc.value_too_large else Value (left + right))"

definition check_statistics :: "statistics_record \<Rightarrow> unit result" where
  "check_statistics entry =
     fail_if (sr_name entry = [] \<or> sr_index entry = 0) errc.malformed_data
       (fail_if (\<not> is_valid_utf8 (sr_name entry)) errc.invalid_encoding (Value ()))"

definition validate_statistics_record :: "statistics_record result \<Rightarrow> statistics_record result" where
  "validate_statistics_record value =
     and_then value (\<lambda>entry. and_then (check_statistics entry) (\<lambda>_. Value entry))"

definition validate_statistics_records ::
    "statistics_record list result \<Rightarrow> statistics_record list result" where
  "validate_statistics_records records = validate_each check_statistics records"

section \<open>Destinations without host bits\<close>

text \<open>The number that bytes in network order denote.\<close>

definition be_value :: "u8 list \<Rightarrow> nat" where
  "be_value bs = foldl (\<lambda>v b. v * 256 + unat b) 0 bs"

lemma be_value_Nil [simp]: "be_value [] = 0"
  by (simp add: be_value_def)

lemma be_value_snoc [simp]: "be_value (bs @ [b]) = be_value bs * 256 + unat b"
  by (simp add: be_value_def)

lemma be_value_append: "be_value (xs @ ys) = be_value xs * 256 ^ length ys + be_value ys"
proof (induction ys rule: rev_induct)
  case (snoc y ys)
  have "be_value (xs @ ys @ [y]) = be_value (xs @ ys) * 256 + unat y"
    using be_value_snoc [of "xs @ ys" y] by simp
  then show ?case using snoc by (simp add: algebra_simps)
qed simp

lemma be_value_less: "be_value bs < 256 ^ length bs"
proof (induction bs rule: rev_induct)
  case (snoc b bs)
  have "unat b < 256" using unsigned_less [of b] by simp
  with snoc have "be_value bs * 256 + unat b < Suc (be_value bs) * 256" by simp
  also have "\<dots> \<le> 256 ^ length bs * 256" using snoc by (intro mult_right_mono) simp_all
  finally show ?case by (simp add: mult.commute)
qed simp

lemma be_value_zero_iff: "be_value bs = 0 \<longleftrightarrow> (\<forall>b \<in> set bs. b = 0)"
  by (induction bs rule: rev_induct) (auto simp: unat_eq_zero)

definition host_bits_zero :: "u8 list \<Rightarrow> nat \<Rightarrow> bool" where
  "host_bits_zero bs prefix \<longleftrightarrow> 2 ^ (8 * length bs - prefix) dvd be_value bs"

text \<open>The bits below a byte boundary vanish exactly when all later bytes are zero.\<close>

lemma dvd_be_value:
  assumes "w \<le> length bs"
  shows "256 ^ (length bs - w) dvd be_value bs \<longleftrightarrow> (\<forall>b \<in> set (drop w bs). b = 0)"
proof -
  have v: "be_value bs = be_value (take w bs) * 256 ^ (length bs - w) + be_value (drop w bs)"
    using be_value_append [of "take w bs" "drop w bs"] by simp
  have "256 ^ (length bs - w) dvd be_value bs \<longleftrightarrow> 256 ^ (length bs - w) dvd be_value (drop w bs)"
    unfolding v by (rule dvd_add_right_iff) simp
  also have "\<dots> \<longleftrightarrow> be_value (drop w bs) = 0"
    using be_value_less [of "drop w bs"] by (auto dest: dvd_imp_le)
  finally show ?thesis by (simp add: be_value_zero_iff)
qed

lemma dvd_be_value_bits:
  assumes "w < length bs" "0 < r" "r < 8"
  shows "2 ^ (8 - r) * 256 ^ (length bs - Suc w) dvd be_value bs \<longleftrightarrow>
    unat (bs ! w) mod 2 ^ (8 - r) = 0 \<and> (\<forall>b \<in> set (drop (Suc w) bs). b = 0)"
proof -
  let ?k = "256 ^ (length bs - Suc w) :: nat" and ?m = "2 ^ (8 - r) :: nat"
  have v: "be_value bs = be_value (take (Suc w) bs) * ?k + be_value (drop (Suc w) bs)"
    using be_value_append [of "take (Suc w) bs" "drop (Suc w) bs"] assms by simp
  have t: "be_value (take (Suc w) bs) = be_value (take w bs) * 256 + unat (bs ! w)"
    using assms by (simp add: take_Suc_conv_app_nth)
  have "?m dvd 256" using le_imp_power_dvd [of "8 - r" 8 "2::nat"] by simp
  then have m: "?m dvd be_value (take (Suc w) bs) \<longleftrightarrow> ?m dvd unat (bs ! w)"
    unfolding t by (intro dvd_add_right_iff dvd_mult)
  show ?thesis
  proof
    assume d: "?m * ?k dvd be_value bs"
    then have "?k dvd be_value bs" by (rule dvd_mult_right)
    then have z: "\<forall>b \<in> set (drop (Suc w) bs). b = 0"
      using dvd_be_value [of "Suc w" bs] assms by simp
    then have "be_value (drop (Suc w) bs) = 0" by (simp add: be_value_zero_iff)
    with d have "?m dvd be_value (take (Suc w) bs)" by (simp add: v)
    with m z show "unat (bs ! w) mod ?m = 0 \<and> (\<forall>b \<in> set (drop (Suc w) bs). b = 0)"
      by (simp add: dvd_eq_mod_eq_0)
  next
    assume a: "unat (bs ! w) mod ?m = 0 \<and> (\<forall>b \<in> set (drop (Suc w) bs). b = 0)"
    then have "be_value (drop (Suc w) bs) = 0" by (simp add: be_value_zero_iff)
    moreover have "?m dvd be_value (take (Suc w) bs)" using a m by (simp add: dvd_eq_mod_eq_0)
    ultimately show "?m * ?k dvd be_value bs" by (simp add: v)
  qed
qed

lemma host_mask_value:
  assumes "0 < unat r" "unat r < 8"
  shows "b AND host_mask r = 0 \<longleftrightarrow> unat b mod 2 ^ (8 - unat r) = 0"
proof -
  have "unat r \<in> set [1, 2, 3, 4, 5, 6, 7]" using assms by auto
  then have "r \<in> set [1, 2, 3, 4, 5, 6, 7]" by (auto simp: word_unat_eq_iff)
  then have "host_mask r = mask (8 - unat r)"
    by (auto simp: host_mask_def mask_eq_exp_minus_1 push_bit_eq_mult)
  then show ?thesis by (metis unat_and_mask unat_eq_zero)
qed


section \<open>What the validators accept\<close>

definition address_ok :: "ip_address_record \<Rightarrow> bool" where
  "address_ok a \<longleftrightarrow> (ip_family a = ipv4 \<longrightarrow>
     ip_scope_id a = 0 \<and> (\<forall>b \<in> set (drop 4 (ip_value a)). b = 0))"

lemma bytes_zero_iff: "to \<le> length bs \<Longrightarrow> bytes_zero bs from to \<longleftrightarrow> (\<forall>b \<in> set (drop from (take to bs)). b = 0)"
proof -
  assume "to \<le> length bs"
  then have "drop from (take to bs) = map (\<lambda>i. bs ! i) [from..<to]"
    by (intro nth_equalityI) simp_all
  then show ?thesis by (simp add: bytes_zero_def list_all_iff)
qed

lemma validate_ip_address_iff: "validate_ip_address a = Value () \<longleftrightarrow> address_ok a"
  by (cases "ip_family a") (simp_all add: validate_ip_address_def address_ok_def bytes_zero_iff)

text \<open>The network prefix of a route as the documentation states it.\<close>

definition route_ok :: "route_record \<Rightarrow> bool" where
  "route_ok r \<longleftrightarrow>
     (let d = rr_destination r; len = address_length (ip_family d); p = unat (rr_prefix_length r) in
      address_ok d \<and> rr_interface_index r \<noteq> 0 \<and> p \<le> 8 * len \<and>
      host_bits_zero (take len (ip_value d)) p \<and>
      (\<forall>hop. rr_next_hop r = Some hop \<longrightarrow> address_ok hop \<and> ip_family hop = ip_family d))"

lemma maximum_prefix_length_value: "unat (maximum_prefix_length f) = 8 * address_length f"
  by (cases f) (simp_all add: maximum_prefix_length_def address_length_def)

lemma prefix_split:
  fixes p len :: nat
  assumes "p mod 8 \<noteq> 0" "p \<le> 8 * len"
  shows "p div 8 < len \<and> 8 * len - p = (8 - p mod 8) + 8 * (len - Suc (p div 8))"
proof -
  define q m where "q = p div 8" and "m = p mod 8"
  then have "p = 8 * q + m" "m < 8" "m \<noteq> 0" using assms(1) by simp_all
  with assms(2) have "q < len \<and> 8 * len - p = (8 - m) + 8 * (len - Suc q)" by auto
  then show ?thesis by (simp add: q_def m_def)
qed

lemma network_bits:
  fixes p :: u8
  assumes "length bs = len" "unat p \<le> 8 * len"
  shows "(\<not> (p mod 8 \<noteq> 0 \<and> unat (p div 8) < len \<and> bs ! unat (p div 8) AND host_mask (p mod 8) \<noteq> 0) \<and>
      bytes_zero bs (unat (p div 8) + (if p mod 8 = 0 then 0 else 1)) len) \<longleftrightarrow>
    host_bits_zero bs (unat p)"
proof -
  let ?w = "unat (p div 8)" and ?r = "p mod 8"
  have w: "?w = unat p div 8" and r: "unat ?r = unat p mod 8" by (simp_all add: unat_div unat_mod)
  have r0: "?r = 0 \<longleftrightarrow> unat p mod 8 = 0" using r by (simp flip: unat_eq_zero)
  have z: "bytes_zero bs n len \<longleftrightarrow> (\<forall>b \<in> set (drop n bs). b = 0)" for n
    using bytes_zero_iff [of len bs n] assms(1) by simp
  show ?thesis
  proof (cases "unat p mod 8 = 0")
    case True
    then have p: "unat p = 8 * ?w" using mult_div_mod_eq [of 8 "unat p"] w by simp
    then have e: "8 * length bs - unat p = 8 * (length bs - ?w)" by (simp add: diff_mult_distrib2)
    have "?w \<le> length bs" using assms p by simp
    from dvd_be_value [OF this] show ?thesis
      using True r0 by (simp add: z host_bits_zero_def e power_mult)
  next
    case False
    from prefix_split [OF False assms(2)]
    have lt: "?w < length bs" using assms(1) by (simp add: w)
    have r8: "0 < unat p mod 8" "unat p mod 8 < 8" using False by simp_all
    have e: "8 * length bs - unat p = (8 - unat p mod 8) + 8 * (length bs - Suc ?w)"
      using prefix_split [OF False assms(2)] assms(1) by (simp add: w)
    have "2 ^ (8 * length bs - unat p) = 2 ^ (8 - unat p mod 8) * (256::nat) ^ (length bs - Suc ?w)"
      unfolding e power_add power_mult by simp
    then show ?thesis
      using dvd_be_value_bits [OF lt r8] host_mask_value [of ?r "bs ! ?w"] r8 False r0 lt assms(1)
      by (simp add: z host_bits_zero_def r)
  qed
qed

lemma take_address: "length bs = 16 \<Longrightarrow> length (take (address_length f) bs) = address_length f"
  by (cases f) (simp_all add: address_length_def)

lemma check_route_iff:
  assumes "length (ip_value (rr_destination r)) = 16"
  shows "check_route r = Value () \<longleftrightarrow> route_ok r"
proof -
  let ?d = "rr_destination r" and ?p = "rr_prefix_length r"
  let ?len = "address_length (ip_family ?d)"
  note len = take_address [OF assms, of "ip_family ?d"]
  have z: "bytes_zero (take ?len (ip_value ?d)) n ?len = bytes_zero (ip_value ?d) n ?len" for n
    by (auto simp: bytes_zero_def list_all_iff)
  have n: "take ?len (ip_value ?d) ! k = ip_value ?d ! k" if "k < ?len" for k
    using that by simp
  have hop: "(case rr_next_hop r of None \<Rightarrow> Value ()
      | Some hop \<Rightarrow> and_then (validate_ip_address hop) (\<lambda>_.
          if ip_family hop \<noteq> ip_family ?d then fail errc.malformed_data else Value ())) = Value () \<longleftrightarrow>
      (\<forall>hop. rr_next_hop r = Some hop \<longrightarrow> address_ok hop \<and> ip_family hop = ip_family ?d)"
    by (auto simp: and_then_Value_iff validate_ip_address_iff split: option.splits if_splits)
  show ?thesis
  proof (cases "address_ok ?d \<and> rr_interface_index r \<noteq> 0 \<and> unat ?p \<le> 8 * ?len")
    case False
    then show ?thesis
      by (auto simp: check_route_def route_ok_def and_then_Value_iff validate_ip_address_iff Let_def
          word_order_nat maximum_prefix_length_value)
  next
    case True
    then have v: "validate_ip_address ?d = Value ()" by (simp add: validate_ip_address_iff)
    have p: "\<not> maximum_prefix_length (ip_family ?d) < ?p"
      using True by (simp add: word_order_nat maximum_prefix_length_value)
    show ?thesis
      using True network_bits [OF len, of ?p, unfolded z] n v p hop
      by (auto simp: check_route_def route_ok_def Let_def split: if_splits)
  qed
qed

text \<open>
  A route snapshot passes the boundary, unchanged, exactly when every route names an interface,
  has a prefix length of its family, no bit of its destination set below the prefix (the
  destination as a number is divisible by the size of the network), well-formed addresses, and a
  next hop of the destination's family.
\<close>

theorem validate_route_records_exact:
  "list_all (\<lambda>r. length (ip_value (rr_destination r)) = 16) rs \<Longrightarrow>
   validate_route_records (Value rs) = Value rs' \<longleftrightarrow> rs' = rs \<and> list_all route_ok rs"
proof -
  assume "list_all (\<lambda>r. length (ip_value (rr_destination r)) = 16) rs"
  then have "each check_route rs = Value () \<longleftrightarrow> list_all route_ok rs"
    by (simp add: each_Value_iff list_all_iff check_route_iff)
  then show ?thesis
    by (auto simp: validate_route_records_def validate_each_def and_then_Value_iff)
qed

text \<open>\<open>192.168.4.0/22\<close> is accepted.\<close>

definition example_route :: route_record where
  "example_route =
     \<lparr>rr_destination = \<lparr>ip_family = ipv4, ip_value = [192, 168, 4, 0] @ replicate 12 0, ip_scope_id = 0\<rparr>,
      rr_prefix_length = 22, rr_next_hop = None, rr_interface_index = 2, rr_metric = None\<rparr>"

theorem validate_route_records_exact_witness:
  "validate_route_records (Value [example_route]) = Value [example_route] \<and>
   list_all route_ok [example_route]"
proof -
  have "list_all (\<lambda>r. length (ip_value (rr_destination r)) = 16) [example_route]"
    by (simp add: example_route_def)
  from validate_route_records_exact [OF this, of "[example_route]"]
  have "validate_route_records (Value [example_route]) = Value [example_route] \<longleftrightarrow>
      list_all route_ok [example_route]" by simp
  moreover have "validate_route_records (Value [example_route]) = Value [example_route]" by code_simp
  ultimately show ?thesis by blast
qed

section \<open>The other snapshots\<close>

definition unicast_ok :: "unicast_record \<Rightarrow> bool" where
  "unicast_ok a \<longleftrightarrow> unat (ur_prefix_length a) \<le> 8 * address_length (ur_family a) \<and>
     (ur_family a = ipv4 \<longrightarrow> ur_scope_id a = 0 \<and> (\<forall>b \<in> set (drop 4 (ur_value a)). b = 0))"

lemma check_unicast_iff: "check_unicast a = Value () \<longleftrightarrow> unicast_ok a"
  by (cases "ur_family a")
    (simp_all add: check_unicast_def unicast_ok_def bytes_zero_iff word_order_nat
      maximum_prefix_length_value)

definition named_ok :: "string \<Rightarrow> u32 \<Rightarrow> bool" where
  "named_ok name index \<longleftrightarrow> name \<noteq> [] \<and> index \<noteq> 0 \<and> is_valid_utf8 name"

interpretation interface_check: record_check check_interface
  "\<lambda>r. named_ok (ir_name r) (ir_index r) \<and> list_all unicast_ok (ir_addresses r)"
  by unfold_locales
    (auto simp: check_interface_def named_ok_def each_Value_iff check_unicast_iff list_all_iff)

interpretation statistics_check: record_check check_statistics
  "\<lambda>r. named_ok (sr_name r) (sr_index r)"
  by unfold_locales (auto simp: check_statistics_def named_ok_def)

definition domain_ok :: "string \<Rightarrow> bool" where
  "domain_ok d \<longleftrightarrow> d \<noteq> [] \<and> CHR 0x00 \<notin> set d \<and> is_valid_utf8 d"

definition dns_ok :: "dns_record \<Rightarrow> bool" where
  "dns_ok r \<longleftrightarrow>
     list_all (\<lambda>s. address_ok (ds_address s) \<and> ds_interface_index s \<noteq> Some 0) (dr_servers r) \<and>
     (\<forall>ds. dr_search_domains r = Some ds \<longrightarrow> list_all domain_ok ds) \<and>
     (\<forall>d. dr_domain_name r = Some d \<longrightarrow> domain_ok d)"

lemma check_dns_server_iff:
  "check_dns_server s = Value () \<longleftrightarrow> address_ok (ds_address s) \<and> ds_interface_index s \<noteq> Some 0"
  by (auto simp: check_dns_server_def and_then_Value_iff validate_ip_address_iff)

lemma check_domain_iff: "check_domain d = Value () \<longleftrightarrow> domain_ok d"
  by (auto simp: check_domain_def domain_ok_def)

interpretation dns: boundary_validator validate_dns_record dns_ok
proof unfold_locales
  have iff: "validate_dns_record (Value v) = Value w \<longleftrightarrow> w = v \<and> dns_ok v" for v w
    by (auto simp: validate_dns_record_def dns_ok_def and_then_Value_iff each_Value_iff
        check_dns_server_iff check_domain_iff list_all_iff split: option.splits)
  show "validate_dns_record (Unexpected c) = Unexpected c" for c
    by (simp add: validate_dns_record_def)
  show "dns_ok v \<Longrightarrow> validate_dns_record (Value v) = Value v" for v
    by (simp add: iff)
  show "\<not> dns_ok v \<Longrightarrow> \<not> has_value (validate_dns_record (Value v))" for v
    by (auto simp: has_value_iff iff)
qed

text \<open>
  Interface, statistics and resolver snapshots pass the boundary unchanged or not at all: a
  value comes out exactly when the backend delivered that value and it satisfies the documented
  rules; validating again changes nothing.
\<close>

theorem network_validators_exact:
  "(validate_interface_records ri = Value xs \<longleftrightarrow> ri = Value xs \<and>
      list_all (\<lambda>r. named_ok (ir_name r) (ir_index r) \<and> list_all unicast_ok (ir_addresses r)) xs) \<and>
   (validate_statistics_records rs = Value ss \<longleftrightarrow> rs = Value ss \<and>
      list_all (\<lambda>r. named_ok (sr_name r) (sr_index r)) ss) \<and>
   (validate_dns_record rd = Value d \<longleftrightarrow> rd = Value d \<and> dns_ok d) \<and>
   validate_dns_record (validate_dns_record rd) = validate_dns_record rd"
  unfolding validate_interface_records_def validate_statistics_records_def
  by (intro conjI interface_check.snapshot.accepts_iff statistics_check.snapshot.accepts_iff
      dns.accepts_iff dns.normal.validate_idem)

text \<open>
  A zero MTU passes the boundary: the validity of an interface record does not depend on its
  MTU, contrary to the comment on the field.
\<close>

lemma interface_mtu_unchecked:
  "check_interface (r\<lparr>ir_mtu_bytes := m\<rparr>) = check_interface r"
  by (simp add: check_interface_def)

lemma add_statistics_counters_exact:
  "add_statistics_counters a b =
     (if unat a + unat b < 2 ^ 64 then Value (a + b) else fail errc.value_too_large) \<and>
   (unat a + unat b < 2 ^ 64 \<longrightarrow> unat (a + b) = unat a + unat b)"
proof -
  have b: "unat b < 2 ^ 64" using unsigned_less [of b] by simp
  then have "unat (0xFFFFFFFFFFFFFFFF - b) = 2 ^ 64 - 1 - unat b"
    by (subst unat_sub) (simp_all add: word_le_nat_alt)
  then show ?thesis
    using b unat_add_small [of a b]
    by (auto simp: add_statistics_counters_def word_order_nat)
qed


end
