(* ===== verification/Linux_Io.thy ===== *)
theory Linux_Io
  imports Foundation
begin

text \<open>
  The bounded system interactions the backends share: reading a whole file (\<open>detail/linux/file.hpp\<close>),
  opening a directory (\<open>detail/linux/directory.hpp\<close>), looking up a user with a growing buffer
  (\<open>detail/posix/passwd.hpp\<close>) and scaling process metrics (\<open>detail/linux/process_metrics.hpp\<close>).

  What the kernel answers to successive calls is a list of events. A loop that has used them up has not
  returned yet, which is \<^const>\<open>None\<close>; the theorems say how many answers are enough for it to return.
\<close>

section \<open>Error numbers\<close>

definition EINTR :: int where "EINTR = 4"
definition EPERM :: int where "EPERM = 1"
definition ENOENT :: int where "ENOENT = 2"
definition EACCES :: int where "EACCES = 13"
definition EAGAIN :: int where "EAGAIN = 11"
definition ENOTDIR :: int where "ENOTDIR = 20"
definition ERANGE :: int where "ERANGE = 34"
definition ECONNREFUSED :: int where "ECONNREFUSED = 111"
definition EIO :: int where "EIO = 5"
definition ENOTTY :: int where "ENOTTY = 25"
definition EOPNOTSUPP :: int where "EOPNOTSUPP = 95"

text \<open>\<open>fail(std::error_code(errno, std::generic_category()))\<close>.\<close>

definition fail_errno :: "int \<Rightarrow> 'a result" where
  "fail_errno e = Unexpected \<lparr>ec_value = e, ec_category = generic_category\<rparr>"

lemma fail_errno_ne [simp]: "fail_errno e \<noteq> Value v" "Value v \<noteq> fail_errno e"
  by (simp_all add: fail_errno_def)

lemma and_then_fail_errno [simp]: "and_then (fail_errno e) f = fail_errno e"
  by (simp add: fail_errno_def)

text \<open>\<open>code == std::errc::no_such_file_or_directory\<close>: equality through the error conditions.\<close>

definition is_no_such_file :: "error_code \<Rightarrow> bool" where
  "is_no_such_file c \<longleftrightarrow>
     (if ec_category c = syscape_category
      then default_error_condition (ec_value c) = Generic_condition std_no_such_file_or_directory
      else ec_value c = ENOENT)"

text \<open>\<open>code == std::errc::permission_denied\<close>.\<close>

definition is_permission_denied :: "error_code \<Rightarrow> bool" where
  "is_permission_denied c \<longleftrightarrow>
     (if ec_category c = syscape_category
      then default_error_condition (ec_value c) = Generic_condition std_permission_denied
      else ec_value c = EACCES)"

section \<open>Reading a file\<close>

text \<open>An answer of \<open>read\<close>: the bytes it delivered, none at the end of the file, or an error number.\<close>

datatype read_event = Read string | Read_error int

fun read_loop :: "nat \<Rightarrow> string \<Rightarrow> read_event list \<Rightarrow> string result option" where
  "read_loop maximum_size output [] = None"
| "read_loop maximum_size output (Read buffer # es) =
     (if buffer \<noteq> [] then
        (if length output > maximum_size \<or> length buffer > maximum_size - length output
           then Some (fail errc.value_too_large)
         else read_loop maximum_size (output @ buffer) es)
      else Some (Value output))"
| "read_loop maximum_size output (Read_error errno # es) =
     (if errno \<noteq> EINTR then Some (fail_errno errno) else read_loop maximum_size output es)"

text \<open>\<open>open_error\<close> is the error number of a failed \<open>open\<close>.\<close>

definition read_text_file :: "int option \<Rightarrow> nat \<Rightarrow> read_event list \<Rightarrow> string result option" where
  "read_text_file open_error maximum_size events =
     (case open_error of
        Some e \<Rightarrow> Some (fail_errno e)
      | None \<Rightarrow> read_loop maximum_size [] events)"

definition trim_line_end :: "string \<Rightarrow> string" where
  "trim_line_end s = rev (dropWhile (\<lambda>c. c = CHR 0x0A \<or> c = CHR 0x0D) (rev s))"

text \<open>\<open>directory_handle\<close>: an open stream, or the error number of \<open>opendir\<close>.\<close>

record directory_handle =
  dh_valid :: bool
  dh_error :: int

definition open_directory :: "int option \<Rightarrow> directory_handle" where
  "open_directory opendir_error =
     \<lparr>dh_valid = (opendir_error = None), dh_error = (case opendir_error of None \<Rightarrow> 0 | Some e \<Rightarrow> e)\<rparr>"

subsection \<open>Correctness\<close>

text \<open>The bytes before the end of file, if no error other than an interruption comes first.\<close>

fun file_content :: "read_event list \<Rightarrow> string option" where
  "file_content [] = None"
| "file_content (Read buffer # es) =
     (if buffer = [] then Some [] else map_option ((@) buffer) (file_content es))"
| "file_content (Read_error e # es) = (if e = EINTR then file_content es else None)"

lemma read_loop_value:
  "length out \<le> m \<Longrightarrow>
   read_loop m out es = Some (Value s) \<longleftrightarrow>
     (\<exists>c. file_content es = Some c \<and> s = out @ c \<and> length s \<le> m)"
proof (induction m out es rule: read_loop.induct)
  case (2 m out buffer es)
  show ?case
  proof (cases "buffer = [] \<or> length buffer > m - length out")
    case True
    then show ?thesis using 2 by auto
  next
    case False
    then have "length (out @ buffer) \<le> m" using 2(2) by auto
    with False 2 have "read_loop m (out @ buffer) es = Some (Value s) \<longleftrightarrow>
        (\<exists>c. file_content es = Some c \<and> s = (out @ buffer) @ c \<and> length s \<le> m)" by simp
    then show ?thesis using False 2(2) by auto
  qed
qed auto

definition interrupted :: "read_event \<Rightarrow> bool" where
  "interrupted e \<longleftrightarrow> e = Read_error EINTR"

lemma read_loop_returns:
  "length out \<le> m \<Longrightarrow> m - length out < length (filter (\<lambda>e. \<not> interrupted e) es) \<Longrightarrow>
   read_loop m out es \<noteq> None"
proof (induction m out es rule: read_loop.induct)
  case (2 m out buffer es)
  then show ?case
    by (cases "buffer = [] \<or> length buffer > m - length out")
      (auto simp: interrupted_def neq_Nil_conv)
qed (auto simp: interrupted_def)

text \<open>
  C12. Reading a file returns: after \<open>maximum_size + 1\<close> answers that are not interruptions the loop has
  ended, whatever the answers were. It returns text exactly when the end of the file is reached with at
  most \<open>maximum_size\<close> bytes, and the text is the concatenation of what was read.
\<close>

theorem read_text_file_returns:
  assumes "maximum_size < length (filter (\<lambda>e. \<not> interrupted e) events)"
  shows "(\<exists>r. read_text_file open_error maximum_size events = Some r) \<and>
    (read_text_file None maximum_size events = Some (Value s) \<longleftrightarrow>
      file_content events = Some s \<and> length s \<le> maximum_size)"
proof -
  have "read_loop maximum_size [] events \<noteq> None"
    using assms by (intro read_loop_returns) simp_all
  moreover have "read_loop maximum_size [] events = Some (Value s) \<longleftrightarrow>
      file_content events = Some s \<and> length s \<le> maximum_size"
    using read_loop_value [of "[]" maximum_size events s] by auto
  ultimately show ?thesis
    by (cases open_error) (auto simp: read_text_file_def)
qed

theorem read_text_file_returns_witness:
  "(\<exists>r. read_text_file None 3 [Read ''ab'', Read_error EINTR, Read ''c'', Read [], Read []] = Some r) \<and>
   (read_text_file None 3 [Read ''ab'', Read_error EINTR, Read ''c'', Read [], Read []] = Some (Value ''abc'') \<longleftrightarrow>
     file_content [Read ''ab'', Read_error EINTR, Read ''c'', Read [], Read []] = Some ''abc'' \<and>
     length ''abc'' \<le> 3)"
  by (rule read_text_file_returns) (simp add: interrupted_def)

lemma trim_line_end_idem: "trim_line_end (trim_line_end s) = trim_line_end s"
proof -
  have "dropWhile P (dropWhile P xs) = dropWhile P xs" for P and xs :: string
    by (induction xs) auto
  then show ?thesis by (simp add: trim_line_end_def)
qed

section \<open>Looking up a user\<close>

record passwd_fields =
  pw_name_text :: string
  pw_directory_text :: string
  pw_shell_text :: string

text \<open>The fields of \<open>struct passwd\<close> the code copies; a null pointer is \<^const>\<open>None\<close>.\<close>

record passwd =
  pw_name :: "string option"
  pw_dir :: "string option"
  pw_shell :: "string option"

text \<open>
  What the lookup with a buffer of a given size answers: an error number and the entry found. No size
  is tried twice, so the answers of any run are such a function.
\<close>

type_synonym passwd_lookup = "nat \<Rightarrow> int \<times> passwd option"

definition int_max :: nat where "int_max = 2147483647"

definition invoke_size_t :: "passwd_lookup \<Rightarrow> passwd_lookup" where
  "invoke_size_t f size_of = f size_of"

definition invoke_int :: "passwd_lookup \<Rightarrow> passwd_lookup" where
  "invoke_int f size_of = (if size_of > int_max then (ERANGE, None) else f size_of)"

text \<open>The Draft 6 interface returns the entry and reports failure through \<open>errno\<close> alone.\<close>

definition invoke_draft6 :: "passwd_lookup \<Rightarrow> passwd_lookup" where
  "invoke_draft6 f size_of =
     (if size_of > int_max then (ERANGE, None)
      else (let (errno, pointer) = f size_of in (if pointer = None then errno else 0, pointer)))"

definition copied :: "string option \<Rightarrow> string" where
  "copied p = (case p of None \<Rightarrow> [] | Some s \<Rightarrow> s)"

definition initial_size :: nat where "initial_size = 1024"
definition maximum_size :: nat where "maximum_size = 1024 * 1024"

definition grown :: "nat \<Rightarrow> nat" where
  "grown buffer_size = (if buffer_size \<le> maximum_size div 2 then buffer_size * 2 else maximum_size)"

definition passwd_answer :: "int \<times> passwd option \<Rightarrow> passwd_fields result" where
  "passwd_answer answer =
     (if fst answer \<noteq> 0 then fail_errno (fst answer)
      else case snd answer of
          None \<Rightarrow> fail errc.not_found
        | Some entry \<Rightarrow>
            Value \<lparr>pw_name_text = copied (pw_name entry), pw_directory_text = copied (pw_dir entry),
                   pw_shell_text = copied (pw_shell entry)\<rparr>)"

text \<open>The buffer is never empty: it starts with 1024 bytes and only grows.\<close>

function growth_loop :: "passwd_lookup \<Rightarrow> nat \<Rightarrow> passwd_fields result" where
  "growth_loop lookup buffer_size =
     (let answer = lookup buffer_size in
      if fst answer = ERANGE \<and> 0 < buffer_size \<and> buffer_size < maximum_size
      then growth_loop lookup (grown buffer_size) else passwd_answer answer)"
  by pat_completeness auto
termination
  by (relation "measure (\<lambda>(lookup, n). maximum_size - n)") (auto simp: grown_def)

declare growth_loop.simps [simp del]

definition lookup_with_growth :: "passwd_lookup \<Rightarrow> passwd_fields result" where
  "lookup_with_growth lookup = growth_loop lookup initial_size"

definition entry_by_uid :: "(nat \<Rightarrow> passwd_lookup) \<Rightarrow> nat \<Rightarrow> passwd_fields result" where
  "entry_by_uid getpwuid_r uid = lookup_with_growth (invoke_size_t (getpwuid_r uid))"

definition current_entry :: "(nat \<Rightarrow> passwd_lookup) \<Rightarrow> nat \<Rightarrow> passwd_fields result" where
  "current_entry getpwuid_r effective_uid = entry_by_uid getpwuid_r effective_uid"

lemma growth_loop_sizes:
  assumes "k \<le> 10"
  shows "growth_loop lookup (2 ^ (20 - k)) =
    passwd_answer (lookup (case find (\<lambda>n. fst (lookup n) \<noteq> ERANGE) (map (\<lambda>i. 2 ^ i) [20 - k..<21]) of
      Some n \<Rightarrow> n | None \<Rightarrow> 2 ^ 20))"
  using assms
proof (induction k)
  case 0
  show ?case
    by (subst growth_loop.simps) (simp add: maximum_size_def Let_def upt_rec [of 20])
next
  case (Suc k)
  define n where "n = 20 - Suc k"
  have n: "20 - k = Suc n" "n < 21" using Suc.prems by (simp_all add: n_def)
  have e: "[n..<21] = n # [20 - k..<21]" using n upt_conv_Cons [of n 21] by simp
  have lt: "(2 :: nat) ^ n \<le> maximum_size div 2"
  proof -
    have "(2 :: nat) ^ n \<le> 2 ^ 19" using Suc.prems by (intro power_increasing) (simp_all add: n_def)
    then show ?thesis by (simp add: maximum_size_def)
  qed
  then have "(2 :: nat) ^ n < maximum_size" by (simp add: maximum_size_def)
  moreover have "grown (2 ^ n) = 2 ^ (20 - k)" using lt n(1) by (simp add: grown_def)
  ultimately show ?case
    using Suc unfolding n_def [symmetric]
    by (subst growth_loop.simps) (simp add: Let_def e)
qed

text \<open>
  C13. The lookup ends after at most eleven calls, with buffers of 1 KiB, 2 KiB, \<dots>, 1 MiB in this order: the
  first answer that is not \<open>ERANGE\<close> decides, and if every size is too small the last \<open>ERANGE\<close> is
  reported.
\<close>

theorem lookup_with_growth_bounded:
  "lookup_with_growth lookup =
     passwd_answer (lookup
       (case find (\<lambda>n. fst (lookup n) \<noteq> ERANGE) (map (\<lambda>i. 2 ^ i) [10..<21]) of
          Some n \<Rightarrow> n | None \<Rightarrow> maximum_size))"
  using growth_loop_sizes [of 10 lookup]
  by (simp add: lookup_with_growth_def initial_size_def maximum_size_def cong: option.case_cong)

section \<open>Process metrics\<close>

definition ns_per_second :: u64 where "ns_per_second = 1000000000"
definition max_nanoseconds :: u64 where "max_nanoseconds = 0x7FFFFFFFFFFFFFFF"

text \<open>A \<open>long\<close> has 64 bits here; \<open>std::chrono::nanoseconds\<close> counts in a signed 64-bit integer.\<close>

definition ticks_to_nanoseconds :: "u64 \<Rightarrow> int \<Rightarrow> int result" where
  "ticks_to_nanoseconds ticks ticks_per_second =
     (if ticks_per_second \<le> 0 \<or>
         (of_int ticks_per_second :: u64) > 0xFFFFFFFFFFFFFFFF div ns_per_second
        then fail errc.not_supported
      else
        (let rate = of_int ticks_per_second :: u64;
             whole_seconds = ticks div rate
         in
         if whole_seconds > max_nanoseconds div ns_per_second then fail errc.value_too_large
         else
           (let remainder_ticks = ticks mod rate;
                remainder_nanoseconds = remainder_ticks * ns_per_second div rate;
                whole_nanoseconds = whole_seconds * ns_per_second
            in
            if whole_nanoseconds > max_nanoseconds - remainder_nanoseconds
              then fail errc.value_too_large
            else Value (sint (whole_nanoseconds + remainder_nanoseconds)))))"

definition scale_resident_bytes :: "u64 \<Rightarrow> u64 \<Rightarrow> u64 result" where
  "scale_resident_bytes pages page_size =
     (if page_size = 0 then fail errc.malformed_data
      else if pages > 0xFFFFFFFFFFFFFFFF div page_size then fail errc.value_too_large
      else Value (pages * page_size))"

text \<open>Both arguments are nanosecond counts, signed 64-bit integers.\<close>

definition compose_start_time :: "int \<Rightarrow> int \<Rightarrow> int result" where
  "compose_start_time boot_time age =
     (if age < 0 \<or> boot_time > 2 ^ 63 - 1 - age then fail errc.value_too_large
      else Value (boot_time + age))"

lemma sint_small:
  fixes w :: u64
  assumes "unat w < 2 ^ 63"
  shows "sint w = int (unat w)"
proof -
  from assms have "int (unat w) < int (2 ^ 63)" by (simp only: of_nat_less_iff)
  then have u: "uint w < 2 ^ 63" by simp
  then have "take_bit 63 (uint w) = uint w" by (intro take_bit_int_eq_self) simp_all
  moreover have "\<not> bit (uint w) 63" using u by (simp add: bit_iff_odd div_pos_pos_trivial)
  ultimately have "signed_take_bit 63 (uint w) = uint w" by (simp add: signed_take_bit_eq_if_positive)
  then show ?thesis by (simp add: sint_uint)
qed

lemma unat_long: "0 \<le> r \<Longrightarrow> r < 2 ^ 63 \<Longrightarrow> unat (of_int r :: u64) = nat r"
proof -
  assume r: "0 \<le> r" "r < 2 ^ 63"
  then obtain n where "r = int n" using zero_le_imp_eq_int by blast
  moreover have "n < 2 ^ 64" using r calculation by simp
  ultimately show ?thesis by (simp add: unat_of_nat take_bit_nat_eq_self)
qed

lemma ticks_split:
  fixes t r c :: nat
  assumes "0 < r"
  shows "t * c div r = t div r * c + t mod r * c div r"
proof -
  have "t * c = (t div r * c) * r + t mod r * c"
    by (metis add_mult_distrib div_mult_mod_eq mult.assoc mult.commute)
  then show ?thesis using assms by simp
qed

text \<open>
  \<open>ticks_to_nanoseconds\<close> is exact: for a positive tick rate the result is the number of nanoseconds
  rounded down, and the conversion fails exactly when that number does not fit or when the rate
  exceeds the range in which the intermediate product cannot wrap.
\<close>

theorem ticks_to_nanoseconds_exact:
  assumes "rate < 2 ^ 63"
  shows "ticks_to_nanoseconds ticks rate =
    (if rate \<le> 0 \<or> 18446744073 < rate then fail errc.not_supported
     else if 2 ^ 63 \<le> int (unat ticks) * 10 ^ 9 div rate then fail errc.value_too_large
     else Value (int (unat ticks) * 10 ^ 9 div rate))"
proof (cases "rate \<le> 0 \<or> 18446744073 < rate")
  case True
  show ?thesis
  proof (cases "rate \<le> 0")
    case False
    then have "unat (of_int rate :: u64) = nat rate"
      using assms by (simp add: unat_long)
    then have "(of_int rate :: u64) > 0xFFFFFFFFFFFFFFFF div ns_per_second"
      using True False by (simp add: word_less_nat_alt unat_div ns_per_second_def)
    then show ?thesis using True by (simp add: ticks_to_nanoseconds_def)
  qed (simp add: ticks_to_nanoseconds_def)
next
  case False
  define r where "r = nat rate"
  have r: "0 < r" "r \<le> 18446744073" "rate = int r" using False by (auto simp: r_def)
  let ?rate = "of_int rate :: u64"
  have rate: "unat ?rate = r" using r assms unat_long [of rate] by simp
  then have rate': "unat (of_nat r :: u64) = r" unfolding r(3) by simp
  let ?t = "unat ticks" and ?c = "1000000000 :: nat"
  have t: "?t < 2 ^ 64" using unsigned_less [of ticks] by simp
  have whole: "unat (ticks div ?rate) = ?t div r" by (simp add: unat_div rate)
  have rem: "unat (ticks mod ?rate) = ?t mod r" by (simp add: unat_mod rate)
  have "?t mod r < 18446744073" using r mod_less_divisor [of r ?t] by linarith
  then have "?t mod r * ?c < 2 ^ 64" by simp
  then have rem_ns: "unat (ticks mod ?rate * ns_per_second div ?rate) = ?t mod r * ?c div r"
    by (simp add: unat_div rate unat_mult_small rem ns_per_second_def)
  have rem_less: "?t mod r * ?c div r < ?c"
    using r(1) by (simp add: div_less_iff_less_mult mult.commute)
  have total: "int ?t * 10 ^ 9 div rate = int (?t div r * ?c + ?t mod r * ?c div r)"
  proof -
    have "int ?t * 10 ^ 9 div rate = int (?t * ?c div r)" unfolding r(3) zdiv_int by simp
    then show ?thesis unfolding ticks_split [OF r(1), of ?t ?c] .
  qed
  show ?thesis
  proof (cases "?t div r > 9223372036")
    case True
    then have "9223372037 * ?c \<le> ?t div r * ?c" by simp
    then have "2 ^ 63 \<le> int ?t * 10 ^ 9 div rate" unfolding total by simp
    then show ?thesis
      using False True whole
      by (simp add: ticks_to_nanoseconds_def word_less_nat_alt unat_div rate ns_per_second_def
          max_nanoseconds_def r rate' Let_def)
  next
    case small: False
    then have w: "unat (ticks div ?rate * ns_per_second) = ?t div r * ?c"
      by (simp add: unat_mult_small whole ns_per_second_def)
    have room: "unat (max_nanoseconds - ticks mod ?rate * ns_per_second div ?rate) =
        2 ^ 63 - 1 - ?t mod r * ?c div r"
      using rem_less by (subst unat_sub_le) (simp_all add: word_le_nat_alt rem_ns max_nanoseconds_def)
    have guard: "ticks div ?rate * ns_per_second > max_nanoseconds - ticks mod ?rate * ns_per_second div ?rate \<longleftrightarrow>
        2 ^ 63 \<le> int ?t * 10 ^ 9 div rate"
      unfolding total word_less_nat_alt room w using rem_less by auto
    have val: "sint (ticks div ?rate * ns_per_second + ticks mod ?rate * ns_per_second div ?rate) =
        int ?t * 10 ^ 9 div rate" if "int ?t * 10 ^ 9 div rate < 2 ^ 63"
    proof -
      have "unat (ticks div ?rate * ns_per_second + ticks mod ?rate * ns_per_second div ?rate) =
          ?t div r * ?c + ?t mod r * ?c div r"
        using that unfolding total by (subst unat_add_small) (simp_all add: w rem_ns)
      then show ?thesis
        using that unfolding total by (subst sint_small) simp_all
    qed
    show ?thesis
      using False small whole guard val r(2)
      by (auto simp: ticks_to_nanoseconds_def Let_def word_less_nat_alt unat_div ns_per_second_def
          max_nanoseconds_def rate rate' r(1,3) not_less not_le)
  qed
qed

theorem ticks_to_nanoseconds_exact_witness:
  "(100 :: int) < 2 ^ 63 \<and> ticks_to_nanoseconds 250 100 = Value 2500000000"
  using ticks_to_nanoseconds_exact [of 100 250] by simp

text \<open>The product of a page count and a page size is delivered or refused, never wrapped.\<close>

lemma scale_resident_bytes_exact:
  "scale_resident_bytes pages page_size =
     (if page_size = 0 then fail errc.malformed_data
      else if unat pages * unat page_size < 2 ^ 64 then Value (of_nat (unat pages * unat page_size))
      else fail errc.value_too_large)"
proof (cases "page_size = 0")
  case False
  then have z: "0 < unat page_size" by (simp add: unat_gt_0)
  have "pages > 0xFFFFFFFFFFFFFFFF div page_size \<longleftrightarrow> (2 ^ 64 - 1) div unat page_size < unat pages"
    by (simp add: word_less_nat_alt unat_div)
  also have "\<dots> \<longleftrightarrow> 2 ^ 64 \<le> unat pages * unat page_size"
    using z by (subst div_less_iff_less_mult) auto
  finally show ?thesis
    using False by (auto simp: scale_resident_bytes_def)
qed (simp add: scale_resident_bytes_def)

lemma compose_start_time_range:
  assumes "- (2 ^ 63) \<le> boot_time" "compose_start_time boot_time age = Value t"
  shows "t = boot_time + age \<and> boot_time \<le> t \<and> - (2 ^ 63) \<le> t \<and> t < 2 ^ 63"
  using assms by (auto simp: compose_start_time_def split: if_splits)

end
