(* ===== verification/Memory.thy ===== *)
theory Memory
  imports Text_Scan Linux_Io
begin

text \<open>
  The memory module: the snapshots and boundary checks of \<open>detail/memory/common.hpp\<close> and the Linux
  backend \<open>detail/memory/linux.hpp\<close>, which parses \<open>/proc/meminfo\<close> and \<open>/proc/pressure/memory\<close>. The
  content of a file, read by \<open>linux_platform::read_text_file\<close>, is a parameter of the queries.
\<close>

unbundle bit_operations_syntax

section \<open>Snapshots and boundary checks\<close>

record swap_usage =
  su_total_bytes :: u64
  su_free_bytes :: u64

definition validate_swap_usage :: "swap_usage result \<Rightarrow> swap_usage result" where
  "validate_swap_usage value =
     and_then value (\<lambda>v. fail_if (su_free_bytes v > su_total_bytes v) errc.malformed_data (Value v))"

record commit_usage =
  cu_committed_bytes :: u64
  cu_commit_limit_bytes :: u64

record huge_page_pool_usage =
  hp_total_count :: u64
  hp_free_count :: u64

definition validate_huge_page_pool :: "huge_page_pool_usage result \<Rightarrow> huge_page_pool_usage result" where
  "validate_huge_page_pool value =
     and_then value (\<lambda>v. fail_if (hp_free_count v > hp_total_count v) errc.malformed_data (Value v))"

definition validate_huge_page_size :: "u64 result \<Rightarrow> u64 result" where
  "validate_huge_page_size value =
     and_then value (\<lambda>v. fail_if (v = 0 \<or> v AND (v - 1) \<noteq> 0) errc.malformed_data (Value v))"

definition utilization_percent :: "u64 \<Rightarrow> u64 \<Rightarrow> u32 result" where
  "utilization_percent used_units total_units =
     (let scale = 100 :: u64 in
      if total_units = 0 then fail errc.malformed_data
      else if total_units > 0xFFFFFFFFFFFFFFFF div (2 * scale) then fail errc.value_too_large
      else let percent = (used_units * scale + total_units div 2) div total_units in
        if percent > scale then fail errc.malformed_data
        else Value (ucast percent))"

record pressure_sample =
  ps_average10 :: u64
  ps_average60 :: u64
  ps_average300 :: u64
  ps_total_microseconds :: u64

record pressure_status =
  pt_some :: pressure_sample
  pt_has_full :: bool
  pt_full :: pressure_sample

section \<open>\<open>/proc/meminfo\<close>\<close>

record memory_information =
  mi_total_bytes :: u64
  mi_has_total :: bool
  mi_available_bytes :: u64
  mi_has_available :: bool
  mi_swap_total_bytes :: u64
  mi_has_swap_total :: bool
  mi_swap_free_bytes :: u64
  mi_has_swap_free :: bool
  mi_committed_bytes :: u64
  mi_has_committed :: bool
  mi_commit_limit_bytes :: u64
  mi_has_commit_limit :: bool
  mi_huge_total_count :: u64
  mi_has_huge_total :: bool
  mi_huge_free_count :: u64
  mi_has_huge_free :: bool
  mi_huge_page_size_bytes :: u64
  mi_has_huge_page_size :: bool

definition empty_memory_information :: memory_information where
  "empty_memory_information =
     \<lparr>mi_total_bytes = 0, mi_has_total = False, mi_available_bytes = 0, mi_has_available = False,
      mi_swap_total_bytes = 0, mi_has_swap_total = False, mi_swap_free_bytes = 0,
      mi_has_swap_free = False, mi_committed_bytes = 0, mi_has_committed = False,
      mi_commit_limit_bytes = 0, mi_has_commit_limit = False, mi_huge_total_count = 0,
      mi_has_huge_total = False, mi_huge_free_count = 0, mi_has_huge_free = False,
      mi_huge_page_size_bytes = 0, mi_has_huge_page_size = False\<rparr>"

definition memory_space :: "char \<Rightarrow> bool" where
  "memory_space c \<longleftrightarrow> c = CHR '' '' \<or> c = CHR 0x09 \<or> c = CHR 0x0D \<or> c = CHR 0x0A"

definition trim_memory_field :: "string \<Rightarrow> string" where
  "trim_memory_field value = trim_back memory_space (dropWhile memory_space value)"

definition parse_kilobyte_amount :: "string \<Rightarrow> u64 result" where
  "parse_kilobyte_amount input =
     (let value = trim_memory_field input in
      if value = [] then fail errc.malformed_data
      else (case from_chars_u64 value of
              None \<Rightarrow> fail errc.malformed_data
            | Some (kilobytes, rest) \<Rightarrow>
                if trim_memory_field rest \<noteq> ''kB'' then fail errc.malformed_data
                else if kilobytes > drop_bit 10 0xFFFFFFFFFFFFFFFF then fail errc.value_too_large
                else Value (push_bit 10 kilobytes)))"

definition parse_bare_count :: "string \<Rightarrow> u64 result" where
  "parse_bare_count input =
     (let value = trim_memory_field input in
      if value = [] then fail errc.malformed_data
      else (case from_chars_u64 value of
              None \<Rightarrow> fail errc.malformed_data
            | Some (n, rest) \<Rightarrow> if rest \<noteq> [] then fail errc.malformed_data else Value n))"

datatype meminfo_field =
    unrecognized
  | total
  | available
  | swap_total
  | swap_free
  | committed
  | commit_limit
  | huge_total_count
  | huge_free_count
  | huge_page_size

definition documented_meminfo_keys :: "(string \<times> meminfo_field) list" where
  "documented_meminfo_keys =
     [(''MemTotal'', total), (''MemAvailable'', available), (''SwapTotal'', swap_total),
      (''SwapFree'', swap_free), (''Committed_AS'', committed), (''CommitLimit'', commit_limit),
      (''HugePages_Total'', huge_total_count), (''HugePages_Free'', huge_free_count),
      (''Hugepagesize'', huge_page_size)]"

definition classify_meminfo_key :: "string \<Rightarrow> meminfo_field" where
  "classify_meminfo_key key =
     (case find (\<lambda>m. fst m = key) documented_meminfo_keys of
        Some m \<Rightarrow> snd m
      | None \<Rightarrow> unrecognized)"

definition is_bare_count_field :: "meminfo_field \<Rightarrow> bool" where
  "is_bare_count_field field \<longleftrightarrow> field = huge_total_count \<or> field = huge_free_count"

text \<open>The \<open>switch\<close> that stores one value.\<close>

fun store_meminfo :: "meminfo_field \<Rightarrow> u64 \<Rightarrow> memory_information \<Rightarrow> memory_information" where
  "store_meminfo total v out = out\<lparr>mi_total_bytes := v, mi_has_total := True\<rparr>"
| "store_meminfo available v out = out\<lparr>mi_available_bytes := v, mi_has_available := True\<rparr>"
| "store_meminfo swap_total v out = out\<lparr>mi_swap_total_bytes := v, mi_has_swap_total := True\<rparr>"
| "store_meminfo swap_free v out = out\<lparr>mi_swap_free_bytes := v, mi_has_swap_free := True\<rparr>"
| "store_meminfo committed v out = out\<lparr>mi_committed_bytes := v, mi_has_committed := True\<rparr>"
| "store_meminfo commit_limit v out = out\<lparr>mi_commit_limit_bytes := v, mi_has_commit_limit := True\<rparr>"
| "store_meminfo huge_total_count v out = out\<lparr>mi_huge_total_count := v, mi_has_huge_total := True\<rparr>"
| "store_meminfo huge_free_count v out = out\<lparr>mi_huge_free_count := v, mi_has_huge_free := True\<rparr>"
| "store_meminfo huge_page_size v out =
     out\<lparr>mi_huge_page_size_bytes := v, mi_has_huge_page_size := True\<rparr>"
| "store_meminfo unrecognized v out = out"

definition meminfo_line :: "string \<Rightarrow> memory_information \<Rightarrow> memory_information result" where
  "meminfo_line line out =
     (case find_from CHR '':'' line 0 of
        None \<Rightarrow> Value out
      | Some separator \<Rightarrow>
          (let field = classify_meminfo_key (trim_memory_field (take separator line));
               amount = drop (separator + 1) line
           in if field = unrecognized then Value out
              else and_then (if is_bare_count_field field then parse_bare_count amount
                             else parse_kilobyte_amount amount)
                     (\<lambda>v. Value (store_meminfo field v out))))"

fun meminfo_lines :: "string list \<Rightarrow> memory_information \<Rightarrow> memory_information result" where
  "meminfo_lines [] out = Value out"
| "meminfo_lines (line # rest) out = and_then (meminfo_line line out) (meminfo_lines rest)"

definition parse_meminfo :: "string \<Rightarrow> memory_information result" where
  "parse_meminfo input = meminfo_lines (lines_of input) empty_memory_information"

text \<open>The queries; \<open>content\<close> is what \<open>read_text_file("/proc/meminfo")\<close> returned.\<close>

definition read_memory_information :: "string result \<Rightarrow> memory_information result" where
  "read_memory_information content = and_then content parse_meminfo"

definition physical_memory_bytes :: "string result \<Rightarrow> u64 result" where
  "physical_memory_bytes content =
     and_then (read_memory_information content) (\<lambda>i.
       fail_if (\<not> mi_has_total i) errc.not_found (Value (mi_total_bytes i)))"

definition available_memory_bytes :: "string result \<Rightarrow> u64 result" where
  "available_memory_bytes content =
     and_then (read_memory_information content) (\<lambda>i.
       fail_if (\<not> mi_has_available i) errc.not_supported (Value (mi_available_bytes i)))"

definition swap_status :: "string result \<Rightarrow> swap_usage result" where
  "swap_status content =
     and_then (read_memory_information content) (\<lambda>i.
       fail_if (\<not> mi_has_swap_total i \<or> \<not> mi_has_swap_free i) errc.not_found
         (Value \<lparr>su_total_bytes = mi_swap_total_bytes i, su_free_bytes = mi_swap_free_bytes i\<rparr>))"

definition commit_status :: "string result \<Rightarrow> commit_usage result" where
  "commit_status content =
     and_then (read_memory_information content) (\<lambda>i.
       fail_if (\<not> mi_has_committed i \<or> \<not> mi_has_commit_limit i) errc.not_found
         (Value \<lparr>cu_committed_bytes = mi_committed_bytes i,
                 cu_commit_limit_bytes = mi_commit_limit_bytes i\<rparr>))"

definition huge_page_size_bytes :: "string result \<Rightarrow> u64 result" where
  "huge_page_size_bytes content =
     and_then (read_memory_information content) (\<lambda>i.
       fail_if (\<not> mi_has_huge_page_size i) errc.not_found (Value (mi_huge_page_size_bytes i)))"

definition huge_page_pool_status :: "string result \<Rightarrow> huge_page_pool_usage result" where
  "huge_page_pool_status content =
     and_then (read_memory_information content) (\<lambda>i.
       fail_if (\<not> mi_has_huge_total i \<or> \<not> mi_has_huge_free i) errc.not_found
         (Value \<lparr>hp_total_count = mi_huge_total_count i, hp_free_count = mi_huge_free_count i\<rparr>))"

definition memory_load_percent :: "string result \<Rightarrow> u32 result" where
  "memory_load_percent content =
     and_then (read_memory_information content) (\<lambda>i.
       fail_if (\<not> mi_has_available i) errc.not_supported
         (fail_if (\<not> mi_has_total i) errc.not_found
           (fail_if (mi_available_bytes i > mi_total_bytes i) errc.malformed_data
             (utilization_percent (mi_total_bytes i - mi_available_bytes i) (mi_total_bytes i)))))"

section \<open>\<open>/proc/pressure/memory\<close>\<close>

definition parse_micro_percent :: "string \<Rightarrow> u64 result" where
  "parse_micro_percent input =
     (let value = trim_memory_field input in
      case find_from CHR ''.'' value 0 of
        None \<Rightarrow> fail errc.malformed_data
      | Some separator \<Rightarrow>
          if separator = 0 \<or> separator > 3 \<or> length value - separator \<noteq> 3
            then fail errc.malformed_data
          else (case from_chars_u64 (take separator value) of
                  Some (whole, []) \<Rightarrow>
                    (case from_chars_u64 (drop (separator + 1) value) of
                       Some (fraction, []) \<Rightarrow>
                         (let hundredths = whole * 100 + fraction in
                          if hundredths > 10000 then fail errc.malformed_data
                          else Value (hundredths * 10000))
                     | _ \<Rightarrow> fail errc.malformed_data)
                | _ \<Rightarrow> fail errc.malformed_data))"

text \<open>The locals of \<open>parse_pressure_sample\<close>.\<close>

record pressure_scan =
  pn_sample :: pressure_sample
  pn_avg10 :: bool
  pn_avg60 :: bool
  pn_avg300 :: bool
  pn_total :: bool

definition empty_sample :: pressure_sample where
  "empty_sample =
     \<lparr>ps_average10 = 0, ps_average60 = 0, ps_average300 = 0, ps_total_microseconds = 0\<rparr>"

definition empty_scan :: pressure_scan where
  "empty_scan = \<lparr>pn_sample = empty_sample, pn_avg10 = False, pn_avg60 = False, pn_avg300 = False,
                 pn_total = False\<rparr>"

definition pressure_token :: "string \<Rightarrow> pressure_scan \<Rightarrow> pressure_scan result" where
  "pressure_token token s =
     (case find_from CHR ''='' token 0 of
        None \<Rightarrow> Value s
      | Some assignment \<Rightarrow>
          (let name = take assignment token; txt = drop (assignment + 1) token in
           if name = ''avg10'' \<or> name = ''avg60'' \<or> name = ''avg300'' then
             and_then (parse_micro_percent txt) (\<lambda>p.
               if name = ''avg10'' then
                 Value (s\<lparr>pn_sample := (pn_sample s)\<lparr>ps_average10 := p\<rparr>, pn_avg10 := True\<rparr>)
               else if name = ''avg60'' then
                 Value (s\<lparr>pn_sample := (pn_sample s)\<lparr>ps_average60 := p\<rparr>, pn_avg60 := True\<rparr>)
               else
                 Value (s\<lparr>pn_sample := (pn_sample s)\<lparr>ps_average300 := p\<rparr>, pn_avg300 := True\<rparr>))
           else if name = ''total'' then
             and_then (parse_bare_count txt) (\<lambda>t.
               Value (s\<lparr>pn_sample := (pn_sample s)\<lparr>ps_total_microseconds := t\<rparr>, pn_total := True\<rparr>))
           else Value s))"

fun pressure_tokens :: "string list \<Rightarrow> pressure_scan \<Rightarrow> pressure_scan result" where
  "pressure_tokens [] s = Value s"
| "pressure_tokens (t # ts) s = and_then (pressure_token t s) (pressure_tokens ts)"

definition parse_pressure_sample :: "string \<Rightarrow> pressure_sample result" where
  "parse_pressure_sample body =
     and_then (pressure_tokens (pieces_of CHR '' '' body) empty_scan) (\<lambda>s.
       fail_if (\<not> pn_avg10 s \<or> \<not> pn_avg60 s \<or> \<not> pn_avg300 s \<or> \<not> pn_total s) errc.malformed_data
         (Value (pn_sample s)))"

text \<open>The caller-owned \<open>status\<close>, \<open>has_some\<close> and \<open>has_full\<close> are threaded as a triple.\<close>

definition classify_pressure_line ::
    "string \<Rightarrow> pressure_status \<times> bool \<times> bool \<Rightarrow> (bool \<times> pressure_status \<times> bool \<times> bool) result" where
  "classify_pressure_line line state =
     (let (status, has_some, has_full) = state in
      case find_from CHR '' '' line 0 of
        None \<Rightarrow> Value (False, state)
      | Some separator \<Rightarrow>
          (let kind = take separator line in
           if kind \<noteq> ''some'' \<and> kind \<noteq> ''full'' then Value (False, state)
           else and_then (parse_pressure_sample (drop (separator + 1) line)) (\<lambda>sample.
             if kind = ''some'' then Value (True, status\<lparr>pt_some := sample\<rparr>, True, has_full)
             else Value (True, status\<lparr>pt_full := sample\<rparr>, has_some, True))))"

fun pressure_lines ::
    "string list \<Rightarrow> pressure_status \<times> bool \<times> bool \<Rightarrow> (pressure_status \<times> bool \<times> bool) result" where
  "pressure_lines [] state = Value state"
| "pressure_lines (line # rest) state =
     (if trim_memory_field line = [] then pressure_lines rest state
      else and_then (classify_pressure_line line state)
             (\<lambda>(recognized, state'). pressure_lines rest state'))"

definition parse_memory_pressure :: "string \<Rightarrow> pressure_status result" where
  "parse_memory_pressure input =
     and_then (pressure_lines (lines_of input)
         (\<lparr>pt_some = empty_sample, pt_has_full = False, pt_full = empty_sample\<rparr>, False, False))
       (\<lambda>(status, has_some, has_full).
          fail_if (\<not> has_some \<or> \<not> has_full) errc.malformed_data
            (Value (status\<lparr>pt_has_full := True\<rparr>)))"

definition memory_pressure :: "string result \<Rightarrow> pressure_status result" where
  "memory_pressure content =
     (case content of
        Unexpected code \<Rightarrow>
          if ec_category code = generic_category \<and> ec_value code = ENOENT
          then fail errc.not_supported else Unexpected code
      | Value txt \<Rightarrow> parse_memory_pressure txt)"

end
