(* ===== verification/Memory_Correct.thy ===== *)
theory Memory_Correct
  imports Memory
begin

text \<open>
  What the memory module guarantees: the boundary checks, exact rounding of the utilisation
  percentage, the meminfo parser as a refinement of a finite map from documented keys to their last
  amounts, and the pressure parser as the inverse of the kernel's rendering.
\<close>

unbundle bit_operations_syntax

section \<open>Sizes and percentages\<close>

lemma and_pred_zero: "0 < v \<Longrightarrow> v AND (v - 1) = 0 \<longleftrightarrow> (\<exists>k. v = 2 ^ k)" for v :: nat
proof (induction v rule: less_induct)
  case (less v)
  show ?case
  proof (cases "even v")
    case True
    then obtain w where w: "v = 2 * w" ..
    with less.prems have "0 < w" "w < v" by simp_all
    have "v - 1 = Suc (2 * (w - 1))" using w \<open>0 < w\<close> by simp
    then have d: "(v - 1) div 2 = w - 1" by simp
    have "v AND (v - 1) = 2 * (w AND (w - 1))"
      using and_rec [of v "v - 1"] d w by simp
    then have "v AND (v - 1) = 0 \<longleftrightarrow> (\<exists>k. w = 2 ^ k)"
      using less.IH [OF \<open>w < v\<close> \<open>0 < w\<close>] by simp
    also have "\<dots> \<longleftrightarrow> (\<exists>k. v = 2 ^ k)"
    proof
      assume "\<exists>k. w = 2 ^ k"
      then obtain k where "w = 2 ^ k" ..
      then have "v = 2 ^ Suc k" using w by simp
      then show "\<exists>k. v = 2 ^ k" ..
    next
      assume "\<exists>k. v = 2 ^ k"
      then obtain k where "v = 2 ^ k" ..
      with w have k: "2 * w = 2 ^ k" by simp
      with \<open>0 < w\<close> obtain j where "k = Suc j" by (cases k) auto
      with k have "w = 2 ^ j" by simp
      then show "\<exists>k. w = 2 ^ k" ..
    qed
    finally show ?thesis .
  next
    case False
    then obtain w where w: "v = Suc (2 * w)" by (metis oddE Suc_eq_plus1)
    then have "v AND (v - 1) = 2 * (w AND w)"
      using and_rec [of v "v - 1"] by simp
    then have "v AND (v - 1) = 0 \<longleftrightarrow> v = 1" using w by simp
    also have "\<dots> \<longleftrightarrow> (\<exists>k. v = 2 ^ k)"
    proof
      assume "v = 1"
      then have "v = 2 ^ 0" by simp
      then show "\<exists>k. v = 2 ^ k" ..
    next
      assume "\<exists>k. v = 2 ^ k"
      then obtain k where "v = 2 ^ k" ..
      with False show "v = 1" by (cases k) auto
    qed
    finally show ?thesis .
  qed
qed

definition power_of_two :: "u64 \<Rightarrow> bool" where
  "power_of_two v \<longleftrightarrow> (\<exists>k. unat v = 2 ^ k)"

lemma huge_page_bits: "v \<noteq> 0 \<and> v AND (v - 1) = 0 \<longleftrightarrow> power_of_two v"
proof (cases "v = 0")
  case False
  then have v: "unat (v - 1) = unat v - 1" "0 < unat v"
    by (simp_all add: unat_minus_one unat_gt_0)
  then have "unat (v AND (v - 1)) = unat v AND (unat v - 1)"
    by (simp add: unsigned_and_eq)
  then have "v AND (v - 1) = 0 \<longleftrightarrow> unat v AND (unat v - 1) = 0"
    by (metis unat_eq_zero)
  then show ?thesis
    using False and_pred_zero [OF v(2)] by (simp add: power_of_two_def)
next
  case True
  then show ?thesis by (simp add: power_of_two_def)
qed

interpretation swap: boundary_validator validate_swap_usage "\<lambda>v. su_free_bytes v \<le> su_total_bytes v"
  by unfold_locales (simp_all add: validate_swap_usage_def not_le)

interpretation pool: boundary_validator validate_huge_page_pool "\<lambda>v. hp_free_count v \<le> hp_total_count v"
  by unfold_locales (simp_all add: validate_huge_page_pool_def not_le)

interpretation page_size: boundary_validator validate_huge_page_size power_of_two
  by unfold_locales (simp_all add: validate_huge_page_size_def flip: huge_page_bits)

text \<open>
  The memory snapshots pass the boundary unchanged or not at all: swap and huge-page pools with
  no more free than total, and a huge-page size exactly when it is a power of two.
\<close>

theorem memory_validators_exact:
  "(validate_swap_usage rs = Value s \<longleftrightarrow> rs = Value s \<and> su_free_bytes s \<le> su_total_bytes s) \<and>
   (validate_huge_page_pool rp = Value p \<longleftrightarrow> rp = Value p \<and> hp_free_count p \<le> hp_total_count p) \<and>
   (validate_huge_page_size rz = Value z \<longleftrightarrow> rz = Value z \<and> (\<exists>k. unat z = 2 ^ k))"
  using swap.accepts_iff pool.accepts_iff page_size.accepts_iff unfolding power_of_two_def by blast

text \<open>The percentage rounded half up, in the natural numbers.\<close>

definition rounded_percent :: "nat \<Rightarrow> nat \<Rightarrow> nat" where
  "rounded_percent used all = (200 * used + all) div (2 * all)"

lemma half_up: "(u * 100 + t div 2) div t = (200 * u + t) div (2 * t)" for u t :: nat
proof -
  have "(200 * u + t) div (2 * t) = (200 * u + t) div 2 div t" by (simp add: div_mult2_eq)
  also have "(200 * u + t) div 2 = u * 100 + t div 2" by simp
  finally show ?thesis by simp
qed

lemma utilization_percent_inner:
  fixes u t :: u64
  assumes "unat t \<le> (2 ^ 64 - 1) div 200" "u \<le> t"
  shows "unat ((u * 100 + t div 2) div t) = rounded_percent (unat u) (unat t)"
proof -
  have u: "unat u \<le> unat t" using assms(2) by (simp add: word_le_nat_alt)
  have m: "unat (u * 100) = unat u * 100" using u assms(1) by (subst unat_mult_small) simp_all
  have d: "unat (t div 2) = unat t div 2" by (simp add: unat_div)
  have a: "unat (u * 100 + t div 2) = unat u * 100 + unat t div 2"
    using u assms(1) m d by (subst unat_add_small) simp_all
  show ?thesis by (simp add: unat_div a half_up rounded_percent_def)
qed

lemma rounded_percent_le: "0 < t \<Longrightarrow> u \<le> t \<Longrightarrow> rounded_percent u t \<le> 100"
proof -
  assume a: "0 < t" "u \<le> t"
  then have "200 * u + t < 101 * (2 * t)" by simp
  then have "(200 * u + t) div (2 * t) < 101" by (rule less_mult_imp_div_less)
  then show ?thesis by (simp add: rounded_percent_def)
qed

lemma utilization_percent_value:
  "used \<le> all \<Longrightarrow>
   utilization_percent used all =
     (if all = 0 then fail errc.malformed_data
      else if unat all > (2 ^ 64 - 1) div 200 then fail errc.value_too_large
      else Value (of_nat (rounded_percent (unat used) (unat all)))) \<and>
   (all \<noteq> 0 \<longrightarrow> rounded_percent (unat used) (unat all) \<le> 100)"
proof -
  assume le: "used \<le> all"
  have g: "all > 0xFFFFFFFFFFFFFFFF div (2 * 100) \<longleftrightarrow> unat all > (2 ^ 64 - 1) div 200"
    by (simp add: word_less_nat_alt unat_div)
  have le100: "all \<noteq> 0 \<Longrightarrow> rounded_percent (unat used) (unat all) \<le> 100"
    using rounded_percent_le [of "unat all" "unat used"] le
    by (simp add: word_le_nat_alt unat_gt_0)
  show ?thesis
  proof (cases "all = 0 \<or> unat all > (2 ^ 64 - 1) div 200")
    case True
    then show ?thesis
      using le100 unfolding utilization_percent_def Let_def g by auto
  next
    case False
    let ?p = "(used * 100 + all div 2) div all"
    have p: "unat ?p = rounded_percent (unat used) (unat all)"
      using utilization_percent_inner [OF _ le] False by simp
    then have "\<not> ?p > 100" using le100 False by (simp add: word_less_nat_alt)
    moreover have "(ucast ?p :: u32) = of_nat (rounded_percent (unat used) (unat all))"
      unfolding p [symmetric] by (simp add: word_unat_eq_iff unsigned_ucast_eq unat_of_nat)
    ultimately show ?thesis
      using False le100 unfolding utilization_percent_def Let_def g by simp
  qed
qed

text \<open>
  \<open>utilization_percent\<close> computes the percentage rounded half up, exactly, whenever the used
  amount is at most the total: an empty total is malformed, a total above a two-hundredth of the
  64-bit range is refused, and every other answer is the mathematical one, at most 100.
\<close>

theorem utilization_percent_exact:
  "used \<le> all \<Longrightarrow>
   utilization_percent used all =
     (if all = 0 then fail errc.malformed_data
      else if unat all > (2 ^ 64 - 1) div 200 then fail errc.value_too_large
      else Value (of_nat (rounded_percent (unat used) (unat all)))) \<and>
   (all \<noteq> 0 \<longrightarrow> rounded_percent (unat used) (unat all) \<le> 100)"
  by (rule utilization_percent_value)

theorem utilization_percent_exact_witness:
  "utilization_percent 1 8 = Value 13"
  using utilization_percent_exact [of 1 8] by (simp add: rounded_percent_def)

text \<open>
  Without that bound on the used amount the product \<open>used * 100\<close> wraps around, and a ratio of some
  \<open>10 ^ 22\<close> percent is reported as 84 percent; the guard on the total does not bound the products, as
  its comment says. The backends all compare the two amounts before the call.
\<close>

lemma utilization_percent_wraps: "utilization_percent 184467440737095517 1 = Value 84"
  by (simp add: utilization_percent_def)


section \<open>Amounts\<close>

lemma dropWhile_all_append: "list_all p xs \<Longrightarrow> dropWhile p (xs @ ys) = dropWhile p ys"
  by (induction xs) auto

lemma trim_memory_ends:
  "trim_memory_field s = [] \<or>
   \<not> memory_space (hd (trim_memory_field s)) \<and> \<not> memory_space (last (trim_memory_field s))"
proof -
  let ?t = "dropWhile memory_space s"
  have "rev (trim_memory_field s) = dropWhile memory_space (rev ?t)"
    by (simp add: trim_memory_field_def trim_back_def)
  then have l: "trim_memory_field s \<noteq> [] \<Longrightarrow> \<not> memory_space (last (trim_memory_field s))"
    by (metis Nil_is_rev_conv hd_dropWhile hd_rev rev_rev_ident)
  have "\<exists>ys. ?t = trim_memory_field s @ ys"
    unfolding trim_memory_field_def trim_back_def
    by (metis rev_append rev_rev_ident takeWhile_dropWhile_id)
  then have "trim_memory_field s \<noteq> [] \<Longrightarrow> \<not> memory_space (hd (trim_memory_field s))"
    by (metis append_is_Nil_conv hd_append2 hd_dropWhile)
  with l show ?thesis by blast
qed

lemma trim_memory_field_id: "s = [] \<or> \<not> memory_space (hd s) \<and> \<not> memory_space (last s) \<Longrightarrow> trim_memory_field s = s"
  by (cases s) (auto simp: trim_memory_field_def trim_back_id)

lemma trim_memory_field_pad:
  "list_all memory_space p \<Longrightarrow> list_all memory_space q \<Longrightarrow> trim_memory_field (p @ s @ q) = trim_memory_field s"
proof -
  assume a: "list_all memory_space p" "list_all memory_space q"
  have p: "dropWhile memory_space (p @ t) = dropWhile memory_space t" for t
    using a(1) by (rule dropWhile_all_append)
  have q: "trim_back memory_space (t @ q) = trim_back memory_space t" for t
    using a(2) by (simp add: trim_back_def dropWhile_all_append)
  show ?thesis
  proof (cases "dropWhile memory_space s = []")
    case True
    then have "\<forall>x \<in> set (s @ q). memory_space x" using a(2) by (auto simp: list_all_iff)
    then have "dropWhile memory_space (s @ q) = []" by (simp only: dropWhile_eq_Nil_conv)
    with True show ?thesis by (simp only: trim_memory_field_def p)
  next
    case False
    then have "\<not> (\<forall>x \<in> set s. memory_space x)" by (simp only: dropWhile_eq_Nil_conv not_False_eq_True)
    then have "dropWhile memory_space (s @ q) = dropWhile memory_space s @ q"
      using dropWhile_append1 [of _ s memory_space q] by blast
    then show ?thesis by (simp add: trim_memory_field_def p q)
  qed
qed

lemma digit_not_memory_space: "is_digit c \<Longrightarrow> \<not> memory_space c"
  by (auto simp: is_digit_def memory_space_def)

lemma kB_shift: "n < 2 ^ 54 \<Longrightarrow> push_bit 10 (of_nat n) = (of_nat (n * 1024) :: u64)"
  by (simp add: push_bit_eq_mult)

lemma kB_guard: "n < 2 ^ 64 \<Longrightarrow> (of_nat n :: u64) > drop_bit 10 0xFFFFFFFFFFFFFFFF \<longleftrightarrow> 2 ^ 54 \<le> n"
  by (simp add: word_less_nat_alt unat_drop_bit of_nat_u64 less_le not_less) linarith

text \<open>
  The kernel's rendering of a size, with any spacing around it, is read as that many kibibytes; a
  number of bytes beyond 64 bits is refused.
\<close>

lemma parse_kilobyte_rendered:
  assumes "list_all memory_space p" "list_all memory_space q" "list_all memory_space r" "n < 2 ^ 64"
  shows "parse_kilobyte_amount (p @ dec_string n @ q @ ''kB'' @ r) =
    (if n < 2 ^ 54 then Value (of_nat (n * 1024)) else fail errc.value_too_large)"
proof -
  have d: "dec_string n \<noteq> []" "\<not> memory_space (hd (dec_string n))"
    using dec_string_digits [of n] digit_not_memory_space by (cases "dec_string n"; auto)+
  have t: "trim_memory_field (p @ dec_string n @ q @ ''kB'' @ r) = dec_string n @ q @ ''kB''"
    using trim_memory_field_pad [OF assms(1,3), of "dec_string n @ q @ ''kB''"] d
      trim_memory_field_id [of "dec_string n @ q @ ''kB''"]
    by (simp add: memory_space_def)
  have u: "trim_memory_field (q @ ''kB'') = ''kB''"
    using trim_memory_field_pad [OF assms(2), of "[]" "''kB''"] trim_memory_field_id [of "''kB''"]
    by (simp add: memory_space_def)
  have "\<not> is_digit (hd (q @ ''kB''))"
    using assms(2) digit_not_memory_space by (cases q) (auto simp: is_digit_def)
  then have f: "from_chars_u64 (dec_string n @ q @ ''kB'') = Some (of_nat n, q @ ''kB'')"
    using from_chars_u64_string [OF assms(4)] by blast
  show ?thesis
    unfolding parse_kilobyte_amount_def t Let_def f option.case prod.case u kB_guard [OF assms(4)]
    using d kB_shift [of n] by simp
qed

lemma parse_bare_count_iff:
  "parse_bare_count s = Value v \<longleftrightarrow>
     trim_memory_field s \<noteq> [] \<and> list_all is_digit (trim_memory_field s) \<and> dec_value (trim_memory_field s) = unat v"
proof -
  let ?t = "trim_memory_field s"
  have "parse_bare_count s = Value v \<longleftrightarrow> ?t \<noteq> [] \<and> from_chars_u64 ?t = Some (v, [])"
    by (cases "from_chars_u64 ?t") (auto simp: parse_bare_count_def Let_def split: if_splits)
  then show ?thesis by (auto simp: from_chars_u64_iff)
qed

section \<open>The meminfo table\<close>

text \<open>
  The abstract reading: the lines that name a documented key, each with the outcome of its amount,
  and the last amount of each key.
\<close>

definition meminfo_entry :: "string \<Rightarrow> (meminfo_field \<times> u64 result) option" where
  "meminfo_entry line =
     (if CHR '':'' \<notin> set line then None
      else let field = classify_meminfo_key (trim_memory_field (takeWhile (\<lambda>c. c \<noteq> CHR '':'') line));
               amount = tl (dropWhile (\<lambda>c. c \<noteq> CHR '':'') line)
           in if field = unrecognized then None
              else Some (field, if is_bare_count_field field then parse_bare_count amount
                                else parse_kilobyte_amount amount))"

fun meminfo_entries :: "string list \<Rightarrow> (meminfo_field \<times> u64) list result" where
  "meminfo_entries [] = Value []"
| "meminfo_entries (line # rest) =
     (case meminfo_entry line of
        None \<Rightarrow> meminfo_entries rest
      | Some (field, amount) \<Rightarrow>
          and_then amount (\<lambda>v. and_then (meminfo_entries rest) (\<lambda>es. Value ((field, v) # es))))"

definition amount_or_zero :: "u64 option \<Rightarrow> u64" where
  "amount_or_zero v = (case v of None \<Rightarrow> 0 | Some n \<Rightarrow> n)"

text \<open>The record that represents a finite map from fields to amounts.\<close>

definition information_of :: "(meminfo_field \<Rightarrow> u64 option) \<Rightarrow> memory_information" where
  "information_of m =
     \<lparr>mi_total_bytes = amount_or_zero (m total), mi_has_total = (m total \<noteq> None),
      mi_available_bytes = amount_or_zero (m available), mi_has_available = (m available \<noteq> None),
      mi_swap_total_bytes = amount_or_zero (m swap_total), mi_has_swap_total = (m swap_total \<noteq> None),
      mi_swap_free_bytes = amount_or_zero (m swap_free), mi_has_swap_free = (m swap_free \<noteq> None),
      mi_committed_bytes = amount_or_zero (m committed), mi_has_committed = (m committed \<noteq> None),
      mi_commit_limit_bytes = amount_or_zero (m commit_limit),
      mi_has_commit_limit = (m commit_limit \<noteq> None),
      mi_huge_total_count = amount_or_zero (m huge_total_count),
      mi_has_huge_total = (m huge_total_count \<noteq> None),
      mi_huge_free_count = amount_or_zero (m huge_free_count),
      mi_has_huge_free = (m huge_free_count \<noteq> None),
      mi_huge_page_size_bytes = amount_or_zero (m huge_page_size),
      mi_has_huge_page_size = (m huge_page_size \<noteq> None)\<rparr>"

lemma information_of_empty: "information_of Map.empty = empty_memory_information"
  by (simp add: information_of_def empty_memory_information_def amount_or_zero_def)

lemma store_meminfo_refines:
  "field \<noteq> unrecognized \<Longrightarrow> store_meminfo field v (information_of m) = information_of (m(field \<mapsto> v))"
  by (cases field) (simp_all add: information_of_def amount_or_zero_def)

lemma find_from_0: "find_from c s 0 = (if c \<in> set s then Some (length (takeWhile (\<lambda>x. x \<noteq> c) s)) else None)"
proof -
  have "length (takeWhile (\<lambda>x. x \<noteq> c) s) < length s \<longleftrightarrow> c \<in> set s"
    by (metis (mono_tags, lifting) length_takeWhile_le nat_less_le takeWhile_eq_all_conv
        takeWhile_eq_take take_all)
  then show ?thesis by (simp add: find_from_def Let_def)
qed

lemma drop_after: "c \<in> set s \<Longrightarrow> drop (length (takeWhile (\<lambda>x. x \<noteq> c) s) + 1) s = tl (dropWhile (\<lambda>x. x \<noteq> c) s)"
  by (simp add: dropWhile_eq_drop drop_Suc tl_drop)

lemma split_at: "c \<in> set s \<Longrightarrow> s = takeWhile (\<lambda>x. x \<noteq> c) s @ c # tl (dropWhile (\<lambda>x. x \<noteq> c) s)"
  by (induction s) auto

lemma take_before: "take (length (takeWhile p s)) s = takeWhile p s"
  by (rule takeWhile_eq_take [symmetric])

lemma meminfo_line_entry:
  "meminfo_line line out =
     (case meminfo_entry line of
        None \<Rightarrow> Value out
      | Some (field, amount) \<Rightarrow> and_then amount (\<lambda>v. Value (store_meminfo field v out)))"
proof (cases "CHR '':'' \<in> set line")
  case False
  then show ?thesis by (simp add: meminfo_line_def meminfo_entry_def find_from_0)
next
  case True
  note sep = find_from_0 [of "CHR '':''" line, unfolded if_P [OF True]]
  show ?thesis
    unfolding meminfo_line_def meminfo_entry_def sep option.case take_before drop_after [OF True] Let_def
    using True by auto
qed

lemma meminfo_entry_field: "meminfo_entry line = Some (field, amount) \<Longrightarrow> field \<noteq> unrecognized"
  by (auto simp: meminfo_entry_def Let_def split: if_splits)

lemma map_add_single: "m ++ ([k \<mapsto> v] ++ n) = m(k \<mapsto> v) ++ n"
  by (simp add: map_add_assoc)

lemma meminfo_lines_refines:
  "meminfo_lines ls (information_of m) =
     and_then (meminfo_entries ls) (\<lambda>es. Value (information_of (m ++ map_of (rev es))))"
proof (induction ls arbitrary: m)
  case (Cons line ls)
  show ?case
  proof (cases "meminfo_entry line")
    case None
    then show ?thesis using Cons by (simp add: meminfo_line_entry)
  next
    case (Some e)
    obtain field amount where e: "e = (field, amount)" by (cases e)
    note f = meminfo_entry_field [OF Some [unfolded e]]
    show ?thesis
    proof (cases amount)
      case (Value v)
      then show ?thesis
        using Some e f
        by (simp add: Cons.IH meminfo_line_entry store_meminfo_refines and_then_assoc map_add_single
            del: fun_upd_apply)
    next
      case (Unexpected c)
      then show ?thesis using Some e by (simp add: meminfo_line_entry)
    qed
  qed
qed simp

text \<open>
  C8. \<open>parse_meminfo\<close> refines the abstract reading of the table: it fails with the error of the
  first documented key whose amount is malformed, ignores every other line whatever it holds, and
  otherwise returns, for each documented key, the amount of its last line.
\<close>

theorem parse_meminfo_refines:
  "parse_meminfo input =
     and_then (meminfo_entries (lines_of input)) (\<lambda>es. Value (information_of (map_of (rev es))))"
  using meminfo_lines_refines [of "lines_of input" Map.empty]
  by (simp add: parse_meminfo_def information_of_empty)


section \<open>Pressure\<close>

definition two_digits :: "nat \<Rightarrow> string" where
  "two_digits n = [char_of (48 + n div 10), char_of (48 + n mod 10)]"

text \<open>A percentage in hundredths as the kernel renders it.\<close>

definition render_hundredths :: "nat \<Rightarrow> string" where
  "render_hundredths h = dec_string (h div 100) @ CHR ''.'' # two_digits (h mod 100)"

lemma two_digits_value:
  "n < 100 \<Longrightarrow> list_all is_digit (two_digits n) \<and> dec_value (two_digits n) = n"
proof -
  assume n: "n < 100"
  have u: "n mod 10 < 10" "n div 10 < 10" using n by simp_all
  then have "uchar (char_of (48 + n div 10)) = 48 + n div 10" "uchar (char_of (48 + n mod 10)) = 48 + n mod 10"
    by (intro uchar_char_of; simp)+
  then show ?thesis
    using u by (simp add: two_digits_def dec_value_def is_digit_def mult.commute)
qed

lemma length_dec_string: "n < 1000 \<Longrightarrow> length (dec_string n) \<le> 3"
proof -
  assume n: "n < 1000"
  have "n div 10 div 10 < 10" using n by simp
  then show ?thesis
    by (subst dec_string.simps, subst dec_string.simps, subst dec_string.simps) simp
qed

lemma dot_not_digit: "\<not> is_digit CHR ''.''"
  by (simp add: is_digit_def)

lemma dec_value_less: "list_all is_digit s \<Longrightarrow> dec_value s < 10 ^ length s"
proof (induction s rule: rev_induct)
  case (snoc c s)
  then have "dec_value s < 10 ^ length s" "48 \<le> uchar c" "uchar c \<le> 57"
    by (simp_all add: is_digit_def)
  then have "dec_value s * 10 + (uchar c - 48) < 10 ^ length s * 10" by linarith
  then show ?case by (simp add: dec_value_def dec_from_append mult.commute)
qed (simp add: dec_value_def)

lemma from_chars_all: "from_chars_u64 s = Some (v, []) \<longleftrightarrow> s \<noteq> [] \<and> list_all is_digit s \<and> dec_value s = unat v"
  by (auto simp: from_chars_u64_iff)

lemma micro_percent_value:
  fixes w f :: u64
  assumes "unat w < 1000" "unat f < 100"
  shows "\<not> w * 100 + f > 10000 \<longleftrightarrow> 100 * unat w + unat f \<le> 10000"
    and "(w * 100 + f) * 10000 = of_nat ((100 * unat w + unat f) * 10000)"
proof -
  have "unat (w * 100 + f) = unat w * 100 + unat f"
    using assms by (subst unat_add_small) (simp_all add: unat_mult_small)
  then show "\<not> w * 100 + f > 10000 \<longleftrightarrow> 100 * unat w + unat f \<le> 10000"
    by (simp add: word_less_nat_alt not_less mult.commute)
  show "(w * 100 + f) * 10000 = of_nat ((100 * unat w + unat f) * 10000)"
    by (simp add: algebra_simps)
qed

lemma micro_percent_iff:
  "parse_micro_percent s = Value v \<longleftrightarrow>
     (\<exists>w f. trim_memory_field s = w @ CHR ''.'' # f \<and> w \<noteq> [] \<and> length w \<le> 3 \<and> length f = 2 \<and>
        list_all is_digit w \<and> list_all is_digit f \<and>
        100 * dec_value w + dec_value f \<le> 10000 \<and>
        v = of_nat ((100 * dec_value w + dec_value f) * 10000))" (is "_ \<longleftrightarrow> (\<exists>w f. ?Q w f)")
proof -
  let ?t = "trim_memory_field s"
  show ?thesis
  proof (cases "CHR ''.'' \<in> set ?t")
    case False
    then have "\<not> ?Q w f" for w f by auto
    with False show ?thesis by (auto simp: parse_micro_percent_def find_from_0)
  next
    case True
    let ?w = "takeWhile (\<lambda>c. c \<noteq> CHR ''.'') ?t" and ?f = "tl (dropWhile (\<lambda>c. c \<noteq> CHR ''.'') ?t)"
    have split: "?t = ?w @ CHR ''.'' # ?f" by (rule split_at [OF True])
    have uniq: "?Q w f \<Longrightarrow> w = ?w \<and> f = ?f" for w f
      using takeWhile_until [of "CHR ''.''" w f] digits_free [of w "CHR ''.''"] dot_not_digit split by auto
    have len: "length ?t - length ?w = Suc (length ?f)"
      using arg_cong [OF split, of length] by simp
    have sep: "find_from CHR ''.'' ?t 0 = Some (length ?w)" by (simp add: find_from_0 True)
    have "parse_micro_percent s = Value v \<longleftrightarrow> ?Q ?w ?f"
    proof (cases "?w = [] \<or> length ?w > 3 \<or> length ?f \<noteq> 2")
      case bad: True
      then show ?thesis
        unfolding parse_micro_percent_def Let_def sep option.case len by auto
    next
      case False
      have "parse_micro_percent s = Value v \<longleftrightarrow>
        (\<exists>a b. from_chars_u64 ?w = Some (a, []) \<and> from_chars_u64 ?f = Some (b, []) \<and>
           \<not> a * 100 + b > 10000 \<and> v = (a * 100 + b) * 10000)"
        unfolding parse_micro_percent_def Let_def sep option.case len take_before drop_after [OF True]
        using False by (auto split: option.splits list.splits if_splits)
      also have "\<dots> \<longleftrightarrow> ?Q ?w ?f"
      proof
        assume "\<exists>a b. from_chars_u64 ?w = Some (a, []) \<and> from_chars_u64 ?f = Some (b, []) \<and>
           \<not> a * 100 + b > 10000 \<and> v = (a * 100 + b) * 10000"
        then obtain a b where *: "from_chars_u64 ?w = Some (a, [])" "from_chars_u64 ?f = Some (b, [])"
          "\<not> a * 100 + b > 10000" "v = (a * 100 + b) * 10000" by blast
        then have d: "list_all is_digit ?w" "dec_value ?w = unat a" "list_all is_digit ?f" "dec_value ?f = unat b"
          by (simp_all add: from_chars_all)
        have bounds: "unat a < 1000" "unat b < 100"
          using dec_value_less [OF d(1)] dec_value_less [OF d(3)] False d
            power_increasing [of "length ?w" 3 "10::nat"] by simp_all
        show "?Q ?w ?f"
          using split False d * micro_percent_value [OF bounds] by simp
      next
        assume q: "?Q ?w ?f"
        define a b where "a = (of_nat (dec_value ?w) :: u64)" and "b = (of_nat (dec_value ?f) :: u64)"
        have l: "dec_value ?w < 1000" "dec_value ?f < 100"
          using q dec_value_less [of ?w] dec_value_less [of ?f]
            power_increasing [of "length ?w" 3 "10::nat"] by simp_all
        then have u: "unat a = dec_value ?w" "unat b = dec_value ?f"
          unfolding a_def b_def by (simp_all add: of_nat_u64)
        from q have "length ?f = 2" by blast
        then have "?f \<noteq> []" by (metis list.size(3) zero_neq_numeral)
        with q False u have "from_chars_u64 ?w = Some (a, []) \<and> from_chars_u64 ?f = Some (b, [])"
          by (simp add: from_chars_all)
        moreover have "\<not> a * 100 + b > 10000" "v = (a * 100 + b) * 10000"
          using micro_percent_value [of a b] l q unfolding u by simp_all
        ultimately show "\<exists>a b. from_chars_u64 ?w = Some (a, []) \<and> from_chars_u64 ?f = Some (b, []) \<and>
           \<not> a * 100 + b > 10000 \<and> v = (a * 100 + b) * 10000" by blast
      qed
      finally show ?thesis .
    qed
    also have "\<dots> \<longleftrightarrow> (\<exists>w f. ?Q w f)" using uniq by blast
    finally show ?thesis .
  qed
qed


text \<open>
  \<open>parse_micro_percent\<close> accepts exactly one to three integer digits, a point and two fractional
  digits, up to 100.00 percent, and returns the percentage times one million.
\<close>

theorem parse_micro_percent_exact:
  "parse_micro_percent s = Value v \<longleftrightarrow>
     (\<exists>w f. trim_memory_field s = w @ CHR ''.'' # f \<and> w \<noteq> [] \<and> length w \<le> 3 \<and> length f = 2 \<and>
        list_all is_digit w \<and> list_all is_digit f \<and>
        100 * dec_value w + dec_value f \<le> 10000 \<and>
        v = of_nat ((100 * dec_value w + dec_value f) * 10000))"
  by (rule micro_percent_iff)

text \<open>A pressure record as the kernel writes it: three averages in hundredths of a percent and a total.\<close>

record pressure_text =
  px_avg10 :: nat
  px_avg60 :: nat
  px_avg300 :: nat
  px_total :: nat

definition pressure_text_ok :: "pressure_text \<Rightarrow> bool" where
  "pressure_text_ok r \<longleftrightarrow> px_avg10 r \<le> 10000 \<and> px_avg60 r \<le> 10000 \<and> px_avg300 r \<le> 10000 \<and>
     px_total r < 2 ^ 64"

definition assignments :: "pressure_text \<Rightarrow> string list" where
  "assignments r =
     [''avg10='' @ render_hundredths (px_avg10 r), ''avg60='' @ render_hundredths (px_avg60 r),
      ''avg300='' @ render_hundredths (px_avg300 r), ''total='' @ dec_string (px_total r)]"

definition render_pressure :: "pressure_text \<Rightarrow> pressure_text \<Rightarrow> string" where
  "render_pressure some_record full_record =
     concat (map (\<lambda>l. l @ [newline])
       [''some '' @ join_with CHR '' '' (assignments some_record),
        ''full '' @ join_with CHR '' '' (assignments full_record)])"

definition sample_of :: "pressure_text \<Rightarrow> pressure_sample" where
  "sample_of r =
     \<lparr>ps_average10 = of_nat (px_avg10 r * 10000), ps_average60 = of_nat (px_avg60 r * 10000),
      ps_average300 = of_nat (px_avg300 r * 10000), ps_total_microseconds = of_nat (px_total r)\<rparr>"

definition plain_char :: "char \<Rightarrow> bool" where
  "plain_char c \<longleftrightarrow> is_digit c \<or> c = CHR ''.''"

lemma render_hundredths_plain: "h \<le> 10000 \<Longrightarrow> list_all plain_char (render_hundredths h)"
  using dec_string_digits [of "h div 100"] two_digits_value [of "h mod 100"]
  by (auto simp: render_hundredths_def plain_char_def list_all_iff)

lemma dec_string_plain: "list_all plain_char (dec_string n)"
  using dec_string_digits [of n] by (auto simp: plain_char_def list_all_iff)

lemma plain_not: "list_all plain_char s \<Longrightarrow> c = CHR '' '' \<or> c = newline \<or> c = CHR ''='' \<Longrightarrow> c \<notin> set s"
  by (auto simp: plain_char_def is_digit_def list_all_iff)

lemma plain_trim: "list_all plain_char s \<Longrightarrow> trim_memory_field s = s"
proof -
  have sp: "plain_char c \<Longrightarrow> \<not> memory_space c" for c
    by (auto simp: plain_char_def memory_space_def is_digit_def)
  assume "list_all plain_char s"
  then have "s = [] \<or> \<not> memory_space (hd s) \<and> \<not> memory_space (last s)"
    using sp by (cases "s = []") (auto simp: list_all_iff)
  then show ?thesis by (rule trim_memory_field_id)
qed

lemma parse_micro_percent_rendered:
  "h \<le> 10000 \<Longrightarrow> parse_micro_percent (render_hundredths h) = Value (of_nat (h * 10000))"
proof -
  assume h: "h \<le> 10000"
  have t: "trim_memory_field (render_hundredths h) = dec_string (h div 100) @ CHR ''.'' # two_digits (h mod 100)"
    using plain_trim [OF render_hundredths_plain [OF h]] by (simp add: render_hundredths_def)
  have "length (dec_string (h div 100)) \<le> 3" using h by (intro length_dec_string) simp
  moreover have "dec_value (two_digits (h mod 100)) = h mod 100" "list_all is_digit (two_digits (h mod 100))"
    using two_digits_value [of "h mod 100"] by simp_all
  ultimately show ?thesis
    unfolding micro_percent_iff t
    by (intro exI [of _ "dec_string (h div 100)"] exI [of _ "two_digits (h mod 100)"])
      (use h in \<open>simp add: dec_string_digits two_digits_def\<close>)
qed

lemma parse_bare_count_rendered: "n < 2 ^ 64 \<Longrightarrow> parse_bare_count (dec_string n) = Value (of_nat n)"
  by (simp add: parse_bare_count_iff plain_trim dec_string_plain dec_string_digits of_nat_u64)

lemma token_split:
  "c \<notin> set name \<Longrightarrow> find_from c (name @ c # rest) 0 = Some (length name)"
  using find_from_append [of c name "[]" rest] by simp

lemma pressure_tokens_rendered:
  assumes "pressure_text_ok r"
  shows "pressure_tokens (assignments r) empty_scan =
    Value \<lparr>pn_sample = sample_of r, pn_avg10 = True, pn_avg60 = True, pn_avg300 = True, pn_total = True\<rparr>"
proof -
  have t: "find_from CHR ''='' (''avg10='' @ s) 0 = Some 5" "find_from CHR ''='' (''avg60='' @ s) 0 = Some 5"
    "find_from CHR ''='' (''avg300='' @ s) 0 = Some 6" "find_from CHR ''='' (''total='' @ s) 0 = Some 5" for s
    using token_split [of "CHR ''=''" "''avg10''" s] token_split [of "CHR ''=''" "''avg60''" s]
      token_split [of "CHR ''=''" "''avg300''" s] token_split [of "CHR ''=''" "''total''" s] by simp_all
  have p: "parse_micro_percent (render_hundredths (px_avg10 r)) = Value (of_nat (px_avg10 r * 10000))"
    "parse_micro_percent (render_hundredths (px_avg60 r)) = Value (of_nat (px_avg60 r * 10000))"
    "parse_micro_percent (render_hundredths (px_avg300 r)) = Value (of_nat (px_avg300 r * 10000))"
    "parse_bare_count (dec_string (px_total r)) = Value (of_nat (px_total r))"
    using assms parse_micro_percent_rendered parse_bare_count_rendered
    unfolding pressure_text_ok_def by blast+
  have 1: "pressure_token (''avg10='' @ render_hundredths (px_avg10 r)) s =
      Value (s\<lparr>pn_sample := (pn_sample s)\<lparr>ps_average10 := of_nat (px_avg10 r * 10000)\<rparr>, pn_avg10 := True\<rparr>)" for s
    unfolding pressure_token_def t by (simp add: p)
  have 2: "pressure_token (''avg60='' @ render_hundredths (px_avg60 r)) s =
      Value (s\<lparr>pn_sample := (pn_sample s)\<lparr>ps_average60 := of_nat (px_avg60 r * 10000)\<rparr>, pn_avg60 := True\<rparr>)" for s
    unfolding pressure_token_def t by (simp add: p)
  have 3: "pressure_token (''avg300='' @ render_hundredths (px_avg300 r)) s =
      Value (s\<lparr>pn_sample := (pn_sample s)\<lparr>ps_average300 := of_nat (px_avg300 r * 10000)\<rparr>, pn_avg300 := True\<rparr>)" for s
    unfolding pressure_token_def t by (simp add: p)
  have 4: "pressure_token (''total='' @ dec_string (px_total r)) s =
      Value (s\<lparr>pn_sample := (pn_sample s)\<lparr>ps_total_microseconds := of_nat (px_total r)\<rparr>, pn_total := True\<rparr>)" for s
    unfolding pressure_token_def t by (simp add: p)
  show ?thesis
    unfolding assignments_def pressure_tokens.simps 1 2 3 4 and_then.simps
    by (simp add: empty_scan_def empty_sample_def sample_of_def)
qed

lemma plain_free: "list_all plain_char s \<Longrightarrow> CHR '' '' \<notin> set s \<and> newline \<notin> set s"
  using plain_not by blast

lemma assignments_plain:
  assumes "pressure_text_ok r"
  shows "list_all (\<lambda>a. a \<noteq> [] \<and> CHR '' '' \<notin> set a \<and> newline \<notin> set a) (assignments r)"
proof -
  note f = plain_free [OF render_hundredths_plain, of "px_avg10 r"]
    plain_free [OF render_hundredths_plain, of "px_avg60 r"]
    plain_free [OF render_hundredths_plain, of "px_avg300 r"]
    plain_free [OF dec_string_plain, of "px_total r"]
  have "px_avg10 r \<le> 10000" "px_avg60 r \<le> 10000" "px_avg300 r \<le> 10000"
    using assms by (simp_all add: pressure_text_ok_def)
  with f show ?thesis by (simp add: assignments_def)
qed

lemma parse_sample_rendered:
  assumes "pressure_text_ok r"
  shows "parse_pressure_sample (join_with CHR '' '' (assignments r)) = Value (sample_of r)"
proof -
  have "pieces_of CHR '' '' (join_with CHR '' '' (assignments r)) = assignments r"
    using assignments_plain [OF assms] by (intro pieces_of_join) (simp add: list_all_iff)
  then show ?thesis
    by (simp add: parse_pressure_sample_def pressure_tokens_rendered [OF assms])
qed


lemma join_newline_free:
  "pressure_text_ok r \<Longrightarrow> newline \<notin> set (join_with CHR '' '' (assignments r))"
  using set_join_with [of "CHR '' ''" "assignments r"] assignments_plain [of r]
  by (auto simp: list_all_iff)

lemma classify_rendered:
  assumes "pressure_text_ok r"
  shows "classify_pressure_line (''some '' @ join_with CHR '' '' (assignments r)) (status, s, f) =
      Value (True, status\<lparr>pt_some := sample_of r\<rparr>, True, f)"
    and "classify_pressure_line (''full '' @ join_with CHR '' '' (assignments r)) (status, s, f) =
      Value (True, status\<lparr>pt_full := sample_of r\<rparr>, s, True)"
proof -
  have t: "find_from CHR '' '' (''some '' @ x) 0 = Some 4" "find_from CHR '' '' (''full '' @ x) 0 = Some 4" for x
    using token_split [of "CHR '' ''" "''some''" x] token_split [of "CHR '' ''" "''full''" x] by simp_all
  show "classify_pressure_line (''some '' @ join_with CHR '' '' (assignments r)) (status, s, f) =
      Value (True, status\<lparr>pt_some := sample_of r\<rparr>, True, f)"
    unfolding classify_pressure_line_def t by (simp add: parse_sample_rendered [OF assms])
  show "classify_pressure_line (''full '' @ join_with CHR '' '' (assignments r)) (status, s, f) =
      Value (True, status\<lparr>pt_full := sample_of r\<rparr>, s, True)"
    unfolding classify_pressure_line_def t by (simp add: parse_sample_rendered [OF assms])
qed

lemma line_not_blank: "trim_memory_field (c # s) = [] \<Longrightarrow> memory_space c"
  using dropWhile_eq_Nil_conv [of memory_space "c # s"]
  by (metis append_Nil2 dropWhile.simps(2) list.discI list.set_intros(1) rev_is_Nil_conv rev_rev_ident
      trim_back_def trim_memory_field_def set_rev dropWhile_eq_Nil_conv)

text \<open>
  The pressure snapshot the kernel writes, a \<open>some\<close> and a \<open>full\<close> record with averages up to
  100.00 percent and a 64-bit total, is read back exactly, each average in millionths of a percent.
\<close>

theorem parse_memory_pressure_roundtrip:
  "pressure_text_ok r \<Longrightarrow> pressure_text_ok q \<Longrightarrow>
   parse_memory_pressure (render_pressure r q) =
     Value \<lparr>pt_some = sample_of r, pt_has_full = True, pt_full = sample_of q\<rparr>"
proof -
  assume r: "pressure_text_ok r" and q: "pressure_text_ok q"
  let ?a = "''some '' @ join_with CHR '' '' (assignments r)"
  let ?b = "''full '' @ join_with CHR '' '' (assignments q)"
  have l: "lines_of (render_pressure r q) = [?a, ?b]"
    unfolding render_pressure_def
    by (rule lines_of_unlines) (use join_newline_free [OF r] join_newline_free [OF q] in simp)
  have n: "trim_memory_field ?a \<noteq> []" "trim_memory_field ?b \<noteq> []"
    using line_not_blank [of "CHR ''s''"] line_not_blank [of "CHR ''f''"]
    by (auto simp: memory_space_def)
  show ?thesis
    unfolding parse_memory_pressure_def l pressure_lines.simps if_not_P [OF n(1)] if_not_P [OF n(2)]
      classify_rendered [OF r] classify_rendered [OF q] and_then.simps prod.case
    by simp
qed

definition example_pressure :: pressure_text where
  "example_pressure = \<lparr>px_avg10 = 1234, px_avg60 = 5, px_avg300 = 0, px_total = 987654321\<rparr>"

theorem parse_memory_pressure_roundtrip_witness:
  "pressure_text_ok example_pressure \<and>
   parse_memory_pressure (render_pressure example_pressure example_pressure) =
     Value \<lparr>pt_some = sample_of example_pressure, pt_has_full = True, pt_full = sample_of example_pressure\<rparr> \<and>
   ps_average10 (sample_of example_pressure) = 12340000"
proof -
  have p: "pressure_text_ok example_pressure" by (simp add: pressure_text_ok_def example_pressure_def)
  have "ps_average10 (sample_of example_pressure) = 12340000" by (simp add: sample_of_def example_pressure_def)
  with p parse_memory_pressure_roundtrip [OF p p] show ?thesis by blast
qed

lemma memory_load_percent_bounds:
  "memory_load_percent content = Value p \<Longrightarrow> unat p \<le> 100"
proof -
  assume a: "memory_load_percent content = Value p"
  then obtain u t where "utilization_percent u t = Value p"
    by (auto simp: memory_load_percent_def and_then_Value_iff)
  then show ?thesis
    by (auto simp: utilization_percent_def Let_def word_le_nat_alt word_less_nat_alt not_less
        unsigned_ucast_eq take_bit_nat_eq_self split: if_splits)
qed


text \<open>
  The memory load computed from a meminfo text: without the availability estimate it is not
  supported, without a total it is not found, contradictory or empty totals are malformed, and
  otherwise it is the used share of the total rounded half up to a whole percentage, read from the
  last line of each key.
\<close>

theorem memory_load_percent_exact:
  "meminfo_entries (lines_of txt) = Value es \<Longrightarrow>
   memory_load_percent (Value txt) =
     (case map_of (rev es) available of
        None \<Rightarrow> fail errc.not_supported
      | Some a \<Rightarrow>
          (case map_of (rev es) total of
             None \<Rightarrow> fail errc.not_found
           | Some t \<Rightarrow>
               if unat t < unat a \<or> t = 0 then fail errc.malformed_data
               else if unat t > (2 ^ 64 - 1) div 200 then fail errc.value_too_large
               else Value (of_nat (rounded_percent (unat t - unat a) (unat t)))))"
proof -
  assume es: "meminfo_entries (lines_of txt) = Value es"
  let ?m = "map_of (rev es)"
  have i: "read_memory_information (Value txt) = Value (information_of ?m)"
    using meminfo_lines_refines [of "lines_of txt" Map.empty] es
    by (simp add: read_memory_information_def parse_meminfo_def information_of_empty)
  show ?thesis
  proof (cases "?m available")
    case None
    then show ?thesis by (simp add: memory_load_percent_def i information_of_def)
  next
    case (Some a)
    show ?thesis
    proof (cases "?m total")
      case None
      with Some show ?thesis by (simp add: memory_load_percent_def i information_of_def)
    next
      case total: (Some t)
      have p: "a \<le> t \<Longrightarrow> unat (t - a) = unat t - unat a" by (rule unat_sub)
      have le: "a \<le> t \<Longrightarrow> t - a \<le> t" by (simp add: word_le_nat_alt unat_sub)
      show ?thesis
      proof (cases "t < a")
        case True
        then show ?thesis
          using Some total by (simp add: memory_load_percent_def i information_of_def amount_or_zero_def word_less_nat_alt)
      next
        case False
        then have at: "a \<le> t" by simp
        have "memory_load_percent (Value txt) = utilization_percent (t - a) t"
          using Some total False by (simp add: memory_load_percent_def i information_of_def amount_or_zero_def)
        then show ?thesis
          using utilization_percent_value [OF le [OF at]] p [OF at] Some total False
          by (auto simp: word_less_nat_alt)
      qed
    qed
  qed
qed

text \<open>Sixteen gibibytes, a quarter of them available.\<close>

definition example_meminfo :: string where
  "example_meminfo = ''MemTotal:       16777216 kB
MemFree: odd
MemAvailable:    4194304 kB
''"

theorem memory_load_percent_exact_witness:
  "memory_load_percent (Value example_meminfo) = Value 75"
proof -
  have "meminfo_entries (lines_of example_meminfo) =
      Value [(total, 17179869184), (available, 4294967296)]"
    by code_simp
  from memory_load_percent_exact [OF this] show ?thesis by (simp add: rounded_percent_def)
qed

end
