(* ===== verification/Printer_Text.thy ===== *)
theory Printer_Text
  imports Ordering Utf8_Correct Memory_Correct "HOL-Library.Product_Lexorder"
begin

text \<open>
  The text helpers of \<open>detail/printer/common.hpp\<close>: trimming, comparison without case, the
  normalised identity of a queue, the natural order of names and the integer parser.

  The sign of a plain \<open>char\<close> is left to the platform by the language; the comparison
  \<open>left[i] < right[i]\<close> of \<open>natural_less\<close> depends on it, so its model takes the choice as an argument
  and every theorem holds for both. \<open>std::tolower\<close> is that of the "C" locale.
\<close>

section \<open>Trimming and comparison without case\<close>

definition printer_space :: "char \<Rightarrow> bool" where
  "printer_space c \<longleftrightarrow> uchar c \<le> 32"

definition trim_whitespace :: "string \<Rightarrow> string" where
  "trim_whitespace text = trim_back printer_space (dropWhile printer_space text)"

definition std_tolower :: "char \<Rightarrow> char" where
  "std_tolower c = (if 65 \<le> uchar c \<and> uchar c \<le> 90 then char_of (uchar c + 32) else c)"

definition equals_ignore_case :: "string \<Rightarrow> string \<Rightarrow> bool" where
  "equals_ignore_case left right \<longleftrightarrow>
     length left = length right \<and>
     list_all (\<lambda>i. std_tolower (left ! i) = std_tolower (right ! i)) [0..<length left]"

definition starts_with_ignore_case :: "string \<Rightarrow> string \<Rightarrow> bool" where
  "starts_with_ignore_case text prefix \<longleftrightarrow>
     \<not> length text < length prefix \<and> equals_ignore_case (substr text 0 (length prefix)) prefix"

definition contains_ignore_case :: "string \<Rightarrow> string \<Rightarrow> bool" where
  "contains_ignore_case text part \<longleftrightarrow>
     part = [] \<or>
     (\<not> length part > length text \<and>
      list_ex (\<lambda>i. equals_ignore_case (substr text i (length part)) part)
        [0..<length text + 1 - length part])"

lemma equals_ignore_case_iff:
  "equals_ignore_case left right \<longleftrightarrow> map std_tolower left = map std_tolower right"
proof -
  have "list_all (\<lambda>i. std_tolower (left ! i) = std_tolower (right ! i)) [0..<length left] \<longleftrightarrow>
      (\<forall>i<length left. std_tolower (left ! i) = std_tolower (right ! i))"
    by (auto simp: list_all_iff)
  then show ?thesis
    unfolding equals_ignore_case_def list_eq_iff_nth_eq [of "map std_tolower left"] by auto
qed

lemma equals_ignore_case_refl [simp]: "equals_ignore_case s s"
  by (simp add: equals_ignore_case_iff)

lemma starts_with_ignore_case_iff:
  "starts_with_ignore_case s prefix \<longleftrightarrow>
     length prefix \<le> length s \<and> map std_tolower (take (length prefix) s) = map std_tolower prefix"
  by (auto simp: starts_with_ignore_case_def equals_ignore_case_iff substr_def)

lemma starts_with_ignore_case_append [simp]: "starts_with_ignore_case (p @ s) p"
  by (simp add: starts_with_ignore_case_iff)

lemma contains_ignore_case_iff:
  "contains_ignore_case s part \<longleftrightarrow>
     (\<exists>pre mid post. s = pre @ mid @ post \<and> map std_tolower mid = map std_tolower part)"
  (is "_ \<longleftrightarrow> ?R")
proof
  assume c: "contains_ignore_case s part"
  show ?R
  proof (cases "part = []")
    case True
    then show ?thesis by (intro exI [of _ "[]"] exI [of _ s]) simp
  next
    case False
    then obtain i where "map std_tolower (substr s i (length part)) = map std_tolower part"
      using c by (auto simp: contains_ignore_case_def list_ex_iff equals_ignore_case_iff)
    moreover have "s = take i s @ substr s i (length part) @ drop (length part) (drop i s)"
      by (metis append_take_drop_id substr_def)
    ultimately show ?thesis by blast
  qed
next
  assume ?R
  then obtain pre mid post where *: "s = pre @ mid @ post" "map std_tolower mid = map std_tolower part"
    by blast
  then have l: "length mid = length part" by (metis length_map)
  then have "substr s (length pre) (length part) = mid"
    using *(1) by (simp add: substr_def)
  then show "contains_ignore_case s part"
    using * l by (auto simp: contains_ignore_case_def list_ex_iff equals_ignore_case_iff
        intro!: bexI [of _ "length pre"])
qed

section \<open>The identity of a queue\<close>

definition hex_value :: "char \<Rightarrow> int" where
  "hex_value c =
     (if 48 \<le> uchar c \<and> uchar c \<le> 57 then int (uchar c) - 48
      else if 97 \<le> uchar c \<and> uchar c \<le> 102 then int (uchar c) - 97 + 10
      else if 65 \<le> uchar c \<and> uchar c \<le> 70 then int (uchar c) - 65 + 10
      else - 1)"

text \<open>What one decoded byte contributes.\<close>

definition identity_byte :: "char \<Rightarrow> string" where
  "identity_byte c =
     (if 97 \<le> uchar c \<and> uchar c \<le> 122 \<or> 48 \<le> uchar c \<and> uchar c \<le> 57 \<or> uchar c \<ge> 128 then [c]
      else if 65 \<le> uchar c \<and> uchar c \<le> 90 then [char_of (uchar c - 65 + 97)]
      else [])"

function identity_from :: "string \<Rightarrow> string" where
  "identity_from text =
     (case text of
        [] \<Rightarrow> []
      | c # t \<Rightarrow>
          (let high = hex_value (t ! 0); low = hex_value (t ! 1) in
           if c = CHR ''%'' \<and> length t \<ge> 2 \<and> high \<ge> 0 \<and> low \<ge> 0
           then identity_byte (char_of (nat (high * 16 + low))) @ identity_from (drop 2 t)
           else identity_byte c @ identity_from t))"
  by pat_completeness auto
termination
  by (relation "measure length") auto

declare identity_from.simps [simp del]

definition normalized_printer_identity :: "string \<Rightarrow> string" where
  "normalized_printer_identity text =
     (let t = (if starts_with_ignore_case text ''usb://'' then drop 6 text else text) in
      identity_from
        (case find_from CHR ''?'' t 0 of None \<Rightarrow> t | Some query \<Rightarrow> substr t 0 query))"

text \<open>The normal form holds lower-case letters, digits and bytes beyond ASCII.\<close>

definition identity_char :: "char \<Rightarrow> bool" where
  "identity_char c \<longleftrightarrow>
     97 \<le> uchar c \<and> uchar c \<le> 122 \<or> 48 \<le> uchar c \<and> uchar c \<le> 57 \<or> uchar c \<ge> 128"

lemma identity_byte_chars: "list_all identity_char (identity_byte c)"
  by (auto simp: identity_byte_def identity_char_def)

lemma identity_from_Cons:
  "identity_from (c # t) =
     (if c = CHR ''%'' \<and> length t \<ge> 2 \<and> hex_value (t ! 0) \<ge> 0 \<and> hex_value (t ! 1) \<ge> 0
      then identity_byte (char_of (nat (hex_value (t ! 0) * 16 + hex_value (t ! 1)))) @ identity_from (drop 2 t)
      else identity_byte c @ identity_from t)"
  by (subst identity_from.simps) (simp add: Let_def)

lemma identity_from_Nil [simp]: "identity_from [] = []"
  by (subst identity_from.simps) simp

lemma identity_from_chars: "list_all identity_char (identity_from s)"
proof (induction s rule: length_induct)
  case (1 s)
  then show ?case
    by (cases s) (simp_all add: identity_from_Cons identity_byte_chars)
qed

lemma identity_from_id: "list_all identity_char s \<Longrightarrow> identity_from s = s"
  by (induction s) (auto simp: identity_from_Cons identity_char_def identity_byte_def)

lemma normalized_printer_identity_idem:
  "normalized_printer_identity (normalized_printer_identity s) = normalized_printer_identity s"
proof -
  let ?n = "normalized_printer_identity s"
  have n: "list_all identity_char ?n"
    by (simp add: normalized_printer_identity_def Let_def identity_from_chars)
  have "\<not> starts_with_ignore_case ?n ''usb://''"
  proof
    assume s: "starts_with_ignore_case ?n ''usb://''"
    then have "map std_tolower (take (length ''usb://'') ?n) = map std_tolower ''usb://''"
      unfolding starts_with_ignore_case_iff by (rule conjunct2)
    also have "\<dots> = ''usb://''" by (simp add: std_tolower_def)
    finally have "set (map std_tolower (take (length ''usb://'') ?n)) = set ''usb://''"
      by (rule arg_cong)
    then have "CHR '':'' \<in> std_tolower ` set (take (length ''usb://'') ?n)"
      by (simp only: set_map) simp
    then obtain c where "c \<in> set ?n" "std_tolower c = CHR '':''"
      by (auto dest: in_set_takeD)
    then show False
      using n by (auto simp: list_all_iff std_tolower_def identity_char_def split: if_splits)
  qed
  moreover have "find_from CHR ''?'' ?n 0 = None"
  proof -
    have "CHR ''?'' \<notin> set ?n" using n by (auto simp: list_all_iff identity_char_def)
    then show ?thesis by (simp add: find_from_0)
  qed
  ultimately show ?thesis
    using n by (subst normalized_printer_identity_def) (simp add: identity_from_id)
qed

section \<open>The natural order\<close>

definition char_rank :: "bool \<Rightarrow> char \<Rightarrow> int" where
  "char_rank char_signed c =
     (if char_signed \<and> uchar c \<ge> 128 then int (uchar c) - 256 else int (uchar c))"

function natural_less :: "bool \<Rightarrow> string \<Rightarrow> string \<Rightarrow> bool" where
  "natural_less cs left right =
     (case left of
        [] \<Rightarrow> right \<noteq> []
      | a # left' \<Rightarrow>
         (case right of
            [] \<Rightarrow> False
          | b # right' \<Rightarrow>
             if \<not> is_digit a \<or> \<not> is_digit b then
               (if a \<noteq> b then char_rank cs a < char_rank cs b else natural_less cs left' right')
             else
               (let left_significant = dropWhile (\<lambda>c. c = CHR ''0'') left;
                    right_significant = dropWhile (\<lambda>c. c = CHR ''0'') right;
                    left_digits = takeWhile is_digit left_significant;
                    right_digits = takeWhile is_digit right_significant;
                    left_leading_zeros = length left - length left_significant;
                    right_leading_zeros = length right - length right_significant
                in
                if length left_digits \<noteq> length right_digits
                  then length left_digits < length right_digits
                else if left_digits \<noteq> right_digits then left_digits < right_digits
                else if left_leading_zeros \<noteq> right_leading_zeros
                  then left_leading_zeros < right_leading_zeros
                else natural_less cs (drop (length left_digits) left_significant)
                       (drop (length right_digits) right_significant))))"
  by pat_completeness auto
termination
proof (relation "measure (\<lambda>(cs, left, right). length left)", goal_cases)
  case (3 cs left right a left' b right' ls rs ld rd lz rz)
  show ?case
  proof (cases "a = CHR ''0''")
    case True
    then have "length ls < length left"
      using 3 length_dropWhile_le [of "\<lambda>c. c = CHR ''0''" left'] by simp
    then show ?thesis using 3 by simp
  next
    case False
    then have "ls = left" "ld \<noteq> []" using 3 by auto
    then show ?thesis using 3 by simp
  qed
qed auto

declare natural_less.simps [simp del]

text \<open>
  The order by keys: a name is cut into digit runs and other characters, and the keys of two names
  are compared lexicographically.
\<close>

function name_key :: "bool \<Rightarrow> string \<Rightarrow> (int \<times> nat \<times> string \<times> nat) list" where
  "name_key cs s =
     (case s of
        [] \<Rightarrow> []
      | c # t \<Rightarrow>
          if is_digit c then
            (let significant = dropWhile (\<lambda>c. c = CHR ''0'') s;
                 ds = takeWhile is_digit significant
             in (48, length ds, ds, length s - length significant) #
                name_key cs (drop (length ds) significant))
          else (char_rank cs c, 0, [], 0) # name_key cs t)"
  by pat_completeness auto
termination
proof (relation "measure (\<lambda>(cs, s). length s)", goal_cases)
  case (2 cs s c t sig ds)
  then show ?case
    using length_dropWhile_le [of "\<lambda>c. c = CHR ''0''" t]
    by (cases "c = CHR ''0''") auto
qed auto

declare name_key.simps [simp del]

lemma name_key_Nil [simp]: "name_key cs [] = []"
  by (subst name_key.simps) simp

lemma name_key_char: "\<not> is_digit c \<Longrightarrow> name_key cs (c # t) = (char_rank cs c, 0, [], 0) # name_key cs t"
  by (subst name_key.simps) simp

lemma name_key_run:
  fixes s :: string
  defines "sig \<equiv> dropWhile (\<lambda>c. c = CHR ''0'') s"
  assumes "s = c # t" "is_digit c"
  shows "name_key cs s =
    (48, length (takeWhile is_digit sig), takeWhile is_digit sig, length s - length sig) #
      name_key cs (drop (length (takeWhile is_digit sig)) sig)"
  using assms by (subst name_key.simps) (simp add: Let_def)

lemma name_key_eq_Nil [simp]: "name_key cs s = [] \<longleftrightarrow> s = []"
  by (cases s; subst name_key.simps) (auto simp: Let_def)

lemma char_rank_inject: "char_rank cs a = char_rank cs b \<longleftrightarrow> a = b"
proof -
  have "char_rank cs a = char_rank cs b \<Longrightarrow> uchar a = uchar b"
    using uchar_less [of a] uchar_less [of b]
    by (auto simp: char_rank_def simp del: uchar_less split: if_splits)
  then show ?thesis by (auto simp: uchar_eq_iff)
qed

lemma char_rank_digit: "is_digit c \<Longrightarrow> 48 \<le> char_rank cs c \<and> char_rank cs c \<le> 57"
  by (auto simp: char_rank_def is_digit_def)

lemma char_rank_other: "\<not> is_digit c \<Longrightarrow> char_rank cs c < 48 \<or> 57 < char_rank cs c"
  using uchar_less [of c] by (auto simp: char_rank_def is_digit_def simp del: uchar_less)

text \<open>Where the two names differ in kind, the first character decides alike.\<close>

lemma natural_less_mixed:
  assumes "\<not> is_digit a \<or> \<not> is_digit b" "a \<noteq> b"
  shows "char_rank cs a < char_rank cs b \<longleftrightarrow> name_key cs (a # s) < name_key cs (b # t)"
proof (cases "is_digit a")
  case True
  with assms have "\<not> is_digit b" by simp
  then show ?thesis
    using True char_rank_digit [OF True, of cs] char_rank_other [of b cs]
    by (auto simp: name_key_run [OF refl True] name_key_char)
next
  case False
  show ?thesis
  proof (cases "is_digit b")
    case True
    then show ?thesis
      using False char_rank_digit [OF True, of cs] char_rank_other [of a cs]
      by (auto simp: name_key_run [OF refl True] name_key_char)
  next
    case b: False
    then show ?thesis
      using False assms(2) by (auto simp: name_key_char char_rank_inject)
  qed
qed

lemma natural_less_key: "natural_less cs left right \<longleftrightarrow> name_key cs left < name_key cs right"
proof (induction cs left right rule: natural_less.induct)
  case (1 cs left right)
  show ?case
  proof (cases left)
    case Nil
    then show ?thesis
      by (subst natural_less.simps) (cases "name_key cs right"; auto)
  next
    case l: (Cons a left')
    show ?thesis
    proof (cases right)
      case Nil
      then show ?thesis by (subst natural_less.simps) (simp add: l)
    next
      case r: (Cons b right')
      show ?thesis
      proof (cases "is_digit a \<and> is_digit b")
        case False
        then show ?thesis
          using l r 1 natural_less_mixed [of a b cs left' right']
          by (subst natural_less.simps) (auto simp: name_key_char)
      next
        case True
        define ls where "ls = dropWhile (\<lambda>c. c = CHR ''0'') left"
        define rs where "rs = dropWhile (\<lambda>c. c = CHR ''0'') right"
        define ld where "ld = takeWhile is_digit ls"
        define rd where "rd = takeWhile is_digit rs"
        define lz where "lz = length left - length ls"
        define rz where "rz = length right - length rs"
        note defs = ls_def rs_def ld_def rd_def lz_def rz_def
        have ih: "\<not> length ld \<noteq> length rd \<Longrightarrow> \<not> ld \<noteq> rd \<Longrightarrow> \<not> lz \<noteq> rz \<Longrightarrow>
            natural_less cs (drop (length ld) ls) (drop (length rd) rs) \<longleftrightarrow>
            name_key cs (drop (length ld) ls) < name_key cs (drop (length rd) rs)"
          using 1(2) [OF l r _ ls_def rs_def ld_def rd_def lz_def rz_def] True by blast
        have "natural_less cs left right \<longleftrightarrow>
            (if length ld \<noteq> length rd then length ld < length rd
             else if ld \<noteq> rd then ld < rd
             else if lz \<noteq> rz then lz < rz
             else natural_less cs (drop (length ld) ls) (drop (length rd) rs))"
          using l r True unfolding defs by (subst natural_less.simps) (simp add: Let_def)
        moreover have "name_key cs left = (48, length ld, ld, lz) # name_key cs (drop (length ld) ls)"
          and "name_key cs right = (48, length rd, rd, rz) # name_key cs (drop (length rd) rs)"
          using True name_key_run [OF l] name_key_run [OF r] unfolding defs by simp_all
        ultimately show ?thesis using ih by auto
      qed
    qed
  qed
qed

lemma zeros_split:
  "s = replicate (length s - length (dropWhile (\<lambda>c. c = x) s)) x @ dropWhile (\<lambda>c. c = x) s"
proof (induction s)
  case (Cons y s)
  then show ?case
    using length_dropWhile_le [of "\<lambda>c. c = x" s] by (auto simp: Suc_diff_le)
qed simp

lemma name_key_inject: "name_key cs s = name_key cs t \<longleftrightarrow> s = t"
proof
  show "name_key cs s = name_key cs t \<Longrightarrow> s = t"
  proof (induction cs s arbitrary: t rule: name_key.induct)
    case (1 cs s)
    show ?case
    proof (cases s)
      case Nil
      then show ?thesis using 1(3) by (cases t) (auto dest: sym)
    next
      case s: (Cons c s')
      then obtain d t' where t: "t = d # t'" using 1(3) by (cases t) auto
      have same: "is_digit c \<longleftrightarrow> is_digit d"
        using 1(3) s t char_rank_other [of c cs] char_rank_other [of d cs]
        by (cases "is_digit c"; cases "is_digit d")
          (auto simp: name_key_char name_key_run [OF refl])
      show ?thesis
      proof (cases "is_digit c")
        case False
        then show ?thesis
          using 1 s t same by (auto simp: name_key_char char_rank_inject)
      next
        case True
        define ss where "ss = dropWhile (\<lambda>c. c = CHR ''0'') s"
        define ts where "ts = dropWhile (\<lambda>c. c = CHR ''0'') t"
        have "(48, length (takeWhile is_digit ss), takeWhile is_digit ss, length s - length ss) #
              name_key cs (drop (length (takeWhile is_digit ss)) ss) =
            (48, length (takeWhile is_digit ts), takeWhile is_digit ts, length t - length ts) #
              name_key cs (drop (length (takeWhile is_digit ts)) ts)"
          using 1(3) name_key_run [OF s True, of cs, folded ss_def] True same
            name_key_run [OF t, of cs, folded ts_def] by metis
        then have e: "takeWhile is_digit ss = takeWhile is_digit ts \<and>
            length s - length ss = length t - length ts \<and>
            name_key cs (drop (length (takeWhile is_digit ss)) ss) =
            name_key cs (drop (length (takeWhile is_digit ts)) ts)"
          by blast
        then have "drop (length (takeWhile is_digit ss)) ss = drop (length (takeWhile is_digit ts)) ts"
          using 1(1) [OF s True ss_def refl] by blast
        then have "ss = ts"
          using e by (metis takeWhile_dropWhile_id dropWhile_eq_drop)
        then show ?thesis
          using e zeros_split [of s "CHR ''0''"] zeros_split [of t "CHR ''0''"]
          unfolding ss_def ts_def by metis
      qed
    qed
  qed
qed simp

lemma natural_less_linear: "natural_less cs a b \<or> a = b \<or> natural_less cs b a"
  unfolding natural_less_key using name_key_inject [of cs a b] by (metis linorder_less_linear)

interpretation natural: strict_weak_order "natural_less cs" for cs
  unfolding natural_less_key by (rule swo_key)

text \<open>Digit strings of one length are ordered as the numbers they denote.\<close>

lemma dec_from_split: "dec_from v s = v * 10 ^ length s + dec_value s"
proof (induction s arbitrary: v)
  case (Cons c s)
  have "dec_value (c # s) = (uchar c - 48) * 10 ^ length s + dec_value s"
    by (simp add: dec_value_def Cons [of "uchar c - 48"])
  then show ?case
    by (simp add: Cons [of "v * 10 + (uchar c - 48)"] algebra_simps)
qed (simp add: dec_value_def)

lemma dec_value_Cons: "dec_value (c # s) = (uchar c - 48) * 10 ^ length s + dec_value s"
  by (simp add: dec_value_def dec_from_split [of "uchar c - 48"])

lemma digits_less_value:
  assumes "length u = length v" "list_all is_digit u" "list_all is_digit v" "dec_value u < dec_value v"
  shows "u < v"
  using assms
proof (induction u v rule: list_induct2)
  case (Cons c u d v)
  have lu: "dec_value v < 10 ^ length u"
    using Cons dec_value_less [of v] by simp
  show ?case
  proof (cases "c = d")
    case True
    then show ?thesis using Cons by (simp add: dec_value_Cons)
  next
    case False
    have "uchar c - 48 < uchar d - 48"
    proof (rule ccontr)
      assume "\<not> uchar c - 48 < uchar d - 48"
      moreover have "uchar c \<noteq> uchar d" using False by (simp only: uchar_eq_iff not_False_eq_True)
      moreover have "48 \<le> uchar c" "48 \<le> uchar d" using Cons.prems by (simp_all add: is_digit_def)
      ultimately have "uchar d - 48 + 1 \<le> uchar c - 48" by linarith
      then have "(uchar d - 48 + 1) * 10 ^ length u \<le> (uchar c - 48) * 10 ^ length u"
        by (rule mult_le_mono1)
      then show False
        using Cons.prems(3) Cons.hyps lu by (simp add: dec_value_Cons)
    qed
    then have "c < d" by (simp add: less_char_def)
    then show ?thesis by simp
  qed
qed simp

lemma dec_value_strip: "dec_value (dropWhile (\<lambda>c. c = CHR ''0'') s) = dec_value s"
  by (induction s) (auto simp: dec_value_Cons)

lemma stripped_lower:
  assumes "u \<noteq> []" "list_all is_digit u" "hd u \<noteq> CHR ''0''"
  shows "10 ^ (length u - 1) \<le> dec_value u"
proof (cases u)
  case (Cons c s)
  then have "uchar c \<noteq> uchar CHR ''0''" using assms(3) by (simp only: uchar_eq_iff) simp
  moreover have "48 \<le> uchar c" using assms(2) Cons by (simp add: is_digit_def)
  ultimately have "1 \<le> uchar c - 48" by simp
  then have "1 * 10 ^ length s \<le> (uchar c - 48) * 10 ^ length s"
    by (rule mult_le_mono1)
  then show ?thesis
    unfolding Cons dec_value_Cons by (simp only: length_Cons mult_1 diff_Suc_1 trans_le_add1)
qed (use assms in simp)

lemma stripped_order:
  assumes "list_all is_digit u" "list_all is_digit v"
    and "u = [] \<or> hd u \<noteq> CHR ''0''" "v = [] \<or> hd v \<noteq> CHR ''0''"
    and "dec_value u < dec_value v"
  shows "length u < length v \<or> length u = length v \<and> u < v"
proof (cases "length u" "length v" rule: linorder_cases)
  case greater
  then have "u \<noteq> []" by auto
  have "dec_value v < 10 ^ length v" using assms by (simp add: dec_value_less)
  also have "\<dots> \<le> 10 ^ (length u - 1)" using greater by (intro power_increasing) auto
  also have "\<dots> \<le> dec_value u" using stripped_lower assms \<open>u \<noteq> []\<close> by blast
  finally show ?thesis using assms(5) by simp
qed (use assms digits_less_value in auto)

lemma name_key_append:
  assumes "p = [] \<or> \<not> is_digit (last p)"
  shows "name_key cs (p @ x) = name_key cs p @ name_key cs x"
  using assms
proof (induction p rule: length_induct)
  case (1 p)
  show ?case
  proof (cases p)
    case p: (Cons c q)
    show ?thesis
    proof (cases "is_digit c")
      case False
      then show ?thesis using 1 p by (auto simp: name_key_char split: if_splits)
    next
      case True
      define sig where "sig = dropWhile (\<lambda>c. c = CHR ''0'') p"
      have l: "last p \<in> set p" "\<not> is_digit (last p)" using 1(2) p by auto
      then have "last p \<noteq> CHR ''0''" by (auto simp: is_digit_def)
      then have d: "dropWhile (\<lambda>c. c = CHR ''0'') (p @ x) = sig @ x"
        unfolding sig_def by (rule dropWhile_append1 [OF l(1)])
      have "sig \<noteq> []"
        unfolding sig_def dropWhile_eq_Nil_conv using l(1) \<open>last p \<noteq> CHR ''0''\<close> by blast
      moreover have "p = takeWhile (\<lambda>c. c = CHR ''0'') p @ sig" by (simp add: sig_def)
      ultimately have s: "sig \<noteq> []" "last sig = last p" by (auto, metis last_appendR)
      then have "\<exists>y \<in> set sig. \<not> is_digit y" using l by (metis last_in_set)
      then have t: "takeWhile is_digit (sig @ x) = takeWhile is_digit sig"
        and "dropWhile is_digit sig \<noteq> []"
        by (auto simp: takeWhile_append1)
      moreover have "length sig = length (takeWhile is_digit sig) + length (dropWhile is_digit sig)"
        by (metis length_append takeWhile_dropWhile_id)
      ultimately have "length (takeWhile is_digit sig) < length sig" by auto
      define r where "r = drop (length (takeWhile is_digit sig)) sig"
      have r: "r \<noteq> []" "\<not> is_digit (last r)"
        using \<open>length (takeWhile is_digit sig) < length sig\<close> s l by (auto simp: r_def)
      have "length r < length p"
      proof -
        have "length sig \<le> length p" by (simp add: sig_def length_dropWhile_le)
        moreover have "length sig < length p \<or> takeWhile is_digit sig \<noteq> []"
          using p True by (auto simp: sig_def length_dropWhile_le less_Suc_eq_le)
        moreover have "takeWhile is_digit sig \<noteq> [] \<Longrightarrow> 0 < length (takeWhile is_digit sig)" by simp
        moreover have "length r = length sig - length (takeWhile is_digit sig)" by (simp add: r_def)
        ultimately show ?thesis using \<open>length (takeWhile is_digit sig) < length sig\<close> by linarith
      qed
      then have "name_key cs (r @ x) = name_key cs r @ name_key cs x" using 1(1) r by blast
      moreover have "drop (length (takeWhile is_digit sig)) (sig @ x) = r @ x"
        using \<open>length (takeWhile is_digit sig) < length sig\<close> by (simp add: r_def)
      moreover have "p @ x = c # (q @ x)" using p by simp
      then have "name_key cs (p @ x) =
          (48, length (takeWhile is_digit sig), takeWhile is_digit sig, length (p @ x) - length (sig @ x)) #
            name_key cs (drop (length (takeWhile is_digit sig)) (sig @ x))"
        using name_key_run [of "p @ x" c "q @ x" cs] True d t by simp
      ultimately show ?thesis
        using name_key_run [OF p True, of cs, folded sig_def] by (simp add: r_def)
    qed
  qed simp
qed

lemma append_less_append: "xs @ ys < xs @ zs \<longleftrightarrow> ys < zs" for xs :: "'a::linorder list"
  by (induction xs) auto

text \<open>A digit run counts as its number, whatever leading zeros it is written with.\<close>

lemma natural_less_numbers:
  assumes "p = [] \<or> \<not> is_digit (last p)"
    and u: "u \<noteq> []" "list_all is_digit u" "s = [] \<or> \<not> is_digit (hd s)"
    and v: "v \<noteq> []" "list_all is_digit v" "t = [] \<or> \<not> is_digit (hd t)"
    and less: "dec_value u < dec_value v"
  shows "natural_less cs (p @ u @ s) (p @ v @ t)"
proof -
  let ?strip = "dropWhile (\<lambda>c. c = CHR ''0'')"
  have key: "\<exists>z rest. name_key cs (w @ r) = (48, length (?strip w), ?strip w, z) # rest"
    if w: "w \<noteq> []" "list_all is_digit w" "r = [] \<or> \<not> is_digit (hd r)" for w r
  proof -
    obtain c q where c: "w = c # q" "is_digit c" using w by (cases w) auto
    have "?strip (w @ r) = ?strip w @ r"
    proof (cases "?strip w = []")
      case True
      then have "?strip (w @ r) = ?strip r"
        by (simp only: dropWhile_eq_Nil_conv) (simp add: dropWhile_append2)
      also have "\<dots> = r" using w(3) by (cases r) (auto simp: is_digit_def)
      finally show ?thesis using True by simp
    next
      case False
      then obtain x where "x \<in> set w" "x \<noteq> CHR ''0''" by (auto simp: dropWhile_eq_Nil_conv)
      then show ?thesis by (rule dropWhile_append1)
    qed
    moreover have "list_all is_digit (?strip w)"
      using w(2) by (auto simp: list_all_iff dest: set_dropWhileD)
    then have "takeWhile is_digit (?strip w @ r) = ?strip w"
      using w(3) by (cases r) (auto simp: takeWhile_append2 list_all_iff)
    ultimately show ?thesis
      using name_key_run [of "w @ r" c "q @ r" cs] c by simp
  qed
  have "length (?strip u) < length (?strip v) \<or>
      length (?strip u) = length (?strip v) \<and> ?strip u < ?strip v"
  proof (rule stripped_order)
    show "list_all is_digit (?strip u)" "list_all is_digit (?strip v)"
      using u(2) v(2) by (auto simp: list_all_iff dest: set_dropWhileD)
    show "?strip u = [] \<or> hd (?strip u) \<noteq> CHR ''0''" "?strip v = [] \<or> hd (?strip v) \<noteq> CHR ''0''"
      using hd_dropWhile [of "\<lambda>c. c = CHR ''0''"] by blast+
    show "dec_value (?strip u) < dec_value (?strip v)"
      using less by (simp add: dec_value_strip)
  qed
  moreover obtain zu ru zv rv where
    "name_key cs (u @ s) = (48, length (?strip u), ?strip u, zu) # ru"
    "name_key cs (v @ t) = (48, length (?strip v), ?strip v, zv) # rv"
    using key [OF u] key [OF v] by blast
  ultimately have "name_key cs (u @ s) < name_key cs (v @ t)" by auto
  then show ?thesis
    unfolding natural_less_key name_key_append [OF assms(1)] by (simp only: append_less_append)
qed

text \<open>
  The natural order is a strict total order on names, whichever sign a plain \<open>char\<close> has, and it
  compares digit runs behind a common beginning as the numbers they denote.
\<close>

theorem natural_order_correct:
  assumes "p = [] \<or> \<not> is_digit (last p)"
    and "u \<noteq> []" "list_all is_digit u" "s = [] \<or> \<not> is_digit (hd s)"
    and "v \<noteq> []" "list_all is_digit v" "t = [] \<or> \<not> is_digit (hd t)"
    and "dec_value u < dec_value v"
  shows "strict_weak_order (natural_less cs) \<and>
    (natural_less cs x y \<or> x = y \<or> natural_less cs y x) \<and>
    natural_less cs (p @ u @ s) (p @ v @ t)"
  using natural.strict_weak_order_axioms natural_less_linear natural_less_numbers [OF assms] by blast

theorem natural_order_correct_witness:
  "strict_weak_order (natural_less True) \<and>
   (natural_less True ''a'' ''b'' \<or> ''a'' = ''b'' \<or> natural_less True ''b'' ''a'') \<and>
   natural_less True (''lp'' @ ''9'' @ ''x'') (''lp'' @ ''010'' @ [])"
  by (rule natural_order_correct) (simp_all add: is_digit_def dec_value_def)

section \<open>Integers and text\<close>

text \<open>
  \<open>std::from_chars(first, last, value, base)\<close> for an unsigned type of \<open>w\<close> bits and the bases ten and
  sixteen: the longest run of digits is converted; no digit and a value out of range are errors.
\<close>

definition base_digit :: "nat \<Rightarrow> char \<Rightarrow> bool" where
  "base_digit base c \<longleftrightarrow> 0 \<le> hex_value c \<and> hex_value c < int base"

definition base_value :: "nat \<Rightarrow> string \<Rightarrow> nat" where
  "base_value base s = foldl (\<lambda>v c. v * base + nat (hex_value c)) 0 s"

definition from_chars_base :: "nat \<Rightarrow> nat \<Rightarrow> string \<Rightarrow> (nat \<times> string) option" where
  "from_chars_base w base s =
     (let ds = takeWhile (base_digit base) s in
      if ds = [] \<or> base_value base ds \<ge> 2 ^ w then None
      else Some (base_value base ds, drop (length ds) s))"

definition parse_int :: "nat \<Rightarrow> nat \<Rightarrow> string \<Rightarrow> nat option" where
  "parse_int w base input =
     (let t = trim_whitespace input;
          t = (if base = 16 \<and> length t \<ge> 2 \<and> t ! 0 = CHR ''0'' \<and> (t ! 1 = CHR ''x'' \<or> t ! 1 = CHR ''X'')
               then drop 2 t else t)
      in
      if t = [] then None
      else case from_chars_base w base t of
             None \<Rightarrow> None
           | Some (v, rest) \<Rightarrow> (if rest = [] then Some v else None))"

definition printer_validate_utf8 :: "string \<Rightarrow> string result" where
  "printer_validate_utf8 s =
     (if \<not> is_valid_utf8 s then fail errc.invalid_encoding else Value s)"

text \<open>The digits of a number in base ten or sixteen, as the platform writes them.\<close>

fun base_string :: "nat \<Rightarrow> nat \<Rightarrow> string" where
  "base_string base n =
     (let d = (\<lambda>k. char_of (if k < 10 then 48 + k else 87 + k)) in
      if n < base \<or> base < 2 then [d n] else base_string base (n div base) @ [d (n mod base)])"

declare base_string.simps [simp del]

lemma base_digit_char:
  assumes "k < base" "base \<le> 16"
  defines "c \<equiv> char_of (if k < 10 then 48 + k else 87 + k)"
  shows "base_digit base c \<and> nat (hex_value c) = k"
proof -
  have "uchar c = (if k < 10 then 48 + k else 87 + k)"
    using assms by (simp add: c_def)
  then show ?thesis using assms(1,2) by (auto simp: base_digit_def hex_value_def)
qed

lemma base_value_snoc [simp]: "base_value base (s @ [c]) = base_value base s * base + nat (hex_value c)"
  by (simp add: base_value_def)

lemma base_string_props:
  assumes "2 \<le> base" "base \<le> 16"
  shows "base_string base n \<noteq> [] \<and> list_all (base_digit base) (base_string base n) \<and>
    base_value base (base_string base n) = n"
  using assms
proof (induction base n rule: base_string.induct)
  case (1 base n)
  show ?case
  proof (cases "n < base")
    case True
    then show ?thesis
      using base_digit_char [OF True "1.prems"(2)]
      by (subst (1 2 3) base_string.simps) (simp add: base_value_def Let_def)
  next
    case False
    then have "n mod base < base" using "1.prems" by simp
    then show ?thesis
      using 1 False base_digit_char [of "n mod base" base]
      by (subst (1 2 3) base_string.simps) (simp add: Let_def)
  qed
qed

lemma trim_whitespace_id:
  "s = [] \<or> \<not> printer_space (hd s) \<and> \<not> printer_space (last s) \<Longrightarrow> trim_whitespace s = s"
  by (cases s) (auto simp: trim_whitespace_def trim_back_id)

text \<open>A text that trimming leaves alone.\<close>

definition trimmed :: "string \<Rightarrow> bool" where
  "trimmed s \<longleftrightarrow> s = [] \<or> \<not> printer_space (hd s) \<and> \<not> printer_space (last s)"

lemma trim_whitespace_trimmed: "trimmed s \<Longrightarrow> trim_whitespace s = s"
  by (rule trim_whitespace_id) (simp add: trimmed_def)

lemma base_digit_not_space: "base_digit base c \<Longrightarrow> \<not> printer_space c"
  by (auto simp: base_digit_def hex_value_def printer_space_def split: if_splits)

lemma trim_base_digits: "list_all (base_digit base) s \<Longrightarrow> trim_whitespace s = s"
  by (rule trim_whitespace_id) (auto simp: list_all_iff dest: base_digit_not_space)

lemma base_string_Cons: "base_string 16 n = CHR ''0'' # c # s \<Longrightarrow> base_digit 16 c"
  using base_string_props [of 16 n] by auto

lemma parse_int_string:
  assumes "base = 10 \<or> base = 16" "n < 2 ^ w"
  shows "parse_int w base (base_string base n) = Some n"
proof -
  let ?s = "base_string base n"
  have p: "?s \<noteq> [] \<and> list_all (base_digit base) ?s \<and> base_value base ?s = n"
    using assms base_string_props by auto
  then have f: "from_chars_base w base ?s = Some (n, [])"
    using assms by (simp add: from_chars_base_def Let_def takeWhile_all)
  have "\<not> (base = 16 \<and> length ?s \<ge> 2 \<and> ?s ! 0 = CHR ''0'' \<and> (?s ! 1 = CHR ''x'' \<or> ?s ! 1 = CHR ''X''))"
  proof
    assume "base = 16 \<and> length ?s \<ge> 2 \<and> ?s ! 0 = CHR ''0'' \<and> (?s ! 1 = CHR ''x'' \<or> ?s ! 1 = CHR ''X'')"
    then have x: "base = 16" "2 \<le> length ?s" "?s ! 1 = CHR ''x'' \<or> ?s ! 1 = CHR ''X''" by blast+
    then have "?s ! 1 \<in> set ?s" by (intro nth_mem) simp
    then have "base_digit 16 (?s ! 1)" using p x(1) by (simp add: list_all_iff)
    then show False using x(3) by (auto simp: base_digit_def hex_value_def)
  qed
  note q = if_not_P [OF this]
  have t: "trim_whitespace ?s = ?s" using p trim_base_digits by blast
  show ?thesis
    unfolding parse_int_def t Let_def q using p f by simp
qed

end
