(* ===== verification/Printer_Http.thy ===== *)
theory Printer_Http
  imports Printer_Text
begin

text \<open>
  \<open>parse_http_ipp_response\<close> of \<open>detail/printer/common.hpp\<close>: an HTTP/1.1 response, with interim messages,
  header fields and either transfer framing, is unwrapped to the IPP payload it carries.

  The response is the list of its bytes, held as characters as the code's \<open>view\<close> does. An offset into
  it is modelled by the part of the response that begins there, so the loops recur on what is left;
  \<open>std::size_t\<close> has 64 bits.
\<close>

section \<open>Model\<close>

text \<open>\<open>find_crlf\<close> together with the view of the line before it and the offset behind it.\<close>

fun find_crlf :: "string \<Rightarrow> (string \<times> string) option" where
  "find_crlf (a # b # t) =
     (if a = carriage_return \<and> b = newline then Some ([], t)
      else map_option (\<lambda>(line, rest). (a # line, rest)) (find_crlf (b # t)))"
| "find_crlf _ = None"

lemma find_crlf_shorter: "find_crlf s = Some (line, rest) \<Longrightarrow> length rest < length s"
  by (induction s arbitrary: line rule: find_crlf.induct) (auto split: if_splits)

definition parse_status :: "string \<Rightarrow> nat result" where
  "parse_status status_line =
     (if \<not> starts_with_ignore_case status_line ''HTTP/'' \<or> length status_line < 12
        then fail errc.malformed_data
      else case find_from CHR '' '' status_line 0 of
          None \<Rightarrow> fail errc.malformed_data
        | Some first_space \<Rightarrow>
            if first_space + 4 > length status_line \<or>
               (first_space + 4 < length status_line \<and> status_line ! (first_space + 4) \<noteq> CHR '' '')
              then fail errc.malformed_data
            else (case parse_int 32 10 (substr status_line (first_space + 1) 3) of
                    None \<Rightarrow> fail errc.malformed_data
                  | Some status \<Rightarrow>
                      if status < 100 \<or> status > 599 then fail errc.malformed_data
                      else Value status))"

text \<open>The header fields; the answer is the framing they announce and what follows the blank line.\<close>

function http_headers :: "string \<Rightarrow> bool \<Rightarrow> nat option \<Rightarrow> (bool \<times> nat option \<times> string) result" where
  "http_headers s chunked content_length =
     (case find_crlf s of
        None \<Rightarrow> fail errc.malformed_data
      | Some (line, rest) \<Rightarrow>
          if line = [] then Value (chunked, content_length, rest)
          else (case find_from CHR '':'' line 0 of
              None \<Rightarrow> fail errc.malformed_data
            | Some colon \<Rightarrow>
                (let name = trim_whitespace (substr line 0 colon);
                     val = trim_whitespace (drop (colon + 1) line)
                 in
                 if name = [] then fail errc.malformed_data
                 else if equals_ignore_case name ''Content-Length'' then
                   (case parse_int 64 10 val of
                      None \<Rightarrow> fail errc.malformed_data
                    | Some parsed \<Rightarrow>
                        if content_length \<noteq> None \<and> content_length \<noteq> Some parsed
                          then fail errc.malformed_data
                        else http_headers rest chunked (Some parsed))
                 else if equals_ignore_case name ''Transfer-Encoding'' then
                   (if \<not> equals_ignore_case val ''chunked'' then fail errc.not_supported
                    else http_headers rest True content_length)
                 else http_headers rest chunked content_length)))"
  by pat_completeness auto
termination
  by (relation "measure (\<lambda>(s, c, n). length s)") (auto dest: find_crlf_shorter)

declare http_headers.simps [simp del]

text \<open>The fields behind the last chunk; they end the response.\<close>

function http_trailers :: "string \<Rightarrow> string result" where
  "http_trailers s =
     (case find_crlf s of
        None \<Rightarrow> fail errc.malformed_data
      | Some (trailer, rest) \<Rightarrow>
          if trailer = [] then Value rest
          else if find_from CHR '':'' trailer 0 = None then fail errc.malformed_data
          else http_trailers rest)"
  by pat_completeness auto
termination
  by (relation "measure length") (auto dest: find_crlf_shorter)

declare http_trailers.simps [simp del]

definition chunk_size_of :: "string \<Rightarrow> nat option" where
  "chunk_size_of line =
     (let size_text = trim_whitespace line;
          size_text = (case find_from CHR '';'' size_text 0 of
                         None \<Rightarrow> size_text
                       | Some extension \<Rightarrow> trim_whitespace (substr size_text 0 extension))
      in parse_int 64 16 size_text)"

function http_chunks :: "string \<Rightarrow> string \<Rightarrow> string result" where
  "http_chunks s decoded =
     (case find_crlf s of
        None \<Rightarrow> fail errc.malformed_data
      | Some (line, rest) \<Rightarrow>
          (case chunk_size_of line of
             None \<Rightarrow> fail errc.malformed_data
           | Some chunk_size \<Rightarrow>
               if chunk_size = 0 then
                 and_then (http_trailers rest) (\<lambda>over.
                   if over \<noteq> [] then fail errc.malformed_data else Value decoded)
               else if chunk_size > length rest \<or> length rest - chunk_size < 2
                 then fail errc.malformed_data
               else (let over = drop chunk_size rest in
                     if over ! 0 \<noteq> carriage_return \<or> over ! 1 \<noteq> newline
                       then fail errc.malformed_data
                     else http_chunks (drop 2 over) (decoded @ take chunk_size rest))))"
  by pat_completeness auto
termination
  by (relation "measure (\<lambda>(s, d). length s)") (auto dest: find_crlf_shorter)

declare http_chunks.simps [simp del]

definition status_error :: "nat \<Rightarrow> errc option" where
  "status_error status =
     (if status = 401 \<or> status = 403 then Some errc.permission_denied
      else if status = 404 then Some errc.not_found
      else if status = 501 then Some errc.not_supported
      else if status = 408 \<or> status = 429 \<or> status = 503 then Some errc.temporarily_unavailable
      else if status < 200 \<or> status \<ge> 300 then Some errc.io_error
      else None)"

definition http_body :: "bool \<Rightarrow> nat option \<Rightarrow> string \<Rightarrow> string result" where
  "http_body chunked content_length rest =
     (if \<not> chunked then
        (if content_length \<noteq> None \<and> content_length \<noteq> Some (length rest) then fail errc.malformed_data
         else Value rest)
      else if content_length \<noteq> None then fail errc.malformed_data
      else http_chunks rest [])"

text \<open>A status line and its header fields.\<close>

definition http_head :: "string \<Rightarrow> (nat \<times> bool \<times> nat option \<times> string) result" where
  "http_head s =
     (case find_crlf s of
        None \<Rightarrow> fail errc.malformed_data
      | Some (status_line, after) \<Rightarrow>
          and_then (parse_status status_line) (\<lambda>status.
          and_then (http_headers after False None) (\<lambda>(chunked, content_length, rest).
            Value (status, chunked, content_length, rest))))"

lemma http_headers_shorter:
  "http_headers s c n = Value (c', n', rest) \<Longrightarrow> length rest < length s"
proof (induction s c n rule: http_headers.induct)
  case (1 s c n)
  from 1(4) obtain line r where f: "find_crlf s = Some (line, r)"
    by (subst (asm) http_headers.simps) (auto split: option.splits)
  have sh: "length r < length s" using find_crlf_shorter [OF f] .
  show ?case
  proof (cases "line = []")
    case True
    then show ?thesis using 1(4) f sh by (subst (asm) http_headers.simps) auto
  next
    case False
    then obtain colon where colon: "find_from CHR '':'' line 0 = Some colon"
      using 1(4) f by (subst (asm) http_headers.simps) (auto split: option.splits)
    show ?thesis
      using 1(4) 1(1,2,3) [OF f refl False colon refl refl] f False colon sh
      by (subst (asm) http_headers.simps)
        (fastforce simp: Let_def split: if_splits option.splits)
  qed
qed

lemma http_head_shorter: "http_head s = Value (st, c, n, rest) \<Longrightarrow> length rest < length s"
  using http_headers_shorter find_crlf_shorter
  by (fastforce simp: http_head_def and_then_Value_iff split: option.splits prod.splits)

function http_message :: "string \<Rightarrow> string result" where
  "http_message s =
     (case http_head s of
        Unexpected e \<Rightarrow> Unexpected e
      | Value (status, chunked, content_length, rest) \<Rightarrow>
          if 100 \<le> status \<and> status < 200 then
            (if chunked \<or> (content_length \<noteq> None \<and> content_length \<noteq> Some 0)
               then fail errc.malformed_data
             else if rest = [] then fail errc.malformed_data
             else http_message rest)
          else (case status_error status of
                  Some e \<Rightarrow> fail e
                | None \<Rightarrow> http_body chunked content_length rest))"
  by pat_completeness auto
termination
  by (relation "measure length") (auto dest: http_head_shorter)

declare http_message.simps [simp del]

definition parse_http_ipp_response :: "string \<Rightarrow> string result" where
  "parse_http_ipp_response response = http_message response"

end
