(* ===== verification/Printer.thy ===== *)
theory Printer
  imports Printer_Http
begin

text \<open>
  The printer records (\<open>printer.hpp\<close>) and the portable parsers of \<open>detail/printer/common.hpp\<close>: the
  classification of a queue, the choice of the default, the IPP messages exchanged with the print
  daemon and the queue configuration file of CUPS. A buffer of bytes is a \<^typ>\<open>string\<close>, an offset into
  it is the part that begins there.
\<close>

unbundle bit_operations_syntax

section \<open>Records\<close>

datatype printer_state = unknown | idle | processing | stopped

datatype printer_type = unknown | local_printer | network | virtual_printer

record printer_capabilities =
  pc_color :: "bool option"
  pc_duplex :: "bool option"
  pc_copies :: "bool option"
  pc_collate :: "bool option"
  pc_supported_media :: "string list"
  pc_supported_resolutions :: "string list"
  pc_max_copies :: "u32 option"

record printer_info =
  pi_id :: string
  pi_name :: string
  pi_driver_name :: string
  pi_location :: string
  pi_description :: string
  pi_uri :: string
  pi_type :: printer_type
  pi_state :: printer_state
  pi_is_default :: "bool option"
  pi_is_shared :: "bool option"
  pi_is_accepting_jobs :: "bool option"
  pi_queued_job_count :: "u32 option"
  pi_capabilities :: printer_capabilities

text \<open>\<open>printer_info{}\<close>.\<close>

definition no_capabilities :: printer_capabilities where
  "no_capabilities =
     \<lparr>pc_color = None, pc_duplex = None, pc_copies = None, pc_collate = None,
      pc_supported_media = [], pc_supported_resolutions = [], pc_max_copies = None\<rparr>"

definition new_printer :: printer_info where
  "new_printer =
     \<lparr>pi_id = [], pi_name = [], pi_driver_name = [], pi_location = [], pi_description = [],
      pi_uri = [], pi_type = printer_type.unknown, pi_state = printer_state.unknown,
      pi_is_default = None, pi_is_shared = None, pi_is_accepting_jobs = None,
      pi_queued_job_count = None, pi_capabilities = no_capabilities\<rparr>"

section \<open>Classification and default\<close>

definition classify_printer_type :: "string \<Rightarrow> string \<Rightarrow> string \<Rightarrow> printer_type" where
  "classify_printer_type uri name driver =
     (let starts = starts_with_ignore_case uri in
      if starts ''cups-pdf:'' \<or> starts ''cups-pdf://'' \<or> starts ''pdf:'' \<or> starts ''file:'' \<or>
         starts ''PORTPROMPT:'' \<or> starts ''nul:'' \<or>
         contains_ignore_case name ''PDF'' \<or> contains_ignore_case name ''XPS'' \<or>
         contains_ignore_case name ''Fax'' \<or> contains_ignore_case name ''Document Writer'' \<or>
         contains_ignore_case driver ''PDF'' \<or> contains_ignore_case driver ''XPS'' \<or>
         contains_ignore_case driver ''Fax''
        then printer_type.virtual_printer
      else if starts ''ipp://'' \<or> starts ''ipps://'' \<or> starts ''socket://'' \<or> starts ''lpd://'' \<or>
         starts ''smb://'' \<or> starts ''dnssd://'' \<or> starts ''mdns://'' \<or> starts ''http://'' \<or>
         starts ''https://'' \<or> starts ''wsd://'' \<or> starts ''IP_'' \<or> starts ''WSD-''
        then printer_type.network
      else if starts ''usb://'' \<or> starts ''parallel://'' \<or> starts ''/dev/usb/lp'' \<or>
         starts ''/dev/lp'' \<or> starts ''USB'' \<or> starts ''LPT'' \<or> starts ''COM''
        then printer_type.local_printer
      else printer_type.unknown)"

definition map_ipp_printer_state :: "32 word \<Rightarrow> printer_state" where
  "map_ipp_printer_state state =
     (if state = 3 then printer_state.idle
      else if state = 4 then printer_state.processing
      else if state = 5 then printer_state.stopped
      else printer_state.unknown)"

definition set_default_by_name :: "printer_info list \<Rightarrow> string \<Rightarrow> printer_info list" where
  "set_default_by_name printers name =
     map (\<lambda>item. item\<lparr>pi_is_default := Some (pi_id item = name \<or> pi_name item = name)\<rparr>) printers"

definition marked_default_printer :: "printer_info list \<Rightarrow> printer_info result" where
  "marked_default_printer printers =
     (case find (\<lambda>item. pi_is_default item = Some True) printers of
        Some item \<Rightarrow> Value item
      | None \<Rightarrow> fail errc.not_found)"

definition resolve_snapshot_default ::
    "printer_info list \<Rightarrow> bool \<Rightarrow> error_code option \<Rightarrow> printer_info result" where
  "resolve_snapshot_default printers default_known default_error =
     (if printers = [] then fail errc.not_found
      else case marked_default_printer printers of
          Value item \<Rightarrow> Value item
        | Unexpected _ \<Rightarrow>
            (case default_error of
               Some e \<Rightarrow> Unexpected e
             | None \<Rightarrow> if \<not> default_known then fail errc.not_supported else fail errc.not_found))"

section \<open>IPP requests\<close>

definition OP_CUPS_GET_DEFAULT :: u16 where "OP_CUPS_GET_DEFAULT = 0x4001"
definition OP_CUPS_GET_PRINTERS :: u16 where "OP_CUPS_GET_PRINTERS = 0x4002"

definition TAG_OPERATION_ATTRIBUTES :: u8 where "TAG_OPERATION_ATTRIBUTES = 0x01"
definition TAG_JOB_ATTRIBUTES :: u8 where "TAG_JOB_ATTRIBUTES = 0x02"
definition TAG_END_OF_ATTRIBUTES :: u8 where "TAG_END_OF_ATTRIBUTES = 0x03"
definition TAG_PRINTER_ATTRIBUTES :: u8 where "TAG_PRINTER_ATTRIBUTES = 0x04"
definition TAG_UNSUPPORTED_ATTRIBUTES :: u8 where "TAG_UNSUPPORTED_ATTRIBUTES = 0x05"
definition TAG_KEYWORD :: u8 where "TAG_KEYWORD = 0x44"
definition TAG_CHARSET :: u8 where "TAG_CHARSET = 0x47"
definition TAG_NATURALLANGUAGE :: u8 where "TAG_NATURALLANGUAGE = 0x48"

definition append_uint16 :: "string \<Rightarrow> u16 \<Rightarrow> string" where
  "append_uint16 buf val = buf @ [to_char (drop_bit 8 val AND 0xFF), to_char (val AND 0xFF)]"

definition append_uint32 :: "string \<Rightarrow> u32 \<Rightarrow> string" where
  "append_uint32 buf val =
     buf @ [to_char (drop_bit 24 val AND 0xFF), to_char (drop_bit 16 val AND 0xFF),
            to_char (drop_bit 8 val AND 0xFF), to_char (val AND 0xFF)]"

definition append_string_attr :: "string \<Rightarrow> u8 \<Rightarrow> string \<Rightarrow> string \<Rightarrow> string" where
  "append_string_attr buf tag name val =
     append_uint16 (append_uint16 (buf @ [to_char tag]) (of_nat (length name)) @ name)
       (of_nat (length val)) @ val"

definition requested_attributes :: "string list" where
  "requested_attributes =
     [''printer-name'', ''printer-info'', ''printer-location'', ''printer-make-and-model'',
      ''device-uri'', ''printer-state'', ''printer-is-accepting-jobs'', ''printer-is-shared'',
      ''queued-job-count'', ''color-supported'', ''printer-type'', ''media-supported'',
      ''printer-resolution-supported'', ''copies-supported'', ''sides-supported'']"

definition append_requested_attributes :: "string \<Rightarrow> string" where
  "append_requested_attributes req =
     fst (foldl (\<lambda>(req, first) attribute.
            (append_string_attr req TAG_KEYWORD (if first then ''requested-attributes'' else []) attribute,
             False)) (req, True) requested_attributes)"

text \<open>The two request builders differ in the operation they ask for.\<close>

definition ipp_request :: "u16 \<Rightarrow> u32 \<Rightarrow> string" where
  "ipp_request operation request_id =
     (let req = append_uint32 (append_uint16 [CHR 0x02, CHR 0x00] operation) request_id @
                  [to_char TAG_OPERATION_ATTRIBUTES];
          req = append_string_attr req TAG_CHARSET ''attributes-charset'' ''utf-8'';
          req = append_string_attr req TAG_NATURALLANGUAGE ''attributes-natural-language'' ''en''
      in append_requested_attributes req @ [to_char TAG_END_OF_ATTRIBUTES])"

definition build_get_printers_request :: "u32 \<Rightarrow> string" where
  "build_get_printers_request request_id = ipp_request OP_CUPS_GET_PRINTERS request_id"

definition build_get_default_request :: "u32 \<Rightarrow> string" where
  "build_get_default_request request_id = ipp_request OP_CUPS_GET_DEFAULT request_id"

section \<open>IPP responses\<close>

definition read_uint16 :: "string \<Rightarrow> nat \<Rightarrow> u16 option" where
  "read_uint16 data offset =
     (if offset + 2 > length data then None
      else Some (ucast (push_bit 8 (byte32 (data ! offset)) OR byte32 (data ! (offset + 1)))))"

definition read_uint32 :: "string \<Rightarrow> nat \<Rightarrow> u32 option" where
  "read_uint32 data offset =
     (if offset + 4 > length data then None
      else Some (push_bit 24 (byte32 (data ! offset)) OR push_bit 16 (byte32 (data ! (offset + 1))) OR
                 push_bit 8 (byte32 (data ! (offset + 2))) OR byte32 (data ! (offset + 3))))"

text \<open>One attribute value of the queue that is being read.\<close>

definition with_capabilities ::
    "(printer_capabilities \<Rightarrow> printer_capabilities) \<Rightarrow> printer_info \<Rightarrow> printer_info" where
  "with_capabilities f p = p\<lparr>pi_capabilities := f (pi_capabilities p)\<rparr>"

definition ipp_text :: "string \<Rightarrow> (string \<Rightarrow> printer_info) \<Rightarrow> printer_info result" where
  "ipp_text val store = and_then (printer_validate_utf8 val) (\<lambda>s. Value (store s))"

definition ipp_boolean :: "string \<Rightarrow> (bool \<Rightarrow> printer_info) \<Rightarrow> printer_info result" where
  "ipp_boolean val store =
     (if length val \<noteq> 1 \<or> uchar (val ! 0) > 1 then fail errc.malformed_data
      else Value (store (uchar (val ! 0) \<noteq> 0)))"

definition ipp_integer :: "string \<Rightarrow> (u32 \<Rightarrow> printer_info) \<Rightarrow> printer_info result" where
  "ipp_integer val store =
     (if length val \<noteq> 4 then fail errc.malformed_data
      else case read_uint32 val 0 of
          None \<Rightarrow> fail errc.malformed_data
        | Some ival \<Rightarrow>
            if ival > 0x7FFFFFFF then fail errc.malformed_data else Value (store ival))"

definition apply_type_flags :: "u32 \<Rightarrow> printer_info \<Rightarrow> printer_info" where
  "apply_type_flags flags p =
     (let p = (if flags AND 0x0004 \<noteq> 0 then with_capabilities (\<lambda>c. c\<lparr>pc_color := Some True\<rparr>) p else p);
          p = (if flags AND 0x0008 \<noteq> 0 then with_capabilities (\<lambda>c. c\<lparr>pc_duplex := Some True\<rparr>) p else p);
          p = (if flags AND 0x0020 \<noteq> 0 then with_capabilities (\<lambda>c. c\<lparr>pc_copies := Some True\<rparr>) p else p);
          p = (if flags AND 0x0040 \<noteq> 0 then with_capabilities (\<lambda>c. c\<lparr>pc_collate := Some True\<rparr>) p else p)
      in
      if flags AND 0x0080 \<noteq> 0 \<or> flags AND 0x20000 \<noteq> 0 then p\<lparr>pi_type := printer_type.virtual_printer\<rparr>
      else if flags AND 0x0002 \<noteq> 0 then p\<lparr>pi_type := printer_type.network\<rparr>
      else p)"

definition ipp_type_flags :: "string \<Rightarrow> printer_info \<Rightarrow> printer_info result" where
  "ipp_type_flags val p =
     (if length val \<noteq> 4 then fail errc.malformed_data
      else case read_uint32 val 0 of
          None \<Rightarrow> fail errc.malformed_data
        | Some flags \<Rightarrow> Value (apply_type_flags flags p))"

definition ipp_resolution :: "string \<Rightarrow> printer_info \<Rightarrow> printer_info result" where
  "ipp_resolution val p =
     (if length val \<noteq> 9 then fail errc.malformed_data
      else (let units = uchar (val ! 8) in
            case (read_uint32 val 0, read_uint32 val 4) of
              (Some xres, Some yres) \<Rightarrow>
                if xres \<noteq> 0 \<and> yres \<noteq> 0 \<and> xres \<le> 0x7FFFFFFF \<and> yres \<le> 0x7FFFFFFF \<and>
                   (units = 3 \<or> units = 4)
                then Value (with_capabilities (\<lambda>c. c\<lparr>pc_supported_resolutions :=
                       pc_supported_resolutions c @
                         [dec_string (unat xres) @ ''x'' @ dec_string (unat yres) @
                          (if units = 4 then '' dpcm'' else '' dpi'')]\<rparr>) p)
                else fail errc.malformed_data
            | _ \<Rightarrow> fail errc.malformed_data))"

definition store_copies :: "u32 \<Rightarrow> printer_info \<Rightarrow> printer_info" where
  "store_copies n p = with_capabilities (\<lambda>c. c\<lparr>pc_max_copies := Some n, pc_copies := Some True\<rparr>) p"

definition ipp_copies :: "string \<Rightarrow> printer_info \<Rightarrow> printer_info result" where
  "ipp_copies val p =
     (if length val = 4 then
        (case read_uint32 val 0 of
           Some max_c \<Rightarrow>
             if max_c \<noteq> 0 \<and> max_c \<le> 0x7FFFFFFF then Value (store_copies max_c p)
             else fail errc.malformed_data
         | None \<Rightarrow> fail errc.malformed_data)
      else if length val = 8 then
        (case (read_uint32 val 0, read_uint32 val 4) of
           (Some min_c, Some max_c) \<Rightarrow>
             if min_c \<noteq> 0 \<and> min_c \<le> max_c \<and> max_c \<le> 0x7FFFFFFF
             then Value (store_copies max_c p) else fail errc.malformed_data
         | _ \<Rightarrow> fail errc.malformed_data)
      else fail errc.malformed_data)"

definition contains_text :: "string \<Rightarrow> string \<Rightarrow> bool" where
  "contains_text s part \<longleftrightarrow>
     list_ex (\<lambda>i. substr s i (length part) = part) [0..<length s + 1 - length part]"

definition decode_attribute :: "string \<Rightarrow> string \<Rightarrow> printer_info \<Rightarrow> printer_info result" where
  "decode_attribute attr_name val p =
     (if attr_name = ''printer-name'' then
        ipp_text val (\<lambda>s. if s \<noteq> [] then p\<lparr>pi_id := s, pi_name := s\<rparr> else p)
      else if attr_name = ''printer-info'' then ipp_text val (\<lambda>s. p\<lparr>pi_description := s\<rparr>)
      else if attr_name = ''printer-location'' then ipp_text val (\<lambda>s. p\<lparr>pi_location := s\<rparr>)
      else if attr_name = ''printer-make-and-model'' then ipp_text val (\<lambda>s. p\<lparr>pi_driver_name := s\<rparr>)
      else if attr_name = ''device-uri'' then ipp_text val (\<lambda>s. p\<lparr>pi_uri := s\<rparr>)
      else if attr_name = ''printer-state'' then
        ipp_integer val (\<lambda>i. p\<lparr>pi_state := map_ipp_printer_state i\<rparr>)
      else if attr_name = ''printer-is-accepting-jobs'' then
        ipp_boolean val (\<lambda>b. p\<lparr>pi_is_accepting_jobs := Some b\<rparr>)
      else if attr_name = ''printer-is-shared'' then
        ipp_boolean val (\<lambda>b. p\<lparr>pi_is_shared := Some b\<rparr>)
      else if attr_name = ''queued-job-count'' then
        ipp_integer val (\<lambda>i. p\<lparr>pi_queued_job_count := Some i\<rparr>)
      else if attr_name = ''color-supported'' then
        ipp_boolean val (\<lambda>b. with_capabilities (\<lambda>c. c\<lparr>pc_color := Some b\<rparr>) p)
      else if attr_name = ''printer-type'' then ipp_type_flags val p
      else if attr_name = ''media-supported'' then
        ipp_text val (\<lambda>s. if s \<noteq> [] then with_capabilities
          (\<lambda>c. c\<lparr>pc_supported_media := pc_supported_media c @ [s]\<rparr>) p else p)
      else if attr_name = ''printer-resolution-supported'' then ipp_resolution val p
      else if attr_name = ''copies-supported'' then ipp_copies val p
      else if attr_name = ''sides-supported'' then
        ipp_text val (\<lambda>s. if contains_text s ''two-sided'' then with_capabilities
          (\<lambda>c. c\<lparr>pc_duplex := Some True\<rparr>) p else p)
      else Value p)"

text \<open>The variables of the parsing loop.\<close>

record ipp_state =
  is_printers :: "printer_info list"
  is_current :: printer_info
  is_in_group :: bool
  is_has_attributes :: bool
  is_attr_name :: string

definition completed_printer :: "printer_info \<Rightarrow> printer_info" where
  "completed_printer p =
     (let p = (if pi_id p = [] then p\<lparr>pi_id := pi_name p\<rparr> else p);
          p = (if pi_name p = [] then p\<lparr>pi_name := pi_id p\<rparr> else p)
      in if pi_type p = printer_type.unknown
         then p\<lparr>pi_type := classify_printer_type (pi_uri p) (pi_name p) (pi_driver_name p)\<rparr> else p)"

text \<open>\<open>finish_current_printer\<close>; \<open>false\<close> is \<^const>\<open>None\<close>.\<close>

definition finish_current_printer :: "ipp_state \<Rightarrow> ipp_state option" where
  "finish_current_printer st =
     (let p = is_current st in
      if is_has_attributes st \<and> pi_id p = [] \<and> pi_name p = [] then None
      else Some (st\<lparr>is_printers := is_printers st @
                       (if pi_id p \<noteq> [] \<or> pi_name p \<noteq> [] then [completed_printer p] else []),
                    is_current := new_printer, is_has_attributes := False\<rparr>))"

definition ipp_delimiter :: "u8 \<Rightarrow> ipp_state \<Rightarrow> ipp_state result" where
  "ipp_delimiter tag st =
     (if tag = TAG_PRINTER_ATTRIBUTES then
        (if is_in_group st then
           (case finish_current_printer st of
              None \<Rightarrow> fail errc.malformed_data
            | Some st \<Rightarrow> Value (st\<lparr>is_in_group := True\<rparr>))
         else Value (st\<lparr>is_in_group := True\<rparr>))
      else if tag = TAG_OPERATION_ATTRIBUTES \<or> tag = TAG_JOB_ATTRIBUTES \<or>
              tag = TAG_UNSUPPORTED_ATTRIBUTES then
        (if is_in_group st then
           (case finish_current_printer st of
              None \<Rightarrow> fail errc.malformed_data
            | Some st \<Rightarrow> Value (st\<lparr>is_in_group := False\<rparr>))
         else Value st)
      else fail errc.malformed_data)"

text \<open>A length-prefixed string and what follows it.\<close>

definition ipp_counted :: "string \<Rightarrow> (string \<times> string) result" where
  "ipp_counted rest =
     (case read_uint16 rest 0 of
        None \<Rightarrow> fail errc.malformed_data
      | Some n \<Rightarrow>
          (let rest = drop 2 rest in
           if unat n > length rest then fail errc.malformed_data
           else Value (take (unat n) rest, drop (unat n) rest)))"

definition ipp_attribute :: "string \<Rightarrow> ipp_state \<Rightarrow> (string \<times> ipp_state) result" where
  "ipp_attribute rest st =
     and_then (ipp_counted rest) (\<lambda>(name, rest).
       if name = [] \<and> is_attr_name st = [] then fail errc.malformed_data
       else (let attr = (if name \<noteq> [] then name else is_attr_name st); st = st\<lparr>is_attr_name := attr\<rparr> in
         and_then (ipp_counted rest) (\<lambda>(val, rest).
           if \<not> is_in_group st then Value (rest, st)
           else and_then (decode_attribute attr val (is_current st)) (\<lambda>p.
                  Value (rest, st\<lparr>is_has_attributes := True, is_current := p\<rparr>)))))"

lemma ipp_counted_shorter: "ipp_counted rest = Value (s, rest') \<Longrightarrow> length rest' < length rest"
  by (auto simp: ipp_counted_def read_uint16_def Let_def split: option.splits if_splits)

lemma ipp_attribute_shorter: "ipp_attribute rest st = Value (rest', st') \<Longrightarrow> length rest' < length rest"
  by (fastforce simp: ipp_attribute_def and_then_Value_iff Let_def split: if_splits prod.splits
      dest: ipp_counted_shorter)

text \<open>The loop; it ends with whether the end tag was seen and with what follows it.\<close>

function ipp_loop :: "string \<Rightarrow> ipp_state \<Rightarrow> (bool \<times> string \<times> ipp_state) result" where
  "ipp_loop data st =
     (case data of
        [] \<Rightarrow> Value (False, [], st)
      | t # rest \<Rightarrow>
          (let tag = of_nat (uchar t) :: u8 in
           if tag = TAG_END_OF_ATTRIBUTES then Value (True, rest, st)
           else if tag \<le> 0x0F then
             (case ipp_delimiter tag st of
                Unexpected e \<Rightarrow> Unexpected e
              | Value st \<Rightarrow> ipp_loop rest (st\<lparr>is_attr_name := []\<rparr>))
           else (case ipp_attribute rest st of
                   Unexpected e \<Rightarrow> Unexpected e
                 | Value (rest, st) \<Rightarrow> ipp_loop rest st)))"
  by pat_completeness auto
termination
  by (relation "measure (\<lambda>(data, st). length data)") (auto dest: ipp_attribute_shorter)

declare ipp_loop.simps [simp del]

definition ipp_status_error :: "u16 \<Rightarrow> errc" where
  "ipp_status_error code =
     (if code = 0x0401 \<or> code = 0x0402 \<or> code = 0x0403 then errc.permission_denied
      else if code = 0x0406 then errc.not_found
      else if code = 0x0405 \<or> code = 0x0502 \<or> code = 0x0507 then errc.temporarily_unavailable
      else errc.io_error)"

definition initial_ipp_state :: ipp_state where
  "initial_ipp_state =
     \<lparr>is_printers = [], is_current = new_printer, is_in_group = False, is_has_attributes = False,
      is_attr_name = []\<rparr>"

definition parse_ipp_printers_response :: "string \<Rightarrow> printer_info list result" where
  "parse_ipp_printers_response data =
     (if length data < 8 then fail errc.malformed_data
      else if uchar (data ! 0) \<noteq> 1 \<and> uchar (data ! 0) \<noteq> 2 \<or> uchar (data ! 1) > 2
        then fail errc.malformed_data
      else case read_uint32 data 4 of
          None \<Rightarrow> fail errc.malformed_data
        | Some request_id \<Rightarrow>
            if request_id = 0 \<or> request_id > 0x7FFFFFFF then fail errc.malformed_data
            else (case read_uint16 data 2 of
                None \<Rightarrow> fail errc.malformed_data
              | Some status_code \<Rightarrow>
                  if status_code > 0x00FF then fail (ipp_status_error status_code)
                  else and_then (ipp_loop (drop 8 data) initial_ipp_state) (\<lambda>(saw_end, rest, st).
                    if \<not> saw_end \<or> rest \<noteq> [] then fail errc.malformed_data
                    else if is_in_group st then
                      (case finish_current_printer st of
                         None \<Rightarrow> fail errc.malformed_data
                       | Some st \<Rightarrow> Value (is_printers st))
                    else Value (is_printers st))))"

end
