(* ===== verification/Ipp_Correct.thy ===== *)
theory Ipp_Correct
  imports Printer
begin

text \<open>
  Correctness of the IPP code: a response whose groups and attributes are written down as RFC 8010 lays
  them out is read back as exactly the queues those attributes describe, the requests are such
  messages themselves, and whatever bytes arrive, a queue that is reported is named and its texts are
  UTF-8.
\<close>

unbundle bit_operations_syntax

section \<open>Rendering\<close>

definition u16_bytes :: "u16 \<Rightarrow> string" where
  "u16_bytes v = append_uint16 [] v"

definition u32_bytes :: "u32 \<Rightarrow> string" where
  "u32_bytes v = append_uint32 [] v"

definition counted :: "string \<Rightarrow> string" where
  "counted s = u16_bytes (of_nat (length s)) @ s"

text \<open>An attribute is a value tag, a name and its values; further values have an empty name.\<close>

type_synonym ipp_attr = "u8 \<times> string \<times> string list"

definition value_bytes :: "u8 \<Rightarrow> string \<Rightarrow> string \<Rightarrow> string" where
  "value_bytes tag name val = to_char tag # counted name @ counted val"

fun attr_bytes :: "ipp_attr \<Rightarrow> string" where
  "attr_bytes (tag, name, vals) =
     value_bytes tag name (hd vals) @ concat (map (value_bytes tag []) (tl vals))"

definition group_bytes :: "u8 \<times> ipp_attr list \<Rightarrow> string" where
  "group_bytes g = to_char (fst g) # concat (map attr_bytes (snd g))"

definition ipp_message :: "u8 \<Rightarrow> u8 \<Rightarrow> u16 \<Rightarrow> u32 \<Rightarrow> (u8 \<times> ipp_attr list) list \<Rightarrow> string" where
  "ipp_message major minor code request_id groups =
     [to_char major, to_char minor] @ u16_bytes code @ u32_bytes request_id @
     concat (map group_bytes groups) @ [to_char TAG_END_OF_ATTRIBUTES]"

fun attr_ok :: "ipp_attr \<Rightarrow> bool" where
  "attr_ok (tag, name, vals) \<longleftrightarrow>
     tag > 0x0F \<and> name \<noteq> [] \<and> length name < 65536 \<and> vals \<noteq> [] \<and> list_all (\<lambda>v. length v < 65536) vals"

definition group_ok :: "u8 \<times> ipp_attr list \<Rightarrow> bool" where
  "group_ok g \<longleftrightarrow>
     (fst g = TAG_OPERATION_ATTRIBUTES \<or> fst g = TAG_JOB_ATTRIBUTES \<or> fst g = TAG_PRINTER_ATTRIBUTES \<or>
      fst g = TAG_UNSUPPORTED_ATTRIBUTES) \<and> list_all attr_ok (snd g)"

section \<open>The queues a message describes\<close>

fun decode_all :: "(string \<times> string) list \<Rightarrow> printer_info \<Rightarrow> printer_info result" where
  "decode_all [] p = Value p"
| "decode_all ((name, val) # r) p = and_then (decode_attribute name val p) (decode_all r)"

fun attr_pairs :: "ipp_attr \<Rightarrow> (string \<times> string) list" where
  "attr_pairs (tag, name, vals) = map (Pair name) vals"

definition named :: "printer_info \<Rightarrow> bool" where
  "named p \<longleftrightarrow> pi_id p \<noteq> [] \<or> pi_name p \<noteq> []"

definition group_result :: "bool \<Rightarrow> printer_info \<Rightarrow> printer_info list result" where
  "group_result has_attributes p =
     (if named p then Value [completed_printer p]
      else if has_attributes then fail errc.malformed_data else Value [])"

definition group_printers :: "u8 \<times> ipp_attr list \<Rightarrow> printer_info list result" where
  "group_printers g =
     (if fst g = TAG_PRINTER_ATTRIBUTES
      then and_then (decode_all (concat (map attr_pairs (snd g))) new_printer) (group_result (snd g \<noteq> []))
      else Value [])"

fun message_printers :: "(u8 \<times> ipp_attr list) list \<Rightarrow> printer_info list result" where
  "message_printers [] = Value []"
| "message_printers (g # gs) =
     and_then (group_printers g) (\<lambda>ps. and_then (message_printers gs) (\<lambda>qs. Value (ps @ qs)))"

section \<open>Integers on the wire\<close>

lemma unat_byte_and: "uchar (to_char (w AND 0xFF)) = unat w mod 256"
  by (simp add: uchar_to_char unat_and_low)

lemma length_u16_bytes [simp]: "length (u16_bytes v) = 2"
  by (simp add: u16_bytes_def append_uint16_def)

lemma length_u32_bytes [simp]: "length (u32_bytes v) = 4"
  by (simp add: u32_bytes_def append_uint32_def)

lemma pair_value:
  "unat (push_bit 8 (byte32 a) OR byte32 b) = uchar a * 256 + uchar b"
proof -
  have "uchar a * 2 ^ 8 < 2 ^ LENGTH(32)"
    using uchar_less [of a] by (simp del: uchar_less)
  then show ?thesis
    using unat_shift_or [of "byte32 b" 8 "byte32 a"] by simp
qed

lemma read_u16_bytes [simp]: "read_uint16 (u16_bytes v @ s) 0 = Some v"
proof -
  let ?a = "to_char (drop_bit 8 v AND 0xFF)" and ?b = "to_char (v AND 0xFF)"
  have v: "unat v < 65536" using unsigned_less [of v] by simp
  have "uchar ?a * 256 + uchar ?b = unat v"
    using v by (simp add: unat_byte_and unat_drop_bit)
  then have "unat (ucast (push_bit 8 (byte32 ?a) OR byte32 ?b) :: u16) = unat v"
    using v by (simp add: unsigned_ucast_eq pair_value take_bit_nat_eq_self)
  then have "ucast (push_bit 8 (byte32 ?a) OR byte32 ?b) = v" by (rule unsigned_word_eqI)
  then show ?thesis
    by (simp add: read_uint16_def u16_bytes_def append_uint16_def)
qed

lemma drop_u16_bytes [simp]: "drop 2 (u16_bytes v @ s) = s"
  by simp

lemma read_u16_at: "read_uint16 (a # b # u16_bytes v @ s) 2 = Some v"
  using read_u16_bytes [of v s] by (simp add: read_uint16_def split: if_splits)

lemma quad_value:
  "unat (push_bit 24 (byte32 a) OR push_bit 16 (byte32 b) OR push_bit 8 (byte32 c) OR byte32 d) =
   ((uchar a * 256 + uchar b) * 256 + uchar c) * 256 + uchar d"
proof -
  note l = uchar_less [of a] uchar_less [of b] uchar_less [of c] uchar_less [of d]
  have eq: "push_bit 24 (byte32 a) OR push_bit 16 (byte32 b) OR push_bit 8 (byte32 c) OR byte32 d =
      push_bit 8 (push_bit 8 (push_bit 8 (byte32 a) OR byte32 b) OR byte32 c) OR byte32 d"
    by (simp add: push_bit_or or.assoc)
  have b: "unat (push_bit 8 (push_bit 8 (byte32 a) OR byte32 b) OR byte32 c) =
      (uchar a * 256 + uchar b) * 256 + uchar c"
    using l by (subst unat_shift_or) (simp_all add: pair_value del: uchar_less)
  show ?thesis
    unfolding eq using l b by (subst unat_shift_or) (simp_all del: uchar_less)
qed

lemma four_bytes:
  fixes n :: nat
  shows "((n div 16777216 * 256 + n div 65536 mod 256) * 256 + n div 256 mod 256) * 256 + n mod 256 = n"
proof -
  have "n div 65536 = n div 256 div 256" "n div 16777216 = n div 256 div 256 div 256"
    by (simp_all flip: div_mult2_eq)
  then show ?thesis by (simp only: div_mult_mod_eq)
qed

lemma read_u32_bytes: "read_uint32 (u32_bytes v @ s) 0 = Some v"
proof -
  let ?a = "to_char (drop_bit 24 v AND 0xFF)" and ?b = "to_char (drop_bit 16 v AND 0xFF)"
  let ?c = "to_char (drop_bit 8 v AND 0xFF)" and ?d = "to_char (v AND 0xFF)"
  have v: "unat v < 4294967296" using unsigned_less [of v] by simp
  have "((uchar ?a * 256 + uchar ?b) * 256 + uchar ?c) * 256 + uchar ?d =
      ((unat v div 16777216 * 256 + unat v div 65536 mod 256) * 256 + unat v div 256 mod 256) * 256 + unat v mod 256"
    using v by (simp add: unat_byte_and unat_drop_bit)
  also have "\<dots> = unat v" by (rule four_bytes)
  finally have "push_bit 24 (byte32 ?a) OR push_bit 16 (byte32 ?b) OR push_bit 8 (byte32 ?c) OR byte32 ?d = v"
    unfolding quad_value [symmetric] by (rule unsigned_word_eqI)
  then show ?thesis
    by (simp add: read_uint32_def u32_bytes_def append_uint32_def)
qed

lemma ipp_counted_bytes: "length s < 65536 \<Longrightarrow> ipp_counted (counted s @ r) = Value (s, r)"
  by (simp add: ipp_counted_def counted_def unat_of_nat take_bit_nat_eq_self)

lemma byte_value: "uchar (to_char (t :: u8)) = unat t"
proof -
  have "unat t < 256" using unsigned_less [of t] by simp
  then show ?thesis by (simp add: uchar_to_char)
qed

lemma tag_byte [simp]: "of_nat (uchar (to_char (t :: u8))) = t"
  by (simp add: byte_value)

section \<open>The loop on rendered groups\<close>

definition ipp_result :: "string \<Rightarrow> ipp_state \<Rightarrow> printer_info list result" where
  "ipp_result data st =
     and_then (ipp_loop data st) (\<lambda>(saw_end, rest, st).
       if \<not> saw_end \<or> rest \<noteq> [] then fail errc.malformed_data
       else if is_in_group st then
         (case finish_current_printer st of
            None \<Rightarrow> fail errc.malformed_data
          | Some st \<Rightarrow> Value (is_printers st))
       else Value (is_printers st))"

lemma parse_ipp_header:
  assumes "major = 1 \<or> major = 2" "minor \<le> 2" "code \<le> 0xFF" "0 < request_id" "request_id \<le> 0x7FFFFFFF"
  shows "parse_ipp_printers_response (ipp_message major minor code request_id groups) =
    ipp_result (concat (map group_bytes groups) @ [to_char TAG_END_OF_ATTRIBUTES]) initial_ipp_state"
proof -
  let ?tail = "concat (map group_bytes groups) @ [to_char TAG_END_OF_ATTRIBUTES]"
  let ?m = "ipp_message major minor code request_id groups"
  have m: "?m = to_char major # to_char minor # u16_bytes code @ u32_bytes request_id @ ?tail"
    by (simp add: ipp_message_def)
  have "read_uint32 ?m 4 = read_uint32 (u32_bytes request_id @ ?tail) 0"
    by (simp add: m read_uint32_def nth_append u16_bytes_def append_uint16_def numeral_2_eq_2)
  then have r: "read_uint32 ?m 4 = Some request_id" by (simp add: read_u32_bytes)
  have c: "read_uint16 ?m 2 = Some code" by (simp add: m read_u16_at)
  have d: "drop 8 ?m = ?tail" by (simp add: m)
  have v: "uchar (?m ! 0) = unat major" "uchar (?m ! 1) = unat minor"
    by (simp_all add: m byte_value)
  have "unat major = 1 \<or> unat major = 2" "unat minor \<le> 2"
    using assms(1,2) by (auto simp: word_le_nat_alt)
  moreover have "\<not> length ?m < 8" by (simp add: m)
  moreover have "\<not> code > 0xFF" "request_id \<noteq> 0" "\<not> request_id > 0x7FFFFFFF"
    using assms(3,4,5) by auto
  ultimately show ?thesis
    unfolding parse_ipp_printers_response_def r c d v option.case ipp_result_def by auto
qed

lemma ipp_result_value:
  assumes "tag > 0x0F" "length name < 65536" "length val < 65536" "name \<noteq> [] \<or> is_attr_name st \<noteq> []"
  defines "attr \<equiv> if name \<noteq> [] then name else is_attr_name st"
  shows "ipp_result (value_bytes tag name val @ r) st =
    (if \<not> is_in_group st then ipp_result r (st\<lparr>is_attr_name := attr\<rparr>)
     else and_then (decode_attribute attr val (is_current st)) (\<lambda>p.
       ipp_result r (st\<lparr>is_attr_name := attr, is_has_attributes := True, is_current := p\<rparr>)))"
proof -
  have t: "tag \<noteq> TAG_END_OF_ATTRIBUTES" "\<not> tag \<le> 0x0F"
    using assms(1) by (auto simp: TAG_END_OF_ATTRIBUTES_def word_less_nat_alt word_le_nat_alt)
  have "ipp_attribute (counted name @ counted val @ r) st =
      (if \<not> is_in_group st then Value (r, st\<lparr>is_attr_name := attr\<rparr>)
       else and_then (decode_attribute attr val (is_current st)) (\<lambda>p.
         Value (r, st\<lparr>is_attr_name := attr, is_has_attributes := True, is_current := p\<rparr>)))"
    using assms(2-4)
    by (cases "name = []") (simp_all add: ipp_attribute_def ipp_counted_bytes attr_def Let_def)
  then show ?thesis
    unfolding ipp_result_def value_bytes_def append_Cons append_assoc
    using t by (subst ipp_loop.simps) (cases "decode_attribute attr val (is_current st)"; simp add: Let_def)
qed

lemma ipp_result_values:
  assumes "tag > 0x0F" "list_all (\<lambda>v. length v < 65536) vals" "is_attr_name st \<noteq> []"
  shows "ipp_result (concat (map (value_bytes tag []) vals) @ r) st =
    (if \<not> is_in_group st then ipp_result r st
     else and_then (decode_all (map (Pair (is_attr_name st)) vals) (is_current st)) (\<lambda>p.
       ipp_result r (st\<lparr>is_has_attributes := (if vals = [] then is_has_attributes st else True), is_current := p\<rparr>)))"
  using assms(2,3)
proof (induction vals arbitrary: st)
  case (Cons v vals)
  note step = ipp_result_value [OF assms(1), of "[]" v st "concat (map (value_bytes tag []) vals) @ r"]
  show ?case
    using Cons step by (cases "decode_attribute (is_attr_name st) v (is_current st)") auto
qed simp

definition last_name :: "ipp_attr list \<Rightarrow> string \<Rightarrow> string" where
  "last_name as name = (if as = [] then name else fst (snd (last as)))"

lemma ipp_result_attrs:
  assumes "list_all attr_ok as"
  shows "ipp_result (concat (map attr_bytes as) @ r) st =
    (if \<not> is_in_group st then ipp_result r (st\<lparr>is_attr_name := last_name as (is_attr_name st)\<rparr>)
     else and_then (decode_all (concat (map attr_pairs as)) (is_current st)) (\<lambda>p.
       ipp_result r (st\<lparr>is_attr_name := last_name as (is_attr_name st),
         is_has_attributes := (if as = [] then is_has_attributes st else True), is_current := p\<rparr>)))"
  using assms
proof (induction as arbitrary: st)
  case (Cons a as)
  obtain tag name v vals where a: "a = (tag, name, v # vals)"
    using Cons.prems by (cases a rule: attr_pairs.cases; cases "snd (snd a)") auto
  have ok: "tag > 0x0F" "name \<noteq> []" "length name < 65536" "length v < 65536"
    "list_all (\<lambda>v. length v < 65536) vals" "list_all attr_ok as"
    using Cons.prems a by simp_all
  have split: "decode_all (xs @ ys) p = and_then (decode_all xs p) (decode_all ys)" for xs ys p
  proof (induction xs p rule: decode_all.induct)
    case (2 name val r p)
    then show ?case by (cases "decode_attribute name val p") simp_all
  qed simp
  let ?r = "concat (map attr_bytes as) @ r"
  note first = ipp_result_value [OF ok(1,3,4), of st "concat (map (value_bytes tag []) vals) @ ?r"]
  show ?case
  proof (cases "is_in_group st")
    case False
    then show ?thesis
      using first ok a Cons.IH [of "st\<lparr>is_attr_name := name\<rparr>"]
        ipp_result_values [OF ok(1,5), of "st\<lparr>is_attr_name := name\<rparr>" ?r]
      by (simp add: last_name_def)
  next
    case True
    show ?thesis
    proof (cases "decode_attribute name v (is_current st)")
      case (Unexpected e)
      then show ?thesis using True first ok a by simp
    next
      case (Value p)
      let ?st = "st\<lparr>is_attr_name := name, is_has_attributes := True, is_current := p\<rparr>"
      show ?thesis
      proof (cases "decode_all (map (Pair name) vals) p")
        case (Unexpected e)
        then show ?thesis
          using Value True first ok a ipp_result_values [OF ok(1,5), of ?st ?r] by (simp add: split)
      next
        case q: (Value q)
        then show ?thesis
          using Value True first ok a ipp_result_values [OF ok(1,5), of ?st ?r]
            Cons.IH [of "?st\<lparr>is_current := q\<rparr>"]
          by (simp add: split last_name_def)
      qed
    qed
  qed
qed (simp add: last_name_def)

lemma ipp_result_end:
  "ipp_result [to_char TAG_END_OF_ATTRIBUTES] st =
     (if is_in_group st
      then and_then (group_result (is_has_attributes st) (is_current st)) (\<lambda>ps. Value (is_printers st @ ps))
      else Value (is_printers st))"
  by (simp add: ipp_result_def ipp_loop.simps [of "[t]" for t] finish_current_printer_def group_result_def named_def Let_def)

lemma finish_result:
  "finish_current_printer st =
     (case group_result (is_has_attributes st) (is_current st) of
        Unexpected e \<Rightarrow> None
      | Value ps \<Rightarrow> Some (st\<lparr>is_printers := is_printers st @ ps, is_current := new_printer,
          is_has_attributes := False\<rparr>))"
  by (auto simp: finish_current_printer_def group_result_def named_def fail_def Let_def)

lemma group_result_error: "group_result h p = Unexpected e \<Longrightarrow> e = make_error_code errc.malformed_data"
  by (auto simp: group_result_def fail_def split: if_splits)

lemma ipp_delimiter_ok:
  assumes "group_ok (tag, as)"
  shows "ipp_delimiter tag st =
    (if is_in_group st
     then and_then (group_result (is_has_attributes st) (is_current st)) (\<lambda>ps.
       Value (st\<lparr>is_printers := is_printers st @ ps, is_current := new_printer,
         is_has_attributes := False, is_in_group := (tag = TAG_PRINTER_ATTRIBUTES)\<rparr>))
     else Value (st\<lparr>is_in_group := (tag = TAG_PRINTER_ATTRIBUTES)\<rparr>))"
  using assms
  by (cases "group_result (is_has_attributes st) (is_current st)"; cases "tag = TAG_PRINTER_ATTRIBUTES")
    (auto simp: ipp_delimiter_def finish_result group_ok_def fail_def dest: group_result_error)

lemma ipp_result_delimiter:
  assumes "group_ok (tag, as)"
  shows "ipp_result (to_char tag # r) st =
    (if is_in_group st
     then and_then (group_result (is_has_attributes st) (is_current st)) (\<lambda>ps.
       ipp_result r (st\<lparr>is_printers := is_printers st @ ps, is_current := new_printer,
         is_has_attributes := False, is_in_group := (tag = TAG_PRINTER_ATTRIBUTES), is_attr_name := []\<rparr>))
     else ipp_result r (st\<lparr>is_in_group := (tag = TAG_PRINTER_ATTRIBUTES), is_attr_name := []\<rparr>))"
proof -
  have t: "tag \<noteq> TAG_END_OF_ATTRIBUTES" "tag \<le> 0x0F"
    using assms by (auto simp: group_ok_def TAG_OPERATION_ATTRIBUTES_def TAG_JOB_ATTRIBUTES_def
        TAG_PRINTER_ATTRIBUTES_def TAG_UNSUPPORTED_ATTRIBUTES_def TAG_END_OF_ATTRIBUTES_def word_le_nat_alt)
  then have "ipp_loop (to_char tag # r) st =
      and_then (ipp_delimiter tag st) (\<lambda>st. ipp_loop r (st\<lparr>is_attr_name := []\<rparr>))"
    by (subst ipp_loop.simps) (cases "ipp_delimiter tag st"; simp add: Let_def)
  then show ?thesis
    unfolding ipp_result_def ipp_delimiter_ok [OF assms]
    by (cases "group_result (is_has_attributes st) (is_current st)") (simp_all add: and_then_assoc)
qed

definition outside :: "ipp_state \<Rightarrow> bool" where
  "outside st \<longleftrightarrow> is_in_group st \<or> is_current st = new_printer \<and> \<not> is_has_attributes st"

lemma ipp_result_groups:
  assumes "list_all group_ok groups" "outside st"
  shows "ipp_result (concat (map group_bytes groups) @ [to_char TAG_END_OF_ATTRIBUTES]) st =
    and_then (if is_in_group st then group_result (is_has_attributes st) (is_current st) else Value [])
      (\<lambda>ps. and_then (message_printers groups) (\<lambda>qs. Value (is_printers st @ ps @ qs)))"
  using assms
proof (induction groups arbitrary: st)
  case Nil
  then show ?case by (simp add: ipp_result_end)
next
  case (Cons g groups)
  obtain tag as where g: "g = (tag, as)" by (cases g)
  have ok: "group_ok (tag, as)" "list_all attr_ok as" "list_all group_ok groups"
    using Cons.prems(1) g by (simp_all, simp add: group_ok_def)
  let ?rest = "concat (map group_bytes groups) @ [to_char TAG_END_OF_ATTRIBUTES]"
  have inner: "ipp_result (concat (map attr_bytes as) @ ?rest) st' =
      and_then (message_printers (g # groups)) (\<lambda>qs. Value (is_printers st' @ qs))"
    if "is_in_group st' = (tag = TAG_PRINTER_ATTRIBUTES)" "is_current st' = new_printer"
      "\<not> is_has_attributes st'" for st'
  proof (cases "tag = TAG_PRINTER_ATTRIBUTES")
    case False
    then show ?thesis
      using that g Cons.IH [OF ok(3)]
      by (simp add: ipp_result_attrs [OF ok(2)] group_printers_def outside_def and_then_assoc)
  next
    case True
    then show ?thesis
      using that g Cons.IH [OF ok(3)]
      by (cases "decode_all (concat (map attr_pairs as)) new_printer")
        (simp_all add: ipp_result_attrs [OF ok(2)] group_printers_def outside_def and_then_assoc)
  qed
  have bytes: "concat (map group_bytes (g # groups)) @ [to_char TAG_END_OF_ATTRIBUTES] =
      to_char tag # (concat (map attr_bytes as) @ ?rest)"
    by (simp add: g group_bytes_def)
  show ?case
    unfolding bytes ipp_result_delimiter [OF ok(1)]
    using Cons.prems(2) inner
    by (cases "group_result (is_has_attributes st) (is_current st)") (auto simp: outside_def)
qed

text \<open>
  C10. A well-formed successful response yields exactly the queues its printer groups describe:
  attribute by attribute, in the order of the message, with the first error of a group or of an
  attribute value as the error of the whole.
\<close>

theorem ipp_response_refines:
  assumes "major = 1 \<or> major = 2" "minor \<le> 2" "code \<le> 0xFF" "0 < request_id" "request_id \<le> 0x7FFFFFFF"
    and "list_all group_ok groups"
  shows "parse_ipp_printers_response (ipp_message major minor code request_id groups) = message_printers groups"
proof -
  have "outside initial_ipp_state" by (simp add: outside_def initial_ipp_state_def)
  then show ?thesis
    using ipp_result_groups [OF assms(6)] parse_ipp_header [OF assms(1-5)]
    by (cases "message_printers groups") (simp_all add: initial_ipp_state_def)
qed

section \<open>Requests\<close>

definition request_groups :: "(u8 \<times> ipp_attr list) list" where
  "request_groups =
     [(TAG_OPERATION_ATTRIBUTES,
       [(TAG_CHARSET, ''attributes-charset'', [''utf-8'']),
        (TAG_NATURALLANGUAGE, ''attributes-natural-language'', [''en'']),
        (TAG_KEYWORD, ''requested-attributes'', requested_attributes)])]"

lemma append_string_attr_bytes: "append_string_attr buf tag name val = buf @ value_bytes tag name val"
  by (simp add: append_string_attr_def value_bytes_def counted_def u16_bytes_def append_uint16_def)

lemma append_requested_fold:
  "fst (foldl (\<lambda>(req, first) attribute.
      (append_string_attr req tag (if first then name else []) attribute, False)) (req, False) vals) =
   req @ concat (map (value_bytes tag []) vals)"
  by (induction vals arbitrary: req) (simp_all add: append_string_attr_bytes)

lemma ipp_request_message:
  "ipp_request operation request_id = ipp_message 2 0 operation request_id request_groups"
proof -
  have "append_requested_attributes req = req @ attr_bytes (TAG_KEYWORD, ''requested-attributes'', requested_attributes)" for req
    using append_requested_fold [of TAG_KEYWORD "''requested-attributes''"
        "append_string_attr req TAG_KEYWORD ''requested-attributes'' (hd requested_attributes)" "tl requested_attributes"]
    by (simp add: append_requested_attributes_def requested_attributes_def append_string_attr_bytes)
  moreover have "[CHR 0x02, CHR 0x00] = [to_char (2 :: u8), to_char (0 :: u8)]"
    by (simp add: to_char_def flip: uchar_eq_iff)
  ultimately show ?thesis
    by (simp add: ipp_request_def ipp_message_def request_groups_def group_bytes_def Let_def
        append_string_attr_bytes u16_bytes_def u32_bytes_def append_uint16_def append_uint32_def)
qed

text \<open>
  Both requests are well-formed IPP 2.0 messages: the layout of RFC 8010, one operation group, and
  in it exactly the charset, the language and the attributes the parser consumes, each length field
  holding the length of what follows it.
\<close>

theorem ipp_requests_wellformed:
  "build_get_printers_request request_id = ipp_message 2 0 0x4002 request_id request_groups \<and>
   build_get_default_request request_id = ipp_message 2 0 0x4001 request_id request_groups \<and>
   list_all group_ok request_groups"
  by (simp add: build_get_printers_request_def build_get_default_request_def ipp_request_message
      OP_CUPS_GET_PRINTERS_def OP_CUPS_GET_DEFAULT_def request_groups_def group_ok_def
      requested_attributes_def TAG_CHARSET_def TAG_NATURALLANGUAGE_def TAG_KEYWORD_def
      word_less_nat_alt)

section \<open>What any response may report\<close>

definition texts_valid :: "printer_info \<Rightarrow> bool" where
  "texts_valid p \<longleftrightarrow>
     list_all is_valid_utf8 [pi_id p, pi_name p, pi_driver_name p, pi_location p, pi_description p, pi_uri p] \<and>
     list_all is_valid_utf8 (pc_supported_media (pi_capabilities p))"

definition well_named :: "printer_info \<Rightarrow> bool" where
  "well_named p \<longleftrightarrow> pi_id p \<noteq> [] \<and> pi_name p \<noteq> []"

lemma ipp_text_valid:
  "ipp_text val store = Value q \<Longrightarrow> is_valid_utf8 val \<and> q = store val"
  by (auto simp: ipp_text_def printer_validate_utf8_def split: if_splits)

lemma valid_empty [simp]: "is_valid_utf8 []"
  by (simp add: is_valid_utf8_def valid_from.simps)

lemma new_printer_valid: "texts_valid new_printer"
  by (simp add: texts_valid_def new_printer_def no_capabilities_def)

lemma with_capabilities_valid:
  "pc_supported_media (f (pi_capabilities p)) = pc_supported_media (pi_capabilities p) \<Longrightarrow>
   texts_valid (with_capabilities f p) = texts_valid p"
  by (simp add: texts_valid_def with_capabilities_def)

lemma ipp_integer_valid: "ipp_integer val store = Value q \<Longrightarrow> \<exists>i. q = store i"
  by (auto simp: ipp_integer_def split: if_splits option.splits)

lemma ipp_boolean_valid: "ipp_boolean val store = Value q \<Longrightarrow> \<exists>b. q = store b"
  by (auto simp: ipp_boolean_def split: if_splits)

lemma apply_type_flags_valid: "texts_valid p \<Longrightarrow> texts_valid (apply_type_flags w p)"
  by (simp add: apply_type_flags_def texts_valid_def with_capabilities_def Let_def)

lemma ipp_rest_valid:
  "texts_valid p \<Longrightarrow> ipp_type_flags val p = Value q \<Longrightarrow> texts_valid q"
  "texts_valid p \<Longrightarrow> ipp_resolution val p = Value q \<Longrightarrow> texts_valid q"
  "texts_valid p \<Longrightarrow> ipp_copies val p = Value q \<Longrightarrow> texts_valid q"
  by (auto simp: ipp_type_flags_def ipp_resolution_def ipp_copies_def store_copies_def Let_def
      with_capabilities_valid apply_type_flags_valid split: if_splits option.splits)

lemma decode_attribute_valid:
  assumes "texts_valid p" "decode_attribute name val p = Value q"
  shows "texts_valid q"
  using assms(2) unfolding decode_attribute_def
  by (auto split: if_splits dest!: ipp_text_valid ipp_integer_valid ipp_boolean_valid
      dest: ipp_rest_valid [OF assms(1)])
    (use assms(1) in \<open>auto simp: texts_valid_def with_capabilities_def\<close>)

definition reported_ok :: "ipp_state \<Rightarrow> bool" where
  "reported_ok st \<longleftrightarrow>
     texts_valid (is_current st) \<and> list_all (\<lambda>p. texts_valid p \<and> well_named p) (is_printers st)"

lemma completed_printer_ok:
  "texts_valid p \<Longrightarrow> named p \<Longrightarrow> texts_valid (completed_printer p) \<and> well_named (completed_printer p)"
  by (auto simp: completed_printer_def named_def well_named_def texts_valid_def Let_def)

lemma finish_ok: "reported_ok st \<Longrightarrow> finish_current_printer st = Some st' \<Longrightarrow> reported_ok st'"
  using new_printer_valid
  by (auto simp: finish_result group_result_def reported_ok_def completed_printer_ok
      split: result.splits if_splits)

lemma delimiter_ok:
  assumes "reported_ok st" "ipp_delimiter tag st = Value st'"
  shows "reported_ok st'"
proof -
  obtain st1 where "st1 = st \<or> finish_current_printer st = Some st1"
    and "st' = st1 \<or> st' = st1\<lparr>is_in_group := True\<rparr> \<or> st' = st1\<lparr>is_in_group := False\<rparr>"
    using assms(2) unfolding ipp_delimiter_def by (auto split: if_split_asm option.split_asm)
  moreover from this(1) have "reported_ok st1" using assms(1) finish_ok by blast
  ultimately show ?thesis by (auto simp: reported_ok_def)
qed

lemma attribute_ok:
  assumes "reported_ok st" "ipp_attribute data st = Value (rest, st')"
  shows "reported_ok st'"
proof -
  obtain name r1 where c: "ipp_counted data = Value (name, r1)"
    using assms(2) by (cases "ipp_counted data") (auto simp: ipp_attribute_def)
  define attr where "attr = (if name \<noteq> [] then name else is_attr_name st)"
  have n: "\<not> (name = [] \<and> is_attr_name st = [])"
    using assms(2) c by (auto simp: ipp_attribute_def)
  obtain val r2 where v: "ipp_counted r1 = Value (val, r2)"
    using assms(2) c n by (cases "ipp_counted r1") (auto simp: ipp_attribute_def Let_def split: if_splits)
  have "(if \<not> is_in_group st then Value (r2, st\<lparr>is_attr_name := attr\<rparr>)
      else and_then (decode_attribute attr val (is_current st)) (\<lambda>p.
        Value (r2, st\<lparr>is_attr_name := attr, is_has_attributes := True, is_current := p\<rparr>))) = Value (rest, st')"
    using assms(2) c n v
    by (cases "name = []"; cases "is_in_group st") (simp_all add: ipp_attribute_def Let_def attr_def)
  then show ?thesis
    using assms(1) decode_attribute_valid
    by (cases "decode_attribute attr val (is_current st)") (auto simp: reported_ok_def split: if_splits)
qed

lemma ipp_loop_ok: "reported_ok st \<Longrightarrow> ipp_loop data st = Value (saw, rest, st') \<Longrightarrow> reported_ok st'"
proof (induction data st rule: ipp_loop.induct)
  case (1 data st)
  show ?case
  proof (cases data)
    case Nil
    then show ?thesis using 1(3,4) by (subst (asm) ipp_loop.simps) simp
  next
    case (Cons t r)
    define tag where "tag = (of_nat (uchar t) :: u8)"
    show ?thesis
    proof (cases "tag = TAG_END_OF_ATTRIBUTES")
      case True
      then show ?thesis using 1(3,4) Cons by (subst (asm) ipp_loop.simps) (simp add: tag_def)
    next
      case e: False
      show ?thesis
      proof (cases "tag \<le> 0x0F")
        case True
        then obtain st1 where d: "ipp_delimiter tag st = Value st1"
          and l: "ipp_loop r (st1\<lparr>is_attr_name := []\<rparr>) = Value (saw, rest, st')"
          using 1(4) Cons e by (subst (asm) ipp_loop.simps) (auto simp: tag_def Let_def split: result.splits)
        have "reported_ok (st1\<lparr>is_attr_name := []\<rparr>)"
          using delimiter_ok [OF 1(3) d] by (simp add: reported_ok_def)
        then show ?thesis
          using 1(1) [OF Cons tag_def e True d _ l] by simp
      next
        case False
        then obtain r1 st1 where d: "ipp_attribute r st = Value (r1, st1)"
          and l: "ipp_loop r1 st1 = Value (saw, rest, st')"
          using 1(4) Cons e by (subst (asm) ipp_loop.simps) (auto simp: tag_def Let_def split: result.splits)
        show ?thesis
          using 1(2) [OF Cons tag_def e False d refl attribute_ok [OF 1(3) d] l] .
      qed
    qed
  qed
qed

lemma parse_ipp_result:
  assumes "parse_ipp_printers_response data = Value printers"
  shows "ipp_result (drop 8 data) initial_ipp_state = Value printers"
proof -
  obtain i c where "read_uint32 data 4 = Some i" "read_uint16 data 2 = Some c"
    using assms by (cases "read_uint32 data 4"; cases "read_uint16 data 2")
      (simp_all add: parse_ipp_printers_response_def split: if_split_asm)
  then show ?thesis
    using assms unfolding ipp_result_def
    by (simp add: parse_ipp_printers_response_def split: if_split_asm)
qed

text \<open>
  C11. Whatever bytes a response consists of, every queue it is taken to report has an identifier and a
  name, and all its texts are valid UTF-8.
\<close>

theorem ipp_printers_wellformed:
  assumes "parse_ipp_printers_response data = Value printers"
  shows "list_all (\<lambda>p. texts_valid p \<and> well_named p) printers"
proof -
  have r: "ipp_result (drop 8 data) initial_ipp_state = Value printers"
    by (rule parse_ipp_result [OF assms])
  then obtain saw rest st where l: "ipp_loop (drop 8 data) initial_ipp_state = Value (saw, rest, st)"
    unfolding ipp_result_def and_then_Value_iff by auto
  have p: "printers = is_printers st \<or>
      (\<exists>st'. finish_current_printer st = Some st' \<and> printers = is_printers st')"
    using r unfolding ipp_result_def l by (auto split: if_split_asm option.split_asm)
  have "reported_ok initial_ipp_state"
    using new_printer_valid by (simp add: initial_ipp_state_def reported_ok_def)
  then have "reported_ok st" using ipp_loop_ok l by blast
  then have "\<exists>st'. reported_ok st' \<and> printers = is_printers st'" using p finish_ok by blast
  then show ?thesis unfolding reported_ok_def by blast
qed

section \<open>Instances\<close>

definition example_groups :: "(u8 \<times> ipp_attr list) list" where
  "example_groups =
     [(TAG_OPERATION_ATTRIBUTES, [(TAG_CHARSET, ''attributes-charset'', [''utf-8''])]),
      (TAG_PRINTER_ATTRIBUTES, [(0x42, ''printer-name'', [''lab'']), (0x23, ''printer-state'', [u32_bytes 3])])]"

lemma example_groups_ok: "list_all group_ok example_groups"
  by (simp add: example_groups_def group_ok_def TAG_CHARSET_def word_less_nat_alt u32_bytes_def append_uint32_def)

lemma example_groups_printers:
  "message_printers example_groups =
     Value [completed_printer (new_printer\<lparr>pi_id := ''lab'', pi_name := ''lab'', pi_state := printer_state.idle\<rparr>)]"
proof -
  have "is_valid_utf8 ''lab''" by code_simp
  moreover have "read_uint32 (u32_bytes 3) 0 = Some 3" using read_u32_bytes [of 3 "[]"] by simp
  ultimately show ?thesis
    by (simp add: example_groups_def group_printers_def TAG_PRINTER_ATTRIBUTES_def TAG_OPERATION_ATTRIBUTES_def
        decode_attribute_def ipp_text_def printer_validate_utf8_def ipp_integer_def map_ipp_printer_state_def
        group_result_def named_def)
qed

theorem ipp_response_refines_witness:
  "parse_ipp_printers_response (ipp_message 2 0 0 1 example_groups) =
   Value [completed_printer (new_printer\<lparr>pi_id := ''lab'', pi_name := ''lab'', pi_state := printer_state.idle\<rparr>)]"
  using ipp_response_refines [of 2 0 0 1 example_groups] example_groups_ok example_groups_printers by simp

theorem ipp_printers_wellformed_witness:
  "list_all (\<lambda>p. texts_valid p \<and> well_named p)
     [completed_printer (new_printer\<lparr>pi_id := ''lab'', pi_name := ''lab'', pi_state := printer_state.idle\<rparr>)]"
proof (rule ipp_printers_wellformed)
  have "ipp_result (concat (map group_bytes example_groups) @ [to_char TAG_END_OF_ATTRIBUTES]) initial_ipp_state =
      message_printers example_groups"
    using ipp_result_groups [OF example_groups_ok, of initial_ipp_state]
    by (cases "message_printers example_groups") (simp_all add: initial_ipp_state_def outside_def)
  then show "parse_ipp_printers_response (ipp_message 2 0 0 1 example_groups) =
    Value [completed_printer (new_printer\<lparr>pi_id := ''lab'', pi_name := ''lab'', pi_state := printer_state.idle\<rparr>)]"
    using parse_ipp_header [of 2 0 0 1 example_groups] example_groups_printers by simp
qed

end
