(* ===== verification/Printer_Conf.thy ===== *)
theory Printer_Conf
  imports Ipp_Correct
begin

text \<open>
  \<open>parse_cups_printers_conf\<close> of \<open>detail/printer/common.hpp\<close>, the parser of the queue configuration that
  the print daemon keeps, and its correctness: it reads a rendered list of queues back, and whatever
  text it accepts, every queue is named, at most one is the default and all texts are UTF-8.
\<close>

section \<open>Model\<close>

record conf_state =
  cs_printers :: "printer_info list"
  cs_current :: printer_info
  cs_in_printer :: bool
  cs_current_is_default :: bool
  cs_saw_default :: bool

text \<open>An opening line \<open><Printer name>\<close> or \<open><DefaultPrinter name>\<close>.\<close>

definition conf_open :: "string \<Rightarrow> conf_state \<Rightarrow> conf_state result" where
  "conf_open line st =
     (if cs_in_printer st then fail errc.malformed_data
      else
        (let is_def = starts_with_ignore_case line ''<DefaultPrinter '';
             tag_len = (if is_def then 16 else 9)
         in
         case find_from CHR ''>'' line tag_len of
           None \<Rightarrow> fail errc.malformed_data
         | Some close_bracket \<Rightarrow>
             if trim_whitespace (drop (close_bracket + 1) line) \<noteq> [] then fail errc.malformed_data
             else and_then (printer_validate_utf8
                      (trim_whitespace (substr line tag_len (close_bracket - tag_len)))) (\<lambda>name.
               if name = [] \<or> is_def \<and> cs_saw_default st then fail errc.malformed_data
               else Value (st\<lparr>cs_current := new_printer\<lparr>pi_id := name, pi_name := name,
                                 pi_is_default := Some is_def\<rparr>,
                              cs_current_is_default := is_def,
                              cs_saw_default := (cs_saw_default st \<or> is_def),
                              cs_in_printer := True\<rparr>))))"

definition conf_close :: "string \<Rightarrow> conf_state \<Rightarrow> conf_state result" where
  "conf_close line st =
     (let closes_default = starts_with_ignore_case line ''</DefaultPrinter>'' in
      if \<not> cs_in_printer st \<or> closes_default \<noteq> cs_current_is_default st \<or>
         trim_whitespace (drop (if closes_default then 17 else 10) line) \<noteq> []
        then fail errc.malformed_data
      else
        (let p = cs_current st;
             p = p\<lparr>pi_type := classify_printer_type (pi_uri p) (pi_name p) (pi_driver_name p)\<rparr>
         in Value (st\<lparr>cs_current := p, cs_printers := cs_printers st @ [p], cs_in_printer := False\<rparr>)))"

definition conf_flag :: "string \<Rightarrow> (bool \<Rightarrow> printer_info) \<Rightarrow> printer_info result" where
  "conf_flag val store =
     (if equals_ignore_case val ''Yes'' \<or> equals_ignore_case val ''True'' \<or> val = ''1''
        then Value (store True)
      else if equals_ignore_case val ''No'' \<or> equals_ignore_case val ''False'' \<or> val = ''0''
        then Value (store False)
      else fail errc.malformed_data)"

definition conf_setting :: "string \<Rightarrow> string \<Rightarrow> printer_info \<Rightarrow> printer_info result" where
  "conf_setting key val p =
     (if equals_ignore_case key ''Info'' then
        and_then (printer_validate_utf8 val) (\<lambda>s. Value (p\<lparr>pi_description := s\<rparr>))
      else if equals_ignore_case key ''Location'' then
        and_then (printer_validate_utf8 val) (\<lambda>s. Value (p\<lparr>pi_location := s\<rparr>))
      else if equals_ignore_case key ''MakeModel'' then
        and_then (printer_validate_utf8 val) (\<lambda>s. Value (p\<lparr>pi_driver_name := s\<rparr>))
      else if equals_ignore_case key ''DeviceURI'' then
        and_then (printer_validate_utf8 val) (\<lambda>s. Value (p\<lparr>pi_uri := s\<rparr>))
      else if equals_ignore_case key ''State'' then
        (if equals_ignore_case val ''Idle'' then Value (p\<lparr>pi_state := printer_state.idle\<rparr>)
         else if equals_ignore_case val ''Processing'' then Value (p\<lparr>pi_state := printer_state.processing\<rparr>)
         else if equals_ignore_case val ''Stopped'' then Value (p\<lparr>pi_state := printer_state.stopped\<rparr>)
         else fail errc.malformed_data)
      else if equals_ignore_case key ''Accepting'' then
        conf_flag val (\<lambda>b. p\<lparr>pi_is_accepting_jobs := Some b\<rparr>)
      else if equals_ignore_case key ''Shared'' then conf_flag val (\<lambda>b. p\<lparr>pi_is_shared := Some b\<rparr>)
      else Value p)"

definition conf_line :: "string \<Rightarrow> conf_state \<Rightarrow> conf_state result" where
  "conf_line raw st =
     (let line = trim_whitespace raw in
      if line = [] \<or> line ! 0 = CHR ''#'' then Value st
      else if starts_with_ignore_case line ''<Printer '' \<or>
              starts_with_ignore_case line ''<DefaultPrinter '' then conf_open line st
      else if starts_with_ignore_case line ''</Printer>'' \<or>
              starts_with_ignore_case line ''</DefaultPrinter>'' then conf_close line st
      else if \<not> cs_in_printer st then Value st
      else (case find_from CHR '' '' line 0 of
              None \<Rightarrow> Value st
            | Some space_pos \<Rightarrow>
                and_then (conf_setting (trim_whitespace (substr line 0 space_pos))
                   (trim_whitespace (drop (space_pos + 1) line)) (cs_current st)) (\<lambda>p.
                  Value (st\<lparr>cs_current := p\<rparr>))))"

fun conf_lines :: "string list \<Rightarrow> conf_state \<Rightarrow> conf_state result" where
  "conf_lines [] st = Value st"
| "conf_lines (line # r) st = and_then (conf_line line st) (conf_lines r)"

definition initial_conf_state :: conf_state where
  "initial_conf_state =
     \<lparr>cs_printers = [], cs_current = new_printer, cs_in_printer = False,
      cs_current_is_default = False, cs_saw_default = False\<rparr>"

definition parse_cups_printers_conf :: "string \<Rightarrow> printer_info list result" where
  "parse_cups_printers_conf content =
     and_then (conf_lines (lines_of content) initial_conf_state) (\<lambda>st.
       if cs_in_printer st then fail errc.malformed_data else Value (cs_printers st))"

section \<open>What any configuration yields\<close>

definition defaults :: "printer_info list \<Rightarrow> nat" where
  "defaults ps = length (filter (\<lambda>p. pi_is_default p = Some True) ps)"

definition conf_printer_ok :: "printer_info \<Rightarrow> bool" where
  "conf_printer_ok p \<longleftrightarrow> texts_valid p \<and> well_named p \<and> pi_is_default p \<noteq> None"

definition conf_ok :: "conf_state \<Rightarrow> bool" where
  "conf_ok st \<longleftrightarrow>
     list_all conf_printer_ok (cs_printers st) \<and>
     defaults (cs_printers st) + (if cs_in_printer st \<and> cs_current_is_default st then 1 else 0)
       \<le> (if cs_saw_default st then 1 else 0) \<and>
     (\<not> cs_in_printer st \<or> conf_printer_ok (cs_current st) \<and>
        pi_is_default (cs_current st) = Some (cs_current_is_default st))"

lemma validated_text: "printer_validate_utf8 v = Value s \<longleftrightarrow> is_valid_utf8 v \<and> s = v"
  by (auto simp: printer_validate_utf8_def)

lemma conf_open_ok:
  assumes "conf_ok st" "conf_open line st = Value st'"
  shows "conf_ok st'"
proof -
  define is_def where "is_def = starts_with_ignore_case line ''<DefaultPrinter ''"
  define tag_len :: nat where "tag_len = (if is_def then 16 else 9)"
  note open' = assms(2) [unfolded conf_open_def Let_def, folded is_def_def, folded tag_len_def]
  obtain c where c: "find_from CHR ''>'' line tag_len = Some c"
    using open' by (cases "find_from CHR ''>'' line tag_len") (simp_all split: if_split_asm)
  define name where "name = trim_whitespace (substr line tag_len (c - tag_len))"
  have name: "is_valid_utf8 name \<and> name \<noteq> [] \<and> \<not> (is_def \<and> cs_saw_default st) \<and> \<not> cs_in_printer st \<and>
      st' = st\<lparr>cs_current := new_printer\<lparr>pi_id := name, pi_name := name, pi_is_default := Some is_def\<rparr>,
      cs_current_is_default := is_def, cs_saw_default := (cs_saw_default st \<or> is_def), cs_in_printer := True\<rparr>"
    using open' unfolding c option.case name_def [symmetric]
    by (auto simp: and_then_Value_iff validated_text split: if_split_asm)
  have "conf_printer_ok (new_printer\<lparr>pi_id := name, pi_name := name, pi_is_default := Some is_def\<rparr>)"
    using name new_printer_valid by (simp add: conf_printer_ok_def texts_valid_def well_named_def)
  then show ?thesis
    using assms(1) name by (cases "cs_saw_default st"; cases is_def) (simp_all add: conf_ok_def)
qed

lemma conf_close_ok:
  assumes "conf_ok st" "conf_close line st = Value st'"
  shows "conf_ok st'"
proof -
  let ?p = "cs_current st"
  let ?q = "?p\<lparr>pi_type := classify_printer_type (pi_uri ?p) (pi_name ?p) (pi_driver_name ?p)\<rparr>"
  have "cs_in_printer st"
    and st': "st' = st\<lparr>cs_current := ?q, cs_printers := cs_printers st @ [?q], cs_in_printer := False\<rparr>"
    using assms(2) by (auto simp: conf_close_def Let_def split: if_split_asm)
  moreover have "conf_printer_ok ?q \<longleftrightarrow> conf_printer_ok ?p"
    by (simp add: conf_printer_ok_def texts_valid_def well_named_def)
  ultimately show ?thesis
    using assms(1) by (auto simp: conf_ok_def defaults_def split: if_splits)
qed

lemma conf_setting_ok:
  assumes "conf_printer_ok p" "conf_setting key val p = Value q"
  shows "conf_printer_ok q \<and> pi_is_default q = pi_is_default p"
  using assms(2) unfolding conf_setting_def conf_flag_def
  by (auto simp: and_then_Value_iff validated_text split: if_split_asm)
    (use assms(1) in \<open>auto simp: conf_printer_ok_def texts_valid_def well_named_def\<close>)

lemma conf_line_ok:
  assumes "conf_ok st" "conf_line line st = Value st'"
  shows "conf_ok st'"
proof -
  define l where "l = trim_whitespace line"
  note step = assms(2) [unfolded conf_line_def Let_def, folded l_def]
  show ?thesis
  proof (cases "l = [] \<or> l ! 0 = CHR ''#''")
    case True
    then show ?thesis using step assms(1) by simp
  next
    case a: False
    show ?thesis
    proof (cases "starts_with_ignore_case l ''<Printer '' \<or> starts_with_ignore_case l ''<DefaultPrinter ''")
      case True
      then have "conf_open l st = Value st'" using step a by (simp only: if_False if_True)
      then show ?thesis using assms(1) conf_open_ok by blast
    next
      case b: False
      show ?thesis
      proof (cases "starts_with_ignore_case l ''</Printer>'' \<or> starts_with_ignore_case l ''</DefaultPrinter>''")
        case True
        then have "conf_close l st = Value st'" using step a b by (simp only: if_False if_True)
        then show ?thesis using assms(1) conf_close_ok by blast
      next
        case False
        note inner = step [unfolded if_not_P [OF a] if_not_P [OF b] if_not_P [OF False]]
        show ?thesis
          using inner assms(1) conf_setting_ok
          by (auto simp: conf_ok_def and_then_Value_iff split: if_split_asm option.split_asm)
      qed
    qed
  qed
qed

lemma conf_lines_ok: "conf_ok st \<Longrightarrow> conf_lines ls st = Value st' \<Longrightarrow> conf_ok st'"
  by (induction ls st rule: conf_lines.induct) (auto simp: and_then_Value_iff dest: conf_line_ok)

text \<open>
  Whatever configuration is accepted, every queue has a name and an identifier, all its texts are
  valid UTF-8, its default flag is known, and at most one queue is the default.
\<close>

theorem cups_conf_wellformed:
  assumes "parse_cups_printers_conf content = Value printers"
  shows "list_all conf_printer_ok printers \<and> defaults printers \<le> 1"
proof -
  obtain st where st: "conf_lines (lines_of content) initial_conf_state = Value st"
      "\<not> cs_in_printer st" "printers = cs_printers st"
    using assms by (auto simp: parse_cups_printers_conf_def and_then_Value_iff split: if_splits)
  have "conf_ok initial_conf_state" by (simp add: conf_ok_def initial_conf_state_def defaults_def)
  then have "conf_ok st" using conf_lines_ok st(1) by blast
  then show ?thesis
    using st by (cases "cs_saw_default st") (simp_all add: conf_ok_def)
qed

section \<open>Reading a written configuration\<close>

record conf_queue =
  cq_name :: string
  cq_default :: bool
  cq_info :: string
  cq_location :: string
  cq_make_model :: string
  cq_uri :: string
  cq_state :: printer_state
  cq_accepting :: "bool option"
  cq_shared :: "bool option"

definition conf_text_ok :: "string \<Rightarrow> bool" where
  "conf_text_ok s \<longleftrightarrow> trimmed s \<and> newline \<notin> set s \<and> is_valid_utf8 s"

definition queue_ok :: "conf_queue \<Rightarrow> bool" where
  "queue_ok q \<longleftrightarrow>
     list_all conf_text_ok [cq_name q, cq_info q, cq_location q, cq_make_model q, cq_uri q] \<and>
     cq_name q \<noteq> [] \<and> CHR ''>'' \<notin> set (cq_name q)"

definition setting_line :: "string \<Rightarrow> string \<Rightarrow> string" where
  "setting_line key val = key @ CHR '' '' # val"

definition state_line :: "printer_state \<Rightarrow> string list" where
  "state_line s =
     (case s of
        printer_state.unknown \<Rightarrow> []
      | printer_state.idle \<Rightarrow> [setting_line ''State'' ''Idle'']
      | printer_state.processing \<Rightarrow> [setting_line ''State'' ''Processing'']
      | printer_state.stopped \<Rightarrow> [setting_line ''State'' ''Stopped''])"

definition flag_line :: "string \<Rightarrow> bool option \<Rightarrow> string list" where
  "flag_line key b =
     (case b of None \<Rightarrow> [] | Some b \<Rightarrow> [setting_line key (if b then ''Yes'' else ''No'')])"

definition open_line :: "conf_queue \<Rightarrow> string" where
  "open_line q = (if cq_default q then ''<DefaultPrinter '' else ''<Printer '') @ cq_name q @ ''>''"

definition close_line :: "conf_queue \<Rightarrow> string" where
  "close_line q = (if cq_default q then ''</DefaultPrinter>'' else ''</Printer>'')"

definition queue_lines :: "conf_queue \<Rightarrow> string list" where
  "queue_lines q =
     [open_line q, setting_line ''Info'' (cq_info q), setting_line ''Location'' (cq_location q),
      setting_line ''MakeModel'' (cq_make_model q), setting_line ''DeviceURI'' (cq_uri q)] @
     state_line (cq_state q) @ flag_line ''Accepting'' (cq_accepting q) @
     flag_line ''Shared'' (cq_shared q) @ [close_line q]"

definition conf_text :: "conf_queue list \<Rightarrow> string" where
  "conf_text qs = concat (map (\<lambda>l. l @ [newline]) (concat (map queue_lines qs)))"

definition queue_printer :: "conf_queue \<Rightarrow> printer_info" where
  "queue_printer q =
     new_printer\<lparr>pi_id := cq_name q, pi_name := cq_name q, pi_is_default := Some (cq_default q),
       pi_description := cq_info q, pi_location := cq_location q, pi_driver_name := cq_make_model q,
       pi_uri := cq_uri q, pi_state := cq_state q, pi_is_accepting_jobs := cq_accepting q,
       pi_is_shared := cq_shared q,
       pi_type := classify_printer_type (cq_uri q) (cq_name q) (cq_make_model q)\<rparr>"

lemma starts_with_hd:
  "starts_with_ignore_case (c # s) (d # t) \<Longrightarrow> std_tolower c = std_tolower d"
  by (simp add: starts_with_ignore_case_iff)

lemma not_bracket: "c \<noteq> CHR ''<'' \<Longrightarrow> std_tolower c \<noteq> std_tolower CHR ''<''"
  by (auto simp: std_tolower_def simp flip: uchar_eq_iff)

lemma conf_line_setting:
  assumes key: "key = k # ks" "k \<noteq> CHR ''<''" "k \<noteq> CHR ''#''" "list_all (\<lambda>c. \<not> printer_space c) key"
    and val: "trimmed val" and st: "cs_in_printer st"
  shows "conf_line (setting_line key val) st =
    (if val = [] then Value st
     else and_then (conf_setting key val (cs_current st)) (\<lambda>p. Value (st\<lparr>cs_current := p\<rparr>)))"
proof -
  have sp: "CHR '' '' \<notin> set key" using key(4) by (auto simp: list_all_iff printer_space_def)
  have tk: "trimmed key" using key(1,4) by (auto simp: trimmed_def list_all_iff)
  have no: "\<not> starts_with_ignore_case (k # r) (CHR ''<'' # t)" for r t
    using starts_with_hd not_bracket [OF key(2)] by blast
  show ?thesis
  proof (cases "val = []")
    case True
    have "trim_whitespace (setting_line key val) = key"
    proof -
      have "setting_line key val = key @ [CHR '' '']" using True by (simp add: setting_line_def)
      moreover have "dropWhile printer_space (key @ [CHR '' '']) = key @ [CHR '' '']"
        using key(1,4) by simp
      moreover have "trim_back printer_space (key @ [CHR '' '']) = trim_back printer_space key"
        by (simp add: trim_back_def printer_space_def)
      moreover have "trim_back printer_space key = key"
        using tk by (intro trim_back_id) (auto simp: trimmed_def)
      ultimately show ?thesis by (simp add: trim_whitespace_def)
    qed
    then show ?thesis
      using True key sp st no by (simp add: conf_line_def find_from_0)
  next
    case False
    then have "trimmed (setting_line key val)" using tk val key(1) by (simp add: trimmed_def setting_line_def)
    then have t: "trim_whitespace (setting_line key val) = setting_line key val"
      by (rule trim_whitespace_trimmed)
    have f: "find_from CHR '' '' (setting_line key val) 0 = Some (length key)"
      using sp by (simp add: setting_line_def find_from_0 takeWhile_until)
    have c: "setting_line key val = k # (ks @ CHR '' '' # val)" by (simp add: setting_line_def key(1))
    have p: "substr (setting_line key val) 0 (length key) = key"
      "drop (length key + 1) (setting_line key val) = val"
      by (simp_all add: setting_line_def substr_def)
    have n: "setting_line key val \<noteq> []" "setting_line key val ! 0 \<noteq> CHR ''#''"
      "\<not> starts_with_ignore_case (setting_line key val) ''<Printer ''"
      "\<not> starts_with_ignore_case (setting_line key val) ''<DefaultPrinter ''"
      "\<not> starts_with_ignore_case (setting_line key val) ''</Printer>''"
      "\<not> starts_with_ignore_case (setting_line key val) ''</DefaultPrinter>''"
      unfolding c using no key(3) by simp_all
    show ?thesis
      unfolding conf_line_def t Let_def f option.case p trim_whitespace_trimmed [OF tk] trim_whitespace_trimmed [OF val]
      using n False st by simp
  qed
qed

lemma conf_setting_keys:
  "conf_setting ''Info'' v p = and_then (printer_validate_utf8 v) (\<lambda>s. Value (p\<lparr>pi_description := s\<rparr>))"
  "conf_setting ''Location'' v p = and_then (printer_validate_utf8 v) (\<lambda>s. Value (p\<lparr>pi_location := s\<rparr>))"
  "conf_setting ''MakeModel'' v p = and_then (printer_validate_utf8 v) (\<lambda>s. Value (p\<lparr>pi_driver_name := s\<rparr>))"
  "conf_setting ''DeviceURI'' v p = and_then (printer_validate_utf8 v) (\<lambda>s. Value (p\<lparr>pi_uri := s\<rparr>))"
  "conf_setting ''Accepting'' v p = conf_flag v (\<lambda>b. p\<lparr>pi_is_accepting_jobs := Some b\<rparr>)"
  "conf_setting ''Shared'' v p = conf_flag v (\<lambda>b. p\<lparr>pi_is_shared := Some b\<rparr>)"
  "conf_setting ''State'' ''Idle'' p = Value (p\<lparr>pi_state := printer_state.idle\<rparr>)"
  "conf_setting ''State'' ''Processing'' p = Value (p\<lparr>pi_state := printer_state.processing\<rparr>)"
  "conf_setting ''State'' ''Stopped'' p = Value (p\<lparr>pi_state := printer_state.stopped\<rparr>)"
  by (simp_all add: conf_setting_def equals_ignore_case_iff std_tolower_def)

lemma conf_flag_words:
  "conf_flag (if b then ''Yes'' else ''No'') store = Value (store b)"
  by (simp add: conf_flag_def equals_ignore_case_iff std_tolower_def)

lemma conf_line_text:
  assumes "conf_text_ok v" "cs_in_printer st"
  shows
    "conf_line (setting_line ''Info'' v) st =
      Value (st\<lparr>cs_current := if v = [] then cs_current st else cs_current st\<lparr>pi_description := v\<rparr>\<rparr>)"
    "conf_line (setting_line ''Location'' v) st =
      Value (st\<lparr>cs_current := if v = [] then cs_current st else cs_current st\<lparr>pi_location := v\<rparr>\<rparr>)"
    "conf_line (setting_line ''MakeModel'' v) st =
      Value (st\<lparr>cs_current := if v = [] then cs_current st else cs_current st\<lparr>pi_driver_name := v\<rparr>\<rparr>)"
    "conf_line (setting_line ''DeviceURI'' v) st =
      Value (st\<lparr>cs_current := if v = [] then cs_current st else cs_current st\<lparr>pi_uri := v\<rparr>\<rparr>)"
  using assms
  by (simp_all add: conf_line_setting [OF refl] conf_setting_keys conf_text_ok_def
      printer_validate_utf8_def printer_space_def)

lemma conf_lines_append: "conf_lines (xs @ ys) st = and_then (conf_lines xs st) (conf_lines ys)"
proof (induction xs st rule: conf_lines.induct)
  case (2 line r st)
  then show ?case by (cases "conf_line line st") simp_all
qed simp

lemma conf_lines_state:
  assumes "cs_in_printer st"
  shows "conf_lines (state_line s) st = Value (if s = printer_state.unknown then st
    else st\<lparr>cs_current := cs_current st\<lparr>pi_state := s\<rparr>\<rparr>)"
  using assms
  by (cases s) (simp_all add: state_line_def conf_line_setting [OF refl] conf_setting_keys trimmed_def
      printer_space_def)

lemma conf_lines_flags:
  assumes "cs_in_printer st"
  shows "conf_lines (flag_line ''Accepting'' b) st = Value (if b = None then st
      else st\<lparr>cs_current := cs_current st\<lparr>pi_is_accepting_jobs := b\<rparr>\<rparr>)"
    and "conf_lines (flag_line ''Shared'' b) st = Value (if b = None then st
      else st\<lparr>cs_current := cs_current st\<lparr>pi_is_shared := b\<rparr>\<rparr>)"
proof -
  have "trimmed (if x then ''Yes'' else ''No'')" for x by (simp add: trimmed_def printer_space_def)
  then show "conf_lines (flag_line ''Accepting'' b) st = Value (if b = None then st
      else st\<lparr>cs_current := cs_current st\<lparr>pi_is_accepting_jobs := b\<rparr>\<rparr>)"
    and "conf_lines (flag_line ''Shared'' b) st = Value (if b = None then st
      else st\<lparr>cs_current := cs_current st\<lparr>pi_is_shared := b\<rparr>\<rparr>)"
    using assms
    by (cases b; simp add: flag_line_def conf_line_setting [OF refl] conf_setting_keys conf_flag_words
        printer_space_def)+
qed

lemma conf_line_open:
  assumes "queue_ok q" "\<not> cs_in_printer st" "\<not> (cq_default q \<and> cs_saw_default st)"
  shows "conf_line (open_line q) st =
    Value (st\<lparr>cs_current := new_printer\<lparr>pi_id := cq_name q, pi_name := cq_name q,
        pi_is_default := Some (cq_default q)\<rparr>, cs_current_is_default := cq_default q,
      cs_saw_default := (cs_saw_default st \<or> cq_default q), cs_in_printer := True\<rparr>)"
proof -
  let ?n = "cq_name q" and ?head = "if cq_default q then ''<DefaultPrinter '' else ''<Printer ''"
  have l: "open_line q = ?head @ ?n @ ''>''" by (simp add: open_line_def)
  have "trimmed (open_line q)" by (simp add: trimmed_def printer_space_def open_line_def)
  then have t: "trim_whitespace (open_line q) = open_line q" by (rule trim_whitespace_trimmed)
  have "open_line q \<noteq> []" "open_line q ! 0 \<noteq> CHR ''#''" by (simp_all add: open_line_def)
  moreover have d: "starts_with_ignore_case (open_line q) ''<DefaultPrinter '' = cq_default q"
    using starts_with_ignore_case_append [of "''<DefaultPrinter ''"]
    by (cases "cq_default q") (simp_all add: open_line_def, simp add: starts_with_ignore_case_iff std_tolower_def)
  moreover have "starts_with_ignore_case (open_line q) ''<Printer '' \<or> cq_default q"
    using starts_with_ignore_case_append [of "''<Printer ''"]
    by (cases "cq_default q") (simp_all add: open_line_def)
  ultimately have "conf_line (open_line q) st = conf_open (open_line q) st"
    by (auto simp: conf_line_def t Let_def)
  moreover have "conf_open (open_line q) st =
    Value (st\<lparr>cs_current := new_printer\<lparr>pi_id := ?n, pi_name := ?n, pi_is_default := Some (cq_default q)\<rparr>,
      cs_current_is_default := cq_default q, cs_saw_default := (cs_saw_default st \<or> cq_default q),
      cs_in_printer := True\<rparr>)"
  proof -
    define m :: nat where "m = (if cq_default q then 16 else 9)"
    have m: "length ?head = m" by (simp add: m_def)
    have n: "CHR ''>'' \<notin> set ?n" "trimmed ?n" "is_valid_utf8 ?n" "?n \<noteq> []"
      using assms(1) by (simp_all add: queue_ok_def conf_text_ok_def)
    have f: "find_from CHR ''>'' (open_line q) m = Some (m + length ?n)"
      using n(1) find_from_append [of "CHR ''>''" ?n ?head "[]"] m by (simp add: l)
    have s: "substr (open_line q) m (m + length ?n - m) = ?n" "drop (m + length ?n + 1) (open_line q) = []"
      unfolding l m [symmetric] by (simp_all only: substr_def append_assoc [symmetric]) simp_all
    show ?thesis
      unfolding conf_open_def d Let_def m_def [symmetric] f option.case s trim_whitespace_trimmed [OF n(2)]
      using assms(2,3) n by (auto simp: printer_validate_utf8_def trim_whitespace_def trim_back_def)
  qed
  ultimately show ?thesis by simp
qed

lemma conf_line_close:
  assumes "cs_in_printer st" "cs_current_is_default st = cq_default q"
  defines "p \<equiv> cs_current st"
  defines "p' \<equiv> p\<lparr>pi_type := classify_printer_type (pi_uri p) (pi_name p) (pi_driver_name p)\<rparr>"
  shows "conf_line (close_line q) st =
    Value (st\<lparr>cs_current := p', cs_printers := cs_printers st @ [p'], cs_in_printer := False\<rparr>)"
proof -
  have "trimmed (close_line q)" by (simp add: trimmed_def printer_space_def close_line_def)
  then have t: "trim_whitespace (close_line q) = close_line q" by (rule trim_whitespace_trimmed)
  have e: "trim_whitespace [] = []" by (simp add: trim_whitespace_def trim_back_def)
  show ?thesis
    unfolding conf_line_def t Let_def p'_def p_def
    using assms(1,2) e
    by (cases "cq_default q")
      (simp_all add: close_line_def conf_close_def starts_with_ignore_case_iff std_tolower_def Let_def)
qed

lemma conf_lines_seq:
  assumes "conf_line a st = Value s1" "conf_lines b s1 = Value s2" "conf_lines c s2 = Value s3"
    and "conf_line d s3 = Value s4"
  shows "conf_lines ([a] @ b @ c @ [d]) st = Value s4"
  using assms by (simp add: conf_lines_append)

lemma conf_lines_queue:
  assumes "queue_ok q" "\<not> cs_in_printer st" "\<not> (cq_default q \<and> cs_saw_default st)"
  shows "conf_lines (queue_lines q) st =
    Value (st\<lparr>cs_current := queue_printer q, cs_current_is_default := cq_default q,
      cs_saw_default := (cs_saw_default st \<or> cq_default q), cs_in_printer := False,
      cs_printers := cs_printers st @ [queue_printer q]\<rparr>)"
proof -
  have ok: "conf_text_ok (cq_info q)" "conf_text_ok (cq_location q)" "conf_text_ok (cq_make_model q)"
    "conf_text_ok (cq_uri q)"
    using assms(1) by (simp_all add: queue_ok_def)
  let ?p = "new_printer\<lparr>pi_id := cq_name q, pi_name := cq_name q, pi_is_default := Some (cq_default q)\<rparr>"
  let ?full = "?p\<lparr>pi_description := cq_info q, pi_location := cq_location q,
      pi_driver_name := cq_make_model q, pi_uri := cq_uri q\<rparr>"
  let ?done = "?full\<lparr>pi_state := cq_state q, pi_is_accepting_jobs := cq_accepting q, pi_is_shared := cq_shared q\<rparr>"
  define st1 where "st1 = st\<lparr>cs_current := ?p, cs_current_is_default := cq_default q,
      cs_saw_default := (cs_saw_default st \<or> cq_default q), cs_in_printer := True\<rparr>"
  have st1: "cs_in_printer st1" "cs_current st1 = ?p" by (simp_all add: st1_def)
  have texts: "conf_lines [setting_line ''Info'' (cq_info q), setting_line ''Location'' (cq_location q),
      setting_line ''MakeModel'' (cq_make_model q), setting_line ''DeviceURI'' (cq_uri q)] st1 =
      Value (st1\<lparr>cs_current := ?full\<rparr>)"
    using st1 ok by (simp add: conf_line_text new_printer_def)
  have rest: "conf_lines (state_line (cq_state q) @ flag_line ''Accepting'' (cq_accepting q) @
      flag_line ''Shared'' (cq_shared q)) (st1\<lparr>cs_current := ?full\<rparr>) = Value (st1\<lparr>cs_current := ?done\<rparr>)"
    using st1 by (simp add: conf_lines_append conf_lines_state conf_lines_flags new_printer_def)
  have "queue_lines q = [open_line q] @ [setting_line ''Info'' (cq_info q),
      setting_line ''Location'' (cq_location q), setting_line ''MakeModel'' (cq_make_model q),
      setting_line ''DeviceURI'' (cq_uri q)] @ (state_line (cq_state q) @
      flag_line ''Accepting'' (cq_accepting q) @ flag_line ''Shared'' (cq_shared q)) @ [close_line q]"
    by (simp add: queue_lines_def)
  moreover have o: "conf_line (open_line q) st = Value st1"
    using conf_line_open [OF assms] by (simp add: st1_def)
  moreover have c: "conf_line (close_line q) (st1\<lparr>cs_current := ?done\<rparr>) =
      Value (st1\<lparr>cs_current := queue_printer q, cs_printers := cs_printers st @ [queue_printer q], cs_in_printer := False\<rparr>)"
    by (subst conf_line_close [of _ q]) (simp_all add: st1_def queue_printer_def)
  ultimately have "conf_lines (queue_lines q) st =
      Value (st1\<lparr>cs_current := queue_printer q, cs_printers := cs_printers st @ [queue_printer q], cs_in_printer := False\<rparr>)"
    using conf_lines_seq [OF o texts rest c] by simp
  then show ?thesis by (simp add: st1_def)
qed

lemma conf_lines_queues:
  assumes "list_all queue_ok qs" "\<not> cs_in_printer st"
    and "length (filter cq_default qs) + (if cs_saw_default st then 1 else 0) \<le> 1"
  shows "\<exists>st'. conf_lines (concat (map queue_lines qs)) st = Value st' \<and> \<not> cs_in_printer st' \<and>
    cs_printers st' = cs_printers st @ map queue_printer qs"
  using assms
proof (induction qs arbitrary: st)
  case (Cons q qs)
  let ?st = "st\<lparr>cs_current := queue_printer q, cs_current_is_default := cq_default q,
      cs_saw_default := (cs_saw_default st \<or> cq_default q), cs_in_printer := False,
      cs_printers := cs_printers st @ [queue_printer q]\<rparr>"
  have "\<not> (cq_default q \<and> cs_saw_default st)" using Cons.prems(3) by (auto split: if_splits)
  then have "conf_lines (queue_lines q) st = Value ?st"
    using Cons.prems conf_lines_queue by simp
  moreover have "length (filter cq_default qs) + (if cs_saw_default ?st then 1 else 0) \<le> 1"
    using Cons.prems(3) by (auto split: if_splits)
  then have "\<exists>st'. conf_lines (concat (map queue_lines qs)) ?st = Value st' \<and> \<not> cs_in_printer st' \<and>
      cs_printers st' = cs_printers ?st @ map queue_printer qs"
    using Cons.prems by (intro Cons.IH) simp_all
  ultimately show ?case by (auto simp: conf_lines_append)
qed simp

lemma queue_lines_ok:
  assumes "queue_ok q"
  shows "list_all (\<lambda>l. newline \<notin> set l) (queue_lines q)"
  using assms
  by (auto simp: queue_lines_def queue_ok_def conf_text_ok_def open_line_def close_line_def
      setting_line_def state_line_def flag_line_def split: printer_state.splits option.splits)

text \<open>
  A written configuration is read back: every queue with its settings, in order, whichever of them
  is the default.
\<close>

theorem cups_conf_roundtrip:
  assumes "list_all queue_ok qs" "length (filter cq_default qs) \<le> 1"
  shows "parse_cups_printers_conf (conf_text qs) = Value (map queue_printer qs)"
proof -
  have "list_all (\<lambda>l. newline \<notin> set l) (concat (map queue_lines qs))"
    using assms(1) queue_lines_ok by (induction qs) auto
  then have l: "lines_of (conf_text qs) = concat (map queue_lines qs)"
    unfolding conf_text_def by (rule lines_of_unlines)
  obtain st where "conf_lines (concat (map queue_lines qs)) initial_conf_state = Value st"
    "\<not> cs_in_printer st" "cs_printers st = map queue_printer qs"
    using conf_lines_queues [OF assms(1), of initial_conf_state] assms(2)
    by (auto simp: initial_conf_state_def)
  then show ?thesis by (simp add: parse_cups_printers_conf_def l)
qed

section \<open>Instances\<close>

definition example_queues :: "conf_queue list" where
  "example_queues =
     [\<lparr>cq_name = ''lab'', cq_default = True, cq_info = ''2nd floor'', cq_location = [], cq_make_model = ''X 1'',
       cq_uri = ''ipp://lab/'', cq_state = printer_state.idle, cq_accepting = Some True, cq_shared = None\<rparr>,
      \<lparr>cq_name = ''pdf'', cq_default = False, cq_info = [], cq_location = [], cq_make_model = [],
       cq_uri = ''cups-pdf:/'', cq_state = printer_state.stopped, cq_accepting = None, cq_shared = Some False\<rparr>]"

lemma example_queues_ok: "list_all queue_ok example_queues"
proof -
  have "is_valid_utf8 ''lab''" "is_valid_utf8 ''2nd floor''" "is_valid_utf8 ''X 1''"
    "is_valid_utf8 ''ipp://lab/''" "is_valid_utf8 ''pdf''" "is_valid_utf8 ''cups-pdf:/''"
    by code_simp+
  then show ?thesis
    by (simp add: example_queues_def queue_ok_def conf_text_ok_def trimmed_def printer_space_def)
qed

theorem cups_conf_roundtrip_witness:
  "parse_cups_printers_conf (conf_text example_queues) = Value (map queue_printer example_queues)"
  by (rule cups_conf_roundtrip [OF example_queues_ok]) (simp add: example_queues_def)

theorem cups_conf_wellformed_witness:
  "list_all conf_printer_ok [] \<and> defaults [] \<le> 1"
proof (rule cups_conf_wellformed)
  show "parse_cups_printers_conf [] = Value []"
    by (simp add: parse_cups_printers_conf_def initial_conf_state_def)
qed

end
