(* ===== verification/Http_Correct.thy ===== *)
theory Http_Correct
  imports Printer_Http "HOL-Library.Sublist"
begin

text \<open>
  Correctness of the HTTP decoder: a rendered response, whatever interim messages precede it and
  whichever way its payload is framed, decodes to the payload; a response that announces the extent
  of its payload and was cut short is refused.
\<close>

section \<open>Rendering\<close>

abbreviation crlf :: string where "crlf \<equiv> [carriage_return, newline]"

definition http_field :: "string \<times> string \<Rightarrow> string" where
  "http_field f = fst f @ CHR '':'' # CHR '' '' # snd f @ crlf"

definition http_fields :: "(string \<times> string) list \<Rightarrow> string" where
  "http_fields fs = concat (map http_field fs) @ crlf"

definition http_status :: "nat \<Rightarrow> string" where
  "http_status n = ''HTTP/1.1 '' @ base_string 10 n @ '' OK''"

definition http_start :: "nat \<Rightarrow> (string \<times> string) list \<Rightarrow> string" where
  "http_start n fs = http_status n @ crlf @ http_fields fs"

datatype http_payload =
    Up_to_the_end string
  | Sized string
  | Chunked "string list" "(string \<times> string) list"

fun payload_bytes :: "http_payload \<Rightarrow> string" where
  "payload_bytes (Up_to_the_end b) = b"
| "payload_bytes (Sized b) = b"
| "payload_bytes (Chunked cs ts) = concat cs"

fun framing_fields :: "http_payload \<Rightarrow> (string \<times> string) list" where
  "framing_fields (Up_to_the_end b) = []"
| "framing_fields (Sized b) = [(''Content-Length'', base_string 10 (length b))]"
| "framing_fields (Chunked cs ts) = [(''Transfer-Encoding'', ''chunked'')]"

definition http_chunk :: "string \<Rightarrow> string" where
  "http_chunk c = base_string 16 (length c) @ crlf @ c @ crlf"

fun payload_text :: "http_payload \<Rightarrow> string" where
  "payload_text (Up_to_the_end b) = b"
| "payload_text (Sized b) = b"
| "payload_text (Chunked cs ts) =
     concat (map http_chunk cs) @ base_string 16 0 @ crlf @ http_fields ts"

definition http_response :: "nat \<Rightarrow> (string \<times> string) list \<Rightarrow> http_payload \<Rightarrow> string" where
  "http_response status fs p = http_start status (fs @ framing_fields p) @ payload_text p"

definition line_ok :: "string \<Rightarrow> bool" where
  "line_ok s \<longleftrightarrow> carriage_return \<notin> set s"

definition field_ok :: "string \<times> string \<Rightarrow> bool" where
  "field_ok f \<longleftrightarrow>
     fst f \<noteq> [] \<and> trimmed (fst f) \<and> trimmed (snd f) \<and> line_ok (fst f) \<and> line_ok (snd f) \<and>
     CHR '':'' \<notin> set (fst f)"

definition plain_field :: "string \<times> string \<Rightarrow> bool" where
  "plain_field f \<longleftrightarrow>
     field_ok f \<and> \<not> equals_ignore_case (fst f) ''Content-Length'' \<and>
     \<not> equals_ignore_case (fst f) ''Transfer-Encoding''"

fun payload_ok :: "http_payload \<Rightarrow> bool" where
  "payload_ok (Up_to_the_end b) = True"
| "payload_ok (Sized b) = (length b < 2 ^ 64)"
| "payload_ok (Chunked cs ts) =
     (list_all (\<lambda>c. c \<noteq> [] \<and> length c < 2 ^ 64) cs \<and> list_all field_ok ts)"

section \<open>Lines\<close>

lemma find_crlf_line: "line_ok l \<Longrightarrow> find_crlf (l @ carriage_return # newline # s) = Some (l, s)"
proof (induction l)
  case (Cons a l)
  then have a: "a \<noteq> carriage_return" "line_ok l" by (auto simp: line_ok_def)
  obtain b t where "l @ carriage_return # newline # s = b # t" by (cases l) auto
  with a Cons.IH show ?case by auto
qed simp

lemma find_crlf_cut: "line_ok l \<Longrightarrow> strict_prefix s (l @ crlf) \<Longrightarrow> find_crlf s = None"
proof (induction s arbitrary: l rule: find_crlf.induct)
  case (1 a b t)
  show ?case
  proof (cases l)
    case Nil
    then show ?thesis using 1 by (auto simp: strict_prefix_def prefix_Cons)
  next
    case (Cons x l')
    then have "a = x" "strict_prefix (b # t) (l' @ crlf)" "line_ok l'" "a \<noteq> carriage_return"
      using 1 by (auto simp: strict_prefix_def line_ok_def)
    then show ?thesis using 1 by simp
  qed
qed auto

lemma prefix_cases:
  assumes "strict_prefix s (xs @ ys)"
  obtains (inside) "strict_prefix s xs" | (beyond) s' where "s = xs @ s'" "strict_prefix s' ys"
proof (cases "s = xs")
  case True
  then have "strict_prefix [] ys" using assms by (auto simp: strict_prefix_def)
  then show ?thesis using True that(2) [of "[]"] by simp
next
  case False
  then show ?thesis using assms that by (auto simp: strict_prefix_def prefix_append)
qed

lemma trim_whitespace_blank: "trimmed s \<Longrightarrow> trim_whitespace (CHR '' '' # s) = s"
  using trim_whitespace_trimmed [of s] by (simp add: trim_whitespace_def printer_space_def)

lemma find_colon: "CHR '':'' \<notin> set n \<Longrightarrow> find_from CHR '':'' (n @ CHR '':'' # v) 0 = Some (length n)"
  by (simp add: find_from_0 takeWhile_until)

section \<open>Header fields\<close>

lemma http_headers_end [simp]: "http_headers (carriage_return # newline # s) c n = Value (c, n, s)"
  by (subst http_headers.simps) simp

lemma http_field_crlf: "field_ok f \<Longrightarrow> find_crlf (http_field f @ s) = Some (fst f @ CHR '':'' # CHR '' '' # snd f, s)"
  using find_crlf_line [of "fst f @ CHR '':'' # CHR '' '' # snd f" s]
  by (simp add: http_field_def field_ok_def line_ok_def)

lemma http_headers_step:
  assumes "field_ok (name, val)"
  shows "http_headers (http_field (name, val) @ s) chunked content_length =
    (if equals_ignore_case name ''Content-Length'' then
       (case parse_int 64 10 val of
          None \<Rightarrow> fail errc.malformed_data
        | Some parsed \<Rightarrow>
            if content_length \<noteq> None \<and> content_length \<noteq> Some parsed then fail errc.malformed_data
            else http_headers s chunked (Some parsed))
     else if equals_ignore_case name ''Transfer-Encoding'' then
       (if \<not> equals_ignore_case val ''chunked'' then fail errc.not_supported
        else http_headers s True content_length)
     else http_headers s chunked content_length)"
  using assms
  by (subst http_headers.simps)
    (simp add: http_field_crlf find_colon substr_def field_ok_def trim_whitespace_trimmed
      trim_whitespace_blank Let_def)

lemma http_headers_plain:
  "list_all plain_field fs \<Longrightarrow> http_headers (concat (map http_field fs) @ s) c n = http_headers s c n"
  by (induction fs) (auto simp: plain_field_def http_headers_step)

lemma digits_trimmed: "list_all (base_digit b) s \<Longrightarrow> trimmed s \<and> line_ok s"
  by (auto simp: trimmed_def line_ok_def list_all_iff dest: base_digit_not_space)
    (auto simp: base_digit_def hex_value_def)

lemma base_string_ok: "b = 10 \<or> b = 16 \<Longrightarrow> trimmed (base_string b n) \<and> line_ok (base_string b n)"
  using base_string_props [of b n] digits_trimmed by auto

lemma framing_ok: "list_all field_ok (framing_fields p)"
  using base_string_ok
  by (cases p) (auto simp: field_ok_def trimmed_def line_ok_def printer_space_def)

definition announced :: "http_payload \<Rightarrow> bool \<times> nat option" where
  "announced p = (case p of Up_to_the_end b \<Rightarrow> (False, None) | Sized b \<Rightarrow> (False, Some (length b))
     | Chunked cs ts \<Rightarrow> (True, None))"

lemma http_headers_fields:
  assumes "list_all plain_field fs" "payload_ok p"
  shows "http_headers (http_fields (fs @ framing_fields p) @ s) False None =
    Value (fst (announced p), snd (announced p), s)"
proof -
  have step: "f \<in> set (framing_fields p) \<Longrightarrow> field_ok f" for f
    using framing_ok by (auto simp: list_all_iff)
  have "http_headers (concat (map http_field (framing_fields p)) @ crlf @ s) False None =
      Value (fst (announced p), snd (announced p), s)"
  proof (cases p)
    case (Sized b)
    have "equals_ignore_case ''Content-Length'' ''Content-Length''" by simp
    then show ?thesis
      using step Sized assms(2) parse_int_string [of 10 "length b" 64]
      by (simp add: announced_def http_headers_step del: equals_ignore_case_refl)
  next
    case (Chunked cs ts)
    have "\<not> equals_ignore_case ''Transfer-Encoding'' ''Content-Length''"
      by (simp add: equals_ignore_case_def)
    then show ?thesis
      using step Chunked by (simp add: announced_def http_headers_step)
  qed (simp add: announced_def)
  then show ?thesis
    using assms(1) by (simp add: http_fields_def http_headers_plain)
qed

section \<open>Status lines\<close>

lemma three_digits:
  assumes "100 \<le> n" "n < 1000"
  shows "length (base_string 10 n) = 3"
proof -
  have "10 \<le> n" "10 \<le> n div 10" "n div 10 div 10 < 10" using assms by simp_all
  then show ?thesis
    by (subst base_string.simps, subst base_string.simps, subst base_string.simps) (simp add: Let_def)
qed

lemma parse_status_rendered:
  assumes "100 \<le> n" "n \<le> 599"
  shows "parse_status (http_status n) = Value n"
proof -
  let ?d = "base_string 10 n"
  have d: "length ?d = 3" using three_digits assms by simp
  have f: "find_from CHR '' '' (http_status n) 0 = Some 8"
    by (simp add: find_from_0 http_status_def)
  have p: "starts_with_ignore_case (http_status n) ''HTTP/''"
    using starts_with_ignore_case_append [of "''HTTP/''" "''1.1 '' @ ?d @ '' OK''"]
    by (simp add: http_status_def)
  have l: "length (http_status n) = 15" "http_status n ! 12 = CHR '' ''"
    "substr (http_status n) 9 3 = ?d"
    using d by (simp_all add: http_status_def nth_append substr_def)
  have v: "parse_int 32 10 ?d = Some n"
    using assms parse_int_string [of 10 n 32] by simp
  show ?thesis
    unfolding parse_status_def f option.case using p l v assms by simp
qed

lemma status_line_ok: "line_ok (http_status n)"
  using base_string_ok [of 10 n] by (simp add: line_ok_def http_status_def)

lemma http_status_crlf: "find_crlf (http_status n @ carriage_return # newline # s) = Some (http_status n, s)"
  by (rule find_crlf_line [OF status_line_ok])

lemma http_head_rendered:
  assumes "100 \<le> n" "n \<le> 599" "list_all plain_field fs" "payload_ok p"
  shows "http_head (http_start n (fs @ framing_fields p) @ s) =
    Value (n, fst (announced p), snd (announced p), s)"
  using assms http_headers_fields [OF assms(3,4), of s]
  by (simp add: http_head_def http_start_def http_status_crlf parse_status_rendered)

section \<open>Chunks\<close>

lemma http_trailers_rendered:
  "list_all field_ok ts \<Longrightarrow> http_trailers (http_fields ts @ s) = Value s"
proof (induction ts)
  case Nil
  show ?case by (subst http_trailers.simps) (simp add: http_fields_def)
next
  case (Cons f ts)
  then have "find_from CHR '':'' (fst f @ CHR '':'' # CHR '' '' # snd f) 0 \<noteq> None"
    using find_colon [of "fst f" "CHR '' '' # snd f"] by (auto simp: field_ok_def)
  then show ?case
    using Cons by (subst http_trailers.simps) (auto simp: http_fields_def http_field_crlf)
qed

lemma chunk_size_rendered: "n < 2 ^ 64 \<Longrightarrow> chunk_size_of (base_string 16 n) = Some n"
proof -
  have "list_all (base_digit 16) (base_string 16 n)" using base_string_props [of 16 n] by simp
  then have "CHR '';'' \<notin> set (base_string 16 n)"
    by (auto simp: list_all_iff base_digit_def hex_value_def)
  then show "n < 2 ^ 64 \<Longrightarrow> ?thesis"
    using base_string_ok [of 16 n] parse_int_string [of 16 n 64]
    by (simp add: chunk_size_of_def find_from_0 trim_whitespace_trimmed)
qed

lemma chunk_line: "find_crlf (base_string 16 n @ carriage_return # newline # s) = Some (base_string 16 n, s)"
  using base_string_ok [of 16 n] by (intro find_crlf_line) simp

lemma http_chunks_step:
  assumes "c \<noteq> []" "length c < 2 ^ 64"
  shows "http_chunks (http_chunk c @ s) d = http_chunks s (d @ c)"
  using assms
  by (subst http_chunks.simps) (simp add: http_chunk_def chunk_line chunk_size_rendered)

lemma http_chunks_rendered:
  assumes "list_all (\<lambda>c. c \<noteq> [] \<and> length c < 2 ^ 64) cs" "list_all field_ok ts"
  shows "http_chunks (payload_text (Chunked cs ts)) d = Value (d @ concat cs)"
  using assms
proof (induction cs arbitrary: d)
  case Nil
  then show ?case
    using http_trailers_rendered [of ts "[]"] chunk_size_rendered [of 0]
    by (subst http_chunks.simps) (simp add: chunk_line)
next
  case (Cons c cs)
  then show ?case using http_chunks_step [of c] by simp
qed

lemma http_body_rendered:
  "payload_ok p \<Longrightarrow> http_body (fst (announced p)) (snd (announced p)) (payload_text p) = Value (payload_bytes p)"
  using http_chunks_rendered by (cases p) (auto simp: http_body_def announced_def)

section \<open>Whole responses\<close>

definition interim_ok :: "nat \<times> (string \<times> string) list \<Rightarrow> bool" where
  "interim_ok i \<longleftrightarrow> 100 \<le> fst i \<and> fst i < 200 \<and> list_all plain_field (snd i)"

definition interim_text :: "(nat \<times> (string \<times> string) list) list \<Rightarrow> string" where
  "interim_text is = concat (map (\<lambda>i. http_start (fst i) (snd i)) is)"

lemma http_message_interim:
  assumes "list_all interim_ok is" "s \<noteq> []"
  shows "http_message (interim_text is @ s) = http_message s"
  using assms
proof (induction "is")
  case (Cons i js)
  have "interim_text js @ s \<noteq> []" using Cons.prems by simp
  moreover have "http_head (http_start (fst i) (snd i) @ interim_text js @ s) =
      Value (fst i, False, None, interim_text js @ s)"
    using Cons.prems http_head_rendered [of "fst i" "snd i" "Up_to_the_end []" "interim_text js @ s"]
    by (simp add: interim_ok_def announced_def)
  ultimately show ?case
    using Cons by (simp add: interim_text_def) (subst http_message.simps, simp add: interim_ok_def)
qed (simp add: interim_text_def)

text \<open>
  C9. A rendered response decodes to its payload: any interim messages are skipped, and the payload
  may end with the connection, have the announced length, or come in chunks with trailing fields.
\<close>

theorem http_response_roundtrip:
  assumes "200 \<le> status" "status < 300" "list_all plain_field fs" "payload_ok p" "list_all interim_ok is"
  shows "parse_http_ipp_response (interim_text is @ http_response status fs p) = Value (payload_bytes p)"
proof -
  have "http_response status fs p \<noteq> []" by (simp add: http_response_def http_start_def)
  moreover have "http_message (http_response status fs p) = Value (payload_bytes p)"
    using assms http_head_rendered [of status fs p "payload_text p"] http_body_rendered
    by (subst http_message.simps) (simp add: http_response_def status_error_def)
  ultimately show ?thesis
    using assms(5) by (simp add: parse_http_ipp_response_def http_message_interim)
qed

section \<open>Truncated responses\<close>

lemma http_headers_none: "find_crlf s = None \<Longrightarrow> http_headers s c n = fail errc.malformed_data"
  by (subst http_headers.simps) simp

lemma blank_line_cut: "strict_prefix s crlf \<Longrightarrow> find_crlf s = None"
  using find_crlf_cut [of "[]" s] by (simp add: line_ok_def)

lemma http_field_cut: "field_ok f \<Longrightarrow> strict_prefix s (http_field f) \<Longrightarrow> find_crlf s = None"
  using find_crlf_cut [of "fst f @ CHR '':'' # CHR '' '' # snd f" s]
  by (simp add: http_field_def field_ok_def line_ok_def)

lemma http_headers_cut:
  assumes "list_all plain_field fs" "payload_ok p" "strict_prefix s (http_fields (fs @ framing_fields p))"
  shows "http_headers s False None = fail errc.malformed_data"
  using assms
proof (induction fs arbitrary: s)
  case Nil
  show ?case
  proof (cases "framing_fields p")
    case Nil
    then show ?thesis
      using \<open>strict_prefix s _\<close> http_headers_none blank_line_cut by (simp add: http_fields_def)
  next
    case (Cons f r)
    then have f: "framing_fields p = [f]" "field_ok f" using framing_ok [of p] by (cases p; simp)+
    with Nil.prems(3) have "strict_prefix s (http_field f @ crlf)" by (simp add: http_fields_def)
    then show ?thesis
    proof (cases rule: prefix_cases)
      case inside
      then show ?thesis using f http_field_cut http_headers_none by blast
    next
      case (beyond s')
      then have "http_headers s' c n = fail errc.malformed_data" for c n
        using blank_line_cut http_headers_none by blast
      then show ?thesis
        using f beyond(1) Nil.prems(2) http_headers_step [of "fst f" "snd f" s' False None]
        by (cases p) (auto split: option.splits simp: parse_int_string)
    qed
  qed
next
  case (Cons f fs)
  then have "strict_prefix s (http_field f @ http_fields (fs @ framing_fields p))"
    by (simp add: http_fields_def)
  then show ?case
  proof (cases rule: prefix_cases)
    case inside
    moreover have "field_ok f" using Cons.prems by (simp add: plain_field_def)
    ultimately have "find_crlf s = None" by (metis http_field_cut)
    then show ?thesis by (rule http_headers_none)
  next
    case (beyond s')
    then show ?thesis
      using Cons http_headers_plain [of "[f]" s' False None] by simp
  qed
qed

lemma http_head_cut:
  assumes "100 \<le> n" "n \<le> 599" "list_all plain_field fs" "payload_ok p"
    and "strict_prefix s (http_start n (fs @ framing_fields p))"
  shows "http_head s = fail errc.malformed_data"
proof -
  have "strict_prefix s ((http_status n @ crlf) @ http_fields (fs @ framing_fields p))"
    using assms(5) by (simp add: http_start_def)
  then show ?thesis
  proof (cases rule: prefix_cases)
    case inside
    then show ?thesis using find_crlf_cut [OF status_line_ok] by (simp add: http_head_def)
  next
    case (beyond s')
    then show ?thesis
      using assms http_headers_cut by (simp add: http_head_def http_status_crlf parse_status_rendered)
  qed
qed

lemma http_trailers_cut:
  "list_all field_ok ts \<Longrightarrow> strict_prefix s (http_fields ts) \<Longrightarrow> http_trailers s = fail errc.malformed_data"
proof (induction ts arbitrary: s)
  case Nil
  then show ?case using blank_line_cut by (subst http_trailers.simps) (simp add: http_fields_def)
next
  case (Cons f ts)
  then have "strict_prefix s (http_field f @ http_fields ts)" by (simp add: http_fields_def)
  then show ?case
  proof (cases rule: prefix_cases)
    case inside
    moreover have "field_ok f" using Cons.prems by simp
    ultimately have "find_crlf s = None" by (metis http_field_cut)
    then show ?thesis by (subst http_trailers.simps) simp
  next
    case (beyond s')
    moreover have "find_from CHR '':'' (fst f @ CHR '':'' # CHR '' '' # snd f) 0 \<noteq> None"
      using Cons.prems find_colon [of "fst f" "CHR '' '' # snd f"] by (auto simp: field_ok_def)
    ultimately show ?thesis
      using Cons by (subst http_trailers.simps) (auto simp: http_field_crlf)
  qed
qed

lemma hex_line_cut: "strict_prefix s (base_string 16 n @ crlf) \<Longrightarrow> find_crlf s = None"
  using find_crlf_cut base_string_ok by blast

lemma http_chunks_none: "find_crlf s = None \<Longrightarrow> http_chunks s d = fail errc.malformed_data"
  by (subst http_chunks.simps) simp

lemma http_chunks_cut:
  assumes "list_all (\<lambda>c. c \<noteq> [] \<and> length c < 2 ^ 64) cs" "list_all field_ok ts"
    and "strict_prefix s (payload_text (Chunked cs ts))"
  shows "http_chunks s d = fail errc.malformed_data"
  using assms
proof (induction cs arbitrary: s d)
  case Nil
  then have "strict_prefix s ((base_string 16 0 @ crlf) @ http_fields ts)" by simp
  then show ?case
  proof (cases rule: prefix_cases)
    case inside
    then show ?thesis using hex_line_cut http_chunks_none by blast
  next
    case (beyond s')
    then show ?thesis
      using Nil http_trailers_cut chunk_size_rendered [of 0]
      by (subst http_chunks.simps) (simp add: chunk_line)
  qed
next
  case (Cons c cs)
  let ?rest = "payload_text (Chunked cs ts)"
  have "strict_prefix s ((base_string 16 (length c) @ crlf) @ (c @ crlf) @ ?rest)"
    using Cons.prems by (simp add: http_chunk_def)
  then show ?case
  proof (cases rule: prefix_cases)
    case inside
    then show ?thesis using hex_line_cut http_chunks_none by blast
  next
    case (beyond s')
    from beyond(2) show ?thesis
    proof (cases rule: prefix_cases)
      case inside
      then have "length s' < length c + 2" using prefix_length_less by fastforce
      then show ?thesis
        using Cons.prems beyond(1)
        by (subst http_chunks.simps) (auto simp: chunk_line chunk_size_rendered)
    next
      case tail: (beyond s'')
      then have "s = http_chunk c @ s''" using beyond(1) by (simp add: http_chunk_def)
      then show ?thesis
        using Cons tail(2) by (simp add: http_chunks_step)
    qed
  qed
qed

lemma http_body_cut:
  assumes "payload_ok p" "framing_fields p \<noteq> []" "strict_prefix s (payload_text p)"
  shows "http_body (fst (announced p)) (snd (announced p)) s = fail errc.malformed_data"
proof (cases p)
  case (Sized b)
  then show ?thesis
    using assms prefix_length_less [of s b] by (simp add: http_body_def announced_def)
next
  case (Chunked cs ts)
  then show ?thesis
    using assms http_chunks_cut [of cs ts s "[]"] by (simp add: http_body_def announced_def)
qed (use assms in simp)

lemma http_response_cut:
  assumes "200 \<le> status" "status < 300" "list_all plain_field fs" "payload_ok p"
    and "framing_fields p \<noteq> []" "strict_prefix s (http_response status fs p)"
  shows "http_message s = fail errc.malformed_data"
  using assms(6) [unfolded http_response_def]
proof (cases rule: prefix_cases)
  case inside
  then show ?thesis
    using assms http_head_cut [of status fs p s] by (subst http_message.simps) (simp add: fail_def)
next
  case (beyond s')
  then show ?thesis
    using assms http_head_rendered [of status fs p s'] http_body_cut
    by (subst http_message.simps) (simp add: status_error_def)
qed

text \<open>
  A response that announces the extent of its payload and is cut short anywhere, be it in an
  interim message, a header field, a chunk or the trailer, is refused.
\<close>

theorem http_truncation_refused:
  assumes "200 \<le> status" "status < 300" "list_all plain_field fs" "payload_ok p"
    and "framing_fields p \<noteq> []" "list_all interim_ok is"
    and "strict_prefix s (interim_text is @ http_response status fs p)"
  shows "parse_http_ipp_response s = fail errc.malformed_data"
proof -
  have "http_message s = fail errc.malformed_data"
    using assms(6,7)
  proof (induction "is" arbitrary: s)
    case Nil
    then show ?case using http_response_cut [OF assms(1-5)] by (simp add: interim_text_def)
  next
    case (Cons i js)
    let ?start = "http_start (fst i) (snd i @ framing_fields (Up_to_the_end []))"
    have i: "100 \<le> fst i" "fst i < 200" "list_all plain_field (snd i)"
      using Cons.prems by (simp_all add: interim_ok_def)
    have "strict_prefix s (?start @ interim_text js @ http_response status fs p)"
      using Cons.prems by (simp add: interim_text_def)
    then show ?case
    proof (cases rule: prefix_cases)
      case inside
      then show ?thesis
        using i http_head_cut [of "fst i" "snd i" "Up_to_the_end []" s]
        by (subst http_message.simps) (simp add: fail_def)
    next
      case (beyond s')
      then show ?thesis
        using i Cons http_head_rendered [of "fst i" "snd i" "Up_to_the_end []" s']
        by (subst http_message.simps) (simp add: announced_def)
    qed
  qed
  then show ?thesis by (simp add: parse_http_ipp_response_def)
qed

section \<open>Instances\<close>

definition example_payload :: http_payload where
  "example_payload = Chunked [''abc'', [carriage_return, newline, CHR ''0'']] [(''Digest'', ''none'')]"

lemma example_http_ok:
  "payload_ok example_payload" "framing_fields example_payload \<noteq> []"
  "plain_field (''Server'', ''CUPS/2.4'')" "interim_ok (100, [])"
  by (simp_all add: example_payload_def plain_field_def field_ok_def trimmed_def line_ok_def
      printer_space_def equals_ignore_case_def interim_ok_def)

theorem http_response_roundtrip_witness:
  "parse_http_ipp_response
     (interim_text [(100, [])] @ http_response 200 [(''Server'', ''CUPS/2.4'')] example_payload) =
   Value (payload_bytes example_payload)"
  by (rule http_response_roundtrip) (simp_all add: example_http_ok)

theorem http_truncation_refused_witness:
  "parse_http_ipp_response (http_start 100 []) = fail errc.malformed_data"
proof (rule http_truncation_refused)
  show "strict_prefix (http_start 100 [])
    (interim_text [(100, [])] @ http_response 200 [(''Server'', ''CUPS/2.4'')] example_payload)"
    by (simp add: interim_text_def http_response_def http_start_def strict_prefix_def)
qed (simp_all add: example_http_ok)

end
