(* ===== verification/Linux_Files.thy ===== *)
theory Linux_Files
  imports Linux_Io
begin

text \<open>
  The file system as the Linux backends see it. A query reads many paths; what the kernel answers for
  each of them while the query runs is the record \<open>host\<close>. The loop over a directory, which every
  backend writes out again, is one function of the body: it skips hidden names, and a failure to open
  or to read the directory goes into the query's \<open>last_error\<close> without ending the query.
\<close>

section \<open>Answers of the kernel\<close>

datatype directory_event = Entry string | Readdir_error int

datatype stat_outcome = Character_device | Directory | Regular_file | Other_file | Stat_error int

text \<open>
  \<open>ho_opendir\<close> and the two \<open>access\<close> answers are the error number of a failed call; \<open>ho_read\<close> is the
  outcome of \<open>read_text_file\<close> with a path and a limit; \<open>ho_readlink\<close> the target as far as the buffer
  holds it.
\<close>

record host =
  ho_opendir :: "string \<Rightarrow> int option"
  ho_entries :: "string \<Rightarrow> directory_event list"
  ho_stat :: "string \<Rightarrow> stat_outcome"
  ho_exists :: "string \<Rightarrow> int option"
  ho_executable :: "string \<Rightarrow> int option"
  ho_read :: "string \<Rightarrow> nat \<Rightarrow> string result"
  ho_readlink :: "string \<Rightarrow> nat \<Rightarrow> string option"
  ho_getenv :: "string \<Rightarrow> string option"

text \<open>\<open>std::error_code(errno, std::generic_category())\<close>.\<close>

definition errno_code :: "int \<Rightarrow> error_code" where
  "errno_code e = \<lparr>ec_value = e, ec_category = generic_category\<rparr>"

text \<open>\<open>code == std::errc::not_a_directory\<close>: no syscape error maps onto this condition.\<close>

definition is_not_a_directory :: "error_code \<Rightarrow> bool" where
  "is_not_a_directory c \<longleftrightarrow> ec_category c \<noteq> syscape_category \<and> ec_value c = ENOTDIR"

section \<open>Directory loops\<close>

text \<open>The state of a scan: what has been collected, and \<open>last_error\<close>.\<close>

type_synonym 's scan = "'s \<times> error_code"

definition scan_error :: "error_code \<Rightarrow> 's scan \<Rightarrow> 's scan" where
  "scan_error e st = (fst st, e)"

definition hidden :: "string \<Rightarrow> bool" where
  "hidden name \<longleftrightarrow> name \<noteq> [] \<and> hd name = CHR ''.''"

text \<open>
  \<open>for (;;) { errno = 0; entry = readdir(dir); if (entry == nullptr) { if (errno != 0) last_error = errno;
  break; } if (entry->d_name[0] == '.') continue; ... }\<close>.
\<close>

fun scan_entries :: "(string \<Rightarrow> 's scan \<Rightarrow> 's scan) \<Rightarrow> directory_event list \<Rightarrow> 's scan \<Rightarrow> 's scan" where
  "scan_entries body [] st = st"
| "scan_entries body (Readdir_error e # es) st = (if e \<noteq> 0 then scan_error (errno_code e) st else st)"
| "scan_entries body (Entry name # es) st =
     scan_entries body es (if hidden name then st else body name st)"

text \<open>\<open>opened\<close> is what the code does once the directory is open.\<close>

definition scan_directory ::
    "host \<Rightarrow> string \<Rightarrow> ('s \<Rightarrow> 's) \<Rightarrow> (string \<Rightarrow> 's scan \<Rightarrow> 's scan) \<Rightarrow> 's scan \<Rightarrow> 's scan" where
  "scan_directory host path opened body st =
     (case ho_opendir host path of
        Some e \<Rightarrow> if e \<noteq> ENOENT then scan_error (errno_code e) st else st
      | None \<Rightarrow> scan_entries body (ho_entries host path) (opened (fst st), snd st))"

text \<open>
  The other loop over a directory skips only the two dot entries and ends the query at the first error,
  of \<open>readdir\<close> or of the body.
\<close>

definition dot_entry :: "string \<Rightarrow> bool" where
  "dot_entry name \<longleftrightarrow> name = ''.'' \<or> name = ''..''"

fun each_entry :: "(string \<Rightarrow> 's \<Rightarrow> 's result) \<Rightarrow> directory_event list \<Rightarrow> 's \<Rightarrow> 's result" where
  "each_entry body [] s = Value s"
| "each_entry body (Readdir_error e # es) s = (if e \<noteq> 0 then fail_errno e else Value s)"
| "each_entry body (Entry name # es) s =
     (if dot_entry name then each_entry body es s else and_then (body name s) (each_entry body es))"

section \<open>Facts\<close>

text \<open>Whatever every body step and the opening keep, the loop keeps.\<close>

lemma fst_scan_error [simp]: "fst (scan_error e st) = fst st" "snd (scan_error e st) = e"
  by (simp_all add: scan_error_def)

lemma scan_entries_invariant:
  assumes "\<And>name st. I (fst st) \<Longrightarrow> I (fst (body name st))" "I (fst st)"
  shows "I (fst (scan_entries body es st))"
  using assms(2)
proof (induction es arbitrary: st)
  case (Cons ev es)
  show ?case
  proof (cases ev)
    case (Entry name)
    then show ?thesis using Cons assms(1) [of st name] by simp
  next
    case (Readdir_error e)
    then show ?thesis using Cons.prems by simp
  qed
qed simp

lemma scan_directory_invariant:
  assumes "I (fst st)" "\<And>s. I s \<Longrightarrow> I (opened s)" "\<And>name st. I (fst st) \<Longrightarrow> I (fst (body name st))"
  shows "I (fst (scan_directory host path opened body st))"
proof (cases "ho_opendir host path")
  case None
  then show ?thesis
    using assms scan_entries_invariant [of I body "(opened (fst st), snd st)"]
    by (simp add: scan_directory_def)
next
  case (Some e)
  then show ?thesis using assms(1) by (simp add: scan_directory_def)
qed

lemma each_entry_invariant:
  assumes "\<And>name s s'. I s \<Longrightarrow> \<not> dot_entry name \<Longrightarrow> body name s = Value s' \<Longrightarrow> I s'"
    and "I s" "each_entry body es s = Value s'"
  shows "I s'"
  using assms(2,3)
proof (induction es arbitrary: s)
  case (Cons ev es)
  show ?case
  proof (cases ev)
    case (Entry name)
    then show ?thesis
      using Cons assms(1) [of s name] by (auto simp: and_then_Value_iff split: if_splits)
  next
    case (Readdir_error e)
    then show ?thesis using Cons.prems by (simp split: if_splits)
  qed
qed simp

end
