(* ===== verification/Printer_Linux.thy ===== *)
theory Printer_Linux
  imports Printer_Conf Http_Correct Linux_Files
begin

text \<open>
  The Linux printer backend (\<open>detail/printer/linux.hpp\<close>): the exchange with the print daemon over its
  socket, the discovery of USB printer nodes, the snapshot that combines both with the default, and
  the four queries on it.

  The kernel's answers are the platform record. On the socket both timeouts are set before anything is
  sent, so a script of answers that is used up means the peer stays silent and the next call answers
  \<open>EAGAIN\<close>.
\<close>

section \<open>The daemon's socket\<close>

datatype connect_outcome = Socket_error int | Option_error int | Connected | Connect_error int

definition socket_paths :: "string list" where
  "socket_paths = [''/var/run/cups/cups.sock'', ''/run/cups/cups.sock'', ''/var/run/cups.sock'']"

fun connect_loop :: "(string \<Rightarrow> connect_outcome) \<Rightarrow> string list \<Rightarrow> unit result" where
  "connect_loop connect [] = fail errc.not_supported"
| "connect_loop connect (path # paths) =
     (case connect path of
        Socket_error e \<Rightarrow> fail_errno e
      | Option_error e \<Rightarrow> fail_errno e
      | Connected \<Rightarrow> Value ()
      | Connect_error e \<Rightarrow>
          if e \<noteq> ENOENT \<and> e \<noteq> ECONNREFUSED then fail_errno e else connect_loop connect paths)"

text \<open>The answers of \<open>send\<close> are its value and \<open>errno\<close>; \<open>EWOULDBLOCK\<close> is \<open>EAGAIN\<close> on Linux.\<close>

fun send_loop :: "nat \<Rightarrow> (int \<times> int) list \<Rightarrow> unit result" where
  "send_loop unsent [] =
     (if unsent = 0 then Value () else fail errc.temporarily_unavailable)"
| "send_loop unsent ((n, errno) # es) =
     (if unsent = 0 then Value ()
      else if n > 0 then send_loop (unsent - nat n) es
      else if n < 0 \<and> errno = EINTR then send_loop unsent es
      else if n < 0 \<and> errno = EAGAIN then fail errc.temporarily_unavailable
      else fail_errno errno)"

definition maximum_response :: nat where "maximum_response = 16 * 1024 * 1024"

fun recv_loop :: "string \<Rightarrow> read_event list \<Rightarrow> string result" where
  "recv_loop recv_buf [] = fail errc.temporarily_unavailable"
| "recv_loop recv_buf (Read chunk # es) =
     (if chunk \<noteq> [] then
        (if length recv_buf + length chunk > maximum_response then fail errc.value_too_large
         else recv_loop (recv_buf @ chunk) es)
      else Value recv_buf)"
| "recv_loop recv_buf (Read_error e # es) =
     (if e = EINTR then recv_loop recv_buf es
      else if e = EAGAIN then fail errc.temporarily_unavailable
      else fail_errno e)"

definition cups_http_request :: "string \<Rightarrow> string" where
  "cups_http_request payload =
     ''POST / HTTP/1.1'' @ crlf @ ''Host: localhost'' @ crlf @ ''User-Agent: syscape'' @ crlf @
     ''Connection: close'' @ crlf @ ''Content-Type: application/ipp'' @ crlf @
     ''Content-Length: '' @ dec_string (length payload) @ crlf @ crlf @ payload"

record cups_script =
  cu_connect :: "string \<Rightarrow> connect_outcome"
  cu_sends :: "(int \<times> int) list"
  cu_receives :: "read_event list"

definition query_cups_socket :: "cups_script \<Rightarrow> string \<Rightarrow> string result" where
  "query_cups_socket script payload =
     and_then (connect_loop (cu_connect script) socket_paths) (\<lambda>_.
     and_then (send_loop (length (cups_http_request payload)) (cu_sends script)) (\<lambda>_.
     and_then (recv_loop [] (cu_receives script)) (\<lambda>recv_buf.
       if recv_buf = [] then fail errc.malformed_data
       else parse_http_ipp_response recv_buf)))"

section \<open>USB printer nodes\<close>

definition usb_node_name :: "string \<Rightarrow> bool" where
  "usb_node_name name \<longleftrightarrow>
     \<not> (length name \<le> 2 \<or> take 2 name \<noteq> ''lp'' \<or> \<not> list_all is_digit (drop 2 name))"

text \<open>A text of the USB device: absent, or trimmed and validated.\<close>

definition usb_text :: "string result \<Rightarrow> string option result" where
  "usb_text contents =
     (case contents of
        Unexpected e \<Rightarrow> if \<not> is_no_such_file e then Unexpected e else Value None
      | Value s \<Rightarrow> Value (Some s))"

definition usb_label :: "string option \<Rightarrow> string result" where
  "usb_label contents =
     (case contents of None \<Rightarrow> Value [] | Some s \<Rightarrow> printer_validate_utf8 (trim_line_end s))"

definition usb_full_name :: "string result \<Rightarrow> string result \<Rightarrow> string result" where
  "usb_full_name vendor product =
     and_then (usb_text vendor) (\<lambda>vendor.
     and_then (usb_text product) (\<lambda>product.
     and_then (usb_label vendor) (\<lambda>full_name.
     and_then (usb_label product) (\<lambda>prod_str.
       Value (full_name @ (if full_name \<noteq> [] \<and> prod_str \<noteq> [] then '' '' else []) @ prod_str)))))"

definition usb_device_uri :: "(string \<Rightarrow> stat_outcome) \<Rightarrow> string \<Rightarrow> string result" where
  "usb_device_uri stat name =
     (let device_node = ''/dev/usb/'' @ name in
      case stat device_node of
        Character_device \<Rightarrow> Value device_node
      | Stat_error e \<Rightarrow> if e \<noteq> ENOENT \<and> e \<noteq> ENOTDIR then fail_errno e else Value []
      | _ \<Rightarrow> Value [])"

definition usb_printer ::
    "(string \<Rightarrow> stat_outcome) \<Rightarrow> (string \<Rightarrow> string result) \<Rightarrow> string \<Rightarrow> printer_info result" where
  "usb_printer stat read_file name =
     and_then (usb_device_uri stat name) (\<lambda>uri.
       (let dev_path = ''/sys/class/usbmisc/'' @ name @ ''/device'' in
        and_then (usb_full_name (read_file (dev_path @ ''/../manufacturer''))
                    (read_file (dev_path @ ''/../product''))) (\<lambda>full_name.
          Value (new_printer\<lparr>pi_id := name, pi_name := (if full_name \<noteq> [] then full_name else name),
            pi_driver_name := full_name, pi_type := printer_type.local_printer, pi_uri := uri\<rparr>))))"

fun usb_entries ::
    "(string \<Rightarrow> stat_outcome) \<Rightarrow> (string \<Rightarrow> string result) \<Rightarrow> directory_event list \<Rightarrow> printer_info list \<Rightarrow>
     printer_info list result" where
  "usb_entries stat read_file [] found = Value found"
| "usb_entries stat read_file (Readdir_error e # es) found = fail_errno e"
| "usb_entries stat read_file (Entry name # es) found =
     (if \<not> usb_node_name name then usb_entries stat read_file es found
      else and_then (usb_printer stat read_file name) (\<lambda>p. usb_entries stat read_file es (found @ [p])))"

definition discover_sysfs_usb_printers ::
    "directory_handle \<Rightarrow> directory_event list \<Rightarrow> (string \<Rightarrow> stat_outcome) \<Rightarrow> (string \<Rightarrow> string result) \<Rightarrow>
     printer_info list result" where
  "discover_sysfs_usb_printers handle entries stat read_file =
     (if \<not> dh_valid handle then
        (if dh_error handle = ENOENT \<or> dh_error handle = ENOTDIR then Value []
         else fail_errno (dh_error handle))
      else usb_entries stat read_file entries [])"

text \<open>\<open>merge_usb_printers\<close>: the test for a queue that is the same device, and the loop.\<close>

definition same_device :: "printer_info \<Rightarrow> printer_info \<Rightarrow> bool" where
  "same_device usb item =
     (let usb_identity = normalized_printer_identity (pi_name usb);
          usb_queue = starts_with_ignore_case (pi_uri item) ''usb://'';
          matching_identity = (usb_identity \<noteq> [] \<and>
            (normalized_printer_identity (pi_id item) = usb_identity \<or>
             normalized_printer_identity (pi_name item) = usb_identity \<or>
             usb_queue \<and> normalized_printer_identity (pi_uri item) = usb_identity))
      in
      pi_id item = pi_id usb \<or>
      (pi_uri usb \<noteq> [] \<and> pi_uri item = pi_uri usb) \<or>
      ((usb_queue \<or> pi_type item = printer_type.local_printer) \<and>
       (matching_identity \<or>
        (pi_name usb \<noteq> [] \<and> equals_ignore_case (pi_name item) (pi_name usb)) \<or>
        (pi_driver_name usb \<noteq> [] \<and> equals_ignore_case (pi_driver_name item) (pi_driver_name usb)))))"

fun merge_usb_printers :: "printer_info list \<Rightarrow> printer_info list \<Rightarrow> printer_info list" where
  "merge_usb_printers xs [] = xs"
| "merge_usb_printers xs (usb # us) =
     merge_usb_printers (if list_ex (same_device usb) xs then xs else xs @ [usb]) us"

section \<open>The snapshot\<close>

record printer_snapshot =
  ps_items :: "printer_info list"
  ps_default_error :: "error_code option"
  ps_default_known :: bool
  ps_default_name :: string

text \<open>What the platform answers while a snapshot is taken.\<close>

record printer_platform =
  pp_char_signed :: bool
  pp_getenv :: "string \<Rightarrow> string option"
  pp_cups :: "string \<Rightarrow> cups_script"
  pp_read_file :: "string \<Rightarrow> string result"
  pp_usb_directory :: directory_handle
  pp_usb_entries :: "directory_event list"
  pp_stat :: "string \<Rightarrow> stat_outcome"

definition environment_default_printer :: "(string \<Rightarrow> string option) \<Rightarrow> string option result" where
  "environment_default_printer getenv =
     (let value1 = getenv ''LPDEST'';
          value2 = (if value1 = None \<or> value1 = Some [] then getenv ''PRINTER'' else value1)
      in
      case value2 of
        None \<Rightarrow> Value None
      | Some s \<Rightarrow>
          if s = [] then Value None
          else and_then (printer_validate_utf8 s) (\<lambda>s. Value (Some s)))"

definition cups_query :: "printer_platform \<Rightarrow> string \<Rightarrow> string result" where
  "cups_query env request = query_cups_socket (pp_cups env request) request"

text \<open>The default the daemon names.\<close>

definition daemon_default :: "printer_platform \<Rightarrow> printer_snapshot \<Rightarrow> printer_snapshot" where
  "daemon_default env snapshot =
     (case cups_query env (build_get_default_request 1) of
        Unexpected e \<Rightarrow>
          snapshot\<lparr>ps_default_error := Some
            (if e = make_error_code errc.not_supported
             then make_error_code errc.temporarily_unavailable else e)\<rparr>
      | Value response \<Rightarrow>
          (case parse_ipp_printers_response response of
             Unexpected e \<Rightarrow>
               if e = make_error_code errc.not_found then snapshot\<lparr>ps_default_known := True\<rparr>
               else snapshot\<lparr>ps_default_error := Some e\<rparr>
           | Value ps \<Rightarrow>
               (if ps = [] then snapshot\<lparr>ps_default_known := True\<rparr>
                else snapshot\<lparr>ps_default_known := True, ps_default_name := pi_name (ps ! 0)\<rparr>)))"

definition configured_printers ::
    "printer_platform \<Rightarrow> bool \<Rightarrow> printer_snapshot \<Rightarrow> printer_snapshot result" where
  "configured_printers env environment_default snapshot =
     (case pp_read_file env ''/etc/cups/printers.conf'' of
        Value contents \<Rightarrow>
          and_then (parse_cups_printers_conf contents) (\<lambda>parsed.
            (let snapshot = snapshot\<lparr>ps_items := parsed\<rparr> in
             if environment_default then Value snapshot
             else (let snapshot = snapshot\<lparr>ps_default_known := True\<rparr> in
                   case find (\<lambda>item. pi_is_default item = Some True) parsed of
                     None \<Rightarrow> Value snapshot
                   | Some item \<Rightarrow> Value (snapshot\<lparr>ps_default_name := pi_name item\<rparr>))))
      | Unexpected e \<Rightarrow> if \<not> is_no_such_file e then Unexpected e else Value snapshot)"

definition queue_snapshot :: "printer_platform \<Rightarrow> string option \<Rightarrow> printer_snapshot result" where
  "queue_snapshot env environment_default =
     (let snapshot = \<lparr>ps_items = [], ps_default_error = None,
            ps_default_known = (environment_default \<noteq> None),
            ps_default_name = (case environment_default of None \<Rightarrow> [] | Some s \<Rightarrow> s)\<rparr>
      in
      case cups_query env (build_get_printers_request 1) of
        Value response \<Rightarrow>
          and_then (parse_ipp_printers_response response) (\<lambda>ps.
            (let snapshot = snapshot\<lparr>ps_items := ps\<rparr> in
             Value (if environment_default = None then daemon_default env snapshot else snapshot)))
      | Unexpected e \<Rightarrow>
          if e \<noteq> make_error_code errc.not_supported then Unexpected e
          else configured_printers env (environment_default \<noteq> None) snapshot)"

definition query_printer_snapshot :: "printer_platform \<Rightarrow> printer_snapshot result" where
  "query_printer_snapshot env =
     and_then (environment_default_printer (pp_getenv env)) (\<lambda>environment_default.
     and_then (queue_snapshot env environment_default) (\<lambda>snapshot.
     and_then (discover_sysfs_usb_printers (pp_usb_directory env) (pp_usb_entries env) (pp_stat env)
                 (pp_read_file env)) (\<lambda>usb_list.
       (let items = merge_usb_printers (ps_items snapshot) usb_list;
            items = (if ps_default_known snapshot then set_default_by_name items (ps_default_name snapshot)
                     else items)
        in Value (snapshot\<lparr>ps_items :=
             std_sort (\<lambda>a b. natural_less (pp_char_signed env) (pi_name a) (pi_name b)) items\<rparr>)))))"

definition printers :: "printer_platform \<Rightarrow> printer_info list result" where
  "printers env = and_then (query_printer_snapshot env) (\<lambda>snapshot. Value (ps_items snapshot))"

definition printer_count :: "printer_platform \<Rightarrow> nat result" where
  "printer_count env = and_then (printers env) (\<lambda>ps. Value (length ps))"

definition default_printer :: "printer_platform \<Rightarrow> printer_info result" where
  "default_printer env =
     and_then (query_printer_snapshot env) (\<lambda>snapshot.
       resolve_snapshot_default (ps_items snapshot) (ps_default_known snapshot) (ps_default_error snapshot))"

definition find_printer :: "printer_platform \<Rightarrow> string \<Rightarrow> printer_info result" where
  "find_printer env name_or_id =
     and_then (printers env) (\<lambda>ps.
       case find (\<lambda>item. pi_id item = name_or_id \<or> pi_name item = name_or_id) ps of
         Some item \<Rightarrow> Value item
       | None \<Rightarrow>
           (case find (\<lambda>item. equals_ignore_case (pi_id item) name_or_id \<or>
                              equals_ignore_case (pi_name item) name_or_id) ps of
              Some item \<Rightarrow> Value item
            | None \<Rightarrow> fail errc.not_found))"

section \<open>Correctness\<close>

text \<open>The exchange never holds more than the maximum plus what the last call delivered.\<close>

lemma recv_loop_value:
  "recv_loop buf es = Value s \<Longrightarrow> length buf \<le> maximum_response \<Longrightarrow>
   length s \<le> maximum_response \<and> (\<exists>c. file_content es = Some c \<and> s = buf @ c)"
proof (induction buf es rule: recv_loop.induct)
  case (2 buf chunk es)
  then show ?case by (cases "file_content es") (auto split: if_splits)
qed (auto split: if_splits)

lemma send_loop_all:
  "send_loop n es = Value () \<Longrightarrow> n = 0 \<or> n \<le> (\<Sum>(k, e) \<leftarrow> es. nat k)"
proof (induction n es rule: send_loop.induct)
  case (2 n k e es)
  then show ?case by (fastforce split: if_splits)
qed (auto split: if_splits)

text \<open>A queue list is ordered by name, and the order does not depend on the sorting algorithm.\<close>

definition name_less :: "bool \<Rightarrow> printer_info \<Rightarrow> printer_info \<Rightarrow> bool" where
  "name_less cs a b \<longleftrightarrow> natural_less cs (pi_name a) (pi_name b)"

interpretation by_name: strict_weak_order "name_less cs" for cs
proof
  fix a b c
  show "\<not> name_less cs a a" by (simp add: name_less_def natural.irrefl)
  show "name_less cs a b \<Longrightarrow> \<not> name_less cs b a"
    unfolding name_less_def by (rule natural.asym)
  show "name_less cs a c \<Longrightarrow> name_less cs a b \<or> name_less cs b c"
    unfolding name_less_def by (rule natural.neg_trans)
qed

text \<open>Merging keeps every queue and adds only devices that no queue stands for.\<close>

lemma merge_keeps: "set xs \<subseteq> set (merge_usb_printers xs us)"
  by (induction xs us rule: merge_usb_printers.induct) (auto split: if_splits)

lemma merge_within: "set (merge_usb_printers xs us) \<subseteq> set xs \<union> set us"
  by (induction xs us rule: merge_usb_printers.induct) (auto split: if_splits)

lemma same_device_self: "same_device usb usb"
  by (simp add: same_device_def Let_def)

lemma merge_represents:
  "usb \<in> set us \<Longrightarrow> \<exists>item \<in> set (merge_usb_printers xs us). same_device usb item"
proof (induction xs us rule: merge_usb_printers.induct)
  case (2 xs u us)
  let ?ys = "if list_ex (same_device u) xs then xs else xs @ [u]"
  show ?case
  proof (cases "usb = u")
    case True
    then have "\<exists>item \<in> set ?ys. same_device usb item"
      using same_device_self by (auto simp: list_ex_iff)
    moreover have "set ?ys \<subseteq> set (merge_usb_printers xs (u # us))"
      using merge_keeps [of ?ys us] by simp
    ultimately show ?thesis by blast
  next
    case False
    then show ?thesis using 2 by simp
  qed
qed simp

definition is_default_for :: "printer_snapshot \<Rightarrow> printer_info \<Rightarrow> bool" where
  "is_default_for snap p \<longleftrightarrow> pi_id p = ps_default_name snap \<or> pi_name p = ps_default_name snap"

lemma snapshot_items:
  assumes "query_printer_snapshot env = Value snap"
  obtains environment_default base usb_list where
    "queue_snapshot env environment_default = Value base"
    "ps_default_known snap = ps_default_known base" "ps_default_name snap = ps_default_name base"
    "ps_default_error snap = ps_default_error base"
    "ps_items snap = std_sort (name_less (pp_char_signed env))
       (if ps_default_known base then set_default_by_name (merge_usb_printers (ps_items base) usb_list) (ps_default_name base)
        else merge_usb_printers (ps_items base) usb_list)"
  using assms
  by (auto simp: query_printer_snapshot_def and_then_Value_iff Let_def name_less_def [abs_def])

text \<open>
  A snapshot lists its queues in the natural order of their names, and when the effective default
  is known, exactly the queues of that name or identifier are marked as default.
\<close>

theorem snapshot_ordered_and_marked:
  assumes "query_printer_snapshot env = Value snap"
  shows "in_order (name_less (pp_char_signed env)) (ps_items snap) \<and>
    list_all (\<lambda>p. \<not> ps_default_known snap \<or> pi_is_default p = Some (is_default_for snap p)) (ps_items snap)"
proof -
  from assms show ?thesis
  proof (rule snapshot_items)
    fix environment_default base usb_list
    let ?merged = "merge_usb_printers (ps_items base) usb_list"
    assume known: "ps_default_known snap = ps_default_known base"
      and name: "ps_default_name snap = ps_default_name base"
      and items: "ps_items snap = std_sort (name_less (pp_char_signed env))
         (if ps_default_known base then set_default_by_name ?merged (ps_default_name base) else ?merged)"
    have "in_order (name_less (pp_char_signed env)) (ps_items snap)"
      unfolding items by (rule by_name.std_sort_in_order)
    moreover have "list_all (\<lambda>p. \<not> ps_default_known snap \<or> pi_is_default p = Some (is_default_for snap p)) (ps_items snap)"
    proof (cases "ps_default_known base")
      case True
      then have "set (ps_items snap) = set (set_default_by_name ?merged (ps_default_name base))"
        by (simp add: items)
      then show ?thesis
        by (auto simp: list_all_iff set_default_by_name_def is_default_for_def name)
    qed (simp add: known list_all_iff)
    ultimately show ?thesis by blast
  qed
qed

text \<open>
  The default printer that is reported is an entry of the snapshot that is marked as the default;
  when the snapshot lists queues and none is marked, the answer is the error of the default query, or
  \<open>not_supported\<close> when the default is unknown, or \<open>not_found\<close>.
\<close>

theorem default_printer_exact:
  assumes "query_printer_snapshot env = Value snap"
  shows "default_printer env =
    (case filter (\<lambda>p. pi_is_default p = Some True) (ps_items snap) of
       p # _ \<Rightarrow> Value p
     | [] \<Rightarrow>
        (if ps_items snap = [] then fail errc.not_found
         else case ps_default_error snap of
             Some e \<Rightarrow> Unexpected e
           | None \<Rightarrow> if ps_default_known snap then fail errc.not_found else fail errc.not_supported))"
proof -
  have f: "find P xs = (case filter P xs of [] \<Rightarrow> None | x # _ \<Rightarrow> Some x)" for P and xs :: "printer_info list"
    by (induction xs) auto
  show ?thesis
    using assms
    by (cases "ps_items snap = []")
      (auto simp: default_printer_def resolve_snapshot_default_def marked_default_printer_def f
        fail_def split: list.splits option.splits)
qed

text \<open>A platform without a daemon and without devices, for the instances.\<close>

definition bare_platform :: "string \<Rightarrow> printer_platform" where
  "bare_platform conf =
     \<lparr>pp_char_signed = True, pp_getenv = (\<lambda>_. None),
      pp_cups = (\<lambda>_. \<lparr>cu_connect = (\<lambda>_. Connect_error ENOENT), cu_sends = [], cu_receives = []\<rparr>),
      pp_read_file = (\<lambda>path. if path = ''/etc/cups/printers.conf'' then Value conf else fail_errno ENOENT),
      pp_usb_directory = open_directory (Some ENOENT), pp_usb_entries = [],
      pp_stat = (\<lambda>_. Stat_error ENOENT)\<rparr>"

lemma bare_snapshot:
  assumes "parse_cups_printers_conf conf = Value ps"
  defines "d \<equiv> (case find (\<lambda>p. pi_is_default p = Some True) ps of None \<Rightarrow> [] | Some p \<Rightarrow> pi_name p)"
  shows "query_printer_snapshot (bare_platform conf) =
    Value \<lparr>ps_items = std_sort (name_less True) (set_default_by_name ps d), ps_default_error = None,
      ps_default_known = True, ps_default_name = d\<rparr>"
proof -
  have "cups_query (bare_platform conf) r = fail errc.not_supported" for r
    by (simp add: cups_query_def query_cups_socket_def bare_platform_def socket_paths_def)
  then show ?thesis
    using assms(1)
    by (simp add: query_printer_snapshot_def environment_default_printer_def bare_platform_def
        queue_snapshot_def configured_printers_def discover_sysfs_usb_printers_def open_directory_def
        Let_def fail_def d_def name_less_def [abs_def] split: option.splits)
qed

definition example_snapshot :: printer_snapshot where
  "example_snapshot =
     \<lparr>ps_items = std_sort (name_less True) (set_default_by_name (map queue_printer example_queues) ''lab''),
      ps_default_error = None, ps_default_known = True, ps_default_name = ''lab''\<rparr>"

lemma example_snapshot_taken:
  "query_printer_snapshot (bare_platform (conf_text example_queues)) = Value example_snapshot"
proof -
  have "parse_cups_printers_conf (conf_text example_queues) = Value (map queue_printer example_queues)"
    using conf_lines_queues [OF example_queues_ok, of initial_conf_state]
      lines_of_unlines [of "concat (map queue_lines example_queues)"] queue_lines_ok example_queues_ok
    by (auto simp: parse_cups_printers_conf_def conf_text_def initial_conf_state_def example_queues_def)
  from bare_snapshot [OF this] show ?thesis
    by (simp add: example_snapshot_def example_queues_def queue_printer_def)
qed

theorem snapshot_ordered_and_marked_witness:
  "in_order (name_less True) (ps_items example_snapshot) \<and>
   list_all (\<lambda>p. \<not> ps_default_known example_snapshot \<or>
      pi_is_default p = Some (is_default_for example_snapshot p)) (ps_items example_snapshot)"
  using snapshot_ordered_and_marked [OF example_snapshot_taken] by (simp add: bare_platform_def)

theorem default_printer_exact_witness:
  "default_printer (bare_platform (conf_text example_queues)) =
    (case filter (\<lambda>p. pi_is_default p = Some True) (ps_items example_snapshot) of
       p # _ \<Rightarrow> Value p
     | [] \<Rightarrow>
        (if ps_items example_snapshot = [] then fail errc.not_found
         else case ps_default_error example_snapshot of
             Some e \<Rightarrow> Unexpected e
           | None \<Rightarrow> if ps_default_known example_snapshot then fail errc.not_found else fail errc.not_supported))"
  by (rule default_printer_exact [OF example_snapshot_taken])

end
