(* ===== verification/Software.thy ===== *)
theory Software
  imports Ordering Utf8_Correct Text_Scan
begin

text \<open>
  The software module: the records and orders every backend shares (\<open>detail/software/common.hpp\<close>)
  and the conversion to the public entries (\<open>software.hpp\<close>).

  A deduplication key is a chain of length-prefixed fields. Two records have the same key exactly
  when the fields agree, an absent field counting as an empty one.
\<close>

section \<open>Records\<close>

datatype service_state = unknown | running | stopped | paused | starting | stopping

datatype service_startup = unknown | automatic | manual | disabled | delayed_automatic

datatype driver_state = unknown | loaded | running | unloading

datatype package_format =
    unknown
  | dpkg
  | rpm
  | pacman
  | apk
  | desktop_entry
  | windows_installer
  | macos_bundle

datatype update_classification =
    unknown
  | security
  | critical
  | bugfix
  | feature
  | definition_update
  | driver
  | rollup

datatype update_severity = unknown | unspecified | low | moderate | important | critical

datatype runtime_kind = unknown | dotnet | java | python | nodejs | rust | golang | ruby | php

text \<open>\<open>static_cast<int>\<close> of the two enumerations that keys and orders use.\<close>

fun package_format_value :: "package_format \<Rightarrow> nat" where
  "package_format_value package_format.unknown = 0"
| "package_format_value dpkg = 1"
| "package_format_value rpm = 2"
| "package_format_value pacman = 3"
| "package_format_value apk = 4"
| "package_format_value desktop_entry = 5"
| "package_format_value windows_installer = 6"
| "package_format_value macos_bundle = 7"

fun runtime_kind_value :: "runtime_kind \<Rightarrow> nat" where
  "runtime_kind_value runtime_kind.unknown = 0"
| "runtime_kind_value dotnet = 1"
| "runtime_kind_value java = 2"
| "runtime_kind_value python = 3"
| "runtime_kind_value nodejs = 4"
| "runtime_kind_value rust = 5"
| "runtime_kind_value golang = 6"
| "runtime_kind_value ruby = 7"
| "runtime_kind_value php = 8"

lemma package_format_value_inject [simp]:
  "package_format_value a = package_format_value b \<longleftrightarrow> a = b"
  by (cases a; cases b) simp_all

lemma runtime_kind_value_inject [simp]: "runtime_kind_value a = runtime_kind_value b \<longleftrightarrow> a = b"
  by (cases a; cases b) simp_all

record service_record =
  svc_name :: string
  svc_display_name :: "string option"
  svc_description :: "string option"
  svc_state :: service_state
  svc_startup_type :: service_startup
  svc_pid :: "u32 option"
  svc_executable_path :: "string option"

record driver_record =
  drv_name :: string
  drv_size_bytes :: "u64 option"
  drv_use_count :: "u32 option"
  drv_state :: driver_state
  drv_path :: "string option"

record package_record =
  pkg_name :: string
  pkg_version :: "string option"
  pkg_publisher :: "string option"
  pkg_install_location :: "string option"
  pkg_architecture :: "string option"
  pkg_format :: package_format
  pkg_description :: "string option"

record update_record =
  upd_identifier :: string
  upd_title :: string
  upd_version :: "string option"
  upd_classification :: update_classification
  upd_severity :: update_severity
  upd_requires_reboot :: bool
  upd_description :: "string option"

record runtime_record =
  run_kind :: runtime_kind
  run_name :: string
  run_version :: string
  run_installation_path :: string
  run_architecture :: "string option"

text \<open>The default-constructed records.\<close>

definition new_service :: service_record where
  "new_service = \<lparr>svc_name = [], svc_display_name = None, svc_description = None,
     svc_state = service_state.unknown, svc_startup_type = service_startup.unknown,
     svc_pid = None, svc_executable_path = None\<rparr>"

definition new_driver :: driver_record where
  "new_driver = \<lparr>drv_name = [], drv_size_bytes = None, drv_use_count = None,
     drv_state = driver_state.unknown, drv_path = None\<rparr>"

definition new_package :: "package_format \<Rightarrow> package_record" where
  "new_package format = \<lparr>pkg_name = [], pkg_version = None, pkg_publisher = None,
     pkg_install_location = None, pkg_architecture = None, pkg_format = format,
     pkg_description = None\<rparr>"

definition new_update :: update_record where
  "new_update = \<lparr>upd_identifier = [], upd_title = [], upd_version = None,
     upd_classification = update_classification.unknown, upd_severity = update_severity.unknown,
     upd_requires_reboot = False, upd_description = None\<rparr>"

definition new_runtime :: runtime_record where
  "new_runtime = \<lparr>run_kind = runtime_kind.unknown, run_name = [], run_version = [],
     run_installation_path = [], run_architecture = None\<rparr>"

section \<open>Orders\<close>

definition compare_services :: "service_record \<Rightarrow> service_record \<Rightarrow> bool" where
  "compare_services lhs rhs \<longleftrightarrow> svc_name lhs < svc_name rhs"

definition compare_drivers :: "driver_record \<Rightarrow> driver_record \<Rightarrow> bool" where
  "compare_drivers lhs rhs \<longleftrightarrow> drv_name lhs < drv_name rhs"

definition compare_packages :: "package_record \<Rightarrow> package_record \<Rightarrow> bool" where
  "compare_packages lhs rhs =
     (if pkg_name lhs \<noteq> pkg_name rhs then pkg_name lhs < pkg_name rhs
      else if pkg_version lhs \<noteq> pkg_version rhs then pkg_version lhs < pkg_version rhs
      else pkg_architecture lhs < pkg_architecture rhs)"

definition compare_updates :: "update_record \<Rightarrow> update_record \<Rightarrow> bool" where
  "compare_updates lhs rhs =
     (if upd_identifier lhs \<noteq> upd_identifier rhs then upd_identifier lhs < upd_identifier rhs
      else upd_title lhs < upd_title rhs)"

definition compare_runtimes :: "runtime_record \<Rightarrow> runtime_record \<Rightarrow> bool" where
  "compare_runtimes lhs rhs =
     (if run_kind lhs \<noteq> run_kind rhs
        then runtime_kind_value (run_kind lhs) < runtime_kind_value (run_kind rhs)
      else if run_name lhs \<noteq> run_name rhs then run_name lhs < run_name rhs
      else if run_version lhs \<noteq> run_version rhs then run_version lhs < run_version rhs
      else run_installation_path lhs < run_installation_path rhs)"

interpretation services: strict_weak_order compare_services
  unfolding compare_services_def [abs_def] by (rule swo_key)

interpretation drivers: strict_weak_order compare_drivers
  unfolding compare_drivers_def [abs_def] by (rule swo_key)

interpretation packages: strict_weak_order compare_packages
  unfolding compare_packages_def [abs_def] by (intro swo_chain swo_key)

interpretation updates: strict_weak_order compare_updates
  unfolding compare_updates_def [abs_def] by (intro swo_chain swo_key)

lemma compare_runtimes_chain:
  "compare_runtimes = (\<lambda>a b.
     if runtime_kind_value (run_kind a) \<noteq> runtime_kind_value (run_kind b)
       then runtime_kind_value (run_kind a) < runtime_kind_value (run_kind b)
     else if run_name a \<noteq> run_name b then run_name a < run_name b
     else if run_version a \<noteq> run_version b then run_version a < run_version b
     else run_installation_path a < run_installation_path b)"
  by (simp add: fun_eq_iff compare_runtimes_def)

interpretation runtimes: strict_weak_order compare_runtimes
  unfolding compare_runtimes_chain by (intro swo_chain swo_key)

section \<open>Deduplication keys\<close>

definition append_length_prefixed :: "string \<Rightarrow> string \<Rightarrow> string" where
  "append_length_prefixed out val = ((out @ dec_string (length val)) @ [CHR '':'']) @ val"

text \<open>\<open>opt ? std::string_view(*opt) : std::string_view{}\<close>.\<close>

definition text_or_empty :: "string option \<Rightarrow> string" where
  "text_or_empty opt = (case opt of None \<Rightarrow> [] | Some s \<Rightarrow> s)"

definition make_package_dedup_key :: "package_record \<Rightarrow> string" where
  "make_package_dedup_key rec =
     (let key = append_length_prefixed [] (pkg_name rec);
          key = append_length_prefixed key (text_or_empty (pkg_version rec));
          key = append_length_prefixed key (text_or_empty (pkg_architecture rec));
          key = append_length_prefixed key (text_or_empty (pkg_install_location rec))
      in append_length_prefixed key (dec_string (package_format_value (pkg_format rec))))"

definition make_runtime_dedup_key :: "runtime_record \<Rightarrow> string" where
  "make_runtime_dedup_key rec =
     (let key = append_length_prefixed [] (dec_string (runtime_kind_value (run_kind rec)));
          key = append_length_prefixed key (run_name rec);
          key = append_length_prefixed key (run_version rec);
          key = append_length_prefixed key (run_installation_path rec)
      in append_length_prefixed key (text_or_empty (run_architecture rec)))"

subsection \<open>Keys separate their fields\<close>

definition prefixed :: "string list \<Rightarrow> string" where
  "prefixed vals = foldl append_length_prefixed [] vals"

lemma foldl_prefixed: "foldl append_length_prefixed out vals = out @ prefixed vals"
proof (induction vals arbitrary: out)
  case (Cons v vals)
  have "foldl append_length_prefixed out (v # vals) = append_length_prefixed out v @ prefixed vals"
    by (simp add: Cons)
  also have "\<dots> = out @ append_length_prefixed [] v @ prefixed vals"
    by (simp add: append_length_prefixed_def)
  also have "append_length_prefixed [] v @ prefixed vals = prefixed (v # vals)"
    using Cons [of "append_length_prefixed [] v"] by (simp add: prefixed_def [of "v # vals"])
  finally show ?case .
qed (simp add: prefixed_def)

lemma prefixed_Cons: "prefixed (v # vals) = dec_string (length v) @ CHR '':'' # v @ prefixed vals"
  using foldl_prefixed [of "append_length_prefixed [] v" vals]
  by (simp add: prefixed_def append_length_prefixed_def)

lemma colon_not_digit: "\<not> is_digit CHR '':''"
  by (simp add: is_digit_def)

lemma length_prefix_inject:
  assumes "dec_string m @ CHR '':'' # r = dec_string n @ CHR '':'' # s"
  shows "m = n \<and> r = s"
proof -
  have free: "CHR '':'' \<notin> set (dec_string k)" for k
    using digits_free [OF dec_string_digits colon_not_digit] .
  have "takeWhile (\<lambda>c. c \<noteq> CHR '':'') (dec_string m @ CHR '':'' # r) = dec_string m"
    "takeWhile (\<lambda>c. c \<noteq> CHR '':'') (dec_string n @ CHR '':'' # s) = dec_string n"
    by (rule takeWhile_until [OF free])+
  then have "dec_string m = dec_string n" using assms by metis
  then have "m = n" by (metis dec_value_string)
  with assms show ?thesis by simp
qed

lemma prefixed_inject: "length vals = length ws \<Longrightarrow> prefixed vals = prefixed ws \<longleftrightarrow> vals = ws"
proof (induction vals ws rule: list_induct2)
  case (Cons v vals w ws)
  show ?case
  proof
    assume "prefixed (v # vals) = prefixed (w # ws)"
    from length_prefix_inject [OF this [unfolded prefixed_Cons]]
    have "v = w" "prefixed vals = prefixed ws" by auto
    with Cons.IH show "v # vals = w # ws" by simp
  qed simp
qed simp

text \<open>
  Two packages are taken for duplicates exactly when they agree in name, version, architecture,
  installation path and format, where an absent field and an empty one are not told apart; two
  runtimes likewise with kind, name, version, path and architecture. No text in one field can
  imitate another field.
\<close>

theorem dedup_keys_exact:
  "(make_package_dedup_key p = make_package_dedup_key q \<longleftrightarrow>
     pkg_name p = pkg_name q \<and> text_or_empty (pkg_version p) = text_or_empty (pkg_version q) \<and>
     text_or_empty (pkg_architecture p) = text_or_empty (pkg_architecture q) \<and>
     text_or_empty (pkg_install_location p) = text_or_empty (pkg_install_location q) \<and>
     pkg_format p = pkg_format q) \<and>
   (make_runtime_dedup_key r = make_runtime_dedup_key s \<longleftrightarrow>
     run_kind r = run_kind s \<and> run_name r = run_name s \<and> run_version r = run_version s \<and>
     run_installation_path r = run_installation_path s \<and>
     text_or_empty (run_architecture r) = text_or_empty (run_architecture s))"
proof -
  have dec: "dec_string m = dec_string n \<longleftrightarrow> m = n" for m n
    by (metis dec_value_string)
  let ?pk = "\<lambda>p. [pkg_name p, text_or_empty (pkg_version p), text_or_empty (pkg_architecture p),
      text_or_empty (pkg_install_location p), dec_string (package_format_value (pkg_format p))]"
  let ?rk = "\<lambda>r. [dec_string (runtime_kind_value (run_kind r)), run_name r, run_version r,
      run_installation_path r, text_or_empty (run_architecture r)]"
  have "make_package_dedup_key p = prefixed (?pk p)" for p
    by (simp add: make_package_dedup_key_def prefixed_def)
  then have pk: "make_package_dedup_key p = make_package_dedup_key q \<longleftrightarrow>
     pkg_name p = pkg_name q \<and> text_or_empty (pkg_version p) = text_or_empty (pkg_version q) \<and>
     text_or_empty (pkg_architecture p) = text_or_empty (pkg_architecture q) \<and>
     text_or_empty (pkg_install_location p) = text_or_empty (pkg_install_location q) \<and>
     pkg_format p = pkg_format q"
    by (simp add: prefixed_inject dec)
  have "make_runtime_dedup_key r = prefixed (?rk r)" for r
    by (simp add: make_runtime_dedup_key_def prefixed_def)
  then have "make_runtime_dedup_key r = make_runtime_dedup_key s \<longleftrightarrow>
     run_kind r = run_kind s \<and> run_name r = run_name s \<and> run_version r = run_version s \<and>
     run_installation_path r = run_installation_path s \<and>
     text_or_empty (run_architecture r) = text_or_empty (run_architecture s)"
    by (simp add: prefixed_inject dec)
  with pk show ?thesis by blast
qed

text \<open>
  The comment on the key calls it collision-free. It is not: a record with no version and one with
  the empty version have the same key.
\<close>

theorem package_key_collision:
  "make_package_dedup_key (new_package dpkg\<lparr>pkg_name := ''a'', pkg_version := None\<rparr>) =
     make_package_dedup_key (new_package dpkg\<lparr>pkg_name := ''a'', pkg_version := Some []\<rparr>) \<and>
   new_package dpkg\<lparr>pkg_name := ''a'', pkg_version := None\<rparr> \<noteq>
     new_package dpkg\<lparr>pkg_name := ''a'', pkg_version := Some []\<rparr>"
  by (simp add: make_package_dedup_key_def new_package_def text_or_empty_def)

section \<open>Public entries\<close>

record service_entry =
  se_name :: string
  se_display_name :: "string option"
  se_description :: "string option"
  se_state :: service_state
  se_startup_type :: service_startup
  se_pid :: "u32 option"
  se_executable_path :: "string option"

record driver_entry =
  de_name :: string
  de_size_bytes :: "u64 option"
  de_use_count :: "u32 option"
  de_state :: driver_state
  de_path :: "string option"

record package_entry =
  pe_name :: string
  pe_version :: "string option"
  pe_publisher :: "string option"
  pe_install_location :: "string option"
  pe_architecture :: "string option"
  pe_format :: package_format
  pe_description :: "string option"

record update_entry =
  ue_identifier :: string
  ue_title :: string
  ue_version :: "string option"
  ue_classification :: update_classification
  ue_severity :: update_severity
  ue_requires_reboot :: bool
  ue_description :: "string option"

record runtime_entry =
  re_kind :: runtime_kind
  re_name :: string
  re_version :: string
  re_installation_path :: string
  re_architecture :: "string option"

definition make_public_service :: "service_record \<Rightarrow> service_entry" where
  "make_public_service rec =
     \<lparr>se_name = svc_name rec, se_display_name = svc_display_name rec,
      se_description = svc_description rec, se_state = svc_state rec,
      se_startup_type = svc_startup_type rec, se_pid = svc_pid rec,
      se_executable_path = svc_executable_path rec\<rparr>"

definition make_public_driver :: "driver_record \<Rightarrow> driver_entry" where
  "make_public_driver rec =
     \<lparr>de_name = drv_name rec, de_size_bytes = drv_size_bytes rec, de_use_count = drv_use_count rec,
      de_state = drv_state rec, de_path = drv_path rec\<rparr>"

definition make_public_package :: "package_record \<Rightarrow> package_entry" where
  "make_public_package rec =
     \<lparr>pe_name = pkg_name rec, pe_version = pkg_version rec, pe_publisher = pkg_publisher rec,
      pe_install_location = pkg_install_location rec, pe_architecture = pkg_architecture rec,
      pe_format = pkg_format rec, pe_description = pkg_description rec\<rparr>"

text \<open>\<open>opt && !is_valid_utf8(*opt)\<close>.\<close>

definition bad_optional :: "string option \<Rightarrow> bool" where
  "bad_optional opt = (case opt of None \<Rightarrow> False | Some s \<Rightarrow> \<not> is_valid_utf8 s)"

definition make_public_update :: "update_record \<Rightarrow> update_entry result" where
  "make_public_update rec =
     (if \<not> is_valid_utf8 (upd_identifier rec) \<or> \<not> is_valid_utf8 (upd_title rec) \<or>
         bad_optional (upd_version rec) \<or> bad_optional (upd_description rec)
        then fail errc.invalid_encoding
      else Value
        \<lparr>ue_identifier = upd_identifier rec, ue_title = upd_title rec, ue_version = upd_version rec,
         ue_classification = upd_classification rec, ue_severity = upd_severity rec,
         ue_requires_reboot = upd_requires_reboot rec, ue_description = upd_description rec\<rparr>)"

definition make_public_runtime :: "runtime_record \<Rightarrow> runtime_entry result" where
  "make_public_runtime rec =
     (if \<not> is_valid_utf8 (run_name rec) \<or> \<not> is_valid_utf8 (run_version rec) \<or>
         \<not> is_valid_utf8 (run_installation_path rec) \<or> bad_optional (run_architecture rec)
        then fail errc.invalid_encoding
      else Value
        \<lparr>re_kind = run_kind rec, re_name = run_name rec, re_version = run_version rec,
         re_installation_path = run_installation_path rec, re_architecture = run_architecture rec\<rparr>)"

text \<open>The loop that converts a list and stops at the first record that does not convert.\<close>

fun convert_each :: "('a \<Rightarrow> 'b result) \<Rightarrow> 'a list \<Rightarrow> 'b list result" where
  "convert_each convert [] = Value []"
| "convert_each convert (x # xs) =
     and_then (convert x) (\<lambda>entry. and_then (convert_each convert xs) (\<lambda>rest. Value (entry # rest)))"

text \<open>The public queries, over the answer of the backend.\<close>

definition public_services :: "service_record list result \<Rightarrow> service_entry list result" where
  "public_services records = and_then records (\<lambda>rs. Value (map make_public_service rs))"

definition public_find_service :: "service_record result \<Rightarrow> service_entry result" where
  "public_find_service rec = and_then rec (\<lambda>r. Value (make_public_service r))"

definition public_loaded_drivers :: "driver_record list result \<Rightarrow> driver_entry list result" where
  "public_loaded_drivers records = and_then records (\<lambda>rs. Value (map make_public_driver rs))"

definition public_find_driver :: "driver_record result \<Rightarrow> driver_entry result" where
  "public_find_driver rec = and_then rec (\<lambda>r. Value (make_public_driver r))"

definition public_installed_packages :: "package_record list result \<Rightarrow> package_entry list result" where
  "public_installed_packages records = and_then records (\<lambda>rs. Value (map make_public_package rs))"

definition public_find_package :: "package_record result \<Rightarrow> package_entry result" where
  "public_find_package rec = and_then rec (\<lambda>r. Value (make_public_package r))"

definition public_system_updates :: "update_record list result \<Rightarrow> update_entry list result" where
  "public_system_updates records = and_then records (convert_each make_public_update)"

definition public_installed_runtimes :: "runtime_record list result \<Rightarrow> runtime_entry list result" where
  "public_installed_runtimes records = and_then records (convert_each make_public_runtime)"

lemma convert_each_all:
  "convert_each convert xs = Value ys \<Longrightarrow> (\<And>x y. convert x = Value y \<Longrightarrow> P y) \<Longrightarrow> list_all P ys"
  by (induction xs arbitrary: ys) (auto simp: and_then_Value_iff)

definition update_text_valid :: "update_entry \<Rightarrow> bool" where
  "update_text_valid e \<longleftrightarrow> is_valid_utf8 (ue_identifier e) \<and> is_valid_utf8 (ue_title e) \<and>
     \<not> bad_optional (ue_version e) \<and> \<not> bad_optional (ue_description e)"

definition runtime_text_valid :: "runtime_entry \<Rightarrow> bool" where
  "runtime_text_valid e \<longleftrightarrow> is_valid_utf8 (re_name e) \<and> is_valid_utf8 (re_version e) \<and>
     is_valid_utf8 (re_installation_path e) \<and> \<not> bad_optional (re_architecture e)"

text \<open>Updates and runtimes reach the caller as UTF-8 only.\<close>

lemma public_updates_utf8:
  "public_system_updates records = Value es \<Longrightarrow> list_all update_text_valid es"
  unfolding public_system_updates_def and_then_Value_iff
  by (elim exE conjE, erule convert_each_all)
    (auto simp: make_public_update_def update_text_valid_def split: if_split_asm)

lemma public_runtimes_utf8:
  "public_installed_runtimes records = Value es \<Longrightarrow> list_all runtime_text_valid es"
  unfolding public_installed_runtimes_def and_then_Value_iff
  by (elim exE conjE, erule convert_each_all)
    (auto simp: make_public_runtime_def runtime_text_valid_def split: if_split_asm)

end
