(* ===== verification/Software_Parse.thy ===== *)
theory Software_Parse
  imports Software
begin

text \<open>
  The parsers of the Linux software backend (\<open>detail/software/linux.hpp\<close>, namespace \<open>linux_impl\<close>):
  kernel modules, unit files, the package databases of pacman, dpkg and apk, desktop entries, pending
  updates and the version files of language runtimes.

  An out-parameter that the code fills is the value of the function, \<^const>\<open>None\<close> where the code
  returns false (no caller looks at the parameter then). \<open>std::isspace\<close> is that of the "C" locale.
\<close>

section \<open>Trimming, searching, splitting\<close>

definition c_isspace :: "char \<Rightarrow> bool" where
  "c_isspace c \<longleftrightarrow> uchar c = 32 \<or> 9 \<le> uchar c \<and> uchar c \<le> 13"

definition trim_whitespace_view :: "string \<Rightarrow> string" where
  "trim_whitespace_view sv = trim_back c_isspace (dropWhile c_isspace sv)"

text \<open>\<open>name.size() > suffix.size() && name.compare(name.size() - suffix.size(), \<dots>, suffix) == 0\<close>.\<close>

definition has_proper_suffix :: "string \<Rightarrow> string \<Rightarrow> bool" where
  "has_proper_suffix suffix name \<longleftrightarrow>
     length name > length suffix \<and> drop (length name - length suffix) name = suffix"

text \<open>Every piece between separators, the empty ones included: the loop that ends at \<open>npos\<close>.\<close>

fun split_on :: "char \<Rightarrow> string \<Rightarrow> string list" where
  "split_on sep [] = [[]]"
| "split_on sep (c # s) =
     (if c = sep then [] # split_on sep s
      else (case split_on sep s of p # ps \<Rightarrow> (c # p) # ps | [] \<Rightarrow> [[c]]))"

text \<open>A trimmed line of a key file: its section, if it is a header.\<close>

definition section_header :: "string \<Rightarrow> bool" where
  "section_header line \<longleftrightarrow> hd line = CHR ''['' \<and> last line = CHR '']''"

definition header_name :: "string \<Rightarrow> string" where
  "header_name line = substr line 1 (length line - 2)"

definition comment_line :: "string \<Rightarrow> bool" where
  "comment_line line \<longleftrightarrow> line = [] \<or> hd line = CHR ''#'' \<or> hd line = CHR '';''"

text \<open>The two sides of \<open>key = value\<close>, both trimmed.\<close>

definition key_value :: "string \<Rightarrow> (string \<times> string) option" where
  "key_value line =
     (case find_from (CHR ''='') line 0 of
        None \<Rightarrow> None
      | Some eq \<Rightarrow>
          Some (trim_whitespace_view (take eq line), trim_whitespace_view (drop (eq + 1) line)))"

section \<open>Numbers\<close>

definition parse_uint64 :: "string \<Rightarrow> u64 option" where
  "parse_uint64 sv =
     (let sv = trim_whitespace_view sv in
      if sv = [] then None else accumulate quotient_guard 0 sv)"

definition parse_uint32 :: "string \<Rightarrow> u32 option" where
  "parse_uint32 sv =
     (case parse_uint64 sv of
        None \<Rightarrow> None
      | Some val64 \<Rightarrow> if val64 > 0xFFFFFFFF then None else Some (ucast val64))"

section \<open>Kernel modules\<close>

definition module_state :: "string \<Rightarrow> driver_state" where
  "module_state state_str =
     (if state_str = ''Live'' then driver_state.running
      else if state_str = ''Loading'' then driver_state.unknown
      else if state_str = ''Unloading'' then driver_state.unloading
      else driver_state.unknown)"

definition parse_proc_modules_line :: "string \<Rightarrow> driver_record option" where
  "parse_proc_modules_line line =
     (let line = trim_whitespace_view line in
      if line = [] \<or> hd line = CHR ''#'' then None
      else (let tokens = tokens_of c_isspace line in
        if length tokens < 6 \<or> tokens ! 0 = [] then None
        else (case parse_uint64 (tokens ! 1) of
            None \<Rightarrow> None
          | Some size_val \<Rightarrow>
              (case parse_uint32 (tokens ! 2) of
                 None \<Rightarrow> None
               | Some count_val \<Rightarrow>
                   Some (new_driver\<lparr>drv_name := tokens ! 0, drv_size_bytes := Some size_val,
                     drv_use_count := Some count_val, drv_state := module_state (tokens ! 4)\<rparr>)))))"

fun proc_modules_lines :: "string list \<Rightarrow> driver_record list \<Rightarrow> driver_record list option" where
  "proc_modules_lines [] out = Some out"
| "proc_modules_lines (line # rest) out =
     (let trimmed = trim_whitespace_view line in
      if trimmed = [] \<or> hd trimmed = CHR ''#'' then proc_modules_lines rest out
      else (case parse_proc_modules_line trimmed of
              None \<Rightarrow> None
            | Some rec \<Rightarrow> proc_modules_lines rest (out @ [rec])))"

definition parse_proc_modules :: "string \<Rightarrow> driver_record list option" where
  "parse_proc_modules content = proc_modules_lines (lines_of content) []"

section \<open>Unit files\<close>

record unit_state =
  us_section :: string
  us_install :: bool
  us_out :: service_record

definition systemd_line :: "unit_state \<Rightarrow> string \<Rightarrow> unit_state" where
  "systemd_line st raw =
     (let line = trim_whitespace_view raw; out = us_out st in
      if comment_line line then st
      else if section_header line then
        st\<lparr>us_section := header_name line,
           us_install := (us_install st \<or> header_name line = ''Install'')\<rparr>
      else (case key_value line of
          None \<Rightarrow> st
        | Some (key, val) \<Rightarrow>
            if us_section st = ''Unit'' then
              (if key = ''Description'' \<and> svc_description out = None
               then st\<lparr>us_out := out\<lparr>svc_description := Some val, svc_display_name := Some val\<rparr>\<rparr>
               else st)
            else if us_section st = ''Service'' then
              (if key = ''ExecStart'' \<and> svc_executable_path out = None
               then st\<lparr>us_out := out\<lparr>svc_executable_path := Some val\<rparr>\<rparr> else st)
            else st))"

text \<open>The code returns true on every input.\<close>

definition parse_systemd_service_file :: "string \<Rightarrow> string \<Rightarrow> service_record" where
  "parse_systemd_service_file content unit_name =
     (let st = foldl systemd_line
            \<lparr>us_section = [], us_install = False, us_out = new_service\<lparr>svc_name := unit_name\<rparr>\<rparr>
            (lines_of content)
      in if us_install st then us_out st\<lparr>svc_startup_type := service_startup.manual\<rparr> else us_out st)"

section \<open>Package databases\<close>

subsection \<open>pacman\<close>

definition pacman_line :: "string \<times> package_record \<Rightarrow> string \<Rightarrow> string \<times> package_record" where
  "pacman_line st raw =
     (let line = trim_whitespace_view raw; current_tag = fst st; out = snd st in
      if line = [] then st
      else if hd line = CHR ''%'' \<and> last line = CHR ''%'' \<and> length line \<ge> 3
        then (substr line 1 (length line - 2), out)
      else if current_tag = ''NAME'' \<and> pkg_name out = [] then (current_tag, out\<lparr>pkg_name := line\<rparr>)
      else if current_tag = ''VERSION'' \<and> pkg_version out = None
        then (current_tag, out\<lparr>pkg_version := Some line\<rparr>)
      else if current_tag = ''DESC'' \<and> pkg_description out = None
        then (current_tag, out\<lparr>pkg_description := Some line\<rparr>)
      else if current_tag = ''ARCH'' \<and> pkg_architecture out = None
        then (current_tag, out\<lparr>pkg_architecture := Some line\<rparr>)
      else if current_tag = ''PACKAGER'' \<and> pkg_publisher out = None
        then (current_tag, out\<lparr>pkg_publisher := Some line\<rparr>)
      else st)"

definition parse_pacman_desc :: "string \<Rightarrow> package_record option" where
  "parse_pacman_desc content =
     (let out = snd (foldl pacman_line ([], new_package pacman) (lines_of content))
      in if pkg_name out \<noteq> [] then Some out else None)"

subsection \<open>dpkg\<close>

text \<open>The state: the current package, whether it is installed, and the packages so far.\<close>

type_synonym dpkg_state = "(package_record \<times> bool) \<times> package_record list"

definition dpkg_finish :: "dpkg_state \<Rightarrow> dpkg_state" where
  "dpkg_finish st =
     (case st of ((current, is_installed), out) \<Rightarrow>
        ((new_package dpkg, False),
         if pkg_name current \<noteq> [] \<and> is_installed then out @ [current] else out))"

definition dpkg_field :: "string \<Rightarrow> string \<Rightarrow> package_record \<times> bool \<Rightarrow> package_record \<times> bool" where
  "dpkg_field key val st =
     (case st of (current, is_installed) \<Rightarrow>
        if key = ''Package'' then (current\<lparr>pkg_name := val\<rparr>, is_installed)
        else if key = ''Version'' then (current\<lparr>pkg_version := Some val\<rparr>, is_installed)
        else if key = ''Architecture'' then (current\<lparr>pkg_architecture := Some val\<rparr>, is_installed)
        else if key = ''Maintainer'' then (current\<lparr>pkg_publisher := Some val\<rparr>, is_installed)
        else if key = ''Description'' then (current\<lparr>pkg_description := Some val\<rparr>, is_installed)
        else if key = ''Status'' then (current, val = ''install ok installed'')
        else st)"

definition dpkg_line :: "dpkg_state \<Rightarrow> string \<Rightarrow> dpkg_state" where
  "dpkg_line st raw_line =
     (let line = trim_whitespace_view raw_line in
      if line = [] then dpkg_finish st
      else if hd raw_line = CHR '' '' \<or> hd raw_line = tab then st
      else (case find_from (CHR '':'') line 0 of
          None \<Rightarrow> st
        | Some colon \<Rightarrow>
            (dpkg_field (trim_whitespace_view (take colon line))
               (trim_whitespace_view (drop (colon + 1) line)) (fst st), snd st)))"

definition parse_dpkg_status :: "string \<Rightarrow> package_record list" where
  "parse_dpkg_status content =
     snd (dpkg_finish (foldl dpkg_line ((new_package dpkg, False), []) (lines_of content)))"

subsection \<open>apk\<close>

definition apk_finish :: "package_record \<times> package_record list \<Rightarrow> package_record \<times> package_record list" where
  "apk_finish st =
     (new_package apk, if pkg_name (fst st) \<noteq> [] then snd st @ [fst st] else snd st)"

definition apk_field :: "char \<Rightarrow> string \<Rightarrow> package_record \<Rightarrow> package_record" where
  "apk_field tag val current =
     (if tag = CHR ''P'' then current\<lparr>pkg_name := val\<rparr>
      else if tag = CHR ''V'' then current\<lparr>pkg_version := Some val\<rparr>
      else if tag = CHR ''T'' then current\<lparr>pkg_description := Some val\<rparr>
      else if tag = CHR ''A'' then current\<lparr>pkg_architecture := Some val\<rparr>
      else if tag = CHR ''m'' then current\<lparr>pkg_publisher := Some val\<rparr>
      else current)"

definition apk_line ::
    "package_record \<times> package_record list \<Rightarrow> string \<Rightarrow> package_record \<times> package_record list" where
  "apk_line st raw =
     (let line = trim_whitespace_view raw in
      if line = [] then apk_finish st
      else if length line \<ge> 2 \<and> line ! 1 = CHR '':''
        then (apk_field (line ! 0) (trim_whitespace_view (drop 2 line)) (fst st), snd st)
      else st)"

definition parse_apk_installed :: "string \<Rightarrow> package_record list" where
  "parse_apk_installed content =
     snd (apk_finish (foldl apk_line (new_package apk, []) (lines_of content)))"

subsection \<open>Desktop entries\<close>

record desktop_state =
  dk_in_entry :: bool
  dk_application :: bool
  dk_generic_name :: string
  dk_out :: package_record

definition desktop_field :: "string \<Rightarrow> string \<Rightarrow> desktop_state \<Rightarrow> desktop_state" where
  "desktop_field key val st =
     (let out = dk_out st in
      if key = ''Type'' then (if val = ''Application'' then st\<lparr>dk_application := True\<rparr> else st)
      else if key = ''Name'' \<and> pkg_name out = [] then st\<lparr>dk_out := out\<lparr>pkg_name := val\<rparr>\<rparr>
      else if key = ''Version'' \<and> pkg_version out = None
        then st\<lparr>dk_out := out\<lparr>pkg_version := Some val\<rparr>\<rparr>
      else if key = ''Comment'' \<and> pkg_description out = None
        then st\<lparr>dk_out := out\<lparr>pkg_description := Some val\<rparr>\<rparr>
      else if key = ''GenericName'' \<and> dk_generic_name st = [] then st\<lparr>dk_generic_name := val\<rparr>
      else st)"

definition desktop_line :: "desktop_state \<Rightarrow> string \<Rightarrow> desktop_state" where
  "desktop_line st raw =
     (let line = trim_whitespace_view raw in
      if comment_line line then st
      else if section_header line then st\<lparr>dk_in_entry := (line = ''[Desktop Entry]'')\<rparr>
      else if \<not> dk_in_entry st then st
      else (case key_value line of None \<Rightarrow> st | Some (key, val) \<Rightarrow> desktop_field key val st))"

definition parse_desktop_entry :: "string \<Rightarrow> package_record option" where
  "parse_desktop_entry content =
     (let st = foldl desktop_line
            \<lparr>dk_in_entry = False, dk_application = False, dk_generic_name = [],
             dk_out = new_package desktop_entry\<rparr> (lines_of content);
          out = (if pkg_description (dk_out st) = None \<and> dk_generic_name st \<noteq> []
                 then dk_out st\<lparr>pkg_description := Some (dk_generic_name st)\<rparr> else dk_out st)
      in if \<not> dk_application st then None
         else if pkg_name out \<noteq> [] then Some out else None)"

section \<open>Pending updates\<close>

text \<open>\<open>s.find_first_of(chars)\<close>.\<close>

definition find_first_of :: "(char \<Rightarrow> bool) \<Rightarrow> string \<Rightarrow> nat option" where
  "find_first_of p s =
     (let n = length (takeWhile (\<lambda>c. \<not> p c) s) in if n < length s then Some n else None)"

text \<open>The packages whose update calls for a reboot.\<close>

definition needs_reboot :: "string \<Rightarrow> bool" where
  "needs_reboot name \<longleftrightarrow>
     has_prefix ''linux'' name \<or> name = ''systemd'' \<or> name = ''glibc'' \<or> text_contains ''nvidia'' name"

definition checkupdates_line :: "string \<Rightarrow> update_record option" where
  "checkupdates_line line =
     (case find_first_of (\<lambda>c. c = CHR '' '' \<or> c = tab) line of
        None \<Rightarrow> None
      | Some name_end \<Rightarrow>
          (case find_text '' -> '' line name_end of
             None \<Rightarrow> None
           | Some arrow \<Rightarrow>
               (let name = take name_end line;
                    old_version = trim_whitespace_view (substr line name_end (arrow - name_end));
                    new_version = trim_whitespace_view (drop (arrow + 4) line)
                in if name = [] \<or> old_version = [] \<or> new_version = [] then None
                   else Some (new_update\<lparr>upd_identifier := name, upd_title := name,
                     upd_version := Some new_version, upd_requires_reboot := needs_reboot name\<rparr>))))"

fun checkupdates_lines :: "string list \<Rightarrow> update_record list \<Rightarrow> update_record list option" where
  "checkupdates_lines [] parsed = Some parsed"
| "checkupdates_lines (raw # rest) parsed =
     (let line = trim_whitespace_view raw in
      if line = [] then checkupdates_lines rest parsed
      else (case checkupdates_line line of
              None \<Rightarrow> None
            | Some rec \<Rightarrow> checkupdates_lines rest (parsed @ [rec])))"

definition parse_checkupdates_output :: "string \<Rightarrow> update_record list option" where
  "parse_checkupdates_output content =
     (case checkupdates_lines (lines_of content) [] of
        None \<Rightarrow> None
      | Some parsed \<Rightarrow> if parsed = [] then None else Some parsed)"

definition reboot_pkgs_line :: "string \<Rightarrow> update_record option" where
  "reboot_pkgs_line raw =
     (let line = trim_whitespace_view raw in
      if line = [] \<or> hd line = CHR ''#'' then None
      else Some (new_update\<lparr>upd_identifier := line, upd_title := line, upd_requires_reboot := True\<rparr>))"

definition parse_reboot_required_pkgs :: "string \<Rightarrow> update_record list option" where
  "parse_reboot_required_pkgs content =
     (let out = List.map_filter reboot_pkgs_line (lines_of content)
      in if out \<noteq> [] then Some out else None)"

definition parse_packagekit_package_id_parts :: "string list \<Rightarrow> update_record option" where
  "parse_packagekit_package_id_parts parts =
     (if length parts \<noteq> 4 \<or> parts ! 0 = [] \<or> parts ! 1 = [] then None
      else Some (new_update\<lparr>upd_identifier := parts ! 0, upd_title := parts ! 0,
             upd_version := Some (parts ! 1), upd_requires_reboot := needs_reboot (parts ! 0)\<rparr>))"

definition parse_packagekit_package_id :: "string \<Rightarrow> update_record option" where
  "parse_packagekit_package_id package_id =
     parse_packagekit_package_id_parts (split_on (CHR '';'') package_id)"

text \<open>The list of identifiers behind \<open>prepared_ids=\<close>, and the lines of the legacy format.\<close>

fun packagekit_items :: "string list \<Rightarrow> update_record list \<Rightarrow> update_record list option" where
  "packagekit_items [] out = Some out"
| "packagekit_items (raw # rest) out =
     (let item = trim_whitespace_view raw in
      if item = [] then packagekit_items rest out
      else (case parse_packagekit_package_id item of
              None \<Rightarrow> None
            | Some rec \<Rightarrow> packagekit_items rest (out @ [rec])))"

fun packagekit_legacy :: "string list \<Rightarrow> update_record list \<Rightarrow> update_record list option" where
  "packagekit_legacy [] out = Some out"
| "packagekit_legacy (raw # rest) out =
     (let line = trim_whitespace_view raw in
      if line = [] \<or> hd line = CHR ''#'' then packagekit_legacy rest out
      else (case parse_packagekit_package_id line of
              None \<Rightarrow> None
            | Some rec \<Rightarrow> packagekit_legacy rest (out @ [rec])))"

record packagekit_state =
  pk_in_update :: bool
  pk_found_update :: bool
  pk_found_ids :: bool
  pk_out :: "update_record list"

definition packagekit_line :: "packagekit_state \<Rightarrow> string \<Rightarrow> packagekit_state option" where
  "packagekit_line st raw =
     (let line = trim_whitespace_view raw in
      if comment_line line then Some st
      else if section_header line then
        (let in_update = (header_name line = ''update'') in
         Some (st\<lparr>pk_in_update := in_update, pk_found_update := (pk_found_update st \<or> in_update)\<rparr>))
      else if \<not> pk_in_update st then Some st
      else (case key_value line of
          None \<Rightarrow> Some st
        | Some (key, val) \<Rightarrow>
            if key = ''prepared_ids'' then
              map_option (\<lambda>out. st\<lparr>pk_found_ids := True, pk_out := out\<rparr>)
                (packagekit_items (pieces_of (CHR '','') val) (pk_out st))
            else Some st))"

fun packagekit_lines :: "string list \<Rightarrow> packagekit_state \<Rightarrow> packagekit_state option" where
  "packagekit_lines [] st = Some st"
| "packagekit_lines (raw # rest) st =
     (case packagekit_line st raw of None \<Rightarrow> None | Some st' \<Rightarrow> packagekit_lines rest st')"

text \<open>\<^const>\<open>None\<close> is the failure with \<open>is_malformed\<close> set, the only one there is.\<close>

definition parse_packagekit_prepared_update :: "string \<Rightarrow> update_record list option" where
  "parse_packagekit_prepared_update raw_content =
     (let content = trim_whitespace_view raw_content in
      if content = [] then None
      else
        (let out =
           (if hd content = CHR ''['' \<or> text_contains (newline # ''['') content then
              (case packagekit_lines (lines_of content)
                      \<lparr>pk_in_update = False, pk_found_update = False, pk_found_ids = False, pk_out = []\<rparr> of
                 None \<Rightarrow> None
               | Some st \<Rightarrow> if \<not> pk_found_update st \<or> \<not> pk_found_ids st then None else Some (pk_out st))
            else packagekit_legacy (lines_of content) [])
         in case out of None \<Rightarrow> None | Some xs \<Rightarrow> if xs = [] then None else Some xs))"

section \<open>Version files of runtimes\<close>

definition c_isdigit :: "char \<Rightarrow> bool" where
  "c_isdigit c \<longleftrightarrow> is_digit c"

definition first_word :: "string \<Rightarrow> string" where
  "first_word s = (case find_from (CHR '' '') s 0 of None \<Rightarrow> s | Some n \<Rightarrow> take n s)"

definition starts_with_digit :: "string \<Rightarrow> bool" where
  "starts_with_digit s \<longleftrightarrow> s \<noteq> [] \<and> c_isdigit (hd s)"

definition version_marker :: string where
  "version_marker = ''version = '' @ [CHR 0x22]"

definition parse_rust_channel_manifest :: "string \<Rightarrow> string option" where
  "parse_rust_channel_manifest content =
     (case find_text ''[pkg.rustc]'' content 0 of
        None \<Rightarrow> None
      | Some rustc_pos \<Rightarrow>
          (case find_text version_marker content rustc_pos of
             None \<Rightarrow> None
           | Some ver_pos \<Rightarrow>
               (let val_start = ver_pos + 11 in
                case find_from (CHR 0x22) content val_start of
                  None \<Rightarrow> None
                | Some val_end \<Rightarrow>
                    if val_end \<le> val_start then None
                    else (let clean_ver = first_word (substr content val_start (val_end - val_start))
                          in if starts_with_digit clean_ver then Some clean_ver else None))))"

definition rust_name_version :: "string \<Rightarrow> string option" where
  "rust_name_version toolchain_name =
     (let dash = (if starts_with_digit toolchain_name then find_from (CHR ''-'') toolchain_name 0 else None) in
      case dash of
        Some dash_pos \<Rightarrow> Some (take dash_pos toolchain_name)
      | None \<Rightarrow>
          if has_prefix ''nightly'' toolchain_name \<and> length toolchain_name \<ge> 18 \<and>
             toolchain_name ! 7 = CHR ''-'' \<and> toolchain_name ! 12 = CHR ''-'' \<and>
             toolchain_name ! 15 = CHR ''-''
          then Some (take 18 toolchain_name) else None)"

definition parse_rust_toolchain_version :: "string \<Rightarrow> string \<Rightarrow> string option" where
  "parse_rust_toolchain_version toolchain_name content =
     (case (if content \<noteq> [] then parse_rust_channel_manifest content else None) of
        Some v \<Rightarrow> Some v
      | None \<Rightarrow>
          (let first_tok = first_word (trim_whitespace_view content) in
           if content \<noteq> [] \<and> starts_with_digit first_tok then Some first_tok
           else rust_name_version toolchain_name))"

record java_release =
  jr_found :: bool
  jr_version :: string
  jr_implementor :: string
  jr_arch :: string

definition unquoted :: "string \<Rightarrow> string" where
  "unquoted val =
     (if length val \<ge> 2 \<and> hd val = CHR 0x22 \<and> last val = CHR 0x22
      then substr val 1 (length val - 2) else val)"

definition java_line :: "java_release \<Rightarrow> string \<Rightarrow> java_release" where
  "java_line st raw =
     (let line = trim_whitespace_view raw in
      if line = [] \<or> hd line = CHR ''#'' then st
      else (case key_value line of
          None \<Rightarrow> st
        | Some (key, val) \<Rightarrow>
            if key = ''JAVA_VERSION'' \<or> key = ''JAVA_RUNTIME_VERSION'' \<and> \<not> jr_found st
              then st\<lparr>jr_found := True, jr_version := unquoted val\<rparr>
            else if key = ''IMPLEMENTOR'' then st\<lparr>jr_implementor := unquoted val\<rparr>
            else if key = ''OS_ARCH'' then st\<lparr>jr_arch := unquoted val\<rparr>
            else st))"

definition parse_java_release_file :: "string \<Rightarrow> java_release option" where
  "parse_java_release_file content =
     (let st = foldl java_line \<lparr>jr_found = False, jr_version = [], jr_implementor = [], jr_arch = []\<rparr>
            (lines_of content)
      in if jr_found st then Some st else None)"

definition parse_go_version_file :: "string \<Rightarrow> string option" where
  "parse_go_version_file content =
     (let first_line = takeWhile (\<lambda>c. c \<noteq> carriage_return \<and> c \<noteq> newline) content;
          trimmed = trim_whitespace_view first_line
      in if trimmed = [] then None
         else (let version = (if has_prefix ''go'' trimmed then drop 2 trimmed else trimmed)
               in if version \<noteq> [] then Some version else None))"

definition node_line :: "string \<times> string \<times> string \<Rightarrow> string \<Rightarrow> string \<times> string \<times> string" where
  "node_line st raw =
     (let line = trim_whitespace_view raw; val = trim_whitespace_view (drop 26 line) in
      case st of (major, minor, patch) \<Rightarrow>
        if has_prefix ''#define NODE_MAJOR_VERSION'' line then (val, minor, patch)
        else if has_prefix ''#define NODE_MINOR_VERSION'' line then (major, val, patch)
        else if has_prefix ''#define NODE_PATCH_VERSION'' line then (major, minor, val)
        else st)"

definition parse_node_version_header :: "string \<Rightarrow> string option" where
  "parse_node_version_header content =
     (case foldl node_line ([], [], []) (lines_of content) of
        (major, minor, patch) \<Rightarrow>
          if major \<noteq> [] \<and> minor \<noteq> [] \<and> patch \<noteq> []
          then Some (major @ ''.'' @ minor @ ''.'' @ patch) else None)"

end
