(* ===== verification/Software_Linux.thy ===== *)
theory Software_Linux
  imports Software_Parse Linux_Files
begin

text \<open>
  The queries of the Linux software backend (\<open>detail/software/linux.hpp\<close>): drivers, services, packages,
  updates and runtimes, over the file system as the kernel shows it (\<open>host\<close>), the account database and
  the answers to the one child process.

  Each inventory is a scan that collects entries and remembers the last error; the error is only looked
  at when the scan is over. Entries are unique by a key; \<open>add_unique\<close> is the step all inventories share.
\<close>

section \<open>Platform\<close>

datatype wait_event = Exited int | Killed | Wait_error int

text \<open>
  What the kernel answers while \<open>checkupdates\<close> runs: the error numbers of \<open>pipe\<close>, of the file actions
  and of \<open>posix_spawn\<close> (zero on success), then the answers to \<open>read\<close> and to \<open>waitpid\<close>.
\<close>

record spawn_script =
  sp_pipe :: int
  sp_actions :: int
  sp_spawn :: int
  sp_reads :: "read_event list"
  sp_waits :: "wait_event list"

record software_platform =
  so_host :: host
  so_passwd_size :: int
  so_passwd :: passwd_lookup
  so_spawn :: spawn_script

section \<open>Helpers\<close>

text \<open>\<open>get_user_home_dir\<close>: the environment, or the account entry with at most five buffer sizes.\<close>

fun home_attempts :: "passwd_lookup \<Rightarrow> nat \<Rightarrow> nat \<Rightarrow> string option result" where
  "home_attempts getpwuid_r 0 buf_size = fail errc.value_too_large"
| "home_attempts getpwuid_r (Suc k) buf_size =
     (let (err, found) = getpwuid_r buf_size in
      if err = 0 then
        (case found of
           None \<Rightarrow> Value None
         | Some entry \<Rightarrow>
             (case pw_dir entry of
                None \<Rightarrow> Value None
              | Some d \<Rightarrow> if d \<noteq> [] then Value (Some d) else Value None))
      else if err = ERANGE then home_attempts getpwuid_r k (buf_size * 2)
      else fail_errno err)"

definition get_user_home_dir :: "software_platform \<Rightarrow> string option result" where
  "get_user_home_dir env =
     (let home = ho_getenv (so_host env) ''HOME'' in
      if home \<noteq> None \<and> home \<noteq> Some [] then Value home
      else home_attempts (so_passwd env) 5
             (if so_passwd_size env > 0 then nat (so_passwd_size env) else 1024))"

definition absent_errno :: "int \<Rightarrow> bool" where
  "absent_errno e \<longleftrightarrow> e = ENOENT \<or> e = ENOTDIR"

text \<open>The candidates in order; the second component is \<open>candidate_error\<close>.\<close>

fun executable_loop :: "host \<Rightarrow> string list \<Rightarrow> error_code \<Rightarrow> bool \<times> error_code" where
  "executable_loop host [] candidate_error = (False, candidate_error)"
| "executable_loop host (path # paths) candidate_error =
     (case ho_stat host path of
        Stat_error e \<Rightarrow>
          executable_loop host paths (if \<not> absent_errno e then errno_code e else candidate_error)
      | Regular_file \<Rightarrow>
          (case ho_executable host path of
             None \<Rightarrow> (True, candidate_error)
           | Some e \<Rightarrow>
               executable_loop host paths (if \<not> absent_errno e then errno_code e else candidate_error))
      | _ \<Rightarrow> executable_loop host paths candidate_error)"

definition has_executable_file :: "host \<Rightarrow> string list \<Rightarrow> error_code \<Rightarrow> bool \<times> error_code" where
  "has_executable_file host paths out_error =
     (let (found, candidate_error) = executable_loop host paths success_code in
      (found, if \<not> found \<and> code_is_error candidate_error then candidate_error else out_error))"

definition has_directory :: "host \<Rightarrow> string \<Rightarrow> error_code \<Rightarrow> bool \<times> error_code" where
  "has_directory host path out_error =
     (case ho_stat host path of
        Stat_error e \<Rightarrow> (False, if \<not> absent_errno e then errno_code e else out_error)
      | Directory \<Rightarrow> (True, out_error)
      | _ \<Rightarrow> (False, out_error))"

text \<open>The loop of \<open>list_numeric_version_directories\<close> does not skip hidden names first.\<close>

fun version_entries ::
    "host \<Rightarrow> string \<Rightarrow> directory_event list \<Rightarrow> string list scan \<Rightarrow> string list scan" where
  "version_entries host root [] st = st"
| "version_entries host root (Readdir_error e # es) st =
     (if e \<noteq> 0 then scan_error (errno_code e) st else st)"
| "version_entries host root (Entry version # es) st =
     version_entries host root es
       (if \<not> starts_with_digit version then st
        else (let (is_dir, err) = has_directory host (root @ ''/'' @ version) (snd st) in
              (if is_dir then fst st @ [version] else fst st, err)))"

definition list_numeric_version_directories :: "host \<Rightarrow> string \<Rightarrow> string list scan \<Rightarrow> string list scan" where
  "list_numeric_version_directories host root st =
     (case ho_opendir host root of
        Some e \<Rightarrow> if e \<noteq> ENOENT then scan_error (errno_code e) st else st
      | None \<Rightarrow> version_entries host root (ho_entries host root) st)"

text \<open>\<open>if (seen.insert(key).second) list.push_back(item)\<close>.\<close>

type_synonym ('k, 'a) inventory = "'k set \<times> 'a list"

definition add_unique :: "('a \<Rightarrow> 'k) \<Rightarrow> 'a \<Rightarrow> ('k, 'a) inventory \<Rightarrow> ('k, 'a) inventory" where
  "add_unique key item s =
     (if key item \<in> fst s then s else (insert (key item) (fst s), snd s @ [item]))"

definition on_scan :: "('s \<Rightarrow> 's) \<Rightarrow> 's scan \<Rightarrow> 's scan" where
  "on_scan f st = (f (fst st), snd st)"

section \<open>The child process\<close>

record command_output =
  co_standard_output :: string
  co_exit_code :: int

definition EFBIG :: int where "EFBIG = 27"

definition maximum_output :: nat where "maximum_output = 4 * 1024 * 1024"

text \<open>The loops have not returned while there is no next answer.\<close>

fun read_output :: "string \<Rightarrow> read_event list \<Rightarrow> string result option" where
  "read_output out [] = None"
| "read_output out (Read buffer # es) =
     (if buffer \<noteq> [] then
        (if length out + length buffer > maximum_output then Some (fail_errno EFBIG)
         else read_output (out @ buffer) es)
      else Some (Value out))"
| "read_output out (Read_error errno # es) =
     (if errno = EINTR then read_output out es else Some (fail_errno errno))"

fun reap :: "wait_event list \<Rightarrow> unit option" where
  "reap [] = None"
| "reap (Wait_error e # es) = (if e = EINTR then reap es else Some ())"
| "reap (_ # es) = Some ()"

fun wait_child :: "wait_event list \<Rightarrow> int result option" where
  "wait_child [] = None"
| "wait_child (Wait_error e # es) = (if e \<noteq> EINTR then Some (fail_errno e) else wait_child es)"
| "wait_child (Killed # es) = Some (fail_errno EIO)"
| "wait_child (Exited code # es) = Some (Value code)"

definition run_checkupdates :: "spawn_script \<Rightarrow> command_output result option" where
  "run_checkupdates script =
     (if sp_pipe script \<noteq> 0 then Some (fail_errno (sp_pipe script))
      else if sp_actions script \<noteq> 0 then Some (fail_errno (sp_actions script))
      else if sp_spawn script \<noteq> 0 then Some (fail_errno (sp_spawn script))
      else (case read_output [] (sp_reads script) of
          None \<Rightarrow> None
        | Some (Unexpected c) \<Rightarrow> map_option (\<lambda>_. Unexpected c) (reap (sp_waits script))
        | Some (Value out) \<Rightarrow>
            map_option (\<lambda>r. and_then r (\<lambda>code.
                Value \<lparr>co_standard_output = out, co_exit_code = code\<rparr>))
              (wait_child (sp_waits script))))"

section \<open>Drivers\<close>

definition loaded_drivers :: "software_platform \<Rightarrow> driver_record list result" where
  "loaded_drivers env =
     (case ho_read (so_host env) ''/proc/modules'' (2 * 1024 * 1024) of
        Unexpected e \<Rightarrow> if is_no_such_file e then fail errc.not_supported else Unexpected e
      | Value content \<Rightarrow>
          (case parse_proc_modules content of
             None \<Rightarrow> fail errc.malformed_data
           | Some drivers \<Rightarrow> Value (std_sort compare_drivers drivers)))"

text \<open>The loop that looks for the first match.\<close>

definition find_first :: "('a \<Rightarrow> bool) \<Rightarrow> 'a list \<Rightarrow> 'a result" where
  "find_first p xs = (case find p xs of None \<Rightarrow> fail errc.not_found | Some x \<Rightarrow> Value x)"

definition find_driver :: "software_platform \<Rightarrow> string \<Rightarrow> driver_record result" where
  "find_driver env name =
     (if name = [] then fail errc.invalid_argument
      else and_then (loaded_drivers env) (find_first (\<lambda>item. drv_name item = name)))"

section \<open>Services\<close>

definition wants_target :: "string \<Rightarrow> string set scan \<Rightarrow> string set scan" where
  "wants_target target_file st =
     (if has_proper_suffix ''.service'' target_file then on_scan (insert target_file) st else st)"

definition wants_entry :: "host \<Rightarrow> string \<Rightarrow> string \<Rightarrow> string set scan \<Rightarrow> string set scan" where
  "wants_entry host base_dir name st =
     (if \<not> has_proper_suffix ''.wants'' name \<and> \<not> has_proper_suffix ''.requires'' name then st
      else scan_directory host (base_dir @ ''/'' @ name) (\<lambda>s. s) wants_target st)"

definition scan_systemd_wants_dir :: "host \<Rightarrow> string \<Rightarrow> string set scan \<Rightarrow> string set scan" where
  "scan_systemd_wants_dir host base_dir st =
     scan_directory host base_dir (\<lambda>s. s) (wants_entry host base_dir) st"

definition service_dirs :: "string list" where
  "service_dirs = [''/etc/systemd/system'', ''/run/systemd/system'', ''/usr/lib/systemd/system'',
     ''/lib/systemd/system'']"

record services_state =
  ss_seen :: "string set"
  ss_services :: "service_record list"
  ss_opened :: bool

definition mark_opened :: "services_state \<Rightarrow> services_state" where
  "mark_opened s = s\<lparr>ss_opened := True\<rparr>"

definition push_service :: "service_record \<Rightarrow> services_state \<Rightarrow> services_state" where
  "push_service rec s = s\<lparr>ss_services := ss_services s @ [rec]\<rparr>"

definition masked_service :: "string \<Rightarrow> service_record" where
  "masked_service filename = new_service\<lparr>svc_name := filename,
     svc_startup_type := service_startup.disabled, svc_state := service_state.stopped\<rparr>"

definition unit_service :: "string set \<Rightarrow> string \<Rightarrow> string \<Rightarrow> service_record" where
  "unit_service enabled filename content =
     (parse_systemd_service_file content filename)
       \<lparr>svc_startup_type := (if filename \<in> enabled then service_startup.automatic
          else service_startup.manual)\<rparr>"

definition service_entry_step ::
    "host \<Rightarrow> string set \<Rightarrow> string \<Rightarrow> string \<Rightarrow> services_state scan \<Rightarrow> services_state scan" where
  "service_entry_step host enabled dir_path filename st =
     (if \<not> has_proper_suffix ''.service'' filename \<or> filename \<in> ss_seen (fst st) then st
      else
        (let st = on_scan (\<lambda>s. s\<lparr>ss_seen := insert filename (ss_seen s)\<rparr>) st;
             full_path = dir_path @ ''/'' @ filename
         in
         if ho_readlink host full_path 255 = Some ''/dev/null''
           then on_scan (push_service (masked_service filename)) st
         else (case ho_read host full_path (128 * 1024) of
             Unexpected e \<Rightarrow> if \<not> is_no_such_file e then scan_error e st else st
           | Value content \<Rightarrow> on_scan (push_service (unit_service enabled filename content)) st)))"

definition init_script :: "string \<Rightarrow> services_state scan \<Rightarrow> services_state scan" where
  "init_script name st =
     (if name = ''README'' \<or> name = ''skeleton'' then st
      else on_scan (push_service (new_service\<lparr>svc_name := name,
        svc_executable_path := Some (''/etc/init.d/'' @ name)\<rparr>)) st)"

definition services_scan :: "host \<Rightarrow> services_state scan" where
  "services_scan host =
     (let (enabled, err) = fold (scan_systemd_wants_dir host) service_dirs ({}, success_code);
          st = fold (\<lambda>dir_path. scan_directory host dir_path mark_opened
                 (service_entry_step host enabled dir_path)) service_dirs
               (\<lparr>ss_seen = {}, ss_services = [], ss_opened = False\<rparr>, err)
      in if \<not> ss_opened (fst st)
         then scan_directory host ''/etc/init.d'' mark_opened init_script st else st)"

definition services :: "software_platform \<Rightarrow> service_record list result" where
  "services env =
     (let (s, last_error) = services_scan (so_host env) in
      if code_is_error last_error then Unexpected last_error
      else if \<not> ss_opened s \<and> ss_services s = [] then fail errc.not_supported
      else Value (std_sort compare_services (ss_services s)))"

definition find_service :: "software_platform \<Rightarrow> string \<Rightarrow> service_record result" where
  "find_service env name =
     (if name = [] then fail errc.invalid_argument
      else and_then (services env)
        (let with_suffix = (if find_from (CHR ''.'') name 0 = None then name @ ''.service'' else name)
         in find_first (\<lambda>item. svc_name item = name \<or> svc_name item = with_suffix)))"

section \<open>Packages\<close>

type_synonym package_inventory = "(string, package_record) inventory"

text \<open>The second component of the collected state is \<open>any_source_found\<close>.\<close>

type_synonym packages_state = "package_inventory \<times> bool"

definition add_package :: "package_record \<Rightarrow> packages_state \<Rightarrow> packages_state" where
  "add_package rec s = (add_unique make_package_dedup_key rec (fst s), snd s)"

definition source_found :: "packages_state \<Rightarrow> packages_state" where
  "source_found s = (fst s, True)"

definition pacman_entry :: "host \<Rightarrow> string \<Rightarrow> packages_state scan \<Rightarrow> packages_state scan" where
  "pacman_entry host name st =
     (case ho_read host (''/var/lib/pacman/local/'' @ name @ ''/desc'') (128 * 1024) of
        Unexpected e \<Rightarrow> if \<not> is_no_such_file e \<and> \<not> is_not_a_directory e then scan_error e st else st
      | Value content \<Rightarrow>
          (case parse_pacman_desc content of None \<Rightarrow> st | Some rec \<Rightarrow> on_scan (add_package rec) st))"

text \<open>A database in one file: dpkg and apk.\<close>

definition database_file ::
    "host \<Rightarrow> string \<Rightarrow> nat \<Rightarrow> (string \<Rightarrow> package_record list) \<Rightarrow> packages_state scan \<Rightarrow> packages_state scan" where
  "database_file host path limit parse st =
     (case ho_read host path limit of
        Value content \<Rightarrow>
          if content \<noteq> [] then on_scan (\<lambda>s. fold add_package (parse content) (source_found s)) st else st
      | Unexpected e \<Rightarrow> if \<not> is_no_such_file e then scan_error e st else st)"

definition desktop_file :: "host \<Rightarrow> string \<Rightarrow> string \<Rightarrow> packages_state scan \<Rightarrow> packages_state scan" where
  "desktop_file host app_dir_path filename st =
     (if \<not> has_proper_suffix ''.desktop'' filename then st
      else (case ho_read host (app_dir_path @ ''/'' @ filename) (64 * 1024) of
          Unexpected e \<Rightarrow> if \<not> is_no_such_file e then scan_error e st else st
        | Value content \<Rightarrow>
            (case parse_desktop_entry content of
               None \<Rightarrow> st
             | Some rec \<Rightarrow> on_scan (add_package rec) st)))"

definition package_databases :: "host \<Rightarrow> packages_state scan \<Rightarrow> packages_state scan" where
  "package_databases host st =
     (let st = scan_directory host ''/var/lib/pacman/local'' source_found (pacman_entry host) st;
          st = database_file host ''/var/lib/dpkg/status'' (32 * 1024 * 1024) parse_dpkg_status st
      in database_file host ''/lib/apk/db/installed'' (16 * 1024 * 1024) parse_apk_installed st)"

definition application_dirs :: "string option \<Rightarrow> string list" where
  "application_dirs home =
     [''/usr/share/applications'', ''/usr/local/share/applications''] @
     (case home of None \<Rightarrow> [] | Some h \<Rightarrow> [h @ ''/.local/share/applications''])"

definition installed_packages :: "software_platform \<Rightarrow> package_record list result" where
  "installed_packages env =
     (let host = so_host env; st = package_databases host ((({}, []), False), success_code) in
      and_then (get_user_home_dir env) (\<lambda>home.
        (let (s, last_error) = fold (\<lambda>dir. scan_directory host dir source_found (desktop_file host dir))
               (application_dirs home) st;
             pkgs = snd (fst s)
         in if code_is_error last_error then Unexpected last_error
            else if \<not> snd s \<and> pkgs = [] then fail errc.not_supported
            else Value (std_sort compare_packages pkgs))))"

definition find_package :: "software_platform \<Rightarrow> string \<Rightarrow> package_record result" where
  "find_package env name =
     (if name = [] then fail errc.invalid_argument
      else and_then (installed_packages env) (find_first (\<lambda>item. pkg_name item = name)))"

section \<open>Updates\<close>

type_synonym updates_state = "(string, update_record) inventory \<times> bool"

definition add_update :: "update_record \<Rightarrow> updates_state \<Rightarrow> updates_state" where
  "add_update rec s =
     (if upd_identifier rec = [] then s else (add_unique upd_identifier rec (fst s), snd s))"

definition update_source :: "updates_state \<Rightarrow> updates_state" where
  "update_source s = (fst s, True)"

text \<open>The answer of \<open>checkupdates\<close>; only unreadable output fails the query at once.\<close>

definition checkupdates_source ::
    "command_output result \<Rightarrow> updates_state scan \<Rightarrow> updates_state scan result" where
  "checkupdates_source command st =
     (case command of
        Unexpected e \<Rightarrow> Value (scan_error e st)
      | Value output \<Rightarrow>
          if co_exit_code output = 0 then
            (case parse_checkupdates_output (co_standard_output output) of
               None \<Rightarrow> fail errc.malformed_data
             | Some parsed \<Rightarrow> Value (on_scan (fold add_update parsed) st))
          else if co_exit_code output \<noteq> 2
            then Value (scan_error (make_error_code errc.temporarily_unavailable) st)
          else Value st)"

definition reboot_pkgs_source :: "host \<Rightarrow> string \<Rightarrow> updates_state scan \<Rightarrow> updates_state scan" where
  "reboot_pkgs_source host path st =
     (case ho_read host path (128 * 1024) of
        Value content \<Rightarrow>
          on_scan (\<lambda>s. (let s = update_source s in
            if content = [] then s
            else (case parse_reboot_required_pkgs content of
                    None \<Rightarrow> s | Some parsed \<Rightarrow> fold add_update parsed s))) st
      | Unexpected e \<Rightarrow> if \<not> is_no_such_file e \<and> \<not> is_not_a_directory e then scan_error e st else st)"

definition offline_source :: "host \<Rightarrow> string \<Rightarrow> updates_state scan \<Rightarrow> updates_state scan result" where
  "offline_source host path st =
     (case ho_read host path (256 * 1024) of
        Value content \<Rightarrow>
          (case parse_packagekit_prepared_update content of
             Some parsed \<Rightarrow> Value (on_scan (\<lambda>s. fold add_update parsed (update_source s)) st)
           | None \<Rightarrow> fail errc.malformed_data)
      | Unexpected e \<Rightarrow>
          Value (if \<not> is_no_such_file e \<and> \<not> is_not_a_directory e then scan_error e st else st))"

definition reboot_record :: update_record where
  "reboot_record = new_update\<lparr>upd_identifier := ''system-reboot-required'',
     upd_title := ''System reboot required after update'', upd_requires_reboot := True\<rparr>"

fun reboot_indicators :: "host \<Rightarrow> string list \<Rightarrow> updates_state scan \<Rightarrow> updates_state scan" where
  "reboot_indicators host [] st = st"
| "reboot_indicators host (path # paths) st =
     (case ho_exists host path of
        None \<Rightarrow> on_scan (\<lambda>s. add_update reboot_record (update_source s)) st
      | Some e \<Rightarrow>
          reboot_indicators host paths
            (if e \<noteq> ENOENT \<and> e \<noteq> 0 then scan_error (errno_code e) st else st))"

definition update_files :: "host \<Rightarrow> updates_state scan \<Rightarrow> updates_state scan result" where
  "update_files host st =
     (let st = fold (reboot_pkgs_source host)
            [''/run/reboot-required.pkgs'', ''/var/run/reboot-required.pkgs''] st
      in and_then (offline_source host ''/var/lib/PackageKit/prepared-update'' st) (\<lambda>st.
           Value (if snd (fst (fst st)) = []
             then reboot_indicators host [''/run/reboot-required'', ''/var/run/reboot-required''] st
             else st)))"

definition updates_answer :: "updates_state scan \<Rightarrow> update_record list result" where
  "updates_answer st =
     (let updates = snd (fst (fst st)) in
      if code_is_error (snd st) then Unexpected (snd st)
      else if \<not> snd (fst st) \<and> updates = [] then fail errc.not_supported
      else Value (std_sort compare_updates updates))"

definition arch_tools :: "host \<Rightarrow> bool" where
  "arch_tools host \<longleftrightarrow>
     ho_exists host ''/var/lib/pacman/local'' = None \<and> ho_executable host ''/usr/bin/checkupdates'' = None"

text \<open>\<^const>\<open>None\<close> while the child process keeps the query waiting.\<close>

definition system_updates :: "software_platform \<Rightarrow> update_record list result option" where
  "system_updates env =
     (let host = so_host env; start = ((({}, []), False), success_code);
          rest = (\<lambda>st. and_then (update_files host st) updates_answer)
      in if arch_tools host
         then map_option (\<lambda>command.
             and_then (checkupdates_source command (on_scan update_source start)) rest)
           (run_checkupdates (so_spawn env))
         else Some (rest start))"

section \<open>Runtimes\<close>

type_synonym runtimes_state = "(string, runtime_record) inventory"

definition add_runtime :: "runtime_record \<Rightarrow> runtimes_state \<Rightarrow> runtimes_state" where
  "add_runtime rec s =
     (if run_version rec = [] \<or> run_installation_path rec = [] then s
      else add_unique make_runtime_dedup_key rec s)"

definition runtime_of :: "runtime_kind \<Rightarrow> string \<Rightarrow> string \<Rightarrow> string \<Rightarrow> runtime_record" where
  "runtime_of kind name version path = new_runtime\<lparr>run_kind := kind, run_name := name,
     run_version := version, run_installation_path := path\<rparr>"

text \<open>\<open>if (!has_executable_file(paths, n, last_error)) continue;\<close> and what follows.\<close>

definition when_executable ::
    "host \<Rightarrow> string list \<Rightarrow> ('s scan \<Rightarrow> 's scan) \<Rightarrow> 's scan \<Rightarrow> 's scan" where
  "when_executable host paths rest st =
     (let (found, err) = has_executable_file host paths (snd st) in
      if found then rest (fst st, err) else (fst st, err))"

text \<open>
  A version file: parsed when it has content; an error other than its absence is remembered.
\<close>

definition version_file ::
    "host \<Rightarrow> string \<Rightarrow> nat \<Rightarrow> (string \<Rightarrow> runtime_record option) \<Rightarrow> runtimes_state scan \<Rightarrow> runtimes_state scan" where
  "version_file host path limit parse st =
     (case ho_read host path limit of
        Value content \<Rightarrow>
          if content = [] then st
          else (case parse content of None \<Rightarrow> st | Some rec \<Rightarrow> on_scan (add_runtime rec) st)
      | Unexpected e \<Rightarrow> if \<not> is_no_such_file e then scan_error e st else st)"

definition java_runtime :: "string \<Rightarrow> string \<Rightarrow> runtime_record option" where
  "java_runtime full_path content =
     map_option (\<lambda>r.
       (runtime_of java
         (if jr_implementor r = [] then ''Java (OpenJDK)'' else ''Java ('' @ jr_implementor r @ '')'')
         (jr_version r) full_path)
         \<lparr>run_architecture := (if jr_arch r \<noteq> [] then Some (jr_arch r) else None)\<rparr>)
       (parse_java_release_file content)"

definition jvm_entry :: "host \<Rightarrow> string \<Rightarrow> string \<Rightarrow> runtimes_state scan \<Rightarrow> runtimes_state scan" where
  "jvm_entry host jvm_dir_path dir_name st =
     (let full_path = jvm_dir_path @ ''/'' @ dir_name in
      when_executable host [full_path @ ''/bin/java'']
        (version_file host (full_path @ ''/release'') (16 * 1024) (java_runtime full_path)) st)"

definition dotnet_version ::
    "host \<Rightarrow> string \<Rightarrow> string \<Rightarrow> string \<Rightarrow> runtimes_state scan \<Rightarrow> runtimes_state scan" where
  "dotnet_version host dir_path name ver st =
     (let version_path = dir_path @ ''/'' @ ver;
          (is_dir, err) = has_directory host version_path (snd st)
      in (if is_dir then add_runtime (runtime_of dotnet name ver version_path) (fst st) else fst st, err))"

definition dotnet_root :: "host \<Rightarrow> string \<Rightarrow> runtimes_state scan \<Rightarrow> runtimes_state scan" where
  "dotnet_root host root =
     when_executable host [root @ ''/dotnet'']
       (\<lambda>st. (let shared_path = root @ ''/shared/Microsoft.NETCore.App''; sdk_path = root @ ''/sdk'' in
          scan_directory host sdk_path (\<lambda>s. s) (dotnet_version host sdk_path ''.NET SDK'')
            (scan_directory host shared_path (\<lambda>s. s) (dotnet_version host shared_path ''.NET Runtime'') st)))"

definition python_entry :: "host \<Rightarrow> string \<Rightarrow> string \<Rightarrow> runtimes_state scan \<Rightarrow> runtimes_state scan" where
  "python_entry host py_dir_path name st =
     (if \<not> has_prefix ''python3.'' name \<and> \<not> has_prefix ''python2.'' name then st
      else
        (let full_path = py_dir_path @ ''/'' @ name in
         when_executable host [''/usr/bin/'' @ name, ''/usr/local/bin/'' @ name,
             full_path @ ''/bin/python'', full_path @ ''/bin/python3'']
           (on_scan (add_runtime (runtime_of python ''Python'' (drop 6 name) full_path))) st))"

definition nvm_entry :: "host \<Rightarrow> string \<Rightarrow> string \<Rightarrow> runtimes_state scan \<Rightarrow> runtimes_state scan" where
  "nvm_entry host nvm_path entry st =
     (let full_path = nvm_path @ ''/'' @ entry;
          ver = (if entry \<noteq> [] \<and> hd entry = CHR ''v'' then drop 1 entry else entry)
      in when_executable host [full_path @ ''/bin/node'']
           (on_scan (add_runtime (runtime_of nodejs ''Node.js'' ver full_path))) st)"

definition node_header :: "host \<Rightarrow> string \<Rightarrow> runtimes_state scan \<Rightarrow> runtimes_state scan" where
  "node_header host path =
     version_file host path (16 * 1024) (\<lambda>content.
       map_option (\<lambda>ver. runtime_of nodejs ''Node.js'' ver ''/usr'') (parse_node_version_header content))"

text \<open>The content of a file as a view: empty when it cannot be read.\<close>

definition content_view :: "host \<Rightarrow> string \<Rightarrow> nat \<Rightarrow> error_code \<Rightarrow> string \<times> error_code" where
  "content_view host path limit err =
     (case ho_read host path limit of
        Value content \<Rightarrow> (content, err)
      | Unexpected e \<Rightarrow> ([], if \<not> is_no_such_file e then e else err))"

definition rust_toolchain :: "host \<Rightarrow> string \<Rightarrow> string \<Rightarrow> runtimes_state scan \<Rightarrow> runtimes_state scan" where
  "rust_toolchain host full_path toolchain st =
     (let (mview, err) = content_view host
            (full_path @ ''/lib/rustlib/multirust-channel-manifest.toml'') (1024 * 1024) (snd st);
          (parsed_version, err) =
            (case parse_rust_toolchain_version toolchain mview of
               Some v \<Rightarrow> (v, err)
             | None \<Rightarrow>
                 (let (vview, err) = content_view host (full_path @ ''/version'') (4 * 1024) err
                  in (text_or_empty (parse_rust_toolchain_version toolchain vview), err)))
      in (if parsed_version \<noteq> []
          then add_runtime (runtime_of rust (''Rust ('' @ toolchain @ '')'') parsed_version full_path) (fst st)
          else fst st, err))"

definition rustup_entry :: "host \<Rightarrow> string \<Rightarrow> string \<Rightarrow> runtimes_state scan \<Rightarrow> runtimes_state scan" where
  "rustup_entry host rustup_path toolchain st =
     (let full_path = rustup_path @ ''/'' @ toolchain in
      when_executable host [full_path @ ''/bin/rustc''] (rust_toolchain host full_path toolchain) st)"

definition go_root :: "host \<Rightarrow> string \<Rightarrow> runtimes_state scan \<Rightarrow> runtimes_state scan" where
  "go_root host root =
     when_executable host [root @ ''/bin/go'']
       (version_file host (root @ ''/VERSION'') (4 * 1024) (\<lambda>content.
          map_option (\<lambda>ver. runtime_of golang ''Go'' ver root) (parse_go_version_file content)))"

definition short_version :: "string \<Rightarrow> string" where
  "short_version ver =
     (case find_from (CHR ''.'') ver 0 of
        None \<Rightarrow> ver
      | Some first_dot \<Rightarrow>
          (case find_from (CHR ''.'') ver (first_dot + 1) of
             None \<Rightarrow> ver
           | Some second_dot \<Rightarrow> take second_dot ver))"

definition ruby_candidate ::
    "host \<Rightarrow> bool \<Rightarrow> string \<times> string \<Rightarrow> runtimes_state scan \<Rightarrow> runtimes_state scan" where
  "ruby_candidate host only_one candidate =
     (let (ruby_dir_path, ver) = candidate;
          short_ver = short_version ver;
          ruby_bins = [''/usr/bin/ruby'' @ ver, ''/usr/bin/ruby'' @ short_ver,
            ''/usr/local/bin/ruby'' @ ver, ''/usr/local/bin/ruby'' @ short_ver,
            ''/usr/bin/ruby'', ''/usr/local/bin/ruby'']
      in when_executable host (take (if only_one then 6 else 4) ruby_bins)
           (on_scan (add_runtime (runtime_of ruby ''Ruby'' ver (ruby_dir_path @ ''/'' @ ver)))))"

definition php_version :: "host \<Rightarrow> string \<Rightarrow> bool \<Rightarrow> string \<Rightarrow> runtimes_state scan \<Rightarrow> runtimes_state scan" where
  "php_version host php_dir_path only_one ver =
     when_executable host (take (if only_one then 4 else 2)
         [''/usr/bin/php'' @ ver, ''/usr/local/bin/php'' @ ver, ''/usr/bin/php'', ''/usr/local/bin/php''])
       (on_scan (add_runtime (runtime_of php ''PHP'' ver (php_dir_path @ ''/'' @ ver))))"

definition java_runtimes :: "host \<Rightarrow> runtimes_state scan \<Rightarrow> runtimes_state scan" where
  "java_runtimes host = fold (\<lambda>dir. scan_directory host dir (\<lambda>s. s) (jvm_entry host dir))
     [''/usr/lib/jvm'', ''/usr/lib64/jvm'', ''/usr/local/lib/jvm'']"

definition dotnet_runtimes :: "host \<Rightarrow> string option result \<Rightarrow> runtimes_state scan \<Rightarrow> runtimes_state scan" where
  "dotnet_runtimes host home_res st =
     (let roots = [''/usr/share/dotnet'', ''/usr/local/share/dotnet''] @
            (case home_res of Value (Some home) \<Rightarrow> [home @ ''/.dotnet''] | _ \<Rightarrow> []);
          st = (case home_res of Unexpected e \<Rightarrow> scan_error e st | _ \<Rightarrow> st)
      in fold (dotnet_root host) roots st)"

definition python_runtimes :: "host \<Rightarrow> runtimes_state scan \<Rightarrow> runtimes_state scan" where
  "python_runtimes host = fold (\<lambda>dir. scan_directory host dir (\<lambda>s. s) (python_entry host dir))
     [''/usr/lib'', ''/usr/local/lib'']"

text \<open>The scan of a directory below the home directory, when there is one.\<close>

definition home_scan ::
    "host \<Rightarrow> string option result \<Rightarrow> string \<Rightarrow> (string \<Rightarrow> string \<Rightarrow> 's scan \<Rightarrow> 's scan) \<Rightarrow> 's scan \<Rightarrow> 's scan" where
  "home_scan host home_res suffix entry st =
     (case home_res of
        Value (Some home) \<Rightarrow> scan_directory host (home @ suffix) (\<lambda>s. s) (entry (home @ suffix)) st
      | _ \<Rightarrow> st)"

definition node_runtimes :: "host \<Rightarrow> string option result \<Rightarrow> runtimes_state scan \<Rightarrow> runtimes_state scan" where
  "node_runtimes host home_res st =
     when_executable host [''/usr/bin/node'', ''/usr/local/bin/node'']
       (fold (node_header host) [''/usr/include/node/node_version.h'', ''/usr/local/include/node/node_version.h''])
       (home_scan host home_res ''/.nvm/versions/node'' (nvm_entry host) st)"

definition ruby_runtimes :: "host \<Rightarrow> runtimes_state scan \<Rightarrow> runtimes_state scan" where
  "ruby_runtimes host st =
     (let (ruby_versions, err) = fold (\<lambda>dir (found, err).
            (let (versions, err) = list_numeric_version_directories host dir ([], err)
             in (found @ map (Pair dir) versions, err)))
            [''/usr/lib/ruby'', ''/usr/local/lib/ruby''] ([], snd st)
      in fold (ruby_candidate host (length ruby_versions = 1)) ruby_versions (fst st, err))"

definition php_runtimes :: "host \<Rightarrow> runtimes_state scan \<Rightarrow> runtimes_state scan" where
  "php_runtimes host st =
     (let (versions, err) = list_numeric_version_directories host ''/etc/php'' ([], snd st)
      in fold (php_version host ''/etc/php'' (length versions = 1)) versions (fst st, err))"

definition runtimes_scan :: "software_platform \<Rightarrow> runtimes_state scan" where
  "runtimes_scan env =
     (let host = so_host env; home_res = get_user_home_dir env;
          st = java_runtimes host (({}, []), success_code);
          st = dotnet_runtimes host home_res st;
          st = python_runtimes host st;
          st = node_runtimes host home_res st;
          st = home_scan host home_res ''/.rustup/toolchains'' (rustup_entry host) st;
          st = fold (go_root host) [''/usr/lib/go'', ''/usr/local/go''] st;
          st = ruby_runtimes host st
      in php_runtimes host st)"

definition installed_runtimes :: "software_platform \<Rightarrow> runtime_record list result" where
  "installed_runtimes env =
     (let (s, last_error) = runtimes_scan env in
      if code_is_error last_error then Unexpected last_error
      else Value (std_sort compare_runtimes (snd s)))"

end
