(* ===== verification/Software_Parse_Correct.thy ===== *)
theory Software_Parse_Correct
  imports Software_Parse
begin

text \<open>
  What the parsers of \<open>Software_Parse\<close> compute, on every input: a package database is its stanzas read
  as finite maps, a key file is the map from section and key to the first value, a module table and an
  update list are read back as written.
\<close>

section \<open>Trimming and searching\<close>

definition clean :: "string \<Rightarrow> bool" where
  "clean s \<longleftrightarrow> s = [] \<or> \<not> c_isspace (hd s) \<and> \<not> c_isspace (last s)"

lemma trim_clean: "clean s \<Longrightarrow> trim_whitespace_view s = s"
  by (cases s) (auto simp: clean_def trim_whitespace_view_def trim_back_id)

lemma dropWhile_clean_front: "dropWhile p s = [] \<or> \<not> p (hd (dropWhile p s))"
  by (induction s) auto

lemma trim_back_hd:
  assumes "s = [] \<or> \<not> p (hd s)"
  shows "trim_back p s = [] \<or> \<not> p (hd (trim_back p s)) \<and> \<not> p (last (trim_back p s))"
proof (cases s)
  case (Cons a r)
  have "trim_back p s \<noteq> [] \<Longrightarrow> hd (trim_back p s) = hd s"
  proof -
    assume ne: "trim_back p s \<noteq> []"
    have "s = trim_back p s @ rev (takeWhile p (rev s))"
      unfolding trim_back_def by (metis rev_append rev_rev_ident takeWhile_dropWhile_id)
    with ne show ?thesis by (metis hd_append2)
  qed
  moreover have "trim_back p s \<noteq> [] \<Longrightarrow> \<not> p (last (trim_back p s))"
    unfolding trim_back_def
    using dropWhile_clean_front [of p "rev s"] by (auto simp: last_rev)
  ultimately show ?thesis using assms Cons by (cases "trim_back p s = []") auto
qed (simp add: trim_back_def)

lemma clean_trim [simp]: "clean (trim_whitespace_view s)"
  using trim_back_hd [of "dropWhile c_isspace s" c_isspace] dropWhile_clean_front [of c_isspace s]
  by (simp add: clean_def trim_whitespace_view_def)

lemma trim_idem [simp]: "trim_whitespace_view (trim_whitespace_view s) = trim_whitespace_view s"
  by (rule trim_clean) simp

lemma trim_Nil [simp]: "trim_whitespace_view [] = []"
  by (simp add: trim_whitespace_view_def trim_back_def)

lemma trim_front: "c_isspace c \<Longrightarrow> trim_whitespace_view (c # s) = trim_whitespace_view s"
  by (simp add: trim_whitespace_view_def)

lemma trim_back_step: "c_isspace c \<Longrightarrow> trim_whitespace_view (s @ [c]) = trim_whitespace_view s"
proof -
  assume c: "c_isspace c"
  have "trim_back c_isspace (xs @ [c]) = trim_back c_isspace xs" for xs
    using c by (simp add: trim_back_def)
  then show ?thesis
    using c by (cases "dropWhile c_isspace s = []")
      (auto simp: trim_whitespace_view_def dropWhile_append trim_back_def dropWhile_eq_Nil_conv
        dest: set_dropWhileD)
qed

lemma find_text_Some_iff:
  "find_text part s from = Some n \<longleftrightarrow>
     from \<le> n \<and> (\<exists>pre post. s = pre @ part @ post \<and> length pre = n) \<and>
     (\<forall>i. from \<le> i \<and> i < n \<longrightarrow> take (length part) (drop i s) \<noteq> part)"
  (is "_ \<longleftrightarrow> ?R")
proof -
  let ?P = "\<lambda>i. take (length part) (drop i s) = part"
  let ?is = "[from..<Suc (length s) - length part]"
  have at: "(\<exists>pre post. s = pre @ part @ post \<and> length pre = n) \<longleftrightarrow> n < Suc (length s) - length part \<and> ?P n"
  proof
    assume n: "n < Suc (length s) - length part \<and> ?P n"
    then have "s = take n s @ part @ drop (length part) (drop n s)"
      by (metis append_take_drop_id)
    moreover have "length (take n s) = n" using n by auto
    ultimately show "\<exists>pre post. s = pre @ part @ post \<and> length pre = n" by blast
  qed auto
  have "find ?P ?is = Some n \<longleftrightarrow>
      (\<exists>i<length ?is. ?P (?is ! i) \<and> n = ?is ! i \<and> (\<forall>j<i. \<not> ?P (?is ! j)))"
    by (rule find_Some_iff)
  also have "\<dots> \<longleftrightarrow> from \<le> n \<and> n < Suc (length s) - length part \<and> ?P n \<and> (\<forall>i. from \<le> i \<and> i < n \<longrightarrow> \<not> ?P i)"
  proof
    assume "\<exists>i<length ?is. ?P (?is ! i) \<and> n = ?is ! i \<and> (\<forall>j<i. \<not> ?P (?is ! j))"
    then obtain i where i: "i < length ?is" "?P (?is ! i)" "n = ?is ! i" "\<forall>j<i. \<not> ?P (?is ! j)" by blast
    have "\<not> ?P k" if "from \<le> k" "k < n" for k
      using i(4) [rule_format, of "k - from"] that i(1,3) by simp
    then show "from \<le> n \<and> n < Suc (length s) - length part \<and> ?P n \<and> (\<forall>i. from \<le> i \<and> i < n \<longrightarrow> \<not> ?P i)"
      using i by simp
  next
    assume n: "from \<le> n \<and> n < Suc (length s) - length part \<and> ?P n \<and> (\<forall>i. from \<le> i \<and> i < n \<longrightarrow> \<not> ?P i)"
    then show "\<exists>i<length ?is. ?P (?is ! i) \<and> n = ?is ! i \<and> (\<forall>j<i. \<not> ?P (?is ! j))"
      by (intro exI [of _ "n - from"]) auto
  qed
  finally show ?thesis unfolding find_text_def using at by blast
qed

section \<open>Stanzas\<close>

text \<open>The lines between blank lines.\<close>

fun stanzas :: "string list \<Rightarrow> string list list" where
  "stanzas [] = [[]]"
| "stanzas (l # ls) =
     (if trim_whitespace_view l = [] then [] # stanzas ls
      else (case stanzas ls of s # ss \<Rightarrow> (l # s) # ss | [] \<Rightarrow> [[l]]))"

lemma map_filter_cong: "(\<And>x. x \<in> set xs \<Longrightarrow> f x = g x) \<Longrightarrow> List.map_filter f xs = List.map_filter g xs"
proof (induction xs)
  case (Cons a xs)
  then have "f a = g a" "List.map_filter f xs = List.map_filter g xs" by simp_all
  then show ?case by (simp add: map_filter_simps split: option.split)
qed (simp add: map_filter_simps)

lemma map_filter_map: "List.map_filter f (map g xs) = List.map_filter (\<lambda>x. f (g x)) xs"
  by (induction xs) (simp_all add: map_filter_simps split: option.split)

text \<open>
  A database reader collects the fields of one record from line to line and delivers the record at a
  blank line and at the end. Such a loop reads the stanzas one by one.
\<close>

lemma stanzas_nonempty: "\<exists>s ss. stanzas ls = s # ss"
  by (induction ls) (auto split: list.splits)

locale stanza_reader =
  fixes line :: "'r \<times> 'a list \<Rightarrow> string \<Rightarrow> 'r \<times> 'a list"
    and finish :: "'r \<times> 'a list \<Rightarrow> 'r \<times> 'a list"
    and fresh :: 'r
    and step :: "'r \<Rightarrow> string \<Rightarrow> 'r"
    and emit :: "'r \<Rightarrow> 'a option"
  assumes at_blank: "trim_whitespace_view l = [] \<Longrightarrow> line st l = finish st"
    and at_text: "trim_whitespace_view l \<noteq> [] \<Longrightarrow> line (r, out) l = (step r l, out)"
    and finish_emits: "finish (r, out) = (fresh, out @ (case emit r of None \<Rightarrow> [] | Some x \<Rightarrow> [x]))"
begin

lemma reads_from:
  "snd (finish (foldl line (r, out) ls)) =
     out @ (case stanzas ls of
              [] \<Rightarrow> []
            | s # ss \<Rightarrow> List.map_filter (\<lambda>s. emit s) (foldl step r s # map (foldl step fresh) ss))"
proof (induction ls arbitrary: r out)
  case Nil
  show ?case by (simp add: finish_emits map_filter_simps split: option.split)
next
  case (Cons l ls)
  show ?case
  proof (cases "trim_whitespace_view l = []")
    case True
    obtain s ss where "stanzas ls = s # ss" using stanzas_nonempty by blast
    then show ?thesis
      using Cons [of fresh "out @ (case emit r of None \<Rightarrow> [] | Some x \<Rightarrow> [x])"] True
      by (simp add: at_blank finish_emits map_filter_simps split: option.split)
  next
    case False
    obtain s ss where "stanzas ls = s # ss" using stanzas_nonempty by blast
    then show ?thesis using Cons False by (simp add: at_text)
  qed
qed

lemma reads: "snd (finish (foldl line (fresh, []) ls)) = List.map_filter (\<lambda>s. emit (foldl step fresh s)) (stanzas ls)"
proof -
  obtain s ss where "stanzas ls = s # ss"
    using stanzas_nonempty by blast
  then show ?thesis
    using reads_from [of fresh "[]" ls] by (simp add: map_filter_simps map_filter_map split: option.split)
qed

end

definition dpkg_fields :: "string list \<Rightarrow> (string \<times> string) list" where
  "dpkg_fields stanza = List.map_filter (\<lambda>raw_line.
     (let line = trim_whitespace_view raw_line in
      if hd raw_line = CHR '' '' \<or> hd raw_line = tab then None
      else map_option (\<lambda>colon. (trim_whitespace_view (take colon line),
             trim_whitespace_view (drop (colon + 1) line))) (find_from (CHR '':'') line 0))) stanza"

text \<open>A stanza as a finite map from keys to the last values.\<close>

definition dpkg_view :: "(string \<rightharpoonup> string) \<Rightarrow> package_record \<times> bool" where
  "dpkg_view m =
     (new_package dpkg\<lparr>pkg_name := text_or_empty (m ''Package''), pkg_version := m ''Version'',
        pkg_architecture := m ''Architecture'', pkg_publisher := m ''Maintainer'',
        pkg_description := m ''Description''\<rparr>,
      m ''Status'' = Some ''install ok installed'')"

definition dpkg_emit :: "package_record \<times> bool \<Rightarrow> package_record option" where
  "dpkg_emit r = (if pkg_name (fst r) \<noteq> [] \<and> snd r then Some (fst r) else None)"

definition dpkg_step :: "package_record \<times> bool \<Rightarrow> string \<Rightarrow> package_record \<times> bool" where
  "dpkg_step r l = fst (dpkg_line (r, []) l)"

interpretation dpkg_reader:
  stanza_reader dpkg_line dpkg_finish "(new_package dpkg, False)" dpkg_step dpkg_emit
proof
  show "trim_whitespace_view l = [] \<Longrightarrow> dpkg_line st l = dpkg_finish st" for l st
    by (simp add: dpkg_line_def)
  show "trim_whitespace_view l \<noteq> [] \<Longrightarrow> dpkg_line (r, out) l = (dpkg_step r l, out)" for l r out
    by (simp add: dpkg_line_def dpkg_step_def Let_def split: option.split)
  show "dpkg_finish (r, out) =
      ((new_package dpkg, False), out @ (case dpkg_emit r of None \<Rightarrow> [] | Some x \<Rightarrow> [x]))" for r out
    by (cases r) (simp add: dpkg_finish_def dpkg_emit_def)
qed

lemma dpkg_field_view: "dpkg_field k v (dpkg_view m) = dpkg_view (m(k \<mapsto> v))"
  by (simp add: dpkg_field_def dpkg_view_def text_or_empty_def)

lemma dpkg_stanza:
  assumes "list_all (\<lambda>l. trim_whitespace_view l \<noteq> []) s"
  shows "foldl dpkg_step (dpkg_view m) s = dpkg_view (m ++ map_of (rev (dpkg_fields s)))"
  using assms
proof (induction s arbitrary: m)
  case Nil
  show ?case by (simp add: dpkg_fields_def map_filter_simps)
next
  case (Cons l s)
  let ?t = "trim_whitespace_view l"
  have step: "dpkg_step (dpkg_view m) l = dpkg_view (m ++ map_of (rev (dpkg_fields [l])))"
    using Cons.prems dpkg_field_view
    by (simp add: dpkg_step_def dpkg_line_def dpkg_fields_def map_filter_simps Let_def split: option.split)
  have "dpkg_fields (l # s) = dpkg_fields [l] @ dpkg_fields s"
    by (simp add: dpkg_fields_def map_filter_simps Let_def split: option.split)
  then show ?case using Cons step by simp
qed

lemma stanzas_nonblank: "s \<in> set (stanzas ls) \<Longrightarrow> list_all (\<lambda>l. trim_whitespace_view l \<noteq> []) s"
  by (induction ls arbitrary: s) (auto split: if_splits list.splits)

lemma dpkg_view_empty: "dpkg_view Map.empty = (new_package dpkg, False)"
  by (simp add: dpkg_view_def new_package_def text_or_empty_def)

lemma dpkg_status_stanzas:
  "parse_dpkg_status content =
     List.map_filter (\<lambda>s. dpkg_emit (dpkg_view (map_of (rev (dpkg_fields s))))) (stanzas (lines_of content))"
  unfolding parse_dpkg_status_def dpkg_reader.reads
  by (rule map_filter_cong)
    (use dpkg_stanza [of _ Map.empty] stanzas_nonblank in \<open>simp add: dpkg_view_empty\<close>)

definition apk_fields :: "string list \<Rightarrow> (char \<times> string) list" where
  "apk_fields stanza = List.map_filter (\<lambda>raw.
     (let line = trim_whitespace_view raw in
      if length line \<ge> 2 \<and> line ! 1 = CHR '':'' then Some (line ! 0, trim_whitespace_view (drop 2 line))
      else None)) stanza"

definition apk_view :: "(char \<rightharpoonup> string) \<Rightarrow> package_record" where
  "apk_view m =
     new_package apk\<lparr>pkg_name := text_or_empty (m (CHR ''P'')), pkg_version := m (CHR ''V''),
        pkg_description := m (CHR ''T''), pkg_architecture := m (CHR ''A''),
        pkg_publisher := m (CHR ''m'')\<rparr>"

definition apk_emit :: "package_record \<Rightarrow> package_record option" where
  "apk_emit r = (if pkg_name r \<noteq> [] then Some r else None)"

definition apk_step :: "package_record \<Rightarrow> string \<Rightarrow> package_record" where
  "apk_step r l = fst (apk_line (r, []) l)"

interpretation apk_reader: stanza_reader apk_line apk_finish "new_package apk" apk_step apk_emit
proof
  show "trim_whitespace_view l = [] \<Longrightarrow> apk_line st l = apk_finish st" for l st
    by (simp add: apk_line_def)
  show "trim_whitespace_view l \<noteq> [] \<Longrightarrow> apk_line (r, out) l = (apk_step r l, out)" for l r out
    by (simp add: apk_line_def apk_step_def Let_def)
  show "apk_finish (r, out) = (new_package apk, out @ (case apk_emit r of None \<Rightarrow> [] | Some x \<Rightarrow> [x]))" for r out
    by (simp add: apk_finish_def apk_emit_def)
qed

lemma apk_field_view: "apk_field k v (apk_view m) = apk_view (m(k \<mapsto> v))"
  by (simp add: apk_field_def apk_view_def text_or_empty_def)

lemma apk_stanza:
  assumes "list_all (\<lambda>l. trim_whitespace_view l \<noteq> []) s"
  shows "foldl apk_step (apk_view m) s = apk_view (m ++ map_of (rev (apk_fields s)))"
  using assms
proof (induction s arbitrary: m)
  case Nil
  show ?case by (simp add: apk_fields_def map_filter_simps)
next
  case (Cons l s)
  have step: "apk_step (apk_view m) l = apk_view (m ++ map_of (rev (apk_fields [l])))"
    using Cons.prems apk_field_view
    by (simp add: apk_step_def apk_line_def apk_fields_def map_filter_simps Let_def)
  have "apk_fields (l # s) = apk_fields [l] @ apk_fields s"
    by (simp add: apk_fields_def map_filter_simps Let_def)
  then show ?case using Cons step by simp
qed

lemma apk_view_empty: "apk_view Map.empty = new_package apk"
  by (simp add: apk_view_def new_package_def text_or_empty_def)

lemma apk_installed_stanzas:
  "parse_apk_installed content =
     List.map_filter (\<lambda>s. apk_emit (apk_view (map_of (rev (apk_fields s))))) (stanzas (lines_of content))"
  unfolding parse_apk_installed_def apk_reader.reads
  by (rule map_filter_cong)
    (use apk_stanza [of _ Map.empty] stanzas_nonblank in \<open>simp add: apk_view_empty\<close>)

section \<open>The pacman description\<close>

text \<open>The text lines with the tag above them.\<close>

fun tagged_lines :: "string \<Rightarrow> string list \<Rightarrow> (string \<times> string) list" where
  "tagged_lines tag [] = []"
| "tagged_lines tag (raw # rest) =
     (let line = trim_whitespace_view raw in
      if line = [] then tagged_lines tag rest
      else if hd line = CHR ''%'' \<and> last line = CHR ''%'' \<and> length line \<ge> 3
        then tagged_lines (substr line 1 (length line - 2)) rest
      else (tag, line) # tagged_lines tag rest)"

definition pacman_view :: "(string \<rightharpoonup> string) \<Rightarrow> package_record" where
  "pacman_view m =
     new_package pacman\<lparr>pkg_name := text_or_empty (m ''NAME''), pkg_version := m ''VERSION'',
       pkg_description := m ''DESC'', pkg_architecture := m ''ARCH'', pkg_publisher := m ''PACKAGER''\<rparr>"

definition pacman_put :: "string \<Rightarrow> string \<Rightarrow> package_record \<Rightarrow> package_record" where
  "pacman_put tag line out =
     (if tag = ''NAME'' \<and> pkg_name out = [] then out\<lparr>pkg_name := line\<rparr>
      else if tag = ''VERSION'' \<and> pkg_version out = None then out\<lparr>pkg_version := Some line\<rparr>
      else if tag = ''DESC'' \<and> pkg_description out = None then out\<lparr>pkg_description := Some line\<rparr>
      else if tag = ''ARCH'' \<and> pkg_architecture out = None then out\<lparr>pkg_architecture := Some line\<rparr>
      else if tag = ''PACKAGER'' \<and> pkg_publisher out = None then out\<lparr>pkg_publisher := Some line\<rparr>
      else out)"

lemma pacman_line_put:
  assumes "trim_whitespace_view raw = line" "line \<noteq> []"
    "\<not> (hd line = CHR ''%'' \<and> last line = CHR ''%'' \<and> length line \<ge> 3)"
  shows "pacman_line (tag, out) raw = (tag, pacman_put tag line out)"
  by (simp only: pacman_line_def Let_def fst_conv snd_conv assms if_False)
    (simp add: pacman_put_def)

text \<open>An entry that is already there stays.\<close>

lemma pacman_line_view:
  assumes "\<forall>l. m ''NAME'' = Some l \<longrightarrow> l \<noteq> []" "trim_whitespace_view raw = line" "line \<noteq> []"
    "\<not> (hd line = CHR ''%'' \<and> last line = CHR ''%'' \<and> length line \<ge> 3)"
  shows "pacman_line (tag, pacman_view m) raw = (tag, pacman_view ([tag \<mapsto> line] ++ m))"
proof -
  have set: "[tag \<mapsto> line] ++ m = (if m tag = None then m(tag \<mapsto> line) else m)"
    by (auto simp: map_add_def fun_eq_iff split: option.split)
  show ?thesis
  proof (cases "m tag")
    case None
    consider "tag = ''NAME''" | "tag = ''VERSION''" | "tag = ''DESC''" | "tag = ''ARCH''" | "tag = ''PACKAGER''"
      | "tag \<notin> {''NAME'', ''VERSION'', ''DESC'', ''ARCH'', ''PACKAGER''}"
      by blast
    then show ?thesis
      unfolding set pacman_line_put [OF assms(2-)] using None
      by (cases, simp_all add: pacman_put_def pacman_view_def text_or_empty_def new_package_def) auto
  next
    case (Some v)
    consider "tag = ''NAME''" | "tag = ''VERSION''" | "tag = ''DESC''" | "tag = ''ARCH''" | "tag = ''PACKAGER''"
      | "tag \<notin> {''NAME'', ''VERSION'', ''DESC'', ''ARCH'', ''PACKAGER''}"
      by blast
    then show ?thesis
      unfolding set pacman_line_put [OF assms(2-)] using Some assms(1)
      by cases (simp_all add: pacman_put_def pacman_view_def text_or_empty_def new_package_def)
  qed
qed

lemma pacman_fold:
  "\<forall>l. m ''NAME'' = Some l \<longrightarrow> l \<noteq> [] \<Longrightarrow>
   snd (foldl pacman_line (tag, pacman_view m) ls) = pacman_view (map_of (tagged_lines tag ls) ++ m)"
proof (induction ls arbitrary: tag m)
  case Nil
  then show ?case by simp
next
  case (Cons raw rest)
  let ?line = "trim_whitespace_view raw"
  consider (blank) "?line = []"
    | (tag) "?line \<noteq> []" "hd ?line = CHR ''%'' \<and> last ?line = CHR ''%'' \<and> length ?line \<ge> 3"
    | (plain) "?line \<noteq> []" "\<not> (hd ?line = CHR ''%'' \<and> last ?line = CHR ''%'' \<and> length ?line \<ge> 3)"
    by blast
  then show ?case
  proof cases
    case blank
    then show ?thesis using Cons by (simp add: pacman_line_def)
  next
    case tag
    then show ?thesis using Cons by (simp add: pacman_line_def Let_def)
  next
    case plain
    have "\<forall>l. ([tag \<mapsto> ?line] ++ m) ''NAME'' = Some l \<longrightarrow> l \<noteq> []"
      using Cons.prems plain(1) by (auto simp: map_add_def split: option.splits if_splits)
    then have "snd (foldl pacman_line (tag, pacman_view ([tag \<mapsto> ?line] ++ m)) rest) =
        pacman_view (map_of (tagged_lines tag rest) ++ ([tag \<mapsto> ?line] ++ m))"
      by (rule Cons.IH)
    moreover have "map_of (tagged_lines tag rest) ++ ([tag \<mapsto> ?line] ++ m) =
        map_of (tagged_lines tag (raw # rest)) ++ m"
      using plain by (auto simp: Let_def map_add_def fun_eq_iff split: option.split)
    ultimately show ?thesis
      using pacman_line_view [where raw = raw and line = ?line and m = m and tag = tag, OF Cons.prems refl plain] by simp
  qed
qed

text \<open>A description of lines without a tag is empty.\<close>

lemma pacman_desc_tags:
  "parse_pacman_desc content =
     (let out = pacman_view (map_of (tagged_lines [] (lines_of content)))
      in if pkg_name out \<noteq> [] then Some out else None)"
proof -
  have "pacman_view Map.empty = new_package pacman"
    by (simp add: pacman_view_def new_package_def text_or_empty_def)
  then show ?thesis
    using pacman_fold [of Map.empty "[]" "lines_of content"] by (simp add: parse_pacman_desc_def)
qed

text \<open>
  C14. The package databases are read as what they are, whatever bytes they hold. A dpkg status file and
  an apk database are the list of their stanzas, in order, each a finite map from keys to the last value
  given; a stanza counts when it names a package and, for dpkg, when its status is the installed one. A
  pacman description is the finite map from tags to the first line below them.
\<close>

theorem package_databases_refine:
  "parse_dpkg_status content =
     List.map_filter (\<lambda>s. dpkg_emit (dpkg_view (map_of (rev (dpkg_fields s))))) (stanzas (lines_of content)) \<and>
   parse_apk_installed content =
     List.map_filter (\<lambda>s. apk_emit (apk_view (map_of (rev (apk_fields s))))) (stanzas (lines_of content)) \<and>
   parse_pacman_desc content =
     (let out = pacman_view (map_of (tagged_lines [] (lines_of content)))
      in if pkg_name out \<noteq> [] then Some out else None)"
  by (intro conjI dpkg_status_stanzas apk_installed_stanzas pacman_desc_tags)

section \<open>Key files\<close>

datatype keyfile_event = Section_header string | Assignment string string

definition line_event :: "string \<Rightarrow> keyfile_event option" where
  "line_event raw =
     (let line = trim_whitespace_view raw in
      if comment_line line then None
      else if section_header line then Some (Section_header (header_name line))
      else map_option (\<lambda>(key, val). Assignment key val) (key_value line))"

definition keyfile_events :: "string list \<Rightarrow> keyfile_event list" where
  "keyfile_events ls = List.map_filter line_event ls"

text \<open>The pairs with the section they stand in; \<open>sec\<close> is the section before the first header.\<close>

fun keyfile_pairs :: "string \<Rightarrow> keyfile_event list \<Rightarrow> ((string \<times> string) \<times> string) list" where
  "keyfile_pairs sec [] = []"
| "keyfile_pairs sec (Section_header name # es) = keyfile_pairs name es"
| "keyfile_pairs sec (Assignment key val # es) = ((sec, key), val) # keyfile_pairs sec es"

text \<open>A loop over the lines of a key file acts on headers and pairs only.\<close>

locale keyfile_reader =
  fixes line :: "'st \<Rightarrow> string \<Rightarrow> 'st"
    and act :: "keyfile_event \<Rightarrow> 'st \<Rightarrow> 'st"
  assumes line_acts: "line st l = (case line_event l of None \<Rightarrow> st | Some e \<Rightarrow> act e st)"
begin

lemma acts: "foldl line st ls = fold act (keyfile_events ls) st"
  by (induction ls arbitrary: st)
    (simp_all add: line_acts keyfile_events_def map_filter_simps split: option.split)

end

definition unit_act :: "keyfile_event \<Rightarrow> unit_state \<Rightarrow> unit_state" where
  "unit_act e st =
     (case e of
        Section_header name \<Rightarrow>
          st\<lparr>us_section := name, us_install := (us_install st \<or> name = ''Install'')\<rparr>
      | Assignment key val \<Rightarrow>
          if us_section st = ''Unit'' \<and> key = ''Description'' \<and> svc_description (us_out st) = None
            then st\<lparr>us_out := us_out st\<lparr>svc_description := Some val, svc_display_name := Some val\<rparr>\<rparr>
          else if us_section st = ''Service'' \<and> key = ''ExecStart'' \<and> svc_executable_path (us_out st) = None
            then st\<lparr>us_out := us_out st\<lparr>svc_executable_path := Some val\<rparr>\<rparr>
          else st)"

interpretation unit_reader: keyfile_reader systemd_line unit_act
  by standard (simp add: systemd_line_def line_event_def unit_act_def Let_def split: option.split)

definition unit_view :: "string \<Rightarrow> (string \<times> string \<rightharpoonup> string) \<Rightarrow> service_record" where
  "unit_view name m =
     new_service\<lparr>svc_name := name, svc_display_name := m (''Unit'', ''Description''),
       svc_description := m (''Unit'', ''Description''),
       svc_executable_path := m (''Service'', ''ExecStart'')\<rparr>"

lemma map_add_keep: "[k \<mapsto> v] ++ m = (if m k = None then m(k \<mapsto> v) else m)"
  by (auto simp: map_add_def fun_eq_iff split: option.split)

lemma unit_pair_view:
  "unit_act (Assignment key val) \<lparr>us_section = sec, us_install = b, us_out = unit_view name m\<rparr> =
     \<lparr>us_section = sec, us_install = b, us_out = unit_view name ([(sec, key) \<mapsto> val] ++ m)\<rparr>"
  unfolding map_add_keep
  by (cases "(sec, key) = (''Unit'', ''Description'')"; cases "(sec, key) = (''Service'', ''ExecStart'')")
    (auto simp: unit_act_def unit_view_def)

lemma unit_fold:
  defines "result name sec b m es \<equiv> fold unit_act es \<lparr>us_section = sec, us_install = b, us_out = unit_view name m\<rparr>"
  shows "us_install (result name sec b m es) = (b \<or> Section_header ''Install'' \<in> set es) \<and>
    us_out (result name sec b m es) = unit_view name (map_of (keyfile_pairs sec es) ++ m)"
proof (induction es arbitrary: sec b m)
  case Nil
  show ?case by (simp add: result_def)
next
  case (Cons e es)
  show ?case
  proof (cases e)
    case (Section_header n)
    then have "result name sec b m (e # es) = result name n (b \<or> n = ''Install'') m es"
      by (simp add: result_def unit_act_def)
    then show ?thesis using Cons Section_header by auto
  next
    case (Assignment key val)
    have step: "result name sec b m (e # es) = result name sec b ([(sec, key) \<mapsto> val] ++ m) es"
      using Assignment by (simp add: result_def unit_pair_view)
    have add: "map_of (keyfile_pairs sec es) ++ ([(sec, key) \<mapsto> val] ++ m) =
        map_of (keyfile_pairs sec (e # es)) ++ m"
      using Assignment by (auto simp: map_add_def fun_eq_iff split: option.split)
    have "Section_header ''Install'' \<in> set (e # es) \<longleftrightarrow> Section_header ''Install'' \<in> set es"
      by (simp add: Assignment)
    then show ?thesis
      using Cons [of sec b "[(sec, key) \<mapsto> val] ++ m"] unfolding step add by (simp only:)
  qed
qed

subsection \<open>Desktop entries\<close>

definition desktop_act :: "keyfile_event \<Rightarrow> desktop_state \<Rightarrow> desktop_state" where
  "desktop_act e st =
     (case e of
        Section_header name \<Rightarrow> st\<lparr>dk_in_entry := (name = ''Desktop Entry'')\<rparr>
      | Assignment key val \<Rightarrow> if dk_in_entry st then desktop_field key val st else st)"

lemma header_line:
  assumes "line \<noteq> []" "section_header line"
  shows "line = CHR ''['' # header_name line @ [CHR '']'']"
proof -
  from assms have hl: "hd line = CHR ''[''" "last line = CHR '']''"
    by (simp_all add: section_header_def)
  then obtain r where r: "line = CHR ''['' # r" using assms(1) by (cases line) auto
  with hl have ne: "r \<noteq> []" by auto
  then have "last r = CHR '']''" using hl r by simp
  then have "r = butlast r @ [CHR '']'']" using append_butlast_last_id [OF ne] by simp
  then have "r = take (length r - 1) r @ [CHR '']'']" by (simp add: butlast_conv_take)
  then show ?thesis using r ne by (simp add: header_name_def substr_def)
qed

lemma desktop_header: "line \<noteq> [] \<Longrightarrow> section_header line \<Longrightarrow>
    line = ''[Desktop Entry]'' \<longleftrightarrow> header_name line = ''Desktop Entry''"
  using header_line [of line] by (auto simp: header_name_def substr_def)

interpretation desktop_reader: keyfile_reader desktop_line desktop_act
proof
  fix st l
  let ?line = "trim_whitespace_view l"
  show "desktop_line st l = (case line_event l of None \<Rightarrow> st | Some e \<Rightarrow> desktop_act e st)"
  proof (cases "comment_line ?line \<or> section_header ?line")
    case True
    then show ?thesis
      using desktop_header [of ?line]
      by (auto simp: desktop_line_def line_event_def desktop_act_def Let_def comment_line_def)
  next
    case False
    then show ?thesis
      by (simp add: desktop_line_def line_event_def desktop_act_def Let_def split: option.split)
  qed
qed

text \<open>The first value that is not empty.\<close>

definition first_nonempty :: "string \<Rightarrow> (string \<times> string) list \<Rightarrow> string" where
  "first_nonempty key ps = (case find (\<lambda>p. fst p = key \<and> snd p \<noteq> []) ps of None \<Rightarrow> [] | Some p \<Rightarrow> snd p)"

definition entry_pairs :: "string \<Rightarrow> keyfile_event list \<Rightarrow> (string \<times> string) list" where
  "entry_pairs sec es =
     map (\<lambda>p. (snd (fst p), snd p)) (filter (\<lambda>p. fst (fst p) = ''Desktop Entry'') (keyfile_pairs sec es))"

definition desktop_view :: "bool \<Rightarrow> (string \<times> string) list \<Rightarrow> desktop_state" where
  "desktop_view b ps =
     \<lparr>dk_in_entry = b, dk_application = ((''Type'', ''Application'') \<in> set ps),
      dk_generic_name = first_nonempty ''GenericName'' ps,
      dk_out = new_package desktop_entry\<lparr>pkg_name := first_nonempty ''Name'' ps,
        pkg_version := map_of ps ''Version'', pkg_description := map_of ps ''Comment''\<rparr>\<rparr>"

lemma first_nonempty_snoc:
  "first_nonempty key (ps @ [p]) =
     (if first_nonempty key ps \<noteq> [] then first_nonempty key ps
      else if fst p = key then snd p else [])"
  by (induction ps) (auto simp: first_nonempty_def)

lemma map_of_snoc: "map_of (ps @ [(k, v)]) x = (if map_of ps x = None \<and> x = k then Some v else map_of ps x)"
  by (auto simp: map_add_def split: option.split)

lemma desktop_field_view: "desktop_field key val (desktop_view b ps) = desktop_view b (ps @ [(key, val)])"
proof -
  consider "key = ''Type''" | "key = ''Name''" | "key = ''Version''" | "key = ''Comment''" | "key = ''GenericName''"
    | "key \<notin> {''Type'', ''Name'', ''Version'', ''Comment'', ''GenericName''}"
    by blast
  then show ?thesis
    by cases
      (auto simp: desktop_field_def desktop_view_def first_nonempty_snoc map_of_snoc simp del: map_of_append)
qed

lemma desktop_fold:
  "\<exists>b. fold desktop_act es (desktop_view (sec = ''Desktop Entry'') ps) = desktop_view b (ps @ entry_pairs sec es)"
proof (induction es arbitrary: sec ps)
  case Nil
  show ?case by (auto simp: entry_pairs_def)
next
  case (Cons e es)
  show ?case
  proof (cases e)
    case (Section_header n)
    have "desktop_act e (desktop_view c ps) = desktop_view (n = ''Desktop Entry'') ps" for c
      using Section_header by (simp add: desktop_act_def desktop_view_def)
    then show ?thesis using Cons [of n ps] Section_header by (simp add: entry_pairs_def)
  next
    case (Assignment key val)
    show ?thesis
    proof (cases "sec = ''Desktop Entry''")
      case True
      have "dk_in_entry (desktop_view True ps)" by (simp add: desktop_view_def)
      then have "desktop_act e (desktop_view True ps) = desktop_view True (ps @ [(key, val)])"
        using Assignment by (simp add: desktop_act_def desktop_field_view)
      then show ?thesis using Cons [of sec "ps @ [(key, val)]"] Assignment True by (simp add: entry_pairs_def)
    next
      case False
      have "\<not> dk_in_entry (desktop_view False ps)" by (simp add: desktop_view_def)
      then show ?thesis
        using Cons [of sec ps] Assignment False by (simp add: entry_pairs_def desktop_act_def)
    qed
  qed
qed

lemma first_nonempty_Nil [simp]: "first_nonempty key [] = []"
  by (simp add: first_nonempty_def)

text \<open>The package a list of desktop-entry pairs describes.\<close>

definition desktop_package :: "(string \<times> string) list \<Rightarrow> package_record option" where
  "desktop_package ps =
     (if (''Type'', ''Application'') \<notin> set ps \<or> first_nonempty ''Name'' ps = [] then None
      else Some (new_package desktop_entry\<lparr>pkg_name := first_nonempty ''Name'' ps,
        pkg_version := map_of ps ''Version'',
        pkg_description := (if map_of ps ''Comment'' = None \<and> first_nonempty ''GenericName'' ps \<noteq> []
          then Some (first_nonempty ''GenericName'' ps) else map_of ps ''Comment'')\<rparr>))"

lemma unit_file_view:
  fixes content :: string
  defines "events \<equiv> keyfile_events (lines_of content)"
  shows "parse_systemd_service_file content unit_name =
      (unit_view unit_name (map_of (keyfile_pairs [] events)))
        \<lparr>svc_startup_type := (if Section_header ''Install'' \<in> set events then service_startup.manual
           else service_startup.unknown)\<rparr>"
proof -
  have start: "new_service\<lparr>svc_name := unit_name\<rparr> = unit_view unit_name Map.empty"
    by (simp add: unit_view_def new_service_def)
  have kept: "svc_startup_type (unit_view unit_name m) = service_startup.unknown" for m
    by (simp add: unit_view_def new_service_def)
  show ?thesis
    using unit_fold [where name = unit_name and sec = "[]" and b = False and m = Map.empty and es = events] kept
    by (simp add: parse_systemd_service_file_def start unit_reader.acts events_def Let_def)
qed

lemma unit_file_name: "svc_name (parse_systemd_service_file content unit_name) = unit_name"
  unfolding unit_file_view by (simp add: unit_view_def)

lemma desktop_entry_package:
  "parse_desktop_entry content = desktop_package (entry_pairs [] (keyfile_events (lines_of content)))"
proof -
  have "desktop_view False [] = \<lparr>dk_in_entry = False, dk_application = False, dk_generic_name = [],
      dk_out = new_package desktop_entry\<rparr>"
    by (simp add: desktop_view_def new_package_def)
  with desktop_fold [of "keyfile_events (lines_of content)" "[]" "[]"] obtain b where
    "foldl desktop_line \<lparr>dk_in_entry = False, dk_application = False, dk_generic_name = [],
      dk_out = new_package desktop_entry\<rparr> (lines_of content) =
     desktop_view b (entry_pairs [] (keyfile_events (lines_of content)))"
    by (auto simp: desktop_reader.acts)
  then show ?thesis
    by (simp add: parse_desktop_entry_def desktop_package_def desktop_view_def Let_def)
qed

text \<open>
  The readers of key files see only section headers and the pairs below them. A unit file gives its
  first description and its first command, and counts as manual when it has an install section; a
  desktop entry is an application with the first nonempty name, the first version and the first
  comment, or the generic name when it has no comment.
\<close>

theorem keyfile_readers_refine:
  fixes content :: string
  defines "events \<equiv> keyfile_events (lines_of content)"
  shows "parse_systemd_service_file content unit_name =
      (unit_view unit_name (map_of (keyfile_pairs [] events)))
        \<lparr>svc_startup_type := (if Section_header ''Install'' \<in> set events then service_startup.manual
           else service_startup.unknown)\<rparr> \<and>
    parse_desktop_entry content = desktop_package (entry_pairs [] events)"
  unfolding events_def by (intro conjI unit_file_view desktop_entry_package)

section \<open>Package identifiers\<close>

lemma split_on_nonempty [simp]: "split_on sep s \<noteq> []"
  by (induction s) (auto split: list.splits)

lemma join_with_Cons: "xs \<noteq> [] \<Longrightarrow> join_with sep (x # xs) = x @ sep # join_with sep xs"
  by (cases xs) simp_all

lemma split_on_join: "join_with sep (split_on sep s) = s"
proof (induction s)
  case (Cons c s)
  show ?case
  proof (cases "split_on sep s")
    case Nil
    then show ?thesis by simp
  next
    case (Cons p ps)
    with \<open>join_with sep (split_on sep s) = s\<close> show ?thesis
      by (cases ps) (auto simp: join_with_Cons)
  qed
qed simp

lemma split_on_free: "list_all (\<lambda>p. sep \<notin> set p) (split_on sep s)"
  by (induction s) (auto split: list.splits)

lemma split_on_word: "sep \<notin> set w \<Longrightarrow> split_on sep (w @ s) = (w @ hd (split_on sep s)) # tl (split_on sep s)"
  by (induction w) (auto split: list.splits)

lemma join_split_on: "ps \<noteq> [] \<Longrightarrow> list_all (\<lambda>p. sep \<notin> set p) ps \<Longrightarrow> split_on sep (join_with sep ps) = ps"
proof (induction ps)
  case (Cons p ps)
  then show ?case
    by (cases "ps = []") (use split_on_word [of sep p "[]"] in \<open>auto simp: join_with_Cons split_on_word\<close>)
qed simp

definition package_update :: "string \<Rightarrow> string \<Rightarrow> update_record" where
  "package_update name version = new_update\<lparr>upd_identifier := name, upd_title := name,
     upd_version := Some version, upd_requires_reboot := needs_reboot name\<rparr>"

text \<open>An identifier is four fields between exactly three semicolons, the first two of them nonempty.\<close>

lemma packagekit_id_exact:
  "parse_packagekit_package_id s = Some r \<longleftrightarrow>
     (\<exists>name version arch repo. s = join_with (CHR '';'') [name, version, arch, repo] \<and>
        list_all (\<lambda>p. CHR '';'' \<notin> set p) [name, version, arch, repo] \<and>
        name \<noteq> [] \<and> version \<noteq> [] \<and> r = package_update name version)"
  (is "_ \<longleftrightarrow> ?R")
proof
  assume a: "parse_packagekit_package_id s = Some r"
  then obtain p0 p1 p2 p3 where ps: "split_on (CHR '';'') s = [p0, p1, p2, p3]"
    by (auto simp: parse_packagekit_package_id_def parse_packagekit_package_id_parts_def
        length_Suc_conv numeral_eq_Suc split: if_splits)
  with a have "p0 \<noteq> []" "p1 \<noteq> []" "r = package_update p0 p1"
    by (auto simp: parse_packagekit_package_id_def parse_packagekit_package_id_parts_def
        package_update_def split: if_splits)
  moreover have "s = join_with (CHR '';'') [p0, p1, p2, p3]"
    using split_on_join [of "CHR '';''" s] ps by metis
  moreover have "list_all (\<lambda>p. CHR '';'' \<notin> set p) [p0, p1, p2, p3]"
    using split_on_free [of "CHR '';''" s] ps by metis
  ultimately show ?R by blast
next
  assume ?R
  then obtain p0 p1 p2 p3 where "split_on (CHR '';'') s = [p0, p1, p2, p3]" "p0 \<noteq> []" "p1 \<noteq> []"
    "r = package_update p0 p1"
    using join_split_on [where sep = "CHR '';''"] by blast
  then show "parse_packagekit_package_id s = Some r"
    by (simp add: parse_packagekit_package_id_def parse_packagekit_package_id_parts_def package_update_def)
qed

section \<open>The module table\<close>

record module_row =
  mr_name :: string
  mr_size :: nat
  mr_count :: nat
  mr_users :: string
  mr_state :: string
  mr_address :: string

definition word_token :: "string \<Rightarrow> bool" where
  "word_token w \<longleftrightarrow> w \<noteq> [] \<and> list_all (\<lambda>c. \<not> c_isspace c) w"

definition module_row_ok :: "module_row \<Rightarrow> bool" where
  "module_row_ok r \<longleftrightarrow> word_token (mr_name r) \<and> hd (mr_name r) \<noteq> CHR ''#'' \<and> mr_size r < 2 ^ 64 \<and>
     mr_count r < 2 ^ 32 \<and> word_token (mr_users r) \<and> word_token (mr_state r) \<and> word_token (mr_address r)"

definition module_row_words :: "module_row \<Rightarrow> string list" where
  "module_row_words r = [mr_name r, dec_string (mr_size r), dec_string (mr_count r), mr_users r,
     mr_state r, mr_address r]"

text \<open>The line the kernel writes for a module.\<close>

definition module_row_text :: "module_row \<Rightarrow> string" where
  "module_row_text r = join_with (CHR '' '') (module_row_words r)"

definition module_row_driver :: "module_row \<Rightarrow> driver_record" where
  "module_row_driver r = new_driver\<lparr>drv_name := mr_name r, drv_size_bytes := Some (of_nat (mr_size r)),
     drv_use_count := Some (of_nat (mr_count r)), drv_state := module_state (mr_state r)\<rparr>"

lemma space_isspace [simp]: "c_isspace CHR '' ''" "c_isspace newline" "c_isspace tab"
  by (simp_all add: c_isspace_def)

lemma word_token_clean: "word_token w \<Longrightarrow> clean w"
  by (cases w) (auto simp: word_token_def clean_def list_all_iff)

lemma digit_not_cspace: "is_digit c \<Longrightarrow> \<not> c_isspace c"
  by (auto simp: is_digit_def c_isspace_def)

lemma dec_string_token: "word_token (dec_string n)"
  using dec_string_digits [of n] by (auto simp: word_token_def list_all_iff digit_not_cspace)

lemma tokens_of_words:
  "list_all word_token ws \<Longrightarrow> tokens_of c_isspace (join_with (CHR '' '') ws) = ws"
proof (induction ws)
  case (Cons w ws)
  show ?case
  proof (cases "ws = []")
    case True
    then show ?thesis
      using Cons tokens_of_word [of w c_isspace "[]"] by (simp add: word_token_def)
  next
    case False
    then show ?thesis
      using Cons tokens_of_word [of w c_isspace "CHR '' '' # join_with (CHR '' '') ws"]
      by (simp add: word_token_def join_with_Cons)
  qed
qed simp

lemma join_words_ends:
  "ws \<noteq> [] \<Longrightarrow> list_all word_token ws \<Longrightarrow>
   join_with (CHR '' '') ws \<noteq> [] \<and> hd (join_with (CHR '' '') ws) = hd (hd ws) \<and>
   last (join_with (CHR '' '') ws) = last (last ws)"
proof (induction ws)
  case (Cons w ws)
  then show ?case by (cases "ws = []") (auto simp: join_with_Cons word_token_def)
qed simp

lemma join_words_clean: "list_all word_token ws \<Longrightarrow> clean (join_with (CHR '' '') ws)"
proof (cases "ws = []")
  case False
  assume a: "list_all word_token ws"
  then have "word_token (hd ws)" "word_token (last ws)"
    using False by (auto simp: list_all_iff)
  then have "\<not> c_isspace (hd (hd ws))" "\<not> c_isspace (last (last ws))"
    by (auto simp: word_token_def list_all_iff)
  then show ?thesis using join_words_ends [OF False a] by (simp add: clean_def)
qed (simp add: clean_def)

lemma parse_uint64_string: "n < 2 ^ 64 \<Longrightarrow> parse_uint64 (dec_string n) = Some (of_nat n)"
  using trim_clean [OF word_token_clean [OF dec_string_token [of n]]]
  by (simp add: parse_uint64_def quotient.accumulate_string)

lemma parse_uint32_string: "n < 2 ^ 32 \<Longrightarrow> parse_uint32 (dec_string n) = Some (of_nat n)"
proof -
  assume n: "n < 2 ^ 32"
  then have "unat (of_nat n :: u64) = n" by (intro of_nat_u64) simp
  moreover from this n have "\<not> (of_nat n :: u64) > 0xFFFFFFFF" by (simp add: word_less_nat_alt)
  moreover have "(ucast (of_nat n :: u64) :: u32) = of_nat n"
    using n by (simp add: unsigned_of_nat take_bit_nat_eq_self)
  ultimately show ?thesis using n parse_uint64_string [of n] by (simp add: parse_uint32_def)
qed

lemma module_words_token: "module_row_ok r \<Longrightarrow> list_all word_token (module_row_words r)"
  by (simp add: module_row_ok_def module_row_words_def dec_string_token)

lemma module_row_parses:
  assumes "module_row_ok r"
  shows "module_row_text r \<noteq> [] \<and> hd (module_row_text r) \<noteq> CHR ''#'' \<and>
    trim_whitespace_view (module_row_text r) = module_row_text r \<and>
    parse_proc_modules_line (module_row_text r) = Some (module_row_driver r)"
proof -
  have ws: "list_all word_token (module_row_words r)" "module_row_words r \<noteq> []"
    using module_words_token [OF assms] by (simp_all add: module_row_words_def)
  have ends: "module_row_text r \<noteq> []" "hd (module_row_text r) \<noteq> CHR ''#''"
    using join_words_ends [OF ws(2,1)] assms
    by (simp_all add: module_row_text_def module_row_words_def module_row_ok_def)
  have "trim_whitespace_view (module_row_text r) = module_row_text r"
    using join_words_clean [OF ws(1)] by (simp add: trim_clean module_row_text_def)
  moreover from this ends have "parse_proc_modules_line (module_row_text r) = Some (module_row_driver r)"
    using assms tokens_of_words [OF ws(1), folded module_row_text_def]
      parse_uint64_string [of "mr_size r"] parse_uint32_string [of "mr_count r"]
    by (simp add: parse_proc_modules_line_def module_row_words_def module_row_ok_def word_token_def
        module_row_driver_def)
  ultimately show ?thesis using ends by simp
qed

lemma newline_not_in_words:
  "list_all word_token ws \<Longrightarrow> newline \<notin> set (join_with (CHR '' '') ws)"
proof (induction ws)
  case (Cons w ws)
  then have "newline \<notin> set w" by (auto simp: word_token_def list_all_iff c_isspace_def)
  with Cons show ?case by (cases "ws = []") (auto simp: join_with_Cons)
qed simp

text \<open>
  The module table round trip: whatever modules the kernel lists, each with a name that is no
  comment, a size, a use count, its users, its state and its address, the parser returns their
  records in order.
\<close>

theorem proc_modules_roundtrip:
  assumes "list_all module_row_ok rows"
  shows "parse_proc_modules (concat (map (\<lambda>r. module_row_text r @ [newline]) rows)) =
    Some (map module_row_driver rows)"
proof -
  have "list_all (\<lambda>l. newline \<notin> set l) (map module_row_text rows)"
    using assms newline_not_in_words [OF module_words_token]
    by (auto simp: list_all_iff module_row_text_def)
  from lines_of_unlines [OF this]
  have "lines_of (concat (map (\<lambda>r. module_row_text r @ [newline]) rows)) = map module_row_text rows"
    by (simp add: comp_def)
  moreover have "proc_modules_lines (map module_row_text rows) out = Some (out @ map module_row_driver rows)" for out
    using assms by (induction rows arbitrary: out) (simp_all add: module_row_parses)
  ultimately show ?thesis by (simp add: parse_proc_modules_def)
qed

theorem proc_modules_roundtrip_witness:
  "parse_proc_modules (concat (map (\<lambda>r. module_row_text r @ [newline])
     [\<lparr>mr_name = ''ext4'', mr_size = 1290240, mr_count = 2, mr_users = ''-'', mr_state = ''Live'',
       mr_address = ''0x0''\<rparr>])) =
   Some (map module_row_driver
     [\<lparr>mr_name = ''ext4'', mr_size = 1290240, mr_count = 2, mr_users = ''-'', mr_state = ''Live'',
       mr_address = ''0x0''\<rparr>])"
  by (rule proc_modules_roundtrip) (simp add: module_row_ok_def word_token_def c_isspace_def)

section \<open>Text that is not UTF-8\<close>

text \<open>
  Updates and runtimes are checked at the public boundary; packages, services and drivers are not. A
  name that is no UTF-8 passes from the dpkg database to the caller.
\<close>

definition foreign_status :: string where
  "foreign_status = ''Package: '' @ [CHR 0xFF, newline] @ ''Status: install ok installed''"

theorem package_text_unchecked:
  "public_installed_packages (Value (parse_dpkg_status foreign_status)) =
     Value [make_public_package (new_package dpkg\<lparr>pkg_name := [CHR 0xFF]\<rparr>)] \<and>
   \<not> is_valid_utf8 [CHR 0xFF]"
  by code_simp

end
