(* ===== verification/Software_Inventory.thy ===== *)
theory Software_Inventory
  imports Software_Linux Software_Parse_Correct
begin

text \<open>
  What the inventories of \<open>Software_Linux\<close> guarantee: unique keys, order, nonempty names, the priority
  of the unit directories, and that the child process does not hold the query up for ever.

  An invariant of the collected state is carried through the scans by the rules \<open>keeps\<close>.
\<close>

section \<open>Invariants through scans\<close>

definition keeps :: "('s \<Rightarrow> bool) \<Rightarrow> ('s scan \<Rightarrow> 's scan) \<Rightarrow> bool" where
  "keeps I f \<longleftrightarrow> (\<forall>st. I (fst st) \<longrightarrow> I (fst (f st)))"

named_theorems keeps_rules \<open>operations on scans that keep an invariant\<close>

lemma keepsD: "keeps I f \<Longrightarrow> I (fst st) \<Longrightarrow> I (fst (f st))"
  unfolding keeps_def by blast

lemma keepsI: "(\<And>s e. I s \<Longrightarrow> I (fst (f (s, e)))) \<Longrightarrow> keeps I f"
  by (simp add: keeps_def)

lemma keeps_id [keeps_rules]: "keeps I (\<lambda>st. st)"
  by (simp add: keeps_def)

lemma keeps_error [keeps_rules]: "keeps I (scan_error e)"
  by (simp add: keeps_def)

lemma keeps_on_scan [keeps_rules]: "(\<And>s. I s \<Longrightarrow> I (f s)) \<Longrightarrow> keeps I (on_scan f)"
  by (simp add: keeps_def on_scan_def)

lemma keeps_comp: "keeps I f \<Longrightarrow> keeps I g \<Longrightarrow> keeps I (\<lambda>st. g (f st))"
  unfolding keeps_def by blast

lemma keeps_fold [keeps_rules]: "(\<And>x. x \<in> set xs \<Longrightarrow> keeps I (f x)) \<Longrightarrow> keeps I (fold f xs)"
proof (induction xs)
  case (Cons x xs)
  then have "keeps I (\<lambda>st. fold f xs (f x st))" by (intro keeps_comp [of I "f x" "fold f xs"]) simp_all
  then show ?case by (simp add: comp_def)
qed (simp add: keeps_def)

lemma keeps_scan_directory [keeps_rules]:
  "(\<And>s. I s \<Longrightarrow> I (opened s)) \<Longrightarrow> (\<And>name. keeps I (body name)) \<Longrightarrow>
   keeps I (scan_directory host path opened body)"
proof (rule keepsI)
  fix s e
  assume a: "\<And>s. I s \<Longrightarrow> I (opened s)" "\<And>name. keeps I (body name)" "I s"
  show "I (fst (scan_directory host path opened body (s, e)))"
    by (rule scan_directory_invariant [OF _ a(1) keepsD [OF a(2)]]) (simp_all add: a(3))
qed

lemma keeps_when_executable [keeps_rules]:
  "keeps I rest \<Longrightarrow> keeps I (when_executable host paths rest)"
  by (simp add: keeps_def when_executable_def split: prod.split)


section \<open>Unique entries\<close>

definition inventory_ok :: "('a \<Rightarrow> 'k) \<Rightarrow> ('a \<Rightarrow> bool) \<Rightarrow> ('k, 'a) inventory \<Rightarrow> bool" where
  "inventory_ok key P s \<longleftrightarrow> fst s = key ` set (snd s) \<and> distinct (map key (snd s)) \<and> list_all P (snd s)"

lemma inventory_empty [simp]: "inventory_ok key P ({}, [])"
  by (simp add: inventory_ok_def)

lemma add_unique_ok: "inventory_ok key P s \<Longrightarrow> P x \<Longrightarrow> inventory_ok key P (add_unique key x s)"
  by (auto simp: inventory_ok_def add_unique_def)

text \<open>Sorting an inventory keeps its keys apart and its entries good.\<close>

lemma inventory_sorted:
  assumes "strict_weak_order lt" "inventory_ok key P s"
  shows "in_order lt (std_sort lt (snd s)) \<and> distinct (map key (std_sort lt (snd s))) \<and>
    list_all P (std_sort lt (snd s))"
proof -
  have "mset (map key (std_sort lt (snd s))) = mset (map key (snd s))" by simp
  then have "distinct (map key (std_sort lt (snd s)))"
    using assms(2) mset_eq_imp_distinct_iff unfolding inventory_ok_def by blast
  then show ?thesis
    using assms strict_weak_order.std_sort_in_order [OF assms(1)]
    by (simp add: inventory_ok_def list_all_iff)
qed

subsection \<open>Packages\<close>

definition packages_ok :: "packages_state \<Rightarrow> bool" where
  "packages_ok s \<longleftrightarrow> inventory_ok make_package_dedup_key (\<lambda>p. pkg_name p \<noteq> []) (fst s)"

lemma add_package_ok: "packages_ok s \<Longrightarrow> pkg_name p \<noteq> [] \<Longrightarrow> packages_ok (add_package p s)"
  by (simp add: packages_ok_def add_package_def add_unique_ok)

lemma source_found_ok [simp]: "packages_ok (source_found s) = packages_ok s"
  by (simp add: packages_ok_def source_found_def)

lemma set_map_filter: "y \<in> set (List.map_filter f xs) \<longleftrightarrow> (\<exists>x \<in> set xs. f x = Some y)"
  by (force simp: List.map_filter_def)

lemma parsed_names:
  "p \<in> set (parse_dpkg_status content) \<Longrightarrow> pkg_name p \<noteq> []"
  "p \<in> set (parse_apk_installed content) \<Longrightarrow> pkg_name p \<noteq> []"
  "parse_pacman_desc content = Some p \<Longrightarrow> pkg_name p \<noteq> []"
  "parse_desktop_entry content = Some p \<Longrightarrow> pkg_name p \<noteq> []"
  by (auto simp: dpkg_status_stanzas apk_installed_stanzas set_map_filter dpkg_emit_def apk_emit_def
      parse_pacman_desc_def parse_desktop_entry_def Let_def split: if_split_asm)

lemma keeps_pacman_entry [keeps_rules]: "keeps packages_ok (pacman_entry host name)"
  by (rule keepsI) (auto simp: pacman_entry_def on_scan_def parsed_names add_package_ok
      split: result.split option.split)

lemma keeps_desktop_file [keeps_rules]: "keeps packages_ok (desktop_file host dir name)"
  by (rule keepsI) (auto simp: desktop_file_def on_scan_def parsed_names add_package_ok
      split: result.split option.split)

lemma fold_add_package:
  "packages_ok s \<Longrightarrow> (\<And>p. p \<in> set ps \<Longrightarrow> pkg_name p \<noteq> []) \<Longrightarrow> packages_ok (fold add_package ps s)"
  by (induction ps arbitrary: s) (simp_all add: add_package_ok)

lemma keeps_database_file [keeps_rules]:
  "(\<And>content p. p \<in> set (parse content) \<Longrightarrow> pkg_name p \<noteq> []) \<Longrightarrow>
   keeps packages_ok (database_file host path limit parse)"
  by (rule keepsI) (auto simp: database_file_def on_scan_def fold_add_package split: result.split)

lemma keeps_pacman_scan:
  "keeps packages_ok (scan_directory host path source_found (pacman_entry host))"
  by (intro keeps_scan_directory keeps_pacman_entry) simp

lemma keeps_package_databases: "keeps packages_ok (package_databases host)"
  unfolding package_databases_def Let_def
  using keepsD [OF keeps_pacman_scan] keepsD [OF keeps_database_file]
  by (intro keepsI) (simp add: parsed_names)

lemma packages_scanned:
  "packages_ok (fst (fold (\<lambda>dir. scan_directory host dir source_found (desktop_file host dir)) dirs
     (package_databases host ((({}, []), False), success_code))))"
proof -
  have "keeps packages_ok (fold (\<lambda>dir. scan_directory host dir source_found (desktop_file host dir)) dirs)"
    by (intro keeps_rules) simp
  moreover have "packages_ok (fst (package_databases host ((({}, []), False), success_code)))"
    by (rule keepsD [OF keeps_package_databases]) (simp add: packages_ok_def)
  ultimately show ?thesis by (rule keepsD)
qed

lemma installed_packages_ok:
  assumes "installed_packages env = Value ps"
  shows "in_order compare_packages ps \<and> distinct (map make_package_dedup_key ps) \<and>
    list_all (\<lambda>p. pkg_name p \<noteq> []) ps"
proof -
  from assms obtain home where
    "ps = std_sort compare_packages (snd (fst (fst (fold (\<lambda>dir. scan_directory (so_host env) dir source_found
       (desktop_file (so_host env) dir)) (application_dirs home)
       (package_databases (so_host env) ((({}, []), False), success_code))))))"
    by (auto simp: installed_packages_def Let_def and_then_Value_iff split_beta split: if_split_asm)
  then show ?thesis
    using inventory_sorted [OF packages.strict_weak_order_axioms] packages_scanned
    unfolding packages_ok_def by blast
qed

subsection \<open>Updates\<close>

definition updates_ok :: "updates_state \<Rightarrow> bool" where
  "updates_ok s \<longleftrightarrow> inventory_ok upd_identifier (\<lambda>u. upd_identifier u \<noteq> []) (fst s)"

lemma add_update_ok [simp]: "updates_ok s \<Longrightarrow> updates_ok (add_update u s)"
  by (simp add: updates_ok_def add_update_def add_unique_ok)

lemma update_source_ok [simp]: "updates_ok (update_source s) = updates_ok s"
  by (simp add: updates_ok_def update_source_def)

lemma fold_add_update [simp]: "updates_ok s \<Longrightarrow> updates_ok (fold add_update us s)"
  by (induction us arbitrary: s) simp_all

lemma keeps_reboot_pkgs [keeps_rules]: "keeps updates_ok (reboot_pkgs_source host path)"
  by (rule keepsI) (auto simp: reboot_pkgs_source_def on_scan_def Let_def split: result.split option.split)

lemma reboot_indicators_ok: "updates_ok (fst st) \<Longrightarrow> updates_ok (fst (reboot_indicators host paths st))"
  by (induction host paths st rule: reboot_indicators.induct) (auto simp: on_scan_def split: option.split)

lemma offline_source_ok: "offline_source host path st = Value st' \<Longrightarrow> updates_ok (fst st) \<Longrightarrow> updates_ok (fst st')"
  by (auto simp: offline_source_def on_scan_def split: result.split_asm option.split_asm)

lemma checkupdates_source_ok:
  "checkupdates_source command st = Value st' \<Longrightarrow> updates_ok (fst st) \<Longrightarrow> updates_ok (fst st')"
  by (auto simp: checkupdates_source_def on_scan_def split: result.split_asm option.split_asm if_split_asm)

lemma update_files_ok:
  assumes "update_files host st = Value st'" "updates_ok (fst st)"
  shows "updates_ok (fst st')"
proof -
  let ?pkgs = "fold (reboot_pkgs_source host) [''/run/reboot-required.pkgs'', ''/var/run/reboot-required.pkgs'']"
  have "keeps updates_ok ?pkgs" by (intro keeps_rules)
  then have pkgs: "updates_ok (fst (?pkgs st))" using assms(2) by (rule keepsD)
  from assms(1) obtain mid where
    mid: "offline_source host ''/var/lib/PackageKit/prepared-update'' (?pkgs st) = Value mid" and
    st': "st' = (if snd (fst (fst mid)) = []
      then reboot_indicators host [''/run/reboot-required'', ''/var/run/reboot-required''] mid else mid)"
    unfolding update_files_def Let_def and_then_Value_iff by blast
  from offline_source_ok [OF mid pkgs] show ?thesis
    unfolding st' by (simp add: reboot_indicators_ok del: reboot_indicators.simps)
qed

lemma updates_answer_ok:
  assumes "updates_ok (fst st)" "updates_answer st = Value us"
  shows "in_order compare_updates us \<and> distinct (map upd_identifier us) \<and>
    list_all (\<lambda>u. upd_identifier u \<noteq> []) us"
proof -
  have "us = std_sort compare_updates (snd (fst (fst st)))"
    using assms(2) by (auto simp: updates_answer_def Let_def split: if_split_asm)
  then show ?thesis
    using inventory_sorted [OF updates.strict_weak_order_axioms] assms(1) unfolding updates_ok_def by blast
qed

lemma system_updates_ok:
  assumes "system_updates env = Some (Value us)"
  shows "in_order compare_updates us \<and> distinct (map upd_identifier us) \<and>
    list_all (\<lambda>u. upd_identifier u \<noteq> []) us"
proof -
  let ?start = "((({}, []), False), success_code) :: updates_state scan"
  have start: "updates_ok (fst ?start)" "updates_ok (fst (on_scan update_source ?start))"
    by (simp_all add: updates_ok_def on_scan_def update_source_def)
  have rest: ?thesis if "updates_ok (fst st)" "and_then (update_files (so_host env) st) updates_answer = Value us" for st
    using that update_files_ok updates_answer_ok unfolding and_then_Value_iff by blast
  show ?thesis
  proof (cases "arch_tools (so_host env)")
    case True
    then obtain command st where
      "checkupdates_source command (on_scan update_source ?start) = Value st"
      "and_then (update_files (so_host env) st) updates_answer = Value us"
      using assms by (auto simp: system_updates_def and_then_Value_iff)
    then show ?thesis using rest checkupdates_source_ok start(2) by blast
  next
    case False
    then show ?thesis using assms rest [OF start(1)] by (simp add: system_updates_def)
  qed
qed

subsection \<open>Runtimes\<close>

definition runtime_ok :: "runtime_record \<Rightarrow> bool" where
  "runtime_ok r \<longleftrightarrow> run_version r \<noteq> [] \<and> run_installation_path r \<noteq> []"

abbreviation runtimes_ok :: "runtimes_state \<Rightarrow> bool" where
  "runtimes_ok \<equiv> inventory_ok make_runtime_dedup_key runtime_ok"

lemma add_runtime_ok [simp]: "runtimes_ok s \<Longrightarrow> runtimes_ok (add_runtime r s)"
  by (simp add: add_runtime_def add_unique_ok runtime_ok_def)

lemma keeps_version_file [keeps_rules]: "keeps runtimes_ok (version_file host path limit parse)"
  by (rule keepsI) (auto simp: version_file_def on_scan_def split: result.split option.split)

lemma keeps_dotnet_version [keeps_rules]: "keeps runtimes_ok (dotnet_version host dir name ver)"
  by (rule keepsI) (auto simp: dotnet_version_def Let_def split: prod.split)

lemma keeps_rust_toolchain [keeps_rules]: "keeps runtimes_ok (rust_toolchain host path name)"
  by (rule keepsI) (auto simp: rust_toolchain_def Let_def split: prod.split option.split)

lemma keeps_add_runtime [keeps_rules]: "keeps runtimes_ok (on_scan (add_runtime r))"
  by (intro keeps_rules) simp

lemma keeps_dotnet_scan: "keeps runtimes_ok (scan_directory host path (\<lambda>s. s) (dotnet_version host path name))"
  by (intro keeps_scan_directory keeps_dotnet_version)

lemma keeps_dotnet_root [keeps_rules]: "keeps runtimes_ok (dotnet_root host root)"
  unfolding dotnet_root_def Let_def
  by (intro keeps_when_executable keeps_comp [OF keeps_dotnet_scan keeps_dotnet_scan])

lemma keeps_ruby_candidate [keeps_rules]: "keeps runtimes_ok (ruby_candidate host b c)"
  by (cases c) (simp add: ruby_candidate_def Let_def keeps_when_executable keeps_add_runtime)

lemma keeps_if: "keeps I f \<Longrightarrow> keeps I g \<Longrightarrow> keeps I (\<lambda>st. if b then f st else g st)"
  by (simp add: keeps_def)

lemma keeps_home_scan [keeps_rules]:
  "(\<And>p name. keeps I (entry p name)) \<Longrightarrow> keeps I (home_scan host home_res suffix entry)"
proof (rule keepsI)
  fix s e
  assume a: "\<And>p name. keeps I (entry p name)" "I s"
  have "keeps I (scan_directory host p (\<lambda>s. s) (entry p))" for p
    by (intro keeps_scan_directory a(1))
  then have "I (fst (scan_directory host p (\<lambda>s. s) (entry p) (s, e)))" for p
    by (rule keepsD) (simp add: a(2))
  then show "I (fst (home_scan host home_res suffix entry (s, e)))"
    using \<open>I s\<close> by (simp add: home_scan_def split: result.split option.split)
qed

lemma keeps_entries [keeps_rules]:
  "keeps runtimes_ok (jvm_entry host dir name)"
  "keeps runtimes_ok (python_entry host dir name)"
  "keeps runtimes_ok (nvm_entry host dir name)"
  "keeps runtimes_ok (rustup_entry host dir name)"
  "keeps runtimes_ok (go_root host dir)"
  "keeps runtimes_ok (node_header host dir)"
  "keeps runtimes_ok (php_version host dir b name)"
proof -
  show "keeps runtimes_ok (jvm_entry host dir name)"
    unfolding jvm_entry_def Let_def by (rule keeps_when_executable [OF keeps_version_file])
  show "keeps runtimes_ok (python_entry host dir name)"
    by (rule keepsI)
      (simp add: python_entry_def keepsD [OF keeps_when_executable [OF keeps_add_runtime]])
  show "keeps runtimes_ok (nvm_entry host dir name)"
    unfolding nvm_entry_def Let_def by (rule keeps_when_executable [OF keeps_add_runtime])
  show "keeps runtimes_ok (rustup_entry host dir name)"
    unfolding rustup_entry_def Let_def by (rule keeps_when_executable [OF keeps_rust_toolchain])
  show "keeps runtimes_ok (go_root host dir)"
    unfolding go_root_def by (rule keeps_when_executable [OF keeps_version_file])
  show "keeps runtimes_ok (node_header host dir)"
    unfolding node_header_def by (rule keeps_version_file)
  show "keeps runtimes_ok (php_version host dir b name)"
    unfolding php_version_def by (rule keeps_when_executable [OF keeps_add_runtime])
qed

lemma keeps_sections:
  "keeps runtimes_ok (java_runtimes host)"
  "keeps runtimes_ok (python_runtimes host)"
  "keeps runtimes_ok (dotnet_runtimes host home_res)"
  "keeps runtimes_ok (node_runtimes host home_res)"
  "keeps runtimes_ok (home_scan host home_res ''/.rustup/toolchains'' (rustup_entry host))"
  "keeps runtimes_ok (fold (go_root host) roots)"
  "keeps runtimes_ok (ruby_runtimes host)"
  "keeps runtimes_ok (php_runtimes host)"
proof -
  show "keeps runtimes_ok (java_runtimes host)"
    unfolding java_runtimes_def by (intro keeps_fold keeps_scan_directory keeps_entries)
  show "keeps runtimes_ok (python_runtimes host)"
    unfolding python_runtimes_def by (intro keeps_fold keeps_scan_directory keeps_entries)
  show go: "keeps runtimes_ok (fold (go_root host) roots)" for roots
    by (intro keeps_fold keeps_entries)
  have dotnet: "keeps runtimes_ok (fold (dotnet_root host) roots)" for roots
    by (intro keeps_fold keeps_dotnet_root)
  show "keeps runtimes_ok (dotnet_runtimes host home_res)"
  proof (rule keepsI)
    fix s e
    assume "runtimes_ok s"
    then have *: "runtimes_ok (fst (fold (dotnet_root host) roots (s, e')))" for roots e'
      by (intro keepsD [OF dotnet]) simp
    show "runtimes_ok (fst (dotnet_runtimes host home_res (s, e)))"
      by (cases home_res) (simp_all only: dotnet_runtimes_def Let_def result.case scan_error_def fst_conv *)
  qed
  have node: "keeps runtimes_ok (fold (node_header host) paths)" for paths
    by (intro keeps_fold keeps_entries)
  have nvm: "keeps runtimes_ok (home_scan host home_res suffix (nvm_entry host))" for suffix
    by (intro keeps_home_scan keeps_entries)
  show "keeps runtimes_ok (node_runtimes host home_res)"
    unfolding node_runtimes_def
    by (intro keeps_comp [OF nvm] keeps_when_executable node)
  show "keeps runtimes_ok (home_scan host home_res ''/.rustup/toolchains'' (rustup_entry host))"
    by (intro keeps_home_scan keeps_entries)
  have ruby: "keeps runtimes_ok (fold (ruby_candidate host b) cs)" for b cs
    by (intro keeps_fold keeps_ruby_candidate)
  show "keeps runtimes_ok (ruby_runtimes host)"
    by (rule keepsI) (simp add: ruby_runtimes_def split_beta keepsD [OF ruby])
  have php: "keeps runtimes_ok (fold (php_version host dir b) vs)" for dir b vs
    by (intro keeps_fold keeps_entries)
  show "keeps runtimes_ok (php_runtimes host)"
    by (rule keepsI) (simp add: php_runtimes_def split_beta keepsD [OF php])
qed

lemma runtimes_scan_ok: "runtimes_ok (fst (runtimes_scan env))"
  unfolding runtimes_scan_def Let_def
  by (intro keepsD [OF keeps_sections(8)] keepsD [OF keeps_sections(7)] keepsD [OF keeps_sections(6)]
      keepsD [OF keeps_sections(5)] keepsD [OF keeps_sections(4)] keepsD [OF keeps_sections(3)]
      keepsD [OF keeps_sections(2)] keepsD [OF keeps_sections(1)]) simp

lemma installed_runtimes_ok:
  assumes "installed_runtimes env = Value rs"
  shows "in_order compare_runtimes rs \<and> distinct (map make_runtime_dedup_key rs) \<and> list_all runtime_ok rs"
proof -
  have "rs = std_sort compare_runtimes (snd (fst (runtimes_scan env)))"
    using assms by (auto simp: installed_runtimes_def split_beta split: if_split_asm)
  then show ?thesis
    using inventory_sorted [OF runtimes.strict_weak_order_axioms runtimes_scan_ok] by blast
qed

text \<open>
  C15. Whatever the platform answers, an inventory that is returned is in its documented order and lists
  nothing twice: packages and runtimes differ in their keys, updates in their identifiers. Every package
  has a name, every update an identifier, every runtime a version and a path.
\<close>

theorem inventories_ordered_unique:
  "(case installed_packages env of
      Value ps \<Rightarrow> in_order compare_packages ps \<and> distinct (map make_package_dedup_key ps) \<and>
        list_all (\<lambda>p. pkg_name p \<noteq> []) ps
    | Unexpected c \<Rightarrow> True) \<and>
   (case system_updates env of
      Some (Value us) \<Rightarrow> in_order compare_updates us \<and> distinct (map upd_identifier us) \<and>
        list_all (\<lambda>u. upd_identifier u \<noteq> []) us
    | _ \<Rightarrow> True) \<and>
   (case installed_runtimes env of
      Value rs \<Rightarrow> in_order compare_runtimes rs \<and> distinct (map make_runtime_dedup_key rs) \<and>
        list_all (\<lambda>r. run_version r \<noteq> [] \<and> run_installation_path r \<noteq> []) rs
    | Unexpected c \<Rightarrow> True)"
  using installed_packages_ok [of env] system_updates_ok [of env]
    installed_runtimes_ok [of env, unfolded runtime_ok_def]
  by (auto split: result.split option.split)

section \<open>The child process\<close>

definition wait_interrupted :: "wait_event \<Rightarrow> bool" where
  "wait_interrupted e \<longleftrightarrow> e = Wait_error EINTR"

lemma read_output_returns:
  "length out \<le> maximum_output \<Longrightarrow>
   maximum_output - length out < length (filter (\<lambda>e. \<not> interrupted e) es) \<Longrightarrow>
   read_output out es \<noteq> None"
proof (induction out es rule: read_output.induct)
  case (2 out buffer es)
  then show ?case
    by (cases "buffer = [] \<or> length out + length buffer > maximum_output")
      (auto simp: interrupted_def neq_Nil_conv)
qed (auto simp: interrupted_def)

lemma read_output_bounded:
  "length out \<le> maximum_output \<Longrightarrow> read_output out es = Some (Value s) \<Longrightarrow> length s \<le> maximum_output"
  by (induction out es rule: read_output.induct) (auto split: if_split_asm)

lemma wait_returns:
  "e \<in> set es \<Longrightarrow> \<not> wait_interrupted e \<Longrightarrow> wait_child es \<noteq> None \<and> reap es \<noteq> None"
proof (induction es)
  case (Cons a es)
  then show ?case by (cases a) (auto simp: wait_interrupted_def)
qed simp

text \<open>
  The query for updates does not wait for ever: once the pipe has answered more often than the output
  limit and the child has been waited for, it has returned, and never with more output than the limit.
\<close>

theorem run_checkupdates_returns:
  assumes "maximum_output < length (filter (\<lambda>e. \<not> interrupted e) (sp_reads script))"
    and "e \<in> set (sp_waits script)" "\<not> wait_interrupted e"
  shows "\<exists>r. run_checkupdates script = Some r \<and>
    (\<forall>out. r = Value out \<longrightarrow> length (co_standard_output out) \<le> maximum_output)"
proof -
  obtain r where r: "read_output [] (sp_reads script) = Some r"
    using read_output_returns [of "[]" "sp_reads script"] assms(1) by auto
  obtain w u where "wait_child (sp_waits script) = Some w" "reap (sp_waits script) = Some u"
    using wait_returns [OF assms(2,3)] by auto
  with r read_output_bounded [of "[]" "sp_reads script"] show ?thesis
    by (cases r) (auto simp: run_checkupdates_def and_then_Value_iff)
qed

section \<open>The priority of unit directories\<close>

fun visible_names :: "directory_event list \<Rightarrow> string list" where
  "visible_names [] = []"
| "visible_names (Readdir_error e # es) = []"
| "visible_names (Entry name # es) = (if hidden name then visible_names es else name # visible_names es)"

definition listed :: "host \<Rightarrow> string \<Rightarrow> string list" where
  "listed host path = (if ho_opendir host path = None then visible_names (ho_entries host path) else [])"

text \<open>The scans of the model act on the listed names in order.\<close>

lemma scan_entries_names:
  assumes "\<And>name st. fst (body name st) = f name (fst st)"
  shows "fst (scan_entries body es st) = fold f (visible_names es) (fst st)"
proof (induction es arbitrary: st)
  case (Cons ev es)
  then show ?case by (cases ev) (auto simp: assms)
qed simp

lemma scan_directory_names:
  assumes "\<And>name st. fst (body name st) = f name (fst st)"
  shows "fst (scan_directory host path opened body st) =
    fold f (listed host path) (if ho_opendir host path = None then opened (fst st) else fst st)"
  by (cases "ho_opendir host path") (simp_all add: scan_directory_def listed_def scan_entries_names [where body = body and f = f, OF assms])

lemma scans_fold:
  assumes "\<And>d st. fst (scan d st) = g d (fst st)"
  shows "fst (fold scan ds st) = fold g ds (fst st)"
  by (induction ds arbitrary: st) (simp_all add: assms)

text \<open>The units that a \<open>.wants\<close> or \<open>.requires\<close> directory of a unit directory lists.\<close>

definition wants_name :: "string \<Rightarrow> bool" where
  "wants_name name \<longleftrightarrow> has_proper_suffix ''.wants'' name \<or> has_proper_suffix ''.requires'' name"

definition enabled_units :: "host \<Rightarrow> string set" where
  "enabled_units host =
     {f. \<exists>dir \<in> set service_dirs. \<exists>name \<in> set (listed host dir). wants_name name \<and>
           f \<in> set (listed host (dir @ ''/'' @ name)) \<and> has_proper_suffix ''.service'' f}"

lemma fold_insert_filter:
  "fold (\<lambda>f s. if p f then insert f s else s) xs A = A \<union> {f \<in> set xs. p f}"
  by (induction xs arbitrary: A) auto

lemma fold_union: "fold (\<lambda>x s. s \<union> B x) xs A = A \<union> \<Union> (B ` set xs)"
  by (induction xs arbitrary: A) auto

lemma wants_entry_set:
  "fst (wants_entry host dir name st) =
     fst st \<union> (if wants_name name
       then {f \<in> set (listed host (dir @ ''/'' @ name)). has_proper_suffix ''.service'' f} else {})"
proof -
  have "fst (wants_target f st) = (if has_proper_suffix ''.service'' f then insert f (fst st) else fst st)" for f st
    by (simp add: wants_target_def on_scan_def)
  from scan_directory_names [where body = wants_target and opened = "\<lambda>s. s" and
      f = "\<lambda>f s. if has_proper_suffix ''.service'' f then insert f s else s", OF this] show ?thesis
    by (simp add: wants_entry_def wants_name_def fold_insert_filter)
qed

lemma enabled_scan: "fst (fold (scan_systemd_wants_dir host) service_dirs ({}, e)) = enabled_units host"
proof -
  let ?B = "\<lambda>dir name. if wants_name name
       then {f \<in> set (listed host (dir @ ''/'' @ name)). has_proper_suffix ''.service'' f} else {}"
  have "fst (scan_systemd_wants_dir host dir st) = fst st \<union> \<Union> (?B dir ` set (listed host dir))" for dir st
    unfolding scan_systemd_wants_dir_def
    using scan_directory_names [where body = "wants_entry host dir" and opened = "\<lambda>s. s" and
        f = "\<lambda>name s. s \<union> ?B dir name", OF wants_entry_set]
    by (simp add: fold_union)
  from scans_fold [where scan = "scan_systemd_wants_dir host" and
      g = "\<lambda>dir s. s \<union> \<Union> (?B dir ` set (listed host dir))", OF this] show ?thesis
    by (auto simp: fold_union enabled_units_def split: if_split_asm simp del: fold_simps)
qed

definition unit_record :: "host \<Rightarrow> string set \<Rightarrow> string \<times> string \<Rightarrow> service_record option" where
  "unit_record host enabled u =
     (let full_path = fst u @ ''/'' @ snd u in
      if ho_readlink host full_path 255 = Some ''/dev/null'' then Some (masked_service (snd u))
      else (case ho_read host full_path (128 * 1024) of
              Unexpected e \<Rightarrow> None
            | Value content \<Rightarrow> Some (unit_service enabled (snd u) content)))"

text \<open>The unit files of a directory, and those whose name has not been seen before.\<close>

definition dir_units :: "host \<Rightarrow> string \<Rightarrow> (string \<times> string) list" where
  "dir_units host dir = map (Pair dir) (filter (has_proper_suffix ''.service'') (listed host dir))"

definition unit_files :: "host \<Rightarrow> (string \<times> string) list" where
  "unit_files host = concat (map (dir_units host) service_dirs)"

fun new_units :: "string set \<Rightarrow> (string \<times> string) list \<Rightarrow> (string \<times> string) list" where
  "new_units seen [] = []"
| "new_units seen (u # us) =
     (if snd u \<in> seen then new_units seen us else u # new_units (insert (snd u) seen) us)"

definition unit_step :: "host \<Rightarrow> string set \<Rightarrow> string \<times> string \<Rightarrow> services_state \<Rightarrow> services_state" where
  "unit_step host enabled u s =
     (if snd u \<in> ss_seen s then s
      else s\<lparr>ss_seen := insert (snd u) (ss_seen s),
             ss_services := ss_services s @ (case unit_record host enabled u of None \<Rightarrow> [] | Some r \<Rightarrow> [r])\<rparr>)"

lemma service_entry_unit:
  "fst (service_entry_step host enabled dir f st) =
     (if has_proper_suffix ''.service'' f then unit_step host enabled (dir, f) (fst st) else fst st)"
  by (simp add: service_entry_step_def unit_step_def unit_record_def on_scan_def push_service_def Let_def
      split: result.split)

lemma fold_filter: "fold (\<lambda>x s. if p x then g x s else s) xs s = fold g (filter p xs) s"
  by (induction xs arbitrary: s) simp_all

lemma fold_map_pair: "fold (\<lambda>f. g (dir, f)) xs s = fold g (map (Pair dir) xs) s"
  by (induction xs arbitrary: s) simp_all

lemma dir_scan_units:
  "fst (scan_directory host dir mark_opened (service_entry_step host enabled dir) st) =
     fold (unit_step host enabled) (dir_units host dir)
       (if ho_opendir host dir = None then mark_opened (fst st) else fst st)"
  using scan_directory_names [where body = "service_entry_step host enabled dir" and opened = mark_opened and
      f = "\<lambda>f s. if has_proper_suffix ''.service'' f then unit_step host enabled (dir, f) s else s",
      OF service_entry_unit]
  by (simp add: dir_units_def fold_filter fold_map_pair)

lemma unit_steps:
  "fold (unit_step host enabled) us s =
     s\<lparr>ss_seen := ss_seen s \<union> snd ` set us,
       ss_services := ss_services s @ List.map_filter (unit_record host enabled) (new_units (ss_seen s) us)\<rparr>"
proof (induction us arbitrary: s)
  case Nil
  show ?case by (simp add: map_filter_simps)
next
  case (Cons u us)
  show ?case
    unfolding fold_Cons o_apply Cons
    by (auto simp: unit_step_def map_filter_simps insert_absorb split: option.split)
qed

lemma new_units_append: "new_units seen (us @ vs) = new_units seen us @ new_units (seen \<union> snd ` set us) vs"
  by (induction us arbitrary: seen) (auto simp: insert_absorb)

lemma map_filter_append: "List.map_filter f (xs @ ys) = List.map_filter f xs @ List.map_filter f ys"
  by (simp add: List.map_filter_def)

lemma services_dirs:
  "fst (fold (\<lambda>dir. scan_directory host dir mark_opened (service_entry_step host enabled dir)) dirs st) =
     (fst st)\<lparr>ss_seen := ss_seen (fst st) \<union> snd ` set (concat (map (dir_units host) dirs)),
       ss_services := ss_services (fst st) @ List.map_filter (unit_record host enabled)
         (new_units (ss_seen (fst st)) (concat (map (dir_units host) dirs))),
       ss_opened := (ss_opened (fst st) \<or> (\<exists>dir \<in> set dirs. ho_opendir host dir = None))\<rparr>"
proof (induction dirs arbitrary: st)
  case Nil
  show ?case by (simp add: map_filter_simps)
next
  case (Cons dir dirs)
  show ?case
    unfolding fold_Cons o_apply Cons dir_scan_units unit_steps
    by (cases "ho_opendir host dir")
      (simp_all add: new_units_append map_filter_append mark_opened_def Un_assoc image_Un)
qed

lemma unit_record_name: "unit_record host enabled u = Some r \<Longrightarrow> svc_name r = snd u"
  by (auto simp: unit_record_def masked_service_def unit_service_def unit_file_name Let_def
      split: if_split_asm result.split_asm)

lemma new_units_distinct: "distinct (map snd (new_units seen us)) \<and> snd ` set (new_units seen us) \<inter> seen = {}"
  by (induction seen us rule: new_units.induct) auto

lemma unit_names_distinct:
  "distinct (map snd us) \<Longrightarrow> distinct (map svc_name (List.map_filter (unit_record host enabled) us))"
proof (induction us)
  case (Cons u us)
  have "svc_name r \<noteq> snd u" if "r \<in> set (List.map_filter (unit_record host enabled) us)" for r
  proof -
    from that obtain v where "v \<in> set us" "unit_record host enabled v = Some r"
      unfolding set_map_filter by blast
    then show ?thesis using Cons.prems unit_record_name [of host enabled v r] by force
  qed
  then have "unit_record host enabled u = Some r \<Longrightarrow>
      svc_name r \<notin> svc_name ` set (List.map_filter (unit_record host enabled) us)" for r
    using unit_record_name [of host enabled u r] by (metis imageE)
  moreover have "distinct (map svc_name (List.map_filter (unit_record host enabled) us))"
    using Cons by simp
  ultimately show ?case
    by (cases "unit_record host enabled u") (simp_all add: map_filter_simps)
qed (simp add: map_filter_simps)

text \<open>
  The services of a systemd host, when the query succeeds, are exactly the unit files of the four
  directories, each name taken from the first directory that has it: masked when it is a link to
  \<open>/dev/null\<close>, otherwise automatic when a \<open>.wants\<close> or \<open>.requires\<close> directory lists it and manual when none
  does. The list is ordered by name and names are unique.
\<close>

theorem services_priority:
  assumes "services env = Value xs" "\<exists>dir \<in> set service_dirs. ho_opendir (so_host env) dir = None"
  shows "xs = std_sort compare_services
      (List.map_filter (unit_record (so_host env) (enabled_units (so_host env)))
        (new_units {} (unit_files (so_host env)))) \<and>
    in_order compare_services xs \<and> distinct (map svc_name xs)"
proof -
  let ?h = "so_host env" and ?e = "enabled_units (so_host env)"
  let ?recs = "List.map_filter (unit_record ?h ?e) (new_units {} (unit_files ?h))"
  let ?st = "fold (\<lambda>dir. scan_directory ?h dir mark_opened (service_entry_step ?h ?e dir)) service_dirs
     (\<lparr>ss_seen = {}, ss_services = [], ss_opened = False\<rparr>,
      snd (fold (scan_systemd_wants_dir ?h) service_dirs ({}, success_code)))"
  have st: "ss_opened (fst ?st)" "ss_services (fst ?st) = ?recs"
    unfolding services_dirs using assms(2) by (simp_all add: unit_files_def)
  have "services_scan ?h = ?st"
    using st(1) enabled_scan [of ?h success_code]
    by (simp add: services_scan_def split_beta Let_def del: fold_simps)
  then have xs: "xs = std_sort compare_services ?recs"
    using assms(1) st by (simp add: services_def split_beta Let_def del: fold_simps split: if_split_asm)
  moreover have "in_order compare_services xs"
    unfolding xs by (rule services.std_sort_in_order)
  moreover have "mset (map svc_name xs) = mset (map svc_name ?recs)" by (simp add: xs)
  moreover have "distinct (map svc_name ?recs)"
    using new_units_distinct unit_names_distinct by blast
  ultimately show ?thesis using mset_eq_imp_distinct_iff by blast
qed

definition unit_host :: host where
  "unit_host = \<lparr>ho_opendir = (\<lambda>p. if p \<in> {''/etc/systemd/system'', ''/lib/systemd/system''} then None else Some ENOENT),
     ho_entries = (\<lambda>p. if p = ''/etc/systemd/system'' then [Entry ''.'', Entry ''a.service'']
       else [Entry ''b.service'', Entry ''a.service'']),
     ho_stat = (\<lambda>p. Stat_error ENOENT), ho_exists = (\<lambda>p. Some ENOENT), ho_executable = (\<lambda>p. Some ENOENT),
     ho_read = (\<lambda>p n. Value []),
     ho_readlink = (\<lambda>p n. if p = ''/etc/systemd/system/a.service'' then Some ''/dev/null'' else None),
     ho_getenv = (\<lambda>p. None)\<rparr>"

definition unit_platform :: software_platform where
  "unit_platform = \<lparr>so_host = unit_host, so_passwd_size = 0, so_passwd = (\<lambda>n. (0, None)),
     so_spawn = \<lparr>sp_pipe = 0, sp_actions = 0, sp_spawn = 0, sp_reads = [], sp_waits = []\<rparr>\<rparr>"

definition unit_answer :: "service_record list" where
  "unit_answer = [masked_service ''a.service'',
     new_service\<lparr>svc_name := ''b.service'', svc_startup_type := service_startup.manual\<rparr>]"

lemma unit_platform_services: "services unit_platform = Value unit_answer"
proof -
  have [simp]: "ho_opendir unit_host p =
      (if p \<in> {''/etc/systemd/system'', ''/lib/systemd/system''} then None else Some ENOENT)"
    "ho_entries unit_host p = (if p = ''/etc/systemd/system'' then [Entry ''.'', Entry ''a.service'']
       else [Entry ''b.service'', Entry ''a.service''])"
    "ho_read unit_host p n = Value []"
    "ho_readlink unit_host p n = (if p = ''/etc/systemd/system/a.service'' then Some ''/dev/null'' else None)"
    for p n by (simp_all add: unit_host_def)
  have scan: "fold (scan_systemd_wants_dir unit_host) service_dirs ({}, success_code) = ({}, success_code)"
    by (simp add: service_dirs_def scan_systemd_wants_dir_def scan_directory_def hidden_def wants_entry_def
        has_proper_suffix_def)
  have "services_scan unit_host = (\<lparr>ss_seen = {''b.service'', ''a.service''},
      ss_services = [masked_service ''a.service'', unit_service {} ''b.service'' []], ss_opened = True\<rparr>, success_code)"
    by (simp add: services_scan_def scan Let_def)
      (simp add: service_dirs_def scan_directory_def hidden_def mark_opened_def
        service_entry_step_def on_scan_def push_service_def has_proper_suffix_def Let_def)
  then show ?thesis
    by (simp add: services_def unit_platform_def code_is_error_def success_code_def unit_answer_def
        compare_services_def masked_service_def unit_service_def new_service_def parse_systemd_service_file_def)
qed

theorem services_priority_witness:
  "services unit_platform = Value unit_answer \<and>
   unit_answer = std_sort compare_services
      (List.map_filter (unit_record (so_host unit_platform) (enabled_units (so_host unit_platform)))
        (new_units {} (unit_files (so_host unit_platform)))) \<and>
   in_order compare_services unit_answer \<and> distinct (map svc_name unit_answer)"
proof (rule conjI [OF unit_platform_services])
  have "\<exists>dir \<in> set service_dirs. ho_opendir (so_host unit_platform) dir = None"
    by (simp add: service_dirs_def unit_platform_def unit_host_def)
  then show "unit_answer = std_sort compare_services
      (List.map_filter (unit_record (so_host unit_platform) (enabled_units (so_host unit_platform)))
        (new_units {} (unit_files (so_host unit_platform)))) \<and>
    in_order compare_services unit_answer \<and> distinct (map svc_name unit_answer)"
    by (rule services_priority [OF unit_platform_services])
qed

end
