(* ===== verification/Display.thy ===== *)
theory Display
  imports Linux_Files Text_Scan Utf8_Correct Ordering
begin

text \<open>
  The display module: the parsers every backend shares (\<open>detail/display/common.hpp\<close>), the public types
  (\<open>display.hpp\<close>) and the Linux backend over the DRM connectors in sysfs (\<open>detail/display/linux.hpp\<close>).

  An EDID is a list of bytes, a null pointer is \<^const>\<open>None\<close>. The one floating-point value, the refresh
  rate, is kept as the quotient the code forms before the division rounds it: all operands are integers
  below \<open>2\<^sup>53\<close>, which a \<open>double\<close> holds exactly.
\<close>

unbundle bit_operations_syntax

section \<open>Types\<close>

datatype rate = Rate nat nat

datatype display_orientation = unknown | landscape | portrait | landscape_flipped | portrait_flipped

datatype connection_state = unknown | connected | disconnected

record display_rect =
  rect_x :: int
  rect_y :: int
  rect_width :: u32
  rect_height :: u32

record display_mode =
  dm_width :: u32
  dm_height :: u32
  dm_refresh_rate :: "rate option"

record display_info =
  di_id :: string
  di_name :: "string option"
  di_manufacturer :: "string option"
  di_connector_type :: "string option"
  di_is_primary :: bool
  di_is_internal :: bool
  di_state :: connection_state
  di_bounds :: "display_rect option"
  di_work_area :: "display_rect option"
  di_current_width :: "u32 option"
  di_current_height :: "u32 option"
  di_refresh_rate :: "rate option"
  di_bits_per_pixel :: "u32 option"
  di_scale_factor :: "rate option"
  di_orientation :: "display_orientation option"
  di_physical_width_mm :: "u32 option"
  di_physical_height_mm :: "u32 option"
  di_supported_modes :: "display_mode list"

definition new_display :: "string \<Rightarrow> display_info" where
  "new_display conn_id = \<lparr>di_id = conn_id, di_name = None, di_manufacturer = None,
     di_connector_type = None, di_is_primary = False, di_is_internal = False,
     di_state = connection_state.unknown, di_bounds = None, di_work_area = None,
     di_current_width = None, di_current_height = None, di_refresh_rate = None,
     di_bits_per_pixel = None, di_scale_factor = None, di_orientation = None,
     di_physical_width_mm = None, di_physical_height_mm = None, di_supported_modes = []\<rparr>"

section \<open>Text\<close>

definition display_ascii_lower :: "u8 \<Rightarrow> u8" where
  "display_ascii_lower value = (if 65 \<le> value \<and> value \<le> 90 then value + (97 - 65) else value)"

definition display_blank :: "char \<Rightarrow> bool" where
  "display_blank c \<longleftrightarrow> c = nul \<or> c = CHR '' '' \<or> c = tab \<or> c = carriage_return \<or> c = newline"

definition display_trim :: "string \<Rightarrow> string" where
  "display_trim input = trim_both display_blank input"

text \<open>
  \<open>std::from_chars(first, last, v)\<close> with a 32-bit \<open>v\<close>, together with the test that it stopped at
  \<open>last\<close>.
\<close>

definition whole_u32 :: "string \<Rightarrow> u32 option" where
  "whole_u32 s =
     (if s \<noteq> [] \<and> list_all is_digit s \<and> dec_value s < 2 ^ 32 then Some (of_nat (dec_value s)) else None)"

definition is_x :: "char \<Rightarrow> bool" where
  "is_x c \<longleftrightarrow> c = CHR ''x'' \<or> c = CHR ''X''"

definition parse_mode_resolution :: "string \<Rightarrow> (u32 \<times> u32) result" where
  "parse_mode_resolution input =
     (let trimmed = display_trim input;
          x_pos = length (takeWhile (\<lambda>c. \<not> is_x c) trimmed)
      in
      if x_pos = length trimmed \<or> x_pos = 0 \<or> x_pos = length trimmed - 1 then fail errc.malformed_data
      else (case whole_u32 (take x_pos trimmed) of
          None \<Rightarrow> fail errc.malformed_data
        | Some width \<Rightarrow>
            if width = 0 then fail errc.malformed_data
            else (case whole_u32 (drop (x_pos + 1) trimmed) of
                None \<Rightarrow> fail errc.malformed_data
              | Some height \<Rightarrow>
                  if height = 0 then fail errc.malformed_data else Value (width, height))))"

section \<open>EDID\<close>

record edid_facts =
  ef_manufacturer :: "string option"
  ef_product_code :: "u16 option"
  ef_monitor_name :: "string option"
  ef_physical_width_mm :: "u32 option"
  ef_physical_height_mm :: "u32 option"
  ef_preferred_width :: "u32 option"
  ef_preferred_height :: "u32 option"
  ef_preferred_refresh :: "rate option"

definition no_facts :: edid_facts where
  "no_facts = \<lparr>ef_manufacturer = None, ef_product_code = None, ef_monitor_name = None,
     ef_physical_width_mm = None, ef_physical_height_mm = None, ef_preferred_width = None,
     ef_preferred_height = None, ef_preferred_refresh = None\<rparr>"

definition edid_block_size :: nat where "edid_block_size = 128"
definition maximum_edid_size :: nat where "maximum_edid_size = edid_block_size * 256"

definition expected_header :: "u8 list" where
  "expected_header = [0x00, 0xFF, 0xFF, 0xFF, 0xFF, 0xFF, 0xFF, 0x00]"

definition block_checksum :: "u8 list \<Rightarrow> nat \<Rightarrow> u8" where
  "block_checksum data block =
     foldl (\<lambda>checksum i. checksum + data ! (block * edid_block_size + i)) 0 [0..<edid_block_size]"

definition mfg_letter :: "u16 \<Rightarrow> nat \<Rightarrow> char" where
  "mfg_letter mfg_raw n = to_char ((drop_bit n mfg_raw AND 0x1F) + 65 - 1)"

definition capital :: "char \<Rightarrow> bool" where
  "capital c \<longleftrightarrow> 65 \<le> uchar c \<and> uchar c \<le> 90"

definition edid_manufacturer :: "u8 list \<Rightarrow> string option" where
  "edid_manufacturer data =
     (let mfg_raw = push_bit 8 (ucast (data ! 8)) OR ucast (data ! 9) :: u16;
          letters = [mfg_letter mfg_raw 10, mfg_letter mfg_raw 5, mfg_letter mfg_raw 0]
      in if list_all capital letters then Some letters else None)"

text \<open>The facts outside the descriptor blocks.\<close>

definition edid_head :: "u8 list \<Rightarrow> edid_facts" where
  "edid_head data =
     (let prod_code = ucast (data ! 10) OR push_bit 8 (ucast (data ! 11)) :: u16;
          h_cm = data ! 21; v_cm = data ! 22; sized = h_cm > 0 \<and> v_cm > 0
      in no_facts\<lparr>ef_manufacturer := edid_manufacturer data,
           ef_product_code := (if prod_code \<noteq> 0 then Some prod_code else None),
           ef_physical_width_mm := (if sized then Some (ucast h_cm * 10) else None),
           ef_physical_height_mm := (if sized then Some (ucast v_cm * 10) else None)\<rparr>)"

text \<open>A twelve-bit quantity of a timing descriptor: low byte and a nibble of a shared byte.\<close>

definition high_nibble :: "u8 \<Rightarrow> u8 \<Rightarrow> u32" where
  "high_nibble low shared = ucast low OR push_bit 4 (ucast shared AND 0xF0)"

definition low_nibble :: "u8 \<Rightarrow> u8 \<Rightarrow> u32" where
  "low_nibble low shared = ucast low OR push_bit 8 (ucast shared AND 0x0F)"

definition timing_descriptor :: "u8 list \<Rightarrow> edid_facts \<Rightarrow> edid_facts" where
  "timing_descriptor blk facts =
     (let pix_clock_10khz = ucast (blk ! 0) OR push_bit 8 (ucast (blk ! 1)) :: u32;
          h_active = high_nibble (blk ! 2) (blk ! 4);
          h_blanking = low_nibble (blk ! 3) (blk ! 4);
          v_active = high_nibble (blk ! 5) (blk ! 7);
          v_blanking = low_nibble (blk ! 6) (blk ! 7);
          h_total = h_active + h_blanking;
          v_total = v_active + v_blanking
      in
      if pix_clock_10khz > 0 \<and> ef_preferred_width facts = None \<and>
         h_active > 0 \<and> v_active > 0 \<and> h_total > 0 \<and> v_total > 0
      then facts\<lparr>ef_preferred_width := Some h_active, ef_preferred_height := Some v_active,
        ef_preferred_refresh := Some (Rate (unat pix_clock_10khz * 10000) (unat h_total * unat v_total))\<rparr>
      else facts)"

definition edid_descriptor :: "u8 list \<Rightarrow> edid_facts \<Rightarrow> edid_facts result" where
  "edid_descriptor blk facts =
     (if blk ! 0 = 0 \<and> blk ! 1 = 0 \<and> blk ! 2 = 0 then
        (if blk ! 3 = 0xFC then
           (let name = display_trim (map to_char (take 13 (drop 5 blk))) in
            if name = [] then Value facts
            else if \<not> is_valid_utf8 name then fail errc.invalid_encoding
            else Value (facts\<lparr>ef_monitor_name := Some name\<rparr>))
         else Value facts)
      else Value (timing_descriptor blk facts))"

fun edid_descriptors :: "u8 list \<Rightarrow> nat list \<Rightarrow> edid_facts \<Rightarrow> edid_facts result" where
  "edid_descriptors data [] facts = Value facts"
| "edid_descriptors data (off # offs) facts =
     and_then (edid_descriptor (take 18 (drop off data)) facts) (edid_descriptors data offs)"

definition descriptor_offsets :: "nat list" where
  "descriptor_offsets = [54, 72, 90, 108]"

definition parse_edid_block :: "u8 list option \<Rightarrow> edid_facts result" where
  "parse_edid_block bytes =
     (case bytes of
        None \<Rightarrow> fail errc.malformed_data
      | Some data \<Rightarrow>
          if length data < edid_block_size \<or> length data > maximum_edid_size \<or>
             length data mod edid_block_size \<noteq> 0 then fail errc.malformed_data
          else if \<not> list_all (\<lambda>i. data ! i = expected_header ! i) [0..<8] then fail errc.malformed_data
          else
            (let block_count = unat (data ! 126) + 1 in
             if length data \<noteq> block_count * edid_block_size then fail errc.malformed_data
             else if \<not> list_all (\<lambda>block. block_checksum data block = 0) [0..<block_count]
               then fail errc.malformed_data
             else edid_descriptors data descriptor_offsets (edid_head data)))"

section \<open>Connector names\<close>

definition internal_types :: "string list" where
  "internal_types = [''eDP'', ''LVDS'', ''DSI'', ''edp'', ''lvds'', ''dsi'']"

definition stripped_connector :: "string \<Rightarrow> string" where
  "stripped_connector connector_name =
     (if substr connector_name 0 4 = ''card'' then
        (case find_from (CHR ''-'') connector_name 0 of
           None \<Rightarrow> connector_name
         | Some dash \<Rightarrow>
             if dash + 1 < length connector_name then drop (dash + 1) connector_name else connector_name)
      else connector_name)"

definition connector_type_part :: "string \<Rightarrow> string" where
  "connector_type_part name =
     (case rfind_char (CHR ''-'') name of
        None \<Rightarrow> name
      | Some last_dash \<Rightarrow>
          if last_dash > 0 \<and> list_all is_digit (drop (last_dash + 1) name) then take last_dash name
          else name)"

text \<open>The connector type and whether it is an internal panel.\<close>

definition classify_connector_name :: "string \<Rightarrow> string \<times> bool" where
  "classify_connector_name connector_name =
     (let type_part = connector_type_part (stripped_connector connector_name)
      in (type_part, type_part \<in> set internal_types))"

section \<open>The Linux backend\<close>

definition drm_class_root :: string where
  "drm_class_root = ''/sys/class/drm/''"

definition is_connector_name :: "string \<Rightarrow> bool" where
  "is_connector_name name \<longleftrightarrow>
     \<not> (length name \<le> 6 \<or> substr name 0 4 \<noteq> ''card'') \<and>
     (case find_from (CHR ''-'') name 0 of
        None \<Rightarrow> False
      | Some dash \<Rightarrow> \<not> dash \<le> 4 \<and> list_all is_digit (substr name 4 (dash - 4)))"

text \<open>
  A file that may be absent: its content is used when it can be read, an error other than its absence
  fails the query.
\<close>

definition optional_file :: "string result \<Rightarrow> 'a \<Rightarrow> (string \<Rightarrow> 'a result) \<Rightarrow> 'a result" where
  "optional_file contents absent f =
     (case contents of
        Value s \<Rightarrow> f s
      | Unexpected e \<Rightarrow> if \<not> is_no_such_file e then Unexpected e else Value absent)"

definition status_of :: "string \<Rightarrow> connection_state" where
  "status_of status_text =
     (let trimmed = display_trim status_text in
      if trimmed = ''connected'' then connected
      else if trimmed = ''disconnected'' then disconnected
      else connection_state.unknown)"

fun mode_lines :: "string list \<Rightarrow> display_mode list \<Rightarrow> display_mode list" where
  "mode_lines [] modes = modes"
| "mode_lines (raw # rest) modes =
     (let line = display_trim raw in
      if line = [] then mode_lines rest modes
      else (case parse_mode_resolution line of
          Unexpected e \<Rightarrow> mode_lines rest modes
        | Value (w, h) \<Rightarrow>
            mode_lines rest
              (if list_ex (\<lambda>m. dm_width m = w \<and> dm_height m = h) modes then modes
               else modes @ [\<lparr>dm_width = w, dm_height = h, dm_refresh_rate = None\<rparr>])))"

text \<open>The rate goes to the first mode of the preferred size.\<close>

fun set_mode_rate :: "u32 \<Rightarrow> u32 \<Rightarrow> rate option \<Rightarrow> display_mode list \<Rightarrow> display_mode list" where
  "set_mode_rate w h r [] = []"
| "set_mode_rate w h r (m # ms) =
     (if dm_width m = w \<and> dm_height m = h then m\<lparr>dm_refresh_rate := r\<rparr> # ms
      else m # set_mode_rate w h r ms)"

definition keep_present :: "'a option \<Rightarrow> 'a option \<Rightarrow> 'a option" where
  "keep_present new old = (if new \<noteq> None then new else old)"

definition apply_edid :: "edid_facts \<Rightarrow> display_info \<Rightarrow> display_info" where
  "apply_edid facts info =
     info\<lparr>di_name := keep_present (ef_monitor_name facts) (di_name info),
       di_manufacturer := keep_present (ef_manufacturer facts) (di_manufacturer info),
       di_physical_width_mm := keep_present (ef_physical_width_mm facts) (di_physical_width_mm info),
       di_physical_height_mm := keep_present (ef_physical_height_mm facts) (di_physical_height_mm info),
       di_supported_modes :=
         (case (ef_preferred_refresh facts, ef_preferred_width facts, ef_preferred_height facts) of
            (Some r, Some w, Some h) \<Rightarrow> set_mode_rate w h (Some r) (di_supported_modes info)
          | _ \<Rightarrow> di_supported_modes info)\<rparr>"

definition edid_bytes :: "string \<Rightarrow> u8 list" where
  "edid_bytes s = map (\<lambda>c. of_nat (uchar c)) s"

definition inspect_connector :: "host \<Rightarrow> string \<Rightarrow> string \<Rightarrow> display_info result" where
  "inspect_connector host conn_id conn_path =
     (if \<not> is_valid_utf8 conn_id then fail errc.invalid_encoding
      else
        (let (connector_type, is_internal) = classify_connector_name conn_id;
             info = (new_display conn_id)
               \<lparr>di_connector_type := Some connector_type, di_is_internal := is_internal\<rparr>
         in
         and_then (optional_file (ho_read host (conn_path @ ''/status'') 64) info
             (\<lambda>s. Value (info\<lparr>di_state := status_of s\<rparr>))) (\<lambda>info.
         and_then (optional_file (ho_read host (conn_path @ ''/modes'') 4096) info
             (\<lambda>s. Value (info\<lparr>di_supported_modes := mode_lines (lines_of s) []\<rparr>))) (\<lambda>info.
         optional_file (ho_read host (conn_path @ ''/edid'') maximum_edid_size) info
             (\<lambda>s. if s = [] then Value info
                  else and_then (parse_edid_block (Some (edid_bytes s)))
                         (\<lambda>facts. Value (apply_edid facts info)))))))"

fun connector_entries ::
    "host \<Rightarrow> directory_event list \<Rightarrow> display_info list \<Rightarrow> display_info list result" where
  "connector_entries host [] found = Value found"
| "connector_entries host (Readdir_error e # es) found =
     (if e \<noteq> 0 then fail_errno e else Value found)"
| "connector_entries host (Entry name # es) found =
     (if name = ''.'' \<or> name = ''..'' \<or> \<not> is_connector_name name then connector_entries host es found
      else (case inspect_connector host name (drm_class_root @ name) of
          Value info \<Rightarrow> connector_entries host es (found @ [info])
        | Unexpected e \<Rightarrow>
            if \<not> is_no_such_file e then Unexpected e else connector_entries host es found))"

definition display_id_less :: "display_info \<Rightarrow> display_info \<Rightarrow> bool" where
  "display_id_less a b \<longleftrightarrow> di_id a < di_id b"

definition displays :: "host \<Rightarrow> display_info list result" where
  "displays host =
     (case ho_opendir host drm_class_root of
        Some e \<Rightarrow> if e = ENOENT then fail errc.not_supported else fail_errno e
      | None \<Rightarrow>
          and_then (connector_entries host (ho_entries host drm_class_root) [])
            (\<lambda>found. Value (std_sort display_id_less found)))"

definition display_count :: "host \<Rightarrow> nat result" where
  "display_count host = and_then (displays host) (\<lambda>ds. Value (length ds))"

definition primary_display :: "host \<Rightarrow> display_info result" where
  "primary_display host =
     and_then (displays host) (\<lambda>ds.
       if ds = [] then fail errc.not_found
       else (case find di_is_primary ds of None \<Rightarrow> fail errc.not_found | Some d \<Rightarrow> Value d))"

end
