(* ===== verification/Display_Correct.thy ===== *)
theory Display_Correct
  imports Display
begin

text \<open>
  What the display parsers promise: the EDID block of a monitor described by its letters, sizes, timings
  and names reads back as those facts, every accepted block has well-formed facts, and the connectors of
  the Linux backend are well-formed and in order.
\<close>

unbundle bit_operations_syntax

section \<open>Twelve-bit quantities\<close>

lemma and_f0: "unat (w AND 0xF0) = 16 * (unat w div 16 mod 16)" for w :: u32
proof -
  have m: "(0xF0 :: u32) = push_bit 4 (mask 4)"
    by (simp add: mask_eq_exp_minus_1 push_bit_eq_mult [of 4])
  have e: "w AND 0xF0 = push_bit 4 (drop_bit 4 w AND mask 4)"
    unfolding m by (rule bit_word_eqI) (auto simp: bit_simps)
  have u: "unat (drop_bit 4 w AND mask 4) = unat w div 16 mod 16"
    by (simp add: unat_and_mask unat_drop_bit)
  have "unat (drop_bit 4 w AND mask 4) * 2 ^ 4 < 2 ^ LENGTH(32)"
    unfolding u using mod_less_divisor [of 16 "unat w div 16"] by simp
  then show ?thesis
    unfolding e by (subst unat_push_bit_small) (simp_all only: u, simp)
qed

lemma or_low: "unat (a OR push_bit 8 b) = unat a + 256 * unat b"
  if "unat a < 256" "unat b < 2 ^ 24" for a b :: u32
  using unat_shift_or [of a 8 b] that by (simp add: or.commute)

lemma unat_u8_less: "unat (w :: u8) < 256"
  using unsigned_less [of w] by simp

lemma unat_high_nibble: "unat (high_nibble low shared) = unat low + 256 * (unat shared div 16)"
proof -
  have "push_bit 4 ((ucast shared :: u32) AND 0xF0) = push_bit 8 (drop_bit 4 (ucast shared))"
  proof (rule word_unat_eq_iff [THEN iffD2])
    have "unat (push_bit 4 ((ucast shared :: u32) AND 0xF0)) = 256 * (unat shared div 16)"
      using unat_u8_less [of shared]
      by (subst unat_push_bit_small) (simp_all add: and_f0 unat_ucast_up)
    moreover have "unat (push_bit 8 (drop_bit 4 (ucast shared :: u32))) = 256 * (unat shared div 16)"
      using unat_u8_less [of shared]
      by (subst unat_push_bit_small) (simp_all add: unat_drop_bit unat_ucast_up)
    ultimately show "unat (push_bit 4 ((ucast shared :: u32) AND 0xF0)) =
        unat (push_bit 8 (drop_bit 4 (ucast shared :: u32)))" by simp
  qed
  then show ?thesis
    using unat_u8_less [of low] unat_u8_less [of shared]
    by (simp add: high_nibble_def or_low unat_drop_bit unat_ucast_up)
qed

lemma unat_low_nibble: "unat (low_nibble low shared) = unat low + 256 * (unat shared mod 16)"
proof -
  have u: "unat ((ucast shared :: u32) AND 0x0F) = unat shared mod 16"
    by (simp only: unat_and_low, simp add: unat_ucast_up)
  show ?thesis
    unfolding low_nibble_def using unat_u8_less [of low]
    by (subst or_low) (simp_all only: u, simp_all add: unat_ucast_up)
qed

lemma nibbles_less: "unat (high_nibble low shared) < 4096" "unat (low_nibble low shared) < 4096"
  using unat_u8_less [of low] unat_u8_less [of shared]
    less_mult_imp_div_less [of "unat shared" 16 16] mod_less_divisor [of 16 "unat shared"]
  unfolding unat_high_nibble unat_low_nibble by linarith+

section \<open>Every accepted EDID\<close>

definition facts_ok :: "edid_facts \<Rightarrow> bool" where
  "facts_ok f \<longleftrightarrow>
     (case ef_manufacturer f of None \<Rightarrow> True | Some m \<Rightarrow> length m = 3 \<and> list_all capital m) \<and>
     (case ef_monitor_name f of None \<Rightarrow> True
      | Some n \<Rightarrow> n \<noteq> [] \<and> length n \<le> 13 \<and> is_valid_utf8 n \<and> \<not> display_blank (hd n) \<and> \<not> display_blank (last n)) \<and>
     (ef_physical_width_mm f = None) = (ef_physical_height_mm f = None) \<and>
     (case ef_physical_width_mm f of None \<Rightarrow> True | Some w \<Rightarrow> 10 \<le> unat w \<and> unat w \<le> 2550) \<and>
     (case ef_physical_height_mm f of None \<Rightarrow> True | Some h \<Rightarrow> 10 \<le> unat h \<and> unat h \<le> 2550) \<and>
     (case (ef_preferred_width f, ef_preferred_height f, ef_preferred_refresh f) of
        (None, None, None) \<Rightarrow> True
      | (Some w, Some h, Some (Rate num den)) \<Rightarrow>
          0 < unat w \<and> unat w < 4096 \<and> 0 < unat h \<and> unat h < 4096 \<and> 0 < num \<and> num < 2 ^ 53 \<and>
          unat w * unat h \<le> den \<and> den < 2 ^ 53
      | _ \<Rightarrow> False)"

lemma unat_times_ten: "unat ((ucast (b :: u8) :: u32) * 10) = 10 * unat b"
  using unat_u8_less [of b] by (subst unat_mult_small) (simp_all add: unat_ucast_up)

lemma u8_pos: "0 < (b :: u8) \<longleftrightarrow> 0 < unat b"
  by (simp add: word_less_nat_alt)

lemma edid_head_ok: "facts_ok (edid_head data)"
  using unat_u8_less [of "data ! 21"] unat_u8_less [of "data ! 22"]
  by (auto simp: facts_ok_def edid_head_def Let_def no_facts_def edid_manufacturer_def unat_times_ten u8_pos)

lemma trim_both_ends: "trim_both p s = [] \<or> \<not> p (hd (trim_both p s)) \<and> \<not> p (last (trim_both p s))"
proof (cases "trim_both p s = []")
  case False
  have l: "\<not> p (last (trim_back p s))" if "trim_back p s \<noteq> []"
    using that hd_dropWhile [of p "rev s"] by (simp add: trim_back_def last_rev)
  obtain ys where "trim_back p s = ys @ trim_both p s"
    unfolding trim_both_def by (metis takeWhile_dropWhile_id)
  then have "last (trim_both p s) = last (trim_back p s)" "trim_back p s \<noteq> []"
    using False by simp_all
  then show ?thesis
    using l False hd_dropWhile [of p "trim_back p s"] by (auto simp: trim_both_def)
qed simp

lemma length_trim_both: "length (trim_both p s) \<le> length s"
  using length_dropWhile_le [of p "trim_back p s"] length_dropWhile_le [of p "rev s"]
  by (simp add: trim_both_def trim_back_def)

lemma pixel_clock_less: "unat (ucast a OR push_bit 8 (ucast b) :: u32) < 65536" for a b :: u8
  using unat_u8_less [of a] unat_u8_less [of b] by (simp add: or_low unat_ucast_up)

lemma timing_ok:
  assumes "facts_ok f"
  shows "facts_ok (timing_descriptor blk f)"
proof -
  let ?w = "high_nibble (blk ! 2) (blk ! 4)" and ?h = "high_nibble (blk ! 5) (blk ! 7)"
  let ?hb = "low_nibble (blk ! 3) (blk ! 4)" and ?vb = "low_nibble (blk ! 6) (blk ! 7)"
  let ?c = "ucast (blk ! 0) OR push_bit 8 (ucast (blk ! 1)) :: u32"
  have s: "unat (?w + ?hb) = unat ?w + unat ?hb" "unat (?h + ?vb) = unat ?h + unat ?vb"
    using nibbles_less by (simp_all add: unat_add_small nibbles_less add_less_le_mono less_imp_le
        less_trans [OF add_strict_mono [OF nibbles_less(1) nibbles_less(2)]])
  have den: "unat (?w + ?hb) * unat (?h + ?vb) < 8192 * 8192"
    unfolding s by (rule mult_strict_mono)
      (use nibbles_less [of "blk ! 2" "blk ! 4"] nibbles_less [of "blk ! 3" "blk ! 4"]
        nibbles_less [of "blk ! 5" "blk ! 7"] nibbles_less [of "blk ! 6" "blk ! 7"] in linarith)+
  have le: "unat ?w * unat ?h \<le> unat (?w + ?hb) * unat (?h + ?vb)"
    unfolding s by (rule mult_le_mono) simp_all
  show ?thesis
    using assms den le nibbles_less(1) [of "blk ! 2" "blk ! 4"] nibbles_less(1) [of "blk ! 5" "blk ! 7"]
      pixel_clock_less [of "blk ! 0" "blk ! 1"]
    by (auto simp: facts_ok_def timing_descriptor_def Let_def word_less_nat_alt split: option.splits)
qed

lemma descriptor_ok:
  assumes "facts_ok f" "edid_descriptor blk f = Value g"
  shows "facts_ok g"
proof -
  let ?n = "display_trim (map to_char (take 13 (drop 5 blk)))"
  have "length ?n \<le> 13"
    using length_trim_both [of display_blank "map to_char (take 13 (drop 5 blk))"]
    by (simp add: display_trim_def)
  moreover have "?n = [] \<or> \<not> display_blank (hd ?n) \<and> \<not> display_blank (last ?n)"
    unfolding display_trim_def by (rule trim_both_ends)
  ultimately have "facts_ok (f\<lparr>ef_monitor_name := Some ?n\<rparr>)"
    if "?n \<noteq> []" "is_valid_utf8 ?n" using assms(1) that by (simp add: facts_ok_def)
  then show ?thesis
    using assms timing_ok [OF assms(1), of blk]
    by (simp add: edid_descriptor_def Let_def fail_def split: if_splits)
qed

lemma descriptors_ok:
  "facts_ok f \<Longrightarrow> edid_descriptors data offs f = Value g \<Longrightarrow> facts_ok g"
proof (induction offs arbitrary: f)
  case (Cons off offs)
  from Cons.prems(2) obtain f' where "edid_descriptor (take 18 (drop off data)) f = Value f'"
    "edid_descriptors data offs f' = Value g"
    by (cases "edid_descriptor (take 18 (drop off data)) f") simp_all
  then show ?case
    using Cons.IH [of f'] descriptor_ok [OF Cons.prems(1)] by blast
qed simp

definition edid_frame :: "u8 list \<Rightarrow> bool" where
  "edid_frame data \<longleftrightarrow>
     length data = 128 * (unat (data ! 126) + 1) \<and> take 8 data = expected_header \<and>
     (\<forall>block \<le> unat (data ! 126). sum_list (map unat (take 128 (drop (128 * block) data))) mod 256 = 0)"

lemma foldl_checksum: "foldl (\<lambda>c i. c + f i) a is = a + sum_list (map f is)" for a :: "'a::comm_monoid_add"
  by (induction "is" arbitrary: a) (simp_all add: add.assoc)

lemma block_checksum_zero:
  assumes "(block + 1) * 128 \<le> length data"
  shows "block_checksum data block = 0 \<longleftrightarrow> sum_list (map unat (take 128 (drop (128 * block) data))) mod 256 = 0"
proof -
  let ?xs = "take 128 (drop (128 * block) data)"
  have "map (\<lambda>i. data ! (block * 128 + i)) [0..<128] = ?xs"
    using assms by (auto intro!: nth_equalityI simp: mult.commute)
  then have c: "block_checksum data block = sum_list ?xs"
    by (simp add: block_checksum_def edid_block_size_def foldl_checksum)
  have "unat (sum_list ys) = sum_list (map unat ys) mod 256" for ys :: "u8 list"
    by (induction ys) (simp_all add: unat_word_ariths mod_simps)
  then show ?thesis
    unfolding c by (metis unat_eq_zero)
qed

lemma header_iff:
  "8 \<le> length data \<Longrightarrow>
   list_all (\<lambda>i. data ! i = expected_header ! i) [0..<8] \<longleftrightarrow> take 8 data = expected_header"
  by (auto simp: list_all_iff list_eq_iff_nth_eq expected_header_def)

text \<open>The framing test of the parser is exactly \<^const>\<open>edid_frame\<close>.\<close>

lemma parse_edid_frame:
  "parse_edid_block (Some data) =
     (if edid_frame data then edid_descriptors data descriptor_offsets (edid_head data)
      else fail errc.malformed_data)"
proof (cases "128 \<le> length data \<and> length data = 128 * (unat (data ! 126) + 1)")
  case True
  then have n: "unat (data ! 126) < 256" "length data mod 128 = 0"
    using unat_u8_less by (simp_all only: mod_mult_self1_is_0)
  have "list_all (\<lambda>block. block_checksum data block = 0) [0..<unat (data ! 126) + 1] \<longleftrightarrow>
      (\<forall>block \<le> unat (data ! 126). sum_list (map unat (take 128 (drop (128 * block) data))) mod 256 = 0)"
    using True block_checksum_zero [of _ data]
    by (simp del: upt_Suc add: list_all_iff atLeastLessThanSuc_atLeastAtMost Ball_def)
  then show ?thesis
    using True n header_iff [of data]
    by (simp add: parse_edid_block_def edid_frame_def edid_block_size_def maximum_edid_size_def Let_def mult.commute
        del: upt_Suc)
next
  case False
  then show ?thesis
    by (auto simp: parse_edid_block_def edid_frame_def edid_block_size_def Let_def mult.commute)
qed

text \<open>
  Every block the EDID parser accepts is framed as the standard says (header, size, one zero checksum
  per block) and yields well-formed facts: a manufacturer of three capitals, a valid UTF-8 name of 1 to 13
  bytes without blank ends, both physical sizes or neither, and a preferred timing that is complete, within
  twelve bits, with a positive clock and a nonzero total, so that the refresh rate never divides by zero.
\<close>

theorem parse_edid_wellformed:
  "case parse_edid_block (Some data) of
     Value f \<Rightarrow> edid_frame data \<and> facts_ok f
   | Unexpected e \<Rightarrow> e = make_error_code errc.malformed_data \<and> \<not> edid_frame data \<or>
       e = make_error_code errc.invalid_encoding \<and> edid_frame data"
proof -
  have bad: "edid_descriptors data offs f = Unexpected e \<Longrightarrow> e = make_error_code errc.invalid_encoding"
    for offs f e
  proof (induction offs arbitrary: f)
    case (Cons off offs)
    show ?case
    proof (cases "edid_descriptor (take 18 (drop off data)) f")
      case (Value f')
      then show ?thesis using Cons by simp
    next
      case (Unexpected e')
      then show ?thesis
        using Cons.prems by (auto simp: edid_descriptor_def Let_def fail_def split: if_splits)
    qed
  qed simp
  show ?thesis
    using descriptors_ok [OF edid_head_ok] bad
    by (auto simp: parse_edid_frame fail_def split: result.splits)
qed

section \<open>Encoding a monitor\<close>

text \<open>
  A descriptor block: a timing (clock in units of 10 kHz, active and blank sizes, ten more bytes), a name
  padded with line feed and spaces, or a display descriptor with another tag.
\<close>

datatype descriptor =
    Timing nat nat nat nat nat "u8 list"
  | Monitor_name string
  | Other u8 "u8 list"

definition name_text :: "string \<Rightarrow> bool" where
  "name_text n \<longleftrightarrow> n \<noteq> [] \<and> length n \<le> 13 \<and> is_valid_utf8 n \<and> \<not> display_blank (hd n) \<and> \<not> display_blank (last n)"

fun descriptor_valid :: "descriptor \<Rightarrow> bool" where
  "descriptor_valid (Timing clock ha hb va vb rest) \<longleftrightarrow>
     0 < clock \<and> clock < 65536 \<and> ha < 4096 \<and> hb < 4096 \<and> va < 4096 \<and> vb < 4096 \<and> length rest = 10"
| "descriptor_valid (Monitor_name n) \<longleftrightarrow> name_text n"
| "descriptor_valid (Other tag rest) \<longleftrightarrow> tag \<noteq> 0xFC \<and> length rest = 14"

definition byte8 :: "nat \<Rightarrow> u8" where
  "byte8 n = of_nat n"

definition split12 :: "nat \<Rightarrow> nat \<Rightarrow> u8" where
  "split12 a b = byte8 (16 * (a div 256) + b div 256)"

fun encode_descriptor :: "descriptor \<Rightarrow> u8 list" where
  "encode_descriptor (Timing clock ha hb va vb rest) =
     [byte8 (clock mod 256), byte8 (clock div 256), byte8 (ha mod 256), byte8 (hb mod 256), split12 ha hb,
      byte8 (va mod 256), byte8 (vb mod 256), split12 va vb] @ rest"
| "encode_descriptor (Monitor_name n) =
     [0, 0, 0, 0xFC, 0] @ edid_bytes n @
       (if length n < 13 then 0x0A # replicate (12 - length n) 0x20 else [])"
| "encode_descriptor (Other tag rest) = [0, 0, 0, tag] @ rest"

text \<open>A timing whose first three bytes are zero would read as a display descriptor.\<close>

fun timing_applies :: "descriptor \<Rightarrow> bool" where
  "timing_applies (Timing clock ha hb va vb rest) \<longleftrightarrow> 0 < ha \<and> 0 < va"
| "timing_applies _ \<longleftrightarrow> False"

fun apply_descriptor :: "descriptor \<Rightarrow> edid_facts \<Rightarrow> edid_facts" where
  "apply_descriptor (Timing clock ha hb va vb rest) f =
     (if ef_preferred_width f = None \<and> 0 < ha \<and> 0 < va
      then f\<lparr>ef_preferred_width := Some (of_nat ha), ef_preferred_height := Some (of_nat va),
             ef_preferred_refresh := Some (Rate (clock * 10000) ((ha + hb) * (va + vb)))\<rparr>
      else f)"
| "apply_descriptor (Monitor_name n) f = f\<lparr>ef_monitor_name := Some n\<rparr>"
| "apply_descriptor (Other tag rest) f = f"

lemma unat_byte8 [simp]: "n < 256 \<Longrightarrow> unat (byte8 n) = n"
  by (simp add: byte8_def unat_of_nat take_bit_nat_eq_self)

lemma split12_parts:
  assumes "a < 4096" "b < 4096"
  shows "high_nibble (byte8 (a mod 256)) (split12 a b) = of_nat a"
    and "low_nibble (byte8 (b mod 256)) (split12 a b) = of_nat b"
proof -
  have d: "a div 256 < 16" "b div 256 < 16" using assms by auto
  then have s: "unat (split12 a b) = 16 * (a div 256) + b div 256" by (simp add: split12_def)
  have n: "unat (of_nat a :: u32) = a" "unat (of_nat b :: u32) = b"
    using assms by (simp_all add: unat_of_nat take_bit_nat_eq_self)
  have "unat (high_nibble (byte8 (a mod 256)) (split12 a b)) = a"
    using d by (simp add: unat_high_nibble s)
  then show "high_nibble (byte8 (a mod 256)) (split12 a b) = of_nat a"
    using n by (metis word_unat_eq_iff)
  have "unat (low_nibble (byte8 (b mod 256)) (split12 a b)) = b"
    using d by (simp add: unat_low_nibble s mod_simps)
  then show "low_nibble (byte8 (b mod 256)) (split12 a b) = of_nat b"
    using n by (metis word_unat_eq_iff)
qed

lemma clock_bytes:
  assumes "clock < 65536"
  shows "ucast (byte8 (clock mod 256)) OR push_bit 8 (ucast (byte8 (clock div 256))) = (of_nat clock :: u32)"
proof -
  have d: "clock div 256 < 256" using assms by auto
  have "unat (ucast (byte8 (clock mod 256)) OR push_bit 8 (ucast (byte8 (clock div 256))) :: u32) = clock"
    using d by (subst or_low) (simp_all add: unat_ucast_up)
  moreover have "unat (of_nat clock :: u32) = clock"
    using assms by (simp add: unat_of_nat take_bit_nat_eq_self)
  ultimately show ?thesis by (metis word_unat_eq_iff)
qed

lemma timing_bytes:
  assumes "descriptor_valid (Timing clock ha hb va vb rest)"
  shows "timing_descriptor (encode_descriptor (Timing clock ha hb va vb rest)) f =
    apply_descriptor (Timing clock ha hb va vb rest) f"
proof -
  have sum: "(of_nat a + of_nat b :: u32) = of_nat (a + b)" for a b by simp
  have n: "unat (of_nat k :: u32) = k" if "k < 65536" for k
    using that by (simp add: unat_of_nat take_bit_nat_eq_self)
  show ?thesis
    using assms
    by (simp add: timing_descriptor_def Let_def split12_parts clock_bytes sum n word_less_nat_alt
        del: of_nat_add)
qed

lemma map_to_char_edid: "map to_char (edid_bytes n) = n"
  by (induction n) (simp_all add: edid_bytes_def to_char_def unat_of_nat take_bit_nat_eq_self)

lemma trim_padded:
  assumes "name_text n" "list_all display_blank pad"
  shows "display_trim (n @ pad) = n"
proof -
  have "trim_back display_blank (n @ pad) = n"
    using assms by (cases n rule: rev_cases)
      (auto simp: trim_back_def name_text_def dropWhile_append list_all_iff)
  then show ?thesis
    using assms(1) by (cases n) (auto simp: display_trim_def trim_both_def name_text_def)
qed

lemma length_encode: "descriptor_valid d \<Longrightarrow> length (encode_descriptor d) = 18"
  by (cases d) (auto simp: name_text_def edid_bytes_def)

lemma first_zero:
  assumes "descriptor_valid (Timing clock ha hb va vb rest)"
  shows "byte8 (clock mod 256) \<noteq> 0 \<or> byte8 (clock div 256) \<noteq> 0"
proof (rule ccontr)
  assume "\<not> ?thesis"
  then have "unat (byte8 (clock mod 256)) = 0" "unat (byte8 (clock div 256)) = 0" by simp_all
  moreover have "clock div 256 < 256" using assms by auto
  ultimately have "clock mod 256 = 0" "clock div 256 = 0" by simp_all
  then show False using assms div_mult_mod_eq [of clock 256] by simp
qed

lemma blank_pad: "display_blank (to_char (0x0A :: u8))" "display_blank (to_char (0x20 :: u8))"
  by code_simp+

lemma edid_descriptor_encode:
  assumes "descriptor_valid d"
  shows "edid_descriptor (encode_descriptor d) f = Value (apply_descriptor d f)"
proof (cases d)
  case (Timing clock ha hb va vb rest)
  then show ?thesis
    using assms timing_bytes [of clock ha hb va vb rest f] first_zero [of clock ha hb va vb rest]
    by (auto simp: edid_descriptor_def simp del: encode_descriptor.simps(1) apply_descriptor.simps)
       (auto simp: encode_descriptor.simps(1))
next
  case (Monitor_name n)
  let ?pad = "if length n < 13 then (0x0A :: u8) # replicate (12 - length n) 0x20 else []"
  have "length (edid_bytes n @ ?pad) = 13"
    using assms Monitor_name by (auto simp: name_text_def edid_bytes_def)
  moreover have "list_all display_blank (map to_char ?pad)"
    using blank_pad by (auto simp: list_all_iff)
  ultimately have "display_trim (map to_char (take 13 (edid_bytes n @ ?pad))) = n"
    using assms Monitor_name trim_padded [of n "map to_char ?pad"] by (simp add: map_to_char_edid)
  then show ?thesis
    using assms Monitor_name by (simp add: edid_descriptor_def name_text_def Let_def)
next
  case (Other tag rest)
  then show ?thesis using assms by (simp add: edid_descriptor_def)
qed

text \<open>A whole monitor: three letters (1 to 26), product, sizes, four descriptors and extension blocks.\<close>

record monitor =
  mo_letters :: "nat \<times> nat \<times> nat"
  mo_product :: nat
  mo_serial :: "u8 list"
  mo_h_cm :: u8
  mo_v_cm :: u8
  mo_features :: "u8 list"
  mo_descriptors :: "descriptor list"
  mo_extensions :: "u8 list list"

definition monitor_valid :: "monitor \<Rightarrow> bool" where
  "monitor_valid m \<longleftrightarrow>
     (case mo_letters m of (a, b, c) \<Rightarrow> 0 < a \<and> a \<le> 26 \<and> 0 < b \<and> b \<le> 26 \<and> 0 < c \<and> c \<le> 26) \<and>
     mo_product m < 65536 \<and> length (mo_serial m) = 9 \<and> length (mo_features m) = 31 \<and>
     length (mo_descriptors m) = 4 \<and> list_all descriptor_valid (mo_descriptors m) \<and>
     length (mo_extensions m) < 256 \<and> list_all (\<lambda>e. length e = 127) (mo_extensions m)"

text \<open>The last byte of a block makes the sum of its bytes zero.\<close>

definition sealed :: "u8 list \<Rightarrow> u8 list" where
  "sealed xs = xs @ [- sum_list xs]"

definition encode_monitor :: "monitor \<Rightarrow> u8 list" where
  "encode_monitor m =
     (case mo_letters m of (a, b, c) \<Rightarrow>
        sealed (expected_header @
          [byte8 (4 * a + b div 8), byte8 (32 * (b mod 8) + c), byte8 (mo_product m mod 256),
           byte8 (mo_product m div 256)] @ mo_serial m @ [mo_h_cm m, mo_v_cm m] @ mo_features m @
          concat (map encode_descriptor (mo_descriptors m)) @ [byte8 (length (mo_extensions m))]))
     @ concat (map sealed (mo_extensions m))"

definition letter :: "nat \<Rightarrow> char" where
  "letter n = char_of (64 + n)"

definition monitor_head :: "monitor \<Rightarrow> edid_facts" where
  "monitor_head m =
     (case mo_letters m of (a, b, c) \<Rightarrow>
       no_facts\<lparr>ef_manufacturer := Some [letter a, letter b, letter c],
         ef_product_code := (if mo_product m = 0 then None else Some (of_nat (mo_product m))),
         ef_physical_width_mm :=
           (if 0 < mo_h_cm m \<and> 0 < mo_v_cm m then Some (ucast (mo_h_cm m) * 10) else None),
         ef_physical_height_mm :=
           (if 0 < mo_h_cm m \<and> 0 < mo_v_cm m then Some (ucast (mo_v_cm m) * 10) else None)\<rparr>)"

definition monitor_facts :: "monitor \<Rightarrow> edid_facts" where
  "monitor_facts m = fold apply_descriptor (mo_descriptors m) (monitor_head m)"

lemma sum_sealed: "sum_list (sealed xs) = 0"
  by (simp add: sealed_def)

lemma sum_bytes_mod: "sum_list (map unat ys) mod 256 = 0 \<longleftrightarrow> sum_list ys = 0" for ys :: "u8 list"
proof -
  have "unat (sum_list ys) = sum_list (map unat ys) mod 256"
    by (induction ys) (simp_all add: unat_word_ariths mod_simps)
  then show ?thesis by (metis unat_eq_zero)
qed

lemma take_concat_block:
  "list_all (\<lambda>b. length b = n) bs \<Longrightarrow> k < length bs \<Longrightarrow> take n (drop (n * k) (concat bs)) = bs ! k"
proof (induction bs arbitrary: k)
  case (Cons b bs)
  then show ?case by (cases k) simp_all
qed simp

lemma length_concat_blocks: "list_all (\<lambda>b. length b = n) bs \<Longrightarrow> length (concat bs) = n * length bs"
  by (induction bs) simp_all

lemma mfg_letter_value:
  assumes "unat raw div 2 ^ k mod 32 = n" "0 < n" "n \<le> 26"
  shows "mfg_letter raw k = letter n"
proof -
  define w where "w = drop_bit k raw AND 0x1F"
  have "unat w = n"
    unfolding w_def using assms(1) by (simp only: unat_and_low unat_drop_bit)
  then have "unat (w + 64) = 64 + n"
    using assms(3) unat_add_small [of w 64] by simp
  moreover have "w + 65 - 1 = w + 64" by simp
  ultimately have "unat (w + 65 - 1) = 64 + n" by (simp only:)
  then show ?thesis
    by (simp only: mfg_letter_def letter_def to_char_def w_def)
qed

lemma mfg_letters:
  assumes "0 < a" "a \<le> 26" "0 < b" "b \<le> 26" "0 < c" "c \<le> 26"
    "data ! 8 = byte8 (4 * a + b div 8)" "data ! 9 = byte8 (32 * (b mod 8) + c)"
  shows "edid_manufacturer data = Some [letter a, letter b, letter c]"
proof -
  let ?raw = "push_bit 8 (ucast (data ! 8)) OR ucast (data ! 9) :: u16"
  have b: "b div 8 < 4" "b mod 8 < 8" using assms by auto
  have u: "unat (data ! 8) = 4 * a + b div 8" "unat (data ! 9) = 32 * (b mod 8) + c"
    using assms b by simp_all
  have raw: "unat ?raw = 1024 * a + 32 * b + c"
  proof -
    have "unat ?raw = (4 * a + b div 8) * 256 + (32 * (b mod 8) + c)"
      using assms b by (subst unat_shift_or) (simp_all only: unat_ucast_up u, simp_all add: u unat_ucast_up)
    also have "\<dots> = 1024 * a + 32 * (b div 8 * 8 + b mod 8) + c" by (simp only: distrib_left distrib_right)
    finally show ?thesis by (simp only: div_mult_mod_eq)
  qed
  have l: "mfg_letter ?raw k = letter n" if "unat ?raw div 2 ^ k mod 32 = n" "0 < n" "n \<le> 26" for k n
    using that by (rule mfg_letter_value)
  have "(1024 * a + 32 * b + c) div 2 ^ 10 mod 32 = a" "(1024 * a + 32 * b + c) div 2 ^ 5 mod 32 = b"
    "(1024 * a + 32 * b + c) div 2 ^ 0 mod 32 = c"
  proof -
    have e: "1024 * a + 32 * b + c = 32 * (32 * a + b) + c" by simp
    have d: "(32 * x + k) div 32 = x" "(32 * x + k) mod 32 = k" if "k < 32" for x k :: nat
      using that by simp_all
    have t: "n div 2 ^ 10 = n div 32 div 32" for n :: nat by (simp add: div_mult2_eq [symmetric])
    show "(1024 * a + 32 * b + c) div 2 ^ 10 mod 32 = a" using assms unfolding t e by (simp add: d)
    have "(1024 * a + 32 * b + c) div 32 = 32 * a + b" unfolding e using assms by (intro d) simp
    then show "(1024 * a + 32 * b + c) div 2 ^ 5 mod 32 = b" using assms by simp
    have "(1024 * a + 32 * b + c) mod 32 = c" unfolding e using assms by (intro d) simp
    then show "(1024 * a + 32 * b + c) div 2 ^ 0 mod 32 = c" by simp
  qed
  then have "mfg_letter ?raw 10 = letter a" "mfg_letter ?raw 5 = letter b" "mfg_letter ?raw 0 = letter c"
    using l raw assms by metis+
  moreover have "capital (letter k)" if "0 < k" "k \<le> 26" for k
    using that by (simp add: capital_def letter_def)
  ultimately show ?thesis
    using assms by (simp add: edid_manufacturer_def Let_def)
qed

text \<open>The first block without its checksum, and where its parts start.\<close>

definition base_block :: "monitor \<Rightarrow> u8 list" where
  "base_block m =
     (case mo_letters m of (a, b, c) \<Rightarrow>
        (expected_header @ [byte8 (4 * a + b div 8), byte8 (32 * (b mod 8) + c), byte8 (mo_product m mod 256),
           byte8 (mo_product m div 256)]) @ mo_serial m @ [mo_h_cm m, mo_v_cm m] @ mo_features m @
          concat (map encode_descriptor (mo_descriptors m)) @ [byte8 (length (mo_extensions m))])"

lemma encode_blocks: "encode_monitor m = concat (map sealed (base_block m # mo_extensions m))"
  by (simp add: encode_monitor_def base_block_def split: prod.split)

lemma list_of_four: "length xs = 4 \<Longrightarrow> \<exists>a b c d. xs = [a, b, c, d]"
  by (auto simp: eval_nat_numeral length_Suc_conv)

lemma length_descriptors:
  assumes valid: "monitor_valid m"
  shows "length (concat (map encode_descriptor (mo_descriptors m))) = 72"
  using valid length_concat_blocks [of 18 "map encode_descriptor (mo_descriptors m)"] length_encode
  by (simp add: monitor_valid_def list_all_iff)

lemma length_base:
  assumes valid: "monitor_valid m"
  shows "length (base_block m) = 127"
  using valid length_descriptors [OF valid]
  by (simp add: base_block_def monitor_valid_def expected_header_def split: prod.splits)

lemma sealed_128:
  assumes valid: "monitor_valid m"
  shows "list_all (\<lambda>b. length b = 128) (map sealed (base_block m # mo_extensions m))"
  using valid length_base [OF valid] by (simp add: sealed_def monitor_valid_def list_all_iff)

lemma length_encoded:
  assumes valid: "monitor_valid m"
  shows "length (encode_monitor m) = 128 * (length (mo_extensions m) + 1)"
  using length_concat_blocks [OF sealed_128 [OF valid]] by (simp add: encode_blocks)

lemma base_nth:
  assumes valid: "monitor_valid m"
  shows "n < 127 \<Longrightarrow> encode_monitor m ! n = base_block m ! n"
  using length_base [OF valid] by (simp add: encode_blocks sealed_def nth_append)

lemma take_drop_base:
  assumes valid: "monitor_valid m"
  shows "n + k \<le> 127 \<Longrightarrow> take k (drop n (encode_monitor m)) = take k (drop n (base_block m))"
  using length_base [OF valid] by (simp add: encode_blocks sealed_def)

lemma base_count:
  assumes valid: "monitor_valid m"
  shows "base_block m ! 126 = byte8 (length (mo_extensions m))"
  using valid length_descriptors [OF valid]
  by (simp add: base_block_def monitor_valid_def expected_header_def nth_append split: prod.splits)

lemma base_sizes:
  assumes valid: "monitor_valid m"
  shows "base_block m ! 21 = mo_h_cm m \<and> base_block m ! 22 = mo_v_cm m"
  using valid length_descriptors [OF valid]
  by (simp add: base_block_def monitor_valid_def expected_header_def nth_append split: prod.splits)

lemma encoded_frame:
  assumes valid: "monitor_valid m"
  shows "edid_frame (encode_monitor m)"
proof -
  have n: "unat (encode_monitor m ! 126) = length (mo_extensions m)"
    using base_nth [OF valid, of 126] base_count [OF valid] valid by (simp add: monitor_valid_def)
  have "take 8 (encode_monitor m) = expected_header"
    using take_drop_base [OF valid, of 0 8]
    by (simp add: base_block_def expected_header_def split: prod.splits)
  moreover have "sum_list (map unat (take 128 (drop (128 * k) (encode_monitor m)))) mod 256 = 0"
    if "k \<le> length (mo_extensions m)" for k
  proof -
    have "take 128 (drop (128 * k) (encode_monitor m)) = sealed ((base_block m # mo_extensions m) ! k)"
      using take_concat_block [OF sealed_128 [OF valid], of k] that
      by (simp only: encode_blocks nth_map length_map list.size)
    then show ?thesis
      unfolding sum_bytes_mod by (simp add: sum_sealed)
  qed
  ultimately show ?thesis
    using length_encoded [OF valid] by (simp add: edid_frame_def n)
qed

lemma encoded_head:
  assumes valid: "monitor_valid m"
  shows "edid_head (encode_monitor m) = monitor_head m"
proof -
  obtain a b c where abc: "mo_letters m = (a, b, c)" by (cases "mo_letters m")
  have bs: "base_block m ! 8 = byte8 (4 * a + b div 8)" "base_block m ! 9 = byte8 (32 * (b mod 8) + c)"
    "base_block m ! 10 = byte8 (mo_product m mod 256)" "base_block m ! 11 = byte8 (mo_product m div 256)"
    using abc by (simp_all add: base_block_def expected_header_def nth_append)
  have mfg: "edid_manufacturer (encode_monitor m) = Some [letter a, letter b, letter c]"
    using valid abc bs base_nth [OF valid, of 8] base_nth [OF valid, of 9]
    by (intro mfg_letters) (simp_all add: monitor_valid_def)
  have d: "mo_product m < 65536" "mo_product m div 256 < 256" using valid by (auto simp: monitor_valid_def)
  have "unat (ucast (byte8 (mo_product m mod 256)) OR push_bit 8 (ucast (byte8 (mo_product m div 256))) :: u16)
      = mo_product m"
    using d unat_shift_or [of "ucast (byte8 (mo_product m mod 256)) :: u16" 8
        "ucast (byte8 (mo_product m div 256))"]
    by (simp add: unat_ucast_up or.commute)
  then have prod: "ucast (byte8 (mo_product m mod 256)) OR push_bit 8 (ucast (byte8 (mo_product m div 256)))
      = (of_nat (mo_product m) :: u16)"
    using d by (simp add: word_unat_eq_iff unat_of_nat take_bit_nat_eq_self)
  have nz: "(of_nat (mo_product m) :: u16) = 0 \<longleftrightarrow> mo_product m = 0"
    using d by (simp add: word_unat_eq_iff unat_of_nat take_bit_nat_eq_self)
  have "encode_monitor m ! 10 = byte8 (mo_product m mod 256)" "encode_monitor m ! 11 = byte8 (mo_product m div 256)"
    "encode_monitor m ! 21 = mo_h_cm m" "encode_monitor m ! 22 = mo_v_cm m"
    using base_nth [OF valid] bs base_sizes [OF valid] by simp_all
  then show ?thesis
    using abc mfg nz by (simp add: edid_head_def monitor_head_def Let_def prod)
qed

lemma encoded_descriptors:
  assumes valid: "monitor_valid m"
  shows "edid_descriptors (encode_monitor m) descriptor_offsets f = Value (fold apply_descriptor (mo_descriptors m) f)"
proof -
  obtain d1 d2 d3 d4 where ds: "mo_descriptors m = [d1, d2, d3, d4]"
    using valid list_of_four [of "mo_descriptors m"] by (auto simp: monitor_valid_def)
  then have v: "descriptor_valid d1" "descriptor_valid d2" "descriptor_valid d3" "descriptor_valid d4"
    using valid by (simp_all add: monitor_valid_def)
  have "take 18 (drop (54 + 18 * k) (encode_monitor m)) = encode_descriptor ([d1, d2, d3, d4] ! k)"
    if "k < 4" for k
  proof -
    have "drop 54 (base_block m) =
        concat (map encode_descriptor (mo_descriptors m)) @ [byte8 (length (mo_extensions m))]"
      using valid by (simp add: base_block_def monitor_valid_def expected_header_def split: prod.splits)
    then have "take 18 (drop (54 + 18 * k) (base_block m)) =
        take 18 (drop (18 * k) (concat (map encode_descriptor (mo_descriptors m))))"
      using that length_descriptors [OF valid] by (simp add: add.commute [of 54] del: drop_drop flip: drop_drop)
    also have "\<dots> = map encode_descriptor (mo_descriptors m) ! k"
      using take_concat_block [of 18 "map encode_descriptor (mo_descriptors m)" k] v length_encode that
      by (simp add: ds)
    finally show ?thesis
      using take_drop_base [OF valid, of "54 + 18 * k" 18] that nth_map [of k "[d1, d2, d3, d4]" encode_descriptor]
      by (simp add: ds)
  qed
  from this [of 0] this [of 1] this [of 2] this [of 3] show ?thesis
    by (simp add: descriptor_offsets_def edid_descriptor_encode v ds)
qed

text \<open>
  C16. The EDID block of any monitor (three letters, product code, sizes, four descriptors that are timings,
  names or others, up to 255 extension blocks, all sealed by their checksums) is accepted, and the parser
  reads back exactly the monitor's facts: its letters, product, sizes in millimetres, its last name, and
  the first timing with a picture, with its rate as clock over total.
\<close>

theorem parse_edid_roundtrip:
  assumes "monitor_valid m"
  shows "parse_edid_block (Some (encode_monitor m)) = Value (monitor_facts m)"
  by (simp add: parse_edid_frame encoded_frame [OF assms] encoded_head [OF assms]
      encoded_descriptors [OF assms] monitor_facts_def)

lemma parse_edid_roundtrip_witness:
  "let m = \<lparr>mo_letters = (4, 5, 12), mo_product = 41234, mo_serial = replicate 9 0, mo_h_cm = 60,
      mo_v_cm = 34, mo_features = replicate 31 1,
      mo_descriptors = [Timing 24150 2560 160 1440 41 (replicate 10 0), Monitor_name ''DELL U2720Q'',
        Other 0xFD (replicate 14 0), Other 0xFF (replicate 14 0x31)],
      mo_extensions = [replicate 127 0]\<rparr>
   in parse_edid_block (Some (encode_monitor m)) = Value (monitor_facts m) \<and>
      monitor_facts m = no_facts\<lparr>ef_manufacturer := Some ''DEL'', ef_product_code := Some 41234,
        ef_monitor_name := Some ''DELL U2720Q'', ef_physical_width_mm := Some 600,
        ef_physical_height_mm := Some 340, ef_preferred_width := Some 2560,
        ef_preferred_height := Some 1440, ef_preferred_refresh := Some (Rate 241500000 (2720 * 1481))\<rparr>"
proof -
  let ?m = "\<lparr>mo_letters = (4, 5, 12), mo_product = 41234, mo_serial = replicate 9 0, mo_h_cm = 60,
      mo_v_cm = 34, mo_features = replicate 31 1,
      mo_descriptors = [Timing 24150 2560 160 1440 41 (replicate 10 0), Monitor_name ''DELL U2720Q'',
        Other 0xFD (replicate 14 0), Other 0xFF (replicate 14 0x31)],
      mo_extensions = [replicate 127 0]\<rparr>"
  have n: "name_text ''DELL U2720Q''" by code_simp
  have "monitor_valid ?m" by (simp add: monitor_valid_def n)
  moreover have "letter 4 = CHR ''D''" "letter 5 = CHR ''E''" "letter 12 = CHR ''L''" by code_simp+
  ultimately show ?thesis
    using parse_edid_roundtrip [of ?m]
    by (simp add: Let_def monitor_facts_def monitor_head_def no_facts_def)
qed

section \<open>Connectors\<close>

lemma rfind_char_append: "c \<notin> set ys \<Longrightarrow> rfind_char c (xs @ c # ys) = Some (length xs)"
  by (simp add: rfind_char_def Let_def takeWhile_until)

lemma dash_not_digit: "\<not> is_digit (CHR ''-'')"
  by code_simp

text \<open>
  A connector directory \<open>card<digits>-<type>-<digits>\<close> is recognised and classified by exactly its type,
  dashes inside the type included; the panel is internal exactly for the six built-in types.
\<close>

theorem connector_name_roundtrip:
  assumes "list_all is_digit slot" "slot \<noteq> []" "type \<noteq> []" "list_all is_digit idx"
  shows "let name = ''card'' @ slot @ ''-'' @ type @ ''-'' @ idx in
     is_connector_name name \<and> classify_connector_name name = (type, type \<in> set internal_types)"
proof -
  let ?rest = "type @ ''-'' @ idx" and ?name = "''card'' @ slot @ ''-'' @ type @ ''-'' @ idx"
  have "CHR ''-'' \<notin> set (''card'' @ slot)"
    using digits_free [OF assms(1) dash_not_digit] by simp
  then have dash: "find_from (CHR ''-'') ?name 0 = Some (4 + length slot)"
    using find_from_append [of "CHR ''-''" "''card'' @ slot" "[]" ?rest] by simp
  have "?name = (''card'' @ slot @ ''-'') @ ?rest" "length (''card'' @ slot @ ''-'') = Suc (4 + length slot)"
    by simp_all
  then have drop: "drop (Suc (4 + length slot)) ?name = ?rest" by (metis append_eq_conv_conj)
  have stripped: "stripped_connector ?name = ?rest"
    using dash drop assms(3) by (simp add: stripped_connector_def substr_def)
  have "rfind_char (CHR ''-'') ?rest = Some (length type)"
    using digits_free [OF assms(4) dash_not_digit] rfind_char_append by simp
  then have "connector_type_part ?rest = type"
    using assms by (simp add: connector_type_part_def)
  moreover have "is_connector_name ?name"
    using assms dash by (cases slot) (simp_all add: is_connector_name_def substr_def)
  ultimately show ?thesis
    unfolding classify_connector_name_def stripped Let_def by simp
qed

lemma connector_name_roundtrip_witness:
  "let name = ''card0-HDMI-A-1'' in
     is_connector_name name \<and> classify_connector_name name = (''HDMI-A'', False)"
proof -
  have "list_all is_digit ''0''" "list_all is_digit ''1''" "''HDMI-A'' \<notin> set internal_types"
    by code_simp+
  then show ?thesis
    using connector_name_roundtrip [of "''0''" "''HDMI-A''" "''1''"] by simp
qed

definition mode_ok :: "display_mode \<Rightarrow> bool" where
  "mode_ok m \<longleftrightarrow> dm_width m \<noteq> 0 \<and> dm_height m \<noteq> 0"

definition mode_size :: "display_mode \<Rightarrow> u32 \<times> u32" where
  "mode_size m = (dm_width m, dm_height m)"

definition modes_ok :: "display_mode list \<Rightarrow> bool" where
  "modes_ok ms \<longleftrightarrow> list_all mode_ok ms \<and> distinct (map mode_size ms)"

definition display_ok :: "display_info \<Rightarrow> bool" where
  "display_ok d \<longleftrightarrow>
     is_connector_name (di_id d) \<and> is_valid_utf8 (di_id d) \<and>
     di_connector_type d = Some (fst (classify_connector_name (di_id d))) \<and>
     di_is_internal d = snd (classify_connector_name (di_id d)) \<and>
     modes_ok (di_supported_modes d) \<and> \<not> di_is_primary d"

lemma parse_mode_nonzero: "parse_mode_resolution s = Value (w, h) \<Longrightarrow> w \<noteq> 0 \<and> h \<noteq> 0"
  by (auto simp: parse_mode_resolution_def Let_def fail_def split: if_splits option.splits)

lemma mode_lines_ok: "modes_ok ms \<Longrightarrow> modes_ok (mode_lines ls ms)"
proof (induction ls ms rule: mode_lines.induct)
  case (2 raw rest modes)
  let ?line = "display_trim raw"
  show ?case
  proof (cases "?line = [] \<or> (\<exists>e. parse_mode_resolution ?line = Unexpected e)")
    case True
    then show ?thesis using 2 by (auto simp: Let_def)
  next
    case False
    then obtain w h where p: "?line \<noteq> []" "parse_mode_resolution ?line = Value (w, h)"
      by (cases "parse_mode_resolution ?line") auto
    let ?new = "if list_ex (\<lambda>m. dm_width m = w \<and> dm_height m = h) modes then modes
               else modes @ [\<lparr>dm_width = w, dm_height = h, dm_refresh_rate = None\<rparr>]"
    have "modes_ok ?new"
      using "2.prems" parse_mode_nonzero [OF p(2)]
      by (auto simp: modes_ok_def mode_ok_def mode_size_def list_ex_iff)
    then show ?thesis
      using "2.IH" p by (simp add: Let_def split: if_splits)
  qed
qed simp

lemma set_mode_rate_sizes:
  "map mode_size (set_mode_rate w h r ms) = map mode_size ms"
  "list_all mode_ok (set_mode_rate w h r ms) = list_all mode_ok ms"
  by (induction ms) (simp_all add: mode_size_def mode_ok_def)

lemma inspect_connector_ok:
  assumes "inspect_connector host conn_id path = Value d"
  shows "di_id d = conn_id \<and> (is_connector_name conn_id \<longrightarrow> display_ok d)"
proof -
  let ?P = "\<lambda>d. di_id d = conn_id \<and> is_valid_utf8 conn_id \<and>
     di_connector_type d = Some (fst (classify_connector_name conn_id)) \<and>
     di_is_internal d = snd (classify_connector_name conn_id) \<and>
     modes_ok (di_supported_modes d) \<and> \<not> di_is_primary d"
  have step: "?P d'" if "optional_file c d0 f = Value d'" "?P d0" "\<And>s d'. f s = Value d' \<Longrightarrow> ?P d'" for c d0 f d'
    using that by (auto simp: optional_file_def split: result.splits if_splits)
  have applied: "?P (apply_edid f d0)" if "?P d0" for f d0
    using that set_mode_rate_sizes by (auto simp: apply_edid_def modes_ok_def split: option.splits)
  obtain t b where tb: "classify_connector_name conn_id = (t, b)" by fastforce
  let ?d0 = "(new_display conn_id) \<lparr>di_connector_type := Some t, di_is_internal := b\<rparr>"
  have u: "is_valid_utf8 conn_id"
    using assms by (auto simp: inspect_connector_def fail_def split: if_splits)
  obtain d1 d2 where d1: "optional_file (ho_read host (path @ ''/status'') 64) ?d0
        (\<lambda>s. Value (?d0\<lparr>di_state := status_of s\<rparr>)) = Value d1"
    and d2: "optional_file (ho_read host (path @ ''/modes'') 4096) d1
        (\<lambda>s. Value (d1\<lparr>di_supported_modes := mode_lines (lines_of s) []\<rparr>)) = Value d2"
    and d3: "optional_file (ho_read host (path @ ''/edid'') maximum_edid_size) d2
        (\<lambda>s. if s = [] then Value d2 else and_then (parse_edid_block (Some (edid_bytes s)))
           (\<lambda>facts. Value (apply_edid facts d2))) = Value d"
    using assms u by (auto simp: inspect_connector_def tb and_then_Value_iff Let_def)
  have P0: "?P ?d0" using u tb by (simp add: new_display_def modes_ok_def)
  have P1: "?P d1" by (rule step [OF d1 P0]) (use P0 in auto)
  have P2: "?P d2" by (rule step [OF d2 P1]) (use P1 mode_lines_ok [of "[]"] in \<open>auto simp: modes_ok_def\<close>)
  have "?P d"
    by (rule step [OF d3 P2]) (use P2 applied in \<open>auto simp: and_then_Value_iff split: if_splits\<close>)
  then show ?thesis by (auto simp: display_ok_def)
qed

lemma connector_entries_ok:
  "list_all display_ok found \<Longrightarrow> connector_entries host es found = Value ds \<Longrightarrow> list_all display_ok ds"
proof (induction host es found rule: connector_entries.induct)
  case (2 host e es found)
  then show ?case by (simp add: fail_errno_def split: if_splits)
next
  case (3 host name es found)
  then show ?case
    using inspect_connector_ok [of host name "drm_class_root @ name"]
    by (auto split: if_splits result.splits)
qed simp

interpretation display_id: strict_weak_order display_id_less
  unfolding display_id_less_def by (rule swo_key)

lemma listed_displays_ok:
  assumes "displays host = Value ds"
  shows "list_all display_ok ds \<and> in_order display_id_less ds"
proof -
  from assms obtain found where "connector_entries host (ho_entries host drm_class_root) [] = Value found"
    "ds = std_sort display_id_less found"
    by (cases "connector_entries host (ho_entries host drm_class_root) []")
      (auto simp: displays_def fail_def fail_errno_def split: option.splits if_splits)
  then show ?thesis
    using connector_entries_ok [of "[]"] display_id.std_sort_in_order by (simp add: list_all_iff)
qed

text \<open>
  Every list of displays the Linux backend returns holds well-formed connectors only (valid UTF-8 id of
  the connector form, the type and panel flag that id names, pairwise different modes of nonzero size) in
  the order of their ids.
\<close>

theorem displays_wellformed:
  "case displays host of
     Value ds \<Rightarrow> list_all display_ok ds \<and> in_order display_id_less ds
   | Unexpected e \<Rightarrow> True"
  using listed_displays_ok by (auto split: result.split)

text \<open>
  No backend state makes \<open>primary_display\<close> succeed on Linux: sysfs never marks a display primary, so
  the query reports \<open>not_found\<close> whenever the displays can be listed, and their error otherwise.
\<close>

theorem primary_display_never:
  "primary_display host =
     (case displays host of Value ds \<Rightarrow> fail errc.not_found | Unexpected e \<Rightarrow> Unexpected e)"
proof (cases "displays host")
  case (Value ds)
  have "find di_is_primary ds = None"
    using listed_displays_ok [OF Value] by (auto simp: find_None_iff list_all_iff display_ok_def)
  then show ?thesis by (simp add: primary_display_def Value)
qed (simp add: primary_display_def)

end
