(* ===== verification/Security.thy ===== *)
theory Security
  imports Linux_Files Virtualization Ordering
begin

text \<open>
  The security module: the public types (\<open>security.hpp\<close>) and the parsers every backend shares
  (\<open>detail/security/common.hpp\<close>).
\<close>

unbundle bit_operations_syntax

section \<open>Types\<close>

datatype secure_boot_state = unknown | enabled | disabled | audit

datatype tpm_version = unknown | none | v1_2 | v2_0 | other

datatype lockdown_mode = unknown | none | integrity | confidentiality

datatype aslr_mode = unknown | disabled | partial | full

datatype mitigation_status = unknown | not_affected | mitigated | vulnerable | disabled

datatype encryption_state = unknown | unencrypted | encrypted | mixed

datatype encryption_type = unknown | none | luks | bitlocker | filevault | fscrypt | dm_crypt | other

record cpu_vulnerability_entry =
  cv_name :: string
  cv_status :: mitigation_status
  cv_raw_description :: string

record process_capabilities =
  pc_effective :: "string list"
  pc_permitted :: "string list"
  pc_inheritable :: "string list"
  pc_bounding :: "string list"
  pc_ambient :: "string list"

record privilege_entry =
  pe_name :: string
  pe_enabled :: bool
  pe_enabled_by_default :: bool

record volume_encryption_info =
  ve_path_or_device :: string
  ve_state :: encryption_state
  ve_type :: encryption_type
  ve_cipher :: "string option"
  ve_key_size_bits :: "u32 option"

record tpm_info =
  tp_present :: bool
  tp_version :: tpm_version
  tp_version_string :: string
  tp_device_id :: "string option"
  tp_description :: "string option"

section \<open>Parsers\<close>

text \<open>From the front, then from the back.\<close>

definition security_trim :: "string \<Rightarrow> string" where
  "security_trim text = trim_back token_space (dropWhile token_space text)"

definition parse_efivar_secure_boot_payload :: "u8 list option \<Rightarrow> secure_boot_state result" where
  "parse_efivar_secure_boot_payload data =
     (case data of
        None \<Rightarrow> fail errc.malformed_data
      | Some bytes \<Rightarrow>
          if length bytes = 0 then fail errc.malformed_data
          else
            (let val = (if length bytes = 5 then Some (bytes ! 4)
                        else if length bytes = 1 then Some (bytes ! 0) else None)
             in case val of
                  None \<Rightarrow> fail errc.malformed_data
                | Some v \<Rightarrow>
                    if v = 1 then Value secure_boot_state.enabled
                    else if v = 0 then Value secure_boot_state.disabled
                    else fail errc.malformed_data))"

definition parse_lockdown_line :: "string \<Rightarrow> lockdown_mode result" where
  "parse_lockdown_line text =
     (case find_from (CHR ''['') text 0 of
        None \<Rightarrow> fail errc.malformed_data
      | Some open_pos \<Rightarrow>
          (case find_from (CHR '']'') text (open_pos + 1) of
             None \<Rightarrow> fail errc.malformed_data
           | Some close_pos \<Rightarrow>
               (let mode_str = security_trim (substr text (open_pos + 1) (close_pos - open_pos - 1)) in
                if mode_str = [] then fail errc.malformed_data
                else if mode_str = ''none'' then Value lockdown_mode.none
                else if mode_str = ''integrity'' then Value integrity
                else if mode_str = ''confidentiality'' then Value confidentiality
                else Value lockdown_mode.unknown)))"

fun uevent_lines :: "string \<Rightarrow> string list \<Rightarrow> string" where
  "uevent_lines key [] = []"
| "uevent_lines key (line # rest) =
     (if length line > length key \<and> take (length key) line = key \<and> line ! length key = CHR ''=''
      then security_trim (drop (length key + 1) line)
      else uevent_lines key rest)"

definition find_uevent_value :: "string \<Rightarrow> string \<Rightarrow> string" where
  "find_uevent_value text key = uevent_lines key (lines_of text)"

definition lsm_separator :: "char \<Rightarrow> bool" where
  "lsm_separator c \<longleftrightarrow> c = CHR '','' \<or> token_space c"

text \<open>The tokens up to the next separator, the empty ones included.\<close>

function lsm_tokens :: "string \<Rightarrow> string list" where
  "lsm_tokens s =
     (if s = [] then []
      else let token = takeWhile (\<lambda>c. \<not> lsm_separator c) s
           in token # lsm_tokens (drop (length token + 1) s))"
  by pat_completeness auto
termination by (relation "measure length") auto

declare lsm_tokens.simps [simp del]

definition add_module :: "string \<Rightarrow> string list \<Rightarrow> string list" where
  "add_module raw found =
     (let token = security_trim raw
      in if token = [] \<or> token \<in> set found then found else found @ [token])"

definition parse_lsm_string :: "string \<Rightarrow> string list" where
  "parse_lsm_string text = fold add_module (lsm_tokens text) []"

definition parse_tpm_version_string :: "string \<Rightarrow> tpm_version \<times> string" where
  "parse_tpm_version_string text =
     (let trimmed = security_trim text in
      if trimmed = [] then (tpm_version.unknown, [])
      else if trimmed = ''2'' \<or> trimmed = ''2.0'' then (v2_0, ''2.0'')
      else if trimmed = ''1'' \<or> trimmed = ''1.2'' then (v1_2, ''1.2'')
      else (tpm_version.other, trimmed))"

definition parse_aslr_mode :: "string \<Rightarrow> aslr_mode result" where
  "parse_aslr_mode text =
     (let trimmed = security_trim text in
      if trimmed = [] then fail errc.malformed_data
      else if trimmed = ''0'' then Value aslr_mode.disabled
      else if trimmed = ''1'' then Value partial
      else if trimmed = ''2'' then Value full
      else if \<not> list_all is_digit trimmed then fail errc.malformed_data
      else Value aslr_mode.unknown)"

definition ascii_fold :: "char \<Rightarrow> char" where
  "ascii_fold c = (if 65 \<le> uchar c \<and> uchar c \<le> 90 then char_of (uchar c - 65 + 97) else c)"

definition starts_with_ci :: "string \<Rightarrow> string \<Rightarrow> bool" where
  "starts_with_ci str pre =
     (if length str < length pre then False
      else list_all (\<lambda>i. ascii_fold (str ! i) = ascii_fold (pre ! i)) [0..<length pre])"

definition contains_ci :: "string \<Rightarrow> string \<Rightarrow> bool" where
  "contains_ci str part =
     (if length str < length part then False
      else list_ex (\<lambda>i. starts_with_ci (drop i str) part) [0..<length str - length part + 1])"

definition parse_vulnerability_status :: "string \<Rightarrow> mitigation_status" where
  "parse_vulnerability_status text =
     (let trimmed = security_trim text; starts = starts_with_ci trimmed; has = contains_ci trimmed in
      if trimmed = [] then mitigation_status.unknown
      else if starts ''not affected'' \<or> starts ''kvm: not affected'' then not_affected
      else if starts ''mitigation: disabled'' \<or> starts ''disabled'' then mitigation_status.disabled
      else if starts ''mitigation:'' \<or> starts ''mitigated'' \<or> starts ''kvm: mitigation:'' \<or>
        starts ''kvm: mitigated'' then mitigated
      else if starts ''vulnerable'' \<or> starts ''kvm: vulnerable'' then vulnerable
      else if has ''not affected'' then not_affected
      else if has ''mitigation: disabled'' \<or> has ''disabled'' then mitigation_status.disabled
      else if has ''mitigation:'' \<or> has ''mitigated'' then mitigated
      else if has ''vulnerable'' then vulnerable
      else mitigation_status.unknown)"

definition hex_digit_u64 :: "char \<Rightarrow> u64 option" where
  "hex_digit_u64 c =
     (if 48 \<le> uchar c \<and> uchar c \<le> 57 then Some (of_nat (uchar c - 48))
      else if 97 \<le> uchar c \<and> uchar c \<le> 102 then Some (of_nat (uchar c - 97 + 10))
      else if 65 \<le> uchar c \<and> uchar c \<le> 70 then Some (of_nat (uchar c - 65 + 10))
      else None)"

fun hex_digits_u64 :: "u64 \<Rightarrow> string \<Rightarrow> u64 result" where
  "hex_digits_u64 val [] = Value val"
| "hex_digits_u64 val (c # s) =
     (case hex_digit_u64 c of
        None \<Rightarrow> fail errc.malformed_data
      | Some digit \<Rightarrow>
          if val > drop_bit 4 0xFFFFFFFFFFFFFFFF then fail errc.value_too_large
          else hex_digits_u64 (push_bit 4 val OR digit) s)"

definition parse_hex_u64 :: "string \<Rightarrow> u64 result" where
  "parse_hex_u64 text =
     (let trimmed = security_trim text in
      if trimmed = [] then fail errc.malformed_data
      else
        (let start = (if length trimmed \<ge> 2 \<and> trimmed ! 0 = CHR ''0'' \<and>
                         (trimmed ! 1 = CHR ''x'' \<or> trimmed ! 1 = CHR ''X'') then 2 else 0)
         in if start \<ge> length trimmed then fail errc.malformed_data
            else hex_digits_u64 0 (drop start trimmed)))"

section \<open>Capabilities\<close>

definition k_cap_names :: "string list" where
  "k_cap_names = [''cap_chown'', ''cap_dac_override'', ''cap_dac_read_search'', ''cap_fowner'',
     ''cap_fsetid'', ''cap_kill'', ''cap_setgid'', ''cap_setuid'', ''cap_setpcap'', ''cap_linux_immutable'',
     ''cap_net_bind_service'', ''cap_net_broadcast'', ''cap_net_admin'', ''cap_net_raw'', ''cap_ipc_lock'',
     ''cap_ipc_owner'', ''cap_sys_module'', ''cap_sys_rawio'', ''cap_sys_chroot'', ''cap_sys_ptrace'',
     ''cap_sys_pacct'', ''cap_sys_admin'', ''cap_sys_boot'', ''cap_sys_nice'', ''cap_sys_resource'',
     ''cap_sys_time'', ''cap_sys_tty_config'', ''cap_mknod'', ''cap_lease'', ''cap_audit_write'',
     ''cap_audit_control'', ''cap_setfcap'', ''cap_mac_override'', ''cap_mac_admin'', ''cap_syslog'',
     ''cap_wake_alarm'', ''cap_block_suspend'', ''cap_audit_read'', ''cap_perfmon'', ''cap_bpf'',
     ''cap_checkpoint_restore'']"

definition k_known_caps :: nat where
  "k_known_caps = length k_cap_names"

definition cap_name :: "nat \<Rightarrow> string" where
  "cap_name n = (if n < k_known_caps then k_cap_names ! n else ''cap_'' @ dec_string n)"

definition decode_linux_capabilities :: "u64 \<Rightarrow> string list" where
  "decode_linux_capabilities bits =
     map cap_name (filter (\<lambda>n. bits AND push_bit n 1 \<noteq> 0) [0..<64])"

section \<open>Encryption and mounts\<close>

definition parse_dm_uuid_encryption :: "string \<Rightarrow> encryption_state \<times> encryption_type" where
  "parse_dm_uuid_encryption uuid =
     (let trimmed = security_trim uuid in
      if has_prefix ''CRYPT-LUKS2-'' trimmed \<or> has_prefix ''CRYPT-LUKS1-'' trimmed \<or>
         has_prefix ''CRYPT-LUKS-'' trimmed then (encrypted, luks)
      else if has_prefix ''CRYPT-PLAIN-'' trimmed then (encrypted, dm_crypt)
      else if has_prefix ''CRYPT-'' trimmed then (encrypted, encryption_type.other)
      else (encryption_state.unknown, encryption_type.unknown))"

definition octal_digit :: "char \<Rightarrow> bool" where
  "octal_digit c \<longleftrightarrow> 48 \<le> uchar c \<and> uchar c \<le> 55"

definition octal_value :: "char \<Rightarrow> u32" where
  "octal_value c = of_nat (uchar c - 48)"

fun decode_mount_entry :: "string \<Rightarrow> string" where
  "decode_mount_entry (x # a # b # c # rest) =
     (if x = backslash \<and> octal_digit a \<and> octal_digit b \<and> octal_digit c
      then to_char (push_bit 6 (octal_value a) OR push_bit 3 (octal_value b) OR octal_value c)
           # decode_mount_entry rest
      else x # decode_mount_entry (a # b # c # rest))"
| "decode_mount_entry (x # xs) = x # decode_mount_entry xs"
| "decode_mount_entry [] = []"

end
