(* ===== verification/Security_Linux.thy ===== *)
theory Security_Linux
  imports Security Utf8
begin

text \<open>
  The Linux backend of the security module (\<open>detail/security/linux.hpp\<close>) and the checks of the public
  query (\<open>security.hpp\<close>). The kernel's answers are the record \<^typ>\<open>host\<close>; \<open>realpath\<close> is an argument.

  The status file of a process is read in pieces. After the end of the file the code takes a view of the
  last unterminated line and clears the string it views before it reads the view; what such a view then
  shows is the argument \<open>cleared\<close> of the model.
\<close>

section \<open>Secure boot\<close>

definition file_bytes :: "string \<Rightarrow> u8 list" where
  "file_bytes s = map (\<lambda>c. of_nat (uchar c)) s"

definition efi_boolean :: "string \<Rightarrow> bool result" where
  "efi_boolean contents =
     and_then (parse_efivar_secure_boot_payload (Some (file_bytes contents)))
       (\<lambda>state. Value (state = secure_boot_state.enabled))"

definition read_efi_boolean_variable :: "host \<Rightarrow> string \<Rightarrow> string \<Rightarrow> bool result" where
  "read_efi_boolean_variable host efi_root variable_name =
     (let suffix = variable_name @ ''-'' @ ''8be4df61-93ca-11d2-aa0d-00e098032b8c'' in
      case ho_read host (efi_root @ ''/efivars/'' @ suffix) 64 of
        Value efivar \<Rightarrow> efi_boolean efivar
      | Unexpected e \<Rightarrow>
          if \<not> is_no_such_file e then Unexpected e
          else (case ho_read host (efi_root @ ''/vars/'' @ suffix @ ''/data'') 64 of
                  Value legacy \<Rightarrow> efi_boolean legacy
                | Unexpected e2 \<Rightarrow> if is_no_such_file e2 then fail errc.not_found else Unexpected e2))"

definition is_not_found :: "error_code \<Rightarrow> bool" where
  "is_not_found e \<longleftrightarrow> e = make_error_code errc.not_found"

definition secure_boot_at :: "host \<Rightarrow> string \<Rightarrow> secure_boot_state result" where
  "secure_boot_at host efi_root =
     (case ho_stat host efi_root of
        Stat_error e \<Rightarrow> if e = ENOENT then fail errc.not_supported else fail_errno e
      | _ \<Rightarrow>
        (case read_efi_boolean_variable host efi_root ''SecureBoot'' of
           Unexpected e \<Rightarrow> if is_not_found e then fail errc.not_supported else Unexpected e
         | Value True \<Rightarrow> Value secure_boot_state.enabled
         | Value False \<Rightarrow>
             (let setup_mode =
                (case read_efi_boolean_variable host efi_root ''SetupMode'' of
                   Value b \<Rightarrow> Value (if b then audit else secure_boot_state.disabled)
                 | Unexpected e \<Rightarrow>
                     if \<not> is_not_found e then Unexpected e else Value secure_boot_state.disabled)
              in case read_efi_boolean_variable host efi_root ''AuditMode'' of
                   Value b \<Rightarrow> if b then Value audit else setup_mode
                 | Unexpected e \<Rightarrow> if \<not> is_not_found e then Unexpected e else setup_mode)))"

definition secure_boot :: "host \<Rightarrow> secure_boot_state result" where
  "secure_boot host = secure_boot_at host ''/sys/firmware/efi''"

definition is_secure_boot_enabled :: "host \<Rightarrow> bool result" where
  "is_secure_boot_enabled host =
     and_then (secure_boot host) (\<lambda>s. Value (s = secure_boot_state.enabled))"

section \<open>Trusted platform module\<close>

definition is_tpm_device_name :: "string \<Rightarrow> bool" where
  "is_tpm_device_name name \<longleftrightarrow>
     \<not> (length name \<le> 3 \<or> substr name 0 3 \<noteq> ''tpm'') \<and> list_all is_digit (drop 3 name)"

fun driver_of_paths :: "host \<Rightarrow> string list \<Rightarrow> string option result" where
  "driver_of_paths host [] = Value None"
| "driver_of_paths host (path # paths) =
     (case ho_read host path 4096 of
        Unexpected e \<Rightarrow> if is_no_such_file e then driver_of_paths host paths else Unexpected e
      | Value uevent \<Rightarrow>
          (let driver = find_uevent_value uevent ''DRIVER'' in
           if driver = [] then driver_of_paths host paths
           else if \<not> is_valid_utf8 driver then fail errc.invalid_encoding
           else Value (Some driver)))"

definition tpm_driver_description :: "host \<Rightarrow> string \<Rightarrow> string option result" where
  "tpm_driver_description host device_path =
     driver_of_paths host [device_path @ ''/device/uevent'', device_path @ ''/uevent'']"

definition no_tpm :: tpm_info where
  "no_tpm = \<lparr>tp_present = False, tp_version = tpm_version.none, tp_version_string = [],
     tp_device_id = None, tp_description = None\<rparr>"

definition tpm_device :: "host \<Rightarrow> string \<Rightarrow> string \<Rightarrow> tpm_info result" where
  "tpm_device host class_root name =
     (let device_path = class_root @ ''/'' @ name;
          info = no_tpm\<lparr>tp_present := True, tp_device_id := Some name\<rparr>
      in
      and_then
        (case ho_read host (device_path @ ''/tpm_version_major'') 64 of
           Value ver \<Rightarrow>
             if \<not> is_valid_utf8 ver then fail errc.invalid_encoding
             else (case parse_tpm_version_string ver of
                 (v, s) \<Rightarrow> Value (info\<lparr>tp_version := v, tp_version_string := s\<rparr>))
         | Unexpected e \<Rightarrow>
             if is_no_such_file e then Value (info\<lparr>tp_version := tpm_version.unknown\<rparr>)
             else Unexpected e) (\<lambda>info.
      and_then (tpm_driver_description host device_path) (\<lambda>description.
        Value (info\<lparr>tp_description := description\<rparr>))))"

fun tpm_entries :: "host \<Rightarrow> string \<Rightarrow> directory_event list \<Rightarrow> tpm_info result" where
  "tpm_entries host class_root [] = Value no_tpm"
| "tpm_entries host class_root (Readdir_error e # es) =
     (if e \<noteq> 0 then fail_errno e else Value no_tpm)"
| "tpm_entries host class_root (Entry name # es) =
     (if dot_entry name then tpm_entries host class_root es
      else if is_tpm_device_name name then tpm_device host class_root name
      else tpm_entries host class_root es)"

definition tpm_at :: "host \<Rightarrow> string \<Rightarrow> tpm_info result" where
  "tpm_at host class_root =
     (case ho_opendir host class_root of
        Some e \<Rightarrow> if e = ENOENT then Value no_tpm else fail_errno e
      | None \<Rightarrow> tpm_entries host class_root (ho_entries host class_root))"

definition tpm :: "host \<Rightarrow> tpm_info result" where
  "tpm host = tpm_at host ''/sys/class/tpm''"

section \<open>Single files\<close>

text \<open>A file whose absence means the fact is not supported.\<close>

definition supported_file :: "string result \<Rightarrow> (string \<Rightarrow> 'a result) \<Rightarrow> 'a result" where
  "supported_file contents f =
     (case contents of
        Value s \<Rightarrow> f s
      | Unexpected e \<Rightarrow> if is_no_such_file e then fail errc.not_supported else Unexpected e)"

definition security_modules_at :: "host \<Rightarrow> string \<Rightarrow> string list result" where
  "security_modules_at host path =
     supported_file (ho_read host path 1024) (\<lambda>s.
       let modules = parse_lsm_string s in
       if modules = [] then fail errc.malformed_data
       else if list_ex (\<lambda>m. \<not> is_valid_utf8 m) modules then fail errc.invalid_encoding
       else Value modules)"

definition security_modules :: "host \<Rightarrow> string list result" where
  "security_modules host = security_modules_at host ''/sys/kernel/security/lsm''"

definition lockdown_at :: "host \<Rightarrow> string \<Rightarrow> lockdown_mode result" where
  "lockdown_at host path = supported_file (ho_read host path 256) parse_lockdown_line"

definition lockdown :: "host \<Rightarrow> lockdown_mode result" where
  "lockdown host = lockdown_at host ''/sys/kernel/security/lockdown''"

definition is_sip_enabled :: "bool result" where
  "is_sip_enabled = fail errc.not_supported"

definition aslr_at :: "host \<Rightarrow> string \<Rightarrow> aslr_mode result" where
  "aslr_at host path = supported_file (ho_read host path 64) parse_aslr_mode"

definition aslr :: "host \<Rightarrow> aslr_mode result" where
  "aslr host = aslr_at host ''/proc/sys/kernel/randomize_va_space''"

section \<open>Vulnerabilities\<close>

definition vulnerability_entry ::
    "host \<Rightarrow> string \<Rightarrow> string \<Rightarrow> cpu_vulnerability_entry list \<Rightarrow> cpu_vulnerability_entry list result" where
  "vulnerability_entry host dir_path name found =
     (if \<not> is_valid_utf8 name then fail errc.invalid_encoding
      else (case ho_read host (dir_path @ ''/'' @ name) 2048 of
          Unexpected e \<Rightarrow> if is_no_such_file e then Value found else Unexpected e
        | Value content \<Rightarrow>
            if \<not> is_valid_utf8 content then fail errc.invalid_encoding
            else (let trimmed = security_trim content in
                  Value (found @ [\<lparr>cv_name = name, cv_status = parse_vulnerability_status trimmed,
                                   cv_raw_description = trimmed\<rparr>]))))"

definition vulnerability_less :: "cpu_vulnerability_entry \<Rightarrow> cpu_vulnerability_entry \<Rightarrow> bool" where
  "vulnerability_less a b \<longleftrightarrow> cv_name a < cv_name b"

definition cpu_vulnerabilities_at :: "host \<Rightarrow> string \<Rightarrow> cpu_vulnerability_entry list result" where
  "cpu_vulnerabilities_at host dir_path =
     (case ho_opendir host dir_path of
        Some e \<Rightarrow> if e = ENOENT then fail errc.not_supported else fail_errno e
      | None \<Rightarrow>
          and_then (each_entry (vulnerability_entry host dir_path) (ho_entries host dir_path) [])
            (\<lambda>found. Value (std_sort vulnerability_less found)))"

definition cpu_vulnerabilities :: "host \<Rightarrow> cpu_vulnerability_entry list result" where
  "cpu_vulnerabilities host = cpu_vulnerabilities_at host ''/sys/devices/system/cpu/vulnerabilities''"

section \<open>Capabilities\<close>

text \<open>The five masks with their \<open>has_\<close> flags.\<close>

record cap_masks =
  cm_inh :: "u64 option"
  cm_prm :: "u64 option"
  cm_eff :: "u64 option"
  cm_bnd :: "u64 option"
  cm_amb :: "u64 option"

definition no_masks :: cap_masks where
  "no_masks = \<lparr>cm_inh = None, cm_prm = None, cm_eff = None, cm_bnd = None, cm_amb = None\<rparr>"

definition cap_line :: "string \<Rightarrow> cap_masks \<Rightarrow> cap_masks result" where
  "cap_line line masks =
     (case find_from (CHR '':'') line 0 of
        None \<Rightarrow> Value masks
      | Some colon \<Rightarrow>
          (let key = security_trim (take colon line) in
           if has_prefix ''Cap'' key then
             (let val_str = security_trim (drop (colon + 1) line) in
              if key = ''CapInh'' then and_then (parse_hex_u64 val_str) (\<lambda>v. Value (masks\<lparr>cm_inh := Some v\<rparr>))
              else if key = ''CapPrm'' then and_then (parse_hex_u64 val_str) (\<lambda>v. Value (masks\<lparr>cm_prm := Some v\<rparr>))
              else if key = ''CapEff'' then and_then (parse_hex_u64 val_str) (\<lambda>v. Value (masks\<lparr>cm_eff := Some v\<rparr>))
              else if key = ''CapBnd'' then and_then (parse_hex_u64 val_str) (\<lambda>v. Value (masks\<lparr>cm_bnd := Some v\<rparr>))
              else if key = ''CapAmb'' then and_then (parse_hex_u64 val_str) (\<lambda>v. Value (masks\<lparr>cm_amb := Some v\<rparr>))
              else Value masks)
           else Value masks))"

text \<open>One piece of the file: \<open>buffer\<close> from \<open>offset\<close> on, and \<open>current_line\<close>.\<close>

function cap_piece :: "string \<Rightarrow> string \<Rightarrow> cap_masks \<Rightarrow> (string \<times> cap_masks) result" where
  "cap_piece buffer current_line masks =
     (if buffer = [] then Value (current_line, masks)
      else (case find_from newline buffer 0 of
          None \<Rightarrow> Value (current_line @ buffer, masks)
        | Some newline_pos \<Rightarrow>
            and_then (cap_line (if current_line = [] then take newline_pos buffer
                                else current_line @ take newline_pos buffer) masks)
              (\<lambda>masks. cap_piece (drop (newline_pos + 1) buffer) [] masks)))"
  by pat_completeness auto
termination by (relation "measure (\<lambda>(b, _, _). length b)") auto

declare cap_piece.simps [simp del]

fun cap_reads :: "(string \<Rightarrow> string) \<Rightarrow> string \<Rightarrow> cap_masks \<Rightarrow> read_event list \<Rightarrow> cap_masks result option" where
  "cap_reads cleared current_line masks [] = None"
| "cap_reads cleared current_line masks (Read_error errno # es) =
     (if errno = EINTR then cap_reads cleared current_line masks es else Some (fail_errno errno))"
| "cap_reads cleared current_line masks (Read buffer # es) =
     (if buffer = [] then
        Some (if current_line \<noteq> [] then cap_line (cleared current_line) masks else Value masks)
      else (case cap_piece buffer current_line masks of
          Unexpected e \<Rightarrow> Some (Unexpected e)
        | Value (current_line, masks) \<Rightarrow> cap_reads cleared current_line masks es))"

definition names_of_mask :: "u64 option \<Rightarrow> string list" where
  "names_of_mask bits = (case bits of None \<Rightarrow> [] | Some m \<Rightarrow> decode_linux_capabilities m)"

definition caps_of_masks :: "cap_masks \<Rightarrow> process_capabilities result" where
  "caps_of_masks masks =
     (if cm_inh masks = None \<and> cm_prm masks = None \<and> cm_eff masks = None then fail errc.malformed_data
      else Value \<lparr>pc_effective = names_of_mask (cm_eff masks), pc_permitted = names_of_mask (cm_prm masks),
        pc_inheritable = names_of_mask (cm_inh masks), pc_bounding = names_of_mask (cm_bnd masks),
        pc_ambient = names_of_mask (cm_amb masks)\<rparr>)"

definition capabilities_at ::
    "(string \<Rightarrow> string) \<Rightarrow> int option \<Rightarrow> read_event list \<Rightarrow> process_capabilities result option" where
  "capabilities_at cleared open_error events =
     (case open_error of
        Some err \<Rightarrow>
          Some (if err = ENOENT then fail errc.not_supported
                else if err = EACCES then fail errc.permission_denied
                else fail_errno err)
      | None \<Rightarrow>
          map_option (\<lambda>r. and_then r caps_of_masks) (cap_reads cleared [] no_masks events))"

definition privilege_less :: "privilege_entry \<Rightarrow> privilege_entry \<Rightarrow> bool" where
  "privilege_less a b \<longleftrightarrow> pe_name a < pe_name b"

definition add_permitted :: "string \<Rightarrow> privilege_entry list \<Rightarrow> privilege_entry list" where
  "add_permitted cap privs =
     (if list_ex (\<lambda>existing. pe_name existing = cap) privs then privs
      else privs @ [\<lparr>pe_name = cap, pe_enabled = False, pe_enabled_by_default = False\<rparr>])"

definition privileges :: "process_capabilities result \<Rightarrow> privilege_entry list result" where
  "privileges caps_res =
     and_then caps_res (\<lambda>caps.
       let effective = map (\<lambda>cap. \<lparr>pe_name = cap, pe_enabled = True, pe_enabled_by_default = False\<rparr>)
             (pc_effective caps)
       in Value (std_sort privilege_less (fold add_permitted (pc_permitted caps) effective)))"

section \<open>Encryption of block devices\<close>

record slave_counts =
  sc_total :: nat
  sc_encrypted :: nat
  sc_unencrypted :: nat
  sc_common :: encryption_type

definition no_slaves :: slave_counts where
  "no_slaves = \<lparr>sc_total = 0, sc_encrypted = 0, sc_unencrypted = 0, sc_common = encryption_type.none\<rparr>"

definition count_slave :: "encryption_state \<times> encryption_type \<Rightarrow> slave_counts \<Rightarrow> slave_counts" where
  "count_slave sub_enc c =
     (let c = c\<lparr>sc_total := sc_total c + 1\<rparr> in
      if fst sub_enc = encrypted then
        c\<lparr>sc_encrypted := sc_encrypted c + 1,
          sc_common := (if sc_common c = encryption_type.none then snd sub_enc
                        else if sc_common c \<noteq> snd sub_enc then encryption_type.other
                        else sc_common c)\<rparr>
      else if fst sub_enc = unencrypted then c\<lparr>sc_unencrypted := sc_unencrypted c + 1\<rparr>
      else c)"

text \<open>\<^const>\<open>None\<close> after a failing \<open>readdir\<close>; \<open>sub\<close> is the recursive call.\<close>

fun count_slaves ::
    "(string \<Rightarrow> encryption_state \<times> encryption_type) \<Rightarrow> directory_event list \<Rightarrow> slave_counts \<Rightarrow>
     slave_counts option" where
  "count_slaves sub [] c = Some c"
| "count_slaves sub (Readdir_error e # es) c = (if e \<noteq> 0 then None else Some c)"
| "count_slaves sub (Entry sname # es) c =
     count_slaves sub es (if dot_entry sname then c else count_slave (sub sname) c)"

definition encryption_unknown :: "encryption_state \<times> encryption_type" where
  "encryption_unknown = (encryption_state.unknown, encryption_type.unknown)"

definition combine_slaves :: "slave_counts \<Rightarrow> encryption_state \<times> encryption_type" where
  "combine_slaves c =
     (if sc_total c > 0 then
        (if sc_encrypted c = sc_total c then (encrypted, sc_common c)
         else if sc_unencrypted c = sc_total c then (unencrypted, encryption_type.none)
         else if sc_encrypted c > 0 \<and> sc_unencrypted c > 0 \<and>
           sc_encrypted c + sc_unencrypted c = sc_total c then (mixed, sc_common c)
         else encryption_unknown)
      else encryption_unknown)"

text \<open>The slaves directory of a device; without one nothing is known of what lies below.\<close>

definition slaves_encryption ::
    "host \<Rightarrow> string \<Rightarrow> (string \<Rightarrow> encryption_state \<times> encryption_type) \<Rightarrow> encryption_state \<times> encryption_type" where
  "slaves_encryption host slaves_dir sub =
     (case ho_opendir host slaves_dir of
        Some e \<Rightarrow> encryption_unknown
      | None \<Rightarrow>
          (case count_slaves sub (ho_entries host slaves_dir) no_slaves of
             None \<Rightarrow> encryption_unknown
           | Some c \<Rightarrow> combine_slaves c))"

definition inspect_layer ::
    "host \<Rightarrow> string \<Rightarrow> (string \<Rightarrow> encryption_state \<times> encryption_type) \<Rightarrow> string \<Rightarrow>
     encryption_state \<times> encryption_type" where
  "inspect_layer host sys_block_root sub block_name =
     (if block_name = [] then encryption_unknown
      else
        (let dev_dir = sys_block_root @ ''/'' @ block_name in
         case ho_read host (dev_dir @ ''/dm/uuid'') 512 of
           Value uuid \<Rightarrow>
             (let enc = parse_dm_uuid_encryption uuid in
              if fst enc = encrypted then enc
              else slaves_encryption host (dev_dir @ ''/slaves'') sub)
         | Unexpected e \<Rightarrow>
             if \<not> is_no_such_file e then encryption_unknown
             else slaves_encryption host (dev_dir @ ''/slaves'') sub))"

text \<open>\<open>levels\<close> is \<open>9 - depth\<close>: the recursion answers unknown beyond depth 8.\<close>

primrec inspect_levels ::
    "host \<Rightarrow> string \<Rightarrow> nat \<Rightarrow> string \<Rightarrow> encryption_state \<times> encryption_type" where
  "inspect_levels host sys_block_root 0 = (\<lambda>block_name. encryption_unknown)"
| "inspect_levels host sys_block_root (Suc n) =
     inspect_layer host sys_block_root (inspect_levels host sys_block_root n)"

definition inspect_block_device_encryption ::
    "host \<Rightarrow> string \<Rightarrow> string \<Rightarrow> encryption_state \<times> encryption_type" where
  "inspect_block_device_encryption host block_name sys_block_root =
     inspect_levels host sys_block_root 9 block_name"

section \<open>Volumes\<close>

text \<open>The device and the mount point of a line of the mount table, both decoded.\<close>

definition mount_line :: "string \<Rightarrow> (string \<times> string) option" where
  "mount_line line =
     (if line \<noteq> [] \<and> line ! 0 \<noteq> CHR ''#'' then
        (case find_from (CHR '' '') line 0 of
           None \<Rightarrow> None
         | Some space1 \<Rightarrow>
             (let rest = drop (space1 + 1) line in
              case find_from (CHR '' '') rest 0 of
                None \<Rightarrow> None
              | Some space2 \<Rightarrow>
                  Some (decode_mount_entry (take space1 line), decode_mount_entry (take space2 rest))))
      else None)"

definition mount_covers :: "string \<Rightarrow> string \<Rightarrow> bool" where
  "mount_covers mnt target_path \<longleftrightarrow>
     target_path = mnt \<or>
     length target_path > length mnt \<and> take (length mnt) target_path = mnt \<and>
     (mnt = ''/'' \<or> target_path ! length mnt = CHR ''/'')"

definition match_mount :: "string \<Rightarrow> string \<Rightarrow> string \<times> nat \<Rightarrow> string \<times> nat" where
  "match_mount target_path line best =
     (case mount_line line of
        None \<Rightarrow> best
      | Some (dev, mnt) \<Rightarrow>
          if mount_covers mnt target_path \<and> length mnt \<ge> snd best then (dev, length mnt) else best)"

definition matched_device :: "string \<Rightarrow> string \<Rightarrow> string" where
  "matched_device mounts target_path =
     (let dev = fst (fold (match_mount target_path) (lines_of mounts) ([], 0)) in
      if dev = [] \<and> (has_prefix ''/dev/dm-'' target_path \<or> has_prefix ''/dev/mapper/'' target_path \<or>
                      has_prefix ''dm-'' target_path \<or> has_prefix ''/dev/'' target_path)
      then target_path else dev)"

fun mapper_node :: "host \<Rightarrow> string \<Rightarrow> string \<Rightarrow> directory_event list \<Rightarrow> string" where
  "mapper_node host sys_block_root mapper_name [] = []"
| "mapper_node host sys_block_root mapper_name (Readdir_error e # es) = []"
| "mapper_node host sys_block_root mapper_name (Entry bname # es) =
     (if has_prefix ''dm-'' bname \<and>
         (case ho_read host (sys_block_root @ ''/'' @ bname @ ''/dm/name'') 256 of
            Value name \<Rightarrow> security_trim name = mapper_name
          | Unexpected e \<Rightarrow> False)
      then bname else mapper_node host sys_block_root mapper_name es)"

definition block_node :: "host \<Rightarrow> string \<Rightarrow> string \<Rightarrow> string" where
  "block_node host sys_block_root device =
     (if has_prefix ''/dev/dm-'' device then drop 5 device
      else if has_prefix ''dm-'' device then device
      else if has_prefix ''/dev/mapper/'' device then
        (case ho_opendir host sys_block_root of
           Some e \<Rightarrow> []
         | None \<Rightarrow> mapper_node host sys_block_root (drop 12 device) (ho_entries host sys_block_root))
      else if has_prefix ''/dev/'' device then drop 5 device
      else [])"

definition volume_of :: "host \<Rightarrow> string \<Rightarrow> string \<Rightarrow> string \<Rightarrow> volume_encryption_info" where
  "volume_of host sys_block_root path_str device =
     (let info = \<lparr>ve_path_or_device = path_str, ve_state = encryption_state.unknown,
            ve_type = encryption_type.unknown, ve_cipher = None, ve_key_size_bits = None\<rparr>
      in
      if device = [] then info
      else
        (let node = block_node host sys_block_root device in
         if node \<noteq> [] then
           (let enc = inspect_block_device_encryption host node sys_block_root
            in info\<lparr>ve_state := fst enc, ve_type := snd enc\<rparr>)
         else info))"

definition volume_encryption_at ::
    "host \<Rightarrow> (string \<Rightarrow> string option) \<Rightarrow> string \<Rightarrow> string \<Rightarrow> string \<Rightarrow> volume_encryption_info result" where
  "volume_encryption_at host realpath path sys_block_root mounts_path =
     (if path = [] then fail errc.invalid_argument
      else if \<not> is_valid_utf8 path then fail errc.invalid_encoding
      else if nul \<in> set path then fail errc.invalid_argument
      else (case ho_stat host path of
          Stat_error e \<Rightarrow> if e = ENOENT then fail errc.not_found else fail_errno e
        | _ \<Rightarrow>
          (let target_path = (case realpath path of Some resolved \<Rightarrow> resolved | None \<Rightarrow> path) in
           supported_file (ho_read host mounts_path 65536) (\<lambda>mounts.
             Value (volume_of host sys_block_root path (matched_device mounts target_path))))))"

definition volume_encryption ::
    "host \<Rightarrow> (string \<Rightarrow> string option) \<Rightarrow> string \<Rightarrow> volume_encryption_info result" where
  "volume_encryption host realpath path =
     volume_encryption_at host realpath path ''/sys/block'' ''/proc/self/mounts''"

text \<open>The mount point of the first line whose device is the volume.\<close>

fun mount_of_device :: "string \<Rightarrow> string \<Rightarrow> string list \<Rightarrow> string" where
  "mount_of_device path name [] = path"
| "mount_of_device path name (line # rest) =
     (case mount_line line of
        Some (dev, mnt) \<Rightarrow>
          if dev = path \<or> dev = ''/dev/'' @ name then mnt else mount_of_device path name rest
      | None \<Rightarrow> mount_of_device path name rest)"

definition encrypted_volume_entry ::
    "host \<Rightarrow> string \<Rightarrow> string result \<Rightarrow> string \<Rightarrow> volume_encryption_info list \<Rightarrow>
     volume_encryption_info list result" where
  "encrypted_volume_entry host sys_block_root mounts name found =
     (if \<not> has_prefix ''dm-'' name then Value found
      else
        (let enc = inspect_block_device_encryption host name sys_block_root in
         if fst enc \<noteq> encrypted then Value found
         else
           (let dm_name = (case ho_read host (sys_block_root @ ''/'' @ name @ ''/dm/name'') 256 of
                  Value s \<Rightarrow> security_trim s | Unexpected e \<Rightarrow> []);
                path = (if dm_name = [] then ''/dev/'' @ name else ''/dev/mapper/'' @ dm_name);
                shown = (case mounts of
                    Value text \<Rightarrow> mount_of_device path name (lines_of text) | Unexpected e \<Rightarrow> path)
            in Value (found @ [\<lparr>ve_path_or_device = shown, ve_state = fst enc, ve_type = snd enc,
                 ve_cipher = None, ve_key_size_bits = None\<rparr>]))))"

definition volume_less :: "volume_encryption_info \<Rightarrow> volume_encryption_info \<Rightarrow> bool" where
  "volume_less a b \<longleftrightarrow> ve_path_or_device a < ve_path_or_device b"

definition encrypted_volumes_at :: "host \<Rightarrow> string \<Rightarrow> string \<Rightarrow> volume_encryption_info list result" where
  "encrypted_volumes_at host sys_block_root mounts_path =
     (case ho_opendir host sys_block_root of
        Some e \<Rightarrow> if e = ENOENT then fail errc.not_supported else fail_errno e
      | None \<Rightarrow>
          and_then (each_entry (encrypted_volume_entry host sys_block_root (ho_read host mounts_path 65536))
              (ho_entries host sys_block_root) [])
            (\<lambda>found. Value (std_sort volume_less found)))"

definition encrypted_volumes :: "host \<Rightarrow> volume_encryption_info list result" where
  "encrypted_volumes host = encrypted_volumes_at host ''/sys/block'' ''/proc/self/mounts''"

text \<open>The public query repeats the checks of the path.\<close>

definition public_volume_encryption ::
    "host \<Rightarrow> (string \<Rightarrow> string option) \<Rightarrow> string \<Rightarrow> volume_encryption_info result" where
  "public_volume_encryption host realpath path =
     (if path = [] then fail errc.invalid_argument
      else if \<not> is_valid_utf8 path then fail errc.invalid_encoding
      else if nul \<in> set path then fail errc.invalid_argument
      else volume_encryption host realpath path)"

end
