(* ===== verification/Security_Correct.thy ===== *)
theory Security_Correct
  imports Security_Linux Hardware
begin

text \<open>
  What the security queries promise: the capability sets do not depend on how the status file is delivered
  and are exactly the bits of the masks, privileges are the union of two sets, a device is reported as
  encrypted only on evidence for every layer below it, and the mount of a path is the most specific one.
\<close>

unbundle bit_operations_syntax

section \<open>Delivery in pieces\<close>

text \<open>The lines a text completes after \<open>cur\<close>, and the unfinished line.\<close>

fun chop :: "string \<Rightarrow> string \<Rightarrow> string list \<times> string" where
  "chop cur [] = ([], cur)"
| "chop cur (c # s) =
     (if c = newline then (case chop [] s of (ls, t) \<Rightarrow> (cur # ls, t)) else chop (cur @ [c]) s)"

fun cap_lines :: "string list \<Rightarrow> cap_masks \<Rightarrow> cap_masks result" where
  "cap_lines [] m = Value m"
| "cap_lines (l # ls) m = and_then (cap_line l m) (cap_lines ls)"

lemma chop_line: "newline \<notin> set p \<Longrightarrow> chop cur (p @ newline # s) = (case chop [] s of (ls, t) \<Rightarrow> ((cur @ p) # ls, t))"
  by (induction p arbitrary: cur) auto

lemma chop_plain: "newline \<notin> set p \<Longrightarrow> chop cur p = ([], cur @ p)"
  by (induction p arbitrary: cur) auto

lemma chop_append:
  "chop cur (a @ b) = (case chop cur a of (ls, t) \<Rightarrow> case chop t b of (ls', t') \<Rightarrow> (ls @ ls', t'))"
  by (induction cur a rule: chop.induct) (auto split: prod.splits)

lemma cap_lines_append: "cap_lines (a @ b) m = and_then (cap_lines a m) (cap_lines b)"
proof (induction a arbitrary: m)
  case (Cons l ls)
  then show ?case by (cases "cap_line l m") simp_all
qed simp

lemma find_from_0_None: "find_from c s 0 = None \<longleftrightarrow> c \<notin> set s"
proof -
  have "length (takeWhile (\<lambda>x. x \<noteq> c) s) < length s \<longleftrightarrow> c \<in> set s"
    by (metis (mono_tags, lifting) length_takeWhile_le linorder_not_less nat_less_le takeWhile_eq_all_conv
        takeWhile_eq_take take_all)
  then show ?thesis by (simp add: find_from_def Let_def)
qed

lemma cap_piece_chop:
  "cap_piece buffer cur m = and_then (cap_lines (fst (chop cur buffer)) m) (\<lambda>m. Value (snd (chop cur buffer), m))"
proof (induction buffer cur m rule: cap_piece.induct)
  case (1 buffer cur m)
  show ?case
  proof (cases "find_from newline buffer 0")
    case None
    then show ?thesis
      using chop_plain [of buffer cur] find_from_0_None [of newline buffer] by (subst cap_piece.simps) simp
  next
    case (Some n)
    then obtain p s where b: "buffer = p @ newline # s" "newline \<notin> set p" "n = length p"
      using find_from_Some [OF Some] by auto
    have "cap_piece buffer cur m = and_then (cap_line (cur @ p) m) (\<lambda>m. cap_piece s [] m)"
      using Some b by (subst cap_piece.simps) simp
    also have "\<dots> = and_then (cap_line (cur @ p) m)
        (\<lambda>m. and_then (cap_lines (fst (chop [] s)) m) (\<lambda>m. Value (snd (chop [] s), m)))"
      using 1 Some b by (cases "cap_line (cur @ p) m") simp_all
    also have "\<dots> = and_then (cap_lines (fst (chop cur buffer)) m) (\<lambda>m. Value (snd (chop cur buffer), m))"
      using b by (simp add: chop_line and_then_assoc split: prod.split)
    finally show ?thesis .
  qed
qed

lemma cap_reads_chop:
  "file_content es = Some c \<Longrightarrow>
   cap_reads cleared cur m es = Some (and_then (cap_lines (fst (chop cur c)) m)
     (\<lambda>m. if snd (chop cur c) \<noteq> [] then cap_line (cleared (snd (chop cur c))) m else Value m))"
proof (induction es arbitrary: cur m c)
  case (Cons ev es)
  show ?case
  proof (cases ev)
    case (Read_error e)
    then show ?thesis using Cons by (simp split: if_splits)
  next
    case (Read buffer)
    show ?thesis
    proof (cases "buffer = []")
      case True
      then show ?thesis using Cons.prems Read by simp
    next
      case False
      then obtain d where d: "file_content es = Some d" "c = buffer @ d"
        using Cons.prems Read by auto
      obtain ls t where a: "chop cur buffer = (ls, t)" by fastforce
      obtain ls' t' where b: "chop t d = (ls', t')" by fastforce
      have "chop cur c = (ls @ ls', t')" by (simp add: d(2) chop_append a b)
      then show ?thesis
        using Cons.IH [OF d(1), of t] False Read
        by (cases "cap_lines ls m") (simp_all add: cap_piece_chop a b cap_lines_append cong: if_cong)
    qed
  qed
qed simp

lemma lines_of_chop: "lines_of s = fst (chop [] s) @ (if snd (chop [] s) = [] then [] else [snd (chop [] s)])"
proof (induction "length s" arbitrary: s rule: less_induct)
  case less
  show ?case
  proof (cases "newline \<in> set s")
    case True
    then obtain p r where "s = p @ newline # r" "newline \<notin> set p"
      by (metis split_list_first)
    then show ?thesis
      using less [of r] by (simp add: pieces_of_append chop_line split: prod.split)
  next
    case False
    then show ?thesis
      by (cases "s = []") (simp_all add: pieces_of_last chop_plain)
  qed
qed

lemma chop_terminated: "s = [] \<or> last s = newline \<Longrightarrow> snd (chop [] s) = []"
  by (cases s rule: rev_cases) (auto simp: chop_append split: prod.splits)

lemma capabilities_pieces:
  assumes "file_content events = Some status" "status = [] \<or> last status = newline"
  shows "capabilities_at cleared None events =
    Some (and_then (cap_lines (lines_of status) no_masks) caps_of_masks)"
  using cap_reads_chop [OF assms(1), of cleared "[]" no_masks] chop_terminated [OF assms(2)]
  by (simp add: capabilities_at_def lines_of_chop and_then_assoc)

text \<open>
  The capability query does not depend on how the kernel delivers the status file: for a file that
  ends with a line feed, every sequence of nonempty reads, with interruptions anywhere between them, gives
  the result of its lines taken in order, whatever a view into a cleared string shows.
\<close>

theorem capabilities_delivery:
  assumes "file_content events = Some status" "status = [] \<or> last status = newline"
  shows "capabilities_at cleared None events =
    Some (and_then (cap_lines (lines_of status) no_masks) caps_of_masks)"
  using assms by (rule capabilities_pieces)

theorem capabilities_delivery_witness:
  "capabilities_at (\<lambda>s. s) None [Read ''CapInh:0'', Read_error EINTR, Read [newline, CHR ''C''], Read ''apEff:3'', Read [newline], Read []]
     = Some (and_then (cap_lines (lines_of (''CapInh:0'' @ [newline] @ ''CapEff:3'' @ [newline])) no_masks) caps_of_masks)"
  by (rule capabilities_delivery) simp_all

text \<open>The split of a file at its last, unterminated line.\<close>

lemma chop_unterminated:
  assumes "body = [] \<or> last body = newline" "newline \<notin> set line"
  shows "chop [] (body @ line) = (lines_of body, line)"
proof -
  obtain ls t where "chop [] body = (ls, t)" by fastforce
  then show ?thesis
    using chop_terminated [OF assms(1)] by (simp add: chop_append chop_plain [OF assms(2)] lines_of_chop)
qed

lemma trim_back_Cons: "\<not> p c \<Longrightarrow> trim_back p (c # s) = c # trim_back p s"
proof -
  have "dropWhile p (xs @ [c]) = dropWhile p xs @ [c]" if "\<not> p c" for xs
    using that by (induction xs) simp_all
  then show "\<not> p c \<Longrightarrow> trim_back p (c # s) = c # trim_back p s" by (simp add: trim_back_def)
qed

lemma nul_line_ignored: "cap_line (nul # s) m = Value m"
proof (cases "find_from (CHR '':'') (nul # s) 0")
  case (Some colon)
  then have "colon \<noteq> 0" using find_from_Some [OF Some] by (auto simp: Cons_eq_append_conv)
  then obtain n where "colon = Suc n" by (cases colon) auto
  then show ?thesis
    using Some by (simp add: cap_line_def security_trim_def token_space_def trim_back_Cons has_prefix_def)
qed (simp add: cap_line_def)

text \<open>
  C20. Where the status file ends in a line without a line feed, that line goes through the view of a
  cleared string, however the kernel delivers the file: the answer is that of the terminated lines before
  it, followed by whatever the view shows. With a \<open>clear\<close> that overwrites the first byte by the terminator,
  as the usual implementation does, the line is lost, whatever it says.
\<close>

theorem unterminated_line_lost:
  assumes "file_content events = Some (body @ line)" "body = [] \<or> last body = newline"
    and "line \<noteq> []" "newline \<notin> set line"
  shows "capabilities_at cleared None events =
      Some (and_then (cap_lines (lines_of body) no_masks) (\<lambda>m. and_then (cap_line (cleared line) m) caps_of_masks)) \<and>
    capabilities_at (\<lambda>s. nul # tl s) None events =
      Some (and_then (cap_lines (lines_of body) no_masks) caps_of_masks)"
proof -
  have delivered: "capabilities_at view None events =
      Some (and_then (cap_lines (lines_of body) no_masks) (\<lambda>m. and_then (cap_line (view line) m) caps_of_masks))" for view
    using cap_reads_chop [OF assms(1), of view "[]" no_masks] chop_unterminated [OF assms(2,4)] assms(3)
    by (simp add: capabilities_at_def and_then_assoc)
  then show ?thesis by (simp add: nul_line_ignored)
qed

theorem unterminated_line_lost_witness:
  "capabilities_at (\<lambda>s. nul # tl s) None
       [Read ''CapPrm:'', Read_error EINTR, Read (CHR ''3'' # newline # ''Cap''), Read ''Eff:1'', Read []] =
     Some (Value \<lparr>pc_effective = [], pc_permitted = [cap_name 0, cap_name 1], pc_inheritable = [],
       pc_bounding = [], pc_ambient = []\<rparr>)"
proof -
  have "capabilities_at (\<lambda>s. nul # tl s) None
       [Read ''CapPrm:'', Read_error EINTR, Read (CHR ''3'' # newline # ''Cap''), Read ''Eff:1'', Read []] =
     Some (and_then (cap_lines (lines_of (''CapPrm:3'' @ [newline])) no_masks) caps_of_masks)"
    by (rule conjunct2 [OF unterminated_line_lost [where body = "''CapPrm:3'' @ [newline]" and line = "''CapEff:1''"]])
      simp_all
  also have "and_then (cap_lines (lines_of (''CapPrm:3'' @ [newline])) no_masks) caps_of_masks =
     Value \<lparr>pc_effective = [], pc_permitted = [cap_name 0, cap_name 1], pc_inheritable = [],
       pc_bounding = [], pc_ambient = []\<rparr>"
    by code_simp
  finally show ?thesis .
qed

section \<open>Masks and names\<close>

lemma cap_names_distinct: "distinct (map cap_name [0..<64])"
  by code_simp

lemma mask_bit: "(w AND push_bit n 1 \<noteq> 0) = bit w n" for w :: u64
  by (simp add: and_exp_eq_0_iff_not_bit push_bit_eq_mult [of n 1])

lemma decode_bits: "decode_linux_capabilities w = map cap_name (filter (bit w) [0..<64])"
  unfolding decode_linux_capabilities_def mask_bit ..

lemma cap_name_inj: "i < 64 \<Longrightarrow> j < 64 \<Longrightarrow> cap_name i = cap_name j \<longleftrightarrow> i = j"
  using cap_names_distinct by (auto simp: distinct_map inj_on_def)

lemma decode_set: "n < 64 \<Longrightarrow> cap_name n \<in> set (decode_linux_capabilities w) \<longleftrightarrow> bit w n"
  using cap_name_inj by (auto simp: decode_bits)

lemma decode_distinct: "distinct (decode_linux_capabilities w)"
  using cap_names_distinct by (simp add: decode_bits distinct_map_filter)

text \<open>
  The names decoded from a capability mask are pairwise different, name exactly the bits that are set
  (unknown bits by their number), and determine the mask: no two masks decode alike.
\<close>

theorem decode_capabilities_exact:
  "distinct (decode_linux_capabilities w) \<and>
   (\<forall>n<64. cap_name n \<in> set (decode_linux_capabilities w) \<longleftrightarrow> bit w n) \<and>
   (decode_linux_capabilities w = decode_linux_capabilities v \<longleftrightarrow> w = v)"
proof -
  have len64: "LENGTH(64) = 64" by simp
  have "w = v" if "decode_linux_capabilities w = decode_linux_capabilities v"
    using that decode_set by (intro bit_word_eqI) (metis len64)
  then show ?thesis using decode_set decode_distinct by blast
qed

section \<open>The status file\<close>

lemma hex_digit_of: "n < 16 \<Longrightarrow> hex_digit_u64 (hex_digits ! n) = Some (of_nat n)"
proof -
  have "list_all (\<lambda>n. hex_digit_u64 (hex_digits ! n) = Some (of_nat n)) [0..<16]" by code_simp
  then show "n < 16 \<Longrightarrow> ?thesis" by (simp add: list_all_iff)
qed

lemma hex_digits_append: "hex_digits_u64 v (s @ t) = and_then (hex_digits_u64 v s) (\<lambda>w. hex_digits_u64 w t)"
  by (induction v s rule: hex_digits_u64.induct) (auto split: option.split)

lemma hex_digits_fixed: "width \<le> 16 \<Longrightarrow> unat v < 16 ^ width \<Longrightarrow> hex_digits_u64 0 (fixed_hex v width) = Value v"
proof (induction width arbitrary: v)
  case 0
  then show ?case by (simp add: unat_eq_zero)
next
  case (Suc width)
  let ?d = "unat (v AND 0xF)"
  have "unat (drop_bit 4 v) < 16 ^ width"
    using Suc.prems(2) by (simp add: unat_drop_bit less_mult_imp_div_less mult.commute)
  then have high: "hex_digits_u64 0 (fixed_hex (drop_bit 4 v) width) = Value (drop_bit 4 v)"
    using Suc by simp
  have d: "?d < 16" by (simp add: unat_and_low)
  have small: "\<not> drop_bit 4 v > drop_bit 4 0xFFFFFFFFFFFFFFFF"
  proof -
    have "unat v < 2 ^ 64" using unsigned_less [of v] by simp
    then have "unat v div 16 < 2 ^ 60" by (simp add: less_mult_imp_div_less)
    then show ?thesis by (simp add: word_less_nat_alt unat_drop_bit)
  qed
  have "push_bit 4 (drop_bit 4 v) OR of_nat ?d = v"
  proof -
    have "push_bit 4 (drop_bit 4 v) OR (v AND mask 4) = v"
      by (rule bit_word_eqI) (auto simp: bit_simps)
    then show ?thesis by (simp add: mask_eq_exp_minus_1)
  qed
  then show ?case
    using small by (simp add: hex_digits_append high hex_digit_of [OF d])
qed

definition plain_line :: "string \<Rightarrow> bool" where
  "plain_line l \<longleftrightarrow> newline \<notin> set l \<and>
     (case find_from (CHR '':'') l 0 of None \<Rightarrow> True | Some n \<Rightarrow> \<not> has_prefix ''Cap'' (security_trim (take n l)))"

definition cap_entry :: "string \<Rightarrow> u64 \<Rightarrow> string" where
  "cap_entry key v = key @ '':'' @ [tab] @ fixed_hex v 16"

definition status_lines :: "string list \<Rightarrow> u64 \<Rightarrow> u64 \<Rightarrow> u64 \<Rightarrow> u64 \<Rightarrow> u64 \<Rightarrow> string list \<Rightarrow> string list" where
  "status_lines before inh prm eff bnd amb after =
     before @ [cap_entry ''CapInh'' inh, cap_entry ''CapPrm'' prm, cap_entry ''CapEff'' eff,
       cap_entry ''CapBnd'' bnd, cap_entry ''CapAmb'' amb] @ after"

lemma cap_lines_plain: "list_all plain_line ls \<Longrightarrow> cap_lines ls m = Value m"
  by (induction ls) (auto simp: plain_line_def cap_line_def split: option.splits)

definition cap_hex_char :: "char \<Rightarrow> bool" where
  "cap_hex_char c \<longleftrightarrow> c \<in> set hex_digits"

lemma fixed_cap_hex_chars: "list_all cap_hex_char (fixed_hex v width)"
proof (induction width arbitrary: v)
  case (Suc width)
  have "unat (v AND 0xF) < length hex_digits" by (simp add: unat_and_low hex_digits_def)
  then show ?case using Suc by (simp add: cap_hex_char_def)
qed simp

lemma length_fixed_hex [simp]: "length (fixed_hex v width) = width"
  by (induction width arbitrary: v) simp_all

lemma cap_hex_char_facts: "cap_hex_char c \<Longrightarrow> \<not> token_space c \<and> c \<noteq> CHR ''x'' \<and> c \<noteq> CHR ''X'' \<and> c \<noteq> newline"
proof -
  have "list_all (\<lambda>c. \<not> token_space c \<and> c \<noteq> CHR ''x'' \<and> c \<noteq> CHR ''X'' \<and> c \<noteq> newline) hex_digits" by code_simp
  then show "cap_hex_char c \<Longrightarrow> ?thesis" by (simp add: list_all_iff cap_hex_char_def)
qed

lemma security_trim_id: "s \<noteq> [] \<Longrightarrow> \<not> token_space (hd s) \<Longrightarrow> \<not> token_space (last s) \<Longrightarrow> security_trim s = s"
  by (cases s) (simp_all add: security_trim_def trim_back_id)

lemma parse_hex_fixed: "parse_hex_u64 (security_trim (tab # fixed_hex v 16)) = Value v"
proof -
  let ?s = "fixed_hex v 16"
  have c: "cap_hex_char (?s ! i)" if "i < 16" for i
    using fixed_cap_hex_chars [of v 16] that by (simp add: list_all_length)
  have ne: "?s \<noteq> []" by (metis length_0_conv length_fixed_hex zero_neq_numeral)
  have ends: "hd ?s = ?s ! 0" "last ?s = ?s ! 15" using ne by (simp_all add: hd_conv_nth last_conv_nth)
  have t: "security_trim ?s = ?s"
    using ne ends c cap_hex_char_facts by (intro security_trim_id) simp_all
  have "security_trim (tab # ?s) = security_trim ?s"
    by (simp add: security_trim_def token_space_def)
  moreover have "unat v < 16 ^ 16" using unsigned_less [of v] by simp
  then have "hex_digits_u64 0 ?s = Value v" by (intro hex_digits_fixed) simp_all
  ultimately show ?thesis
    using t ne cap_hex_char_facts [OF c [of 1]] by (simp add: parse_hex_u64_def Let_def)
qed

lemma cap_line_entry:
  assumes "CHR '':'' \<notin> set key"
  shows "find_from (CHR '':'') (cap_entry key v) 0 = Some (length key)"
    "take (length key) (cap_entry key v) = key" "drop (length key + 1) (cap_entry key v) = tab # fixed_hex v 16"
  using find_from_append [of "CHR '':''" key "[]"] assms by (simp_all add: cap_entry_def)

lemma cap_line_masks:
  "cap_line (cap_entry ''CapInh'' v) m = Value (m\<lparr>cm_inh := Some v\<rparr>)"
  "cap_line (cap_entry ''CapPrm'' v) m = Value (m\<lparr>cm_prm := Some v\<rparr>)"
  "cap_line (cap_entry ''CapEff'' v) m = Value (m\<lparr>cm_eff := Some v\<rparr>)"
  "cap_line (cap_entry ''CapBnd'' v) m = Value (m\<lparr>cm_bnd := Some v\<rparr>)"
  "cap_line (cap_entry ''CapAmb'' v) m = Value (m\<lparr>cm_amb := Some v\<rparr>)"
proof -
  have t: "security_trim ''CapInh'' = ''CapInh''" "security_trim ''CapPrm'' = ''CapPrm''"
    "security_trim ''CapEff'' = ''CapEff''" "security_trim ''CapBnd'' = ''CapBnd''"
    "security_trim ''CapAmb'' = ''CapAmb''" by code_simp+
  note e = cap_line_entry [of "''CapInh''" v] cap_line_entry [of "''CapPrm''" v]
    cap_line_entry [of "''CapEff''" v] cap_line_entry [of "''CapBnd''" v] cap_line_entry [of "''CapAmb''" v]
  show "cap_line (cap_entry ''CapInh'' v) m = Value (m\<lparr>cm_inh := Some v\<rparr>)"
    "cap_line (cap_entry ''CapPrm'' v) m = Value (m\<lparr>cm_prm := Some v\<rparr>)"
    "cap_line (cap_entry ''CapEff'' v) m = Value (m\<lparr>cm_eff := Some v\<rparr>)"
    "cap_line (cap_entry ''CapBnd'' v) m = Value (m\<lparr>cm_bnd := Some v\<rparr>)"
    "cap_line (cap_entry ''CapAmb'' v) m = Value (m\<lparr>cm_amb := Some v\<rparr>)"
    using e by (simp_all add: cap_line_def Let_def t parse_hex_fixed has_prefix_def)
qed

lemma last_concat_lines: "concat (map (\<lambda>l. l @ [newline]) ls) = [] \<or> last (concat (map (\<lambda>l. l @ [newline]) ls)) = newline"
  by (cases ls rule: rev_cases) simp_all

text \<open>
  C17. The status file the kernel writes for five masks (any other lines around them, sixteen hexadecimal
  digits each), delivered in any pieces, yields the five capability sets of exactly these masks.
\<close>

theorem capabilities_roundtrip:
  assumes "list_all plain_line before" "list_all plain_line after"
    and "file_content events =
      Some (concat (map (\<lambda>l. l @ [newline]) (status_lines before inh prm eff bnd amb after)))"
  shows "capabilities_at cleared None events = Some (Value \<lparr>
    pc_effective = decode_linux_capabilities eff, pc_permitted = decode_linux_capabilities prm,
    pc_inheritable = decode_linux_capabilities inh, pc_bounding = decode_linux_capabilities bnd,
    pc_ambient = decode_linux_capabilities amb\<rparr>)"
proof -
  let ?ls = "status_lines before inh prm eff bnd amb after"
  have nl: "newline \<notin> set (cap_entry key v)" if "newline \<notin> set key" for key v
    using that fixed_cap_hex_chars [of v 16] cap_hex_char_facts by (auto simp: cap_entry_def list_all_iff)
  have "list_all (\<lambda>l. newline \<notin> set l) ?ls"
    using assms(1,2) nl by (auto simp: status_lines_def list_all_iff plain_line_def)
  then have lines: "lines_of (concat (map (\<lambda>l. l @ [newline]) ?ls)) = ?ls"
    by (rule lines_of_unlines)
  have "cap_lines ?ls no_masks = Value \<lparr>cm_inh = Some inh, cm_prm = Some prm, cm_eff = Some eff,
      cm_bnd = Some bnd, cm_amb = Some amb\<rparr>"
    by (simp add: status_lines_def cap_lines_append cap_lines_plain assms(1,2) cap_line_masks no_masks_def)
  then show ?thesis
    using capabilities_pieces [OF assms(3) last_concat_lines, of cleared] lines
    by (simp add: caps_of_masks_def names_of_mask_def)
qed

theorem capabilities_roundtrip_witness:
  "capabilities_at (\<lambda>s. s) None [Read (concat (map (\<lambda>l. l @ [newline]) (status_lines [''Name: sh''] 0 1 2 3 4 []))), Read []]
     = Some (Value \<lparr>pc_effective = decode_linux_capabilities 2, pc_permitted = decode_linux_capabilities 1,
         pc_inheritable = decode_linux_capabilities 0, pc_bounding = decode_linux_capabilities 3,
         pc_ambient = decode_linux_capabilities 4\<rparr>)"
proof -
  have p: "list_all plain_line [''Name: sh'']" by code_simp
  have f: "file_content [Read s, Read []] = Some s" for s by simp
  show ?thesis
    by (rule capabilities_roundtrip [OF p]) (simp_all only: f list.pred_inject)
qed

section \<open>Privileges\<close>

interpretation privilege_order: strict_weak_order privilege_less
  unfolding privilege_less_def by (rule swo_key)

interpretation vulnerability_order: strict_weak_order vulnerability_less
  unfolding vulnerability_less_def by (rule swo_key)

interpretation volume_order: strict_weak_order volume_less
  unfolding volume_less_def by (rule swo_key)

lemma fold_add_permitted:
  "distinct (map pe_name ps) \<Longrightarrow>
   distinct (map pe_name (fold add_permitted cs ps)) \<and>
   set (fold add_permitted cs ps) = set ps \<union>
     {\<lparr>pe_name = c, pe_enabled = False, pe_enabled_by_default = False\<rparr> | c. c \<in> set cs \<and> c \<notin> pe_name ` set ps}"
proof (induction cs arbitrary: ps)
  case (Cons c cs)
  show ?case
  proof (cases "c \<in> pe_name ` set ps")
    case True
    then have "add_permitted c ps = ps" by (auto simp: add_permitted_def list_ex_iff)
    then show ?thesis using Cons True by auto
  next
    case False
    let ?e = "\<lparr>pe_name = c, pe_enabled = False, pe_enabled_by_default = False\<rparr>"
    have "add_permitted c ps = ps @ [?e]" using False by (auto simp: add_permitted_def list_ex_iff)
    moreover have "distinct (map pe_name (ps @ [?e]))" using False Cons.prems by auto
    ultimately show ?thesis using Cons.IH [of "ps @ [?e]"] False by auto
  qed
qed simp

text \<open>
  The privileges of a process are in the order of their names, each once; they are the effective and
  the permitted capabilities together, and exactly the effective ones are enabled.
\<close>

theorem privileges_exact:
  assumes "distinct (pc_effective caps)"
  shows "\<exists>ps. privileges (Value caps) = Value ps \<and> in_order privilege_less ps \<and> distinct (map pe_name ps) \<and>
    pe_name ` set ps = set (pc_effective caps) \<union> set (pc_permitted caps) \<and>
    (\<forall>p\<in>set ps. pe_enabled p = (pe_name p \<in> set (pc_effective caps)) \<and> \<not> pe_enabled_by_default p)"
proof -
  let ?eff = "map (\<lambda>cap. \<lparr>pe_name = cap, pe_enabled = True, pe_enabled_by_default = False\<rparr>) (pc_effective caps)"
  let ?all = "fold add_permitted (pc_permitted caps) ?eff"
  have "distinct (map pe_name ?eff)" using assms by (simp add: comp_def)
  then have all: "distinct (map pe_name ?all)" "set ?all = set ?eff \<union>
     {\<lparr>pe_name = c, pe_enabled = False, pe_enabled_by_default = False\<rparr> |
        c. c \<in> set (pc_permitted caps) \<and> c \<notin> pe_name ` set ?eff}"
    using fold_add_permitted by blast+
  have "distinct (map pe_name (std_sort privilege_less ?all))"
    using all(1) by (metis mset_map mset_std_sort mset_eq_imp_distinct_iff)
  moreover have "pe_name ` set ?all = set (pc_effective caps) \<union> set (pc_permitted caps)"
    unfolding all(2) by (auto simp: image_Un image_image setcompr_eq_image)
  moreover have "\<forall>p\<in>set ?all. pe_enabled p = (pe_name p \<in> set (pc_effective caps)) \<and> \<not> pe_enabled_by_default p"
    unfolding all(2) by (auto simp: image_image)
  ultimately show ?thesis
    using privilege_order.std_sort_in_order [of ?all] by (simp add: privileges_def Let_def)
qed

theorem privileges_exact_witness:
  "\<exists>ps. privileges (Value \<lparr>pc_effective = [''b''], pc_permitted = [''a'', ''b''], pc_inheritable = [],
        pc_bounding = [], pc_ambient = []\<rparr>) = Value ps \<and> in_order privilege_less ps \<and> distinct (map pe_name ps) \<and>
    pe_name ` set ps = {''b''} \<union> {''a'', ''b''} \<and>
    (\<forall>p\<in>set ps. pe_enabled p = (pe_name p \<in> {''b''}) \<and> \<not> pe_enabled_by_default p)"
  using privileges_exact [of "\<lparr>pc_effective = [''b''], pc_permitted = [''a'', ''b''], pc_inheritable = [],
        pc_bounding = [], pc_ambient = []\<rparr>"] by simp

section \<open>Encryption\<close>

text \<open>The slaves a completely read directory names.\<close>

fun listed_slaves :: "directory_event list \<Rightarrow> string list option" where
  "listed_slaves [] = Some []"
| "listed_slaves (Readdir_error e # es) = (if e \<noteq> 0 then None else Some [])"
| "listed_slaves (Entry name # es) =
     (if dot_entry name then listed_slaves es else map_option ((#) name) (listed_slaves es))"

text \<open>
  The evidence that a device is encrypted, with the number of layers it takes: the device itself is a crypt
  mapping, or it has slaves, all of which are encrypted.
\<close>

inductive encrypted_device :: "host \<Rightarrow> string \<Rightarrow> nat \<Rightarrow> string \<Rightarrow> bool" for host root where
  crypt: "name \<noteq> [] \<Longrightarrow> ho_read host (root @ ''/'' @ name @ ''/dm/uuid'') 512 = Value uuid \<Longrightarrow>
     has_prefix ''CRYPT-'' (security_trim uuid) \<Longrightarrow> encrypted_device host root (Suc n) name"
| stack: "name \<noteq> [] \<Longrightarrow>
     (case ho_read host (root @ ''/'' @ name @ ''/dm/uuid'') 512 of
        Value uuid \<Rightarrow> \<not> has_prefix ''CRYPT-'' (security_trim uuid) | Unexpected e \<Rightarrow> is_no_such_file e) \<Longrightarrow>
     ho_opendir host (root @ ''/'' @ name @ ''/slaves'') = None \<Longrightarrow>
     listed_slaves (ho_entries host (root @ ''/'' @ name @ ''/slaves'')) = Some slaves \<Longrightarrow> slaves \<noteq> [] \<Longrightarrow>
     (\<And>s. s \<in> set slaves \<Longrightarrow> encrypted_device host root n s) \<Longrightarrow> encrypted_device host root (Suc n) name"

inductive_cases encrypted_device_0: "encrypted_device host root 0 name"
inductive_cases encrypted_device_Suc: "encrypted_device host root (Suc n) name"

lemma dm_uuid_state:
  "fst (parse_dm_uuid_encryption uuid) =
     (if has_prefix ''CRYPT-'' (security_trim uuid) then encrypted else encryption_state.unknown)"
proof -
  have "has_prefix (p @ q) s \<Longrightarrow> has_prefix p s" for p q s
    by (metis append_take_drop_id has_prefix_def append_eq_append_conv2 length_append take_append take_take min.absorb1 le_add1 append_eq_conv_conj)
  from this [of "''CRYPT-''" "''LUKS2-''"] this [of "''CRYPT-''" "''LUKS1-''"]
    this [of "''CRYPT-''" "''LUKS-''"] this [of "''CRYPT-''" "''PLAIN-''"]
  show ?thesis by (auto simp: parse_dm_uuid_encryption_def Let_def)
qed

lemma count_slaves_exact:
  assumes "\<And>s. fst (sub s) = encrypted \<or> fst (sub s) = encryption_state.unknown"
  shows "map_option (\<lambda>c. (sc_total c, sc_encrypted c, sc_unencrypted c)) (count_slaves sub es c) =
    map_option (\<lambda>ns. (sc_total c + length ns,
        sc_encrypted c + length (filter (\<lambda>s. fst (sub s) = encrypted) ns), sc_unencrypted c)) (listed_slaves es)"
proof (induction es arbitrary: c)
  case (Cons ev es)
  show ?case
  proof (cases ev)
    case (Entry name)
    then show ?thesis
      using Cons assms [of name] by (auto simp: count_slave_def Let_def option.map_comp comp_def)
  next
    case (Readdir_error e)
    then show ?thesis by simp
  qed
qed simp

lemma combine_slaves_exact:
  "sc_unencrypted c = 0 \<Longrightarrow> fst (combine_slaves c) =
     (if 0 < sc_total c \<and> sc_encrypted c = sc_total c then encrypted else encryption_state.unknown)"
  by (simp add: combine_slaves_def encryption_unknown_def)

lemma filter_all_length: "length (filter P xs) = length xs \<longleftrightarrow> (\<forall>x\<in>set xs. P x)"
  by (metis filter_id_conv length_filter_less nat_less_le)

lemma slaves_exact:
  assumes sub: "\<And>s. fst (sub s) = (if enc s then encrypted else encryption_state.unknown)"
  shows "fst (slaves_encryption host dir sub) =
    (if ho_opendir host dir = None \<and> (\<exists>ns. listed_slaves (ho_entries host dir) = Some ns \<and> ns \<noteq> [] \<and> (\<forall>s\<in>set ns. enc s))
     then encrypted else encryption_state.unknown)"
proof -
  have "fst (sub s) = encrypted \<or> fst (sub s) = encryption_state.unknown" for s
    using sub [of s] by simp
  then have c: "map_option (\<lambda>c. (sc_total c, sc_encrypted c, sc_unencrypted c)) (count_slaves sub (ho_entries host dir) no_slaves) =
    map_option (\<lambda>ns. (length ns, length (filter enc ns), 0)) (listed_slaves (ho_entries host dir))"
    using count_slaves_exact [of sub "ho_entries host dir" no_slaves] sub by (simp add: no_slaves_def)
  show ?thesis
  proof (cases "listed_slaves (ho_entries host dir)")
    case None
    then show ?thesis using c by (simp add: slaves_encryption_def encryption_unknown_def split: option.split)
  next
    case (Some ns)
    then obtain k where "count_slaves sub (ho_entries host dir) no_slaves = Some k" "sc_total k = length ns"
      "sc_encrypted k = length (filter enc ns)" "sc_unencrypted k = 0"
      using c by auto
    then show ?thesis
      using Some combine_slaves_exact [of k] filter_all_length [of enc ns]
      by (auto simp: slaves_encryption_def encryption_unknown_def split: option.split)
  qed
qed

lemma inspect_layer_exact:
  assumes sub: "\<And>s. fst (sub s) = (if encrypted_device host root n s then encrypted else encryption_state.unknown)"
  shows "fst (inspect_layer host root sub name) =
    (if encrypted_device host root (Suc n) name then encrypted else encryption_state.unknown)"
proof -
  let ?uuid = "ho_read host (root @ ''/'' @ name @ ''/dm/uuid'') 512" and ?dir = "root @ ''/'' @ name @ ''/slaves''"
  let ?stacked = "ho_opendir host ?dir = None \<and> (\<exists>ns. listed_slaves (ho_entries host ?dir) = Some ns \<and> ns \<noteq> [] \<and>
    (\<forall>s\<in>set ns. encrypted_device host root n s))"
  have slaves: "fst (slaves_encryption host ?dir sub) = (if ?stacked then encrypted else encryption_state.unknown)"
    by (rule slaves_exact) (rule sub)
  have dir: "(root @ ''/'' @ name) @ s = root @ ''/'' @ name @ s" for s by simp
  have rule: "encrypted_device host root (Suc n) name \<longleftrightarrow> name \<noteq> [] \<and>
      (case ?uuid of Value u \<Rightarrow> has_prefix ''CRYPT-'' (security_trim u) \<or> ?stacked
       | Unexpected e \<Rightarrow> is_no_such_file e \<and> ?stacked)" (is "?L \<longleftrightarrow> ?R")
  proof
    assume ?L then show ?R by (cases rule: encrypted_device_Suc) (auto split: result.splits)
  next
    assume r: ?R
    show ?L
    proof (cases "\<exists>u. ?uuid = Value u \<and> has_prefix ''CRYPT-'' (security_trim u)")
      case True
      then show ?thesis using r crypt by blast
    next
      case False
      then have st: ?stacked using r by (auto split: result.splits)
      then obtain ns where ns: "listed_slaves (ho_entries host ?dir) = Some ns" "ns \<noteq> []"
        "\<And>s. s \<in> set ns \<Longrightarrow> encrypted_device host root n s" by blast
      show ?thesis
        by (rule stack [OF _ _ _ ns]) (use r False st in \<open>auto split: result.splits\<close>)
    qed
  qed
  show ?thesis
  proof (cases "name = []")
    case True
    then show ?thesis unfolding rule by (simp add: inspect_layer_def encryption_unknown_def)
  next
    case False
    have "fst (inspect_layer host root sub name) = (case ?uuid of
        Value u \<Rightarrow> if has_prefix ''CRYPT-'' (security_trim u) then encrypted else fst (slaves_encryption host ?dir sub)
      | Unexpected e \<Rightarrow> if is_no_such_file e then fst (slaves_encryption host ?dir sub) else encryption_state.unknown)"
      unfolding inspect_layer_def Let_def dir using False dm_uuid_state
      by (simp add: encryption_unknown_def split: result.split)
    then show ?thesis
      unfolding rule slaves using False by (cases ?uuid) simp_all
  qed
qed

lemma inspect_levels_exact:
  "fst (inspect_levels host root n name) =
    (if encrypted_device host root n name then encrypted else encryption_state.unknown)"
proof (induction n arbitrary: name)
  case 0
  then show ?case by (auto simp: encryption_unknown_def elim: encrypted_device_0)
next
  case (Suc n)
  then show ?case using inspect_layer_exact [of "inspect_levels host root n" host root n] by simp
qed

text \<open>
  A block device is reported encrypted exactly when there is evidence within nine layers that
  everything it rests on is encrypted, and unknown otherwise: no answer of the kernel makes the query claim
  that a device is unencrypted or mixed.
\<close>

theorem encryption_evidence:
  "fst (inspect_block_device_encryption host name root) =
    (if encrypted_device host root 9 name then encrypted else encryption_state.unknown)"
  unfolding inspect_block_device_encryption_def by (rule inspect_levels_exact)

section \<open>Mounts\<close>

text \<open>
  The decoder of mount table entries and the one of mount information paths, written separately in the
  two modules, are the same function.
\<close>

theorem mount_decoders_agree: "decode_mount_entry s = unescape_mountinfo_path s"
  by (induction s rule: decode_mount_entry.induct)
    (simp_all add: octal_digit_def is_octal_def octal_value_def octal_u32_def)

text \<open>The entries of a mount table that cover a path, in order.\<close>

definition covering_mounts :: "string \<Rightarrow> string \<Rightarrow> (string \<times> string) list" where
  "covering_mounts mounts target =
     filter (\<lambda>(dev, mnt). mount_covers mnt target) (List.map_filter mount_line (lines_of mounts))"

lemma match_mount_fold:
  "fold (match_mount target) ls (d0, n0) =
   fold (\<lambda>(dev, mnt) best. if length mnt \<ge> snd best then (dev, length mnt) else best)
     (filter (\<lambda>(dev, mnt). mount_covers mnt target) (List.map_filter mount_line ls)) (d0, n0)"
proof (induction ls arbitrary: d0 n0)
  case (Cons l ls)
  show ?case
  proof (cases "mount_line l")
    case None
    then show ?thesis using Cons by (simp add: match_mount_def map_filter_simps)
  next
    case (Some e)
    then show ?thesis using Cons by (cases e) (simp add: match_mount_def map_filter_simps)
  qed
qed (simp add: map_filter_simps)

lemma last_longest:
  "ms \<noteq> [] \<Longrightarrow> \<exists>before dev mnt after. ms = before @ (dev, mnt) # after \<and>
    (\<forall>(d, m)\<in>set before. length m \<le> length mnt) \<and> (\<forall>(d, m)\<in>set after. length m < length mnt) \<and>
    fold (\<lambda>(dev, mnt) best. if length mnt \<ge> snd best then (dev, length mnt) else best) ms ([], 0) =
      (dev, length mnt)" for ms :: "(string \<times> string) list"
proof (induction ms rule: rev_induct)
  case (snoc e ms)
  obtain d m where e: "e = (d, m)" by (cases e)
  show ?case
  proof (cases "ms = []")
    case True
    then show ?thesis
      using e by (intro exI [of _ "[]"] exI [of _ d] exI [of _ m] exI [of _ "[]"]) simp
  next
    case False
    then obtain before dev mnt after where ms: "ms = before @ (dev, mnt) # after"
      "\<forall>(d, m)\<in>set before. length m \<le> length mnt" "\<forall>(d, m)\<in>set after. length m < length mnt"
      "fold (\<lambda>(dev, mnt) best. if length mnt \<ge> snd best then (dev, length mnt) else best) ms ([], 0) =
        (dev, length mnt)" using snoc.IH by blast
    show ?thesis
    proof (cases "length m \<ge> length mnt")
      case True
      then have "\<forall>(d, k)\<in>set ms. length k \<le> length m" using ms(1-3) by fastforce
      then show ?thesis using True ms(4) e by (intro exI [of _ ms] exI [of _ d] exI [of _ m] exI [of _ "[]"]) simp
    next
      case False
      then have "\<forall>(d, k)\<in>set (after @ [e]). length k < length mnt" using ms(3) e by auto
      then show ?thesis
        using False ms e
        by (intro exI [of _ before] exI [of _ dev] exI [of _ mnt] exI [of _ "after @ [e]"]) simp
    qed
  qed
qed simp

text \<open>
  C18. The device of a path is that of the mount entry that covers the path with the longest mount point,
  the last such entry when several mounts are stacked there.
\<close>

theorem matched_device_most_specific:
  assumes "covering_mounts mounts target \<noteq> []"
  shows "\<exists>before dev mnt after. covering_mounts mounts target = before @ (dev, mnt) # after \<and>
    (\<forall>(d, m)\<in>set before. length m \<le> length mnt) \<and> (\<forall>(d, m)\<in>set after. length m < length mnt) \<and>
    (dev \<noteq> [] \<longrightarrow> matched_device mounts target = dev)"
proof -
  obtain before dev mnt after where c: "covering_mounts mounts target = before @ (dev, mnt) # after"
    "\<forall>(d, m)\<in>set before. length m \<le> length mnt" "\<forall>(d, m)\<in>set after. length m < length mnt"
    "fold (\<lambda>(dev, mnt) best. if length mnt \<ge> snd best then (dev, length mnt) else best)
       (covering_mounts mounts target) ([], 0) = (dev, length mnt)"
    using last_longest [OF assms] by blast
  then have "dev \<noteq> [] \<longrightarrow> matched_device mounts target = dev"
    using match_mount_fold [of target "lines_of mounts" "[]" 0]
    by (simp add: matched_device_def covering_mounts_def Let_def)
  with c show ?thesis by blast
qed

theorem matched_device_most_specific_witness:
  "let mounts = concat (map (\<lambda>l. l @ [newline]) [''/dev/sda1 / ext4'', ''/dev/dm-0 /home ext4'', ''/dev/sdb /mnt ext4'']) in
   \<exists>before dev mnt after. covering_mounts mounts ''/home/u'' = before @ (dev, mnt) # after \<and>
    (\<forall>(d, m)\<in>set before. length m \<le> length mnt) \<and> (\<forall>(d, m)\<in>set after. length m < length mnt) \<and>
    (dev \<noteq> [] \<longrightarrow> matched_device mounts ''/home/u'' = dev)"
proof -
  let ?m = "concat (map (\<lambda>l. l @ [newline]) [''/dev/sda1 / ext4'', ''/dev/dm-0 /home ext4'', ''/dev/sdb /mnt ext4''])"
  have "covering_mounts ?m ''/home/u'' \<noteq> []" by code_simp
  from matched_device_most_specific [OF this] show ?thesis by (simp only: Let_def)
qed

end
