(* ===== verification/Wifi.thy ===== *)
theory Wifi
  imports Printer_Text Linux_Files
begin

text \<open>
  The wireless module: the public types (\<open>wifi.hpp\<close>), the shared parsers (\<open>detail/wifi/common.hpp\<close>) and
  the Linux backend (\<open>detail/wifi/linux.hpp\<close>). \<open>trim_whitespace\<close>, \<open>natural_less\<close> and \<open>parse_int\<close> of
  \<open>common.hpp\<close> are token for token the functions of the printer module, whose models are used.

  The answers of the wireless \<open>ioctl\<close> requests are the record \<open>wext\<close>. A frequency is a rational, since
  the \<open>long double\<close> steps of the code are exact for every value that reaches the band test.
\<close>

unbundle bit_operations_syntax

section \<open>Types\<close>

datatype wifi_power_state = unknown | on | off | blocked

datatype wifi_standard = unknown | legacy_802_11 | wifi_4 | wifi_5 | wifi_6 | wifi_6e | wifi_7

datatype frequency_band = unknown | band_2_4_ghz | band_5_ghz | band_6_ghz | band_60_ghz

datatype security_type = unknown | open_network | wep | wpa_personal | wpa_enterprise | wpa2_personal
  | wpa2_enterprise | wpa3_personal | wpa3_enterprise | wpa3_owe

datatype operation_mode = unknown | station | access_point | ad_hoc | mesh

datatype wifi_connection_state = unknown | disconnected | connecting | authenticating | connected

record network_connection =
  nc_ssid :: string
  nc_bssid :: string
  nc_signal_dbm :: "int option"
  nc_signal_quality_percent :: "nat option"
  nc_frequency_mhz :: "nat option"
  nc_channel :: "nat option"
  nc_band :: frequency_band
  nc_standard :: wifi_standard
  nc_security :: security_type
  nc_transmit_rate_mbps :: "nat option"
  nc_receive_rate_mbps :: "nat option"

record wifi_adapter =
  wa_id :: string
  wa_name :: string
  wa_mac_address :: "string option"
  wa_power_state :: wifi_power_state
  wa_mode :: operation_mode
  wa_state :: wifi_connection_state
  wa_connection :: "network_connection option"
  wa_supported_standards :: "wifi_standard list"
  wa_supported_bands :: "frequency_band list"

record configured_network =
  cn_ssid :: string
  cn_adapter_id :: "string option"
  cn_security :: security_type
  cn_auto_connect :: "bool option"
  cn_is_hidden :: "bool option"

definition new_connection :: "string \<Rightarrow> string \<Rightarrow> network_connection" where
  "new_connection ssid bssid = \<lparr>nc_ssid = ssid, nc_bssid = bssid, nc_signal_dbm = None,
     nc_signal_quality_percent = None, nc_frequency_mhz = None, nc_channel = None,
     nc_band = frequency_band.unknown, nc_standard = wifi_standard.unknown,
     nc_security = security_type.unknown, nc_transmit_rate_mbps = None, nc_receive_rate_mbps = None\<rparr>"

definition new_adapter :: "string \<Rightarrow> wifi_adapter" where
  "new_adapter ifname = \<lparr>wa_id = ifname, wa_name = ifname, wa_mac_address = None,
     wa_power_state = wifi_power_state.unknown, wa_mode = operation_mode.unknown,
     wa_state = wifi_connection_state.unknown, wa_connection = None, wa_supported_standards = [],
     wa_supported_bands = []\<rparr>"

section \<open>Addresses\<close>

definition upper_hex_digits :: string where
  "upper_hex_digits = ''0123456789ABCDEF''"

definition mac_byte :: "u8 \<Rightarrow> string" where
  "mac_byte byte =
     [upper_hex_digits ! unat (drop_bit 4 byte AND 0x0F), upper_hex_digits ! unat (byte AND 0x0F)]"

definition format_mac_bytes :: "u8 list \<Rightarrow> string" where
  "format_mac_bytes bytes = concat (map (\<lambda>i. (if i > 0 then '':'' else []) @ mac_byte (bytes ! i)) [0..<6])"

text \<open>One byte of an address, from its two digits at a position.\<close>

definition mac_pair :: "string \<Rightarrow> nat \<Rightarrow> u8 option" where
  "mac_pair raw pos =
     (case (parse_int 8 16 (substr raw pos 1), parse_int 8 16 (substr raw (pos + 1) 1)) of
        (Some hi, Some lo) \<Rightarrow> Some (push_bit 4 (of_nat hi) OR of_nat lo)
      | _ \<Rightarrow> None)"

fun mac_bytes :: "(nat \<Rightarrow> u8 option) \<Rightarrow> nat list \<Rightarrow> u8 list option" where
  "mac_bytes f [] = Some []"
| "mac_bytes f (i # is) =
     (case f i of
        None \<Rightarrow> None
      | Some b \<Rightarrow> map_option ((#) b) (mac_bytes f is))"

definition normalize_mac_address :: "string \<Rightarrow> string option" where
  "normalize_mac_address input =
     (let raw = trim_whitespace input in
      if length raw = 17 \<and> (raw ! 2 = CHR '':'' \<or> raw ! 2 = CHR ''-'') then
        (let sep = raw ! 2 in
         map_option format_mac_bytes
           (mac_bytes (\<lambda>i. if i > 0 \<and> raw ! (i * 3 - 1) \<noteq> sep then None else mac_pair raw (i * 3)) [0..<6]))
      else if length raw = 12 then
        map_option format_mac_bytes (mac_bytes (\<lambda>i. mac_pair raw (i * 2)) [0..<6])
      else None)"

section \<open>Numbers\<close>

text \<open>\<open>parse_signed_int\<close> with a type of \<open>w\<close> bits: \<open>std::from_chars\<close> takes one minus sign.\<close>

definition parse_signed_int :: "nat \<Rightarrow> string \<Rightarrow> int option" where
  "parse_signed_int w input =
     (let t = trim_whitespace input;
          neg = (t \<noteq> [] \<and> hd t = CHR ''-'');
          ds = (if neg then tl t else t);
          v = (if neg then - int (dec_value ds) else int (dec_value ds))
      in
      if ds = [] \<or> \<not> list_all is_digit ds then None
      else if - (2 ^ (w - 1)) \<le> v \<and> v < 2 ^ (w - 1) then Some v
      else None)"

section \<open>Frequencies and signals\<close>

definition frequency_to_band :: "nat \<Rightarrow> frequency_band" where
  "frequency_to_band freq_mhz =
     (if freq_mhz \<ge> 2400 \<and> freq_mhz \<le> 2500 then band_2_4_ghz
      else if freq_mhz \<ge> 4900 \<and> freq_mhz \<le> 5895 then band_5_ghz
      else if freq_mhz \<ge> 5925 \<and> freq_mhz \<le> 7125 then band_6_ghz
      else if freq_mhz \<ge> 57000 \<and> freq_mhz \<le> 71000 then band_60_ghz
      else frequency_band.unknown)"

definition frequency_to_channel :: "nat \<Rightarrow> nat option" where
  "frequency_to_channel freq_mhz =
     (if freq_mhz \<ge> 2412 \<and> freq_mhz \<le> 2472 then
        (if (freq_mhz - 2407) mod 5 = 0 then Some ((freq_mhz - 2407) div 5) else None)
      else if freq_mhz = 2484 then Some 14
      else if freq_mhz \<ge> 5000 \<and> freq_mhz \<le> 5895 then
        (if (freq_mhz - 5000) mod 5 = 0 then Some ((freq_mhz - 5000) div 5) else None)
      else if freq_mhz \<ge> 5955 \<and> freq_mhz \<le> 7115 then
        (if (freq_mhz - 5950) mod 5 = 0 then Some ((freq_mhz - 5950) div 5) else None)
      else None)"

definition rssi_to_quality_percent :: "int \<Rightarrow> nat" where
  "rssi_to_quality_percent rssi_dbm =
     (if rssi_dbm \<le> - 100 then 0 else if rssi_dbm \<ge> - 50 then 100 else nat (2 * (rssi_dbm + 100)))"

fun select_active :: "wifi_adapter list \<Rightarrow> wifi_adapter option \<Rightarrow> wifi_adapter result" where
  "select_active [] selected = (case selected of None \<Rightarrow> fail errc.not_supported | Some a \<Rightarrow> Value a)"
| "select_active (a # as) selected =
     (if wa_state a = wifi_connection_state.connected \<or> wa_connection a \<noteq> None then
        (if selected \<noteq> None then fail errc.not_supported else select_active as (Some a))
      else select_active as selected)"

definition select_default_adapter :: "wifi_adapter list \<Rightarrow> wifi_adapter result" where
  "select_default_adapter adapters =
     (if adapters = [] then fail errc.not_found
      else if length adapters = 1 then Value (hd adapters)
      else select_active adapters None)"

section \<open>Wireless extensions\<close>

text \<open>
  The answers per interface, \<^const>\<open>None\<close> where the request fails: the address bytes; flags, length and
  buffer of the network name; mantissa and exponent of the frequency; the bit rate; the protocol name; the
  mode. \<open>wx_socket\<close> is the error number when no socket can be opened.
\<close>

record wext =
  wx_socket :: "int option"
  wx_ap :: "string \<Rightarrow> u8 list option"
  wx_essid :: "string \<Rightarrow> (u16 \<times> u16 \<times> string) option"
  wx_freq :: "string \<Rightarrow> (int \<times> int) option"
  wx_rate :: "string \<Rightarrow> int option"
  wx_name :: "string \<Rightarrow> string option"
  wx_mode :: "string \<Rightarrow> nat option"

definition is_associated_bssid :: "u8 list \<Rightarrow> bool" where
  "is_associated_bssid bytes \<longleftrightarrow>
     \<not> list_all (\<lambda>i. bytes ! i = 0x00) [0..<6] \<and> \<not> list_all (\<lambda>i. bytes ! i = 0xFF) [0..<6]"

text \<open>The frequency \<open>m * 10^e / 10^6\<close> in whole megahertz.\<close>

definition wext_mhz :: "int \<times> int \<Rightarrow> nat option" where
  "wext_mhz freq =
     (case freq of (m, e) \<Rightarrow>
        let numer = m * 10 ^ nat e; denom = 1000000 * 10 ^ nat (- e) in
        if numer < denom \<or> numer > (2 ^ 32 - 1) * denom then None else Some (nat (numer div denom)))"

definition apply_wext_frequency :: "int \<times> int \<Rightarrow> network_connection \<Rightarrow> network_connection" where
  "apply_wext_frequency freq conn =
     (if snd freq = 0 \<and> fst freq > 0 \<and> fst freq \<le> 233 then conn\<lparr>nc_channel := Some (nat (fst freq))\<rparr>
      else (case wext_mhz freq of
          None \<Rightarrow> conn
        | Some frequency_mhz \<Rightarrow>
            let band = frequency_to_band frequency_mhz in
            if band = frequency_band.unknown then conn
            else conn\<lparr>nc_frequency_mhz := Some frequency_mhz, nc_band := band,
                   nc_channel := frequency_to_channel frequency_mhz\<rparr>))"

definition valid_interface :: "wext \<Rightarrow> string \<Rightarrow> bool" where
  "valid_interface wx ifname \<longleftrightarrow> \<not> (wx_socket wx \<noteq> None \<or> ifname = [] \<or> length ifname \<ge> 16)"

definition wext_ssid :: "(u16 \<times> u16 \<times> string) option \<Rightarrow> string result" where
  "wext_ssid answer =
     (case answer of
        None \<Rightarrow> Value []
      | Some (flags, len, buf) \<Rightarrow>
          if flags = 0 then Value []
          else
            (let raw_ssid = trim_back (\<lambda>c. c = nul) (take (min (unat len) 32) buf) in
             if \<not> is_valid_utf8 raw_ssid then fail errc.invalid_encoding else Value raw_ssid))"

definition protocol_standard :: "string \<Rightarrow> frequency_band \<Rightarrow> wifi_standard" where
  "protocol_standard proto_name band =
     (let has = (\<lambda>s. text_contains s proto_name) in
      if has ''802.11be'' \<or> has ''WiFi 7'' then wifi_7
      else if has ''802.11ax'' \<or> has ''WiFi 6'' then (if band = band_6_ghz then wifi_6e else wifi_6)
      else if has ''802.11ac'' \<or> has ''WiFi 5'' then wifi_5
      else if has ''802.11n'' \<or> has ''WiFi 4'' then wifi_4
      else if has ''802.11'' then legacy_802_11
      else wifi_standard.unknown)"

definition apply_frequency :: "(int \<times> int) option \<Rightarrow> network_connection \<Rightarrow> network_connection" where
  "apply_frequency answer conn = (case answer of None \<Rightarrow> conn | Some f \<Rightarrow> apply_wext_frequency f conn)"

definition apply_rate :: "int option \<Rightarrow> network_connection \<Rightarrow> network_connection" where
  "apply_rate answer conn =
     (case answer of
        None \<Rightarrow> conn
      | Some v \<Rightarrow> if v > 0 then conn\<lparr>nc_transmit_rate_mbps := Some (nat (v div 1000000))\<rparr> else conn)"

definition apply_protocol :: "string option \<Rightarrow> network_connection \<Rightarrow> network_connection" where
  "apply_protocol answer conn =
     (case answer of
        None \<Rightarrow> conn
      | Some name \<Rightarrow>
          conn\<lparr>nc_standard := protocol_standard (takeWhile (\<lambda>c. c \<noteq> nul) (take 15 name)) (nc_band conn)\<rparr>)"

definition query_wext_connection :: "wext \<Rightarrow> string \<Rightarrow> network_connection option result" where
  "query_wext_connection wx ifname =
     (if \<not> valid_interface wx ifname then fail errc.invalid_argument
      else (case wx_ap wx ifname of
          None \<Rightarrow> Value None
        | Some raw_bssid \<Rightarrow>
            if \<not> is_associated_bssid raw_bssid then Value None
            else and_then (wext_ssid (wx_essid wx ifname)) (\<lambda>ssid.
              Value (Some (apply_protocol (wx_name wx ifname) (apply_rate (wx_rate wx ifname)
                (apply_frequency (wx_freq wx ifname) (new_connection ssid (format_mac_bytes raw_bssid)))))))))"

definition query_wext_mode :: "wext \<Rightarrow> string \<Rightarrow> operation_mode" where
  "query_wext_mode wx ifname =
     (if \<not> valid_interface wx ifname then operation_mode.unknown
      else (case wx_mode wx ifname of
          None \<Rightarrow> operation_mode.unknown
        | Some n \<Rightarrow>
            if n = 2 then station
            else if n = 3 then access_point
            else if n = 1 then ad_hoc
            else if n = 7 then mesh
            else operation_mode.unknown))"

section \<open>Sysfs and procfs\<close>

definition read_sysfs_string :: "host \<Rightarrow> string \<Rightarrow> string option result" where
  "read_sysfs_string host path =
     (case ho_read host path 4096 of
        Unexpected e \<Rightarrow> if is_no_such_file e \<or> is_not_a_directory e then Value None else Unexpected e
      | Value content \<Rightarrow>
          (let trimmed = trim_whitespace (trim_line_end content) in
           if trimmed = [] then Value None
           else if \<not> is_valid_utf8 trimmed then fail errc.invalid_encoding
           else Value (Some trimmed)))"

definition is_wireless_interface :: "host \<Rightarrow> string \<Rightarrow> bool" where
  "is_wireless_interface host ifname =
     (let net_dir = ''/sys/class/net/'' @ ifname in
      if ho_stat host (net_dir @ ''/wireless'') = Directory then True
      else (case ho_stat host (net_dir @ ''/phy80211'') of Stat_error e \<Rightarrow> False | _ \<Rightarrow> True))"

fun rfkill_entries :: "host \<Rightarrow> string \<Rightarrow> directory_event list \<Rightarrow> wifi_power_state result" where
  "rfkill_entries host directory_path [] = Value wifi_power_state.unknown"
| "rfkill_entries host directory_path (Readdir_error e # es) =
     (if e \<noteq> 0 then fail_errno e else Value wifi_power_state.unknown)"
| "rfkill_entries host directory_path (Entry name # es) =
     (if length name < 6 \<or> take 6 name \<noteq> ''rfkill'' then rfkill_entries host directory_path es
      else
        (let path = directory_path @ ''/'' @ name in
         and_then (read_sysfs_string host (path @ ''/hard'')) (\<lambda>hard.
         and_then (read_sysfs_string host (path @ ''/soft'')) (\<lambda>soft.
           if hard = Some ''1'' \<or> soft = Some ''1'' then Value wifi_power_state.blocked
           else rfkill_entries host directory_path es))))"

definition read_rfkill_directory :: "host \<Rightarrow> string \<Rightarrow> wifi_power_state result" where
  "read_rfkill_directory host directory_path =
     (case ho_opendir host directory_path of
        Some e \<Rightarrow> if e = ENOENT \<or> e = ENOTDIR then Value wifi_power_state.unknown else fail_errno e
      | None \<Rightarrow> rfkill_entries host directory_path (ho_entries host directory_path))"

definition query_rfkill_state :: "host \<Rightarrow> string \<Rightarrow> string \<Rightarrow> wifi_power_state result" where
  "query_rfkill_state host ifname net_root =
     (let net_dir = net_root @ ''/'' @ ifname in
      and_then (read_rfkill_directory host net_dir) (\<lambda>direct.
        if direct \<noteq> wifi_power_state.unknown then Value direct
        else read_rfkill_directory host (net_dir @ ''/phy80211'')))"

record wireless_proc_entry =
  wp_interface_name :: string
  wp_status :: nat
  wp_link_quality :: "nat option"
  wp_signal_dbm :: "int option"
  wp_noise_dbm :: "int option"

definition without_dots :: "string \<Rightarrow> string" where
  "without_dots tok = trim_back (\<lambda>c. c = CHR ''.'') tok"

definition wireless_line :: "string \<Rightarrow> wireless_proc_entry option" where
  "wireless_line raw =
     (let line = trim_whitespace raw in
      if line = [] then None
      else (case find_from (CHR '':'') line 0 of
          None \<Rightarrow> None
        | Some colon_pos \<Rightarrow>
            (let tokens = tokens_of printer_space (trim_whitespace (drop (colon_pos + 1) line)) in
             Some \<lparr>wp_interface_name = trim_whitespace (take colon_pos line),
               wp_status = (if tokens \<noteq> [] then (case parse_int 16 16 (tokens ! 0) of Some st \<Rightarrow> st | None \<Rightarrow> 0) else 0),
               wp_link_quality = (if length tokens \<ge> 2 then parse_int 8 10 (without_dots (tokens ! 1)) else None),
               wp_signal_dbm = (if length tokens \<ge> 3 then parse_signed_int 16 (without_dots (tokens ! 2)) else None),
               wp_noise_dbm = (if length tokens \<ge> 4 then parse_signed_int 16 (without_dots (tokens ! 3)) else None)\<rparr>)))"

definition parse_proc_net_wireless_text :: "string \<Rightarrow> wireless_proc_entry list" where
  "parse_proc_net_wireless_text content = List.map_filter wireless_line (drop 2 (lines_of content))"

definition read_proc_net_wireless :: "host \<Rightarrow> wireless_proc_entry list" where
  "read_proc_net_wireless host =
     (case ho_read host ''/proc/net/wireless'' 4096 of
        Unexpected e \<Rightarrow> []
      | Value content \<Rightarrow> parse_proc_net_wireless_text content)"

text \<open>The first entry of the interface counts; a signal outside -127 to 0 dBm is left out.\<close>

fun enrich_signal :: "string \<Rightarrow> wireless_proc_entry list \<Rightarrow> network_connection \<Rightarrow> network_connection" where
  "enrich_signal ifname [] conn = conn"
| "enrich_signal ifname (p # ps) conn =
     (if wp_interface_name p = ifname then
        (case wp_signal_dbm p of
           None \<Rightarrow> conn
         | Some signal \<Rightarrow>
             if signal \<ge> - 127 \<and> signal \<le> 0
             then conn\<lparr>nc_signal_dbm := Some signal,
                    nc_signal_quality_percent := Some (rssi_to_quality_percent signal)\<rparr>
             else conn)
      else enrich_signal ifname ps conn)"

section \<open>Adapters\<close>

definition wireless_name :: "host \<Rightarrow> string \<Rightarrow> string list \<Rightarrow> string list result" where
  "wireless_name host name ifnames =
     Value (if is_wireless_interface host name then ifnames @ [name] else ifnames)"

definition adapter_mac :: "host \<Rightarrow> string \<Rightarrow> wifi_adapter \<Rightarrow> wifi_adapter result" where
  "adapter_mac host net_dir info =
     and_then (read_sysfs_string host (net_dir @ ''/address'')) (\<lambda>mac_str.
       case mac_str of
         None \<Rightarrow> Value info
       | Some s \<Rightarrow> (case normalize_mac_address s of
             None \<Rightarrow> fail errc.malformed_data
           | Some mac \<Rightarrow> Value (info\<lparr>wa_mac_address := Some mac\<rparr>)))"

definition adapter_operstate :: "host \<Rightarrow> string \<Rightarrow> wifi_adapter \<Rightarrow> wifi_adapter result" where
  "adapter_operstate host net_dir info =
     and_then (read_sysfs_string host (net_dir @ ''/operstate'')) (\<lambda>oper.
       Value (if oper = Some ''down'' then info\<lparr>wa_state := wifi_connection_state.disconnected\<rparr>
              else if oper = Some ''dormant'' \<or> oper = Some ''testing''
                then info\<lparr>wa_state := wifi_connection_state.connecting\<rparr>
              else info))"

definition adapter_connection ::
    "wext \<Rightarrow> wireless_proc_entry list \<Rightarrow> string \<Rightarrow> wifi_adapter \<Rightarrow> wifi_adapter result" where
  "adapter_connection wx proc_wireless ifname info =
     and_then (query_wext_connection wx ifname) (\<lambda>conn.
       case conn of
         None \<Rightarrow> Value info
       | Some c \<Rightarrow>
           Value (info\<lparr>wa_connection := Some (enrich_signal ifname proc_wireless c),
             wa_state := wifi_connection_state.connected,
             wa_power_state := (if wa_power_state info = wifi_power_state.unknown then wifi_power_state.on
                                else wa_power_state info)\<rparr>))"

definition inspect_adapter ::
    "host \<Rightarrow> wext \<Rightarrow> wireless_proc_entry list \<Rightarrow> string \<Rightarrow> wifi_adapter result" where
  "inspect_adapter host wx proc_wireless ifname =
     (let net_dir = ''/sys/class/net/'' @ ifname in
      and_then (adapter_mac host net_dir (new_adapter ifname)) (\<lambda>info.
      and_then (adapter_operstate host net_dir info) (\<lambda>info.
      and_then (query_rfkill_state host ifname ''/sys/class/net'') (\<lambda>power.
        let info = info\<lparr>wa_power_state := power\<rparr> in
        if wx_socket wx = None
        then adapter_connection wx proc_wireless ifname (info\<lparr>wa_mode := query_wext_mode wx ifname\<rparr>)
        else Value info))))"

fun each_result :: "('a \<Rightarrow> 'b result) \<Rightarrow> 'a list \<Rightarrow> 'b list result" where
  "each_result f [] = Value []"
| "each_result f (x # xs) = and_then (f x) (\<lambda>y. and_then (each_result f xs) (\<lambda>ys. Value (y # ys)))"

definition wifi_adapters :: "bool \<Rightarrow> host \<Rightarrow> wext \<Rightarrow> wifi_adapter list result" where
  "wifi_adapters char_signed host wx =
     (case ho_opendir host ''/sys/class/net'' of
        Some e \<Rightarrow> fail_errno e
      | None \<Rightarrow>
          and_then (each_entry (wireless_name host) (ho_entries host ''/sys/class/net'') []) (\<lambda>ifnames.
            each_result (inspect_adapter host wx (read_proc_net_wireless host))
              (std_sort (natural_less char_signed) ifnames)))"

definition wifi_adapter_count :: "bool \<Rightarrow> host \<Rightarrow> wext \<Rightarrow> nat result" where
  "wifi_adapter_count char_signed host wx = and_then (wifi_adapters char_signed host wx) (\<lambda>l. Value (length l))"

definition wifi_default_adapter :: "bool \<Rightarrow> host \<Rightarrow> wext \<Rightarrow> wifi_adapter result" where
  "wifi_default_adapter char_signed host wx = and_then (wifi_adapters char_signed host wx) select_default_adapter"

definition current_connection :: "bool \<Rightarrow> host \<Rightarrow> wext \<Rightarrow> string \<Rightarrow> network_connection option result" where
  "current_connection char_signed host wx adapter_id =
     (case wx_socket wx of
        Some e \<Rightarrow> fail_errno e
      | None \<Rightarrow>
          and_then (if adapter_id = [] then
                      and_then (wifi_default_adapter char_signed host wx) (\<lambda>def. Value (wa_id def))
                    else Value adapter_id) (\<lambda>target_id.
            if \<not> is_wireless_interface host target_id then fail errc.not_found
            else and_then (query_wext_connection wx target_id) (\<lambda>conn.
              Value (map_option (enrich_signal target_id (read_proc_net_wireless host)) conn))))"

section \<open>Configured networks\<close>

text \<open>The byte list of a network name, if the text is one: \<^const>\<open>None\<close> clears \<open>decimal_list\<close>.\<close>

fun decimal_bytes :: "string list \<Rightarrow> string option" where
  "decimal_bytes [] = Some []"
| "decimal_bytes (raw # rest) =
     (let token = trim_whitespace raw in
      if token = [] then decimal_bytes rest
      else (case parse_int 8 10 token of
          None \<Rightarrow> None
        | Some byte \<Rightarrow> map_option ((#) (char_of byte)) (decimal_bytes rest)))"

fun unescape_nm :: "string \<Rightarrow> string result" where
  "unescape_nm [] = Value []"
| "unescape_nm (c # s) =
     (if c \<noteq> backslash then and_then (unescape_nm s) (\<lambda>t. Value (c # t))
      else (case s of
          [] \<Rightarrow> fail errc.malformed_data
        | e # s' \<Rightarrow>
            (let out = (if e = CHR ''s'' then Some (CHR '' '')
                        else if e = CHR ''n'' then Some newline
                        else if e = CHR ''t'' then Some tab
                        else if e = CHR ''r'' then Some carriage_return
                        else if e = backslash \<or> e = CHR '';'' \<or> e = CHR '','' then Some e
                        else None)
             in case out of
                  None \<Rightarrow> fail errc.malformed_data
                | Some d \<Rightarrow> and_then (unescape_nm s') (\<lambda>t. Value (d # t)))))"

definition decode_network_manager_string :: "string \<Rightarrow> string result" where
  "decode_network_manager_string value =
     (case (if value \<noteq> [] \<and> last value = CHR '';'' then decimal_bytes (pieces_of (CHR '';'') value) else None) of
        Some bytes \<Rightarrow> if \<not> is_valid_utf8 bytes then fail errc.invalid_encoding else Value bytes
      | None \<Rightarrow>
          and_then (unescape_nm value) (\<lambda>decoded.
            if \<not> is_valid_utf8 decoded then fail errc.invalid_encoding else Value decoded))"

definition parse_network_manager_bool :: "string \<Rightarrow> bool result" where
  "parse_network_manager_bool value =
     (if value = ''true'' \<or> value = ''yes'' \<or> value = ''on'' \<or> value = ''1'' then Value True
      else if value = ''false'' \<or> value = ''no'' \<or> value = ''off'' \<or> value = ''0'' then Value False
      else fail errc.malformed_data)"

record nm_state =
  nm_ssid :: string
  nm_section :: string
  nm_autoconnect :: "bool option"
  nm_hidden :: "bool option"
  nm_has_wifi_security :: bool
  nm_has_wep_key :: bool
  nm_key_management :: string
  nm_allows_wpa :: bool
  nm_allows_rsn :: bool

definition nm_start :: nm_state where
  "nm_start = \<lparr>nm_ssid = [], nm_section = [], nm_autoconnect = None, nm_hidden = None,
     nm_has_wifi_security = False, nm_has_wep_key = False, nm_key_management = [], nm_allows_wpa = False,
     nm_allows_rsn = False\<rparr>"

definition wifi_section :: "string \<Rightarrow> bool" where
  "wifi_section s \<longleftrightarrow> s = ''wifi'' \<or> s = ''802-11-wireless''"

definition security_section :: "string \<Rightarrow> bool" where
  "security_section s \<longleftrightarrow> s = ''wifi-security'' \<or> s = ''802-11-wireless-security''"

definition is_wep_key :: "string \<Rightarrow> bool" where
  "is_wep_key key \<longleftrightarrow>
     length key = 8 \<and> substr key 0 7 = ''wep-key'' \<and> 48 \<le> uchar (key ! 7) \<and> uchar (key ! 7) \<le> 51"

definition nm_field :: "string \<Rightarrow> string \<Rightarrow> nm_state \<Rightarrow> nm_state result" where
  "nm_field key val st =
     (let sec = nm_section st in
      if key = ''ssid'' \<and> wifi_section sec then
        and_then (decode_network_manager_string val) (\<lambda>s. Value (st\<lparr>nm_ssid := s\<rparr>))
      else if (key = ''key-mgmt'' \<or> key = ''key_mgmt'') \<and> security_section sec then
        Value (st\<lparr>nm_has_wifi_security := True, nm_key_management := val\<rparr>)
      else if key = ''proto'' \<and> security_section sec then
        Value (st\<lparr>nm_allows_wpa := text_contains ''wpa'' val, nm_allows_rsn := text_contains ''rsn'' val\<rparr>)
      else if is_wep_key key \<and> security_section sec then Value (st\<lparr>nm_has_wep_key := True\<rparr>)
      else if key = ''autoconnect'' \<and> sec = ''connection'' then
        and_then (parse_network_manager_bool val) (\<lambda>b. Value (st\<lparr>nm_autoconnect := Some b\<rparr>))
      else if key = ''hidden'' \<and> wifi_section sec then
        and_then (parse_network_manager_bool val) (\<lambda>b. Value (st\<lparr>nm_hidden := Some b\<rparr>))
      else Value st)"

definition nm_line :: "string \<Rightarrow> nm_state \<Rightarrow> nm_state result" where
  "nm_line raw st =
     (let line = trim_whitespace raw in
      if line = [] \<or> hd line = CHR ''#'' \<or> hd line = CHR '';'' then Value st
      else if hd line = CHR ''['' \<and> last line = CHR '']''
        then Value (st\<lparr>nm_section := substr line 1 (length line - 2)\<rparr>)
      else (case find_from (CHR ''='') line 0 of
          None \<Rightarrow> Value st
        | Some eq_pos \<Rightarrow>
            nm_field (trim_whitespace (take eq_pos line)) (trim_whitespace (drop (eq_pos + 1) line)) st))"

fun nm_lines :: "string list \<Rightarrow> nm_state \<Rightarrow> nm_state result" where
  "nm_lines [] st = Value st"
| "nm_lines (l # ls) st = and_then (nm_line l st) (nm_lines ls)"

definition nm_security :: "nm_state \<Rightarrow> security_type" where
  "nm_security st =
     (let k = nm_key_management st; wpa = nm_allows_wpa st; rsn = nm_allows_rsn st in
      if \<not> nm_has_wifi_security st then open_network
      else if k = ''sae'' \<or> k = ''SAE'' then wpa3_personal
      else if k = ''owe'' \<or> k = ''OWE'' then wpa3_owe
      else if k = ''wpa-eap-suite-b-192'' \<or> k = ''WPA-EAP-SUITE-B-192'' then wpa3_enterprise
      else if k = ''none'' \<or> k = ''NONE'' then (if nm_has_wep_key st then wep else open_network)
      else if k = ''ieee8021x'' \<or> k = ''IEEE8021X'' then wep
      else if k = ''wpa-psk'' \<or> k = ''WPA-PSK'' then
        (if wpa \<noteq> rsn then (if wpa then wpa_personal else wpa2_personal) else security_type.unknown)
      else if k = ''wpa-eap'' \<or> k = ''WPA-EAP'' then
        (if wpa \<noteq> rsn then (if wpa then wpa_enterprise else wpa2_enterprise) else security_type.unknown)
      else security_type.unknown)"

definition nm_network :: "nm_state \<Rightarrow> configured_network option" where
  "nm_network st =
     (if nm_ssid st = [] then None
      else Some \<lparr>cn_ssid = nm_ssid st, cn_adapter_id = None, cn_security = nm_security st,
        cn_auto_connect = nm_autoconnect st, cn_is_hidden = nm_hidden st\<rparr>)"

definition parse_network_manager_profile :: "string \<Rightarrow> configured_network option result" where
  "parse_network_manager_profile content =
     and_then (nm_lines (lines_of content) nm_start) (\<lambda>st. Value (nm_network st))"

fun hex_pairs :: "string \<Rightarrow> string result" where
  "hex_pairs (a # b # s) =
     (case parse_int 8 16 [a, b] of
        None \<Rightarrow> fail errc.malformed_data
      | Some v \<Rightarrow> and_then (hex_pairs s) (\<lambda>t. Value (char_of v # t)))"
| "hex_pairs _ = Value []"

definition decode_iwd_ssid :: "string \<Rightarrow> string result" where
  "decode_iwd_ssid encoded =
     (if encoded \<noteq> [] \<and> hd encoded = CHR ''='' then
        (let hex = tl encoded in
         if hex = [] \<or> length hex mod 2 \<noteq> 0 then fail errc.malformed_data
         else and_then (hex_pairs hex) (\<lambda>decoded.
           if \<not> is_valid_utf8 decoded then fail errc.invalid_encoding else Value decoded))
      else if \<not> is_valid_utf8 encoded then fail errc.invalid_encoding
      else Value encoded)"

definition nm_dir_path :: string where
  "nm_dir_path = ''/etc/NetworkManager/system-connections''"

definition nm_profile_entry ::
    "host \<Rightarrow> string \<Rightarrow> configured_network list \<Rightarrow> configured_network list result" where
  "nm_profile_entry host name profiles =
     and_then (ho_read host (nm_dir_path @ ''/'' @ name) 16384) (\<lambda>file_content.
     and_then (parse_network_manager_profile file_content) (\<lambda>profile.
       Value (case profile of None \<Rightarrow> profiles | Some p \<Rightarrow> profiles @ [p])))"

text \<open>\<open>name.size() > n && name.substr(name.size() - n) == suffix\<close>.\<close>

definition ends_after :: "string \<Rightarrow> string \<Rightarrow> bool" where
  "ends_after suf name \<longleftrightarrow> length name > length suf \<and> drop (length name - length suf) name = suf"

definition iwd_profile_entry ::
    "string \<Rightarrow> configured_network list \<Rightarrow> configured_network list result" where
  "iwd_profile_entry name profiles =
     (let (suffix_size, security) =
        (if ends_after ''.psk'' name then (4, security_type.unknown)
         else if ends_after ''.open'' name then (5, open_network)
         else if ends_after ''.8021x'' name then (6, security_type.unknown)
         else (0, security_type.unknown))
      in
      if suffix_size \<noteq> 0 then
        and_then (decode_iwd_ssid (take (length name - suffix_size) name)) (\<lambda>ssid.
          Value (profiles @ [\<lparr>cn_ssid = ssid, cn_adapter_id = None, cn_security = security,
            cn_auto_connect = None, cn_is_hidden = None\<rparr>]))
      else Value profiles)"

definition profile_directory ::
    "host \<Rightarrow> string \<Rightarrow> (string \<Rightarrow> 's \<Rightarrow> 's result) \<Rightarrow> 's \<Rightarrow> 's result" where
  "profile_directory host path body profiles =
     (case ho_opendir host path of
        Some e \<Rightarrow> if e \<noteq> ENOENT \<and> e \<noteq> ENOTDIR then fail_errno e else Value profiles
      | None \<Rightarrow> each_entry body (ho_entries host path) profiles)"

definition configured_networks :: "host \<Rightarrow> configured_network list result" where
  "configured_networks host =
     and_then (profile_directory host nm_dir_path (nm_profile_entry host) [])
       (profile_directory host ''/var/lib/iwd'' iwd_profile_entry)"

end
