(* ===== verification/Bluetooth.thy ===== *)
theory Bluetooth
  imports Wifi
begin

text \<open>
  The Bluetooth module: the public types (\<open>bluetooth.hpp\<close>), the shared parsers
  (\<open>detail/bluetooth/common.hpp\<close>) and the Linux backend (\<open>detail/bluetooth/linux.hpp\<close>).
  \<open>trim_whitespace\<close>, \<open>natural_less\<close> and \<open>parse_int\<close> of \<open>common.hpp\<close> and \<open>read_sysfs_string\<close> of the
  backend are those of the printer and the wireless module. The answers of the controller socket are the
  record \<open>hci\<close>.
\<close>

unbundle bit_operations_syntax

section \<open>Types\<close>

datatype bt_power_state = unknown | on | off | blocked

datatype adapter_bus_type = unknown | built_in | usb | pci | uart | sdio | virtual_bus

datatype major_device_class = unknown | computer | phone | audio_video | peripheral | imaging | wearable
  | toy | health | network_access_point | miscellaneous

record bt_adapter =
  ba_id :: string
  ba_name :: string
  ba_address :: "string option"
  ba_power_state :: bt_power_state
  ba_bus :: adapter_bus_type
  ba_is_discoverable :: "bool option"
  ba_is_connectable :: "bool option"
  ba_hci_version :: "u8 option"
  ba_hci_revision :: "u16 option"
  ba_lmp_version :: "u8 option"
  ba_lmp_subversion :: "u16 option"
  ba_manufacturer_id :: "u16 option"

record bt_device =
  bd_name :: "string option"
  bd_address :: string
  bd_adapter_id :: "string option"
  bd_device_type :: major_device_class
  bd_is_connected :: "bool option"
  bd_is_paired :: "bool option"
  bd_is_trusted :: "bool option"
  bd_is_blocked :: "bool option"
  bd_class_of_device :: "u32 option"
  bd_rssi_dbm :: "int option"
  bd_battery_percentage :: "u8 option"

definition new_bt_adapter :: "string \<Rightarrow> bt_adapter" where
  "new_bt_adapter name = \<lparr>ba_id = name, ba_name = [], ba_address = None,
     ba_power_state = bt_power_state.unknown, ba_bus = adapter_bus_type.unknown, ba_is_discoverable = None,
     ba_is_connectable = None, ba_hci_version = None, ba_hci_revision = None, ba_lmp_version = None,
     ba_lmp_subversion = None, ba_manufacturer_id = None\<rparr>"

definition new_bt_device :: "string \<Rightarrow> bt_device" where
  "new_bt_device address = \<lparr>bd_name = None, bd_address = address, bd_adapter_id = None,
     bd_device_type = major_device_class.unknown, bd_is_connected = None, bd_is_paired = None,
     bd_is_trusted = None, bd_is_blocked = None, bd_class_of_device = None, bd_rssi_dbm = None,
     bd_battery_percentage = None\<rparr>"

section \<open>Addresses and classes\<close>

definition std_toupper :: "char \<Rightarrow> char" where
  "std_toupper c = (if 97 \<le> uchar c \<and> uchar c \<le> 122 then char_of (uchar c - 32) else c)"

text \<open>The digits of an address: \<^const>\<open>None\<close> at a character that is neither digit nor separator.\<close>

fun address_digits :: "string \<Rightarrow> string option" where
  "address_digits [] = Some []"
| "address_digits (c # s) =
     (if base_digit 16 c then map_option ((#) (std_toupper c)) (address_digits s)
      else if c \<noteq> CHR '':'' \<and> c \<noteq> CHR ''-'' \<and> c \<noteq> CHR ''.'' then None
      else address_digits s)"

definition bt_normalize_mac_address :: "string \<Rightarrow> string option" where
  "bt_normalize_mac_address input =
     (case address_digits (trim_whitespace input) of
        None \<Rightarrow> None
      | Some hex \<Rightarrow>
          if length hex \<noteq> 12 then None
          else Some (concat (map (\<lambda>i. (if i > 0 then '':'' else []) @ [hex ! (2 * i), hex ! (2 * i + 1)]) [0..<6])))"

definition bt_format_mac_bytes :: "u8 list \<Rightarrow> bool \<Rightarrow> string" where
  "bt_format_mac_bytes bytes little_endian =
     concat (map (\<lambda>i. (if i > 0 then '':'' else []) @ mac_byte (bytes ! (if little_endian then 5 - i else i))) [0..<6])"

definition decode_major_device_class :: "u32 \<Rightarrow> major_device_class" where
  "decode_major_device_class class_of_device =
     (let major = drop_bit 8 class_of_device AND 0x1F in
      if major = 0x00 then miscellaneous
      else if major = 0x01 then computer
      else if major = 0x02 then phone
      else if major = 0x03 then network_access_point
      else if major = 0x04 then audio_video
      else if major = 0x05 then peripheral
      else if major = 0x06 then imaging
      else if major = 0x07 then wearable
      else if major = 0x08 then toy
      else if major = 0x09 then health
      else major_device_class.unknown)"

section \<open>Adapters\<close>

text \<open>
  Controller answers: name bytes, address bytes and flags of a device, \<^const>\<open>None\<close> where the request
  fails; for the connection list, the sequence of answers, an error number or the count and the addresses.
\<close>

datatype conn_answer = Conn_error int | Conn_list u16 "u8 list list"

record hci =
  hc_socket :: "int option"
  hc_info :: "u16 \<Rightarrow> (string \<times> u8 list \<times> u32) option"
  hc_connections :: "u16 \<Rightarrow> conn_answer list"

definition read_sysfs_int :: "host \<Rightarrow> string \<Rightarrow> int option result" where
  "read_sysfs_int host path =
     and_then (read_sysfs_string host path) (\<lambda>str.
       case str of
         None \<Rightarrow> Value None
       | Some s \<Rightarrow> (case parse_signed_int 32 s of None \<Rightarrow> fail errc.malformed_data | Some v \<Rightarrow> Value (Some v)))"

definition detect_bus_type :: "host \<Rightarrow> string \<Rightarrow> adapter_bus_type" where
  "detect_bus_type host adapter_dir =
     (case ho_readlink host (adapter_dir @ ''/device/subsystem'') 1023 of
        None \<Rightarrow> adapter_bus_type.unknown
      | Some target \<Rightarrow>
          (let has = (\<lambda>s. text_contains s target) in
           if target = [] then adapter_bus_type.unknown
           else if has ''usb'' then usb
           else if has ''pci'' then pci
           else if has ''sdio'' then sdio
           else if has ''serial'' \<or> has ''tty'' \<or> has ''uart'' then uart
           else if has ''platform'' \<or> has ''amba'' then built_in
           else if has ''virtio'' \<or> has ''vhci'' then virtual_bus
           else adapter_bus_type.unknown))"

text \<open>Whether one switch blocks the radio; the soft value is read first.\<close>

definition rfkill_blocks :: "host \<Rightarrow> string \<Rightarrow> bool result" where
  "rfkill_blocks host rf_path =
     (let soft_res = read_sysfs_int host (rf_path @ ''/soft'');
          hard_res = read_sysfs_int host (rf_path @ ''/hard'')
      in and_then soft_res (\<lambda>soft. and_then hard_res (\<lambda>hard.
           Value ((soft \<noteq> None \<or> hard \<noteq> None) \<and> (soft = Some 1 \<or> hard = Some 1)))))"

text \<open>\<open>Value True\<close>: the search ends with a blocked radio.\<close>

fun adapter_rfkill :: "host \<Rightarrow> string \<Rightarrow> directory_event list \<Rightarrow> bool result" where
  "adapter_rfkill host adapter_dir [] = Value False"
| "adapter_rfkill host adapter_dir (Readdir_error e # es) = (if e \<noteq> 0 then fail_errno e else Value False)"
| "adapter_rfkill host adapter_dir (Entry name # es) =
     (if take 6 name = ''rfkill'' then
        and_then (rfkill_blocks host (adapter_dir @ ''/'' @ name)) (\<lambda>blocks.
          if blocks then Value True else adapter_rfkill host adapter_dir es)
      else adapter_rfkill host adapter_dir es)"

fun system_rfkill :: "host \<Rightarrow> string \<Rightarrow> string \<Rightarrow> directory_event list \<Rightarrow> bool result" where
  "system_rfkill host adapter_id rfkill_root [] = Value False"
| "system_rfkill host adapter_id rfkill_root (Readdir_error e # es) =
     (if e \<noteq> 0 then fail_errno e else Value False)"
| "system_rfkill host adapter_id rfkill_root (Entry name # es) =
     (if hidden name then system_rfkill host adapter_id rfkill_root es
      else
        (let rf_path = rfkill_root @ ''/'' @ name;
             name_res = read_sysfs_string host (rf_path @ ''/name'');
             type_res = read_sysfs_string host (rf_path @ ''/type'')
         in and_then name_res (\<lambda>n. and_then type_res (\<lambda>t.
              if n = Some adapter_id \<and> t = Some ''bluetooth'' then
                and_then (rfkill_blocks host rf_path) (\<lambda>blocks.
                  if blocks then Value True else system_rfkill host adapter_id rfkill_root es)
              else system_rfkill host adapter_id rfkill_root es))))"

definition open_entries :: "host \<Rightarrow> string \<Rightarrow> (directory_event list \<Rightarrow> bool result) \<Rightarrow> bool result" where
  "open_entries host path f = (case ho_opendir host path of Some e \<Rightarrow> Value False | None \<Rightarrow> f (ho_entries host path))"

definition detect_rfkill_state :: "host \<Rightarrow> string \<Rightarrow> string \<Rightarrow> string \<Rightarrow> bt_power_state result" where
  "detect_rfkill_state host adapter_id adapter_dir rfkill_root =
     and_then (open_entries host adapter_dir (adapter_rfkill host adapter_dir)) (\<lambda>blocked_here.
       if blocked_here then Value bt_power_state.blocked
       else and_then (open_entries host rfkill_root (system_rfkill host adapter_id rfkill_root)) (\<lambda>blocked_there.
         Value (if blocked_there then bt_power_state.blocked else bt_power_state.unknown)))"

definition apply_hci_flags :: "u32 \<Rightarrow> bt_adapter \<Rightarrow> bt_adapter" where
  "apply_hci_flags flags info =
     info\<lparr>ba_power_state :=
            (if ba_power_state info \<noteq> bt_power_state.blocked
             then (if flags AND push_bit 0 1 \<noteq> 0 then bt_power_state.on else bt_power_state.off)
             else ba_power_state info),
          ba_is_connectable := Some (flags AND push_bit 3 1 \<noteq> 0),
          ba_is_discoverable := Some (flags AND push_bit 4 1 \<noteq> 0)\<rparr>"

definition query_hci_ioctl :: "hci \<Rightarrow> int \<Rightarrow> bt_adapter \<Rightarrow> bt_adapter" where
  "query_hci_ioctl hc dev_id info =
     (if hc_socket hc \<noteq> None then info
      else (case hc_info hc (of_int dev_id) of
          None \<Rightarrow> info
        | Some (name, bdaddr, flags) \<Rightarrow>
            let dname = takeWhile (\<lambda>c. c \<noteq> nul) (take 8 name) in
            apply_hci_flags flags
              (info\<lparr>ba_address := (if ba_address info = None then Some (bt_format_mac_bytes bdaddr True)
                                   else ba_address info),
                    ba_name := (if ba_name info = [] \<and> dname \<noteq> [] \<and> is_valid_utf8 dname then dname
                                else ba_name info)\<rparr>)))"

text \<open>A directory of the module: absent, refused or failing.\<close>

definition bt_directory :: "host \<Rightarrow> string \<Rightarrow> 'a result \<Rightarrow> (directory_event list \<Rightarrow> 'a result) \<Rightarrow> 'a result" where
  "bt_directory host path absent f =
     (case ho_opendir host path of
        Some e \<Rightarrow>
          if e = ENOENT then absent
          else if e = EACCES \<or> e = EPERM then fail errc.permission_denied
          else fail_errno e
      | None \<Rightarrow> f (ho_entries host path))"

fun shown_entries :: "(string \<Rightarrow> 's \<Rightarrow> 's result) \<Rightarrow> directory_event list \<Rightarrow> 's \<Rightarrow> 's result" where
  "shown_entries body [] s = Value s"
| "shown_entries body (Readdir_error e # es) s = (if e \<noteq> 0 then fail_errno e else Value s)"
| "shown_entries body (Entry name # es) s =
     (if hidden name then shown_entries body es s else and_then (body name s) (shown_entries body es))"

definition hci_name :: "string \<Rightarrow> string list \<Rightarrow> string list result" where
  "hci_name name names = Value (if take 3 name = ''hci'' then names @ [name] else names)"

definition bt_identity :: "host \<Rightarrow> string \<Rightarrow> bt_adapter \<Rightarrow> bt_adapter result" where
  "bt_identity host adapter_dir info =
     and_then (read_sysfs_string host (adapter_dir @ ''/name'')) (\<lambda>name.
     let info = (case name of None \<Rightarrow> info | Some n \<Rightarrow> info\<lparr>ba_name := n\<rparr>) in
     and_then (read_sysfs_string host (adapter_dir @ ''/address'')) (\<lambda>addr.
       case addr of
         None \<Rightarrow> Value info
       | Some a \<Rightarrow> (case bt_normalize_mac_address a of
             None \<Rightarrow> fail errc.malformed_data
           | Some mac \<Rightarrow> Value (info\<lparr>ba_address := Some mac\<rparr>))))"

definition usb_product :: "host \<Rightarrow> string \<Rightarrow> bt_adapter \<Rightarrow> bt_adapter result" where
  "usb_product host adapter_dir info =
     (if ba_bus info = usb \<and> ba_name info = [] then
        and_then (read_sysfs_string host (adapter_dir @ ''/device/..'' @ ''/product'')) (\<lambda>prod.
          Value (case prod of None \<Rightarrow> info | Some p \<Rightarrow> info\<lparr>ba_name := p\<rparr>))
      else Value info)"

definition hci_number :: "string \<Rightarrow> int" where
  "hci_number name =
     (if length name > 3 then (case parse_signed_int 32 (drop 3 name) of Some n \<Rightarrow> n | None \<Rightarrow> 0) else 0)"

definition inspect_bt_adapter :: "host \<Rightarrow> hci \<Rightarrow> string \<Rightarrow> bt_adapter result" where
  "inspect_bt_adapter host hc name =
     (let adapter_dir = ''/sys/class/bluetooth'' @ ''/'' @ name in
      and_then (bt_identity host adapter_dir (new_bt_adapter name)) (\<lambda>info.
      and_then (detect_rfkill_state host name adapter_dir ''/sys/class/rfkill'') (\<lambda>power.
      and_then (usb_product host adapter_dir
          (info\<lparr>ba_power_state := power, ba_bus := detect_bus_type host adapter_dir\<rparr>)) (\<lambda>info.
        let info = query_hci_ioctl hc (hci_number name) info in
        Value (if ba_name info = [] then info\<lparr>ba_name := name\<rparr> else info)))))"

definition bt_adapters :: "bool \<Rightarrow> host \<Rightarrow> hci \<Rightarrow> bt_adapter list result" where
  "bt_adapters char_signed host hc =
     bt_directory host ''/sys/class/bluetooth'' (Value []) (\<lambda>es.
       and_then (shown_entries hci_name es []) (\<lambda>names.
         each_result (inspect_bt_adapter host hc) (std_sort (natural_less char_signed) names)))"

definition bt_adapter_count :: "bool \<Rightarrow> host \<Rightarrow> hci \<Rightarrow> nat result" where
  "bt_adapter_count char_signed host hc = and_then (bt_adapters char_signed host hc) (\<lambda>l. Value (length l))"

definition bt_default_adapter :: "bool \<Rightarrow> host \<Rightarrow> hci \<Rightarrow> bt_adapter result" where
  "bt_default_adapter char_signed host hc =
     and_then (bt_adapters char_signed host hc) (\<lambda>l.
       if l = [] then fail errc.not_found
       else (case find (\<lambda>a. ba_id a = ''hci0'') l of Some a \<Rightarrow> Value a | None \<Rightarrow> Value (hd l)))"

section \<open>Connected devices\<close>

definition EINTR_answer :: "conn_answer \<Rightarrow> bool" where
  "EINTR_answer a \<longleftrightarrow> a = Conn_error EINTR"

definition EAFNOSUPPORT :: int where "EAFNOSUPPORT = 97"
definition EPROTONOSUPPORT :: int where "EPROTONOSUPPORT = 93"

text \<open>The request is repeated while it is interrupted.\<close>

fun connection_answer :: "conn_answer list \<Rightarrow> conn_answer option" where
  "connection_answer [] = None"
| "connection_answer (a # as) = (if EINTR_answer a then connection_answer as else Some a)"

definition connected_device :: "string \<Rightarrow> u8 list \<Rightarrow> bt_device" where
  "connected_device adapter_id bdaddr =
     (new_bt_device (bt_format_mac_bytes bdaddr True))
       \<lparr>bd_adapter_id := Some adapter_id, bd_is_connected := Some True\<rparr>"

fun connected_loop :: "hci \<Rightarrow> bt_adapter list \<Rightarrow> bt_device list \<Rightarrow> bt_device list result option" where
  "connected_loop hc [] found = Some (Value found)"
| "connected_loop hc (ad # ads) found =
     (if length (ba_id ad) \<le> 3 then Some (fail errc.malformed_data)
      else (case parse_int 16 10 (drop 3 (ba_id ad)) of
          None \<Rightarrow> Some (fail errc.malformed_data)
        | Some dev \<Rightarrow>
            (case connection_answer (hc_connections hc (of_nat dev)) of
               None \<Rightarrow> None
             | Some (Conn_error e) \<Rightarrow>
                 Some (if e = EACCES \<or> e = EPERM then fail errc.permission_denied
                       else if e = EOPNOTSUPP \<or> e = ENOTTY then fail errc.not_supported
                       else fail_errno e)
             | Some (Conn_list conn_num addrs) \<Rightarrow>
                 connected_loop hc ads
                   (found @ map (connected_device (ba_id ad)) (take (min (unat conn_num) 64) addrs)))))"

definition connected_devices :: "bool \<Rightarrow> host \<Rightarrow> hci \<Rightarrow> bt_device list result option" where
  "connected_devices char_signed host hc =
     (case bt_adapters char_signed host hc of
        Unexpected e \<Rightarrow> Some (Unexpected e)
      | Value ads \<Rightarrow>
          if ads = [] then Some (Value [])
          else (case hc_socket hc of
              Some e \<Rightarrow>
                Some (if e = EACCES \<or> e = EPERM then fail errc.permission_denied
                      else if e = EAFNOSUPPORT \<or> e = EPROTONOSUPPORT then fail errc.not_supported
                      else fail_errno e)
            | None \<Rightarrow> connected_loop hc ads []))"

section \<open>Paired devices\<close>

definition bt_bool :: "string \<Rightarrow> bool result" where
  "bt_bool val =
     (if val \<noteq> ''true'' \<and> val \<noteq> ''false'' \<and> val \<noteq> ''1'' \<and> val \<noteq> ''0'' then fail errc.malformed_data
      else Value (val = ''true'' \<or> val = ''1''))"

definition device_class_value :: "string \<Rightarrow> nat option" where
  "device_class_value val =
     (case parse_int 32 16 val of Some v \<Rightarrow> Some v | None \<Rightarrow> parse_int 32 10 val)"

definition info_field :: "string \<Rightarrow> string \<Rightarrow> bt_device \<Rightarrow> bt_device result" where
  "info_field key val dev =
     (if key = ''Name'' \<or> key = ''Alias'' then
        (if \<not> is_valid_utf8 val then fail errc.invalid_encoding
         else Value (if bd_name dev = None then dev\<lparr>bd_name := Some val\<rparr> else dev))
      else if key = ''Class'' then
        (case device_class_value val of
           None \<Rightarrow> fail errc.malformed_data
         | Some cod \<Rightarrow> Value (dev\<lparr>bd_class_of_device := Some (of_nat cod),
             bd_device_type := decode_major_device_class (of_nat cod)\<rparr>))
      else if key = ''Trusted'' then and_then (bt_bool val) (\<lambda>b. Value (dev\<lparr>bd_is_trusted := Some b\<rparr>))
      else if key = ''Blocked'' then and_then (bt_bool val) (\<lambda>b. Value (dev\<lparr>bd_is_blocked := Some b\<rparr>))
      else if key = ''Bonded'' then and_then (bt_bool val) (\<lambda>b. Value (dev\<lparr>bd_is_paired := Some b\<rparr>))
      else Value dev)"

definition info_line :: "string \<Rightarrow> bt_device \<Rightarrow> bt_device result" where
  "info_line raw dev =
     (let line = trim_whitespace raw in
      if line = [] \<or> hd line = CHR ''['' \<or> hd line = CHR ''#'' then Value dev
      else (case find_from (CHR ''='') line 0 of
          None \<Rightarrow> Value dev
        | Some n \<Rightarrow> info_field (trim_whitespace (take n line)) (trim_whitespace (drop (n + 1) line)) dev))"

fun info_lines :: "string list \<Rightarrow> bt_device \<Rightarrow> bt_device result" where
  "info_lines [] dev = Value dev"
| "info_lines (l # ls) dev = and_then (info_line l dev) (info_lines ls)"

definition paired_entry :: "host \<Rightarrow> string \<Rightarrow> string \<Rightarrow> bt_device list \<Rightarrow> bt_device list result" where
  "paired_entry host adapter_path name found =
     (case bt_normalize_mac_address name of
        None \<Rightarrow> Value found
      | Some mac \<Rightarrow>
          (case ho_read host (adapter_path @ ''/'' @ name @ ''/info'') 16384 of
             Unexpected e \<Rightarrow>
               if is_no_such_file e then Value found
               else if is_permission_denied e then fail errc.permission_denied
               else Unexpected e
           | Value content \<Rightarrow>
               and_then (info_lines (lines_of content) ((new_bt_device mac)\<lparr>bd_is_paired := Some True\<rparr>))
                 (\<lambda>dev. Value (if bd_is_paired dev \<noteq> Some False then found @ [dev] else found))))"

definition paired_adapter :: "host \<Rightarrow> string \<Rightarrow> string \<Rightarrow> bt_device list \<Rightarrow> bt_device list result" where
  "paired_adapter host bluez_root name found =
     (case bt_normalize_mac_address name of
        None \<Rightarrow> Value found
      | Some mac \<Rightarrow>
          (let adapter_path = bluez_root @ ''/'' @ name in
           bt_directory host adapter_path (Value found) (\<lambda>es.
             shown_entries (paired_entry host adapter_path) es found)))"

definition paired_devices :: "host \<Rightarrow> string \<Rightarrow> bt_device list result" where
  "paired_devices host bluez_root =
     bt_directory host bluez_root (Value []) (\<lambda>es. shown_entries (paired_adapter host bluez_root) es [])"

end
