(* ===== verification/Wifi_Correct.thy ===== *)
theory Wifi_Correct
  imports Wifi
begin

text \<open>
  What the wireless module promises: addresses have one normal form, network names and profiles read back
  as they were written, frequencies and channels determine each other within a band, and every adapter
  listed is consistent in itself.
\<close>

unbundle bit_operations_syntax

section \<open>Addresses\<close>

lemma parse_digit: "parse_int 8 16 [c] = (if base_digit 16 c then Some (nat (hex_value c)) else None)"
proof -
  have t: "trim_whitespace [c] = (if printer_space c then [] else [c])"
    by (simp add: trim_whitespace_def trim_back_def)
  have v: "nat (hex_value c) < 256" if "base_digit 16 c"
    using that by (simp add: base_digit_def nat_less_iff)
  show ?thesis
    using v base_digit_not_space [of 16 c]
    by (auto simp: parse_int_def t from_chars_base_def Let_def base_value_def)
qed

lemma upper_digit: "n < 16 \<Longrightarrow> base_digit 16 (upper_hex_digits ! n) \<and> nat (hex_value (upper_hex_digits ! n)) = n"
proof -
  have "list_all (\<lambda>n. base_digit 16 (upper_hex_digits ! n) \<and> nat (hex_value (upper_hex_digits ! n)) = n) [0..<16]"
    by code_simp
  then show "n < 16 \<Longrightarrow> ?thesis" by (simp add: list_all_iff)
qed

lemma join_nibbles: "push_bit 4 (of_nat (unat (drop_bit 4 b AND 0x0F))) OR of_nat (unat (b AND 0x0F)) = b" for b :: u8
proof -
  have "push_bit 4 (drop_bit 4 b AND mask 4) OR (b AND mask 4) = b"
    by (rule bit_word_eqI) (auto simp: bit_simps)
  then show ?thesis by (simp add: mask_eq_exp_minus_1)
qed

lemma nibble_less: "unat (w AND 0x0F) < 16" for w :: u8
  by (simp add: unat_and_low)

lemma mac_pair_bytes: "mac_pair (xs @ mac_byte b @ ys) (length xs) = Some b"
proof -
  let ?h = "upper_hex_digits ! unat (drop_bit 4 b AND 0x0F)" and ?l = "upper_hex_digits ! unat (b AND 0x0F)"
  have "substr (xs @ mac_byte b @ ys) (length xs) 1 = [?h]"
    "substr (xs @ mac_byte b @ ys) (length xs + 1) 1 = [?l]"
    by (simp_all add: substr_def mac_byte_def)
  then show ?thesis
    using upper_digit [OF nibble_less [of "drop_bit 4 b"]] upper_digit [OF nibble_less [of b]] join_nibbles [of b]
    by (simp add: mac_pair_def parse_digit)
qed

lemma mac_byte_length [simp]: "length (mac_byte b) = 2"
  by (simp add: mac_byte_def)

lemma mac_byte_ends: "\<not> printer_space (hd (mac_byte b))" "\<not> printer_space (last (mac_byte b))"
  using upper_digit [OF nibble_less [of "drop_bit 4 b"]] upper_digit [OF nibble_less [of b]]
    base_digit_not_space by (auto simp: mac_byte_def)

lemma six: "length bs = 6 \<Longrightarrow> \<exists>a b c d e f. bs = [a, b, c, d, e, f]"
  by (auto simp: eval_nat_numeral length_Suc_conv)

lemma format_six:
  "format_mac_bytes [a, b, c, d, e, f] =
     mac_byte a @ '':'' @ mac_byte b @ '':'' @ mac_byte c @ '':'' @ mac_byte d @ '':'' @ mac_byte e @ '':'' @ mac_byte f"
  by (simp add: format_mac_bytes_def upt_rec [of 0] upt_rec [of 1] upt_rec [of 2] upt_rec [of 3] upt_rec [of 4]
      upt_rec [of 5] eval_nat_numeral)

lemma mac_bytes_length: "mac_bytes f is = Some bs \<Longrightarrow> length bs = length is"
  by (induction "is" arbitrary: bs) (auto split: option.splits)

lemma normalize_format:
  assumes "length bs = 6"
  shows "normalize_mac_address (format_mac_bytes bs) = Some (format_mac_bytes bs)"
proof -
  obtain a b c d e f where bs: "bs = [a, b, c, d, e, f]" using six [OF assms] by blast
  let ?raw = "format_mac_bytes [a, b, c, d, e, f]"
  have "trim_whitespace ?raw = ?raw"
    using mac_byte_ends [of a] mac_byte_ends [of f]
    by (intro trim_whitespace_id) (simp add: format_six mac_byte_def)
  moreover have "length ?raw = 17" by (simp add: format_six)
  moreover have seps: "?raw ! 2 = CHR '':''" "?raw ! 5 = CHR '':''" "?raw ! 8 = CHR '':''" "?raw ! 11 = CHR '':''"
    "?raw ! 14 = CHR '':''" by (simp_all add: format_six mac_byte_def)
  moreover have "mac_pair ?raw 0 = Some a" "mac_pair ?raw 3 = Some b" "mac_pair ?raw 6 = Some c"
    "mac_pair ?raw 9 = Some d" "mac_pair ?raw 12 = Some e" "mac_pair ?raw 15 = Some f"
    using mac_pair_bytes [of "[]" a] mac_pair_bytes [of "mac_byte a @ '':''" b]
      mac_pair_bytes [of "mac_byte a @ '':'' @ mac_byte b @ '':''" c]
      mac_pair_bytes [of "mac_byte a @ '':'' @ mac_byte b @ '':'' @ mac_byte c @ '':''" d]
      mac_pair_bytes [of "mac_byte a @ '':'' @ mac_byte b @ '':'' @ mac_byte c @ '':'' @ mac_byte d @ '':''" e]
      mac_pair_bytes [of "mac_byte a @ '':'' @ mac_byte b @ '':'' @ mac_byte c @ '':'' @ mac_byte d @ '':'' @ mac_byte e @ '':''" f "[]"]
    by (simp_all add: format_six)
  moreover have "[0..<6] = [0, 1, 2, 3, 4, 5 :: nat]" by code_simp
  ultimately show ?thesis
    unfolding bs normalize_mac_address_def Let_def by simp
qed

lemma normalize_value: "normalize_mac_address s = Some m \<Longrightarrow> \<exists>bs. length bs = 6 \<and> m = format_mac_bytes bs"
  using mac_bytes_length by (fastforce simp: normalize_mac_address_def Let_def split: if_splits)

text \<open>
  A normalised hardware address is the rendering of six bytes, and normalising it again changes
  nothing; rendering six bytes gives a normal form.
\<close>

theorem mac_normal_form:
  "(case normalize_mac_address s of
      None \<Rightarrow> True
    | Some m \<Rightarrow> normalize_mac_address m = Some m \<and> (\<exists>bs. length bs = 6 \<and> m = format_mac_bytes bs))"
  using normalize_value normalize_format by (fastforce split: option.split)

section \<open>Network names\<close>

text \<open>The two encodings of a name in a profile: escapes, and a list of byte values.\<close>

fun escape_nm :: "string \<Rightarrow> string" where
  "escape_nm [] = []"
| "escape_nm (c # s) =
     (if c = CHR '' '' then [backslash, CHR ''s''] else if c = newline then [backslash, CHR ''n'']
      else if c = tab then [backslash, CHR ''t''] else if c = carriage_return then [backslash, CHR ''r'']
      else if c = backslash \<or> c = CHR '';'' then [backslash, c] else [c]) @ escape_nm s"

definition byte_list_nm :: "string \<Rightarrow> string" where
  "byte_list_nm s = concat (map (\<lambda>c. base_string 10 (uchar c) @ '';'') s)"

lemma unescape_escape: "unescape_nm (escape_nm s) = Value s"
  by (induction s) auto

lemma decimal_bytes_None:
  "\<exists>raw\<in>set ps. trim_whitespace raw \<noteq> [] \<and> parse_int 8 10 (trim_whitespace raw) = None \<Longrightarrow> decimal_bytes ps = None"
  by (induction ps) (auto simp: Let_def split: option.splits)

lemma decimal_bytes_list:
  "decimal_bytes (map (\<lambda>c. base_string 10 (uchar c)) s) = Some s"
proof (induction s)
  case (Cons c s)
  have "trim_whitespace (base_string 10 (uchar c)) = base_string 10 (uchar c)" "base_string 10 (uchar c) \<noteq> []"
    using base_string_props [of 10 "uchar c"] trim_base_digits [of 10] by auto
  moreover have "parse_int 8 10 (base_string 10 (uchar c)) = Some (uchar c)"
    by (rule parse_int_string) simp_all
  ultimately show ?case using Cons by (simp add: Let_def)
qed simp

lemma pieces_of_terminated:
  "list_all (\<lambda>x. sep \<notin> set x) xs \<Longrightarrow> pieces_of sep (concat (map (\<lambda>x. x @ [sep]) xs)) = xs"
  by (induction xs) (simp_all add: pieces_of_append)

lemma digits_no_semicolon: "list_all (base_digit b) s \<Longrightarrow> CHR '';'' \<notin> set s \<and> newline \<notin> set s"
  by (auto simp: list_all_iff base_digit_def hex_value_def)

lemma byte_list_pieces: "pieces_of (CHR '';'') (byte_list_nm s) = map (\<lambda>c. base_string 10 (uchar c)) s"
proof -
  have "list_all (\<lambda>x. CHR '';'' \<notin> set x) (map (\<lambda>c. base_string 10 (uchar c)) s)"
    using base_string_props [of 10] digits_no_semicolon [of 10] by (simp add: list_all_iff)
  from pieces_of_terminated [OF this] show ?thesis by (simp add: byte_list_nm_def comp_def)
qed

lemma decode_byte_list: "is_valid_utf8 s \<Longrightarrow> decode_network_manager_string (byte_list_nm s) = Value s"
proof (cases s rule: rev_cases)
  case Nil
  then show "is_valid_utf8 s \<Longrightarrow> ?thesis" by (simp add: decode_network_manager_string_def byte_list_nm_def)
next
  case (snoc t c)
  then have "byte_list_nm s \<noteq> []" "last (byte_list_nm s) = CHR '';''" by (simp_all add: byte_list_nm_def)
  then show "is_valid_utf8 s \<Longrightarrow> ?thesis"
    by (simp add: decode_network_manager_string_def byte_list_pieces decimal_bytes_list)
qed

lemma trim_keeps_last:
  assumes "p \<noteq> []" "\<not> printer_space (last p)"
  shows "trim_whitespace p \<noteq> [] \<and> last (trim_whitespace p) = last p"
proof -
  have ne: "dropWhile printer_space p \<noteq> []"
    using assms by (auto simp: dropWhile_eq_Nil_conv)
  then have "last (dropWhile printer_space p) = last p"
    by (metis append_is_Nil_conv last_append takeWhile_dropWhile_id)
  then show ?thesis
    using ne assms by (simp add: trim_whitespace_def trim_back_id)
qed

lemma parse_int_digits: "parse_int w 10 s = Some v \<Longrightarrow> list_all (base_digit 10) (trim_whitespace s)"
proof -
  assume p: "parse_int w 10 s = Some v"
  let ?t = "trim_whitespace s"
  have "drop (length (takeWhile (base_digit 10) ?t)) ?t = []"
    using p by (auto simp: parse_int_def from_chars_base_def Let_def split: if_splits)
  then have "takeWhile (base_digit 10) ?t = ?t"
    by (metis append.right_neutral dropWhile_eq_drop takeWhile_dropWhile_id)
  then show ?thesis by (metis list_all_iff set_takeWhileD)
qed

lemma piece_before_end: "x \<noteq> sep \<Longrightarrow> \<exists>p\<in>set (pieces_of sep (u @ [x, sep])). p \<noteq> [] \<and> last p = x"
proof (induction "length u" arbitrary: u rule: less_induct)
  case less
  show ?case
  proof (cases "sep \<in> set u")
    case True
    then obtain a b where "u = a @ sep # b" "sep \<notin> set a" by (metis split_list_first)
    then show ?thesis using less.hyps [of b] less.prems by (simp add: pieces_of_append)
  next
    case False
    then show ?thesis
      using less.prems pieces_of_append [of sep "u @ [x]" "[]"] by simp
  qed
qed

lemma escape_nm_append: "escape_nm (s @ t) = escape_nm s @ escape_nm t"
  by (induction s) simp_all

lemma escape_ends: "escape_nm s \<noteq> [] \<Longrightarrow> last (escape_nm s) = CHR '';'' \<Longrightarrow> \<exists>u. escape_nm s = u @ [backslash, CHR '';'']"
proof (cases s rule: rev_cases)
  case (snoc t c)
  then show "escape_nm s \<noteq> [] \<Longrightarrow> last (escape_nm s) = CHR '';'' \<Longrightarrow> ?thesis"
    by (auto simp: escape_nm_append split: if_splits)
qed simp

lemma decode_escaped: "is_valid_utf8 s \<Longrightarrow> decode_network_manager_string (escape_nm s) = Value s"
proof -
  assume v: "is_valid_utf8 s"
  have "decimal_bytes (pieces_of (CHR '';'') (escape_nm s)) = None"
    if end_semi: "escape_nm s \<noteq> []" "last (escape_nm s) = CHR '';''"
  proof -
    obtain u where "escape_nm s = u @ [backslash, CHR '';'']" using escape_ends [OF end_semi] by blast
    then obtain p where p: "p \<in> set (pieces_of (CHR '';'') (escape_nm s))" "p \<noteq> []" "last p = backslash"
      using piece_before_end [of backslash "CHR '';''" u] by auto
    have sp: "\<not> printer_space backslash" "\<not> base_digit 10 backslash" by code_simp+
    then have t: "trim_whitespace p \<noteq> []" "last (trim_whitespace p) = backslash"
      using trim_keeps_last [OF p(2)] p(3) by simp_all
    then have t2: "trim_whitespace (trim_whitespace p) \<noteq> []" "last (trim_whitespace (trim_whitespace p)) = backslash"
      using trim_keeps_last [OF t(1)] sp by simp_all
    then have "\<not> list_all (base_digit 10) (trim_whitespace (trim_whitespace p))"
      using sp(2) by (metis last_in_set list_all_iff)
    then have "parse_int 8 10 (trim_whitespace p) = None"
      using parse_int_digits by (metis not_Some_eq)
    then show ?thesis using p(1) t by (intro decimal_bytes_None) blast
  qed
  then show ?thesis
    using v by (simp add: decode_network_manager_string_def unescape_escape)
qed

text \<open>
  A network name in valid UTF-8 reads back from a profile in both of its encodings, with escapes and as
  a list of byte values, whatever bytes it holds; the two encodings are never confused.
\<close>

theorem network_name_roundtrip:
  assumes "is_valid_utf8 ssid"
  shows "decode_network_manager_string (escape_nm ssid) = Value ssid \<and>
    decode_network_manager_string (byte_list_nm ssid) = Value ssid"
  using assms decode_escaped decode_byte_list by blast

theorem network_name_roundtrip_witness:
  "decode_network_manager_string (escape_nm ''a; 1;'') = Value ''a; 1;'' \<and>
   decode_network_manager_string (byte_list_nm ''a; 1;'') = Value ''a; 1;''"
proof -
  have "is_valid_utf8 ''a; 1;''" by code_simp
  then show ?thesis by (rule network_name_roundtrip)
qed

section \<open>Profiles\<close>

text \<open>A key file: sections with their entries, in order.\<close>

type_synonym key_file = "(string \<times> (string \<times> string) list) list"

definition section_lines :: "string \<times> (string \<times> string) list \<Rightarrow> string list" where
  "section_lines s = (''['' @ fst s @ '']'') # map (\<lambda>(k, v). k @ ''='' @ v) (snd s)"

definition nm_text :: "key_file \<Rightarrow> string" where
  "nm_text kf = concat (map (\<lambda>l. l @ [newline]) (concat (map section_lines kf)))"

definition key_ok :: "string \<Rightarrow> bool" where
  "key_ok k \<longleftrightarrow> k \<noteq> [] \<and> \<not> printer_space (hd k) \<and> \<not> printer_space (last k) \<and> CHR ''='' \<notin> set k \<and>
     newline \<notin> set k \<and> hd k \<notin> {CHR ''['', CHR ''#'', CHR '';''}"

definition value_ok :: "string \<Rightarrow> bool" where
  "value_ok v \<longleftrightarrow> trimmed v \<and> newline \<notin> set v"

definition section_ok :: "string \<times> (string \<times> string) list \<Rightarrow> bool" where
  "section_ok s \<longleftrightarrow> newline \<notin> set (fst s) \<and> list_all (\<lambda>(k, v). key_ok k \<and> value_ok v) (snd s)"

text \<open>What the entries of one section do, in order.\<close>

fun nm_entries :: "(string \<times> string) list \<Rightarrow> nm_state \<Rightarrow> nm_state result" where
  "nm_entries [] st = Value st"
| "nm_entries ((k, v) # kvs) st = and_then (nm_field k v st) (nm_entries kvs)"

fun nm_sections :: "key_file \<Rightarrow> nm_state \<Rightarrow> nm_state result" where
  "nm_sections [] st = Value st"
| "nm_sections ((sec, kvs) # kf) st =
     and_then (nm_entries kvs (st\<lparr>nm_section := sec\<rparr>)) (nm_sections kf)"

lemma nm_line_header: "nm_line (''['' @ sec @ '']'') st = Value (st\<lparr>nm_section := sec\<rparr>)"
proof -
  have s: "\<not> printer_space (CHR ''['')" "\<not> printer_space (CHR '']'')" by code_simp+
  have "trim_whitespace (''['' @ sec @ '']'') = ''['' @ sec @ '']''"
    using s by (intro trim_whitespace_id) simp
  then show ?thesis
    by (simp add: nm_line_def Let_def substr_def)
qed

lemma nm_line_entry:
  assumes "key_ok k" "value_ok v"
  shows "nm_line (k @ ''='' @ v) st = nm_field k v st"
proof -
  have sp: "\<not> printer_space (CHR ''='')" by code_simp
  have t: "trim_whitespace (k @ ''='' @ v) = k @ ''='' @ v"
    using assms sp by (intro trim_whitespace_id) (auto simp: key_ok_def value_ok_def trimmed_def)
  have k: "trim_whitespace k = k" using assms by (intro trim_whitespace_id) (simp add: key_ok_def)
  have v: "trim_whitespace v = v" using assms by (intro trim_whitespace_trimmed) (simp add: value_ok_def)
  have e: "find_from (CHR ''='') (k @ ''='' @ v) 0 = Some (length k)"
    using find_from_append [of "CHR ''=''" k "[]" v] assms by (simp add: key_ok_def)
  have h: "k @ ''='' @ v \<noteq> []" "hd (k @ ''='' @ v) = hd k" using assms by (auto simp: key_ok_def)
  show ?thesis
    unfolding nm_line_def Let_def t using assms h e k v by (simp add: key_ok_def)
qed

lemma nm_lines_append: "nm_lines (a @ b) st = and_then (nm_lines a st) (nm_lines b)"
proof (induction a arbitrary: st)
  case (Cons l ls)
  then show ?case by (cases "nm_line l st") simp_all
qed simp

lemma nm_lines_entries:
  "list_all (\<lambda>(k, v). key_ok k \<and> value_ok v) kvs \<Longrightarrow>
   nm_lines (map (\<lambda>(k, v). k @ ''='' @ v) kvs) st = nm_entries kvs st"
proof (induction kvs arbitrary: st)
  case (Cons kv kvs)
  obtain k v where kv: "kv = (k, v)" by (cases kv)
  have "nm_line (k @ ''='' @ v) st = nm_field k v st"
    using Cons.prems kv by (intro nm_line_entry) simp_all
  then show ?case using Cons kv by (cases "nm_field k v st") simp_all
qed simp

lemma nm_lines_sections:
  "list_all section_ok kf \<Longrightarrow> nm_lines (concat (map section_lines kf)) st = nm_sections kf st"
proof (induction kf arbitrary: st)
  case (Cons s kf)
  obtain sec kvs where s: "s = (sec, kvs)" by (cases s)
  have "nm_lines (section_lines s) st = nm_entries kvs (st\<lparr>nm_section := sec\<rparr>)"
    using Cons.prems s nm_line_header [of sec st] nm_lines_entries [of kvs]
    by (simp add: section_lines_def section_ok_def)
  then show ?case
    using Cons s by (cases "nm_entries kvs (st\<lparr>nm_section := sec\<rparr>)") (simp_all add: nm_lines_append)
qed simp

lemma profile_text:
  assumes "list_all section_ok kf"
  shows "parse_network_manager_profile (nm_text kf) = and_then (nm_sections kf nm_start) (\<lambda>st. Value (nm_network st))"
proof -
  have "newline \<notin> set l" if l: "l \<in> set (section_lines s)" and s: "s \<in> set kf" for l s
  proof -
    have "section_ok s" using assms s by (simp add: list_all_iff)
    moreover have "newline \<noteq> CHR ''[''" "newline \<noteq> CHR '']''" "newline \<noteq> CHR ''=''" by simp_all
    ultimately show ?thesis
      using l by (auto simp: section_lines_def section_ok_def list_all_iff key_ok_def value_ok_def)
  qed
  then have "lines_of (nm_text kf) = concat (map section_lines kf)"
    unfolding nm_text_def by (intro lines_of_unlines) (auto simp: list_all_iff)
  then show ?thesis
    using nm_lines_sections [OF assms] by (simp add: parse_network_manager_profile_def)
qed

text \<open>A section none of whose keys the profile reader looks at.\<close>

definition other_section :: "string \<times> (string \<times> string) list \<Rightarrow> bool" where
  "other_section s \<longleftrightarrow> section_ok s \<and> \<not> wifi_section (fst s) \<and> \<not> security_section (fst s) \<and> fst s \<noteq> ''connection''"

lemma nm_entries_other:
  "\<not> wifi_section (nm_section st) \<Longrightarrow> \<not> security_section (nm_section st) \<Longrightarrow> nm_section st \<noteq> ''connection'' \<Longrightarrow>
   nm_entries kvs st = Value st"
  by (induction kvs) (auto simp: nm_field_def)

lemma nm_sections_other:
  "list_all other_section kf \<Longrightarrow> \<exists>sec. nm_sections kf st = Value (st\<lparr>nm_section := sec\<rparr>)"
proof (induction kf arbitrary: st)
  case Nil
  then show ?case by (intro exI [of _ "nm_section st"]) simp
next
  case (Cons s kf)
  obtain sec kvs where s: "s = (sec, kvs)" by (cases s)
  then have "nm_entries kvs (st\<lparr>nm_section := sec\<rparr>) = Value (st\<lparr>nm_section := sec\<rparr>)"
    using Cons.prems by (intro nm_entries_other) (simp_all add: other_section_def)
  moreover obtain sec' where "nm_sections kf (st\<lparr>nm_section := sec\<rparr>) =
      Value (st\<lparr>nm_section := sec\<rparr>\<lparr>nm_section := sec'\<rparr>)"
    using Cons.IH [of "st\<lparr>nm_section := sec\<rparr>"] Cons.prems by auto
  ultimately show ?case using s by (intro exI [of _ sec']) simp
qed

lemma nm_sections_append: "nm_sections (a @ b) st = and_then (nm_sections a st) (nm_sections b)"
proof (induction a arbitrary: st)
  case (Cons s a)
  obtain sec kvs where s: "s = (sec, kvs)" by (cases s)
  show ?case using Cons s by (cases "nm_entries kvs (st\<lparr>nm_section := sec\<rparr>)") simp_all
qed simp

definition bool_text :: "bool \<Rightarrow> string" where
  "bool_text b = (if b then ''true'' else ''false'')"

definition wifi_profile :: "string \<Rightarrow> bool \<Rightarrow> bool \<Rightarrow> string \<Rightarrow> string \<Rightarrow> key_file" where
  "wifi_profile ssid auto hide mgmt proto =
     [(''connection'', [(''type'', ''wifi''), (''autoconnect'', bool_text auto)]),
      (''wifi'', [(''ssid'', byte_list_nm ssid), (''hidden'', bool_text hide)]),
      (''wifi-security'', [(''key-mgmt'', mgmt), (''proto'', proto)])]"

lemma nm_sections_wifi:
  assumes "is_valid_utf8 ssid"
  shows "nm_sections (wifi_profile ssid auto hide mgmt proto) st = Value (st\<lparr>nm_section := ''wifi-security'',
    nm_ssid := ssid, nm_autoconnect := Some auto, nm_hidden := Some hide, nm_has_wifi_security := True,
    nm_key_management := mgmt, nm_allows_wpa := text_contains ''wpa'' proto, nm_allows_rsn := text_contains ''rsn'' proto\<rparr>)"
  using decode_byte_list [OF assms]
  by (simp add: wifi_profile_def nm_field_def wifi_section_def security_section_def is_wep_key_def bool_text_def
      parse_network_manager_bool_def)

lemma byte_list_value: "value_ok (byte_list_nm s)"
proof -
  have d: "base_string 10 n \<noteq> []" "list_all (base_digit 10) (base_string 10 n)" for n
    using base_string_props [of 10 n] by simp_all
  have "newline \<notin> set (byte_list_nm s)"
    using digits_no_semicolon [OF d(2)] by (auto simp: byte_list_nm_def)
  moreover have "trimmed (byte_list_nm s)"
  proof (cases "s = []")
    case False
    then obtain a t where a: "s = a # t" by (cases s) simp_all
    obtain u c where u: "s = u @ [c]" using False by (cases s rule: rev_cases) simp_all
    have "last (byte_list_nm s) = CHR '';''" unfolding u by (simp add: byte_list_nm_def)
    moreover have "hd (byte_list_nm s) = hd (base_string 10 (uchar a))" using d(1) by (simp add: a byte_list_nm_def)
    moreover have "\<not> printer_space (hd (base_string 10 (uchar a)))"
      using d [of "uchar a"] base_digit_not_space by (metis hd_in_set list_all_iff)
    moreover have "\<not> printer_space (CHR '';'')" by code_simp
    ultimately show ?thesis by (simp add: trimmed_def)
  qed (simp add: trimmed_def byte_list_nm_def)
  ultimately show ?thesis by (simp add: value_ok_def)
qed

text \<open>
  C19. The profile of a secured wireless network, between any other sections, reads back as the network: its
  name byte for byte, its two flags and the protection its key management and protocols allow.
\<close>

theorem profile_roundtrip:
  assumes "is_valid_utf8 ssid" "ssid \<noteq> []" "value_ok mgmt" "value_ok proto"
    and "list_all other_section before" "list_all other_section after"
  shows "parse_network_manager_profile (nm_text (before @ wifi_profile ssid auto hide mgmt proto @ after)) =
    Value (Some \<lparr>cn_ssid = ssid, cn_adapter_id = None,
      cn_security = nm_security (nm_start\<lparr>nm_has_wifi_security := True, nm_key_management := mgmt,
        nm_allows_wpa := text_contains ''wpa'' proto, nm_allows_rsn := text_contains ''rsn'' proto\<rparr>),
      cn_auto_connect = Some auto, cn_is_hidden = Some hide\<rparr>)"
proof -
  have keys: "key_ok ''type''" "key_ok ''autoconnect''" "key_ok ''ssid''" "key_ok ''hidden''" "key_ok ''key-mgmt''"
    "key_ok ''proto''" "value_ok ''wifi''" "value_ok ''true''" "value_ok ''false''" by code_simp+
  have bytes: "value_ok (byte_list_nm ssid)" by (rule byte_list_value)
  have "list_all section_ok (wifi_profile ssid auto hide mgmt proto)"
    using keys bytes assms(3,4) by (simp add: wifi_profile_def section_ok_def bool_text_def)
  then have ok: "list_all section_ok (before @ wifi_profile ssid auto hide mgmt proto @ after)"
    using assms(5,6) by (auto simp: list_all_iff other_section_def)
  obtain s1 where s1: "nm_sections before nm_start = Value (nm_start\<lparr>nm_section := s1\<rparr>)"
    using nm_sections_other [OF assms(5)] by blast
  obtain st where st: "nm_sections (wifi_profile ssid auto hide mgmt proto) (nm_start\<lparr>nm_section := s1\<rparr>) = Value st"
    "nm_ssid st = ssid" "nm_autoconnect st = Some auto" "nm_hidden st = Some hide" "nm_has_wifi_security st"
    "nm_key_management st = mgmt" "nm_allows_wpa st = text_contains ''wpa'' proto"
    "nm_allows_rsn st = text_contains ''rsn'' proto" "\<not> nm_has_wep_key st"
    using nm_sections_wifi [OF assms(1)] by (simp add: nm_start_def)
  obtain s2 where s2: "nm_sections after st = Value (st\<lparr>nm_section := s2\<rparr>)"
    using nm_sections_other [OF assms(6)] by blast
  have "nm_network (st\<lparr>nm_section := s2\<rparr>) = Some \<lparr>cn_ssid = ssid, cn_adapter_id = None,
      cn_security = nm_security (nm_start\<lparr>nm_has_wifi_security := True, nm_key_management := mgmt,
        nm_allows_wpa := text_contains ''wpa'' proto, nm_allows_rsn := text_contains ''rsn'' proto\<rparr>),
      cn_auto_connect = Some auto, cn_is_hidden = Some hide\<rparr>"
    using st assms(2) by (simp add: nm_network_def nm_security_def Let_def) (simp add: nm_start_def)
  then show ?thesis
    by (simp add: profile_text [OF ok] nm_sections_append s1 st(1) s2)
qed

theorem profile_roundtrip_witness:
  "parse_network_manager_profile (nm_text ([(''ipv4'', [(''method'', ''auto'')])] @
      wifi_profile ''caf; x'' True False ''sae'' ''rsn'' @ [])) =
    Value (Some \<lparr>cn_ssid = ''caf; x'', cn_adapter_id = None,
      cn_security = nm_security (nm_start\<lparr>nm_has_wifi_security := True, nm_key_management := ''sae'',
        nm_allows_wpa := text_contains ''wpa'' ''rsn'', nm_allows_rsn := text_contains ''rsn'' ''rsn''\<rparr>),
      cn_auto_connect = Some True, cn_is_hidden = Some False\<rparr>)"
proof -
  have "is_valid_utf8 ''caf; x''" "value_ok ''sae''" "value_ok ''rsn''"
    "list_all other_section [(''ipv4'', [(''method'', ''auto'')])]" by code_simp+
  then show ?thesis by (intro profile_roundtrip) simp_all
qed

section \<open>Frequencies\<close>

lemma channel_frequency:
  assumes "frequency_to_channel f = Some c"
  shows "frequency_to_band f = band_2_4_ghz \<and> (f = 2407 + 5 * c \<and> c \<le> 13 \<or> f = 2484 \<and> c = 14) \<or>
    frequency_to_band f = band_5_ghz \<and> f = 5000 + 5 * c \<and> c \<le> 179 \<or>
    frequency_to_band f = band_6_ghz \<and> f = 5950 + 5 * c \<and> 1 \<le> c \<and> c \<le> 233"
proof -
  have r: "(f - k) mod 5 = 0 \<Longrightarrow> k \<le> f \<Longrightarrow> f = k + 5 * ((f - k) div 5)" for k
    using div_mult_mod_eq [of "f - k" 5] by simp
  consider "2412 \<le> f" "f \<le> 2472" | "f = 2484" | "5000 \<le> f" "f \<le> 5895" | "5955 \<le> f" "f \<le> 7115"
    using assms by (fastforce simp: frequency_to_channel_def split: if_splits)
  then show ?thesis
  proof cases
    case 1
    then have "(f - 2407) mod 5 = 0" "c = (f - 2407) div 5"
      using assms by (simp_all add: frequency_to_channel_def split: if_splits)
    then show ?thesis using r [of 2407] 1 by (auto simp: frequency_to_band_def)
  next
    case 2
    then show ?thesis using assms by (simp add: frequency_to_channel_def frequency_to_band_def)
  next
    case 3
    then have "(f - 5000) mod 5 = 0" "c = (f - 5000) div 5"
      using assms by (simp_all add: frequency_to_channel_def split: if_splits)
    then show ?thesis using r [of 5000] 3 by (auto simp: frequency_to_band_def)
  next
    case 4
    then have "(f - 5950) mod 5 = 0" "c = (f - 5950) div 5"
      using assms by (simp_all add: frequency_to_channel_def split: if_splits)
    then show ?thesis using r [of 5950] 4 by (auto simp: frequency_to_band_def)
  qed
qed

lemma wext_mhz_exact:
  assumes "1 \<le> f" "f < 2 ^ 32" "0 \<le> e" "m * 10 ^ nat e = int f * 1000000"
  shows "wext_mhz (m, e) = Some f"
  using assms by (simp add: wext_mhz_def Let_def)

text \<open>
  A channel number is given only for frequencies inside a band, stays below 234, and determines the
  frequency within its band.
\<close>

theorem channel_determines_frequency:
  "(\<forall>c. frequency_to_channel f = Some c \<longrightarrow> frequency_to_band f \<noteq> frequency_band.unknown \<and> c \<le> 233) \<and>
   (\<forall>c. frequency_to_channel f = Some c \<and> frequency_to_channel g = Some c \<and>
     frequency_to_band f = frequency_to_band g \<longrightarrow> f = g)"
  using channel_frequency [of f] channel_frequency [of g] by fastforce

section \<open>Adapters\<close>

definition connection_ok :: "network_connection \<Rightarrow> bool" where
  "connection_ok c \<longleftrightarrow>
     is_valid_utf8 (nc_ssid c) \<and> normalize_mac_address (nc_bssid c) = Some (nc_bssid c) \<and>
     (case nc_frequency_mhz c of
        None \<Rightarrow> nc_band c = frequency_band.unknown
      | Some f \<Rightarrow> nc_band c = frequency_to_band f \<and> nc_band c \<noteq> frequency_band.unknown \<and>
          nc_channel c = frequency_to_channel f) \<and>
     (case nc_channel c of None \<Rightarrow> True | Some n \<Rightarrow> n \<le> 233) \<and>
     (case nc_signal_dbm c of
        None \<Rightarrow> nc_signal_quality_percent c = None
      | Some s \<Rightarrow> - 127 \<le> s \<and> s \<le> 0 \<and>
          nc_signal_quality_percent c = Some (rssi_to_quality_percent s) \<and> rssi_to_quality_percent s \<le> 100)"

definition adapter_ok :: "wifi_adapter \<Rightarrow> bool" where
  "adapter_ok a \<longleftrightarrow>
     wa_name a = wa_id a \<and>
     (case wa_mac_address a of None \<Rightarrow> True | Some m \<Rightarrow> normalize_mac_address m = Some m) \<and>
     (case wa_connection a of
        None \<Rightarrow> wa_state a \<noteq> wifi_connection_state.connected \<and> wa_power_state a \<noteq> wifi_power_state.on
      | Some c \<Rightarrow> connection_ok c \<and> wa_state a = wifi_connection_state.connected \<and>
          wa_power_state a \<noteq> wifi_power_state.unknown)"

lemma quality_le: "rssi_to_quality_percent s \<le> 100"
  by (auto simp: rssi_to_quality_percent_def nat_le_iff)

lemma frequency_ok:
  assumes "connection_ok c" "nc_frequency_mhz c = None"
  shows "connection_ok (apply_wext_frequency f c)"
proof (cases "snd f = 0 \<and> fst f > 0 \<and> fst f \<le> 233")
  case True
  then show ?thesis
    using assms by (auto simp: apply_wext_frequency_def connection_ok_def nat_le_iff split: option.splits)
next
  case False
  show ?thesis
  proof (cases "wext_mhz f")
    case None
    then show ?thesis using assms False by (auto simp: apply_wext_frequency_def)
  next
    case (Some mhz)
    have "n \<le> 233" if "frequency_to_channel mhz = Some n" for n
      using channel_frequency [OF that] by auto
    then show ?thesis
      using assms False Some by (auto simp: apply_wext_frequency_def connection_ok_def Let_def split: option.splits)
  qed
qed

lemma ssid_utf8: "wext_ssid answer = Value s \<Longrightarrow> is_valid_utf8 s"
proof -
  have "is_valid_utf8 []" by code_simp
  then show "wext_ssid answer = Value s \<Longrightarrow> ?thesis"
    by (auto simp: wext_ssid_def Let_def fail_def split: option.splits if_splits)
qed

lemma new_connection_ok:
  assumes "is_valid_utf8 ssid"
  shows "connection_ok (new_connection ssid (format_mac_bytes bs))"
proof -
  have "format_mac_bytes bs = format_mac_bytes (map (\<lambda>i. bs ! i) [0..<6])"
    unfolding format_mac_bytes_def by (intro arg_cong [of _ _ concat] map_cong refl) auto
  then have "normalize_mac_address (format_mac_bytes bs) = Some (format_mac_bytes bs)"
    using normalize_format [of "map (\<lambda>i. bs ! i) [0..<6]"] by simp
  then show ?thesis using assms by (simp add: connection_ok_def new_connection_def)
qed

lemma connection_ok_update [simp]:
  "connection_ok (c\<lparr>nc_transmit_rate_mbps := r\<rparr>) = connection_ok c"
  "connection_ok (c\<lparr>nc_standard := s\<rparr>) = connection_ok c"
  by (simp_all add: connection_ok_def cong: option.case_cong)

lemma query_connection_ok: "query_wext_connection wx ifname = Value (Some c) \<Longrightarrow> connection_ok c"
proof -
  assume "query_wext_connection wx ifname = Value (Some c)"
  then obtain raw ssid where r: "wext_ssid (wx_essid wx ifname) = Value ssid"
    "c = apply_protocol (wx_name wx ifname) (apply_rate (wx_rate wx ifname)
        (apply_frequency (wx_freq wx ifname) (new_connection ssid (format_mac_bytes raw))))"
    by (auto simp: query_wext_connection_def fail_def and_then_Value_iff split: if_splits option.splits)
  have "connection_ok (new_connection ssid (format_mac_bytes raw))"
    using r(1) ssid_utf8 new_connection_ok by blast
  then have "connection_ok (apply_frequency (wx_freq wx ifname) (new_connection ssid (format_mac_bytes raw)))"
    using frequency_ok by (auto simp: apply_frequency_def new_connection_def split: option.split)
  then show ?thesis
    unfolding r(2) by (simp add: apply_protocol_def apply_rate_def split: option.split)
qed

lemma enrich_ok: "connection_ok c \<Longrightarrow> connection_ok (enrich_signal ifname ps c)"
  by (induction ifname ps c rule: enrich_signal.induct)
    (auto simp: connection_ok_def quality_le split: option.splits)

lemma rfkill_state:
  "query_rfkill_state host ifname root = Value p \<Longrightarrow> p = wifi_power_state.unknown \<or> p = wifi_power_state.blocked"
proof -
  have e: "rfkill_entries host d es = Value q \<Longrightarrow> q = wifi_power_state.unknown \<or> q = wifi_power_state.blocked" for d es q
    by (induction host d es rule: rfkill_entries.induct)
      (auto simp: Let_def and_then_Value_iff fail_errno_def split: if_splits)
  have d: "read_rfkill_directory host d = Value q \<Longrightarrow> q = wifi_power_state.unknown \<or> q = wifi_power_state.blocked" for d q
    using e by (auto simp: read_rfkill_directory_def fail_errno_def split: option.splits if_splits)
  show "query_rfkill_state host ifname root = Value p \<Longrightarrow> ?thesis"
    using d by (auto simp: query_rfkill_state_def Let_def and_then_Value_iff split: if_splits)
qed

definition adapter_draft :: "string \<Rightarrow> wifi_adapter \<Rightarrow> bool" where
  "adapter_draft ifname a \<longleftrightarrow> wa_id a = ifname \<and> wa_name a = ifname \<and> wa_connection a = None \<and>
     (case wa_mac_address a of None \<Rightarrow> True | Some m \<Rightarrow> normalize_mac_address m = Some m) \<and>
     wa_state a \<noteq> wifi_connection_state.connected"

lemma adapter_mac_draft:
  assumes "adapter_mac host d (new_adapter ifname) = Value a"
  shows "adapter_draft ifname a"
proof -
  have n: "adapter_draft ifname (new_adapter ifname)" by (simp add: adapter_draft_def new_adapter_def)
  obtain mac where m: "(case mac of None \<Rightarrow> Value (new_adapter ifname)
      | Some s \<Rightarrow> (case normalize_mac_address s of None \<Rightarrow> fail errc.malformed_data
          | Some mac \<Rightarrow> Value ((new_adapter ifname)\<lparr>wa_mac_address := Some mac\<rparr>))) = Value a"
    using assms unfolding adapter_mac_def and_then_Value_iff by blast
  show ?thesis
  proof (cases "a = new_adapter ifname")
    case False
    then obtain s k where k: "normalize_mac_address s = Some k" "a = (new_adapter ifname)\<lparr>wa_mac_address := Some k\<rparr>"
      using m by (auto split: option.splits)
    then have "normalize_mac_address k = Some k" using normalize_value normalize_format by blast
    then show ?thesis using n k(2) by (simp add: adapter_draft_def)
  qed (use n in simp)
qed

lemma adapter_operstate_draft:
  "adapter_draft ifname a \<Longrightarrow> adapter_operstate host d a = Value b \<Longrightarrow> adapter_draft ifname b"
  by (auto simp: adapter_operstate_def adapter_draft_def and_then_Value_iff split: if_splits)

lemma adapter_connection_ok:
  assumes "adapter_draft ifname a" "wa_power_state a = wifi_power_state.unknown \<or> wa_power_state a = wifi_power_state.blocked"
    "adapter_connection wx ps ifname a = Value b"
  shows "adapter_ok b \<and> wa_id b = ifname"
proof -
  obtain conn where q: "query_wext_connection wx ifname = Value conn"
    and b: "(case conn of None \<Rightarrow> Value a | Some c \<Rightarrow> Value (a\<lparr>wa_connection := Some (enrich_signal ifname ps c),
             wa_state := wifi_connection_state.connected,
             wa_power_state := (if wa_power_state a = wifi_power_state.unknown then wifi_power_state.on
                                else wa_power_state a)\<rparr>)) = Value b"
    using assms(3) unfolding adapter_connection_def and_then_Value_iff by blast
  show ?thesis
  proof (cases conn)
    case None
    then show ?thesis using assms(1,2) b by (auto simp: adapter_draft_def adapter_ok_def)
  next
    case (Some c)
    then have "connection_ok (enrich_signal ifname ps c)" using q query_connection_ok enrich_ok by blast
    then show ?thesis using assms(1,2) b Some by (auto simp: adapter_draft_def adapter_ok_def)
  qed
qed

lemma inspect_adapter_ok:
  assumes "inspect_adapter host wx ps ifname = Value a"
  shows "adapter_ok a \<and> wa_id a = ifname"
proof -
  let ?d = "''/sys/class/net/'' @ ifname"
  obtain a1 a2 p where s: "adapter_mac host ?d (new_adapter ifname) = Value a1"
    "adapter_operstate host ?d a1 = Value a2" "query_rfkill_state host ifname ''/sys/class/net'' = Value p"
    "(if wx_socket wx = None then adapter_connection wx ps ifname
        (a2\<lparr>wa_power_state := p, wa_mode := query_wext_mode wx ifname\<rparr>)
      else Value (a2\<lparr>wa_power_state := p\<rparr>)) = Value a"
    using assms unfolding inspect_adapter_def Let_def and_then_Value_iff by auto
  have d: "adapter_draft ifname a2" using adapter_mac_draft [OF s(1)] s(2) by (rule adapter_operstate_draft)
  have p: "p = wifi_power_state.unknown \<or> p = wifi_power_state.blocked" using rfkill_state s(3) by blast
  show ?thesis
  proof (cases "wx_socket wx = None")
    case True
    have "adapter_draft ifname (a2\<lparr>wa_power_state := p, wa_mode := query_wext_mode wx ifname\<rparr>)"
      using d by (simp add: adapter_draft_def cong: option.case_cong)
    then show ?thesis using adapter_connection_ok s(4) p True by auto
  next
    case False
    then show ?thesis using s(4) d p by (auto simp: adapter_draft_def adapter_ok_def cong: option.case_cong)
  qed
qed

lemma each_result_all: "each_result f xs = Value ys \<Longrightarrow> list_all2 (\<lambda>x y. f x = Value y) xs ys"
  by (induction xs arbitrary: ys) (auto simp: and_then_Value_iff)

text \<open>
  Every list of wireless adapters is in the natural order of the interface names, and each adapter is
  consistent: a normalised address; connected exactly when it has a connection, and then not of unknown
  power; a connection with a valid name and access point, a frequency that agrees with band and channel,
  and a signal in range with its quality.
\<close>

theorem adapters_consistent:
  "case wifi_adapters char_signed host wx of
     Value as \<Rightarrow> list_all adapter_ok as \<and> in_order (natural_less char_signed) (map wa_id as)
   | Unexpected e \<Rightarrow> True"
proof (cases "wifi_adapters char_signed host wx")
  case (Value as)
  then obtain ifnames where l: "list_all2 (\<lambda>n a. inspect_adapter host wx (read_proc_net_wireless host) n = Value a)
      (std_sort (natural_less char_signed) ifnames) as"
    using each_result_all
    by (fastforce simp: wifi_adapters_def fail_errno_def and_then_Value_iff split: option.splits)
  then have all: "list_all2 (\<lambda>n a. adapter_ok a \<and> wa_id a = n) (std_sort (natural_less char_signed) ifnames) as"
    using inspect_adapter_ok by (elim list_all2_mono) blast
  then have "map wa_id as = std_sort (natural_less char_signed) ifnames"
    by (induction rule: list_all2_induct) simp_all
  moreover have "list_all adapter_ok as"
    using all by (induction rule: list_all2_induct) simp_all
  ultimately show ?thesis
    using Value natural.std_sort_in_order [of char_signed ifnames] by simp
qed simp

end
