(* ===== verification/Bluetooth_Correct.thy ===== *)
theory Bluetooth_Correct
  imports Bluetooth Wifi_Correct
begin

text \<open>
  The Bluetooth address parser accepts everything the wireless one does and agrees with it; the devices and
  adapters listed are well-formed.
\<close>

unbundle bit_operations_syntax

section \<open>Addresses\<close>

lemma hex_upper:
  assumes "base_digit 16 c"
  shows "upper_hex_digits ! nat (hex_value c) = std_toupper c \<and> nat (hex_value c) < 16"
proof -
  let ?digits = "''0123456789abcdefABCDEF''"
  have l: "list_all (\<lambda>c. upper_hex_digits ! nat (hex_value c) = std_toupper c \<and> nat (hex_value c) < 16) ?digits"
    by code_simp
  have "map uchar ?digits = [48, 49, 50, 51, 52, 53, 54, 55, 56, 57, 97, 98, 99, 100, 101, 102, 65, 66, 67, 68, 69, 70]"
    by code_simp
  moreover have "uchar c \<in> set [48, 49, 50, 51, 52, 53, 54, 55, 56, 57, 97, 98, 99, 100, 101, 102, 65, 66, 67, 68, 69, 70]"
    using assms by (simp add: base_digit_def hex_value_def split: if_splits; presburger)
  ultimately have "uchar c \<in> uchar ` set ?digits" by (metis set_map)
  then have "c \<in> set ?digits" by (auto simp only: image_iff uchar_eq_iff)
  with l show ?thesis unfolding list_all_iff by blast
qed

lemma joined_nibbles:
  assumes "h < 16" "l < 16"
  shows "mac_byte (push_bit 4 (of_nat h) OR of_nat l) = [upper_hex_digits ! h, upper_hex_digits ! l]"
proof -
  let ?b = "push_bit 4 (of_nat h) OR of_nat l :: u8"
  have n: "unat (of_nat h :: u8) = h" "unat (of_nat l :: u8) = l"
    using assms by (simp_all add: unat_of_nat take_bit_nat_eq_self)
  have b: "unat ?b = h * 16 + l"
    using assms by (subst unat_shift_or) (simp_all add: n)
  have "unat (drop_bit 4 ?b AND 0x0F) = h"
    using assms by (simp only: unat_and_low unat_drop_bit b) simp
  moreover have "unat (?b AND 0x0F) = l"
    using assms by (simp only: unat_and_low b) simp
  ultimately show ?thesis unfolding mac_byte_def by simp
qed

lemma mac_pair_Some:
  assumes "mac_pair raw pos = Some b" "pos + 1 < length raw"
  shows "base_digit 16 (raw ! pos) \<and> base_digit 16 (raw ! (pos + 1)) \<and>
    mac_byte b = [std_toupper (raw ! pos), std_toupper (raw ! (pos + 1))]"
proof -
  have s: "substr raw pos 1 = [raw ! pos]" "substr raw (pos + 1) 1 = [raw ! (pos + 1)]"
    using assms(2) by (simp_all add: substr_def drop_cons_nth)
  let ?h = "nat (hex_value (raw ! pos))" and ?l = "nat (hex_value (raw ! (pos + 1)))"
  have d: "base_digit 16 (raw ! pos)" "base_digit 16 (raw ! (pos + 1))" "b = push_bit 4 (of_nat ?h) OR of_nat ?l"
    using assms(1) unfolding mac_pair_def s parse_digit by (auto split: if_splits)
  show ?thesis
    using d hex_upper [OF d(1)] hex_upper [OF d(2)] joined_nibbles [of ?h ?l] by simp
qed

definition digit_pairs :: "string \<Rightarrow> string" where
  "digit_pairs hex = concat (map (\<lambda>i. (if i > 0 then '':'' else []) @ [hex ! (2 * i), hex ! (2 * i + 1)]) [0..<6])"

lemma digit_pairs_explicit:
  "digit_pairs [a, b, c, d, e, f, g, h, i, j, k, l] =
     [a, b] @ '':'' @ [c, d] @ '':'' @ [e, f] @ '':'' @ [g, h] @ '':'' @ [i, j] @ '':'' @ [k, l]"
proof -
  have "[0..<6] = [0, 1, 2, 3, 4, 5 :: nat]" by code_simp
  then show ?thesis by (simp add: digit_pairs_def)
qed

lemma mac_bytes_six:
  "mac_bytes f [0..<6] = Some bs \<Longrightarrow>
   \<exists>b0 b1 b2 b3 b4 b5. bs = [b0, b1, b2, b3, b4, b5] \<and> f 0 = Some b0 \<and> f 1 = Some b1 \<and> f 2 = Some b2 \<and>
     f 3 = Some b3 \<and> f 4 = Some b4 \<and> f 5 = Some b5"
proof -
  have "[0..<6] = [0, 1, 2, 3, 4, 5 :: nat]" by code_simp
  then show "mac_bytes f [0..<6] = Some bs \<Longrightarrow> ?thesis" by (auto split: option.splits)
qed

lemma separator_digits: "\<not> base_digit 16 (CHR '':'')" "\<not> base_digit 16 (CHR ''-'')"
  by code_simp+

text \<open>
  The two address parsers agree: whatever the wireless module normalises, the Bluetooth module
  normalises to the same text.
\<close>

theorem address_parsers_agree:
  "case normalize_mac_address s of None \<Rightarrow> True | Some m \<Rightarrow> bt_normalize_mac_address s = Some m"
proof (cases "normalize_mac_address s")
  case (Some m)
  let ?raw = "trim_whitespace s"
  consider (seps) "length ?raw = 17" "?raw ! 2 = CHR '':'' \<or> ?raw ! 2 = CHR ''-''" | (bare) "length ?raw = 12"
    using Some by (auto simp: normalize_mac_address_def Let_def split: if_splits)
  then show ?thesis
  proof cases
    case bare
    then obtain bs where m: "mac_bytes (\<lambda>i. mac_pair ?raw (i * 2)) [0..<6] = Some bs" "m = format_mac_bytes bs"
      using Some by (auto simp: normalize_mac_address_def Let_def)
    obtain b0 b1 b2 b3 b4 b5 where b: "bs = [b0, b1, b2, b3, b4, b5]"
      "mac_pair ?raw 0 = Some b0" "mac_pair ?raw 2 = Some b1" "mac_pair ?raw 4 = Some b2"
      "mac_pair ?raw 6 = Some b3" "mac_pair ?raw 8 = Some b4" "mac_pair ?raw 10 = Some b5"
      using mac_bytes_six [OF m(1)] by auto
    obtain c0 c1 c2 c3 c4 c5 c6 c7 c8 c9 c10 c11 where raw: "?raw = [c0, c1, c2, c3, c4, c5, c6, c7, c8, c9, c10, c11]"
      using bare by (auto simp: eval_nat_numeral length_Suc_conv)
    note p = mac_pair_Some [OF b(2)] mac_pair_Some [OF b(3)] mac_pair_Some [OF b(4)] mac_pair_Some [OF b(5)]
      mac_pair_Some [OF b(6)] mac_pair_Some [OF b(7)]
    have "address_digits ?raw = Some (map std_toupper ?raw)"
      using p by (simp add: raw)
    then have "bt_normalize_mac_address s = Some (digit_pairs (map std_toupper ?raw))"
      using bare by (simp add: bt_normalize_mac_address_def digit_pairs_def)
    moreover have "digit_pairs (map std_toupper ?raw) = m"
      using p by (simp add: raw digit_pairs_explicit m(2) b(1) format_six)
    ultimately show ?thesis using Some by simp
  next
    case seps
    let ?sep = "?raw ! 2"
    obtain bs where m: "mac_bytes (\<lambda>i. if i > 0 \<and> ?raw ! (i * 3 - 1) \<noteq> ?sep then None else mac_pair ?raw (i * 3)) [0..<6] = Some bs"
      "m = format_mac_bytes bs"
      using Some seps by (auto simp: normalize_mac_address_def Let_def)
    obtain b0 b1 b2 b3 b4 b5 where b: "bs = [b0, b1, b2, b3, b4, b5]"
      "mac_pair ?raw 0 = Some b0" "mac_pair ?raw 3 = Some b1" "mac_pair ?raw 6 = Some b2"
      "mac_pair ?raw 9 = Some b3" "mac_pair ?raw 12 = Some b4" "mac_pair ?raw 15 = Some b5"
      and s: "?raw ! 5 = ?sep" "?raw ! 8 = ?sep" "?raw ! 11 = ?sep" "?raw ! 14 = ?sep"
      using mac_bytes_six [OF m(1)] by (auto split: if_splits)
    obtain c0 c1 c2 c3 c4 c5 c6 c7 c8 c9 c10 c11 c12 c13 c14 c15 c16 where
      raw: "?raw = [c0, c1, c2, c3, c4, c5, c6, c7, c8, c9, c10, c11, c12, c13, c14, c15, c16]"
      using seps(1) by (auto simp: eval_nat_numeral length_Suc_conv)
    note p = mac_pair_Some [OF b(2)] mac_pair_Some [OF b(3)] mac_pair_Some [OF b(4)] mac_pair_Some [OF b(5)]
      mac_pair_Some [OF b(6)] mac_pair_Some [OF b(7)]
    have "address_digits ?raw = Some (map std_toupper [c0, c1, c3, c4, c6, c7, c9, c10, c12, c13, c15, c16])"
      using p s seps(2) separator_digits by (auto simp: raw)
    then have "bt_normalize_mac_address s =
        Some (digit_pairs (map std_toupper [c0, c1, c3, c4, c6, c7, c9, c10, c12, c13, c15, c16]))"
      by (simp add: bt_normalize_mac_address_def digit_pairs_def)
    moreover have "digit_pairs (map std_toupper [c0, c1, c3, c4, c6, c7, c9, c10, c12, c13, c15, c16]) = m"
      using p by (simp add: raw digit_pairs_explicit m(2) b(1) format_six)
    ultimately show ?thesis using Some by simp
  qed
qed simp

lemma std_toupper_digit: "base_digit 16 c \<Longrightarrow> base_digit 16 (std_toupper c) \<and> std_toupper (std_toupper c) = std_toupper c"
proof -
  assume c: "base_digit 16 c"
  have "list_all (\<lambda>c. std_toupper c = c) upper_hex_digits" by code_simp
  moreover have "upper_hex_digits ! nat (hex_value c) \<in> set upper_hex_digits"
    using hex_upper [OF c] by (intro nth_mem) (simp add: upper_hex_digits_def)
  ultimately have "std_toupper (upper_hex_digits ! nat (hex_value c)) = upper_hex_digits ! nat (hex_value c)"
    unfolding list_all_iff by blast
  then show ?thesis using hex_upper [OF c] upper_digit by metis
qed

lemma address_digits_upper: "address_digits s = Some hex \<Longrightarrow> list_all (\<lambda>c. base_digit 16 c \<and> std_toupper c = c) hex"
  by (induction s arbitrary: hex) (auto simp: std_toupper_digit split: if_splits)

lemma bt_normalize_idem:
  assumes "bt_normalize_mac_address s = Some m"
  shows "bt_normalize_mac_address m = Some m"
proof -
  obtain hex where h: "address_digits (trim_whitespace s) = Some hex" "length hex = 12" "m = digit_pairs hex"
    using assms by (auto simp: bt_normalize_mac_address_def digit_pairs_def split: option.splits if_splits)
  then obtain a b c d e f g h' i j k l where x: "hex = [a, b, c, d, e, f, g, h', i, j, k, l]"
    by (auto simp: eval_nat_numeral length_Suc_conv)
  note u = address_digits_upper [OF h(1)]
  have "trim_whitespace m = m"
    using u base_digit_not_space [of 16] by (intro trim_whitespace_id) (simp add: h(3) x digit_pairs_explicit)
  moreover have "address_digits m = Some hex"
    using u separator_digits by (simp add: h(3) x digit_pairs_explicit)
  ultimately show ?thesis
    using h(2,3) by (simp add: bt_normalize_mac_address_def digit_pairs_def)
qed

section \<open>Devices\<close>

definition paired_ok :: "bt_device \<Rightarrow> bool" where
  "paired_ok d \<longleftrightarrow>
     bt_normalize_mac_address (bd_address d) = Some (bd_address d) \<and> bd_is_paired d = Some True \<and>
     (case bd_name d of None \<Rightarrow> True | Some n \<Rightarrow> is_valid_utf8 n) \<and>
     (case bd_class_of_device d of
        None \<Rightarrow> bd_device_type d = major_device_class.unknown
      | Some c \<Rightarrow> bd_device_type d = decode_major_device_class c)"

definition info_ok :: "string \<Rightarrow> bt_device \<Rightarrow> bool" where
  "info_ok mac d \<longleftrightarrow> bd_address d = mac \<and> bd_is_paired d \<noteq> None \<and>
     (case bd_name d of None \<Rightarrow> True | Some n \<Rightarrow> is_valid_utf8 n) \<and>
     (case bd_class_of_device d of
        None \<Rightarrow> bd_device_type d = major_device_class.unknown
      | Some c \<Rightarrow> bd_device_type d = decode_major_device_class c)"

lemma info_field_ok: "info_ok mac d \<Longrightarrow> info_field key val d = Value d' \<Longrightarrow> info_ok mac d'"
  by (auto simp: info_field_def info_ok_def fail_def and_then_Value_iff split: if_splits option.splits)

lemma info_lines_ok: "info_ok mac d \<Longrightarrow> info_lines ls d = Value d' \<Longrightarrow> info_ok mac d'"
proof (induction ls arbitrary: d)
  case (Cons l ls)
  from Cons.prems(2) obtain d1 where d1: "info_line l d = Value d1" "info_lines ls d1 = Value d'"
    by (auto simp: and_then_Value_iff)
  have "info_ok mac d1"
    using d1(1) Cons.prems(1) info_field_ok by (auto simp: info_line_def Let_def split: if_splits option.splits)
  then show ?case using Cons.IH d1(2) by blast
qed simp

lemma shown_entries_invariant:
  assumes "\<And>name s s'. I s \<Longrightarrow> body name s = Value s' \<Longrightarrow> I s'" "I s" "shown_entries body es s = Value s'"
  shows "I s'"
  using assms(2,3)
proof (induction es arbitrary: s)
  case (Cons ev es)
  show ?case
  proof (cases ev)
    case (Entry name)
    then show ?thesis using Cons assms(1) [of s name] by (auto simp: and_then_Value_iff split: if_splits)
  next
    case (Readdir_error e)
    then show ?thesis using Cons.prems by (simp split: if_splits)
  qed
qed simp

lemma paired_entry_ok:
  assumes "list_all paired_ok ds" "paired_entry host path name ds = Value ds'"
  shows "list_all paired_ok ds'"
proof (cases "bt_normalize_mac_address name")
  case None
  then show ?thesis using assms by (simp add: paired_entry_def)
next
  case (Some mac)
  show ?thesis
  proof (cases "ho_read host (path @ ''/'' @ name @ ''/info'') 16384")
    case (Unexpected e)
    then show ?thesis using assms Some by (simp add: paired_entry_def split: if_splits)
  next
    case (Value content)
    then obtain d where d: "info_lines (lines_of content) ((new_bt_device mac)\<lparr>bd_is_paired := Some True\<rparr>) = Value d"
      "ds' = (if bd_is_paired d \<noteq> Some False then ds @ [d] else ds)"
      using assms(2) Some by (auto simp: paired_entry_def and_then_Value_iff)
    have "info_ok mac ((new_bt_device mac)\<lparr>bd_is_paired := Some True\<rparr>)"
      by (simp add: info_ok_def new_bt_device_def)
    then have "info_ok mac d" using info_lines_ok d(1) by blast
    then show ?thesis
      using assms(1) d(2) bt_normalize_idem [OF Some] by (auto simp: paired_ok_def info_ok_def)
  qed
qed

lemma shown_paired:
  assumes "list_all paired_ok a" "shown_entries (paired_entry host path) es a = Value b"
  shows "list_all paired_ok b"
  using paired_entry_ok assms by (rule shown_entries_invariant [of "list_all paired_ok" "paired_entry host path"])

lemma bt_directory_value:
  "bt_directory host path absent f = Value s \<Longrightarrow> absent = Value s \<or> f (ho_entries host path) = Value s"
  by (auto simp: bt_directory_def fail_def fail_errno_def split: option.splits if_splits)

text \<open>
  Every device the module reports as paired has an address in normal form, is not recorded as
  unbonded, has a name in valid UTF-8 if it has one, and a device type that is the decoded class.
\<close>

theorem paired_devices_wellformed:
  "case paired_devices host root of Value ds \<Rightarrow> list_all paired_ok ds | Unexpected e \<Rightarrow> True"
proof (cases "paired_devices host root")
  case (Value ds)
  have adapter: "list_all paired_ok b" if a: "list_all paired_ok a" and p: "paired_adapter host root name a = Value b" for name a b
  proof (cases "bt_normalize_mac_address name")
    case None
    then show ?thesis using a p by (simp add: paired_adapter_def)
  next
    case (Some mac)
    let ?path = "root @ ''/'' @ name"
    have "Value a = Value b \<or> shown_entries (paired_entry host ?path) (ho_entries host ?path) a = Value b"
      using p Some bt_directory_value [of host ?path "Value a"
          "\<lambda>es. shown_entries (paired_entry host ?path) es a" b]
      by (simp add: paired_adapter_def Let_def)
    then show ?thesis
      using a shown_paired by blast
  qed
  have "Value [] = Value ds \<or> shown_entries (paired_adapter host root) (ho_entries host root) [] = Value ds"
    using Value bt_directory_value [of host root "Value []"
        "\<lambda>es. shown_entries (paired_adapter host root) es []" ds] by (simp add: paired_devices_def)
  then have "list_all paired_ok ds"
    using shown_entries_invariant [of "list_all paired_ok" "paired_adapter host root" "[]"] adapter by fastforce
  then show ?thesis using Value by simp
qed simp

end
