(* ===== verification/From_Chars.thy ===== *)
theory From_Chars
  imports Text_Scan
begin

text \<open>
  \<open>std::from_chars\<close> in base ten with its three outcomes, and the idiom of the Linux backends around it:
  the whole text must be one number, a number out of range is \<open>value_too_large\<close>, any other text is
  \<open>malformed_data\<close>.
\<close>

section \<open>Conversions\<close>

datatype 'a chars_outcome = Parsed 'a string | Out_of_range | No_match

text \<open>An unsigned integer of \<open>w\<close> bits takes the longest run of digits.\<close>

definition from_chars_unsigned :: "nat \<Rightarrow> string \<Rightarrow> nat chars_outcome" where
  "from_chars_unsigned w s =
     (let ds = takeWhile is_digit s in
      if ds = [] then No_match
      else if dec_value ds \<ge> 2 ^ w then Out_of_range
      else Parsed (dec_value ds) (drop (length ds) s))"

text \<open>A signed one takes a minus sign before it.\<close>

definition from_chars_signed :: "nat \<Rightarrow> string \<Rightarrow> int chars_outcome" where
  "from_chars_signed w s =
     (let negative = (s \<noteq> [] \<and> hd s = CHR ''-'');
          body = (if negative then tl s else s);
          ds = takeWhile is_digit body;
          v = (if negative then - int (dec_value ds) else int (dec_value ds))
      in
      if ds = [] then No_match
      else if v < - (2 ^ (w - 1)) \<or> v \<ge> 2 ^ (w - 1) then Out_of_range
      else Parsed v (drop (length ds) body))"

fun whole_text :: "'a chars_outcome \<Rightarrow> 'a result" where
  "whole_text Out_of_range = fail errc.value_too_large"
| "whole_text No_match = fail errc.malformed_data"
| "whole_text (Parsed v rest) = (if rest \<noteq> [] then fail errc.malformed_data else Value v)"

definition whole_unsigned :: "nat \<Rightarrow> string \<Rightarrow> nat result" where
  "whole_unsigned w s = whole_text (from_chars_unsigned w s)"

definition whole_signed :: "nat \<Rightarrow> string \<Rightarrow> int result" where
  "whole_signed w s = whole_text (from_chars_signed w s)"

section \<open>Facts\<close>

lemma takeWhile_digits_all: "drop (length (takeWhile is_digit s)) s = [] \<longleftrightarrow> list_all is_digit s"
  by (metis append_Nil2 append_take_drop_id drop_eq_Nil length_takeWhile_le list_all_iff
      set_takeWhileD takeWhile_eq_take takeWhile_all le_antisym)

lemma whole_unsigned_iff:
  "whole_unsigned w s = Value v \<longleftrightarrow> s \<noteq> [] \<and> list_all is_digit s \<and> dec_value s = v \<and> v < 2 ^ w"
proof (cases "list_all is_digit s")
  case True
  then show ?thesis
    by (auto simp: whole_unsigned_def from_chars_unsigned_def Let_def takeWhile_all)
next
  case False
  then have "drop (length (takeWhile is_digit s)) s \<noteq> []" by (simp only: takeWhile_digits_all simp_thms)
  then show ?thesis
    using False by (auto simp: whole_unsigned_def from_chars_unsigned_def Let_def)
qed

lemma whole_unsigned_string [simp]:
  "n < 2 ^ w \<Longrightarrow> whole_unsigned w (dec_string n) = Value n"
  by (simp add: whole_unsigned_iff dec_string_digits)

text \<open>The three outcomes on a text of digits, on one that is none, and on any text.\<close>

lemma whole_unsigned_digits:
  assumes "s \<noteq> []" "list_all is_digit s"
  shows "whole_unsigned w s = (if dec_value s < 2 ^ w then Value (dec_value s) else fail errc.value_too_large)"
  using assms by (simp add: whole_unsigned_def from_chars_unsigned_def takeWhile_all)

lemma whole_unsigned_errors:
  "whole_unsigned w s = Unexpected c \<Longrightarrow>
   c = make_error_code errc.value_too_large \<or> c = make_error_code errc.malformed_data"
  by (auto simp: whole_unsigned_def from_chars_unsigned_def Let_def fail_def split: if_splits)

definition int_string :: "int \<Rightarrow> string" where
  "int_string n = (if n < 0 then CHR ''-'' # dec_string (nat (- n)) else dec_string (nat n))"

lemma dec_string_hd: "hd (dec_string n) \<noteq> CHR ''-''"
proof -
  have "is_digit (hd (dec_string n))"
    using dec_string_digits [of n] by (cases "dec_string n") auto
  then show ?thesis by (auto simp: is_digit_def)
qed

lemma whole_signed_string [simp]:
  assumes "- (2 ^ (w - 1)) \<le> n" "n < 2 ^ (w - 1)"
  shows "whole_signed w (int_string n) = Value n"
proof -
  have t: "takeWhile is_digit (dec_string k) = dec_string k" for k
    by (rule takeWhile_all) (rule dec_string_digits)
  show ?thesis
    using assms dec_string_hd [of "nat n"]
    by (simp add: whole_signed_def from_chars_signed_def int_string_def t Let_def)
qed

lemma whole_signed_range: "whole_signed w s = Value v \<Longrightarrow> - (2 ^ (w - 1)) \<le> v \<and> v < 2 ^ (w - 1)"
  by (auto simp: whole_signed_def from_chars_signed_def Let_def split: if_splits)

end
