(* ===== verification/Cpu.thy ===== *)
theory Cpu
  imports Linux_Files Utf8 Ordering From_Chars
begin

text \<open>
  The processor module on Linux: \<open>cpu.hpp\<close>, \<open>detail/cpu/common.hpp\<close> and \<open>detail/cpu/linux.hpp\<close>. A
  processor number is a \<^typ>\<open>nat\<close>: the list parser bounds it by 2^20. Counters and sizes, where the
  code guards additions and products, are words.

  The file with the online processors is read twice by the cache query, which compares the two answers; the
  second one is an argument of the model. Every other file is read once per query.
\<close>

section \<open>Types\<close>

datatype cache_kind = data | instruction | unified | trace | unknown

fun cache_kind_value :: "cache_kind \<Rightarrow> nat" where
  "cache_kind_value data = 0"
| "cache_kind_value instruction = 1"
| "cache_kind_value unified = 2"
| "cache_kind_value trace = 3"
| "cache_kind_value unknown = 4"

record usage_information =
  us_user_ticks :: u64
  us_system_ticks :: u64
  us_idle_ticks :: u64

record cache_entry =
  ce_level :: u32
  ce_kind :: cache_kind
  ce_instance_size_bytes :: u64
  ce_line_size_bytes :: u32
  ce_associativity_ways :: u32
  ce_sets_count :: u32
  ce_shared_logical_processor_count :: u32

section \<open>Boundary validation\<close>

fun labels_usable :: "string list \<Rightarrow> bool" where
  "labels_usable [] = True"
| "labels_usable (l # ls) = (if l = [] \<or> \<not> is_valid_utf8 l then False else labels_usable ls)"

definition validate_utf8_labels :: "string list result \<Rightarrow> string list result" where
  "validate_utf8_labels v =
     and_then v (\<lambda>ls.
       if ls = [] then fail errc.malformed_data
       else if \<not> labels_usable ls then fail errc.malformed_data
       else Value ls)"

text \<open>The loop of the cache validator; \<open>previous\<close> holds level and kind of the entry before.\<close>

fun cache_entries_usable :: "(u32 \<times> cache_kind) option \<Rightarrow> cache_entry list \<Rightarrow> bool" where
  "cache_entries_usable previous [] = True"
| "cache_entries_usable previous (e # es) =
     (if ce_level e = 0 \<or> ce_instance_size_bytes e = 0 \<or> ce_line_size_bytes e = 0 then False
      else if (case previous of
                 None \<Rightarrow> False
               | Some (lv, k) \<Rightarrow>
                   ce_level e < lv \<or> (ce_level e = lv \<and> cache_kind_value (ce_kind e) < cache_kind_value k))
        then False
      else cache_entries_usable (Some (ce_level e, ce_kind e)) es)"

definition validate_cache_entries :: "cache_entry list result \<Rightarrow> cache_entry list result" where
  "validate_cache_entries r =
     and_then r (\<lambda>es. if \<not> cache_entries_usable None es then fail errc.malformed_data else Value es)"

section \<open>Text of /proc/cpuinfo\<close>

definition cpu_space :: "char \<Rightarrow> bool" where
  "cpu_space c \<longleftrightarrow> c = CHR '' '' \<or> c = tab \<or> c = carriage_return \<or> c = newline"

definition trim_cpu_field :: "string \<Rightarrow> string" where
  "trim_cpu_field s = trim_back cpu_space (dropWhile cpu_space s)"

definition append_unique_label :: "string list \<Rightarrow> string \<Rightarrow> string list" where
  "append_unique_label labels value = (if value \<notin> set labels then labels @ [value] else labels)"

definition is_vendor_key :: "string \<Rightarrow> bool" where
  "is_vendor_key key \<longleftrightarrow> key = ''vendor_id'' \<or> key = ''CPU implementer'' \<or> key = ''vendor''"

definition is_model_key :: "string \<Rightarrow> bool" where
  "is_model_key key \<longleftrightarrow> key = ''model name'' \<or> key = ''Processor'' \<or> key = ''cpu model''"

record identity_information =
  id_vendors :: "string list"
  id_models :: "string list"

definition no_identity :: identity_information where
  "no_identity = \<lparr>id_vendors = [], id_models = []\<rparr>"

text \<open>Key and value of a line, if it has a colon.\<close>

definition cpuinfo_field :: "string \<Rightarrow> (string \<times> string) option" where
  "cpuinfo_field line =
     (case find_from (CHR '':'') line 0 of
        None \<Rightarrow> None
      | Some n \<Rightarrow> Some (trim_cpu_field (take n line), trim_cpu_field (drop (n + 1) line)))"

definition identity_field :: "string \<Rightarrow> string \<Rightarrow> identity_information \<Rightarrow> identity_information result" where
  "identity_field key value output =
     (if \<not> is_vendor_key key \<and> \<not> is_model_key key then Value output
      else if value = [] then fail errc.malformed_data
      else if is_vendor_key key
        then Value (output\<lparr>id_vendors := append_unique_label (id_vendors output) value\<rparr>)
      else Value (output\<lparr>id_models := append_unique_label (id_models output) value\<rparr>))"

text \<open>The line loop of the three readers of this file: lines without a colon are skipped.\<close>

fun cpuinfo_lines :: "(string \<Rightarrow> string \<Rightarrow> 's \<Rightarrow> 's result) \<Rightarrow> string list \<Rightarrow> 's \<Rightarrow> 's result" where
  "cpuinfo_lines body [] s = Value s"
| "cpuinfo_lines body (line # ls) s =
     (case cpuinfo_field line of
        None \<Rightarrow> cpuinfo_lines body ls s
      | Some (key, value) \<Rightarrow> and_then (body key value s) (cpuinfo_lines body ls))"

definition parse_cpuinfo :: "string \<Rightarrow> identity_information result" where
  "parse_cpuinfo input = cpuinfo_lines identity_field (lines_of input) no_identity"

definition maximum_cpuinfo_size :: nat where
  "maximum_cpuinfo_size = 16 * 1024 * 1024"

definition identity :: "host \<Rightarrow> identity_information result" where
  "identity host = and_then (ho_read host ''/proc/cpuinfo'' maximum_cpuinfo_size) parse_cpuinfo"

definition vendor_identifiers :: "host \<Rightarrow> string list result" where
  "vendor_identifiers host =
     and_then (identity host) (\<lambda>v. if id_vendors v = [] then fail errc.not_found else Value (id_vendors v))"

definition model_names :: "host \<Rightarrow> string list result" where
  "model_names host =
     and_then (identity host) (\<lambda>v. if id_models v = [] then fail errc.not_found else Value (id_models v))"

section \<open>Processor counts and lists\<close>

text \<open>A \<open>long\<close> and the error number that \<open>sysconf\<close> left.\<close>

definition positive_processor_count :: "int \<Rightarrow> int \<Rightarrow> nat result" where
  "positive_processor_count errno v =
     (if v < 0 then (if errno = 0 then fail errc.not_supported else fail_errno errno)
      else if v = 0 then fail errc.malformed_data
      else if nat v > 2 ^ 32 - 1 then fail errc.value_too_large
      else Value (nat v))"

definition maximum_cpu_index :: nat where
  "maximum_cpu_index = 1024 * 1024"

text \<open>The two texts of an item; with no dash the only text is both.\<close>

definition range_texts :: "string \<Rightarrow> (string \<times> string) option" where
  "range_texts item =
     (case find_from (CHR ''-'') item 0 of
        None \<Rightarrow> if item = [] then None else Some (item, item)
      | Some dash \<Rightarrow>
          (let first_text = take dash item; last_text = drop (dash + 1) item in
           if first_text = [] \<or> last_text = [] \<or> find_from (CHR ''-'') item (dash + 1) \<noteq> None then None
           else Some (first_text, last_text)))"

definition cpu_range :: "string \<Rightarrow> (nat \<times> nat) option" where
  "cpu_range item =
     (case range_texts item of
        None \<Rightarrow> None
      | Some (first_text, last_text) \<Rightarrow>
          (case (from_chars_unsigned 32 first_text, from_chars_unsigned 32 last_text) of
             (Parsed first rest1, Parsed last' rest2) \<Rightarrow>
               if rest1 \<noteq> [] \<or> rest2 \<noteq> [] \<or> first > last' \<or> last' > maximum_cpu_index then None
               else Some (first, last')
           | _ \<Rightarrow> None))"

fun cpu_items :: "string list \<Rightarrow> nat set \<Rightarrow> nat set result" where
  "cpu_items [] values = Value values"
| "cpu_items (piece # pieces) values =
     (let item = trim_cpu_field piece in
      if item = [] then fail errc.malformed_data
      else (case cpu_range item of
          None \<Rightarrow> fail errc.malformed_data
        | Some (first, last') \<Rightarrow> cpu_items pieces (fold insert [first..<Suc last'] values)))"

definition parse_cpu_list :: "string \<Rightarrow> nat list result" where
  "parse_cpu_list raw =
     (let input = trim_cpu_field raw in
      if input = [] then fail errc.malformed_data
      else and_then (cpu_items (pieces_of (CHR '','') input) {}) (\<lambda>values. Value (sorted_list_of_set values)))"

definition online_path :: string where
  "online_path = ''/sys/devices/system/cpu/online''"

definition online_text :: "host \<Rightarrow> string result" where
  "online_text host = ho_read host online_path (1024 * 1024)"

definition cpu_path :: "nat \<Rightarrow> string" where
  "cpu_path cpu = ''/sys/devices/system/cpu/cpu'' @ dec_string cpu"

section \<open>Topology\<close>

definition parse_topology_id :: "string \<Rightarrow> int result" where
  "parse_topology_id raw =
     (let input = trim_cpu_field raw in
      if input = [] then fail errc.malformed_data
      else and_then (whole_signed 32 input) (\<lambda>v.
        if v = - 1 then fail errc.not_supported
        else if v < 0 then fail errc.malformed_data
        else Value v))"

definition read_topology_id :: "host \<Rightarrow> nat \<Rightarrow> string \<Rightarrow> int result" where
  "read_topology_id host cpu name =
     (case ho_read host (cpu_path cpu @ ''/topology/'' @ name) 128 of
        Value content \<Rightarrow> parse_topology_id content
      | Unexpected e \<Rightarrow> if is_no_such_file e then fail errc.temporarily_unavailable else Unexpected e)"

record topology_information =
  tp_physical_cores :: nat
  tp_packages :: nat

fun topology_sets :: "host \<Rightarrow> nat list \<Rightarrow> int set \<times> (int \<times> int) set \<Rightarrow> (int set \<times> (int \<times> int) set) result" where
  "topology_sets host [] sets = Value sets"
| "topology_sets host (cpu # cpus) sets =
     and_then (read_topology_id host cpu ''physical_package_id'') (\<lambda>package.
     and_then (read_topology_id host cpu ''core_id'') (\<lambda>core.
       topology_sets host cpus (insert package (fst sets), insert (package, core) (snd sets))))"

definition online_topology :: "host \<Rightarrow> topology_information result" where
  "online_topology host =
     and_then (online_text host) (\<lambda>txt.
     and_then (parse_cpu_list txt) (\<lambda>online.
       if online = [] then fail errc.malformed_data
       else and_then (topology_sets host online ({}, {})) (\<lambda>(packages, cores).
         if packages = {} \<or> cores = {} then fail errc.malformed_data
         else if card packages > 2 ^ 32 - 1 \<or> card cores > 2 ^ 32 - 1 then fail errc.value_too_large
         else Value \<lparr>tp_physical_cores = card cores, tp_packages = card packages\<rparr>)))"

definition online_physical_core_count :: "host \<Rightarrow> nat result" where
  "online_physical_core_count host = and_then (online_topology host) (\<lambda>t. Value (tp_physical_cores t))"

definition online_processor_package_count :: "host \<Rightarrow> nat result" where
  "online_processor_package_count host = and_then (online_topology host) (\<lambda>t. Value (tp_packages t))"

section \<open>Frequencies\<close>

definition parse_khz_text :: "string \<Rightarrow> nat result" where
  "parse_khz_text raw =
     (let input = trim_cpu_field raw in
      if input = [] then fail errc.malformed_data
      else and_then (whole_unsigned 64 input) (\<lambda>v.
        if v = 0 then fail errc.malformed_data
        else if v > 2 ^ 32 - 1 then fail errc.value_too_large
        else Value v))"

definition maximum_megahertz :: u64 where
  "maximum_megahertz = 0xFFFFFFFF div 1000"

fun mhz_whole :: "u64 \<Rightarrow> string \<Rightarrow> (u64 \<times> string) result" where
  "mhz_whole megahertz [] = Value (megahertz, [])"
| "mhz_whole megahertz (c # cs) =
     (if is_digit c then
        (if megahertz > maximum_megahertz then fail errc.value_too_large
         else mhz_whole (megahertz * 10 + digit_u64 c) cs)
      else Value (megahertz, c # cs))"

record mhz_fraction =
  mf_fraction :: u32
  mf_digits :: nat
  mf_round_up :: bool

definition mhz_digit :: "char \<Rightarrow> mhz_fraction \<Rightarrow> mhz_fraction" where
  "mhz_digit c f =
     (let digit = of_nat (uchar c - 48) :: u32 in
      \<lparr>mf_fraction = (if mf_digits f < 3 then mf_fraction f * 10 + digit else mf_fraction f),
       mf_digits = mf_digits f + 1,
       mf_round_up = (if \<not> mf_digits f < 3 \<and> mf_digits f = 3 \<and> digit \<ge> 5 then True else mf_round_up f)\<rparr>)"

fun mhz_digits :: "string \<Rightarrow> mhz_fraction \<Rightarrow> mhz_fraction \<times> string" where
  "mhz_digits [] f = (f, [])"
| "mhz_digits (c # cs) f = (if is_digit c then mhz_digits cs (mhz_digit c f) else (f, c # cs))"

text \<open>What follows the whole megahertz: nothing, or a point and digits up to the end.\<close>

definition mhz_rest :: "string \<Rightarrow> mhz_fraction result" where
  "mhz_rest s =
     (let zero = \<lparr>mf_fraction = 0, mf_digits = 0, mf_round_up = False\<rparr> in
      if s = [] then Value zero
      else if hd s \<noteq> CHR ''.'' then fail errc.malformed_data
      else (let (f, rest) = mhz_digits (tl s) zero in
            if mf_digits f = 0 \<or> rest \<noteq> [] then fail errc.malformed_data else Value f))"

text \<open>\<open>while (fraction_digits < 3U) { fraction *= 10U; ++fraction_digits; }\<close>.\<close>

definition padded_fraction :: "mhz_fraction \<Rightarrow> u32" where
  "padded_fraction f = mf_fraction f * 10 ^ (3 - mf_digits f)"

definition parse_mhz_text :: "string \<Rightarrow> nat result" where
  "parse_mhz_text raw =
     (let input = trim_cpu_field raw in
      if input = [] then fail errc.malformed_data
      else and_then (mhz_whole 0 input) (\<lambda>(megahertz, rest).
        if rest = input then fail errc.malformed_data
        else and_then (mhz_rest rest) (\<lambda>f.
          let kilohertz = megahertz * 1000 + ucast (padded_fraction f);
              kilohertz = (if mf_round_up f then kilohertz + 1 else kilohertz)
          in
          if kilohertz = 0 then fail errc.malformed_data
          else if kilohertz > 0xFFFFFFFF then fail errc.value_too_large
          else Value (unat kilohertz))))"

record frequency_scan =
  fs_values :: "nat list"
  fs_blocks :: nat
  fs_pending_block :: bool

definition frequency_field :: "string \<Rightarrow> string \<Rightarrow> frequency_scan \<Rightarrow> frequency_scan result" where
  "frequency_field key value s =
     (if key \<noteq> ''processor'' \<and> key \<noteq> ''cpu MHz'' then Value s
      else if key = ''processor'' then
        (if \<not> has_value (whole_unsigned 32 value) then fail errc.malformed_data
         else if fs_pending_block s then fail errc.malformed_data
         else Value (s\<lparr>fs_blocks := fs_blocks s + 1, fs_pending_block := True\<rparr>))
      else if \<not> fs_pending_block s then fail errc.malformed_data
      else and_then (parse_mhz_text value) (\<lambda>f.
        Value (s\<lparr>fs_values := fs_values s @ [f], fs_pending_block := False\<rparr>)))"

definition parse_cpuinfo_frequencies :: "string \<Rightarrow> nat list result" where
  "parse_cpuinfo_frequencies input =
     and_then (cpuinfo_lines frequency_field (lines_of input)
         \<lparr>fs_values = [], fs_blocks = 0, fs_pending_block = False\<rparr>) (\<lambda>s.
       if fs_blocks s = 0 then fail errc.malformed_data
       else if fs_values s = [] then fail errc.not_supported
       else if length (fs_values s) \<noteq> fs_blocks s then fail errc.malformed_data
       else Value (fs_values s))"

definition cpuinfo_current_frequencies :: "host \<Rightarrow> nat list result" where
  "cpuinfo_current_frequencies host =
     and_then (ho_read host ''/proc/cpuinfo'' maximum_cpuinfo_size) parse_cpuinfo_frequencies"

fun sysfs_current_frequencies :: "host \<Rightarrow> nat list \<Rightarrow> nat list result" where
  "sysfs_current_frequencies host [] = Value []"
| "sysfs_current_frequencies host (cpu # cpus) =
     (case ho_read host (cpu_path cpu @ ''/cpufreq/scaling_cur_freq'') 128 of
        Unexpected e \<Rightarrow> if is_no_such_file e then fail errc.not_supported else Unexpected e
      | Value content \<Rightarrow>
          and_then (parse_khz_text content) (\<lambda>v.
          and_then (sysfs_current_frequencies host cpus) (\<lambda>vs. Value (v # vs))))"

definition current_frequencies_khz :: "host \<Rightarrow> nat list result" where
  "current_frequencies_khz host =
     (case online_text host of
        Value txt \<Rightarrow>
          and_then (parse_cpu_list txt) (\<lambda>online.
            let values = sysfs_current_frequencies host online in
            if values \<noteq> fail errc.not_supported then values else cpuinfo_current_frequencies host)
      | Unexpected e \<Rightarrow>
          if \<not> is_no_such_file e then Unexpected e else cpuinfo_current_frequencies host)"

text \<open>A processor without the attribute is skipped.\<close>

fun cpufreq_bounds :: "host \<Rightarrow> string \<Rightarrow> nat list \<Rightarrow> nat list result" where
  "cpufreq_bounds host attribute [] = Value []"
| "cpufreq_bounds host attribute (cpu # cpus) =
     (case ho_read host (cpu_path cpu @ ''/cpufreq/'' @ attribute) 128 of
        Unexpected e \<Rightarrow> if is_no_such_file e then cpufreq_bounds host attribute cpus else Unexpected e
      | Value content \<Rightarrow>
          and_then (parse_khz_text content) (\<lambda>v.
          and_then (cpufreq_bounds host attribute cpus) (\<lambda>vs. Value (v # vs))))"

definition collect_cpufreq_bounds :: "host \<Rightarrow> string \<Rightarrow> nat list result" where
  "collect_cpufreq_bounds host attribute =
     and_then (online_text host) (\<lambda>txt.
     and_then (parse_cpu_list txt) (\<lambda>online.
     and_then (cpufreq_bounds host attribute online) (\<lambda>values.
       if values \<noteq> [] then Value values else fail errc.not_supported)))"

definition minimum_frequency_khz :: "host \<Rightarrow> nat result" where
  "minimum_frequency_khz host =
     and_then (collect_cpufreq_bounds host ''cpuinfo_min_freq'') (\<lambda>vs. Value (Min (set vs)))"

definition maximum_frequency_khz :: "host \<Rightarrow> nat result" where
  "maximum_frequency_khz host =
     and_then (collect_cpufreq_bounds host ''cpuinfo_max_freq'') (\<lambda>vs. Value (Max (set vs)))"

section \<open>Caches\<close>

definition parse_signed_cache_attribute :: "string \<Rightarrow> int result" where
  "parse_signed_cache_attribute raw =
     (let input = trim_cpu_field raw in
      if input = [] then fail errc.malformed_data
      else and_then (whole_signed 64 input) (\<lambda>v.
        if v = - 1 then Value 0 else if v < 0 then fail errc.malformed_data else Value v))"

definition parse_positive_cache_attribute :: "string \<Rightarrow> u32 result" where
  "parse_positive_cache_attribute input =
     and_then (parse_signed_cache_attribute input) (\<lambda>v.
       if v = 0 then fail errc.malformed_data
       else if nat v > 2 ^ 32 - 1 then fail errc.value_too_large
       else Value (of_int v))"

definition parse_optional_cache_attribute :: "string \<Rightarrow> u32 result" where
  "parse_optional_cache_attribute input =
     (if trim_cpu_field input = [] then Value 0
      else and_then (parse_signed_cache_attribute input) (\<lambda>v.
        if nat v > 2 ^ 32 - 1 then fail errc.value_too_large else Value (of_int v)))"

definition size_multiplier :: "char \<Rightarrow> u64 option" where
  "size_multiplier c =
     (if c = CHR ''K'' then Some 1024
      else if c = CHR ''M'' then Some (1024 * 1024)
      else if c = CHR ''G'' then Some (1024 * 1024 * 1024)
      else None)"

definition parse_cache_size_bytes :: "string \<Rightarrow> u64 result" where
  "parse_cache_size_bytes raw =
     (let input = trim_cpu_field raw in
      if length input < 2 then fail errc.malformed_data
      else (case size_multiplier (last input) of
          None \<Rightarrow> fail errc.malformed_data
        | Some multiplier \<Rightarrow>
            and_then (whole_unsigned 64 (butlast input)) (\<lambda>n.
              let v = of_nat n :: u64 in
              if v \<noteq> 0 \<and> multiplier > 0xFFFFFFFFFFFFFFFF div v then fail errc.value_too_large
              else if v * multiplier = 0 then fail errc.malformed_data
              else Value (v * multiplier))))"

definition parse_cache_type :: "string \<Rightarrow> cache_kind result" where
  "parse_cache_type raw =
     (let input = trim_cpu_field raw in
      if input = ''Data'' then Value data
      else if input = ''Instruction'' then Value instruction
      else if input = ''Unified'' then Value unified
      else fail errc.malformed_data)"

record observed_cache_instance =
  oc_entry :: cache_entry
  oc_shared_processors :: "nat list"

definition precedes :: "observed_cache_instance \<Rightarrow> observed_cache_instance \<Rightarrow> bool" where
  "precedes left right =
     (if ce_level (oc_entry left) \<noteq> ce_level (oc_entry right)
        then ce_level (oc_entry left) < ce_level (oc_entry right)
      else if cache_kind_value (ce_kind (oc_entry left)) \<noteq> cache_kind_value (ce_kind (oc_entry right))
        then cache_kind_value (ce_kind (oc_entry left)) < cache_kind_value (ce_kind (oc_entry right))
      else oc_shared_processors left < oc_shared_processors right)"

definition same_group :: "observed_cache_instance \<Rightarrow> observed_cache_instance \<Rightarrow> bool" where
  "same_group left right \<longleftrightarrow>
     ce_level (oc_entry left) = ce_level (oc_entry right) \<and> ce_kind (oc_entry left) = ce_kind (oc_entry right)"

definition same_instance :: "observed_cache_instance \<Rightarrow> observed_cache_instance \<Rightarrow> bool" where
  "same_instance left right \<longleftrightarrow>
     same_group left right \<and> oc_shared_processors left = oc_shared_processors right"

definition same_cache_geometry :: "cache_entry \<Rightarrow> cache_entry \<Rightarrow> bool" where
  "same_cache_geometry left right \<longleftrightarrow>
     ce_level left = ce_level right \<and> ce_kind left = ce_kind right \<and>
     ce_instance_size_bytes left = ce_instance_size_bytes right \<and>
     ce_line_size_bytes left = ce_line_size_bytes right \<and>
     ce_associativity_ways left = ce_associativity_ways right \<and>
     ce_sets_count left = ce_sets_count right \<and>
     ce_shared_logical_processor_count left = ce_shared_logical_processor_count right"

fun processor_sets_overlap :: "nat list \<Rightarrow> nat list \<Rightarrow> bool" where
  "processor_sets_overlap (l # ls) (r # rs) =
     (if l = r then True
      else if l < r then processor_sets_overlap ls (r # rs)
      else processor_sets_overlap (l # ls) rs)"
| "processor_sets_overlap _ _ = False"

definition read_required_cache_attribute :: "host \<Rightarrow> string \<Rightarrow> string result" where
  "read_required_cache_attribute host path =
     (case ho_read host path 4096 of
        Unexpected e \<Rightarrow> if is_no_such_file e then fail errc.temporarily_unavailable else Unexpected e
      | Value content \<Rightarrow> Value content)"

definition read_optional_cache_attribute :: "host \<Rightarrow> string \<Rightarrow> string result" where
  "read_optional_cache_attribute host path =
     (case ho_read host path 4096 of
        Unexpected e \<Rightarrow> if is_no_such_file e then Value [] else Unexpected e
      | Value content \<Rightarrow> Value content)"

text \<open>The processors that share the cache and are online.\<close>

definition cache_sharers :: "nat \<Rightarrow> nat list \<Rightarrow> string \<Rightarrow> nat list result" where
  "cache_sharers cpu online_processors shared_text =
     and_then (parse_cpu_list shared_text) (\<lambda>shared.
       if shared = [] then fail errc.malformed_data
       else if cpu \<notin> set shared then fail errc.temporarily_unavailable
       else (let online_shared = filter (\<lambda>p. p \<in> set online_processors) shared in
             if online_shared = [] then fail errc.temporarily_unavailable else Value online_shared))"

text \<open>One index directory after its type has been read.\<close>

definition observe_cache :: "host \<Rightarrow> nat \<Rightarrow> nat list \<Rightarrow> string \<Rightarrow> cache_kind \<Rightarrow> observed_cache_instance result" where
  "observe_cache host cpu online_processors directory kind =
     and_then (read_required_cache_attribute host (directory @ ''/level'')) (\<lambda>level_text.
     and_then (parse_positive_cache_attribute level_text) (\<lambda>level.
     and_then (read_required_cache_attribute host (directory @ ''/size'')) (\<lambda>size_text.
     and_then (parse_cache_size_bytes size_text) (\<lambda>sz.
     and_then (read_required_cache_attribute host (directory @ ''/coherency_line_size'')) (\<lambda>line_text.
     and_then (parse_positive_cache_attribute line_text) (\<lambda>line.
     and_then (read_required_cache_attribute host (directory @ ''/shared_cpu_list'')) (\<lambda>shared_text.
     and_then (cache_sharers cpu online_processors shared_text) (\<lambda>online_shared.
     and_then (read_optional_cache_attribute host (directory @ ''/ways_of_associativity'')) (\<lambda>ways_text.
     and_then (read_optional_cache_attribute host (directory @ ''/number_of_sets'')) (\<lambda>sets_text.
     and_then (parse_optional_cache_attribute ways_text) (\<lambda>ways.
     and_then (parse_optional_cache_attribute sets_text) (\<lambda>sets.
       Value \<lparr>oc_entry = \<lparr>ce_level = level, ce_kind = kind, ce_instance_size_bytes = sz,
            ce_line_size_bytes = line, ce_associativity_ways = ways, ce_sets_count = sets,
            ce_shared_logical_processor_count = of_nat (length online_shared)\<rparr>,
          oc_shared_processors = online_shared\<rparr>))))))))))))"

definition maximum_cache_index :: nat where
  "maximum_cache_index = 1024"

function observe_indices ::
    "host \<Rightarrow> nat \<Rightarrow> nat list \<Rightarrow> nat \<Rightarrow> observed_cache_instance list \<Rightarrow> observed_cache_instance list result" where
  "observe_indices host cpu online_processors index instances =
     (if index \<ge> maximum_cache_index then fail errc.value_too_large
      else
        (let directory = cpu_path cpu @ ''/cache/'' @ ''index'' @ dec_string index in
         and_then (read_optional_cache_attribute host (directory @ ''/type'')) (\<lambda>type_text.
           if type_text = [] then Value instances
           else and_then (parse_cache_type type_text) (\<lambda>kind.
             and_then (observe_cache host cpu online_processors directory kind) (\<lambda>observed.
               observe_indices host cpu online_processors (index + 1) (instances @ [observed]))))))"
  by pat_completeness auto
termination
  by (relation "measure (\<lambda>(host, cpu, online, index, instances). maximum_cache_index - index)") auto

declare observe_indices.simps [simp del]

definition observe_processor_caches ::
    "host \<Rightarrow> nat list \<Rightarrow> nat \<Rightarrow> observed_cache_instance list \<Rightarrow> observed_cache_instance list result" where
  "observe_processor_caches host online_processors cpu instances =
     observe_indices host cpu online_processors 0 instances"

fun observe_all ::
    "host \<Rightarrow> nat list \<Rightarrow> nat list \<Rightarrow> observed_cache_instance list \<Rightarrow> observed_cache_instance list result" where
  "observe_all host online [] instances = Value instances"
| "observe_all host online (cpu # cpus) instances =
     and_then (observe_processor_caches host online cpu instances) (observe_all host online cpus)"

text \<open>
  The loop over the sorted instances. \<open>kept\<close> holds the instances kept so far, the last one first, so that
  \<open>back()\<close> is its head and the walk from \<open>rbegin()\<close> its initial part in the same group.
\<close>

fun distinct_caches ::
    "observed_cache_instance list \<Rightarrow> observed_cache_instance list \<Rightarrow> observed_cache_instance list result" where
  "distinct_caches kept [] = Value (rev kept)"
| "distinct_caches kept (c # cs) =
     (if kept \<noteq> [] \<and> same_instance (hd kept) c then
        (if \<not> same_cache_geometry (oc_entry (hd kept)) (oc_entry c) then fail errc.temporarily_unavailable
         else distinct_caches kept cs)
      else if list_ex (\<lambda>previous. processor_sets_overlap (oc_shared_processors previous) (oc_shared_processors c))
          (takeWhile (\<lambda>previous. same_group previous c) kept)
        then fail errc.temporarily_unavailable
      else distinct_caches (c # kept) cs)"

definition cache_descriptors :: "string result \<Rightarrow> host \<Rightarrow> cache_entry list result" where
  "cache_descriptors online_after_text host =
     and_then (online_text host) (\<lambda>txt.
     and_then (parse_cpu_list txt) (\<lambda>online.
       if online = [] then fail errc.malformed_data
       else and_then (observe_all host online online []) (\<lambda>instances.
       and_then online_after_text (\<lambda>after_text.
       and_then (parse_cpu_list after_text) (\<lambda>online_after.
         if online_after \<noteq> online then fail errc.temporarily_unavailable
         else if instances = [] then fail errc.not_supported
         else and_then (distinct_caches [] (std_sort precedes instances)) (\<lambda>unique_instances.
           Value (map oc_entry unique_instances)))))))"

section \<open>Instruction set features\<close>

definition is_feature_key :: "string \<Rightarrow> bool" where
  "is_feature_key key \<longleftrightarrow> key = ''flags'' \<or> key = ''Features'' \<or> key = ''features''"

definition append_feature_tokens :: "string list \<Rightarrow> string \<Rightarrow> string list" where
  "append_feature_tokens tokens value = foldl append_unique_label tokens (tokens_of cpu_space value)"

record feature_scan =
  ft_tokens :: "string list"
  ft_blocks :: nat
  ft_blocks_with_features :: nat
  ft_pending_block :: bool
  ft_block_has_features :: bool

definition close_block :: "feature_scan \<Rightarrow> feature_scan" where
  "close_block s =
     (if ft_pending_block s \<and> ft_block_has_features s
      then s\<lparr>ft_blocks_with_features := ft_blocks_with_features s + 1\<rparr> else s)"

definition feature_field :: "string \<Rightarrow> string \<Rightarrow> feature_scan \<Rightarrow> feature_scan result" where
  "feature_field key value s =
     (if key = ''processor'' then
        (if \<not> has_value (whole_unsigned 32 value) then fail errc.malformed_data
         else Value ((close_block s)\<lparr>ft_blocks := ft_blocks s + 1, ft_pending_block := True,
                ft_block_has_features := False\<rparr>))
      else if \<not> is_feature_key key then Value s
      else if \<not> ft_pending_block s then fail errc.malformed_data
      else if value = [] then fail errc.malformed_data
      else Value (s\<lparr>ft_tokens := append_feature_tokens (ft_tokens s) value, ft_block_has_features := True\<rparr>))"

definition parse_cpuinfo_features :: "string \<Rightarrow> string list result" where
  "parse_cpuinfo_features input =
     and_then (cpuinfo_lines feature_field (lines_of input)
         \<lparr>ft_tokens = [], ft_blocks = 0, ft_blocks_with_features = 0, ft_pending_block = False,
          ft_block_has_features = False\<rparr>) (\<lambda>st.
       let s = close_block st in
       if ft_blocks s = 0 then fail errc.malformed_data
       else if ft_blocks_with_features s = 0 then fail errc.not_found
       else if ft_blocks_with_features s \<noteq> ft_blocks s then fail errc.malformed_data
       else Value (ft_tokens s))"

definition instruction_set_features :: "host \<Rightarrow> string list result" where
  "instruction_set_features host =
     and_then (ho_read host ''/proc/cpuinfo'' maximum_cpuinfo_size) parse_cpuinfo_features"

section \<open>Usage\<close>

definition parse_stat_counter :: "string \<Rightarrow> u64 result" where
  "parse_stat_counter input = and_then (whole_unsigned 64 input) (\<lambda>v. Value (of_nat v))"

definition add_counter :: "u64 \<Rightarrow> u64 \<Rightarrow> u64 result" where
  "add_counter acc v =
     (if acc > 0xFFFFFFFFFFFFFFFF - v then fail errc.value_too_large else Value (acc + v))"

fun stat_counters :: "string list \<Rightarrow> u64 list result" where
  "stat_counters [] = Value []"
| "stat_counters (item # items) =
     and_then (parse_stat_counter item) (\<lambda>v. and_then (stat_counters items) (\<lambda>vs. Value (v # vs)))"

text \<open>Field \<open>n\<close> if it is there, zero otherwise.\<close>

definition counter_or_zero :: "u64 list \<Rightarrow> nat \<Rightarrow> u64" where
  "counter_or_zero counters n = (if length counters > n then counters ! n else 0)"

definition parse_cpu_usage_fields :: "string \<Rightarrow> usage_information result" where
  "parse_cpu_usage_fields txt =
     (let items = tokens_of cpu_space txt in
      if length items < 4 then fail errc.malformed_data
      else and_then (stat_counters items) (\<lambda>counters.
        and_then (add_counter (counters ! 0) (counters ! 1)) (\<lambda>user_ticks.
        and_then (add_counter (counters ! 2) (counter_or_zero counters 5)) (\<lambda>system_ticks.
        and_then (if length items > 6 then add_counter system_ticks (counters ! 6) else Value system_ticks)
          (\<lambda>system_with_softirq.
        and_then (add_counter (counters ! 3) (counter_or_zero counters 4)) (\<lambda>idle_ticks.
          Value \<lparr>us_user_ticks = user_ticks, us_system_ticks = system_with_softirq,
            us_idle_ticks = idle_ticks\<rparr>))))))"

fun stat_lines :: "string list \<Rightarrow> usage_information result" where
  "stat_lines [] = fail errc.not_found"
| "stat_lines (line # ls) =
     (if \<not> has_prefix ''cpu '' line then stat_lines ls else parse_cpu_usage_fields (drop 4 line))"

definition parse_proc_stat_usage :: "string \<Rightarrow> usage_information result" where
  "parse_proc_stat_usage input = stat_lines (lines_of input)"

definition cumulative_processor_usage :: "host \<Rightarrow> usage_information result" where
  "cumulative_processor_usage host = and_then (ho_read host ''/proc/stat'' maximum_cpuinfo_size) parse_proc_stat_usage"

section \<open>Public queries\<close>

definition public_vendor_identifiers :: "string list result \<Rightarrow> string list result" where
  "public_vendor_identifiers backend = validate_utf8_labels backend"

definition public_model_names :: "string list result \<Rightarrow> string list result" where
  "public_model_names backend = validate_utf8_labels backend"

text \<open>The public records of usage and cache have the fields of the backend's.\<close>

definition public_cache_descriptors :: "cache_entry list result \<Rightarrow> cache_entry list result" where
  "public_cache_descriptors backend = validate_cache_entries backend"

definition public_instruction_set_features :: "string list result \<Rightarrow> string list result" where
  "public_instruction_set_features backend =
     and_then backend (\<lambda>features.
       if \<not> labels_usable features then fail errc.invalid_encoding else Value features)"

end
