(* ===== verification/Cpu_Correct.thy ===== *)
theory Cpu_Correct
  imports Cpu Printer_Text "HOL-Library.Product_Lexorder"
begin

text \<open>
  Correctness of the processor module: the processor lists of the kernel are read back as the set they
  denote, the cache query returns exactly the caches the host shows, each once and in order,
  frequencies are rounded exactly and the usage counters are summed exactly or refused.
\<close>

section \<open>Processor lists\<close>

text \<open>The rendering of the kernel: ranges and single processors between commas, and a line feed.\<close>

definition range_text :: "nat \<times> nat \<Rightarrow> string" where
  "range_text r = (if fst r = snd r then dec_string (fst r) else dec_string (fst r) @ CHR ''-'' # dec_string (snd r))"

definition cpu_list_text :: "(nat \<times> nat) list \<Rightarrow> string" where
  "cpu_list_text rs = join_with (CHR '','') (map range_text rs) @ [newline]"

definition range_ok :: "nat \<times> nat \<Rightarrow> bool" where
  "range_ok r \<longleftrightarrow> fst r \<le> snd r \<and> snd r \<le> maximum_cpu_index"

lemma digit_not_cpu_space: "is_digit c \<Longrightarrow> \<not> cpu_space c"
  by (auto simp: is_digit_def cpu_space_def)

lemma trim_cpu_field_id: "s = [] \<or> \<not> cpu_space (hd s) \<and> \<not> cpu_space (last s) \<Longrightarrow> trim_cpu_field s = s"
  by (cases s) (auto simp: trim_cpu_field_def trim_back_id)

lemma trim_back_last: "p c \<Longrightarrow> trim_back p (s @ [c]) = trim_back p s"
  by (simp add: trim_back_def)

lemma trim_cpu_field_line:
  assumes "s \<noteq> []" "\<not> cpu_space (hd s)" "\<not> cpu_space (last s)"
  shows "trim_cpu_field (s @ [newline]) = s"
proof -
  have "dropWhile cpu_space (s @ [newline]) = s @ [newline]"
    using assms by (cases s) simp_all
  moreover have "cpu_space newline" by (simp add: cpu_space_def)
  ultimately show ?thesis
    using assms by (simp add: trim_cpu_field_def trim_back_last trim_back_id)
qed

lemma dec_string_ends: "\<not> cpu_space (hd (dec_string n))" "\<not> cpu_space (last (dec_string n))"
  using dec_string_digits [of n] digit_not_cpu_space by (auto simp: list_all_iff)

lemma dec_string_free: "\<not> is_digit c \<Longrightarrow> c \<notin> set (dec_string n)"
  by (rule digits_free [OF dec_string_digits])

lemma range_text_ends:
  "range_text r \<noteq> []" "\<not> cpu_space (hd (range_text r))" "\<not> cpu_space (last (range_text r))" "CHR '','' \<notin> set (range_text r)"
  using dec_string_ends dec_string_free [of "CHR '',''"]
  by (auto simp: range_text_def is_digit_def last_append)

lemma find_from_absent: "c \<notin> set s \<Longrightarrow> find_from c s n = None"
proof -
  assume "c \<notin> set s"
  then have "list_all (\<lambda>x. x \<noteq> c) (drop n s)"
    using in_set_dropD by (fastforce simp: list_all_iff)
  then show ?thesis by (simp add: find_from_def Let_def takeWhile_all)
qed

lemma from_chars_dec: "n < 2 ^ w \<Longrightarrow> from_chars_unsigned w (dec_string n) = Parsed n []"
  by (simp add: from_chars_unsigned_def takeWhile_all dec_string_digits)

lemma cpu_range_text:
  assumes "range_ok r"
  shows "cpu_range (range_text r) = Some r"
proof (cases r)
  case (Pair a b)
  have small: "a < 2 ^ 32" "b < 2 ^ 32" "a \<le> b" "b \<le> maximum_cpu_index"
    using assms Pair by (auto simp: range_ok_def maximum_cpu_index_def)
  have d: "CHR ''-'' \<notin> set (dec_string n)" for n by (rule dec_string_free) (simp add: is_digit_def)
  show ?thesis
  proof (cases "a = b")
    case True
    then show ?thesis
      using Pair small by (simp add: cpu_range_def range_texts_def range_text_def find_from_absent d from_chars_dec)
  next
    case False
    let ?s = "dec_string a @ CHR ''-'' # dec_string b"
    have "find_from (CHR ''-'') ?s 0 = Some (length (dec_string a))"
      using find_from_append [of "CHR ''-''" "dec_string a" "[]"] d by simp
    moreover have "find_from (CHR ''-'') ?s (length (dec_string a) + 1) = None"
      using find_from_absent [OF d, of b 0] by (simp add: find_from_def Let_def split: if_splits)
    ultimately show ?thesis
      using Pair small False by (simp add: cpu_range_def range_texts_def range_text_def from_chars_dec)
  qed
qed

lemma fold_insert_range: "fold insert [a..<Suc b] S = S \<union> {a..b}"
proof -
  have "fold insert xs S = S \<union> set xs" for xs and S :: "nat set"
    by (induction xs arbitrary: S) auto
  then show ?thesis by (simp add: atLeastLessThanSuc_atLeastAtMost del: upt_Suc)
qed

lemma cpu_items_ranges:
  "list_all range_ok rs \<Longrightarrow> cpu_items (map range_text rs) S = Value (S \<union> (\<Union>r\<in>set rs. {fst r..snd r}))"
proof (induction rs arbitrary: S)
  case (Cons r rs)
  have "trim_cpu_field (range_text r) = range_text r"
    by (rule trim_cpu_field_id) (simp add: range_text_ends)
  then show ?case
    using Cons by (cases r) (simp add: cpu_range_text range_text_ends fold_insert_range Un_assoc del: upt_Suc)
qed simp

lemma join_with_ends:
  "xs \<noteq> [] \<Longrightarrow> list_all (\<lambda>x. x \<noteq> [] \<and> \<not> p (hd x) \<and> \<not> p (last x)) xs \<Longrightarrow>
   join_with sep xs \<noteq> [] \<and> \<not> p (hd (join_with sep xs)) \<and> \<not> p (last (join_with sep xs))"
  by (induction sep xs rule: join_with.induct) auto

text \<open>
  C21. A list of processor ranges in the kernel's rendering is read back as the ascending list of the
  processors the ranges cover, each once, whether or not the ranges overlap or are in order.
\<close>

theorem cpu_list_roundtrip:
  assumes "rs \<noteq> []" "list_all range_ok rs"
  shows "parse_cpu_list (cpu_list_text rs) = Value (sorted_list_of_set (\<Union>r\<in>set rs. {fst r..snd r}))"
proof -
  let ?s = "join_with (CHR '','') (map range_text rs)"
  have "list_all (\<lambda>x. x \<noteq> [] \<and> \<not> cpu_space (hd x) \<and> \<not> cpu_space (last x)) (map range_text rs)"
    by (simp add: list_all_iff range_text_ends)
  then have e: "?s \<noteq> [] \<and> \<not> cpu_space (hd ?s) \<and> \<not> cpu_space (last ?s)"
    using assms(1) by (intro join_with_ends) simp_all
  moreover have "pieces_of (CHR '','') ?s = map range_text rs"
    by (rule pieces_of_join) (simp add: list_all_iff range_text_ends)
  ultimately show ?thesis
    using assms(2) by (simp add: parse_cpu_list_def cpu_list_text_def trim_cpu_field_line cpu_items_ranges)
qed

theorem cpu_list_roundtrip_witness:
  "parse_cpu_list (cpu_list_text [(4, 6), (0, 0), (5, 8)]) = Value [0, 4, 5, 6, 7, 8]"
proof -
  have "parse_cpu_list (cpu_list_text [(4, 6), (0, 0), (5, 8)]) =
      Value (sorted_list_of_set (\<Union>r\<in>set [(4, 6), (0, 0), (5, 8)]. {fst r..snd r}))"
    by (rule cpu_list_roundtrip) (simp_all add: range_ok_def maximum_cpu_index_def)
  also have "(\<Union>r\<in>set [(4, 6), (0, 0), (5, 8)]. {fst r..snd r}) = set [0, 4, 5, 6, 7, 8 :: nat]" by auto
  finally show ?thesis by (simp add: insort_key.simps)
qed

text \<open>Whatever the text, a list that is read is not empty, strictly ascending and bounded.\<close>

lemma cpu_items_bounded:
  "cpu_items ps S = Value T \<Longrightarrow> finite S \<Longrightarrow> \<forall>x\<in>S. x \<le> maximum_cpu_index \<Longrightarrow>
   finite T \<and> S \<subseteq> T \<and> (ps \<noteq> [] \<longrightarrow> T \<noteq> {}) \<and> (\<forall>x\<in>T. x \<le> maximum_cpu_index)"
proof (induction ps arbitrary: S)
  case (Cons p ps)
  then obtain a b where r: "cpu_range (trim_cpu_field p) = Some (a, b)" "cpu_items ps (S \<union> {a..b}) = Value T"
    by (auto simp: Let_def fold_insert_range simp del: upt_Suc split: if_splits option.splits)
  then have "a \<le> b" "b \<le> maximum_cpu_index"
    by (auto simp: cpu_range_def split: option.splits chars_outcome.splits if_splits)
  with Cons r show ?case by fastforce
qed simp

lemma parse_cpu_list_sorted:
  assumes "parse_cpu_list s = Value l"
  shows "l \<noteq> [] \<and> sorted_wrt (<) l \<and> list_all (\<lambda>c. c \<le> maximum_cpu_index) l"
proof -
  from assms obtain T where t: "trim_cpu_field s \<noteq> []"
      "cpu_items (pieces_of (CHR '','') (trim_cpu_field s)) {} = Value T" "l = sorted_list_of_set T"
    by (auto simp: parse_cpu_list_def Let_def and_then_Value_iff split: if_splits)
  have "pieces_of (CHR '','') (trim_cpu_field s) \<noteq> []"
    using t(1) by (subst pieces_of.simps) (simp add: Let_def)
  with cpu_items_bounded [OF t(2)] t(3) show ?thesis
    by (auto simp: list_all_iff strict_sorted_list_of_set)
qed

section \<open>Caches\<close>

text \<open>The comparison by merging is the intersection test of the sets.\<close>

lemma overlap_iff:
  "sorted_wrt (<) ls \<Longrightarrow> sorted_wrt (<) rs \<Longrightarrow> processor_sets_overlap ls rs \<longleftrightarrow> set ls \<inter> set rs \<noteq> {}"
  by (induction ls rs rule: processor_sets_overlap.induct) auto

lemma cache_kind_value_inject [simp]: "cache_kind_value a = cache_kind_value b \<longleftrightarrow> a = b"
  by (cases a; cases b) simp_all

definition cache_key :: "observed_cache_instance \<Rightarrow> u32 \<times> nat \<times> nat list" where
  "cache_key c = (ce_level (oc_entry c), cache_kind_value (ce_kind (oc_entry c)), oc_shared_processors c)"

lemma precedes_key: "precedes a b \<longleftrightarrow> cache_key a < cache_key b"
  by (simp add: precedes_def cache_key_def less_prod_def less_le) blast

interpretation caches: strict_weak_order precedes
  using swo_key [of cache_key] by (simp add: precedes_key [abs_def])

lemma same_instance_key: "same_instance a b \<longleftrightarrow> cache_key a = cache_key b"
  by (auto simp: same_instance_def same_group_def cache_key_def)

text \<open>Two caches of the same level and kind share no processor.\<close>

definition disjoint_caches :: "observed_cache_instance \<Rightarrow> observed_cache_instance \<Rightarrow> bool" where
  "disjoint_caches a b \<longleftrightarrow>
     (same_group a b \<longrightarrow> set (oc_shared_processors a) \<inter> set (oc_shared_processors b) = {})"

definition sharers_sorted :: "observed_cache_instance \<Rightarrow> bool" where
  "sharers_sorted c \<longleftrightarrow> oc_shared_processors c \<noteq> [] \<and> sorted_wrt (<) (oc_shared_processors c)"

text \<open>What the loop keeps: the caches kept are in descending order, disjoint, and before those to come.\<close>

definition kept_ok :: "observed_cache_instance list \<Rightarrow> observed_cache_instance list \<Rightarrow> bool" where
  "kept_ok kept cs \<longleftrightarrow>
     sorted_wrt (\<lambda>a b. precedes b a \<and> disjoint_caches b a) kept \<and> list_all sharers_sorted kept \<and>
     (\<forall>k\<in>set kept. \<forall>c\<in>set cs. \<not> precedes c k)"

lemma group_prefix:
  assumes "kept_ok kept (c # cs)"
  shows "k \<in> set kept \<Longrightarrow> same_group k c \<Longrightarrow> k \<in> set (takeWhile (\<lambda>p. same_group p c) kept)"
  using assms
proof (induction kept)
  case (Cons a kept)
  show ?case
  proof (cases "same_group a c")
    case True
    then show ?thesis using Cons by (auto simp: kept_ok_def)
  next
    case False
    have "k \<noteq> a" using False Cons.prems by auto
    then have "precedes k a" "\<not> precedes c a" using Cons.prems by (auto simp: kept_ok_def)
    with False Cons.prems(2) have False
      by (auto simp: precedes_def same_group_def split: if_splits)
    then show ?thesis ..
  qed
qed simp

lemma kept_ok_step:
  assumes ok: "kept_ok kept (c # cs)" and c: "in_order precedes (c # cs)" "sharers_sorted c"
    and new: "\<not> (kept \<noteq> [] \<and> same_instance (hd kept) c)"
    and free: "\<not> list_ex (\<lambda>p. processor_sets_overlap (oc_shared_processors p) (oc_shared_processors c))
        (takeWhile (\<lambda>p. same_group p c) kept)"
  shows "kept_ok (c # kept) cs"
proof -
  have before: "precedes k c" if k: "k \<in> set kept" for k
  proof -
    obtain h ks where kept: "kept = h # ks" using k by (cases kept) auto
    have "cache_key h \<noteq> cache_key c" "\<not> cache_key c < cache_key h"
      using ok new kept by (auto simp: kept_ok_def same_instance_key precedes_key)
    then have "precedes h c" by (simp add: precedes_key)
    moreover have "k = h \<or> precedes k h" using ok kept k by (auto simp: kept_ok_def)
    ultimately show ?thesis using caches.trans by blast
  qed
  have "disjoint_caches k c" if k: "k \<in> set kept" for k
  proof (cases "same_group k c")
    case True
    then have "k \<in> set (takeWhile (\<lambda>p. same_group p c) kept)" by (rule group_prefix [OF ok k])
    then have "\<not> processor_sets_overlap (oc_shared_processors k) (oc_shared_processors c)"
      using free by (auto simp: list_ex_iff)
    moreover have "sharers_sorted k" using ok k by (auto simp: kept_ok_def list_all_iff)
    ultimately show ?thesis
      using c(2) overlap_iff by (auto simp: disjoint_caches_def sharers_sorted_def)
  qed (simp add: disjoint_caches_def)
  with before ok c show ?thesis by (auto simp: kept_ok_def)
qed

definition caches_ok :: "observed_cache_instance list \<Rightarrow> bool" where
  "caches_ok us \<longleftrightarrow> sorted_wrt (\<lambda>a b. precedes a b \<and> disjoint_caches a b) us \<and> list_all sharers_sorted us"

lemma distinct_caches_ok:
  "distinct_caches kept cs = Value us \<Longrightarrow> kept_ok kept cs \<Longrightarrow> in_order precedes cs \<Longrightarrow>
   list_all sharers_sorted cs \<Longrightarrow>
   caches_ok us \<and> cache_key ` set us = cache_key ` (set kept \<union> set cs) \<and> set us \<subseteq> set kept \<union> set cs"
proof (induction kept cs rule: distinct_caches.induct)
  case (1 kept)
  then show ?case by (auto simp: caches_ok_def kept_ok_def sorted_wrt_rev list_all_iff)
next
  case (2 kept c cs)
  show ?case
  proof (cases "kept \<noteq> [] \<and> same_instance (hd kept) c")
    case True
    then have rec: "distinct_caches kept cs = Value us" "kept_ok kept cs"
      using "2.prems" by (auto simp: kept_ok_def split: if_splits)
    moreover have "same_cache_geometry (oc_entry (hd kept)) (oc_entry c)"
      using True "2.prems" by (auto split: if_splits)
    moreover have "cache_key c \<in> cache_key ` set kept"
      using True by (metis hd_in_set imageI same_instance_key)
    ultimately show ?thesis
      using 2 True by fastforce
  next
    case False
    then have free: "\<not> list_ex (\<lambda>p. processor_sets_overlap (oc_shared_processors p) (oc_shared_processors c))
        (takeWhile (\<lambda>p. same_group p c) kept)" and rec: "distinct_caches (c # kept) cs = Value us"
      using "2.prems"(1) by (auto split: if_splits)
    have "kept_ok (c # kept) cs"
      using "2.prems" False free by (intro kept_ok_step) simp_all
    then show ?thesis using 2 False free rec by simp
  qed
qed


text \<open>What every observation of a cache satisfies.\<close>

definition observed_ok :: "observed_cache_instance \<Rightarrow> bool" where
  "observed_ok c \<longleftrightarrow>
     ce_level (oc_entry c) \<noteq> 0 \<and> ce_instance_size_bytes (oc_entry c) \<noteq> 0 \<and> ce_line_size_bytes (oc_entry c) \<noteq> 0 \<and>
     ce_shared_logical_processor_count (oc_entry c) = of_nat (length (oc_shared_processors c)) \<and> sharers_sorted c"

lemma positive_attribute: "parse_positive_cache_attribute s = Value v \<Longrightarrow> v \<noteq> 0"
proof -
  assume "parse_positive_cache_attribute s = Value v"
  then obtain i where i: "parse_signed_cache_attribute s = Value i" "i \<noteq> 0" "nat i \<le> 2 ^ 32 - 1" "v = of_int i"
    by (auto simp: parse_positive_cache_attribute_def and_then_Value_iff split: if_splits)
  then have "0 < i" by (auto simp: parse_signed_cache_attribute_def Let_def and_then_Value_iff split: if_splits)
  with i have "uint v = i" by (simp add: uint_word_of_int_eq take_bit_int_eq_self)
  with \<open>0 < i\<close> show "v \<noteq> 0" by auto
qed

lemma size_nonzero: "parse_cache_size_bytes s = Value v \<Longrightarrow> v \<noteq> 0"
  by (auto simp: parse_cache_size_bytes_def Let_def and_then_Value_iff split: if_splits option.splits)

lemma cache_sharers_sorted:
  assumes "cache_sharers cpu online txt = Value l"
  shows "l \<noteq> [] \<and> sorted_wrt (<) l"
proof -
  from assms obtain shared where s: "parse_cpu_list txt = Value shared" "l = filter (\<lambda>p. p \<in> set online) shared" "l \<noteq> []"
    by (auto simp: cache_sharers_def Let_def and_then_Value_iff split: if_splits)
  with parse_cpu_list_sorted [OF s(1)] show ?thesis by (simp add: sorted_wrt_filter)
qed

lemma observe_cache_ok: "observe_cache host cpu online dir kind = Value c \<Longrightarrow> observed_ok c"
  unfolding observe_cache_def and_then_Value_iff
  by (auto simp: observed_ok_def sharers_sorted_def dest: positive_attribute size_nonzero cache_sharers_sorted)

lemma observe_indices_ok:
  "observe_indices host cpu online index cs = Value ds \<Longrightarrow> list_all observed_ok cs \<Longrightarrow> list_all observed_ok ds"
proof (induction host cpu online index cs rule: observe_indices.induct)
  case (1 host cpu online index cs)
  show ?case
  proof (cases "index \<ge> maximum_cache_index")
    case True
    with 1 show ?thesis by (simp add: observe_indices.simps)
  next
    case False
    let ?dir = "cpu_path cpu @ ''/cache/'' @ ''index'' @ dec_string index"
    from 1(2) False obtain t where t: "read_optional_cache_attribute host (?dir @ ''/type'') = Value t"
      and rest: "t = [] \<and> ds = cs \<or> t \<noteq> [] \<and> (\<exists>k c. parse_cache_type t = Value k \<and>
        observe_cache host cpu online ?dir k = Value c \<and>
        observe_indices host cpu online (index + 1) (cs @ [c]) = Value ds)"
      by (subst (asm) observe_indices.simps) (auto simp: Let_def and_then_Value_iff split: if_splits)
    from rest show ?thesis
    proof
      assume "t = [] \<and> ds = cs"
      then show ?thesis using 1(3) by simp
    next
      assume "t \<noteq> [] \<and> (\<exists>k c. parse_cache_type t = Value k \<and>
        observe_cache host cpu online ?dir k = Value c \<and>
        observe_indices host cpu online (index + 1) (cs @ [c]) = Value ds)"
      then obtain k c where k: "t \<noteq> []" "parse_cache_type t = Value k" "observe_cache host cpu online ?dir k = Value c"
        "observe_indices host cpu online (index + 1) (cs @ [c]) = Value ds" by blast
      then show ?thesis
        using 1(1) [OF False refl k(1,4)] 1(3) observe_cache_ok [OF k(3)] by simp
    qed
  qed
qed

lemma observe_all_ok:
  "observe_all host online cpus cs = Value ds \<Longrightarrow> list_all observed_ok cs \<Longrightarrow> list_all observed_ok ds"
  by (induction host online cpus cs rule: observe_all.induct)
    (auto simp: and_then_Value_iff observe_processor_caches_def dest: observe_indices_ok)

lemma cache_entries_usable_sorted:
  "list_all observed_ok us \<Longrightarrow> sorted_wrt (\<lambda>a b. precedes a b \<and> disjoint_caches a b) us \<Longrightarrow>
   (case previous of None \<Rightarrow> True | Some (lv, k) \<Rightarrow>
      list_all (\<lambda>u. \<not> (ce_level (oc_entry u) < lv \<or>
        ce_level (oc_entry u) = lv \<and> cache_kind_value (ce_kind (oc_entry u)) < cache_kind_value k)) us) \<Longrightarrow>
   cache_entries_usable previous (map oc_entry us)"
proof (induction us arbitrary: previous)
  case (Cons u us)
  have "list_all (\<lambda>v. \<not> (ce_level (oc_entry v) < ce_level (oc_entry u) \<or>
      ce_level (oc_entry v) = ce_level (oc_entry u) \<and>
      cache_kind_value (ce_kind (oc_entry v)) < cache_kind_value (ce_kind (oc_entry u)))) us"
    using Cons.prems(2) by (auto simp: list_all_iff precedes_def split: if_splits)
  then have "cache_entries_usable (Some (ce_level (oc_entry u), ce_kind (oc_entry u))) (map oc_entry us)"
    using Cons.prems by (intro Cons.IH) simp_all
  then show ?case
    using Cons.prems by (auto simp: observed_ok_def split: option.splits)
qed simp

text \<open>
  What the host shows: the index directories of a processor are counted from zero to the first without a
  type, and the caches are what they describe.
\<close>

definition index_directory :: "nat \<Rightarrow> nat \<Rightarrow> string" where
  "index_directory cpu i = cpu_path cpu @ ''/cache/'' @ ''index'' @ dec_string i"

definition index_type :: "host \<Rightarrow> nat \<Rightarrow> nat \<Rightarrow> string result" where
  "index_type host cpu i = read_optional_cache_attribute host (index_directory cpu i @ ''/type'')"

definition shows_cache :: "host \<Rightarrow> nat list \<Rightarrow> nat \<Rightarrow> nat \<Rightarrow> observed_cache_instance \<Rightarrow> bool" where
  "shows_cache host online cpu i c \<longleftrightarrow>
     (\<forall>j\<le>i. index_type host cpu j \<noteq> Value []) \<and>
     (\<exists>t k. index_type host cpu i = Value t \<and> parse_cache_type t = Value k \<and>
        observe_cache host cpu online (index_directory cpu i) k = Value c)"

definition shown_caches :: "host \<Rightarrow> nat list \<Rightarrow> observed_cache_instance set" where
  "shown_caches host online = {c. \<exists>cpu\<in>set online. \<exists>i. shows_cache host online cpu i c}"

lemma ex_from_Suc: "(\<exists>i\<ge>n. P i) \<longleftrightarrow> P n \<or> (\<exists>i\<ge>n + 1. P i)" for n :: nat
proof
  assume "\<exists>i\<ge>n. P i"
  then obtain i where "n \<le> i" "P i" by blast
  then show "P n \<or> (\<exists>i\<ge>n + 1. P i)" by (cases "i = n") (auto intro!: exI [of _ i])
qed (auto intro: Suc_leD)

lemma observe_indices_shown:
  assumes "observe_indices host cpu online n cs = Value ds" "\<forall>j<n. index_type host cpu j \<noteq> Value []"
  shows "set ds = set cs \<union> {c. \<exists>i\<ge>n. shows_cache host online cpu i c}"
  using assms
proof (induction host cpu online n cs rule: observe_indices.induct)
  case (1 host cpu online n cs)
  have bound: "\<not> maximum_cache_index \<le> n" using "1.prems"(1) by (auto simp: observe_indices.simps [of host cpu online n])
  obtain t where t: "index_type host cpu n = Value t" and rest: "t = [] \<and> ds = cs \<or> t \<noteq> [] \<and> (\<exists>k c.
      parse_cache_type t = Value k \<and> observe_cache host cpu online (index_directory cpu n) k = Value c \<and>
      observe_indices host cpu online (n + 1) (cs @ [c]) = Value ds)"
    using "1.prems"(1) bound
    by (subst (asm) observe_indices.simps)
      (auto simp: index_type_def index_directory_def Let_def and_then_Value_iff split: if_splits)
  from rest show ?case
  proof
    assume stop: "t = [] \<and> ds = cs"
    then have "\<not> shows_cache host online cpu i c" if "n \<le> i" for i c
      using that t by (auto simp: shows_cache_def)
    then show ?thesis using stop by auto
  next
    assume "t \<noteq> [] \<and> (\<exists>k c. parse_cache_type t = Value k \<and>
      observe_cache host cpu online (index_directory cpu n) k = Value c \<and>
      observe_indices host cpu online (n + 1) (cs @ [c]) = Value ds)"
    then obtain k c where c: "t \<noteq> []" "parse_cache_type t = Value k"
      "observe_cache host cpu online (index_directory cpu n) k = Value c"
      "observe_indices host cpu online (n + 1) (cs @ [c]) = Value ds" by blast
    have before: "\<forall>j<n + 1. index_type host cpu j \<noteq> Value []"
      using "1.prems"(2) t c(1) by (auto simp: less_Suc_eq)
    have "set ds = set (cs @ [c]) \<union> {c. \<exists>i\<ge>n + 1. shows_cache host online cpu i c}"
      by (rule "1.IH" [OF bound refl c(1,4) before])
    moreover have "shows_cache host online cpu n d \<longleftrightarrow> d = c" for d
      using before t c(2,3) by (auto simp: shows_cache_def less_Suc_eq_le)
    moreover have "(\<exists>i\<ge>n. P i) \<longleftrightarrow> P n \<or> (\<exists>i\<ge>n + 1. P i)" for P
      by (rule ex_from_Suc)
    ultimately show ?thesis by auto
  qed
qed

lemma observe_all_shown:
  "observe_all host online cpus cs = Value ds \<Longrightarrow>
   set ds = set cs \<union> {c. \<exists>cpu\<in>set cpus. \<exists>i. shows_cache host online cpu i c}"
proof (induction cpus arbitrary: cs)
  case (Cons cpu cpus)
  then obtain es where es: "observe_indices host cpu online 0 cs = Value es" "observe_all host online cpus es = Value ds"
    by (auto simp: and_then_Value_iff observe_processor_caches_def)
  then show ?case using Cons.IH [OF es(2)] observe_indices_shown [OF es(1)] by auto
qed simp

text \<open>Two observations of one level and kind agree: they are the same cache, or share no processor.\<close>

definition consistent_caches :: "observed_cache_instance set \<Rightarrow> bool" where
  "consistent_caches S \<longleftrightarrow>
     (\<forall>a\<in>S. \<forall>b\<in>S. same_group a b \<longrightarrow>
        a = b \<or> set (oc_shared_processors a) \<inter> set (oc_shared_processors b) = {})"

lemma same_geometry_eq: "same_cache_geometry a b \<longleftrightarrow> a = b"
  by (auto simp: same_cache_geometry_def)

lemma distinct_caches_set:
  "distinct_caches kept cs = Value us \<Longrightarrow> set us = set kept \<union> set cs"
proof (induction kept cs rule: distinct_caches.induct)
  case (2 kept c cs)
  show ?case
  proof (cases "kept \<noteq> [] \<and> same_instance (hd kept) c")
    case True
    then have "oc_entry (hd kept) = oc_entry c" and rec: "distinct_caches kept cs = Value us"
      using "2.prems" by (auto simp: same_geometry_eq split: if_splits)
    then have "hd kept = c" using True by (simp add: same_instance_def)
    then have "c \<in> set kept" using True by auto
    then show ?thesis using 2 True rec \<open>oc_entry (hd kept) = oc_entry c\<close> by (auto simp: same_geometry_eq)
  next
    case False
    then have "distinct_caches (c # kept) cs = Value us" using "2.prems" by (auto split: if_splits)
    then show ?thesis using 2 False by (auto split: if_splits)
  qed
qed auto

lemma distinct_caches_total:
  "kept_ok kept cs \<Longrightarrow> in_order precedes cs \<Longrightarrow> list_all sharers_sorted cs \<Longrightarrow>
   consistent_caches (set kept \<union> set cs) \<Longrightarrow> \<exists>us. distinct_caches kept cs = Value us"
proof (induction kept cs rule: distinct_caches.induct)
  case (2 kept c cs)
  have apart: "set (oc_shared_processors k) \<inter> set (oc_shared_processors c) = {}"
    if "k \<in> set kept" "same_group k c" "k \<noteq> c" for k
    using "2.prems"(4) that by (auto simp: consistent_caches_def)
  show ?case
  proof (cases "kept \<noteq> [] \<and> same_instance (hd kept) c")
    case True
    then have "hd kept = c"
      using apart [of "hd kept"] "2.prems"(3) by (auto simp: same_instance_def sharers_sorted_def)
    moreover have "\<exists>us. distinct_caches kept cs = Value us"
      using 2 True \<open>hd kept = c\<close> by (auto simp: kept_ok_def same_geometry_eq consistent_caches_def)
    ultimately show ?thesis using True by (simp add: same_geometry_eq)
  next
    case False
    have "\<not> processor_sets_overlap (oc_shared_processors k) (oc_shared_processors c)"
      if k: "k \<in> set kept" "same_group k c" for k
    proof -
      have "k \<noteq> c"
      proof
        assume "k = c"
        obtain h ks where kept: "kept = h # ks" using k by (cases kept) auto
        have "k \<noteq> h" using False kept \<open>k = c\<close> by (auto simp: same_instance_key)
        then have "precedes c h" using k "2.prems"(1) kept \<open>k = c\<close> by (auto simp: kept_ok_def)
        then show False using "2.prems"(1) kept by (auto simp: kept_ok_def)
      qed
      then have "set (oc_shared_processors k) \<inter> set (oc_shared_processors c) = {}" by (rule apart [OF k])
      moreover have "sharers_sorted k" "sharers_sorted c"
        using "2.prems"(1,3) k by (auto simp: kept_ok_def list_all_iff)
      ultimately show ?thesis using overlap_iff by (auto simp: sharers_sorted_def)
    qed
    then have free: "\<not> list_ex (\<lambda>p. processor_sets_overlap (oc_shared_processors p) (oc_shared_processors c))
        (takeWhile (\<lambda>p. same_group p c) kept)"
      by (auto simp: list_ex_iff dest: set_takeWhileD)
    have "kept_ok (c # kept) cs" using "2.prems" False free by (intro kept_ok_step) simp_all
    then have "\<exists>us. distinct_caches (c # kept) cs = Value us"
      using 2 False free by (simp add: insert_commute Un_insert_right)
    then show ?thesis using False free by auto
  qed
qed auto

lemma caches_consistent:
  assumes "caches_ok us"
  shows "consistent_caches (set us)"
proof -
  have "a = b \<or> disjoint_caches a b \<or> disjoint_caches b a" if "a \<in> set us" "b \<in> set us" for a b
    using assms that unfolding caches_ok_def
    by (metis (mono_tags, lifting) in_set_conv_nth linorder_neqE_nat sorted_wrt_nth_less)
  then show ?thesis
    unfolding consistent_caches_def disjoint_caches_def same_group_def by (metis Int_commute)
qed

text \<open>The query finds its sources: the processors online, before and after, and every index directory.\<close>

definition caches_readable :: "string result \<Rightarrow> host \<Rightarrow> nat list \<Rightarrow> bool" where
  "caches_readable after host online \<longleftrightarrow>
     (\<exists>t t'. online_text host = Value t \<and> parse_cpu_list t = Value online \<and> online \<noteq> [] \<and>
        after = Value t' \<and> parse_cpu_list t' = Value online \<and>
        has_value (observe_all host online online []))"

lemma distinct_caches_sorted:
  assumes "list_all observed_ok cs"
  shows "distinct_caches [] (std_sort precedes cs) = Value us \<Longrightarrow> caches_ok us \<and> set us = set cs"
    and "consistent_caches (set cs) \<Longrightarrow> \<exists>us. distinct_caches [] (std_sort precedes cs) = Value us"
proof -
  have *: "list_all sharers_sorted (std_sort precedes cs)" "kept_ok [] (std_sort precedes cs)"
    using assms by (auto simp: list_all_iff observed_ok_def kept_ok_def)
  note sorted = caches.std_sort_in_order [of cs]
  show "caches_ok us \<and> set us = set cs" if "distinct_caches [] (std_sort precedes cs) = Value us"
    using distinct_caches_ok [OF that *(2) sorted *(1)] distinct_caches_set [OF that] by simp
  show "\<exists>us. distinct_caches [] (std_sort precedes cs) = Value us" if "consistent_caches (set cs)"
    using distinct_caches_total [OF *(2) sorted *(1)] that by simp
qed

text \<open>
  C22. The cache query on Linux returns each physical cache exactly once. The answer lists the caches the
  index directories of the processors show, all of them and no others, in strictly ascending order of level,
  kind and sharing processors; observations of one level and kind share no processor unless they are the
  same cache, every size is positive and every count is the number of sharing processors; the public boundary
  accepts such an answer unchanged. The query fails only if a source cannot be read, changes, shows no cache
  or shows two that contradict each other.
\<close>

theorem cache_descriptors_exact:
  "case cache_descriptors after host of
     Value es \<Rightarrow>
       (\<exists>online us. caches_readable after host online \<and> es = map oc_entry us \<and>
          set us = shown_caches host online \<and> us \<noteq> [] \<and> sorted_wrt precedes us \<and>
          consistent_caches (set us) \<and> list_all observed_ok us) \<and>
       public_cache_descriptors (Value es) = Value es
   | Unexpected e \<Rightarrow>
       \<not> (\<exists>online. caches_readable after host online \<and> shown_caches host online \<noteq> {} \<and>
            consistent_caches (shown_caches host online))"
proof (cases "cache_descriptors after host")
  case (Value es)
  then obtain t t' online cs us where *: "online_text host = Value t" "parse_cpu_list t = Value online"
    "online \<noteq> []" "observe_all host online online [] = Value cs" "after = Value t'" "parse_cpu_list t' = Value online"
    "cs \<noteq> []" "distinct_caches [] (std_sort precedes cs) = Value us" "es = map oc_entry us"
    by (auto simp: cache_descriptors_def and_then_Value_iff split: if_splits)
  have obs: "list_all observed_ok cs" using observe_all_ok [OF *(4)] by simp
  have us: "caches_ok us" "set us = set cs" using distinct_caches_sorted(1) [OF obs *(8)] by blast+
  have shown: "set us = shown_caches host online"
    using observe_all_shown [OF *(4)] us(2) by (simp add: shown_caches_def)
  have ok: "list_all observed_ok us" "us \<noteq> []" using obs *(7) us(2) by (auto simp: list_all_iff)
  have order: "sorted_wrt precedes us" using us(1) by (auto simp: caches_ok_def elim: sorted_wrt_mono_rel [rotated])
  have readable: "caches_readable after host online" using * by (auto simp: caches_readable_def has_value_iff)
  have "cache_entries_usable None es"
    using us(1) ok *(9) by (auto simp: caches_ok_def intro: cache_entries_usable_sorted)
  then have "public_cache_descriptors (Value es) = Value es"
    by (simp add: public_cache_descriptors_def validate_cache_entries_def)
  moreover have "\<exists>online us. caches_readable after host online \<and> es = map oc_entry us \<and>
      set us = shown_caches host online \<and> us \<noteq> [] \<and> sorted_wrt precedes us \<and>
      consistent_caches (set us) \<and> list_all observed_ok us"
    using readable *(9) shown ok order caches_consistent [OF us(1)] by blast
  ultimately show ?thesis using Value by simp
next
  case (Unexpected e)
  have False if r: "caches_readable after host online" "shown_caches host online \<noteq> {}"
    "consistent_caches (shown_caches host online)" for online
  proof -
    obtain t t' cs where *: "online_text host = Value t" "parse_cpu_list t = Value online" "online \<noteq> []"
      "after = Value t'" "parse_cpu_list t' = Value online" "observe_all host online online [] = Value cs"
      using r(1) by (auto simp: caches_readable_def has_value_iff)
    have cs: "set cs = shown_caches host online" using observe_all_shown [OF *(6)] by (simp add: shown_caches_def)
    then have "\<exists>us. distinct_caches [] (std_sort precedes cs) = Value us"
      using observe_all_ok [OF *(6)] r(3) by (intro distinct_caches_sorted(2)) simp_all
    then obtain us where "distinct_caches [] (std_sort precedes cs) = Value us" ..
    then have "has_value (cache_descriptors after host)"
      using * r(2) cs by (auto simp: cache_descriptors_def)
    then show False using Unexpected by simp
  qed
  then show ?thesis using Unexpected by auto
qed

text \<open>Two processors that share one cache: it is listed once.\<close>

definition example_cache_file :: "string \<Rightarrow> string option" where
  "example_cache_file path =
     (if path = online_path then Some ''0-1''
      else if substr path 28 14 \<noteq> ''/cache/index0/'' then None
      else map_of [(''type'', ''Unified''), (''level'', ''2''), (''size'', ''1M''), (''coherency_line_size'', ''64''),
        (''shared_cpu_list'', ''0-1'')] (drop 42 path))"

definition example_cache_host :: host where
  "example_cache_host = \<lparr>ho_opendir = (\<lambda>path. Some ENOENT), ho_entries = (\<lambda>path. []),
     ho_stat = (\<lambda>path. Stat_error ENOENT), ho_exists = (\<lambda>path. Some ENOENT),
     ho_executable = (\<lambda>path. Some ENOENT),
     ho_read = (\<lambda>path n. case example_cache_file path of None \<Rightarrow> fail_errno ENOENT | Some c \<Rightarrow> Value c),
     ho_readlink = (\<lambda>path n. None), ho_getenv = (\<lambda>name. None)\<rparr>"

definition example_cache :: observed_cache_instance where
  "example_cache = \<lparr>oc_entry = \<lparr>ce_level = 2, ce_kind = unified, ce_instance_size_bytes = 1048576,
      ce_line_size_bytes = 64, ce_associativity_ways = 0, ce_sets_count = 0,
      ce_shared_logical_processor_count = 2\<rparr>, oc_shared_processors = [0, 1]\<rparr>"

lemma example_read:
  "read_required_cache_attribute example_cache_host path =
     (case example_cache_file path of None \<Rightarrow> fail errc.temporarily_unavailable | Some c \<Rightarrow> Value c)"
  "read_optional_cache_attribute example_cache_host path =
     (case example_cache_file path of None \<Rightarrow> Value [] | Some c \<Rightarrow> Value c)"
  by (simp_all add: read_required_cache_attribute_def read_optional_cache_attribute_def example_cache_host_def
      is_no_such_file_def fail_errno_def split: option.split)

lemma whole_digits:
  "list_all is_digit s \<Longrightarrow> s \<noteq> [] \<Longrightarrow> dec_value s < 2 ^ w \<Longrightarrow> whole_unsigned w s = Value (dec_value s)"
  by (simp add: whole_unsigned_def from_chars_unsigned_def takeWhile_all)

lemmas example_defs = Let_def trim_cpu_field_def trim_back_def cpu_space_def is_digit_def dec_value_def
  whole_signed_def from_chars_signed_def from_chars_unsigned_def parse_positive_cache_attribute_def
  parse_optional_cache_attribute_def parse_signed_cache_attribute_def parse_cache_size_bytes_def
  size_multiplier_def parse_cache_type_def

lemma example_dec: "dec_string 0 = ''0''" "dec_string 1 = ''1''"
  by code_simp+

lemma example_attributes:
  "parse_cache_type ''Unified'' = Value unified" "parse_optional_cache_attribute [] = Value 0"
  "parse_positive_cache_attribute ''2'' = Value 2" "parse_positive_cache_attribute ''64'' = Value 64"
  "parse_cache_size_bytes ''1M'' = Value 1048576"
  by (simp_all add: example_defs whole_digits)

lemma example_list: "parse_cpu_list ''0-1'' = Value [0, 1]"
proof -
  have "range_text (0, 1) = ''0-1''" by (simp add: range_text_def example_dec del: One_nat_def)
  then have "cpu_items [''0-1''] {} = Value {0..1}"
    using cpu_items_ranges [of "[(0, 1)]" "{}"] by (simp add: range_ok_def maximum_cpu_index_def del: One_nat_def cpu_items.simps)
  moreover have "{0..1} = set [0, 1 :: nat]" by auto
  moreover have "pieces_of (CHR '','') ''0-1'' = [''0-1'']" by code_simp
  ultimately show ?thesis by (simp add: parse_cpu_list_def example_defs insort_key.simps)
qed

lemma example_sharers: "cpu \<in> {0, 1} \<Longrightarrow> cache_sharers cpu [0, 1] ''0-1'' = Value [0, 1]"
  by (auto simp: cache_sharers_def example_list)

lemma example_walk:
  "observe_indices example_cache_host 0 [0, 1] 0 cs = Value (cs @ [example_cache])"
  "observe_indices example_cache_host 1 [0, 1] 0 cs = Value (cs @ [example_cache])"
  by (subst observe_indices.simps, subst observe_indices.simps,
      simp add: example_read example_cache_file_def cpu_path_def online_path_def substr_def
        maximum_cache_index_def observe_cache_def example_attributes example_list example_sharers example_dec example_cache_def Let_def del: One_nat_def)+

theorem cache_descriptors_exact_witness:
  "cache_descriptors (Value ''0-1'') example_cache_host = Value [oc_entry example_cache] \<and>
   (\<exists>c. shown_caches example_cache_host [0, 1] = {c} \<and> oc_entry c = oc_entry example_cache)"
proof -
  have "distinct_caches [] (std_sort precedes [example_cache, example_cache]) = Value [example_cache]"
    by code_simp
  moreover have "observe_all example_cache_host [0, 1] [0, 1] [] = Value [example_cache, example_cache]"
    by (simp add: observe_processor_caches_def example_walk del: One_nat_def)
  moreover have "online_text example_cache_host = Value ''0-1''"
    by (simp add: online_text_def example_cache_host_def example_cache_file_def)
  ultimately have v: "cache_descriptors (Value ''0-1'') example_cache_host = Value [oc_entry example_cache]"
    by (simp add: cache_descriptors_def example_list del: One_nat_def observe_all.simps std_sort.simps)
  obtain online us where "caches_readable (Value ''0-1'') example_cache_host online"
    "[oc_entry example_cache] = map oc_entry us" "set us = shown_caches example_cache_host online"
    using cache_descriptors_exact [of "Value ''0-1''" example_cache_host] unfolding v result.case by metis
  moreover from this(1) have "online = [0, 1]" using example_list by (auto simp: caches_readable_def)
  moreover from calculation(2) obtain c where "us = [c]" "oc_entry c = oc_entry example_cache"
    by (auto simp: Cons_eq_map_conv)
  ultimately have "shown_caches example_cache_host [0, 1] = {c}" by simp
  then show ?thesis using v \<open>oc_entry c = _\<close> by blast
qed

section \<open>Usage\<close>

lemma stat_counters_strings:
  "list_all (\<lambda>n. n < 2 ^ 64) ns \<Longrightarrow> stat_counters (map dec_string ns) = Value (map of_nat ns)"
  by (induction ns) (simp_all add: parse_stat_counter_def)

lemma add_counter_nat:
  assumes "a < 2 ^ 64" "b < 2 ^ 64"
  shows "add_counter (of_nat a) (of_nat b) = (if a + b < 2 ^ 64 then Value (of_nat (a + b)) else fail errc.value_too_large)"
proof -
  have "(of_nat a :: u64) > 0xFFFFFFFFFFFFFFFF - of_nat b \<longleftrightarrow> 2 ^ 64 - 1 - b < a"
    using assms by (simp add: word_less_nat_alt of_nat_u64 unat_sub_le word_le_nat_alt)
  with assms show ?thesis by (auto simp: add_counter_def)
qed

definition fields_text :: "nat list \<Rightarrow> string" where
  "fields_text ns = concat (map (\<lambda>n. CHR '' '' # dec_string n) ns)"

lemma tokens_fields: "tokens_of cpu_space (fields_text ns) = map dec_string ns"
proof (induction ns)
  case (Cons n ns)
  have "list_all (\<lambda>c. \<not> cpu_space c) (dec_string n)"
    using dec_string_digits [of n] digit_not_cpu_space by (auto simp: list_all_iff)
  moreover have "fields_text ns = [] \<or> cpu_space (hd (fields_text ns))"
    by (cases ns) (auto simp: fields_text_def cpu_space_def)
  ultimately have "tokens_of cpu_space (dec_string n @ fields_text ns) = dec_string n # tokens_of cpu_space (fields_text ns)"
    by (intro tokens_of_word) simp_all
  moreover have "cpu_space (CHR '' '')" by (simp add: cpu_space_def)
  ultimately show ?case using Cons.IH by (simp add: fields_text_def)
qed (simp add: fields_text_def)

text \<open>Field \<open>n\<close> of the line, zero where the kernel has none.\<close>

definition field_or_zero :: "nat list \<Rightarrow> nat \<Rightarrow> nat" where
  "field_or_zero ns n = (if length ns > n then ns ! n else 0)"

definition usage_of :: "nat list \<Rightarrow> usage_information result" where
  "usage_of ns =
     (let user = ns ! 0 + ns ! 1;
          sys = ns ! 2 + field_or_zero ns 5 + field_or_zero ns 6;
          idle = ns ! 3 + field_or_zero ns 4
      in if user < 2 ^ 64 \<and> sys < 2 ^ 64 \<and> idle < 2 ^ 64
         then Value \<lparr>us_user_ticks = of_nat user, us_system_ticks = of_nat sys, us_idle_ticks = of_nat idle\<rparr>
         else fail errc.value_too_large)"

lemma field_or_zero_less: "list_all (\<lambda>n. n < 2 ^ 64) ns \<Longrightarrow> field_or_zero ns k < 2 ^ 64"
  by (simp add: field_or_zero_def list_all_length)

lemma counter_or_zero_field: "counter_or_zero (map of_nat ns) k = of_nat (field_or_zero ns k)"
  by (simp add: counter_or_zero_def field_or_zero_def)

lemma usage_fields_exact:
  assumes "4 \<le> length ns" "list_all (\<lambda>n. n < 2 ^ 64) ns"
  shows "parse_cpu_usage_fields (fields_text ns) = usage_of ns"
proof -
  have nth: "map of_nat ns ! k = (of_nat (ns ! k) :: u64)" "ns ! k < 2 ^ 64" if "k < 4" for k
    using assms that by (simp_all add: list_all_length)
  have softirq: "(if length ns > 6 then add_counter t (map of_nat ns ! 6) else Value t) =
      add_counter t (of_nat (field_or_zero ns 6))" for t
  proof -
    have "unat t < 2 ^ 64" using unsigned_less [of t] by simp
    then show ?thesis by (simp add: field_or_zero_def add_counter_def word_less_nat_alt)
  qed
  have ne: "ns \<noteq> []" using assms(1) by auto
  define u where "u = ns ! 0 + ns ! 1"
  define s where "s = ns ! 2 + field_or_zero ns 5"
  note f = field_or_zero_less [OF assms(2)]
  have "parse_cpu_usage_fields (fields_text ns) =
      and_then (add_counter (of_nat (ns ! 0)) (of_nat (ns ! 1))) (\<lambda>user.
      and_then (add_counter (of_nat (ns ! 2)) (of_nat (field_or_zero ns 5))) (\<lambda>sys.
      and_then (add_counter sys (of_nat (field_or_zero ns 6))) (\<lambda>sys.
      and_then (add_counter (of_nat (ns ! 3)) (of_nat (field_or_zero ns 4))) (\<lambda>idle.
        Value \<lparr>us_user_ticks = user, us_system_ticks = sys, us_idle_ticks = idle\<rparr>))))"
    using assms nth ne
    by (simp add: parse_cpu_usage_fields_def tokens_fields stat_counters_strings counter_or_zero_field softirq)
  also have "\<dots> = usage_of ns"
  proof (cases "u < 2 ^ 64 \<and> s < 2 ^ 64")
    case True
    then show ?thesis
      using nth(2) [of 0] nth(2) [of 1] nth(2) [of 2] nth(2) [of 3] f [of 4] f [of 5] f [of 6]
      by (simp add: add_counter_nat usage_of_def Let_def u_def s_def add.assoc del: of_nat_add)
  next
    case False
    then have "\<not> (u < 2 ^ 64 \<and> s + field_or_zero ns 6 < 2 ^ 64)" by (auto dest: add_lessD1)
    then show ?thesis
      using False nth(2) [of 0] nth(2) [of 1] nth(2) [of 2] f [of 5]
      by (auto simp: add_counter_nat usage_of_def Let_def u_def s_def add.assoc simp del: of_nat_add)
  qed
  finally show ?thesis .
qed

text \<open>
  C23. The usage read from the statistics of the kernel is exact: user and nice time, system time with both
  kinds of interrupt time, idle and waiting time are the sums of the recorded fields, whichever optional
  fields the line has, and a sum that does not fit in 64 bits is refused, never wrapped.
\<close>

theorem processor_usage_exact:
  assumes "4 \<le> length ns" "list_all (\<lambda>n. n < 2 ^ 64) ns"
    and "list_all (\<lambda>l. newline \<notin> set l \<and> \<not> has_prefix ''cpu '' l) before"
  shows "parse_proc_stat_usage (concat (map (\<lambda>l. l @ [newline]) before) @ ''cpu '' @ fields_text ns @ newline # rest) =
    usage_of ns"
proof -
  have "newline \<notin> set (fields_text ns)"
    using dec_string_free [of newline] by (auto simp: fields_text_def is_digit_def)
  then have l: "lines_of (''cpu '' @ fields_text ns @ newline # rest) = (''cpu '' @ fields_text ns) # lines_of rest"
    using pieces_of_append [of newline "''cpu '' @ fields_text ns" rest] by simp
  have "stat_lines (lines_of (concat (map (\<lambda>l. l @ [newline]) before) @ t)) = stat_lines (lines_of t)" for t
    using assms(3) by (induction before) (simp_all add: pieces_of_append)
  then show ?thesis
    using l usage_fields_exact [OF assms(1,2)] by (simp add: parse_proc_stat_usage_def has_prefix_def)
qed

theorem processor_usage_exact_witness:
  "parse_proc_stat_usage (concat (map (\<lambda>l. l @ [newline]) [''page 1'']) @ ''cpu '' @ fields_text [7, 5, 2, 9, 1, 3, 4] @ newline # ''cpu0 1'') =
   usage_of [7, 5, 2, 9, 1, 3, 4]"
  by (rule processor_usage_exact) (simp_all add: has_prefix_def)


section \<open>Frequencies\<close>

lemma maximum_megahertz_value: "unat maximum_megahertz = 4294967"
  by (simp add: maximum_megahertz_def unat_div)

text \<open>The whole part is read exactly, or is so large that no frequency fits.\<close>

lemma mhz_whole_exact:
  assumes "list_all is_digit w" "rest = [] \<or> \<not> is_digit (hd rest)" "unat v \<le> 42949679"
  shows "(mhz_whole v (w @ rest) = Value (of_nat (dec_from (unat v) w), rest) \<and> dec_from (unat v) w \<le> 42949679) \<or>
    (mhz_whole v (w @ rest) = fail errc.value_too_large \<and> 4294967 < dec_from (unat v) w div 10)"
  using assms
proof (induction w arbitrary: v)
  case Nil
  then show ?case by (cases rest) auto
next
  case (Cons c w)
  note d = unat_digit_u64 [of c] unat_digit_le [of c]
  show ?case
  proof (cases "v > maximum_megahertz")
    case True
    then have "4294967 < unat v" by (simp add: word_less_nat_alt maximum_megahertz_value)
    moreover have "unat v * 10 \<le> dec_from (unat v * 10 + (uchar c - 48)) w"
      using dec_from_mono [of "unat v * 10 + (uchar c - 48)" w] by linarith
    ultimately show ?thesis using True Cons.prems by simp
  next
    case False
    then have small: "unat v \<le> 4294967" by (simp add: word_le_nat_alt not_less maximum_megahertz_value)
    then have "unat (v * 10) = unat v * 10" by (subst unat_mult_small) simp_all
    then have n: "unat (v * 10 + digit_u64 c) = unat v * 10 + (uchar c - 48)"
      using small d Cons.prems by (subst unat_add_small) simp_all
    then have "unat (v * 10 + digit_u64 c) \<le> 42949679" using small d Cons.prems by simp
    then show ?thesis
      using False Cons.IH [of "v * 10 + digit_u64 c"] Cons.prems n by simp
  qed
qed

text \<open>The fraction: the first three digits count, the fourth rounds.\<close>

lemma mhz_digits_exact:
  assumes "list_all is_digit fs" "unat (mf_fraction f) < 10 ^ min (mf_digits f) 3"
  shows "\<exists>g. mhz_digits fs f = (g, []) \<and> mf_digits g = mf_digits f + length fs \<and>
    unat (mf_fraction g) = dec_from (unat (mf_fraction f)) (take (3 - mf_digits f) fs) \<and>
    unat (mf_fraction g) < 10 ^ min (mf_digits g) 3 \<and>
    (mf_round_up g \<longleftrightarrow> mf_round_up f \<or>
      mf_digits f \<le> 3 \<and> 3 < mf_digits f + length fs \<and> 53 \<le> uchar (fs ! (3 - mf_digits f)))"
  using assms
proof (induction fs arbitrary: f)
  case (Cons c fs)
  have c: "uchar c - 48 \<le> 9" "48 \<le> uchar c" using Cons.prems by (auto simp: is_digit_def)
  have digit: "unat (of_nat (uchar c - 48) :: u32) = uchar c - 48"
    using c by (simp add: unat_of_nat take_bit_nat_eq_self del: of_nat_diff)
  let ?f = "mhz_digit c f"
  have next_fraction: "unat (mf_fraction ?f) =
      (if mf_digits f < 3 then unat (mf_fraction f) * 10 + (uchar c - 48) else unat (mf_fraction f))
      \<and> unat (mf_fraction ?f) < 10 ^ min (mf_digits ?f) 3"
  proof (cases "mf_digits f < 3")
    case True
    then have "min (mf_digits f) 3 = mf_digits f" by simp
    moreover have "(10 :: nat) ^ mf_digits f \<le> 10 ^ 2" using True by (intro power_increasing) simp_all
    ultimately have l: "unat (mf_fraction f) < 10 ^ mf_digits f" "unat (mf_fraction f) < 100"
      using Cons.prems(2) by simp_all
    then have "unat (mf_fraction f * 10) = unat (mf_fraction f) * 10" by (subst unat_mult_small) simp_all
    then have "unat (mf_fraction f * 10 + of_nat (uchar c - 48)) = unat (mf_fraction f) * 10 + (uchar c - 48)"
      using l c digit by (subst unat_add_small) simp_all
    moreover have "min (Suc (mf_digits f)) 3 = Suc (mf_digits f)" using True by simp
    ultimately show ?thesis
      using True l c by (simp add: mhz_digit_def Let_def)
  next
    case False
    then show ?thesis using Cons.prems(2) by (simp add: mhz_digit_def Let_def)
  qed
  have round: "mf_round_up ?f \<longleftrightarrow> mf_round_up f \<or> mf_digits f = 3 \<and> 53 \<le> uchar c"
    using c digit by (auto simp: mhz_digit_def Let_def word_le_nat_alt)
  have digits: "mf_digits ?f = mf_digits f + 1" by (simp add: mhz_digit_def Let_def)
  obtain g where g: "mhz_digits fs ?f = (g, [])" "mf_digits g = mf_digits ?f + length fs"
    "unat (mf_fraction g) = dec_from (unat (mf_fraction ?f)) (take (3 - mf_digits ?f) fs)"
    "unat (mf_fraction g) < 10 ^ min (mf_digits g) 3"
    "mf_round_up g \<longleftrightarrow> mf_round_up ?f \<or>
      mf_digits ?f \<le> 3 \<and> 3 < mf_digits ?f + length fs \<and> 53 \<le> uchar (fs ! (3 - mf_digits ?f))"
  proof -
    have "list_all is_digit fs" "unat (mf_fraction ?f) < 10 ^ min (mf_digits ?f) 3"
      using Cons.prems(1) next_fraction by simp_all
    from Cons.IH [OF this] show ?thesis using that by blast
  qed
  have "take (3 - mf_digits f) (c # fs) = (if mf_digits f < 3 then c # take (3 - mf_digits ?f) fs else [])"
    using digits by (simp add: take_Cons' )
  moreover have "mf_digits f < 3 \<Longrightarrow> (c # fs) ! (3 - mf_digits f) = fs ! (3 - mf_digits ?f)"
    using digits by (simp add: nth_Cons')
  ultimately show ?case
    using g next_fraction round digits Cons.prems(1)
    by (intro exI [of _ g]) (cases "mf_digits f" "3 :: nat" rule: linorder_cases; auto)
qed auto


text \<open>A frequency of \<open>num / 10 ^ k\<close> megahertz in kilohertz, rounded half up.\<close>

definition rounded_khz :: "nat \<Rightarrow> nat \<Rightarrow> nat" where
  "rounded_khz num k = (num * 2000 + 10 ^ k) div (2 * 10 ^ k)"

lemma rounded_short:
  assumes "k \<le> 3"
  shows "rounded_khz (m * 10 ^ k + n) k = m * 1000 + n * 10 ^ (3 - k)"
proof -
  have "k = 0 \<or> k = 1 \<or> k = 2 \<or> k = 3" using assms by auto
  moreover have "Suc (2 * x) div 2 = x" for x :: nat by simp
  then have "Suc (m * 2000 + n * 2000) div 2 = m * 1000 + n * 1000"
    by (metis add_mult_distrib mult.commute mult.assoc num_double numeral_times_numeral)
  ultimately show ?thesis by (auto simp: rounded_khz_def algebra_simps numeral_2_eq_2 [symmetric])
qed

lemma rounded_long:
  assumes "b < 10 ^ j" "d \<le> 9"
  shows "rounded_khz (m * 10 ^ (4 + j) + (a * 10 + d) * 10 ^ j + b) (4 + j) = m * 1000 + a + (if 5 \<le> d then 1 else 0)"
proof -
  define p :: nat where "p = 10 ^ j"
  have e: "(10 :: nat) ^ (4 + j) = 10000 * p" by (simp add: p_def power_add)
  have "b < p" using assms(1) by (simp add: p_def)
  have eq: "(m * (10000 * p) + (a * 10 + d) * p + b) * 2000 + 10000 * p =
      (m * 1000 + a) * (20000 * p) + (d * 2000 * p + b * 2000 + 10000 * p)"
    by (simp add: algebra_simps)
  have "((m * (10000 * p) + (a * 10 + d) * p + b) * 2000 + 10000 * p) div (20000 * p) =
      m * 1000 + a + (d * 2000 * p + b * 2000 + 10000 * p) div (20000 * p)"
    unfolding eq using \<open>b < p\<close> by (intro div_mult_self3) simp
  moreover have "(d * 2000 * p + b * 2000 + 10000 * p) div (20000 * p) = (if 5 \<le> d then 1 else 0)"
  proof (cases "5 \<le> d")
    case True
    have "5 * p \<le> d * p" "d * p \<le> 9 * p" using True assms(2) by simp_all
    then have "20000 * p \<le> d * 2000 * p + b * 2000 + 10000 * p" "d * 2000 * p + b * 2000 + 10000 * p < 40000 * p"
      using \<open>b < p\<close> by (simp_all only: mult.commute [of d 2000] mult.assoc)
    then show ?thesis using True by (intro div_nat_eqI) simp_all
  next
    case False
    have "d * p \<le> 4 * p" using False by simp
    then have "d * 2000 * p + b * 2000 + 10000 * p < 20000 * p"
      using \<open>b < p\<close> by (simp only: mult.commute [of d 2000] mult.assoc)
    then show ?thesis using False by simp
  qed
  ultimately show ?thesis
    unfolding rounded_khz_def e p_def [symmetric] by (simp only: mult.assoc [of 2 10000 p, symmetric]) simp
qed

lemma dec_value_split: "dec_value (xs @ ys) = dec_value xs * 10 ^ length ys + dec_value ys"
  using dec_from_split [of "dec_value xs" ys] by (simp add: dec_value_def dec_from_append)

text \<open>The value that the code composes from whole part, padded fraction and rounding.\<close>

lemma fraction_rounds:
  assumes "list_all is_digit fs"
  shows "m * 1000 + dec_value (take 3 fs) * 10 ^ (3 - length fs) + (if 3 < length fs \<and> 53 \<le> uchar (fs ! 3) then 1 else 0) =
    rounded_khz (m * 10 ^ length fs + dec_value fs) (length fs)"
proof (cases "length fs \<le> 3")
  case True
  then show ?thesis by (simp add: rounded_short)
next
  case False
  define A d B where "A = take 3 fs" and "d = uchar (fs ! 3) - 48" and "B = drop 4 fs"
  have "drop 3 fs = fs ! 3 # drop (Suc 3) fs" using False by (intro drop_cons_nth) simp
  then have fs: "fs = A @ [fs ! 3] @ B"
    using append_take_drop_id [of 3 fs] by (simp add: A_def B_def)
  have dig: "is_digit (fs ! 3)" "list_all is_digit B"
    using assms False by (simp_all add: list_all_length B_def)
  have "dec_value fs = dec_value ((A @ [fs ! 3]) @ B)" using fs by simp
  also have "\<dots> = (dec_value A * 10 + d) * 10 ^ length B + dec_value B"
    by (simp only: dec_value_split) (simp add: dec_value_def d_def)
  finally have v: "dec_value fs = (dec_value A * 10 + d) * 10 ^ length B + dec_value B" .
  have len: "length fs = 4 + length B" using False by (simp add: B_def)
  have "dec_value B < 10 ^ length B" using dec_value_less [OF dig(2)] .
  moreover have "d \<le> 9" "5 \<le> d \<longleftrightarrow> 53 \<le> uchar (fs ! 3)" using dig(1) by (auto simp: d_def is_digit_def)
  ultimately show ?thesis
    using rounded_long [of "dec_value B" "length B" d m "dec_value A"] False
    by (simp add: v len A_def add.assoc)
qed

definition khz_result :: "nat \<Rightarrow> nat result" where
  "khz_result k =
     (if k = 0 then fail errc.malformed_data else if k > 2 ^ 32 - 1 then fail errc.value_too_large else Value k)"

lemma compose_khz:
  assumes "unat m \<le> 42949679" "unat p < 1000"
  shows "(let kilohertz = m * 1000 + ucast (p :: u32);
      kilohertz = (if up then kilohertz + 1 else kilohertz)
    in if kilohertz = (0 :: u64) then fail errc.malformed_data
       else if kilohertz > 0xFFFFFFFF then fail errc.value_too_large
       else Value (unat kilohertz)) = khz_result (unat m * 1000 + unat p + (if up then 1 else 0))"
proof -
  have "unat (m * 1000) = unat m * 1000" using assms(1) by (subst unat_mult_small) simp_all
  moreover have u: "unat (ucast p :: u64) = unat p" by (rule unat_ucast_up) simp
  ultimately have k: "unat (m * 1000 + ucast p :: u64) = unat m * 1000 + unat p"
    using assms by (subst unat_add_small) simp_all
  then have "unat (m * 1000 + ucast p + 1 :: u64) = unat m * 1000 + unat p + 1"
    using assms by (subst unat_add_small) simp_all
  with k have "unat (if up then m * 1000 + ucast p + 1 else m * 1000 + ucast p :: u64) =
      unat m * 1000 + unat p + (if up then 1 else 0)" by simp
  moreover have "k = 0 \<longleftrightarrow> unat k = 0" "k > 0xFFFFFFFF \<longleftrightarrow> unat k > 2 ^ 32 - 1" for k :: u64
    by (simp_all add: unat_eq_zero word_less_nat_alt)
  ultimately show ?thesis unfolding khz_result_def Let_def by simp
qed

text \<open>
  C24. The rendering of a frequency in megahertz is converted to kilohertz with correct rounding, half up,
  whatever number of digits it has; a value that rounds to zero or does not fit in 32 bits is refused.
\<close>

theorem mhz_text_exact:
  assumes "ws \<noteq> []" "list_all is_digit ws" "fs \<noteq> []" "list_all is_digit fs"
  shows "parse_mhz_text (ws @ CHR ''.'' # fs) = khz_result (rounded_khz (dec_value (ws @ fs)) (length fs))"
proof -
  let ?s = "ws @ CHR ''.'' # fs" and ?m = "dec_value ws"
  have trim: "trim_cpu_field ?s = ?s"
    using assms digit_not_cpu_space by (intro trim_cpu_field_id) (cases ws; auto simp: list_all_iff)
  have dot: "\<not> is_digit (CHR ''.'')" by (simp add: is_digit_def)
  define z where "z = \<lparr>mf_fraction = 0, mf_digits = 0, mf_round_up = False\<rparr>"
  have "unat (mf_fraction z) < 10 ^ min (mf_digits z) 3" by (simp add: z_def)
  from mhz_digits_exact [OF assms(4) this] obtain g where
    "mhz_digits fs z = (g, []) \<and> mf_digits g = mf_digits z + length fs \<and>
    unat (mf_fraction g) = dec_from (unat (mf_fraction z)) (take (3 - mf_digits z) fs) \<and>
    unat (mf_fraction g) < 10 ^ min (mf_digits g) 3 \<and>
    (mf_round_up g \<longleftrightarrow> mf_round_up z \<or>
      mf_digits z \<le> 3 \<and> 3 < mf_digits z + length fs \<and> 53 \<le> uchar (fs ! (3 - mf_digits z)))" ..
  then have g: "mhz_digits fs \<lparr>mf_fraction = 0, mf_digits = 0, mf_round_up = False\<rparr> = (g, [])"
    "mf_digits g = length fs" "unat (mf_fraction g) = dec_value (take 3 fs)"
    "unat (mf_fraction g) < 10 ^ min (length fs) 3" "mf_round_up g \<longleftrightarrow> 3 < length fs \<and> 53 \<le> uchar (fs ! 3)"
    by (auto simp: z_def dec_value_def)
  have rest: "mhz_rest (CHR ''.'' # fs) = Value g"
    using g(1,2) assms(3) by (simp add: mhz_rest_def Let_def)
  have pad: "unat (padded_fraction g) = dec_value (take 3 fs) * 10 ^ (3 - length fs) \<and> unat (padded_fraction g) < 1000"
  proof -
    have "0 < length fs" using assms(3) by simp
    then have "length fs = 1 \<or> length fs = 2 \<or> 3 \<le> length fs" by linarith
    moreover have "unat (a * 10) = unat a * 10" "unat (a * 100) = unat a * 100" if "unat a < 1000" for a :: u32
      using that by (subst unat_mult_small; simp)+
    ultimately show ?thesis
      using g(3,4) by (auto simp: padded_fraction_def g(2))
  qed
  have composed: "?m * 1000 + unat (padded_fraction g) + (if mf_round_up g then 1 else 0) =
      rounded_khz (dec_value (ws @ fs)) (length fs)"
    using fraction_rounds [OF assms(4), of ?m] pad g(5) by (simp add: dec_value_split)
  have whole: "(mhz_whole 0 ?s = Value (of_nat ?m, CHR ''.'' # fs) \<and> ?m \<le> 42949679) \<or>
      (mhz_whole 0 ?s = fail errc.value_too_large \<and> 4294967 < ?m div 10)"
    using mhz_whole_exact [OF assms(2), of "CHR ''.'' # fs" 0] dot by (simp add: dec_value_def)
  then show ?thesis
  proof
    assume w: "mhz_whole 0 ?s = Value (of_nat ?m, CHR ''.'' # fs) \<and> ?m \<le> 42949679"
    then have m: "unat (of_nat ?m :: u64) = ?m" by (intro of_nat_u64) simp
    have "parse_mhz_text ?s = khz_result (unat (of_nat ?m :: u64) * 1000 + unat (padded_fraction g) + (if mf_round_up g then 1 else 0))"
      using w m pad assms(1) compose_khz [of "of_nat ?m" "padded_fraction g" "mf_round_up g"]
      by (simp add: parse_mhz_text_def trim rest)
    then show ?thesis using m composed by simp
  next
    assume w: "mhz_whole 0 ?s = fail errc.value_too_large \<and> 4294967 < ?m div 10"
    then have "42949680 \<le> ?m" by linarith
    then have "2 ^ 32 - 1 < rounded_khz (dec_value (ws @ fs)) (length fs)"
      unfolding composed [symmetric] by simp
    then show ?thesis using w by (simp add: parse_mhz_text_def trim khz_result_def)
  qed
qed

theorem mhz_text_exact_witness: "parse_mhz_text (''800'' @ CHR ''.'' # ''0115'') = Value 800012"
proof -
  have "parse_mhz_text (''800'' @ CHR ''.'' # ''0115'') = khz_result (rounded_khz (dec_value (''800'' @ ''0115'')) (length ''0115''))"
    by (rule mhz_text_exact) (simp_all add: is_digit_def)
  also have "dec_value (''800'' @ ''0115'') = 8000115" by (simp add: dec_value_def)
  finally show ?thesis by (simp add: rounded_khz_def khz_result_def)
qed

end
