(* ===== verification/Os.thy ===== *)
theory Os
  imports Linux_Files Utf8 From_Chars
begin

text \<open>
  The operating-system module on Linux (\<open>detail/os/linux.hpp\<close>, \<open>detail/os/common.hpp\<close>). A time point is its
  count of nanoseconds, a signed 64-bit integer. What \<open>uname\<close>, \<open>gethostname\<close> and \<open>clock_gettime\<close>
  answer are arguments.
\<close>

section \<open>Release files\<close>

record release_information =
  ri_name :: string
  ri_pretty_name :: string
  ri_version_id :: string
  ri_build_id :: string
  ri_image_id :: string

definition no_release :: release_information where
  "no_release = \<lparr>ri_name = [], ri_pretty_name = [], ri_version_id = [], ri_build_id = [], ri_image_id = []\<rparr>"

definition os_space :: "char \<Rightarrow> bool" where
  "os_space c \<longleftrightarrow> c = CHR '' '' \<or> c = tab"

definition single_quote :: char where "single_quote = CHR 0x27"
definition double_quote :: char where "double_quote = CHR 0x22"

text \<open>The characters between the quotes.\<close>

fun unquote :: "char \<Rightarrow> string \<Rightarrow> string result" where
  "unquote quote [] = Value []"
| "unquote quote (c # cs) =
     (if c = backslash \<and> quote = double_quote then
        (case cs of
           [] \<Rightarrow> fail errc.malformed_data
         | d # ds \<Rightarrow> and_then (unquote quote ds) (\<lambda>t. Value (d # t)))
      else and_then (unquote quote cs) (\<lambda>t. Value (c # t)))"

definition decode_os_release_value :: "string \<Rightarrow> string result" where
  "decode_os_release_value raw =
     (let input = trim_back os_space (dropWhile os_space raw) in
      if input = [] then Value []
      else
        (let quote = hd input in
         if quote \<noteq> single_quote \<and> quote \<noteq> double_quote then Value input
         else if length input < 2 \<or> last input \<noteq> quote then fail errc.malformed_data
         else unquote quote (butlast (tl input))))"

definition release_field :: "string \<Rightarrow> string \<Rightarrow> release_information \<Rightarrow> release_information" where
  "release_field key v out =
     (if key = ''NAME'' then out\<lparr>ri_name := v\<rparr>
      else if key = ''PRETTY_NAME'' then out\<lparr>ri_pretty_name := v\<rparr>
      else if key = ''VERSION_ID'' then out\<lparr>ri_version_id := v\<rparr>
      else if key = ''BUILD_ID'' then out\<lparr>ri_build_id := v\<rparr>
      else if key = ''IMAGE_ID'' then out\<lparr>ri_image_id := v\<rparr>
      else if key = ''DISTRIB_ID'' \<and> ri_name out = [] then out\<lparr>ri_name := v\<rparr>
      else if key = ''DISTRIB_DESCRIPTION'' \<and> ri_pretty_name out = [] then out\<lparr>ri_pretty_name := v\<rparr>
      else if key = ''DISTRIB_RELEASE'' \<and> ri_version_id out = [] then out\<lparr>ri_version_id := v\<rparr>
      else if key = ''CHROMEOS_RELEASE_NAME'' \<and> ri_name out = [] then out\<lparr>ri_name := v\<rparr>
      else if key = ''CHROMEOS_RELEASE_VERSION'' \<and> ri_version_id out = [] then out\<lparr>ri_version_id := v\<rparr>
      else if key = ''CHROMEOS_RELEASE_BUILD_NUMBER'' \<and> ri_build_id out = [] then out\<lparr>ri_build_id := v\<rparr>
      else out)"

definition without_return :: "string \<Rightarrow> string" where
  "without_return line = (if line \<noteq> [] \<and> last line = carriage_return then butlast line else line)"

definition release_line :: "string \<Rightarrow> release_information \<Rightarrow> release_information result" where
  "release_line raw out =
     (let line = dropWhile os_space (without_return raw) in
      if line = [] \<or> hd line = CHR ''#'' then Value out
      else (case find_from (CHR ''='') line 0 of
          None \<Rightarrow> fail errc.malformed_data
        | Some n \<Rightarrow>
            if n = 0 then fail errc.malformed_data
            else and_then (decode_os_release_value (drop (n + 1) line)) (\<lambda>v.
              Value (release_field (take n line) v out))))"

fun release_lines :: "string list \<Rightarrow> release_information \<Rightarrow> release_information result" where
  "release_lines [] out = Value out"
| "release_lines (l # ls) out = and_then (release_line l out) (release_lines ls)"

definition parse_os_release :: "string \<Rightarrow> release_information result" where
  "parse_os_release input = release_lines (lines_of input) no_release"

definition default_maximum_size :: nat where
  "default_maximum_size = 1024 * 1024"

definition missing_file :: "string result \<Rightarrow> bool" where
  "missing_file r \<longleftrightarrow> (case r of Value s \<Rightarrow> False | Unexpected e \<Rightarrow> is_no_such_file e)"

definition read_os_release :: "('x host_scheme) \<Rightarrow> release_information result" where
  "read_os_release host =
     (let content = ho_read host ''/etc/os-release'' default_maximum_size;
          content = (if missing_file content then ho_read host ''/usr/lib/os-release'' default_maximum_size else content);
          content = (if missing_file content then ho_read host ''/etc/lsb-release'' default_maximum_size else content)
      in and_then content parse_os_release)"

definition product_name :: "('x host_scheme) \<Rightarrow> string result" where
  "product_name host =
     and_then (read_os_release host) (\<lambda>r.
       if ri_pretty_name r \<noteq> [] then Value (ri_pretty_name r)
       else if ri_name r \<noteq> [] then Value (ri_name r)
       else fail errc.not_found)"

definition product_version :: "('x host_scheme) \<Rightarrow> string result" where
  "product_version host =
     and_then (read_os_release host) (\<lambda>r.
       if ri_version_id r = [] then fail errc.not_found else Value (ri_version_id r))"

definition build_identifier :: "('x host_scheme) \<Rightarrow> string result" where
  "build_identifier host =
     and_then (read_os_release host) (\<lambda>r.
       if ri_build_id r \<noteq> [] then Value (ri_build_id r)
       else if ri_image_id r \<noteq> [] then Value (ri_image_id r)
       else fail errc.not_found)"

section \<open>Kernel, host and boot\<close>

record utsname =
  un_sysname :: string
  un_release :: string

definition uname_information :: "int + utsname \<Rightarrow> utsname result" where
  "uname_information answer = (case answer of Inl e \<Rightarrow> fail_errno e | Inr v \<Rightarrow> Value v)"

definition kernel_name :: "int + utsname \<Rightarrow> string result" where
  "kernel_name answer = and_then (uname_information answer) (\<lambda>v. Value (un_sysname v))"

definition kernel_version :: "int + utsname \<Rightarrow> string result" where
  "kernel_version answer = and_then (uname_information answer) (\<lambda>v. Value (un_release v))"

definition ENAMETOOLONG :: int where "ENAMETOOLONG = 36"
definition EINVAL :: int where "EINVAL = 22"

definition host_name_maximum :: nat where
  "host_name_maximum = 1024 * 1024"

text \<open>
  What \<open>gethostname\<close> answers for each size of the buffer, an error number or the bytes of the buffer. The
  size starts at 256 and doubles; it is never zero.
\<close>

function host_name_loop :: "(nat \<Rightarrow> int + string) \<Rightarrow> nat \<Rightarrow> string result" where
  "host_name_loop gethostname buffer_size =
     (if buffer_size = 0 \<or> buffer_size > host_name_maximum then fail errc.value_too_large
      else (case gethostname buffer_size of
          Inr buffer \<Rightarrow>
            (let name = takeWhile (\<lambda>c. c \<noteq> nul) (take buffer_size buffer) in
             if length name < buffer_size then Value name
             else host_name_loop gethostname (buffer_size * 2))
        | Inl e \<Rightarrow>
            if e \<noteq> ENAMETOOLONG \<and> e \<noteq> EINVAL then fail_errno e
            else host_name_loop gethostname (buffer_size * 2)))"
  by pat_completeness auto
termination
  by (relation "measure (\<lambda>(g, n). host_name_maximum + 1 - n)") auto

declare host_name_loop.simps [simp del]

definition host_name :: "(nat \<Rightarrow> int + string) \<Rightarrow> string result" where
  "host_name gethostname = host_name_loop gethostname 256"

definition boot_identifier :: "('x host_scheme) \<Rightarrow> string result" where
  "boot_identifier host =
     and_then (ho_read host ''/proc/sys/kernel/random/boot_id'' default_maximum_size) (\<lambda>s.
       let v = trim_line_end s in if v = [] then fail errc.malformed_data else Value v)"

text \<open>
  Durations are counts in signed 64-bit integers. The conversion to a finer unit multiplies, the sum of two
  durations is formed in the finer unit, the conversion to a coarser one divides towards zero. A product or
  sum out of range is undefined: \<^const>\<open>None\<close>.
\<close>

definition i64_value :: "int \<Rightarrow> int option" where
  "i64_value v = (if - (2 ^ 63) \<le> v \<and> v < 2 ^ 63 then Some v else None)"

definition finer_duration :: "int \<Rightarrow> int \<Rightarrow> int option" where
  "finer_duration factor amount = i64_value (amount * factor)"

definition coarser_duration :: "int \<Rightarrow> int \<Rightarrow> int" where
  "coarser_duration factor amount = sgn amount * (\<bar>amount\<bar> div factor)"

definition add_durations :: "int \<Rightarrow> int \<Rightarrow> int option" where
  "add_durations a b = i64_value (a + b)"

text \<open>Seconds and nanoseconds of the clock, in milliseconds.\<close>

definition uptime :: "int + (int \<times> int) \<Rightarrow> int result option" where
  "uptime answer =
     (case answer of
        Inl e \<Rightarrow> Some (fail_errno e)
      | Inr (tv_sec, tv_nsec) \<Rightarrow>
          if tv_sec < 0 \<or> tv_nsec < 0 \<or> tv_nsec \<ge> 1000000000 then Some (fail errc.malformed_data)
          else if tv_sec > coarser_duration 1000 (2 ^ 63 - 1) then Some (fail errc.value_too_large)
          else
            Option.bind (finer_duration 1000000000 tv_sec) (\<lambda>nanoseconds.
            Option.bind (add_durations nanoseconds tv_nsec) (\<lambda>total.
              Some (Value (coarser_duration 1000000 total)))))"

definition boot_seconds :: "string \<Rightarrow> int result" where
  "boot_seconds digits =
     (case whole_signed 64 digits of
        Unexpected e \<Rightarrow> fail errc.malformed_data
      | Value seconds \<Rightarrow>
          if seconds < 0 then fail errc.malformed_data
          else if seconds > coarser_duration 1000000000 (2 ^ 63 - 1) then fail errc.value_too_large
          else Value (seconds * 1000000000))"

fun boot_lines :: "string list \<Rightarrow> int result" where
  "boot_lines [] = fail errc.not_found"
| "boot_lines (line # ls) =
     (if length line > 6 \<and> has_prefix ''btime '' line then boot_seconds (drop 6 line) else boot_lines ls)"

definition boot_time :: "('x host_scheme) \<Rightarrow> int result" where
  "boot_time host =
     and_then (ho_read host ''/proc/stat'' default_maximum_size) (\<lambda>statistics. boot_lines (lines_of statistics))"

section \<open>Boundary\<close>

definition os_validate_utf8 :: "string result \<Rightarrow> string result" where
  "os_validate_utf8 r = and_then r (\<lambda>v. if \<not> is_valid_utf8 v then fail errc.malformed_data else Value v)"

interpretation os_text: boundary_validator os_validate_utf8 is_valid_utf8
  by unfold_locales (simp_all add: os_validate_utf8_def)

section \<open>Correctness\<close>

text \<open>A value in double quotes: the characters special to a shell there are escaped.\<close>

fun escape_release :: "string \<Rightarrow> string" where
  "escape_release [] = []"
| "escape_release (c # cs) =
     (if c \<in> {double_quote, backslash, CHR ''$'', CHR 0x60} then backslash # c # escape_release cs
      else c # escape_release cs)"

definition release_assignment :: "string \<times> string \<Rightarrow> string" where
  "release_assignment a = fst a @ ''='' @ [double_quote] @ escape_release (snd a) @ [double_quote]"

lemma unquote_escape: "unquote double_quote (escape_release s) = Value s"
  by (induction s) (auto simp: double_quote_def)

lemma quote_not_space: "\<not> os_space double_quote" "double_quote \<noteq> carriage_return"
  by (simp_all add: os_space_def double_quote_def)

lemma decode_quoted: "decode_os_release_value ([double_quote] @ escape_release s @ [double_quote]) = Value s"
proof -
  have "trim_back os_space ([double_quote] @ escape_release s @ [double_quote]) = [double_quote] @ escape_release s @ [double_quote]"
    by (rule trim_back_id) (simp add: quote_not_space)
  then show ?thesis
    by (simp add: decode_os_release_value_def quote_not_space unquote_escape Let_def)
qed

definition release_key :: "string \<Rightarrow> bool" where
  "release_key k \<longleftrightarrow> k \<noteq> [] \<and> list_all (\<lambda>c. c \<noteq> CHR ''='' \<and> c \<noteq> CHR ''#'' \<and> c \<noteq> newline \<and> \<not> os_space c) k"

definition assignment_ok :: "string \<times> string \<Rightarrow> bool" where
  "assignment_ok a \<longleftrightarrow> release_key (fst a) \<and> newline \<notin> set (snd a)"

lemma release_line_assignment:
  assumes "release_key k"
  shows "release_line (release_assignment (k, v)) out = Value (release_field k v out)"
proof -
  let ?rest = "[double_quote] @ escape_release v @ [double_quote]"
  have eq: "release_assignment (k, v) = k @ CHR ''='' # ?rest" by (simp add: release_assignment_def)
  have "without_return (k @ CHR ''='' # ?rest) = k @ CHR ''='' # ?rest"
    by (simp add: without_return_def quote_not_space)
  moreover have "CHR ''='' \<notin> set k" "k \<noteq> []" "\<not> os_space (hd k)" "hd k \<noteq> CHR ''#''"
    using assms by (cases k; auto simp: release_key_def list_all_iff)+
  moreover from this have "dropWhile os_space (k @ CHR ''='' # ?rest) = k @ CHR ''='' # ?rest"
    by (cases k) auto
  moreover have "find_from (CHR ''='') (k @ CHR ''='' # ?rest) 0 = Some (length k)"
    using find_from_append [of "CHR ''=''" k "[]" ?rest] calculation(2) by simp
  ultimately show ?thesis
    using decode_quoted [of v] unfolding eq by (simp add: release_line_def)
qed

lemma escape_newline: "newline \<notin> set s \<Longrightarrow> newline \<notin> set (escape_release s)"
  by (induction s) auto

text \<open>
  C25. A release file of quoted assignments is read back as the assignments applied in order, whatever
  characters other than a line feed the values hold: quotes, backslashes, dollars and blanks come back
  exactly.
\<close>

theorem os_release_roundtrip:
  assumes "list_all assignment_ok as"
  shows "parse_os_release (concat (map (\<lambda>a. release_assignment a @ [newline]) as)) =
    Value (foldl (\<lambda>out a. release_field (fst a) (snd a) out) no_release as)"
proof -
  have "newline \<notin> set (release_assignment a)" if "assignment_ok a" for a
    using that escape_newline [of "snd a"]
    by (auto simp: assignment_ok_def release_key_def release_assignment_def list_all_iff double_quote_def)
  then have "lines_of (concat (map (\<lambda>l. l @ [newline]) (map release_assignment as))) = map release_assignment as"
    using assms by (intro lines_of_unlines) (auto simp: list_all_iff)
  moreover have "release_lines (map release_assignment as) out =
      Value (foldl (\<lambda>out a. release_field (fst a) (snd a) out) out as)" for out
    using assms
    by (induction as arbitrary: out) (auto simp: assignment_ok_def release_line_assignment)
  ultimately show ?thesis by (simp add: parse_os_release_def comp_def)
qed

theorem os_release_roundtrip_witness:
  "parse_os_release (concat (map (\<lambda>a. release_assignment a @ [newline]) [(''NAME'', ''a $b''), (''ID'', [backslash])])) =
   Value (no_release\<lparr>ri_name := ''a $b''\<rparr>)"
proof -
  have "parse_os_release (concat (map (\<lambda>a. release_assignment a @ [newline]) [(''NAME'', ''a $b''), (''ID'', [backslash])])) =
      Value (foldl (\<lambda>out a. release_field (fst a) (snd a) out) no_release [(''NAME'', ''a $b''), (''ID'', [backslash])])"
    by (rule os_release_roundtrip) (simp add: assignment_ok_def release_key_def os_space_def)
  then show ?thesis by (simp add: release_field_def)
qed

lemma uptime_sum:
  assumes "0 \<le> s" "0 \<le> n" "n < 1000000000"
  shows "Option.bind (finer_duration 1000000000 s) (\<lambda>nanoseconds.
      Option.bind (add_durations nanoseconds n) (\<lambda>total. Some (Value (coarser_duration 1000000 total)))) =
    (if s < 9223372036 \<or> s = 9223372036 \<and> n < 854775808 then Some (Value (1000 * s + n div 1000000)) else None)"
proof -
  have "(n + (1000 * s) * 1000000) div 1000000 = 1000 * s + n div 1000000" by (subst div_mult_self1) simp_all
  then have "(s * 1000000000 + n) div 1000000 = 1000 * s + n div 1000000" by (simp add: algebra_simps)
  then have ms: "coarser_duration 1000000 (s * 1000000000 + n) = 1000 * s + n div 1000000"
    using assms by (auto simp: coarser_duration_def sgn_if)
  have fits: "s * 1000000000 + n < 2 ^ 63 \<longleftrightarrow> s < 9223372036 \<or> s = 9223372036 \<and> n < 854775808"
    using assms by (cases "s < 9223372036"; cases "s = 9223372036") simp_all
  show ?thesis
  proof (cases "s * 1000000000 + n < 2 ^ 63")
    case True
    then show ?thesis using assms fits ms by (auto simp: finer_duration_def add_durations_def i64_value_def)
  next
    case False
    then show ?thesis using assms fits by (auto simp: finer_duration_def add_durations_def i64_value_def)
  qed
qed

text \<open>
  C26. The two conversions of the module, for every reading. The uptime is exact to the millisecond below
  9223372036.854775808 seconds, but its guard admits a million times as many: from there to the guard the sum
  overflows, which is undefined. The boot time, whose guard is that of nanoseconds, converts every number of
  seconds exactly or refuses it.
\<close>

theorem clock_conversions_exact:
  "uptime (Inr (s, n)) =
     (if s < 0 \<or> n < 0 \<or> 1000000000 \<le> n then Some (fail errc.malformed_data)
      else if 9223372036854775 < s then Some (fail errc.value_too_large)
      else if s < 9223372036 \<or> s = 9223372036 \<and> n < 854775808 then Some (Value (1000 * s + n div 1000000))
      else None) \<and>
   boot_seconds (dec_string k) =
     (if k \<le> 9223372036 then Value (int k * 1000000000)
      else if k < 2 ^ 63 then fail errc.value_too_large
      else fail errc.malformed_data)"
proof
  have guard: "coarser_duration 1000 (2 ^ 63 - 1) = 9223372036854775" by (simp add: coarser_duration_def)
  show "uptime (Inr (s, n)) =
     (if s < 0 \<or> n < 0 \<or> 1000000000 \<le> n then Some (fail errc.malformed_data)
      else if 9223372036854775 < s then Some (fail errc.value_too_large)
      else if s < 9223372036 \<or> s = 9223372036 \<and> n < 854775808 then Some (Value (1000 * s + n div 1000000))
      else None)"
    using uptime_sum [of s n] guard by (simp add: uptime_def)
  show "boot_seconds (dec_string k) =
     (if k \<le> 9223372036 then Value (int k * 1000000000)
      else if k < 2 ^ 63 then fail errc.value_too_large
      else fail errc.malformed_data)"
  proof (cases "k < 2 ^ 63")
    case True
    then have "whole_signed 64 (dec_string k) = Value (int k)"
      using whole_signed_string [of 64 "int k"] by (simp add: int_string_def)
    then show ?thesis using True by (simp add: boot_seconds_def coarser_duration_def)
  next
    case False
    have ds: "takeWhile is_digit (dec_string k) = dec_string k" by (rule takeWhile_all) (rule dec_string_digits)
    have "whole_signed 64 (dec_string k) = fail errc.value_too_large"
      using False dec_string_hd [of k] by (simp add: whole_signed_def from_chars_signed_def ds)
    then show ?thesis using False by (simp add: boot_seconds_def fail_def)
  qed
qed

text \<open>A host name is complete: it has no null byte and fits the largest buffer.\<close>

lemma host_name_bounded:
  assumes "host_name gethostname = Value name"
  shows "length name < host_name_maximum \<and> nul \<notin> set name"
proof -
  have "host_name_loop gethostname n = Value name \<Longrightarrow> length name < host_name_maximum \<and> nul \<notin> set name" for n
  proof (induction gethostname n rule: host_name_loop.induct)
    case (1 g n)
    then show ?case
      using set_takeWhileD [of nul "\<lambda>c. c \<noteq> nul"]
      by (auto simp: host_name_loop.simps [of g n] Let_def split: sum.splits if_splits)
  qed
  then show ?thesis using assms by (simp add: host_name_def)
qed

end
