(* ===== verification/Process_List.thy ===== *)
theory Process_List
  imports Os Ordering
begin

text \<open>
  The process table on Linux (\<open>process_list.hpp\<close>, \<open>detail/process_list/common.hpp\<close> and
  \<open>detail/process_list/linux.hpp\<close>). The system is the record of file answers extended by the answers to
  \<open>readlink\<close> for each buffer size, of the user database, and of \<open>sysconf\<close>. A call that a signal interrupts
  is repeated unchanged, so an answer here is the first one that is no interruption.
\<close>

section \<open>Types\<close>

datatype process_state = unknown | running | sleeping | stopped | zombie

record process_entry =
  pe_pid :: nat
  pe_ppid :: "nat option"
  pe_uid :: "nat option"
  pe_gid :: "nat option"
  pe_user_name :: "string option"
  pe_name :: "string option"
  pe_executable_path :: "string option"
  pe_command_line :: "string list option"
  pe_working_directory :: "string option"
  pe_state :: process_state
  pe_user_cpu_time :: "int option"
  pe_kernel_cpu_time :: "int option"
  pe_start_time :: "int option"
  pe_resident_memory_bytes :: "u64 option"
  pe_virtual_memory_bytes :: "u64 option"
  pe_thread_count :: "nat option"
  pe_priority :: "int option"

definition new_process :: "nat \<Rightarrow> process_entry" where
  "new_process pid = \<lparr>pe_pid = pid, pe_ppid = None, pe_uid = None, pe_gid = None, pe_user_name = None,
     pe_name = None, pe_executable_path = None, pe_command_line = None, pe_working_directory = None,
     pe_state = process_state.unknown, pe_user_cpu_time = None, pe_kernel_cpu_time = None, pe_start_time = None,
     pe_resident_memory_bytes = None, pe_virtual_memory_bytes = None, pe_thread_count = None,
     pe_priority = None\<rparr>"

record process_host = host +
  ph_readlink :: "string \<Rightarrow> nat \<Rightarrow> int + string"
  ph_getpwuid :: "nat \<Rightarrow> passwd_lookup"
  ph_clock_ticks :: int
  ph_page_size :: int

section \<open>Names\<close>

definition pl_tolower :: "char \<Rightarrow> char" where
  "pl_tolower c = (if 65 \<le> uchar c \<and> uchar c \<le> 90 then char_of (uchar c + 32) else c)"

definition pl_equals_ignore_case :: "string \<Rightarrow> string \<Rightarrow> bool" where
  "pl_equals_ignore_case left right \<longleftrightarrow>
     length left = length right \<and> list_all2 (\<lambda>a b. pl_tolower a = pl_tolower b) left right"

definition extract_basename :: "string \<Rightarrow> string" where
  "extract_basename path = rev (takeWhile (\<lambda>c. c \<noteq> CHR ''/'' \<and> c \<noteq> backslash) (rev path))"

definition names_match :: "string \<Rightarrow> string \<Rightarrow> bool \<Rightarrow> bool" where
  "names_match name target ignore_case \<longleftrightarrow> name = target \<or> (ignore_case \<and> pl_equals_ignore_case name target)"

definition matches_process_name :: "process_entry \<Rightarrow> string \<Rightarrow> bool \<Rightarrow> bool" where
  "matches_process_name entry target ignore_case \<longleftrightarrow>
     target \<noteq> [] \<and>
     ((case pe_name entry of None \<Rightarrow> False | Some n \<Rightarrow> names_match n target ignore_case) \<or>
      (case pe_executable_path entry of
         None \<Rightarrow> False | Some p \<Rightarrow> names_match (extract_basename p) target ignore_case))"

definition sort_processes :: "process_entry list \<Rightarrow> process_entry list" where
  "sort_processes ps = std_sort (\<lambda>a b. pe_pid a < pe_pid b) ps"

section \<open>Reading one process\<close>

definition is_stat_separator :: "char \<Rightarrow> bool" where
  "is_stat_separator c \<longleftrightarrow>
     c = CHR '' '' \<or> c = tab \<or> c = newline \<or> c = carriage_return \<or> c = CHR 0x0C \<or> c = CHR 0x0B"

definition parse_u64_field :: "string \<Rightarrow> nat result" where
  "parse_u64_field token = whole_unsigned 64 token"

definition parse_i64_field :: "string \<Rightarrow> int result" where
  "parse_i64_field token = whole_signed 64 token"

definition link_maximum_size :: nat where
  "link_maximum_size = 1024 * 1024"

function symlink_loop :: "(nat \<Rightarrow> int + string) \<Rightarrow> nat \<Rightarrow> string option" where
  "symlink_loop readlink buffer_size =
     (case readlink buffer_size of
        Inl e \<Rightarrow> None
      | Inr target \<Rightarrow>
          (let res = take buffer_size target in
           if length res < buffer_size then (if \<not> is_valid_utf8 res then None else Some res)
           else if buffer_size = 0 \<or> buffer_size > link_maximum_size div 2 then None
           else symlink_loop readlink (buffer_size * 2)))"
  by pat_completeness auto
termination
  by (relation "measure (\<lambda>(r, n). link_maximum_size - n)") (auto simp: link_maximum_size_def)

declare symlink_loop.simps [simp del]

definition read_symlink_path :: "('x process_host_scheme) \<Rightarrow> string \<Rightarrow> string option" where
  "read_symlink_path host link_path = symlink_loop (ph_readlink host link_path) 256"

text \<open>The lookup grows its buffer as the one of the POSIX users does.\<close>

function username_loop :: "passwd_lookup \<Rightarrow> nat \<Rightarrow> string option" where
  "username_loop lookup buffer_size =
     (let (outcome, entry) = lookup buffer_size in
      if outcome \<noteq> 0 then
        (if outcome = ERANGE \<and> 0 < buffer_size \<and> buffer_size < maximum_size
         then username_loop lookup (grown buffer_size) else None)
      else (case entry of
          None \<Rightarrow> None
        | Some p \<Rightarrow> (case pw_name p of
              None \<Rightarrow> None
            | Some uname \<Rightarrow> if is_valid_utf8 uname then Some uname else None)))"
  by pat_completeness auto
termination
  by (relation "measure (\<lambda>(lookup, n). maximum_size - n)") (auto simp: grown_def)

declare username_loop.simps [simp del]

definition lookup_username_by_uid :: "('x process_host_scheme) \<Rightarrow> nat \<Rightarrow> string option" where
  "lookup_username_by_uid host uid = username_loop (ph_getpwuid host uid) initial_size"

fun cmdline_args :: "string list \<Rightarrow> string list result" where
  "cmdline_args [] = Value []"
| "cmdline_args (arg # rest) =
     (if \<not> is_valid_utf8 arg then fail errc.invalid_encoding
      else and_then (cmdline_args rest) (\<lambda>as. Value (arg # as)))"

definition parse_proc_cmdline :: "string \<Rightarrow> string list result" where
  "parse_proc_cmdline input =
     (if input = [] then Value []
      else if last input \<noteq> nul then fail errc.malformed_data
      else cmdline_args (pieces_of nul input))"

text \<open>The first of the identifiers after the key, if it is a 32-bit number.\<close>

definition status_id :: "string \<Rightarrow> nat option" where
  "status_id rest =
     (case parse_u64_field (takeWhile (\<lambda>c. c \<noteq> CHR '' '' \<and> c \<noteq> tab) rest) of
        Value v \<Rightarrow> if v \<le> 2 ^ 32 - 1 then Some v else None
      | Unexpected e \<Rightarrow> None)"

definition status_line :: "process_entry \<Rightarrow> string \<Rightarrow> process_entry" where
  "status_line entry line =
     (if has_prefix (''Uid:'' @ [tab]) line then
        (case status_id (drop 5 line) of None \<Rightarrow> entry | Some v \<Rightarrow> entry\<lparr>pe_uid := Some v\<rparr>)
      else if has_prefix (''Gid:'' @ [tab]) line then
        (case status_id (drop 5 line) of None \<Rightarrow> entry | Some v \<Rightarrow> entry\<lparr>pe_gid := Some v\<rparr>)
      else if pe_name entry = None \<and> has_prefix (''Name:'' @ [tab]) line then
        (let name_str = trim_back (\<lambda>c. c = carriage_return \<or> c = newline \<or> c = CHR '' '' \<or> c = tab) (drop 6 line) in
         if is_valid_utf8 name_str then entry\<lparr>pe_name := Some name_str\<rparr> else entry)
      else entry)"

definition parse_proc_status :: "string \<Rightarrow> process_entry \<Rightarrow> process_entry" where
  "parse_proc_status content entry = foldl status_line entry (lines_of content)"

definition process_state_of :: "string \<Rightarrow> process_state" where
  "process_state_of field =
     (if field = [] then process_state.unknown
      else (let c = hd field in
        if c = CHR ''R'' then running
        else if c \<in> set ''SDIKWP'' then sleeping
        else if c = CHR ''T'' \<or> c = CHR ''t'' then stopped
        else if c \<in> set ''ZXx'' then zombie
        else process_state.unknown))"

text \<open>A field that must be a 32-bit number.\<close>

definition u32_field :: "string \<Rightarrow> nat result" where
  "u32_field field =
     and_then (parse_u64_field field) (\<lambda>v. if v > 2 ^ 32 - 1 then fail errc.value_too_large else Value v)"

text \<open>A field in clock ticks, as nanoseconds when the rate is known.\<close>

definition ticks_field :: "int \<Rightarrow> string \<Rightarrow> int option result" where
  "ticks_field ticks_per_sec field =
     and_then (parse_u64_field field) (\<lambda>v.
       if ticks_per_sec > 0
       then and_then (ticks_to_nanoseconds (of_nat v) ticks_per_sec) (\<lambda>t. Value (Some t))
       else Value None)"

definition priority_field :: "string \<Rightarrow> int result" where
  "priority_field field =
     and_then (parse_i64_field field) (\<lambda>v.
       if v < - (2 ^ 31) \<or> v > 2 ^ 31 - 1 then fail errc.value_too_large else Value v)"

definition start_field :: "int \<Rightarrow> int option \<Rightarrow> string \<Rightarrow> int option result" where
  "start_field ticks_per_sec boot_tp field =
     and_then (parse_u64_field field) (\<lambda>v.
       case boot_tp of
         None \<Rightarrow> Value None
       | Some b \<Rightarrow>
           if ticks_per_sec > 0 then
             and_then (ticks_to_nanoseconds (of_nat v) ticks_per_sec) (\<lambda>age.
             and_then (compose_start_time b age) (\<lambda>t. Value (Some t)))
           else Value None)"

definition resident_field :: "u64 \<Rightarrow> string \<Rightarrow> u64 option result" where
  "resident_field page_size field =
     and_then (parse_u64_field field) (\<lambda>v.
       if page_size > 0 then and_then (scale_resident_bytes (of_nat v) page_size) (\<lambda>b. Value (Some b))
       else Value None)"

definition max_fields :: nat where
  "max_fields = 22"

definition stat_fields :: "string list \<Rightarrow> int \<Rightarrow> u64 \<Rightarrow> int option \<Rightarrow> process_entry \<Rightarrow> process_entry result" where
  "stat_fields columns ticks_per_sec page_size boot_tp entry =
     and_then (u32_field (columns ! 1)) (\<lambda>ppid.
     and_then (ticks_field ticks_per_sec (columns ! 11)) (\<lambda>utime.
     and_then (ticks_field ticks_per_sec (columns ! 12)) (\<lambda>stime.
     and_then (priority_field (columns ! 15)) (\<lambda>pri.
     and_then (u32_field (columns ! 17)) (\<lambda>threads.
     and_then (start_field ticks_per_sec boot_tp (columns ! 19)) (\<lambda>start.
     and_then (parse_u64_field (columns ! 20)) (\<lambda>vsize.
     and_then (resident_field page_size (columns ! 21)) (\<lambda>rss.
       Value (entry\<lparr>pe_state := process_state_of (columns ! 0), pe_ppid := Some ppid,
         pe_user_cpu_time := utime, pe_kernel_cpu_time := stime, pe_priority := Some pri,
         pe_thread_count := Some threads, pe_start_time := start,
         pe_virtual_memory_bytes := Some (of_nat vsize), pe_resident_memory_bytes := rss\<rparr>)))))))))"

definition parse_proc_stat_entry ::
    "string \<Rightarrow> nat \<Rightarrow> int \<Rightarrow> u64 \<Rightarrow> int option \<Rightarrow> process_entry result" where
  "parse_proc_stat_entry content pid ticks_per_sec page_size boot_tp =
     (case (find_from (CHR ''('') content 0, rfind_char (CHR '')'') content) of
        (Some name_start, Some name_end) \<Rightarrow>
          if name_end < name_start then fail errc.malformed_data
          else
            (let comm_str = substr content (name_start + 1) (name_end - name_start - 1);
                 entry = (if is_valid_utf8 comm_str then (new_process pid)\<lparr>pe_name := Some comm_str\<rparr>
                          else new_process pid);
                 columns = take max_fields (tokens_of is_stat_separator (drop (name_end + 1) content))
             in
             if length columns < max_fields then fail errc.malformed_data
             else stat_fields columns ticks_per_sec page_size boot_tp entry)
      | _ \<Rightarrow> fail errc.malformed_data)"

definition proc_path :: "nat \<Rightarrow> string \<Rightarrow> string" where
  "proc_path pid name = ''/proc/'' @ dec_string pid @ name"

definition with_status :: "('x process_host_scheme) \<Rightarrow> nat \<Rightarrow> process_entry \<Rightarrow> process_entry" where
  "with_status host pid entry =
     (case ho_read host (proc_path pid ''/status'') default_maximum_size of
        Unexpected e \<Rightarrow> entry
      | Value content \<Rightarrow> parse_proc_status content entry)"

definition with_user :: "('x process_host_scheme) \<Rightarrow> process_entry \<Rightarrow> process_entry" where
  "with_user host entry =
     (case pe_uid entry of
        None \<Rightarrow> entry
      | Some uid \<Rightarrow> entry\<lparr>pe_user_name := lookup_username_by_uid host uid\<rparr>)"

definition with_command_line :: "('x process_host_scheme) \<Rightarrow> nat \<Rightarrow> process_entry \<Rightarrow> process_entry result" where
  "with_command_line host pid entry =
     (case ho_read host (proc_path pid ''/cmdline'') default_maximum_size of
        Unexpected e \<Rightarrow> Value entry
      | Value content \<Rightarrow>
          (case parse_proc_cmdline content of
             Value args \<Rightarrow> Value (entry\<lparr>pe_command_line := Some args\<rparr>)
           | Unexpected e \<Rightarrow>
               if e \<noteq> make_error_code errc.invalid_encoding \<and> e \<noteq> make_error_code errc.malformed_data
               then Unexpected e else Value entry))"

definition query_single_process ::
    "('x process_host_scheme) \<Rightarrow> nat \<Rightarrow> int \<Rightarrow> u64 \<Rightarrow> int option \<Rightarrow> process_entry result" where
  "query_single_process host pid ticks_per_sec page_size boot_tp =
     (case ho_read host (proc_path pid ''/stat'') default_maximum_size of
        Unexpected e \<Rightarrow>
          if is_no_such_file e \<or> e = make_error_code errc.not_found then fail errc.not_found else Unexpected e
      | Value content \<Rightarrow>
          and_then (parse_proc_stat_entry content pid ticks_per_sec page_size boot_tp) (\<lambda>entry.
          and_then (with_command_line host pid (with_user host (with_status host pid entry))) (\<lambda>entry.
            Value (entry\<lparr>pe_executable_path := read_symlink_path host (proc_path pid ''/exe''),
              pe_working_directory := read_symlink_path host (proc_path pid ''/cwd'')\<rparr>))))"

section \<open>Queries\<close>

definition skippable_process_error :: "error_code \<Rightarrow> bool" where
  "skippable_process_error e \<longleftrightarrow>
     e = make_error_code errc.not_found \<or> is_permission_denied e \<or>
     e = make_error_code errc.malformed_data \<or> e = make_error_code errc.value_too_large"

text \<open>\<open>sysconf\<close> values and boot time, as both queries prepare them.\<close>

definition usable_page_size :: "('x process_host_scheme) \<Rightarrow> u64" where
  "usable_page_size host = (if ph_page_size host > 0 then of_int (ph_page_size host) else 0)"

definition rate_validation :: "('x process_host_scheme) \<Rightarrow> unit result" where
  "rate_validation host =
     (if ph_clock_ticks host > 0
      then and_then (ticks_to_nanoseconds 0 (ph_clock_ticks host)) (\<lambda>_. Value ()) else Value ())"

definition known_boot_time :: "('x process_host_scheme) \<Rightarrow> int option" where
  "known_boot_time host = (case boot_time host of Value t \<Rightarrow> Some t | Unexpected e \<Rightarrow> None)"

definition query_known :: "('x process_host_scheme) \<Rightarrow> nat \<Rightarrow> process_entry result" where
  "query_known host pid =
     query_single_process host pid (ph_clock_ticks host) (usable_page_size host) (known_boot_time host)"

definition process_id :: "string \<Rightarrow> nat option" where
  "process_id name =
     (if name = [] \<or> \<not> is_digit (hd name) then None
      else (case from_chars_unsigned 32 name of
          Parsed pid rest \<Rightarrow> if rest \<noteq> [] \<or> pid = 0 then None else Some pid
        | _ \<Rightarrow> None))"

fun process_entries ::
    "('x process_host_scheme) \<Rightarrow> directory_event list \<Rightarrow> process_entry list \<Rightarrow> process_entry list result" where
  "process_entries host [] found = Value found"
| "process_entries host (Readdir_error e # es) found = (if e \<noteq> 0 then fail_errno e else Value found)"
| "process_entries host (Entry name # es) found =
     (case process_id name of
        None \<Rightarrow> process_entries host es found
      | Some pid \<Rightarrow>
          (case query_known host pid of
             Value entry \<Rightarrow> process_entries host es (found @ [entry])
           | Unexpected e \<Rightarrow>
               if \<not> skippable_process_error e then Unexpected e else process_entries host es found))"

definition processes :: "('x process_host_scheme) \<Rightarrow> process_entry list result" where
  "processes host =
     (case ho_opendir host ''/proc'' of
        Some e \<Rightarrow> fail_errno e
      | None \<Rightarrow>
          and_then (rate_validation host) (\<lambda>_.
          and_then (process_entries host (ho_entries host ''/proc'') []) (\<lambda>l. Value (sort_processes l))))"

definition process_count :: "('x process_host_scheme) \<Rightarrow> nat result" where
  "process_count host =
     and_then (processes host) (\<lambda>l. if length l > 2 ^ 32 - 1 then fail errc.value_too_large else Value (length l))"

definition find_process :: "('x process_host_scheme) \<Rightarrow> nat \<Rightarrow> process_entry result" where
  "find_process host pid =
     (if pid = 0 then fail errc.not_found
      else and_then (rate_validation host) (\<lambda>_. query_known host pid))"

definition find_processes_by_name :: "('x process_host_scheme) \<Rightarrow> string \<Rightarrow> process_entry list result" where
  "find_processes_by_name host name =
     (if name = [] then Value []
      else and_then (processes host) (\<lambda>all.
        Value (filter (\<lambda>entry. matches_process_name entry name False) all)))"

section \<open>Correctness\<close>

interpretation pids: strict_weak_order "\<lambda>a b :: process_entry. pe_pid a < pe_pid b"
  by (rule swo_key)

lemma parse_pid: "parse_proc_stat_entry content pid t p b = Value e \<Longrightarrow> pe_pid e = pid"
  by (auto simp: parse_proc_stat_entry_def stat_fields_def Let_def and_then_Value_iff new_process_def
      split: option.splits if_splits)

lemma status_pid: "pe_pid (parse_proc_status content e) = pe_pid e"
proof -
  have "pe_pid (status_line e l) = pe_pid e" for e l
    by (simp add: status_line_def Let_def split: option.splits)
  then have "pe_pid (foldl status_line e ls) = pe_pid e" for ls
    by (induction ls arbitrary: e) simp_all
  then show ?thesis by (simp add: parse_proc_status_def)
qed

lemma with_pid:
  "pe_pid (with_user host (with_status host pid e)) = pe_pid e"
  "with_command_line host pid e = Value d \<Longrightarrow> pe_pid d = pe_pid e"
  by (auto simp: with_user_def with_status_def with_command_line_def status_pid split: option.splits result.splits if_splits)

lemma query_pid: "query_known host pid = Value e \<Longrightarrow> pe_pid e = pid"
  by (auto simp: query_known_def query_single_process_def and_then_Value_iff with_pid parse_pid
      split: result.splits if_splits)

definition listed_process :: "('x process_host_scheme) \<Rightarrow> process_entry \<Rightarrow> bool" where
  "listed_process host e \<longleftrightarrow> 0 < pe_pid e \<and> find_process host (pe_pid e) = Value e"

lemma process_entries_listed:
  "process_entries host es found = Value l \<Longrightarrow> rate_validation host = Value () \<Longrightarrow> list_all (listed_process host) found \<Longrightarrow>
   list_all (listed_process host) l"
proof (induction host es found rule: process_entries.induct)
  case (3 host name es found)
  show ?case
  proof (cases "process_id name")
    case None
    then show ?thesis using 3 by simp
  next
    case (Some pid)
    then have pid: "0 < pid" by (auto simp: process_id_def split: if_splits chars_outcome.splits)
    show ?thesis
    proof (cases "query_known host pid")
      case (Value e)
      then have "listed_process host e"
        using pid query_pid [OF Value] "3.prems"(2) by (simp add: listed_process_def find_process_def)
      then show ?thesis using "3.IH"(2) [OF Some Value] "3.prems" Some Value by simp
    next
      case (Unexpected e)
      then have "skippable_process_error e" using "3.prems"(1) Some by (simp split: if_splits)
      then show ?thesis using "3.IH"(3) [OF Some Unexpected] "3.prems" Some Unexpected by simp
    qed
  qed
qed (auto split: if_splits)

text \<open>
  C27. The process table and the lookup of one process agree: every listed process has a positive identifier
  and is exactly what the lookup of this identifier returns; the table is in ascending order; the search by
  name returns the listed processes with the name, in the same order.
\<close>

theorem process_table_consistent:
  "case processes host of
     Value l \<Rightarrow> list_all (listed_process host) l \<and> sorted_wrt (\<lambda>a b. pe_pid a \<le> pe_pid b) l \<and>
       find_processes_by_name host name = Value (filter (\<lambda>e. matches_process_name e name False) l)
   | Unexpected e \<Rightarrow> find_processes_by_name host name = (if name = [] then Value [] else Unexpected e)"
proof (cases "processes host")
  case (Value l)
  then obtain es where e: "rate_validation host = Value ()" "process_entries host (ho_entries host ''/proc'') [] = Value es"
    "l = sort_processes es"
    by (auto simp: processes_def and_then_Value_iff split: option.splits)
  have "list_all (listed_process host) l"
    using process_entries_listed [OF e(2,1)] e(3) by (simp add: sort_processes_def list_all_iff)
  moreover have "sorted_wrt (\<lambda>a b. pe_pid a \<le> pe_pid b) l"
    using pids.std_sort_in_order [of es] e(3) by (simp add: sort_processes_def not_less)
  ultimately show ?thesis
    using Value by (simp add: find_processes_by_name_def matches_process_name_def)
qed (simp add: find_processes_by_name_def)

text \<open>A line of the kernel: identifier, name in parentheses, state and numbers.\<close>

definition stat_text :: "nat \<Rightarrow> string \<Rightarrow> string list \<Rightarrow> string" where
  "stat_text pid comm columns = dec_string pid @ '' ('' @ comm @ '')'' @ concat (map (\<lambda>f. CHR '' '' # f) columns) @ [newline]"

definition stat_field_ok :: "string \<Rightarrow> bool" where
  "stat_field_ok f \<longleftrightarrow> f \<noteq> [] \<and> list_all (\<lambda>c. \<not> is_stat_separator c \<and> c \<noteq> CHR '')'') f"

lemma stat_tokens:
  assumes "list_all stat_field_ok columns"
  shows "tokens_of is_stat_separator (concat (map (\<lambda>f. CHR '' '' # f) columns) @ [newline]) = columns"
  using assms
proof (induction columns)
  case Nil
  have "is_stat_separator newline" by (simp add: is_stat_separator_def)
  then show ?case by simp
next
  case (Cons f columns)
  let ?rest = "concat (map (\<lambda>f. CHR '' '' # f) columns) @ [newline]"
  have "is_stat_separator (CHR '' '')" "is_stat_separator newline" by (simp_all add: is_stat_separator_def)
  moreover from this have "is_stat_separator (hd ?rest)" by (cases columns) simp_all
  then have "tokens_of is_stat_separator (f @ ?rest) = f # tokens_of is_stat_separator ?rest"
    using Cons.prems by (intro tokens_of_word) (auto simp: stat_field_ok_def list_all_iff)
  ultimately show ?case using Cons by simp
qed

lemma rfind_char_last: "c \<notin> set ys \<Longrightarrow> rfind_char c (xs @ c # ys) = Some (length xs)"
  by (simp add: rfind_char_def Let_def takeWhile_until)

text \<open>
  C28. The name of a process cannot forge its statistics: whatever the name holds, parentheses, blanks and
  line feeds included, it is read back exactly when it is valid UTF-8, and the fields read are those after
  it.
\<close>

theorem stat_entry_unforgeable:
  assumes "list_all stat_field_ok columns" "max_fields \<le> length columns"
  shows "parse_proc_stat_entry (stat_text pid comm columns) id_number ticks_per_sec page_size boot_tp =
    stat_fields (take max_fields columns) ticks_per_sec page_size boot_tp
      ((new_process id_number)\<lparr>pe_name := (if is_valid_utf8 comm then Some comm else None)\<rparr>)"
proof -
  let ?tail = "concat (map (\<lambda>f. CHR '' '' # f) columns) @ [newline]"
  let ?s = "stat_text pid comm columns" and ?n = "length (dec_string pid) + 1"
  have split: "?s = (dec_string pid @ '' '') @ CHR ''('' # comm @ CHR '')'' # ?tail" by (simp add: stat_text_def)
  have "CHR ''('' \<notin> set (dec_string pid @ '' '')"
    using digits_free [OF dec_string_digits, of "CHR ''(''"] by (simp add: is_digit_def)
  then have start: "find_from (CHR ''('') ?s 0 = Some ?n"
    unfolding split using find_from_append [of "CHR ''(''" "dec_string pid @ '' ''" "[]"] by simp
  have "CHR '')'' \<notin> set ?tail" using assms(1) by (auto simp: stat_field_ok_def list_all_iff)
  then have stop: "rfind_char (CHR '')'') ?s = Some (?n + 1 + length comm)"
    unfolding split using rfind_char_last [of "CHR '')''" ?tail "(dec_string pid @ '' '') @ CHR ''('' # comm"] by simp
  have "substr ?s (?n + 1) (length comm) = comm" by (simp add: substr_def split)
  moreover have "drop (?n + 1 + length comm + 1) ?s = ?tail"
    using drop_append [of "length comm + 1" "comm @ '')''" ?tail] by (simp add: split numeral_3_eq_3)
  ultimately show ?thesis
    using assms stat_tokens [OF assms(1)]
    by (simp add: parse_proc_stat_entry_def start stop Let_def new_process_def)
qed

theorem stat_entry_unforgeable_witness:
  "parse_proc_stat_entry (stat_text 7 '') R (x'' (replicate 22 ''1'')) 7 100 4096 None =
   stat_fields (take max_fields (replicate 22 ''1'')) 100 4096 None
     ((new_process 7)\<lparr>pe_name := (if is_valid_utf8 '') R (x'' then Some '') R (x'' else None)\<rparr>)"
  by (rule stat_entry_unforgeable)
    (simp_all add: stat_field_ok_def is_stat_separator_def max_fields_def list_all_iff)

text \<open>An argument vector is read back from its terminated form.\<close>

lemma cmdline_roundtrip:
  assumes "list_all (\<lambda>a. nul \<notin> set a \<and> is_valid_utf8 a) args"
  shows "parse_proc_cmdline (concat (map (\<lambda>a. a @ [nul]) args)) = Value args"
proof -
  have "pieces_of nul (concat (map (\<lambda>a. a @ [nul]) args)) = args \<and> cmdline_args args = Value args \<and>
      (args \<noteq> [] \<longrightarrow> last (concat (map (\<lambda>a. a @ [nul]) args)) = nul)"
    using assms by (induction args) (auto simp: pieces_of_append)
  then show ?thesis by (cases args) (auto simp: parse_proc_cmdline_def)
qed

end
