(* ===== verification/Virtualization_Linux.thy ===== *)
theory Virtualization_Linux
  imports Virtualization_Correct Linux_Files Ordering
begin

text \<open>
  The virtualization queries on Linux (\<open>virtualization.hpp\<close>, \<open>detail/virtualization/linux.hpp\<close>):
  which hypervisor, container, sandbox or WSL release the process runs in, the effective limits of its
  control group, and its namespaces. The system is the record of file answers extended by the answers to
  \<open>cpuid\<close> (none on processors other than x86), to \<open>statfs\<close> and by the inode and device of a path that
  \<open>stat\<close> finds. The properties are in theory Virtualization_Limits.
\<close>

section \<open>Types\<close>

datatype sandbox_type =
    unknown | none | flatpak | snap | apple_sandbox | windows_app_container | other

record virt_host = host +
  vh_cpuid :: "u32 \<Rightarrow> (u32 \<times> u32 \<times> u32 \<times> u32) option"
  vh_statfs :: "string \<Rightarrow> u64 option"
  vh_identity :: "string \<Rightarrow> u64 \<times> u64"

record hypervisor_info =
  hi_present :: bool
  hi_vendor :: hypervisor_vendor
  hi_name :: string

record container_info =
  ci_present :: bool
  ci_runtime :: container_runtime
  ci_name :: string

record wsl_info =
  wi_is_wsl :: bool
  wi_version :: u32

record sandbox_info =
  si_is_sandboxed :: bool
  si_type :: sandbox_type

record namespace_info =
  ni_type :: namespace_type
  ni_name :: string
  ni_inode :: u64
  ni_device_id :: u64
  ni_is_isolated :: "bool option"

record cgroup_limits =
  cl_memory_max_bytes :: "u64 option"
  cl_memory_high_bytes :: "u64 option"
  cl_memory_swap_max_bytes :: "u64 option"
  cl_cpu_quota_us :: "u64 option"
  cl_cpu_period_us :: "u64 option"
  cl_pids_max :: "u64 option"

record cgroup_info =
  cg_version :: cgroup_version
  cg_path :: string
  cg_limits :: cgroup_limits
  cg_controllers :: "string list"

definition no_limits :: cgroup_limits where
  "no_limits = \<lparr>cl_memory_max_bytes = None, cl_memory_high_bytes = None, cl_memory_swap_max_bytes = None,
     cl_cpu_quota_us = None, cl_cpu_period_us = None, cl_pids_max = None\<rparr>"

definition empty_cgroup :: cgroup_info where
  "empty_cgroup = \<lparr>cg_version = cgroup_version.none, cg_path = [], cg_limits = no_limits, cg_controllers = []\<rparr>"

text \<open>\<open>access(path, F_OK) == 0\<close>.\<close>

definition path_exists :: "virt_host \<Rightarrow> string \<Rightarrow> bool" where
  "path_exists host path \<longleftrightarrow> ho_exists host path = None"

section \<open>Hypervisors\<close>

definition probe_cpuid_hypervisor :: "virt_host \<Rightarrow> hypervisor_info" where
  "probe_cpuid_hypervisor host =
     (let absent = \<lparr>hi_present = False, hi_vendor = hypervisor_vendor.none, hi_name = []\<rparr> in
      case vh_cpuid host 1 of
        None \<Rightarrow> absent
      | Some (eax, ebx, ecx, edx) \<Rightarrow>
          if ecx AND push_bit 31 1 = 0 then absent
          else (case vh_cpuid host 0x40000000 of
              None \<Rightarrow> \<lparr>hi_present = True, hi_vendor = hypervisor_vendor.unknown, hi_name = []\<rparr>
            | Some (eax, ebx, ecx, edx) \<Rightarrow>
                let name = decode_cpuid_signature ebx ecx edx in
                \<lparr>hi_present = True, hi_vendor = classify_cpuid_signature name, hi_name = name\<rparr>))"

definition read_dmi_attribute :: "virt_host \<Rightarrow> string \<Rightarrow> string" where
  "read_dmi_attribute host name =
     (case ho_read host (''/sys/class/dmi/id/'' @ name) 1024 of
        Unexpected e \<Rightarrow> []
      | Value content \<Rightarrow> trim_line_end content)"

definition classify_sysfs_hypervisor_type :: "string \<Rightarrow> hypervisor_vendor" where
  "classify_sysfs_hypervisor_type type_name =
     (if type_name = [] then hypervisor_vendor.unknown
      else if case_insensitive_equal type_name ''xen'' then hypervisor_vendor.xen
      else hypervisor_vendor.other)"

text \<open>
  What follows once CPUID and \<open>/sys/hypervisor/type\<close> have not settled the question: the firmware's
  strings, then the device tree.
\<close>

definition firmware_hypervisor :: "virt_host \<Rightarrow> hypervisor_info \<Rightarrow> hypervisor_info" where
  "firmware_hypervisor host info =
     (let sys_vendor = read_dmi_attribute host ''sys_vendor'';
          product_name = read_dmi_attribute host ''product_name'';
          bios_vendor = read_dmi_attribute host ''bios_vendor'';
          dmi_vendor = classify_dmi_strings sys_vendor product_name bios_vendor
      in if dmi_vendor \<noteq> hypervisor_vendor.unknown then
           info\<lparr>hi_present := True, hi_vendor := dmi_vendor,
                hi_name := (if hi_name info = [] then if product_name \<noteq> [] then product_name else sys_vendor
                            else hi_name info)\<rparr>
         else if path_exists host ''/proc/device-tree/hypervisor'' then
           info\<lparr>hi_present := True,
                hi_vendor := (if hi_vendor info = hypervisor_vendor.none then hypervisor_vendor.unknown
                              else hi_vendor info),
                hi_name := (if hi_name info = [] then ''DeviceTree Hypervisor'' else hi_name info)\<rparr>
         else info)"

definition detect_hypervisor :: "virt_host \<Rightarrow> hypervisor_info result" where
  "detect_hypervisor host =
     (let info = probe_cpuid_hypervisor host in
      if hi_present info \<and> hi_vendor info \<notin> {hypervisor_vendor.unknown, hypervisor_vendor.none, hypervisor_vendor.other}
      then Value info
      else let type_name = (case ho_read host ''/sys/hypervisor/type'' 256 of
                 Unexpected e \<Rightarrow> [] | Value content \<Rightarrow> trim_line_end content)
        in if type_name \<noteq> [] then
             Value (info\<lparr>hi_present := True, hi_name := (if hi_name info = [] then type_name else hi_name info),
                         hi_vendor := classify_sysfs_hypervisor_type type_name\<rparr>)
           else Value (firmware_hypervisor host info))"

section \<open>WSL, containers, sandboxes\<close>

definition names_wsl2 :: "string result \<Rightarrow> bool" where
  "names_wsl2 r =
     (case r of
        Unexpected e \<Rightarrow> False
      | Value content \<Rightarrow> case_insensitive_contains content ''wsl2'' \<or>
          case_insensitive_contains content ''microsoft-standard-wsl2'')"

definition detect_wsl :: "virt_host \<Rightarrow> wsl_info result" where
  "detect_wsl host =
     (let version_content = ho_read host ''/proc/version'' 4096;
          wsl_hint = (path_exists host ''/proc/sys/fs/binfmt_misc/WSLInterop'' \<or> path_exists host ''/run/WSL'' \<or>
            (case version_content of
               Unexpected e \<Rightarrow> False
             | Value content \<Rightarrow> case_insensitive_contains content ''microsoft'' \<or>
                 case_insensitive_contains content ''wsl''))
      in if \<not> wsl_hint then Value \<lparr>wi_is_wsl = False, wi_version = 0\<rparr>
         else if names_wsl2 version_content \<or>
                 names_wsl2 (ho_read host ''/proc/sys/kernel/osrelease'' 1024) \<or>
                 path_exists host ''/dev/dxg''
         then Value \<lparr>wi_is_wsl = True, wi_version = 2\<rparr>
         else Value \<lparr>wi_is_wsl = True, wi_version = 1\<rparr>)"

fun runtime_name :: "container_runtime \<Rightarrow> string" where
  "runtime_name container_runtime.docker = ''docker''"
| "runtime_name container_runtime.podman = ''podman''"
| "runtime_name container_runtime.kubernetes = ''kubernetes''"
| "runtime_name container_runtime.lxc = ''lxc''"
| "runtime_name container_runtime.lxd = ''lxd''"
| "runtime_name container_runtime.containerd = ''containerd''"
| "runtime_name _ = ''container''"

text \<open>The local function \<open>check_cgroup_file\<close>: the first line that names a container runtime.\<close>

definition check_cgroup_file :: "virt_host \<Rightarrow> string \<Rightarrow> container_info option" where
  "check_cgroup_file host path =
     (case ho_read host path (16 * 1024) of
        Unexpected e \<Rightarrow> None
      | Value content \<Rightarrow>
          (case find (\<lambda>runtime. runtime \<noteq> container_runtime.none) (map classify_cgroup_line (lines_of content)) of
             None \<Rightarrow> None
           | Some runtime \<Rightarrow> Some \<lparr>ci_present = True, ci_runtime = runtime, ci_name = runtime_name runtime\<rparr>))"

definition found_container :: "container_runtime \<Rightarrow> string \<Rightarrow> container_info result" where
  "found_container runtime name = Value \<lparr>ci_present = True, ci_runtime = runtime, ci_name = name\<rparr>"

definition detect_container :: "virt_host \<Rightarrow> container_info result" where
  "detect_container host =
     (let systemd_name = (case ho_read host ''/run/systemd/container'' 256 of
            Unexpected e \<Rightarrow> [] | Value content \<Rightarrow> trim_line_end content)
      in if systemd_name \<noteq> [] then found_container (classify_container_name systemd_name) systemd_name
         else if path_exists host ''/.dockerenv'' then found_container container_runtime.docker ''docker''
         else if path_exists host ''/.containerenv'' then found_container container_runtime.podman ''podman''
         else if path_exists host ''/proc/vz'' \<and> \<not> path_exists host ''/proc/bc''
         then found_container container_runtime.openvz ''openvz''
         else (case check_cgroup_file host ''/proc/1/cgroup'' of
             Some info \<Rightarrow> Value info
           | None \<Rightarrow> (case check_cgroup_file host ''/proc/self/cgroup'' of
               Some info \<Rightarrow> Value info
             | None \<Rightarrow> (case detect_wsl host of
                 Value found \<Rightarrow> if wi_is_wsl found then found_container container_runtime.wsl ''wsl''
                   else Value \<lparr>ci_present = False, ci_runtime = container_runtime.none, ci_name = []\<rparr>
               | Unexpected e \<Rightarrow> Value \<lparr>ci_present = False, ci_runtime = container_runtime.none, ci_name = []\<rparr>))))"

definition detect_sandbox :: "virt_host \<Rightarrow> sandbox_info result" where
  "detect_sandbox host =
     (if path_exists host ''/.flatpak-info'' then Value \<lparr>si_is_sandboxed = True, si_type = sandbox_type.flatpak\<rparr>
      else if ho_getenv host ''SNAP'' \<noteq> None \<or> ho_getenv host ''SNAP_NAME'' \<noteq> None \<or>
              ho_getenv host ''SNAP_INSTANCE_NAME'' \<noteq> None
      then Value \<lparr>si_is_sandboxed = True, si_type = sandbox_type.snap\<rparr>
      else Value \<lparr>si_is_sandboxed = False, si_type = sandbox_type.none\<rparr>)"

section \<open>Limits over the ancestors of a control group\<close>

text \<open>\<open>get_ancestor_paths\<close>: the path and its parents, the root last.\<close>

function parents_from :: "string \<Rightarrow> string list" where
  "parents_from current =
     (if current = [] \<or> current = ''/'' then []
      else current #
        (case rfind_char (CHR ''/'') current of
           None \<Rightarrow> []
         | Some last_slash \<Rightarrow> if last_slash = 0 then [] else parents_from (take last_slash current)))"
  by pat_completeness auto
termination
  by (relation "measure length") (auto dest: rfind_char_less)

declare parents_from.simps [simp del]

definition get_ancestor_paths :: "string \<Rightarrow> string list" where
  "get_ancestor_paths path =
     (if path = [] \<or> path = ''/'' then [''/''] else parents_from (strip_slashes path) @ [''/''])"

definition level_path :: "string \<Rightarrow> string \<Rightarrow> string" where
  "level_path dir filename = (if dir = [] \<or> last dir \<noteq> CHR ''/'' then dir @ ''/'' else dir) @ filename"

text \<open>
  \<open>stat\<close> the file of one level, then read it: absent levels are skipped (\<^const>\<open>None\<close>), every other
  failure ends the query.
\<close>

definition read_level :: "virt_host \<Rightarrow> string \<Rightarrow> string option result" where
  "read_level host path =
     (case ho_stat host path of
        Stat_error e \<Rightarrow> if e = ENOENT then Value None else fail_errno e
      | _ \<Rightarrow> and_then (ho_read host path 256) (\<lambda>content. Value (Some content)))"

definition tighter_limit :: "u64 option \<Rightarrow> u64 option \<Rightarrow> u64 option" where
  "tighter_limit min_limit parsed =
     (case parsed of
        None \<Rightarrow> min_limit
      | Some v \<Rightarrow> (case min_limit of None \<Rightarrow> Some v | Some m \<Rightarrow> Some (min m v)))"

text \<open>The state of the loop: \<open>min_limit\<close> and \<open>found_any_file\<close>.\<close>

fun limit_levels ::
    "virt_host \<Rightarrow> string \<Rightarrow> string list \<Rightarrow> u64 option \<times> bool \<Rightarrow> (u64 option \<times> bool) result" where
  "limit_levels host filename [] st = Value st"
| "limit_levels host filename (dir # dirs) st =
     and_then (read_level host (level_path dir filename)) (\<lambda>level.
       case level of
         None \<Rightarrow> limit_levels host filename dirs st
       | Some content \<Rightarrow>
           and_then (parse_cgroup_limit_value content) (\<lambda>parsed.
             limit_levels host filename dirs (tighter_limit (fst st) parsed, True)))"

definition read_effective_cgroup_limit :: "virt_host \<Rightarrow> string list \<Rightarrow> string \<Rightarrow> u64 option result" where
  "read_effective_cgroup_limit host ancestor_dirs filename =
     and_then (limit_levels host filename ancestor_dirs (None, False)) (\<lambda>(min_limit, found_any_file).
       if \<not> found_any_file then
         (if filename = ''memory.swap.max'' \<or> filename = ''memory.high'' then Value None else fail errc.not_found)
       else Value min_limit)"

text \<open>
  \<open>positive_ratio_less\<close> as a truth value. The division by zero it could run into does not happen here:
  every period compared has been checked to be nonzero (lemma \<open>quota_level_period\<close>).
\<close>

definition ratio_tighter :: "u64 \<Rightarrow> u64 \<Rightarrow> u64 \<Rightarrow> u64 \<Rightarrow> bool" where
  "ratio_tighter q p cur_q cur_p \<longleftrightarrow> positive_ratio_less q p cur_q cur_p = Some True"

text \<open>One level of \<open>cpu.max\<close> against the effective quota and period so far.\<close>

definition cpu_max_step :: "u64 option \<Rightarrow> u64 option \<Rightarrow> u64 option \<times> u64 option \<Rightarrow> u64 option \<times> u64 option" where
  "cpu_max_step level_quota level_period st =
     (let (effective_quota, effective_period) = st;
          first_period = (if effective_period = None then level_period else effective_period)
      in case level_quota of
           None \<Rightarrow> (effective_quota, first_period)
         | Some q \<Rightarrow>
             let p = (case level_period of None \<Rightarrow> 100000 | Some p \<Rightarrow> p) in
             (case effective_quota of
                None \<Rightarrow> (Some q, Some p)
              | Some cur_q \<Rightarrow>
                  let cur_p = (case first_period of None \<Rightarrow> 100000 | Some p \<Rightarrow> p) in
                  if ratio_tighter q p cur_q cur_p then (Some q, Some p) else (effective_quota, first_period)))"

fun cpu_max_levels ::
    "virt_host \<Rightarrow> string list \<Rightarrow> (u64 option \<times> u64 option) \<times> bool \<Rightarrow> ((u64 option \<times> u64 option) \<times> bool) result" where
  "cpu_max_levels host [] st = Value st"
| "cpu_max_levels host (dir # dirs) st =
     and_then (read_level host (level_path dir ''cpu.max'')) (\<lambda>level.
       case level of
         None \<Rightarrow> cpu_max_levels host dirs st
       | Some content \<Rightarrow>
           (case parse_cgroup_cpu_max content None None of
              (Unexpected e, _, _) \<Rightarrow> Unexpected e
            | (Value _, level_quota, level_period) \<Rightarrow>
                cpu_max_levels host dirs (cpu_max_step level_quota level_period (fst st), True)))"

text \<open>The effective quota and period, or the error.\<close>

definition read_effective_cpu_max :: "virt_host \<Rightarrow> string list \<Rightarrow> (u64 option \<times> u64 option) result" where
  "read_effective_cpu_max host ancestor_dirs =
     and_then (cpu_max_levels host ancestor_dirs ((None, None), False)) (\<lambda>(effective, found_any_file).
       if \<not> found_any_file then fail errc.not_found else Value effective)"

subsection \<open>The legacy hierarchy\<close>

record cgroup1_cpu =
  c1_found_any_file :: bool
  c1_found_constrained :: bool
  c1_best_quota :: u64
  c1_best_period :: u64
  c1_first_period :: "u64 option"

definition parse_cgroup1_period :: "string \<Rightarrow> u64 result" where
  "parse_cgroup1_period content =
     (let p_str = trim_signature content in
      if p_str = [] then fail errc.malformed_data
      else (case accumulate quotient_guard 0 p_str of
          None \<Rightarrow> fail errc.malformed_data
        | Some p_val \<Rightarrow> if p_val = 0 then fail errc.malformed_data else Value p_val))"

definition read_cgroup1_period :: "virt_host \<Rightarrow> string \<Rightarrow> u64 result" where
  "read_cgroup1_period host path =
     (case ho_stat host path of
        Stat_error e \<Rightarrow> fail_errno e
      | _ \<Rightarrow> and_then (ho_read host path 256) parse_cgroup1_period)"

definition cgroup1_cpu_step :: "u64 option \<Rightarrow> u64 \<Rightarrow> cgroup1_cpu \<Rightarrow> cgroup1_cpu" where
  "cgroup1_cpu_step quota p st =
     (let st = st\<lparr>c1_found_any_file := True,
            c1_first_period := (if c1_first_period st = None then Some p else c1_first_period st)\<rparr>
      in case quota of
           None \<Rightarrow> st
         | Some q \<Rightarrow>
             if \<not> c1_found_constrained st \<or> ratio_tighter q p (c1_best_quota st) (c1_best_period st)
             then st\<lparr>c1_found_constrained := True, c1_best_quota := q, c1_best_period := p\<rparr>
             else st)"

fun cgroup1_cpu_levels :: "virt_host \<Rightarrow> string list \<Rightarrow> cgroup1_cpu \<Rightarrow> cgroup1_cpu result" where
  "cgroup1_cpu_levels host [] st = Value st"
| "cgroup1_cpu_levels host (dir # dirs) st =
     and_then (read_level host (level_path dir ''cpu.cfs_quota_us'')) (\<lambda>level.
       case level of
         None \<Rightarrow> cgroup1_cpu_levels host dirs st
       | Some content \<Rightarrow>
           and_then (parse_cgroup1_cpu_quota_value content) (\<lambda>quota.
             and_then (read_cgroup1_period host (level_path dir ''cpu.cfs_period_us'')) (\<lambda>p.
               cgroup1_cpu_levels host dirs (cgroup1_cpu_step quota p st))))"

definition read_effective_cgroup1_cpu :: "virt_host \<Rightarrow> string list \<Rightarrow> (u64 option \<times> u64 option) result" where
  "read_effective_cgroup1_cpu host ancestor_dirs =
     and_then (cgroup1_cpu_levels host ancestor_dirs
         \<lparr>c1_found_any_file = False, c1_found_constrained = False, c1_best_quota = 0, c1_best_period = 0,
          c1_first_period = None\<rparr>)
       (\<lambda>st. if \<not> c1_found_any_file st then fail errc.not_found
             else if c1_found_constrained st then Value (Some (c1_best_quota st), Some (c1_best_period st))
             else Value (None, c1_first_period st))"

section \<open>Mounts of control groups\<close>

record cgroup_mount_info =
  cm_root :: string
  cm_mount_point :: string
  cm_fstype :: string
  cm_options :: "string list"

text \<open>A line of \<open>/proc/mounts\<close>, and one of \<open>/proc/self/mountinfo\<close>; \<^const>\<open>None\<close> is a line that is skipped.\<close>

definition mounts_line :: "string \<Rightarrow> cgroup_mount_info option" where
  "mounts_line line =
     (let tokens = split_whitespace line in
      if length tokens \<ge> 4 \<and> (tokens ! 2 = ''cgroup'' \<or> tokens ! 2 = ''cgroup2'')
      then Some \<lparr>cm_root = ''/'', cm_mount_point = unescape_mountinfo_path (tokens ! 1),
                 cm_fstype = tokens ! 2, cm_options = split_commas (tokens ! 3)\<rparr>
      else None)"

definition separator_index :: "string list \<Rightarrow> nat" where
  "separator_index tokens =
     (case find (\<lambda>i. tokens ! i = ''-'') [0..<length tokens] of None \<Rightarrow> 0 | Some i \<Rightarrow> i)"

definition mountinfo_line :: "string \<Rightarrow> cgroup_mount_info option" where
  "mountinfo_line line =
     (let tokens = split_whitespace line; sep_idx = separator_index tokens in
      if sep_idx \<ge> 6 \<and> length tokens \<ge> sep_idx + 4 \<and>
         (tokens ! (sep_idx + 1) = ''cgroup'' \<or> tokens ! (sep_idx + 1) = ''cgroup2'')
      then Some \<lparr>cm_root = unescape_mountinfo_path (tokens ! 3),
                 cm_mount_point = unescape_mountinfo_path (tokens ! 4),
                 cm_fstype = tokens ! (sep_idx + 1), cm_options = split_commas (tokens ! (sep_idx + 3))\<rparr>
      else None)"

definition read_cgroup_mounts :: "virt_host \<Rightarrow> cgroup_mount_info list result" where
  "read_cgroup_mounts host =
     (case ho_read host ''/proc/self/mountinfo'' (2 * 1024 * 1024) of
        Unexpected e \<Rightarrow>
          if \<not> is_no_such_file e then Unexpected e
          else and_then (ho_read host ''/proc/mounts'' (2 * 1024 * 1024)) (\<lambda>content.
            Value (List.map_filter mounts_line (lines_of content)))
      | Value content \<Rightarrow> Value (List.map_filter mountinfo_line (lines_of content)))"

text \<open>
  Both searches keep the mount of the longest root that covers the process's path, the first of several.
  The state is \<^const>\<open>None\<close> while \<open>found\<close> is false.
\<close>

definition more_specific :: "cgroup_mount_info \<Rightarrow> cgroup_mount_info option \<Rightarrow> cgroup_mount_info option" where
  "more_specific m best =
     (case best of
        None \<Rightarrow> Some m
      | Some b \<Rightarrow> if length (cm_root m) > length (cm_root b) then Some m else best)"

definition cgroup2_mount_step :: "string \<Rightarrow> cgroup_mount_info \<Rightarrow> cgroup_mount_info option \<Rightarrow> cgroup_mount_info option" where
  "cgroup2_mount_step proc_cgroup_path m best =
     (if cm_fstype m = ''cgroup2'' \<and> is_mount_root_prefix (cm_root m) proc_cgroup_path
      then more_specific m best else best)"

definition cgroup2_magic :: u64 where "cgroup2_magic = 0x63677270"
definition cgroup1_magic :: u64 where "cgroup1_magic = 0x27e0eb"

text \<open>The mount point and the root it shows.\<close>

definition find_cgroup2_mount :: "virt_host \<Rightarrow> cgroup_mount_info list \<Rightarrow> string \<Rightarrow> (string \<times> string) option" where
  "find_cgroup2_mount host mounts proc_cgroup_path =
     (case fold (cgroup2_mount_step proc_cgroup_path) mounts None of
        Some m \<Rightarrow> Some (cm_mount_point m, cm_root m)
      | None \<Rightarrow>
          if mounts = [] \<and> vh_statfs host ''/sys/fs/cgroup'' = Some cgroup2_magic
          then Some (''/sys/fs/cgroup'', ''/'') else None)"

definition cgroup1_mount_step ::
    "string \<Rightarrow> string \<Rightarrow> cgroup_mount_info \<Rightarrow> cgroup_mount_info option \<Rightarrow> cgroup_mount_info option" where
  "cgroup1_mount_step controller_name proc_cgroup_path m best =
     (if cm_fstype m = ''cgroup'' \<and> controller_name \<in> set (cm_options m) \<and>
         is_mount_root_prefix (cm_root m) proc_cgroup_path
      then more_specific m best else best)"

definition find_cgroup1_controller_mount ::
    "virt_host \<Rightarrow> cgroup_mount_info list \<Rightarrow> string \<Rightarrow> string \<Rightarrow> (string \<times> string) option" where
  "find_cgroup1_controller_mount host mounts controller_name proc_cgroup_path =
     (case fold (cgroup1_mount_step controller_name proc_cgroup_path) mounts None of
        Some m \<Rightarrow> Some (cm_mount_point m, cm_root m)
      | None \<Rightarrow>
          let candidate = ''/sys/fs/cgroup/'' @ controller_name in
          if mounts = [] \<and> ho_stat host candidate = Directory then Some (candidate, ''/'') else None)"

section \<open>The control group of the process\<close>

definition read_cgroup2_controllers :: "virt_host \<Rightarrow> string \<Rightarrow> string list result" where
  "read_cgroup2_controllers host target_dir =
     (let ctrl_file = target_dir @ ''/cgroup.controllers'' in
      case ho_stat host ctrl_file of
        Stat_error e \<Rightarrow> if e = ENOENT then fail errc.not_found else fail_errno e
      | _ \<Rightarrow> and_then (ho_read host ctrl_file 1024) (\<lambda>ctrl_content.
          Value (std_sort (<) (split_whitespace ctrl_content))))"

definition read_cgroup_proc_file :: "virt_host \<Rightarrow> parsed_cgroup_info result" where
  "read_cgroup_proc_file host =
     and_then (ho_read host ''/proc/self/cgroup'' (16 * 1024)) parse_cgroup_proc_file_detailed"

definition detect_cgroup_version :: "virt_host \<Rightarrow> cgroup_version result" where
  "detect_cgroup_version host =
     and_then (read_cgroup_proc_file host) (\<lambda>info.
       if p_version info \<noteq> cgroup_version.none then Value (p_version info)
       else (case vh_statfs host ''/sys/fs/cgroup'' of
           None \<Rightarrow> Value cgroup_version.none
         | Some f_type \<Rightarrow> Value (if f_type = cgroup2_magic then cgroup_version.v2
             else if f_type = cgroup1_magic then cgroup_version.v1 else cgroup_version.none)))"

text \<open>The limits of the unified hierarchy, one group per controller that is enabled.\<close>

definition v2_memory :: "virt_host \<Rightarrow> string list \<Rightarrow> cgroup_limits \<Rightarrow> cgroup_limits result" where
  "v2_memory host dirs limits =
     and_then (read_effective_cgroup_limit host dirs ''memory.max'') (\<lambda>mem_max.
     and_then (read_effective_cgroup_limit host dirs ''memory.high'') (\<lambda>mem_high.
     and_then (read_effective_cgroup_limit host dirs ''memory.swap.max'') (\<lambda>mem_swap.
       Value (limits\<lparr>cl_memory_max_bytes := mem_max, cl_memory_high_bytes := mem_high,
                     cl_memory_swap_max_bytes := mem_swap\<rparr>))))"

definition v2_cpu :: "virt_host \<Rightarrow> string list \<Rightarrow> cgroup_limits \<Rightarrow> cgroup_limits result" where
  "v2_cpu host dirs limits =
     and_then (read_effective_cpu_max host dirs) (\<lambda>(quota, period).
       Value (limits\<lparr>cl_cpu_quota_us := quota, cl_cpu_period_us := period\<rparr>))"

definition v2_pids :: "virt_host \<Rightarrow> string list \<Rightarrow> cgroup_limits \<Rightarrow> cgroup_limits result" where
  "v2_pids host dirs limits =
     and_then (read_effective_cgroup_limit host dirs ''pids.max'') (\<lambda>pids_max.
       Value (limits\<lparr>cl_pids_max := pids_max\<rparr>))"

definition when_enabled :: "bool \<Rightarrow> ('a \<Rightarrow> 'a result) \<Rightarrow> 'a \<Rightarrow> 'a result" where
  "when_enabled b f x = (if b then f x else Value x)"

definition unified_cgroup ::
    "virt_host \<Rightarrow> cgroup_mount_info list \<Rightarrow> parsed_cgroup_info \<Rightarrow> cgroup_info \<Rightarrow> cgroup_info result" where
  "unified_cgroup host mounts info record0 =
     (let path = (if p_v2_path info \<noteq> [] then p_v2_path info else ''/'') in
      case find_cgroup2_mount host mounts path of
        None \<Rightarrow> fail errc.not_found
      | Some (v2_mount, v2_root) \<Rightarrow>
          let dirs = get_cgroup_ancestor_dirs v2_mount v2_root path in
          if dirs = [] then Value (record0\<lparr>cg_path := path\<rparr>)
          else and_then (read_cgroup2_controllers host (hd dirs)) (\<lambda>controllers.
            and_then (when_enabled (''memory'' \<in> set controllers) (v2_memory host dirs) (cg_limits record0)) (\<lambda>l1.
            and_then (when_enabled (''cpu'' \<in> set controllers) (v2_cpu host dirs) l1) (\<lambda>l2.
            and_then (when_enabled (''pids'' \<in> set controllers) (v2_pids host dirs) l2) (\<lambda>l3.
              Value (record0\<lparr>cg_path := path, cg_controllers := controllers, cg_limits := l3\<rparr>))))))"

text \<open>Adding the legacy controllers, named hierarchies and duplicates left out.\<close>

definition add_v1_controller :: "string \<Rightarrow> string list \<Rightarrow> string list" where
  "add_v1_controller ctrl controllers =
     (if ctrl = [] \<or> has_prefix ''name='' ctrl \<or> ctrl \<in> set controllers then controllers else controllers @ [ctrl])"

definition v1_controllers :: "parsed_cgroup_info \<Rightarrow> string list \<Rightarrow> string list" where
  "v1_controllers info controllers =
     std_sort (<) (fold add_v1_controller (concat (map h_controllers (p_v1_hierarchies info))) controllers)"

definition get_v1_controller_info :: "parsed_cgroup_info \<Rightarrow> string \<Rightarrow> string option" where
  "get_v1_controller_info info name =
     map_option h_path (find (\<lambda>hier. name \<in> set (h_controllers hier)) (p_v1_hierarchies info))"

definition v1_memory ::
    "virt_host \<Rightarrow> cgroup_mount_info list \<Rightarrow> parsed_cgroup_info \<Rightarrow> cgroup_limits \<Rightarrow> cgroup_limits result" where
  "v1_memory host mounts info limits =
     (case get_v1_controller_info info ''memory'' of
        None \<Rightarrow> Value limits
      | Some mem_rel \<Rightarrow>
          (case find_cgroup1_controller_mount host mounts ''memory'' mem_rel of
             None \<Rightarrow> fail errc.not_found
           | Some (mem_mount, mem_root) \<Rightarrow>
               and_then (read_effective_cgroup_limit host (get_cgroup_ancestor_dirs mem_mount mem_root mem_rel)
                   ''memory.limit_in_bytes'')
                 (\<lambda>mem_limit. Value (limits\<lparr>cl_memory_max_bytes := mem_limit\<rparr>))))"

definition v1_cpu ::
    "virt_host \<Rightarrow> cgroup_mount_info list \<Rightarrow> parsed_cgroup_info \<Rightarrow> cgroup_limits \<Rightarrow> cgroup_limits result" where
  "v1_cpu host mounts info limits =
     (case (case get_v1_controller_info info ''cpu'' of
              None \<Rightarrow> get_v1_controller_info info ''cpuacct'' | Some rel \<Rightarrow> Some rel) of
        None \<Rightarrow> Value limits
      | Some cpu_rel \<Rightarrow>
          (case (case find_cgroup1_controller_mount host mounts ''cpu'' cpu_rel of
                   None \<Rightarrow> find_cgroup1_controller_mount host mounts ''cpu,cpuacct'' cpu_rel
                 | Some found \<Rightarrow> Some found) of
             None \<Rightarrow> fail errc.not_found
           | Some (cpu_mount, cpu_root) \<Rightarrow>
               and_then (read_effective_cgroup1_cpu host (get_cgroup_ancestor_dirs cpu_mount cpu_root cpu_rel))
                 (\<lambda>(quota, period). Value (limits\<lparr>cl_cpu_quota_us := quota, cl_cpu_period_us := period\<rparr>))))"

definition v1_pids ::
    "virt_host \<Rightarrow> cgroup_mount_info list \<Rightarrow> parsed_cgroup_info \<Rightarrow> cgroup_limits \<Rightarrow> cgroup_limits result" where
  "v1_pids host mounts info limits =
     (case get_v1_controller_info info ''pids'' of
        None \<Rightarrow> Value limits
      | Some pids_rel \<Rightarrow>
          (case find_cgroup1_controller_mount host mounts ''pids'' pids_rel of
             None \<Rightarrow> fail errc.not_found
           | Some (pids_mount, pids_root) \<Rightarrow>
               and_then (read_effective_cgroup_limit host (get_cgroup_ancestor_dirs pids_mount pids_root pids_rel)
                   ''pids.max'')
                 (\<lambda>pids_max. Value (limits\<lparr>cl_pids_max := pids_max\<rparr>))))"

definition legacy_cgroup ::
    "virt_host \<Rightarrow> cgroup_mount_info list \<Rightarrow> parsed_cgroup_info \<Rightarrow> cgroup_info \<Rightarrow> cgroup_info result" where
  "legacy_cgroup host mounts info record0 =
     (let path = (if cg_path record0 = [] \<or> cg_path record0 = ''/''
                  then (if p_v1_hierarchies info \<noteq> [] then h_path (hd (p_v1_hierarchies info)) else ''/'')
                  else cg_path record0)
      in and_then (when_enabled (cl_memory_max_bytes (cg_limits record0) = None) (v1_memory host mounts info)
             (cg_limits record0)) (\<lambda>l1.
         and_then (when_enabled (cl_cpu_quota_us l1 = None) (v1_cpu host mounts info) l1) (\<lambda>l2.
         and_then (when_enabled (cl_pids_max l2 = None) (v1_pids host mounts info) l2) (\<lambda>l3.
           Value (record0\<lparr>cg_controllers := v1_controllers info (cg_controllers record0), cg_path := path,
                          cg_limits := l3\<rparr>)))))"

definition detect_current_cgroup :: "virt_host \<Rightarrow> cgroup_info result" where
  "detect_current_cgroup host =
     and_then (read_cgroup_proc_file host) (\<lambda>info.
       if p_version info = cgroup_version.none then Value empty_cgroup
       else and_then (read_cgroup_mounts host) (\<lambda>mounts.
         and_then (when_enabled (p_version info \<in> {cgroup_version.v2, cgroup_version.hybrid})
             (unified_cgroup host mounts info) (empty_cgroup\<lparr>cg_version := p_version info\<rparr>))
           (when_enabled (p_version info \<in> {cgroup_version.v1, cgroup_version.hybrid})
             (legacy_cgroup host mounts info))))"

section \<open>Namespaces\<close>

text \<open>\<open>nested_pid_ns\<close>: whether the line \<open>NSpid:\<close> shows more than one process number.\<close>

definition nested_pid :: "string \<Rightarrow> bool option" where
  "nested_pid content =
     (case find_text ''NSpid:'' content 0 of
        None \<Rightarrow> None
      | Some nspid_pos \<Rightarrow>
          Some (length (split_whitespace (takeWhile (\<lambda>c. c \<noteq> newline) (drop nspid_pos content))) > 2))"

definition nested_user :: "string \<Rightarrow> bool option" where
  "nested_user uid_map =
     (let trimmed = trim_signature uid_map in
      if trimmed \<noteq> [] \<and> \<not> is_full_identity_uid_map trimmed then Some True else None)"

text \<open>A file that may be missing: its reading as an answer, or the error.\<close>

definition optional_reading :: "string result \<Rightarrow> (string \<Rightarrow> bool option) \<Rightarrow> bool option result" where
  "optional_reading r reading =
     (case r of
        Unexpected e \<Rightarrow> if is_no_such_file e then Value None else Unexpected e
      | Value content \<Rightarrow> Value (reading content))"

text \<open>The verdict of the type's own evidence, then the comparison with the namespace of process 1.\<close>

definition own_evidence :: "namespace_type \<Rightarrow> bool option \<Rightarrow> bool option \<Rightarrow> bool option" where
  "own_evidence ns_type nested_pid_ns nested_user_ns =
     (if ns_type = namespace_type.pid \<or> ns_type = namespace_type.pid_for_children
      then (if nested_pid_ns = Some True then Some True else None)
      else if ns_type = namespace_type.user then nested_user_ns
      else None)"

definition init_evidence :: "virt_host \<Rightarrow> string \<Rightarrow> bool option \<Rightarrow> bool option result" where
  "init_evidence host name nested_pid_ns =
     (case ho_stat host (''/proc/1/ns/'' @ name) of
        Stat_error e \<Rightarrow> if e = ENOENT \<or> e = EACCES \<or> e = EPERM then Value None else fail_errno e
      | _ \<Rightarrow>
          if fst (vh_identity host (''/proc/self/ns/'' @ name)) \<noteq> fst (vh_identity host (''/proc/1/ns/'' @ name))
          then Value (Some True)
          else if nested_pid_ns = Some False then Value (Some False)
          else Value None)"

definition read_namespace :: "virt_host \<Rightarrow> bool option \<Rightarrow> bool option \<Rightarrow> string \<Rightarrow> namespace_info result" where
  "read_namespace host nested_pid_ns nested_user_ns name =
     (let ns_type = classify_namespace_name name;
          (inode, device) = vh_identity host (''/proc/self/ns/'' @ name)
      in and_then (case own_evidence ns_type nested_pid_ns nested_user_ns of
             Some verdict \<Rightarrow> Value (Some verdict)
           | None \<Rightarrow> init_evidence host name nested_pid_ns) (\<lambda>verdict.
           Value \<lparr>ni_type = ns_type, ni_name = name, ni_inode = inode, ni_device_id = device,
                  ni_is_isolated = verdict\<rparr>))"

text \<open>
  The loop over the directory with \<open>errno\<close> written out: it is cleared before the loop and after an
  entry has been recorded, \<open>readdir\<close> leaves it alone unless it fails, and the two ways to skip an entry
  do not clear it.
\<close>

fun namespace_entries ::
    "virt_host \<Rightarrow> bool option \<Rightarrow> bool option \<Rightarrow> directory_event list \<Rightarrow> int \<Rightarrow> namespace_info list
      \<Rightarrow> namespace_info list result" where
  "namespace_entries host np nu [] err acc = (if err \<noteq> 0 then fail_errno err else Value acc)"
| "namespace_entries host np nu (Readdir_error e # es) err acc =
     (let err' = (if e \<noteq> 0 then e else err) in if err' \<noteq> 0 then fail_errno err' else Value acc)"
| "namespace_entries host np nu (Entry name # es) err acc =
     (if hidden name then namespace_entries host np nu es err acc
      else (case ho_stat host (''/proc/self/ns/'' @ name) of
          Stat_error e \<Rightarrow> if e = ENOENT then namespace_entries host np nu es e acc else fail_errno e
        | _ \<Rightarrow> and_then (read_namespace host np nu name) (\<lambda>ns.
            namespace_entries host np nu es 0 (acc @ [ns]))))"

definition detect_namespaces :: "virt_host \<Rightarrow> namespace_info list result" where
  "detect_namespaces host =
     (case ho_opendir host ''/proc/self/ns'' of
        Some e \<Rightarrow> fail_errno e
      | None \<Rightarrow>
          and_then (optional_reading (ho_read host ''/proc/self/status'' 4096) nested_pid) (\<lambda>nested_pid_ns.
          and_then (optional_reading (ho_read host ''/proc/self/uid_map'' 512) nested_user) (\<lambda>nested_user_ns.
          and_then (namespace_entries host nested_pid_ns nested_user_ns (ho_entries host ''/proc/self/ns'') 0 [])
            (\<lambda>found. Value (std_sort (\<lambda>a b. ni_name a < ni_name b) found)))))"

definition detect_is_namespace_isolated :: "virt_host \<Rightarrow> bool result" where
  "detect_is_namespace_isolated host =
     and_then (detect_namespaces host) (\<lambda>ns_list.
       if list_ex (\<lambda>ns. ni_is_isolated ns = Some True) ns_list then Value True
       else if \<not> list_ex (\<lambda>ns. ni_is_isolated ns = None) ns_list then Value False
       else fail errc.permission_denied)"

section \<open>The queries\<close>

text \<open>The public functions that only forward to the backend of the same name are not repeated.\<close>

definition is_hypervisor_present :: "virt_host \<Rightarrow> bool result" where
  "is_hypervisor_present host = and_then (detect_hypervisor host) (\<lambda>info. Value (hi_present info))"

definition hypervisor :: "virt_host \<Rightarrow> hypervisor_vendor result" where
  "hypervisor host = and_then (detect_hypervisor host) (\<lambda>info. Value (hi_vendor info))"

definition hypervisor_name :: "virt_host \<Rightarrow> string result" where
  "hypervisor_name host =
     and_then (detect_hypervisor host) (\<lambda>info.
       if \<not> hi_present info \<or> hi_name info = [] then fail errc.not_found else Value (hi_name info))"

definition public_hypervisor_name :: "virt_host \<Rightarrow> string result" where
  "public_hypervisor_name host = virt_validate_identity_text (hypervisor_name host)"

definition is_container :: "virt_host \<Rightarrow> bool result" where
  "is_container host = and_then (detect_container host) (\<lambda>info. Value (ci_present info))"

definition container :: "virt_host \<Rightarrow> container_runtime result" where
  "container host = and_then (detect_container host) (\<lambda>info. Value (ci_runtime info))"

definition container_name :: "virt_host \<Rightarrow> string result" where
  "container_name host =
     and_then (detect_container host) (\<lambda>info.
       if \<not> ci_present info \<or> ci_name info = [] then fail errc.not_found else Value (ci_name info))"

definition public_container_name :: "virt_host \<Rightarrow> string result" where
  "public_container_name host = virt_validate_identity_text (container_name host)"

definition is_wsl :: "virt_host \<Rightarrow> bool result" where
  "is_wsl host = and_then (detect_wsl host) (\<lambda>info. Value (wi_is_wsl info))"

definition wsl_version :: "virt_host \<Rightarrow> u32 result" where
  "wsl_version host =
     and_then (detect_wsl host) (\<lambda>info. if \<not> wi_is_wsl info then fail errc.not_found else Value (wi_version info))"

definition is_wine :: "bool result" where "is_wine = Value False"

definition wine_version :: "string result" where "wine_version = fail errc.not_found"

definition public_wine_version :: "string result" where "public_wine_version = virt_validate_identity_text wine_version"

definition wine_build_id :: "string result" where "wine_build_id = fail errc.not_found"

definition public_wine_build_id :: "string result" where "public_wine_build_id = virt_validate_identity_text wine_build_id"

definition is_sandboxed :: "virt_host \<Rightarrow> bool result" where
  "is_sandboxed host = and_then (detect_sandbox host) (\<lambda>info. Value (si_is_sandboxed info))"

definition sandbox :: "virt_host \<Rightarrow> sandbox_type result" where
  "sandbox host = and_then (detect_sandbox host) (\<lambda>info. Value (si_type info))"

definition cgroup_hierarchy_version :: "virt_host \<Rightarrow> cgroup_version result" where
  "cgroup_hierarchy_version host = detect_cgroup_version host"

definition current_cgroup :: "virt_host \<Rightarrow> cgroup_info result" where
  "current_cgroup host =
     and_then (detect_current_cgroup host) (\<lambda>res.
       if \<not> is_valid_utf8 (cg_path res) \<or> \<not> list_all is_valid_utf8 (cg_controllers res)
       then fail errc.invalid_encoding else Value res)"

definition namespaces :: "virt_host \<Rightarrow> namespace_info list result" where
  "namespaces host =
     and_then (detect_namespaces host) (\<lambda>res.
       if \<not> list_all (\<lambda>ns. is_valid_utf8 (ni_name ns)) res then fail errc.invalid_encoding else Value res)"

definition is_namespace_isolated :: "virt_host \<Rightarrow> bool result" where
  "is_namespace_isolated host = detect_is_namespace_isolated host"

end
