(* ===== verification/Virtualization_Limits.thy ===== *)
theory Virtualization_Limits
  imports Virtualization_Linux Complex_Main
begin

text \<open>
  What the virtualization queries on Linux promise. The loops over the ancestors of a control group, which
  stop at the first error and carry running values, are equal to specifications over the list of what the
  levels say: the smallest limit, the first of the smallest quotas per period. The search for a mount is
  the first of the longest roots. The order arguments are shared (\<open>first_least_snoc\<close>). A namespace is
  called shared on evidence only, and hypervisor and container verdicts do not contradict themselves.
\<close>

section \<open>The first least element\<close>

definition first_least :: "('a \<Rightarrow> 'a \<Rightarrow> bool) \<Rightarrow> 'a list \<Rightarrow> 'a option" where
  "first_least le xs = find (\<lambda>x. list_all (le x) xs) xs"

lemma find_append: "find P (xs @ ys) = (case find P xs of None \<Rightarrow> find P ys | Some x \<Rightarrow> Some x)"
  by (induction xs) auto

lemma first_least_eq_None:
  fixes f :: "'a \<Rightarrow> 'b::linorder"
  shows "find (\<lambda>x. \<forall>y \<in> set xs. f x \<le> f y) xs = None \<longleftrightarrow> xs = []"
proof
  assume none: "find (\<lambda>x. \<forall>y \<in> set xs. f x \<le> f y) xs = None"
  show "xs = []"
  proof (rule ccontr)
    assume "xs \<noteq> []"
    then have "Min (f ` set xs) \<in> f ` set xs" by (intro Min_in) auto
    then obtain x where "x \<in> set xs" "f x = Min (f ` set xs)" by auto
    then have "\<forall>y \<in> set xs. f x \<le> f y" by simp
    then show False using none \<open>x \<in> set xs\<close> by (auto simp: find_None_iff)
  qed
qed simp

lemma first_min_snoc:
  fixes f :: "'a \<Rightarrow> 'b::linorder"
  shows "find (\<lambda>a. \<forall>y \<in> set (xs @ [x]). f a \<le> f y) (xs @ [x]) =
    (case find (\<lambda>a. \<forall>y \<in> set xs. f a \<le> f y) xs of
       None \<Rightarrow> Some x | Some b \<Rightarrow> if f x < f b then Some x else Some b)"
proof (cases "find (\<lambda>a. \<forall>y \<in> set xs. f a \<le> f y) xs")
  case None
  then show ?thesis by (simp add: first_least_eq_None)
next
  case (Some b)
  then have b: "b \<in> set xs" "\<forall>y \<in> set xs. f b \<le> f y"
    by (auto simp: find_Some_iff)
  show ?thesis
  proof (cases "f x < f b")
    case True
    then have "find (\<lambda>a. \<forall>y \<in> set (xs @ [x]). f a \<le> f y) xs = None"
      using b by (auto simp: find_None_iff not_le)
    then show ?thesis using Some True b by (auto simp: find_append)
  next
    case False
    have "find (\<lambda>a. \<forall>y \<in> set (xs @ [x]). f a \<le> f y) xs = find (\<lambda>a. \<forall>y \<in> set xs. f a \<le> f y) xs"
      using False b by (intro find_cong refl) (auto simp: not_less intro: order_trans)
    then show ?thesis using Some False by (simp add: find_append)
  qed
qed

lemma first_least_in: "first_least le xs = Some x \<Longrightarrow> x \<in> set xs"
  by (auto simp: first_least_def find_Some_iff)

text \<open>With a comparison that a key decides, on a domain where it does.\<close>

lemma first_least_snoc:
  fixes f :: "'a \<Rightarrow> 'b::linorder"
  assumes "\<And>a b. a \<in> D \<Longrightarrow> b \<in> D \<Longrightarrow> le a b \<longleftrightarrow> f a \<le> f b" "set (xs @ [x]) \<subseteq> D"
  shows "first_least le (xs @ [x]) =
    (case first_least le xs of None \<Rightarrow> Some x | Some b \<Rightarrow> if le b x then Some b else Some x)"
proof -
  have eq: "first_least le zs = find (\<lambda>a. \<forall>y \<in> set zs. f a \<le> f y) zs" if "set zs \<subseteq> D" for zs
  proof -
    have "list_all (le a) zs \<longleftrightarrow> (\<forall>y \<in> set zs. f a \<le> f y)" if "a \<in> set zs" for a
      using that \<open>set zs \<subseteq> D\<close> by (simp add: list_all_iff subset_eq assms(1))
    then show ?thesis unfolding first_least_def by (intro find_cong refl) simp
  qed
  have sub: "set xs \<subseteq> D" using assms(2) by simp
  have "first_least le (xs @ [x]) =
      (case first_least le xs of None \<Rightarrow> Some x | Some b \<Rightarrow> if f x < f b then Some x else Some b)"
    unfolding eq [OF assms(2)] eq [OF sub] by (rule first_min_snoc)
  moreover have "le b x \<longleftrightarrow> \<not> f x < f b" if "first_least le xs = Some b" for b
  proof -
    have "b \<in> D" using first_least_in [OF that] sub by auto
    then show ?thesis using assms by (simp add: not_less)
  qed
  ultimately show ?thesis by (auto split: option.split)
qed

lemma first_least_Nil [simp]: "first_least le [] = None"
  by (simp add: first_least_def)

section \<open>Loops that stop at the first error\<close>

fun all_values :: "'a result list \<Rightarrow> 'a list result" where
  "all_values [] = Value []"
| "all_values (r # rs) = and_then r (\<lambda>v. and_then (all_values rs) (\<lambda>vs. Value (v # vs)))"

text \<open>The levels that are there.\<close>

definition present :: "'a option list \<Rightarrow> 'a list" where
  "present ls = List.map_filter id ls"

lemma present_simps [simp]:
  "present [] = []" "present (None # ls) = present ls" "present (Some x # ls) = x # present ls"
  by (simp_all add: present_def map_filter_simps)

text \<open>A loop whose body reads a level and updates a state is the fold over the levels read.\<close>

lemma level_loop:
  assumes "\<And>st. loop [] st = Value st"
    and "\<And>dir dirs st. loop (dir # dirs) st = and_then (read_dir dir) (\<lambda>level.
           case level of None \<Rightarrow> loop dirs st | Some v \<Rightarrow> loop dirs (step v st))"
  shows "loop dirs st = and_then (all_values (map read_dir dirs)) (\<lambda>ls. Value (fold step (present ls) st))"
proof (induction dirs arbitrary: st)
  case (Cons dir dirs)
  show ?case
    by (cases "read_dir dir"; cases "all_values (map read_dir dirs)")
      (auto simp: assms(2) Cons split: option.splits)
qed (simp add: assms(1))

section \<open>The effective limit\<close>

text \<open>What one level says: nothing, no limit, or a limit.\<close>

definition level_limit :: "virt_host \<Rightarrow> string \<Rightarrow> string \<Rightarrow> u64 option option result" where
  "level_limit host filename dir =
     and_then (read_level host (level_path dir filename)) (\<lambda>level.
       case level of None \<Rightarrow> Value None
       | Some content \<Rightarrow> and_then (parse_cgroup_limit_value content) (\<lambda>parsed. Value (Some parsed)))"

definition smallest :: "u64 list \<Rightarrow> u64 option" where
  "smallest vs = (if vs = [] then None else Some (Min (set vs)))"

lemma limit_levels_fold:
  "limit_levels host filename dirs st =
     and_then (all_values (map (level_limit host filename) dirs))
       (\<lambda>ls. Value (fold (\<lambda>parsed st. (tighter_limit (fst st) parsed, True)) (present ls) st))"
proof (rule level_loop)
  fix dir dirs st
  show "limit_levels host filename (dir # dirs) st = and_then (level_limit host filename dir) (\<lambda>level.
      case level of None \<Rightarrow> limit_levels host filename dirs st
      | Some v \<Rightarrow> limit_levels host filename dirs (tighter_limit (fst st) v, True))"
    unfolding level_limit_def limit_levels.simps and_then_assoc
    by (rule arg_cong [where f = "and_then _"], rule ext) (simp add: and_then_assoc split: option.split)
qed simp

lemma smallest_snoc: "smallest (vs @ [v]) = tighter_limit (smallest vs) (Some v)"
  by (simp add: smallest_def tighter_limit_def min.commute insert_commute)

lemma fold_tighter:
  "fold (\<lambda>parsed st. (tighter_limit (fst st) parsed, True)) ps (None, False) = (smallest (present ps), ps \<noteq> [])"
proof (induction ps rule: rev_induct)
  case (snoc p ps)
  have "present (ps @ [p]) = present ps @ present [p]"
    by (simp add: present_def map_filter_def)
  then show ?case
    using snoc by (cases p) (simp_all add: smallest_snoc tighter_limit_def [of _ None])
qed (simp add: smallest_def)

text \<open>
  C29. The effective limit of a control group is the smallest limit of its ancestors: all levels are read
  in order and the first error ends the query; missing levels are passed over; if no level has the file
  the limit is none for the two optional files and \<open>not_found\<close> for the others; otherwise it is the
  smallest of the limits that are set, and none if every level is unlimited.
\<close>

theorem effective_limit_smallest:
  "read_effective_cgroup_limit host dirs filename =
     and_then (all_values (map (level_limit host filename) dirs)) (\<lambda>ls.
       if present ls = [] then
         (if filename = ''memory.swap.max'' \<or> filename = ''memory.high'' then Value None else fail errc.not_found)
       else Value (smallest (present (present ls))))"
  by (simp add: read_effective_cgroup_limit_def limit_levels_fold and_then_assoc fold_tighter)

section \<open>The effective CPU quota\<close>

text \<open>A quota and its period; one pair is at most as permissive as another if its ratio is at most as large.\<close>

definition ratio_le :: "u64 \<times> u64 \<Rightarrow> u64 \<times> u64 \<Rightarrow> bool" where
  "ratio_le a b \<longleftrightarrow> unat (fst a) * unat (snd b) \<le> unat (fst b) * unat (snd a)"

text \<open>The quotas of the levels that have one, with their periods.\<close>

definition quotas :: "(u64 option \<times> u64) list \<Rightarrow> (u64 \<times> u64) list" where
  "quotas levels = present (map (\<lambda>(q, p). map_option (\<lambda>q. (q, p)) q) levels)"

definition effective_quota :: "(u64 option \<times> u64) list \<Rightarrow> u64 option \<times> u64 option" where
  "effective_quota levels =
     (case first_least ratio_le (quotas levels) of
        Some (q, p) \<Rightarrow> (Some q, Some p)
      | None \<Rightarrow> (None, if levels = [] then None else Some (snd (hd levels))))"

definition proper_levels :: "(u64 option \<times> u64) list \<Rightarrow> bool" where
  "proper_levels levels \<longleftrightarrow> list_all (\<lambda>(q, p). p \<noteq> 0) levels"

lemma fraction_le: "0 < b \<Longrightarrow> 0 < d \<Longrightarrow> real a / real b \<le> real c / real d \<longleftrightarrow> a * d \<le> c * b"
  by (simp add: divide_le_eq le_divide_eq field_simps flip: of_nat_mult)

definition quota_key :: "u64 \<times> u64 \<Rightarrow> real" where
  "quota_key a = real (unat (fst a)) / real (unat (snd a))"

lemma ratio_le_key: "snd a \<noteq> 0 \<Longrightarrow> snd b \<noteq> 0 \<Longrightarrow> ratio_le a b \<longleftrightarrow> quota_key a \<le> quota_key b"
  unfolding ratio_le_def quota_key_def by (rule fraction_le [symmetric]) (simp_all add: unat_gt_0)

lemma ratio_tighter_iff: "p \<noteq> 0 \<Longrightarrow> p' \<noteq> 0 \<Longrightarrow> ratio_tighter q p q' p' \<longleftrightarrow> \<not> ratio_le (q', p') (q, p)"
  using ratio_less_loop_correct [of p p' q q' False]
  by (simp add: ratio_tighter_def ratio_le_def positive_ratio_less_def ratio_lt_def not_le)

lemma quotas_Nil [simp]: "quotas [] = []"
  by (simp add: quotas_def)

lemma quotas_snoc: "quotas (levels @ [(q, p)]) = quotas levels @ (case q of None \<Rightarrow> [] | Some q \<Rightarrow> [(q, p)])"
  by (simp add: quotas_def present_def map_filter_def split: option.splits)

lemma quotas_proper: "proper_levels levels \<Longrightarrow> set (quotas levels) \<subseteq> {a. snd a \<noteq> 0}"
  by (auto simp: quotas_def present_def map_filter_def proper_levels_def list_all_iff)

lemma first_least_quota:
  assumes "proper_levels (levels @ [(Some q, p)])"
  shows "first_least ratio_le (quotas levels @ [(q, p)]) =
    (case first_least ratio_le (quotas levels) of
       None \<Rightarrow> Some (q, p) | Some b \<Rightarrow> if ratio_le b (q, p) then Some b else Some (q, p))"
proof (rule first_least_snoc [where D = "{a. snd a \<noteq> 0}"])
  show "set (quotas levels @ [(q, p)]) \<subseteq> {a. snd a \<noteq> 0}"
    using quotas_proper [OF assms] by (simp add: quotas_snoc)
qed (simp add: ratio_le_key)

lemma present_snoc: "present (ls @ [Some x]) = present ls @ [x]"
  by (simp add: present_def map_filter_def)

subsection \<open>The unified hierarchy\<close>

definition cpu_max_level :: "virt_host \<Rightarrow> string \<Rightarrow> (u64 option \<times> u64) option result" where
  "cpu_max_level host dir =
     and_then (read_level host (level_path dir ''cpu.max'')) (\<lambda>level.
       case level of None \<Rightarrow> Value None
       | Some content \<Rightarrow> (case parse_cgroup_cpu_max content None None of
           (Unexpected e, _, _) \<Rightarrow> Unexpected e
         | (Value _, q, p) \<Rightarrow> Value (Some (q, the p))))"

lemma quota_level_period:
  "parse_cgroup_cpu_max content None None = (Value u, q, p) \<Longrightarrow> \<exists>v. p = Some v \<and> v \<noteq> 0"
  by (auto simp: parse_cgroup_cpu_max_def Let_def split: if_splits result.splits option.splits dest: sym)

lemma cpu_max_level_period:
  assumes "cpu_max_level host dir = Value (Some l)"
  shows "snd l \<noteq> 0"
proof -
  obtain content where c: "(case parse_cgroup_cpu_max content None None of
      (Unexpected e, _, _) \<Rightarrow> Unexpected e | (Value _, q, p) \<Rightarrow> Value (Some (q, the p))) = Value (Some l)"
    using assms by (auto simp: cpu_max_level_def and_then_Value_iff split: option.splits)
  obtain v q p where "parse_cgroup_cpu_max content None None = (v, q, p)" by (rule prod_cases3)
  then show ?thesis using c by (cases v) (auto dest: quota_level_period)
qed

lemma cpu_max_levels_fold:
  "cpu_max_levels host dirs st =
     and_then (all_values (map (cpu_max_level host) dirs))
       (\<lambda>ls. Value (fold (\<lambda>(q, p) st. (cpu_max_step q (Some p) (fst st), True)) (present ls) st))"
proof (rule level_loop)
  fix dir dirs st
  show "cpu_max_levels host (dir # dirs) st = and_then (cpu_max_level host dir) (\<lambda>level.
      case level of None \<Rightarrow> cpu_max_levels host dirs st
      | Some v \<Rightarrow> cpu_max_levels host dirs ((\<lambda>(q, p) st. (cpu_max_step q (Some p) (fst st), True)) v st))"
    unfolding cpu_max_level_def cpu_max_levels.simps and_then_assoc
    by (rule arg_cong [where f = "and_then _"], rule ext)
      (auto simp: and_then_assoc dest!: quota_level_period split: option.split prod.split result.split)
qed simp

text \<open>
  The running state after some levels: no period while nothing has been read, the first period while no
  quota has, then the first of the smallest ratios.
\<close>

lemma effective_quota_snoc:
  assumes "proper_levels (levels @ [(q, p)])"
  shows "effective_quota (levels @ [(q, p)]) = cpu_max_step q (Some p) (effective_quota levels)"
proof (cases q)
  case None
  then have "quotas (levels @ [(q, p)]) = quotas levels" by (simp add: quotas_snoc)
  then show ?thesis
    using None by (simp add: effective_quota_def cpu_max_step_def hd_append split: option.split)
next
  case (Some v)
  note least = first_least_quota [OF assms [unfolded Some]]
  show ?thesis
  proof (cases "first_least ratio_le (quotas levels)")
    case None
    then show ?thesis by (simp add: effective_quota_def quotas_snoc Some least cpu_max_step_def)
  next
    case (Some b)
    have "b \<in> set (quotas levels)" using Some by (rule first_least_in)
    then have "snd b \<noteq> 0" "p \<noteq> 0"
      using assms quotas_proper [of levels] by (auto simp: proper_levels_def)
    then have "ratio_tighter v p (fst b) (snd b) \<longleftrightarrow> \<not> ratio_le b (v, p)"
      by (cases b) (simp add: ratio_tighter_iff)
    then show ?thesis
      by (cases b) (simp add: effective_quota_def quotas_snoc \<open>q = Some v\<close> least Some cpu_max_step_def)
  qed
qed

lemma cpu_max_fold:
  "proper_levels levels \<Longrightarrow>
   fold (\<lambda>(q, p) st. (cpu_max_step q (Some p) (fst st), True)) levels ((None, None), False) =
     (effective_quota levels, levels \<noteq> [])"
proof (induction levels rule: rev_induct)
  case Nil
  then show ?case by (simp add: effective_quota_def quotas_def)
next
  case (snoc l levels)
  then show ?case by (cases l) (simp add: effective_quota_snoc proper_levels_def)
qed

lemma present_proper:
  assumes "\<And>dir l. read_dir dir = Value (Some l) \<Longrightarrow> snd l \<noteq> 0"
    and "all_values (map read_dir dirs) = Value ls"
  shows "proper_levels (present ls)"
  using assms(2)
proof (induction dirs arbitrary: ls)
  case (Cons dir dirs)
  then obtain l ls' where "read_dir dir = Value l" "all_values (map read_dir dirs) = Value ls'" "ls = l # ls'"
    by (auto simp: and_then_Value_iff)
  then show ?case using Cons.IH assms(1) [of dir] by (cases l) (auto simp: proper_levels_def)
qed (simp add: proper_levels_def)

lemma and_then_cong: "(\<And>v. r = Value v \<Longrightarrow> f v = g v) \<Longrightarrow> and_then r f = and_then r g"
  by (cases r) simp_all

definition quota_over :: "(string \<Rightarrow> (u64 option \<times> u64) option result) \<Rightarrow> string list \<Rightarrow> (u64 option \<times> u64 option) result" where
  "quota_over read_dir dirs =
     and_then (all_values (map read_dir dirs)) (\<lambda>ls.
       if present ls = [] then fail errc.not_found else Value (effective_quota (present ls)))"

lemma cpu_max_exact: "read_effective_cpu_max host dirs = quota_over (cpu_max_level host) dirs"
  unfolding read_effective_cpu_max_def quota_over_def cpu_max_levels_fold and_then_assoc
proof (rule and_then_cong)
  fix ls
  assume "all_values (map (cpu_max_level host) dirs) = Value ls"
  then have "proper_levels (present ls)"
    using present_proper [of "cpu_max_level host" dirs ls] cpu_max_level_period by blast
  then show "and_then (Value (fold (\<lambda>(q, p) st. (cpu_max_step q (Some p) (fst st), True)) (present ls)
        ((None, None), False))) (\<lambda>(effective, found_any_file).
          if \<not> found_any_file then fail errc.not_found else Value effective) =
      (if present ls = [] then fail errc.not_found else Value (effective_quota (present ls)))"
    by (simp add: cpu_max_fold)
qed

subsection \<open>The legacy hierarchy\<close>

definition cgroup1_cpu_level :: "virt_host \<Rightarrow> string \<Rightarrow> (u64 option \<times> u64) option result" where
  "cgroup1_cpu_level host dir =
     and_then (read_level host (level_path dir ''cpu.cfs_quota_us'')) (\<lambda>level.
       case level of None \<Rightarrow> Value None
       | Some content \<Rightarrow> and_then (parse_cgroup1_cpu_quota_value content) (\<lambda>quota.
           and_then (read_cgroup1_period host (level_path dir ''cpu.cfs_period_us'')) (\<lambda>p.
             Value (Some (quota, p)))))"

lemma cgroup1_cpu_levels_fold:
  "cgroup1_cpu_levels host dirs st =
     and_then (all_values (map (cgroup1_cpu_level host) dirs))
       (\<lambda>ls. Value (fold (\<lambda>(q, p). cgroup1_cpu_step q p) (present ls) st))"
proof (rule level_loop)
  fix dir dirs st
  show "cgroup1_cpu_levels host (dir # dirs) st = and_then (cgroup1_cpu_level host dir) (\<lambda>level.
      case level of None \<Rightarrow> cgroup1_cpu_levels host dirs st
      | Some v \<Rightarrow> cgroup1_cpu_levels host dirs ((\<lambda>(q, p). cgroup1_cpu_step q p) v st))"
    unfolding cgroup1_cpu_level_def cgroup1_cpu_levels.simps and_then_assoc
    by (rule arg_cong [where f = "and_then _"], rule ext) (auto simp: and_then_assoc split: option.split)
qed simp

definition cgroup1_start :: cgroup1_cpu where
  "cgroup1_start = \<lparr>c1_found_any_file = False, c1_found_constrained = False, c1_best_quota = 0,
     c1_best_period = 0, c1_first_period = None\<rparr>"

text \<open>The running state is the effective quota of the levels read so far.\<close>

definition cgroup1_tracks :: "(u64 option \<times> u64) list \<Rightarrow> cgroup1_cpu \<Rightarrow> bool" where
  "cgroup1_tracks levels st \<longleftrightarrow>
     c1_found_any_file st = (levels \<noteq> []) \<and>
     c1_first_period st = (if levels = [] then None else Some (snd (hd levels))) \<and>
     first_least ratio_le (quotas levels) =
       (if c1_found_constrained st then Some (c1_best_quota st, c1_best_period st) else None)"

lemma cgroup1_tracks_step:
  assumes "proper_levels (levels @ [(q, p)])" "cgroup1_tracks levels st"
  shows "cgroup1_tracks (levels @ [(q, p)]) (cgroup1_cpu_step q p st)"
proof (cases q)
  case None
  then have "quotas (levels @ [(q, p)]) = quotas levels" by (simp add: quotas_snoc)
  then show ?thesis
    using None assms(2) by (simp add: cgroup1_tracks_def cgroup1_cpu_step_def hd_append)
next
  case (Some v)
  note least = first_least_quota [OF assms(1) [unfolded Some]]
  have "ratio_tighter v p (c1_best_quota st) (c1_best_period st) \<longleftrightarrow>
      \<not> ratio_le (c1_best_quota st, c1_best_period st) (v, p)" if "c1_found_constrained st"
  proof (rule ratio_tighter_iff)
    have "(c1_best_quota st, c1_best_period st) \<in> set (quotas levels)"
      using assms(2) that by (intro first_least_in [where le = ratio_le]) (simp add: cgroup1_tracks_def)
    then show "p \<noteq> 0" "c1_best_period st \<noteq> 0"
      using assms(1) quotas_proper [of levels] by (auto simp: proper_levels_def)
  qed
  then show ?thesis using assms(2)
    by (simp add: cgroup1_tracks_def quotas_snoc cgroup1_cpu_step_def Some least hd_append)
qed

lemma cgroup1_fold:
  "proper_levels levels \<Longrightarrow> cgroup1_tracks levels (fold (\<lambda>(q, p). cgroup1_cpu_step q p) levels cgroup1_start)"
proof (induction levels rule: rev_induct)
  case Nil
  then show ?case by (simp add: cgroup1_tracks_def cgroup1_start_def quotas_def)
next
  case (snoc l levels)
  then show ?case by (cases l) (simp add: cgroup1_tracks_step proper_levels_def)
qed

lemma read_cgroup1_period_nonzero: "read_cgroup1_period host path = Value p \<Longrightarrow> p \<noteq> 0"
  by (auto simp: read_cgroup1_period_def parse_cgroup1_period_def Let_def and_then_Value_iff
      split: stat_outcome.splits if_splits option.splits)

lemma cgroup1_cpu_level_period: "cgroup1_cpu_level host dir = Value (Some l) \<Longrightarrow> snd l \<noteq> 0"
  using read_cgroup1_period_nonzero [of host "level_path dir ''cpu.cfs_period_us''"]
  by (cases l) (auto simp: cgroup1_cpu_level_def and_then_Value_iff split: option.splits)

lemma cgroup1_cpu_exact: "read_effective_cgroup1_cpu host dirs = quota_over (cgroup1_cpu_level host) dirs"
  unfolding read_effective_cgroup1_cpu_def quota_over_def cgroup1_cpu_levels_fold and_then_assoc
    cgroup1_start_def [symmetric]
proof (rule and_then_cong)
  fix ls
  assume "all_values (map (cgroup1_cpu_level host) dirs) = Value ls"
  then have "proper_levels (present ls)"
    using present_proper [of "cgroup1_cpu_level host" dirs ls] cgroup1_cpu_level_period by blast
  from cgroup1_fold [OF this]
  show "and_then (Value (fold (\<lambda>(q, p). cgroup1_cpu_step q p) (present ls) cgroup1_start)) (\<lambda>st.
        if \<not> c1_found_any_file st then fail errc.not_found
        else if c1_found_constrained st then Value (Some (c1_best_quota st), Some (c1_best_period st))
        else Value (None, c1_first_period st)) =
      (if present ls = [] then fail errc.not_found else Value (effective_quota (present ls)))"
    by (auto simp: cgroup1_tracks_def effective_quota_def)
qed

text \<open>
  C30. Both readers of the CPU quota, the one over \<open>cpu.max\<close> and the one over the two files of the legacy
  hierarchy, compute one specification of what the levels say: the first level whose quota per period is
  the smallest, compared exactly, gives quota and period; without a quota anywhere the period of the
  first level is reported alone; without a file anywhere the answer is \<open>not_found\<close>; the first error
  ends the query. In particular the division inside \<open>positive_ratio_less\<close> never meets a zero period.
\<close>

theorem effective_cpu_refines:
  "read_effective_cpu_max host dirs = quota_over (cpu_max_level host) dirs \<and>
   read_effective_cgroup1_cpu host dirs = quota_over (cgroup1_cpu_level host) dirs"
  using cpu_max_exact cgroup1_cpu_exact by (rule conjI)

section \<open>Mounts\<close>

definition covering_cgroup_mounts :: "(cgroup_mount_info \<Rightarrow> bool) \<Rightarrow> string \<Rightarrow> cgroup_mount_info list \<Rightarrow> cgroup_mount_info list" where
  "covering_cgroup_mounts P path mounts = filter (\<lambda>m. P m \<and> is_mount_root_prefix (cm_root m) path) mounts"

definition longer_root :: "cgroup_mount_info \<Rightarrow> cgroup_mount_info \<Rightarrow> bool" where
  "longer_root a b \<longleftrightarrow> length (cm_root b) \<le> length (cm_root a)"

lemma fold_more_specific: "fold more_specific ms None = first_least longer_root ms"
proof (induction ms rule: rev_induct)
  case (snoc m ms)
  have "first_least longer_root (ms @ [m]) =
      (case first_least longer_root ms of None \<Rightarrow> Some m | Some b \<Rightarrow> if longer_root b m then Some b else Some m)"
    by (rule first_least_snoc [where D = UNIV and f = "\<lambda>m. - int (length (cm_root m))"]) (auto simp: longer_root_def)
  moreover have "longer_root b m \<longleftrightarrow> \<not> length (cm_root b) < length (cm_root m)" for b
    by (simp add: longer_root_def not_less)
  ultimately show ?case using snoc by (simp add: more_specific_def split: option.split)
qed simp

lemma fold_when: "fold (\<lambda>x st. if P x then f x st else st) xs st = fold f (filter P xs) st"
  by (induction xs arbitrary: st) auto

lemma cgroup_mount_folds:
  "fold (cgroup2_mount_step path) mounts None =
     first_least longer_root (covering_cgroup_mounts (\<lambda>m. cm_fstype m = ''cgroup2'') path mounts)"
  "fold (cgroup1_mount_step ctrl path) mounts None =
     first_least longer_root (covering_cgroup_mounts (\<lambda>m. cm_fstype m = ''cgroup'' \<and> ctrl \<in> set (cm_options m)) path mounts)"
  unfolding covering_cgroup_mounts_def fold_more_specific [symmetric] fold_when [symmetric]
    cgroup2_mount_step_def cgroup1_mount_step_def conj_assoc by (rule refl)+

text \<open>
  The mount of a control group's hierarchy is the most specific one: the first of the longest roots
  among the mounts of the right file system (and controller) whose root covers the process's path. The
  conventional directories are consulted only when no control group file system is mounted at all.
\<close>

theorem cgroup_mount_most_specific:
  "find_cgroup2_mount host mounts path =
     (case first_least longer_root (covering_cgroup_mounts (\<lambda>m. cm_fstype m = ''cgroup2'') path mounts) of
        Some m \<Rightarrow> Some (cm_mount_point m, cm_root m)
      | None \<Rightarrow> if mounts = [] \<and> vh_statfs host ''/sys/fs/cgroup'' = Some cgroup2_magic
                then Some (''/sys/fs/cgroup'', ''/'') else None) \<and>
   find_cgroup1_controller_mount host mounts ctrl path =
     (case first_least longer_root
         (covering_cgroup_mounts (\<lambda>m. cm_fstype m = ''cgroup'' \<and> ctrl \<in> set (cm_options m)) path mounts) of
        Some m \<Rightarrow> Some (cm_mount_point m, cm_root m)
      | None \<Rightarrow> if mounts = [] \<and> ho_stat host (''/sys/fs/cgroup/'' @ ctrl) = Directory
                then Some (''/sys/fs/cgroup/'' @ ctrl, ''/'') else None)"
  unfolding find_cgroup2_mount_def find_cgroup1_controller_mount_def cgroup_mount_folds Let_def
  by (intro conjI refl)

section \<open>Verdicts\<close>

text \<open>The evidence for each verdict on one namespace.\<close>

definition shared_evidence :: "virt_host \<Rightarrow> bool option \<Rightarrow> string \<Rightarrow> bool" where
  "shared_evidence host np name \<longleftrightarrow>
     np = Some False \<and>
     (case ho_stat host (''/proc/1/ns/'' @ name) of Stat_error e \<Rightarrow> False | _ \<Rightarrow> True) \<and>
     fst (vh_identity host (''/proc/self/ns/'' @ name)) = fst (vh_identity host (''/proc/1/ns/'' @ name))"

definition isolated_evidence :: "virt_host \<Rightarrow> bool option \<Rightarrow> bool option \<Rightarrow> string \<Rightarrow> bool" where
  "isolated_evidence host np nu name \<longleftrightarrow>
     (classify_namespace_name name \<in> {namespace_type.pid, namespace_type.pid_for_children} \<and> np = Some True) \<or>
     (classify_namespace_name name = namespace_type.user \<and> nu = Some True) \<or>
     ((case ho_stat host (''/proc/1/ns/'' @ name) of Stat_error e \<Rightarrow> False | _ \<Rightarrow> True) \<and>
      fst (vh_identity host (''/proc/self/ns/'' @ name)) \<noteq> fst (vh_identity host (''/proc/1/ns/'' @ name)))"

definition verdict_sound :: "virt_host \<Rightarrow> bool option \<Rightarrow> bool option \<Rightarrow> namespace_info \<Rightarrow> bool" where
  "verdict_sound host np nu ns \<longleftrightarrow>
     \<not> hidden (ni_name ns) \<and>
     ni_type ns = classify_namespace_name (ni_name ns) \<and>
     (ni_inode ns, ni_device_id ns) = vh_identity host (''/proc/self/ns/'' @ ni_name ns) \<and>
     (ni_is_isolated ns = Some False \<longrightarrow> shared_evidence host np (ni_name ns)) \<and>
     (ni_is_isolated ns = Some True \<longrightarrow> isolated_evidence host np nu (ni_name ns))"

lemma init_evidence_sound:
  assumes "init_evidence host name np = Value v"
  shows "v = Some False \<Longrightarrow> shared_evidence host np name" "v = Some True \<Longrightarrow> isolated_evidence host np nu name"
  using assms
  by (auto simp: init_evidence_def shared_evidence_def isolated_evidence_def
      split: stat_outcome.splits if_splits)

lemma read_namespace_sound:
  assumes "nu \<noteq> Some False" "\<not> hidden name" "read_namespace host np nu name = Value ns"
  shows "verdict_sound host np nu ns"
proof (cases "own_evidence (classify_namespace_name name) np nu")
  case None
  then obtain v where v: "init_evidence host name np = Value v"
    "ns = \<lparr>ni_type = classify_namespace_name name, ni_name = name,
       ni_inode = fst (vh_identity host (''/proc/self/ns/'' @ name)),
       ni_device_id = snd (vh_identity host (''/proc/self/ns/'' @ name)), ni_is_isolated = v\<rparr>"
    using assms(3) by (auto simp: read_namespace_def and_then_Value_iff split: prod.splits)
  then show ?thesis
    using init_evidence_sound [OF v(1)] assms(2) by (simp add: verdict_sound_def)
next
  case (Some verdict)
  then have "verdict = True" "isolated_evidence host np nu name"
    using assms(1) by (auto simp: own_evidence_def isolated_evidence_def split: if_splits)
  moreover have "ns = \<lparr>ni_type = classify_namespace_name name, ni_name = name,
       ni_inode = fst (vh_identity host (''/proc/self/ns/'' @ name)),
       ni_device_id = snd (vh_identity host (''/proc/self/ns/'' @ name)), ni_is_isolated = Some verdict\<rparr>"
    using assms(3) Some by (auto simp: read_namespace_def split: prod.splits)
  ultimately show ?thesis using assms(2) by (simp add: verdict_sound_def)
qed

lemma namespace_entries_sound:
  "nu \<noteq> Some False \<Longrightarrow> list_all (verdict_sound host np nu) acc \<Longrightarrow>
   namespace_entries host np nu es err acc = Value found \<Longrightarrow> list_all (verdict_sound host np nu) found"
proof (induction host np nu es err acc rule: namespace_entries.induct)
  case (3 host np nu name es err acc)
  show ?case
  proof (cases "hidden name")
    case False
    then show ?thesis
      using 3 read_namespace_sound [OF "3.prems"(1) False]
      by (auto simp: and_then_Value_iff split: stat_outcome.splits if_splits)
  qed (use 3 in auto)
qed (auto simp: Let_def split: if_splits)

interpretation ns_name: strict_weak_order "\<lambda>a b. ni_name a < ni_name b"
  by (rule swo_key)

lemma nested_user_evidence: "optional_reading r nested_user = Value nu \<Longrightarrow> nu \<noteq> Some False"
  by (auto simp: optional_reading_def nested_user_def Let_def split: result.splits if_splits)

text \<open>
  C31. A namespace is called shared or isolated on evidence only. In every list returned, a namespace that
  is reported as shared with process 1 has that process's inode, and the process's own status file shows
  a single process number, so that process 1 is the host's; one reported as isolated differs from
  process 1's inode, or is a process namespace that the status file shows to be nested, or a user
  namespace whose map is not the full identity. Names are sorted and none is hidden.
\<close>

theorem namespace_verdicts_sound:
  "case detect_namespaces host of
     Unexpected e \<Rightarrow> True
   | Value found \<Rightarrow>
       (case (optional_reading (ho_read host ''/proc/self/status'' 4096) nested_pid,
              optional_reading (ho_read host ''/proc/self/uid_map'' 512) nested_user) of
          (Value np, Value nu) \<Rightarrow>
            list_all (verdict_sound host np nu) found \<and>
            in_order (\<lambda>a b. ni_name a < ni_name b) found
        | _ \<Rightarrow> False)"
proof (cases "detect_namespaces host")
  case (Value found)
  then obtain np nu ns where *: "optional_reading (ho_read host ''/proc/self/status'' 4096) nested_pid = Value np"
    "optional_reading (ho_read host ''/proc/self/uid_map'' 512) nested_user = Value nu"
    "namespace_entries host np nu (ho_entries host ''/proc/self/ns'') 0 [] = Value ns"
    "found = std_sort (\<lambda>a b. ni_name a < ni_name b) ns"
    by (auto simp: detect_namespaces_def and_then_Value_iff split: option.splits)
  moreover have "list_all (verdict_sound host np nu) ns"
    using namespace_entries_sound [OF nested_user_evidence [OF *(2)] _ *(3)] by simp
  moreover have "in_order (\<lambda>a b. ni_name a < ni_name b) found"
    unfolding *(4) by (rule ns_name.std_sort_in_order)
  ultimately show ?thesis using Value by (simp add: list_all_iff)
qed simp

text \<open>
  C32. An entry that disappears at the end of the listing loses the whole answer: if the last entry of
  \<open>/proc/self/ns\<close> is gone when it is looked at, the loop, which means to skip such an entry, has left
  \<open>ENOENT\<close> in \<open>errno\<close> and takes the end of the directory for a failed \<open>readdir\<close>.
\<close>

theorem vanished_namespace_lost:
  assumes "\<not> hidden name" and "ho_stat host (''/proc/self/ns/'' @ name) = Stat_error ENOENT"
    and "namespace_entries host np nu (map Entry names) err acc = Value found"
  shows "namespace_entries host np nu (map Entry names @ [Entry name]) err acc = fail_errno ENOENT"
  using assms(3)
proof (induction names arbitrary: err acc)
  case Nil
  then show ?case using assms(1,2) by (simp add: ENOENT_def)
next
  case (Cons n names)
  then show ?case
    by (auto simp: and_then_Value_iff split: if_splits stat_outcome.splits)
qed

definition example_virt_host :: virt_host where
  "example_virt_host =
     \<lparr>ho_opendir = (\<lambda>p. None), ho_entries = (\<lambda>p. [Entry ''net'', Entry ''uts'']),
      ho_stat = (\<lambda>p. if p = ''/proc/self/ns/uts'' then Stat_error ENOENT else Regular_file),
      ho_exists = (\<lambda>p. Some ENOENT), ho_executable = (\<lambda>p. Some ENOENT),
      ho_read = (\<lambda>p n. fail_errno ENOENT), ho_readlink = (\<lambda>p n. None), ho_getenv = (\<lambda>p. None),
      vh_cpuid = (\<lambda>leaf. None), vh_statfs = (\<lambda>p. None), vh_identity = (\<lambda>p. (7, 4))\<rparr>"

theorem vanished_namespace_lost_witness:
  "namespace_entries example_virt_host (Some False) None [Entry ''net'', Entry ''uts''] 0 [] = fail_errno ENOENT"
  using vanished_namespace_lost [of "''uts''" example_virt_host "Some False" None "[''net'']" 0 "[]"
      "[\<lparr>ni_type = namespace_type.net, ni_name = ''net'', ni_inode = 7, ni_device_id = 4,
         ni_is_isolated = Some False\<rparr>]"]
  by (simp add: example_virt_host_def hidden_def read_namespace_def classify_namespace_name_def
      own_evidence_def init_evidence_def)

text \<open>The verdict, the vendor and the name of a hypervisor or container do not contradict each other.\<close>

definition hypervisor_coherent :: "hypervisor_info \<Rightarrow> bool" where
  "hypervisor_coherent info \<longleftrightarrow>
     (hi_present info \<longleftrightarrow> hi_vendor info \<noteq> hypervisor_vendor.none) \<and> (hi_name info \<noteq> [] \<longrightarrow> hi_present info)"

definition container_coherent :: "container_info \<Rightarrow> bool" where
  "container_coherent info \<longleftrightarrow>
     (ci_present info \<longleftrightarrow> ci_runtime info \<noteq> container_runtime.none) \<and> (ci_name info \<noteq> [] \<longleftrightarrow> ci_present info)"

definition wsl_coherent :: "wsl_info \<Rightarrow> bool" where
  "wsl_coherent info \<longleftrightarrow> wi_version info \<in> (if wi_is_wsl info then {1, 2} else {0})"

lemma classifiers_not_none:
  "classify_cpuid_signature s \<noteq> hypervisor_vendor.none" "classify_dmi_strings a b c \<noteq> hypervisor_vendor.none"
  "classify_sysfs_hypervisor_type s \<noteq> hypervisor_vendor.none" "classify_container_name s \<noteq> container_runtime.none"
  by (simp_all add: classify_cpuid_signature_def classify_dmi_strings_def classify_sysfs_hypervisor_type_def
      classify_container_name_def Let_def)

lemma probe_coherent: "hypervisor_coherent (probe_cpuid_hypervisor host)"
  by (simp add: probe_cpuid_hypervisor_def hypervisor_coherent_def Let_def classifiers_not_none
      split: option.split prod.split)

lemma firmware_coherent:
  "hypervisor_coherent info \<Longrightarrow> hypervisor_coherent (firmware_hypervisor host info)"
  by (auto simp: firmware_hypervisor_def hypervisor_coherent_def Let_def classifiers_not_none)

lemma detect_hypervisor_coherent: "\<exists>info. detect_hypervisor host = Value info \<and> hypervisor_coherent info"
  using probe_coherent [of host] firmware_coherent [OF probe_coherent]
  by (auto simp: detect_hypervisor_def Let_def classifiers_not_none hypervisor_coherent_def)

lemma runtime_name_nonempty: "runtime_name r \<noteq> []"
  by (cases r) simp_all

lemma check_cgroup_file_coherent: "check_cgroup_file host path = Some info \<Longrightarrow> container_coherent info"
  by (auto simp: check_cgroup_file_def container_coherent_def find_Some_iff runtime_name_nonempty
      split: result.splits option.splits)

lemma found_container_coherent:
  "runtime \<noteq> container_runtime.none \<Longrightarrow> name \<noteq> [] \<Longrightarrow>
   \<exists>info. found_container runtime name = Value info \<and> container_coherent info"
  by (simp add: found_container_def container_coherent_def)

lemma no_container_coherent:
  "container_coherent \<lparr>ci_present = False, ci_runtime = container_runtime.none, ci_name = []\<rparr>"
  by (simp add: container_coherent_def)

lemma detect_container_coherent: "\<exists>info. detect_container host = Value info \<and> container_coherent info"
  using no_container_coherent
  by (auto simp: detect_container_def Let_def classifiers_not_none intro!: found_container_coherent
      dest: check_cgroup_file_coherent split: option.split result.split)

lemma detect_wsl_coherent: "\<exists>info. detect_wsl host = Value info \<and> wsl_coherent info"
  by (auto simp: detect_wsl_def Let_def wsl_coherent_def)

text \<open>
  The detectors always answer, and their answers are coherent: a hypervisor is reported present exactly
  if its vendor is not "none", and a name only with it; a container is present exactly if its runtime is
  not "none" and exactly if it has a name; the WSL version is 1 or 2 under WSL and 0 elsewhere.
\<close>

theorem detectors_coherent:
  "(case detect_hypervisor host of Value info \<Rightarrow> hypervisor_coherent info | Unexpected e \<Rightarrow> False) \<and>
   (case detect_container host of Value info \<Rightarrow> container_coherent info | Unexpected e \<Rightarrow> False) \<and>
   (case detect_wsl host of Value info \<Rightarrow> wsl_coherent info | Unexpected e \<Rightarrow> False)"
  using detect_hypervisor_coherent [of host] detect_container_coherent [of host] detect_wsl_coherent [of host]
  by auto

end
