(* ===== verification/Storage.thy ===== *)
theory Storage
  imports Os Ordering
begin

text \<open>
  Drives, partitions and drive health on Linux (\<open>storage.hpp\<close>, \<open>detail/storage/common.hpp\<close> and
  \<open>detail/storage/linux.hpp\<close>): the records, the parsers of sysfs attributes, mount tables, NVMe health logs
  and SCSI sense data, and the queries over the answers of the system. Temperatures are integers in
  thousandths of a degree: every value the code computes and every bound it compares with is a decimal
  with at most three places, and none lies so close to a bound that a rounding could change a comparison;
  the two values that are not numbers do not arise. The properties are in theory Storage_Correct.
\<close>

unbundle bit_operations_syntax

section \<open>Types\<close>

datatype bus_type =
    unknown | scsi | sata | sas | ata | atapi | usb | firewire | fibre_channel | iscsi | raid | nvme | sd
  | mmc | virtual_media

datatype partition_scheme = unknown | mbr | gpt | apple | raw

datatype drive_health_status = unknown | healthy | warning | critical

record health_record =
  hr_identifier :: string
  hr_status :: drive_health_status
  hr_has_failure_predicted :: bool
  hr_failure_predicted :: bool
  hr_has_temperature_celsius :: bool
  hr_temperature_celsius :: int
  hr_has_percent_used :: bool
  hr_percent_used :: u32
  hr_has_available_spare_percent :: bool
  hr_available_spare_percent :: u32
  hr_has_power_on_hours :: bool
  hr_power_on_hours :: u64
  hr_has_power_cycles :: bool
  hr_power_cycles :: u64
  hr_has_unsafe_shutdowns :: bool
  hr_unsafe_shutdowns :: u64
  hr_has_media_errors :: bool
  hr_media_errors :: u64
  hr_has_data_units_read_bytes :: bool
  hr_data_units_read_bytes :: u64
  hr_has_data_units_written_bytes :: bool
  hr_data_units_written_bytes :: u64

record drive_record =
  dr_identifier :: string
  dr_has_vendor :: bool
  dr_vendor :: string
  dr_has_model :: bool
  dr_model :: string
  dr_has_firmware_revision :: bool
  dr_firmware_revision :: string
  dr_bus :: bus_type
  dr_has_capacity_bytes :: bool
  dr_capacity_bytes :: u64
  dr_has_logical_sector_size_bytes :: bool
  dr_logical_sector_size_bytes :: u32
  dr_has_physical_sector_size_bytes :: bool
  dr_physical_sector_size_bytes :: u32
  dr_has_rotational :: bool
  dr_rotational :: bool
  dr_removable :: bool

record partition_record =
  pr_identifier :: string
  pr_disk_identifier :: string
  pr_partition_number :: u32
  pr_has_start_offset_bytes :: bool
  pr_start_offset_bytes :: u64
  pr_has_size_bytes :: bool
  pr_size_bytes :: u64
  pr_scheme :: partition_scheme
  pr_has_type_identifier :: bool
  pr_type_identifier :: string
  pr_has_name :: bool
  pr_name :: string
  pr_has_uuid :: bool
  pr_uuid :: string
  pr_has_filesystem_type :: bool
  pr_filesystem_type :: string
  pr_is_read_only :: bool
  pr_is_bootable :: bool
  pr_is_mounted :: bool
  pr_mount_point :: string

definition new_health :: "string \<Rightarrow> health_record" where
  "new_health identifier = \<lparr>
     hr_identifier = identifier, hr_status = drive_health_status.unknown,
     hr_has_failure_predicted = False, hr_failure_predicted = False,
     hr_has_temperature_celsius = False, hr_temperature_celsius = 0, hr_has_percent_used = False,
     hr_percent_used = 0, hr_has_available_spare_percent = False, hr_available_spare_percent = 0,
     hr_has_power_on_hours = False, hr_power_on_hours = 0, hr_has_power_cycles = False,
     hr_power_cycles = 0, hr_has_unsafe_shutdowns = False, hr_unsafe_shutdowns = 0,
     hr_has_media_errors = False, hr_media_errors = 0, hr_has_data_units_read_bytes = False,
     hr_data_units_read_bytes = 0, hr_has_data_units_written_bytes = False,
     hr_data_units_written_bytes = 0\<rparr>"

definition new_drive :: "string \<Rightarrow> bus_type \<Rightarrow> drive_record" where
  "new_drive identifier bus = \<lparr>
     dr_identifier = identifier, dr_has_vendor = False, dr_vendor = [], dr_has_model = False,
     dr_model = [], dr_has_firmware_revision = False, dr_firmware_revision = [], dr_bus = bus,
     dr_has_capacity_bytes = False, dr_capacity_bytes = 0, dr_has_logical_sector_size_bytes = False,
     dr_logical_sector_size_bytes = 0, dr_has_physical_sector_size_bytes = False,
     dr_physical_sector_size_bytes = 0, dr_has_rotational = False, dr_rotational = False,
     dr_removable = False\<rparr>"

definition new_partition :: "string \<Rightarrow> string \<Rightarrow> u32 \<Rightarrow> partition_record" where
  "new_partition identifier disk_identifier partition_number = \<lparr>
     pr_identifier = identifier, pr_disk_identifier = disk_identifier,
     pr_partition_number = partition_number, pr_has_start_offset_bytes = False,
     pr_start_offset_bytes = 0, pr_has_size_bytes = False, pr_size_bytes = 0,
     pr_scheme = partition_scheme.unknown, pr_has_type_identifier = False, pr_type_identifier = [],
     pr_has_name = False, pr_name = [], pr_has_uuid = False, pr_uuid = [],
     pr_has_filesystem_type = False, pr_filesystem_type = [], pr_is_read_only = False,
     pr_is_bootable = False, pr_is_mounted = False, pr_mount_point = []\<rparr>"

section \<open>Validation at the boundary\<close>

definition drive_usable :: "drive_record \<Rightarrow> unit result" where
  "drive_usable r =
     (if dr_identifier r = [] \<or> \<not> is_valid_utf8 (dr_identifier r) then fail errc.invalid_encoding
      else if (dr_has_vendor r \<and> \<not> is_valid_utf8 (dr_vendor r)) \<or>
              (dr_has_model r \<and> \<not> is_valid_utf8 (dr_model r)) \<or>
              (dr_has_firmware_revision r \<and> \<not> is_valid_utf8 (dr_firmware_revision r))
      then fail errc.invalid_encoding
      else if (dr_has_logical_sector_size_bytes r \<and> dr_logical_sector_size_bytes r = 0) \<or>
              (dr_has_physical_sector_size_bytes r \<and> dr_physical_sector_size_bytes r = 0)
      then fail errc.malformed_data
      else Value ())"

definition validate_drive_records :: "drive_record list result \<Rightarrow> drive_record list result" where
  "validate_drive_records records = validate_each drive_usable records"

definition partition_usable :: "partition_record \<Rightarrow> unit result" where
  "partition_usable r =
     (if pr_identifier r = [] \<or> \<not> is_valid_utf8 (pr_identifier r) then fail errc.invalid_encoding
      else if pr_disk_identifier r = [] \<or> \<not> is_valid_utf8 (pr_disk_identifier r) then fail errc.invalid_encoding
      else if (pr_has_type_identifier r \<and> pr_type_identifier r = []) \<or> (pr_has_name r \<and> pr_name r = []) \<or>
              (pr_has_uuid r \<and> pr_uuid r = []) \<or> (pr_has_filesystem_type r \<and> pr_filesystem_type r = []) \<or>
              (pr_is_mounted r \<and> pr_mount_point r = []) \<or> (\<not> pr_is_mounted r \<and> pr_mount_point r \<noteq> [])
      then fail errc.malformed_data
      else if (pr_has_type_identifier r \<and> \<not> is_valid_utf8 (pr_type_identifier r)) \<or>
              (pr_has_name r \<and> \<not> is_valid_utf8 (pr_name r)) \<or> (pr_has_uuid r \<and> \<not> is_valid_utf8 (pr_uuid r)) \<or>
              (pr_has_filesystem_type r \<and> \<not> is_valid_utf8 (pr_filesystem_type r)) \<or>
              (pr_is_mounted r \<and> \<not> is_valid_utf8 (pr_mount_point r))
      then fail errc.invalid_encoding
      else Value ())"

definition validate_partition_records :: "partition_record list result \<Rightarrow> partition_record list result" where
  "validate_partition_records records = validate_each partition_usable records"

text \<open>The two bounds of a temperature: absolute zero and 1000 degrees.\<close>

definition health_usable :: "health_record \<Rightarrow> unit result" where
  "health_usable r =
     (if hr_identifier r = [] \<or> \<not> is_valid_utf8 (hr_identifier r) then fail errc.invalid_encoding
      else if hr_has_available_spare_percent r \<and> hr_available_spare_percent r > 100 then fail errc.malformed_data
      else if hr_has_temperature_celsius r \<and>
              (hr_temperature_celsius r < - 273150 \<or> hr_temperature_celsius r > 1000000)
      then fail errc.malformed_data
      else Value ())"

definition validate_health_record :: "health_record result \<Rightarrow> health_record result" where
  "validate_health_record r = and_then r (\<lambda>h. and_then (health_usable h) (\<lambda>u. Value h))"

definition validate_health_records :: "health_record list result \<Rightarrow> health_record list result" where
  "validate_health_records records = validate_each health_usable records"

definition is_valid_disk_identifier :: "string \<Rightarrow> bool" where
  "is_valid_disk_identifier identifier \<longleftrightarrow>
     identifier \<noteq> [] \<and> is_valid_utf8 identifier \<and> nul \<notin> set identifier \<and>
     CHR ''/'' \<notin> set identifier \<and> backslash \<notin> set identifier \<and> identifier \<noteq> ''.'' \<and> identifier \<noteq> ''..''"

section \<open>Attributes\<close>

definition block_root :: string where "block_root = ''/sys/block/''"

definition size_unit_bytes :: u64 where "size_unit_bytes = 512"

definition attribute_blank :: "char \<Rightarrow> bool" where
  "attribute_blank c \<longleftrightarrow> c = CHR '' '' \<or> c = tab \<or> c = carriage_return \<or> c = newline"

definition trim_attribute :: "string \<Rightarrow> string" where
  "trim_attribute v = trim_both attribute_blank v"

text \<open>\<open>parse_number<std::uint64_t>\<close>, \<open>parse_number<std::uint32_t>\<close> and \<open>parse_number<std::int64_t>\<close>.\<close>

definition parse_number :: "nat \<Rightarrow> string \<Rightarrow> nat result" where
  "parse_number w input =
     (let v = trim_attribute input in if v = [] then fail errc.malformed_data else whole_unsigned w v)"

definition parse_number_u64 :: "string \<Rightarrow> u64 result" where
  "parse_number_u64 input = and_then (parse_number 64 input) (\<lambda>n. Value (of_nat n))"

definition parse_number_u32 :: "string \<Rightarrow> u32 result" where
  "parse_number_u32 input = and_then (parse_number 32 input) (\<lambda>n. Value (of_nat n))"

definition parse_number_i64 :: "string \<Rightarrow> int result" where
  "parse_number_i64 input =
     (let v = trim_attribute input in if v = [] then fail errc.malformed_data else whole_signed 64 v)"

definition parse_flag :: "string \<Rightarrow> bool result" where
  "parse_flag input =
     (let v = trim_attribute input in
      if v = ''0'' then Value False else if v = ''1'' then Value True else fail errc.malformed_data)"

definition classify_subsystem :: "string \<Rightarrow> bus_type" where
  "classify_subsystem subsystem =
     (if subsystem = ''scsi'' then bus_type.scsi
      else if subsystem = ''nvme'' then bus_type.nvme
      else if subsystem = ''mmc'' then bus_type.mmc
      else bus_type.unknown)"

definition backing_subsystem_unchanged :: "string \<Rightarrow> string option \<Rightarrow> bool" where
  "backing_subsystem_unchanged initial final_value \<longleftrightarrow> final_value = Some initial"

definition capacity_in_bytes :: "u64 \<Rightarrow> u64 result" where
  "capacity_in_bytes sectors =
     (if sectors > 0xFFFFFFFFFFFFFFFF div size_unit_bytes then fail errc.value_too_large
      else Value (sectors * size_unit_bytes))"

section \<open>Partition schemes\<close>

definition is_hex_char :: "char \<Rightarrow> bool" where
  "is_hex_char c \<longleftrightarrow> is_digit c \<or> (97 \<le> uchar c \<and> uchar c \<le> 102) \<or> (65 \<le> uchar c \<and> uchar c \<le> 70)"

definition gpt_uuid :: "string \<Rightarrow> bool" where
  "gpt_uuid uuid \<longleftrightarrow>
     length uuid = 36 \<and> uuid ! 8 = CHR ''-'' \<and> uuid ! 13 = CHR ''-'' \<and> uuid ! 18 = CHR ''-'' \<and> uuid ! 23 = CHR ''-'' \<and>
     list_all (\<lambda>i. i = 8 \<or> i = 13 \<or> i = 18 \<or> i = 23 \<or> is_hex_char (uuid ! i)) [0..<36]"

definition mbr_uuid :: "string \<Rightarrow> bool" where
  "mbr_uuid uuid \<longleftrightarrow>
     find_from (CHR ''-'') uuid 0 = Some 8 \<and> length uuid \<ge> 10 \<and> length uuid \<le> 12 \<and>
     list_all (\<lambda>i. is_hex_char (uuid ! i)) [0..<8] \<and> list_all (\<lambda>i. is_digit (uuid ! i)) [9..<length uuid]"

definition classify_partition_scheme :: "string \<Rightarrow> partition_scheme" where
  "classify_partition_scheme uuid =
     (if gpt_uuid uuid then partition_scheme.gpt
      else if mbr_uuid uuid then partition_scheme.mbr
      else partition_scheme.unknown)"

section \<open>The mount table\<close>

definition octal_digit_value :: "char \<Rightarrow> int" where
  "octal_digit_value c = (if 48 \<le> uchar c \<and> uchar c \<le> 55 then int (uchar c) - 48 else -1)"

text \<open>The three characters after the backslash; fewer are refused.\<close>

definition decode_mount_escape :: "string \<Rightarrow> char result" where
  "decode_mount_escape escape =
     (case escape of
        a # b # c # rest \<Rightarrow>
          let hundreds = octal_digit_value a; tens = octal_digit_value b; ones = octal_digit_value c in
          if hundreds < 0 \<or> tens < 0 \<or> ones < 0 then fail errc.malformed_data
          else let v = hundreds * 64 + tens * 8 + ones in
            if v = 32 then Value (CHR '' '')
            else if v = 9 then Value tab
            else if v = 10 then Value newline
            else if v = 92 then Value backslash
            else fail errc.malformed_data
      | _ \<Rightarrow> fail errc.malformed_data)"

function decode_mount_field :: "string \<Rightarrow> string result" where
  "decode_mount_field [] = Value []"
| "decode_mount_field (c # cs) =
     (if c \<noteq> backslash then and_then (decode_mount_field cs) (\<lambda>output. Value (c # output))
      else and_then (decode_mount_escape cs) (\<lambda>d.
        and_then (decode_mount_field (drop 3 cs)) (\<lambda>output. Value (d # output))))"
  by pat_completeness auto
termination
  by (relation "measure length") auto

record mount_entry =
  me_device_name :: string
  me_mount_point :: string
  me_fstype :: string

definition mount_blank :: "char \<Rightarrow> bool" where
  "mount_blank c \<longleftrightarrow> c = CHR '' '' \<or> c = tab"

text \<open>
  One line. A line with fewer than three fields and one with fewer than six fail alike, so the count
  decides both. A source that is no device is passed over.
\<close>

definition parse_mount_line :: "string \<Rightarrow> mount_entry option result" where
  "parse_mount_line line =
     (if line = [] then Value None
      else let fs = tokens_of mount_blank line in
        if length fs < 6 then fail errc.malformed_data
        else if has_prefix ''/dev/'' (fs ! 0) \<and> length (fs ! 0) > 5 then
          and_then (decode_mount_field (drop 5 (fs ! 0))) (\<lambda>source.
          and_then (decode_mount_field (fs ! 1)) (\<lambda>target.
          and_then (decode_mount_field (fs ! 2)) (\<lambda>fstype.
            Value (Some \<lparr>me_device_name = source, me_mount_point = target, me_fstype = fstype\<rparr>))))
        else Value None)"

fun mount_lines :: "string list \<Rightarrow> mount_entry list result" where
  "mount_lines [] = Value []"
| "mount_lines (line # lines) =
     and_then (parse_mount_line line) (\<lambda>entry.
     and_then (mount_lines lines) (\<lambda>entries.
       Value (case entry of None \<Rightarrow> entries | Some m \<Rightarrow> m # entries)))"

definition parse_mount_table :: "string \<Rightarrow> mount_entry list result" where
  "parse_mount_table content = mount_lines (lines_of content)"

section \<open>NVMe health logs\<close>

definition read_u128_le :: "u8 list \<Rightarrow> nat \<Rightarrow> u64 \<times> u64" where
  "read_u128_le buf offset =
     (foldl (\<lambda>low i. low OR push_bit (i * 8) (ucast (buf ! (offset + i)))) 0 [0..<8],
      foldl (\<lambda>high i. high OR push_bit (i * 8) (ucast (buf ! (offset + 8 + i)))) 0 [0..<8])"

definition nvme_unit_multiplier :: u64 where "nvme_unit_multiplier = 512000"

text \<open>A count of data units in bytes, and a plain count; both refuse what 64 bits do not hold.\<close>

definition nvme_units :: "u8 list \<Rightarrow> nat \<Rightarrow> u64 result" where
  "nvme_units buf offset =
     (let (low, high) = read_u128_le buf offset in
      if high \<noteq> 0 \<or> low > 0xFFFFFFFFFFFFFFFF div nvme_unit_multiplier then fail errc.value_too_large
      else Value (low * nvme_unit_multiplier))"

definition nvme_count :: "u8 list \<Rightarrow> nat \<Rightarrow> u64 result" where
  "nvme_count buf offset =
     (let (low, high) = read_u128_le buf offset in
      if high \<noteq> 0 then fail errc.value_too_large else Value low)"

text \<open>The temperature in kelvin becomes thousandths of a degree Celsius.\<close>

definition nvme_temperature :: "u16 \<Rightarrow> health_record \<Rightarrow> health_record" where
  "nvme_temperature temp_kelvin r =
     (if temp_kelvin > 0 \<and> temp_kelvin < 1000 then
        let celsius = int (unat temp_kelvin) * 1000 - 273150 in
        if celsius \<ge> - 50000 \<and> celsius \<le> 150000
        then r\<lparr>hr_has_temperature_celsius := True, hr_temperature_celsius := celsius\<rparr> else r
      else r)"

definition nvme_status :: "u8 \<Rightarrow> u8 \<Rightarrow> u8 \<Rightarrow> u8 \<Rightarrow> health_record \<Rightarrow> health_record" where
  "nvme_status critical_warning avail_spare avail_spare_thresh percent_used r =
     (if critical_warning \<noteq> 0 then
        r\<lparr>hr_has_failure_predicted := True, hr_failure_predicted := True,
          hr_status := (if critical_warning AND 0x0C \<noteq> 0 then drive_health_status.critical
                        else drive_health_status.warning)\<rparr>
      else if avail_spare \<le> avail_spare_thresh \<or> percent_used \<ge> 100 then
        r\<lparr>hr_has_failure_predicted := True, hr_failure_predicted := (avail_spare \<le> avail_spare_thresh),
          hr_status := drive_health_status.warning\<rparr>
      else r\<lparr>hr_has_failure_predicted := True, hr_failure_predicted := False,
             hr_status := drive_health_status.healthy\<rparr>)"

definition parse_nvme_smart_log_buffer :: "u8 list \<Rightarrow> health_record \<Rightarrow> health_record result" where
  "parse_nvme_smart_log_buffer buf r0 =
     (if length buf < 512 then fail errc.malformed_data
      else
        (let critical_warning = buf ! 0;
             temp_kelvin = (ucast ((ucast (buf ! 1) :: u32) OR push_bit 8 (ucast (buf ! 2))) :: u16);
             avail_spare = buf ! 3; avail_spare_thresh = buf ! 4; percent_used = buf ! 5
         in
         if avail_spare > 100 \<or> avail_spare_thresh > 100 then fail errc.malformed_data
         else
           (let r = nvme_status critical_warning avail_spare avail_spare_thresh percent_used
                 ((nvme_temperature temp_kelvin r0)\<lparr>hr_has_available_spare_percent := True,
                    hr_available_spare_percent := ucast avail_spare, hr_has_percent_used := True,
                    hr_percent_used := ucast percent_used\<rparr>)
            in
            and_then (nvme_units buf 32) (\<lambda>units_read.
            and_then (nvme_units buf 48) (\<lambda>units_written.
            and_then (nvme_count buf 112) (\<lambda>cycles.
            and_then (nvme_count buf 128) (\<lambda>hours.
            and_then (nvme_count buf 144) (\<lambda>unsafe.
            and_then (nvme_count buf 160) (\<lambda>errors.
              Value (r\<lparr>hr_has_data_units_read_bytes := True, hr_data_units_read_bytes := units_read,
                       hr_has_data_units_written_bytes := True, hr_data_units_written_bytes := units_written,
                       hr_has_power_cycles := True, hr_power_cycles := cycles,
                       hr_has_power_on_hours := True, hr_power_on_hours := hours,
                       hr_has_unsafe_shutdowns := True, hr_unsafe_shutdowns := unsafe,
                       hr_has_media_errors := True, hr_media_errors := errors\<rparr>))))))))))"

section \<open>ATA health through SCSI\<close>

definition parse_ata_smart_status_values :: "u8 \<Rightarrow> u8 \<Rightarrow> health_record \<Rightarrow> health_record result" where
  "parse_ata_smart_status_values lba_mid lba_high r =
     (if lba_mid = 0x4F \<and> lba_high = 0xC2 then
        Value (r\<lparr>hr_has_failure_predicted := True, hr_failure_predicted := False,
                 hr_status := drive_health_status.healthy\<rparr>)
      else if lba_mid = 0xF4 \<and> lba_high = 0x2C then
        Value (r\<lparr>hr_has_failure_predicted := True, hr_failure_predicted := True,
                 hr_status := drive_health_status.warning\<rparr>)
      else fail errc.malformed_data)"

definition ENODEV :: int where "ENODEV = 19"
definition ENXIO :: int where "ENXIO = 6"
definition ENOSYS :: int where "ENOSYS = 38"
definition EOVERFLOW :: int where "EOVERFLOW = 75"

text \<open>What both classifications do with a failed request.\<close>

definition classify_ioctl_errno :: "int \<Rightarrow> unit result" where
  "classify_ioctl_errno system_errno =
     (if system_errno = EACCES \<or> system_errno = EPERM then fail errc.permission_denied
      else if system_errno = ENOTTY \<or> system_errno = EOPNOTSUPP \<or> system_errno = ENOSYS then Value ()
      else if system_errno = EIO then fail errc.io_error
      else fail_errno system_errno)"

definition classify_linux_nvme_ioctl_status :: "int \<Rightarrow> int \<Rightarrow> unit result" where
  "classify_linux_nvme_ioctl_status rc system_errno =
     (if rc < 0 then classify_ioctl_errno system_errno
      else if rc > 0 then
        (let sct = (rc div 256) mod 8; sc = rc mod 256 in
         if sct = 0 \<and> (sc = 1 \<or> sc = 2) then Value ()
         else if sct = 1 \<and> sc = 9 then Value ()
         else fail errc.io_error)
      else Value ())"

text \<open>The fields of \<open>linux_sg_io_hdr\<close> that are read after the request, with the buffer \<open>sbp\<close> points to.\<close>

record linux_sg_io_hdr =
  sg_status :: u8
  sg_sb_len_wr :: u8
  sg_host_status :: u16
  sg_driver_status :: u16
  sg_sbp :: "u8 list option"

definition scsi_sense_key :: "u8 list \<Rightarrow> nat \<Rightarrow> u8" where
  "scsi_sense_key sense sb_len_wr =
     (let resp_code = sense ! 0 AND 0x7F in
      if resp_code = 0x72 \<or> resp_code = 0x73 then (if sb_len_wr \<ge> 2 then sense ! 1 AND 0x0F else 0xFF)
      else if resp_code = 0x70 \<or> resp_code = 0x71 then (if sb_len_wr \<ge> 3 then sense ! 2 AND 0x0F else 0xFF)
      else 0xFF)"

definition classify_sense_key :: "u8 \<Rightarrow> unit result" where
  "classify_sense_key sense_key =
     (if sense_key = 0 \<or> sense_key = 1 \<or> sense_key = 5 then Value ()
      else if sense_key = 2 \<or> sense_key = 6 then fail errc.temporarily_unavailable
      else if sense_key = 7 then fail errc.permission_denied
      else fail errc.io_error)"

definition classify_linux_scsi_ioctl_status :: "int \<Rightarrow> int \<Rightarrow> linux_sg_io_hdr \<Rightarrow> bool \<Rightarrow> unit result" where
  "classify_linux_scsi_ioctl_status rc system_errno hdr ata_desc_found =
     (if rc < 0 then classify_ioctl_errno system_errno
      else if sg_host_status hdr \<noteq> 0 then fail errc.io_error
      else if sg_driver_status hdr \<noteq> 0 \<and> sg_driver_status hdr \<noteq> 8 then fail errc.io_error
      else if sg_status hdr = 0x08 \<or> sg_status hdr = 0x28 then fail errc.temporarily_unavailable
      else if sg_status hdr = 0x18 then fail errc.permission_denied
      else if sg_status hdr \<noteq> 0 \<and> sg_status hdr \<noteq> 2 then fail errc.io_error
      else if ata_desc_found then Value ()
      else if sg_status hdr = 0 then Value ()
      else (case sg_sbp hdr of
          None \<Rightarrow> fail errc.io_error
        | Some sense \<Rightarrow>
            if sg_sb_len_wr hdr = 0 then fail errc.io_error
            else classify_sense_key (scsi_sense_key sense (unat (sg_sb_len_wr hdr)))))"

text \<open>The walk over the descriptors of the sense data: the two bytes of the first ATA return descriptor.\<close>

function ata_descriptor :: "u8 list \<Rightarrow> nat \<Rightarrow> nat \<Rightarrow> (u8 \<times> u8) option" where
  "ata_descriptor sense sb_len_wr offset =
     (if offset + 1 < sb_len_wr then
        (let desc_type = sense ! offset; desc_len = sense ! (offset + 1) in
         if desc_type = 0x09 \<and> desc_len \<ge> 12 \<and> offset + 2 + unat desc_len \<le> sb_len_wr
         then Some (sense ! (offset + 9), sense ! (offset + 11))
         else ata_descriptor sense sb_len_wr (offset + (2 + unat desc_len)))
      else None)"
  by pat_completeness auto
termination
  by (relation "measure (\<lambda>(sense, n, offset). n - offset)") auto

declare ata_descriptor.simps [simp del]

end
