(* ===== verification/Storage_Linux.thy ===== *)
theory Storage_Linux
  imports Storage
begin

text \<open>
  The storage queries on Linux (\<open>detail/storage/linux.hpp\<close>) and their public functions (\<open>storage.hpp\<close>). The
  system is the record of file answers extended by the answers to \<open>lstat\<close>, to \<open>readlink\<close> for each buffer
  size, at the beginning and at the end of the walk over a drive's attributes, and to the device requests.
\<close>

section \<open>The system\<close>

record storage_host = host +
  sh_lstat :: "string \<Rightarrow> int option"
  sh_readlink :: "string \<Rightarrow> nat \<Rightarrow> int + string"
  sh_readlink_after :: "string \<Rightarrow> nat \<Rightarrow> int + string"
  sh_open :: "string \<Rightarrow> int option"
  sh_nvme :: "string \<Rightarrow> int \<times> int \<times> u8 list"
  sh_sg :: "string \<Rightarrow> int \<times> int \<times> linux_sg_io_hdr"

section \<open>Drives\<close>

text \<open>An attribute that may be missing: \<^const>\<open>None\<close> is \<open>exists == false\<close>.\<close>

type_synonym attribute_read = "string option"

definition is_missing :: "error_code \<Rightarrow> bool" where
  "is_missing e \<longleftrightarrow> e = errno_code ENOENT"

definition read_optional_file :: "storage_host \<Rightarrow> string \<Rightarrow> attribute_read result" where
  "read_optional_file host path =
     (case ho_read host path default_maximum_size of
        Unexpected e \<Rightarrow> if is_missing e then Value None else Unexpected e
      | Value content \<Rightarrow> Value (Some content))"

definition read_optional_attribute :: "storage_host \<Rightarrow> string \<Rightarrow> string \<Rightarrow> attribute_read result" where
  "read_optional_attribute host entry attribute =
     read_optional_file host (block_root @ entry @ ''/'' @ attribute)"

text \<open>What is done with a present attribute; an absent one changes nothing.\<close>

definition with_attribute :: "attribute_read result \<Rightarrow> (string \<Rightarrow> 'r \<Rightarrow> 'r result) \<Rightarrow> 'r \<Rightarrow> 'r result" where
  "with_attribute attribute f r =
     and_then attribute (\<lambda>content. case content of None \<Rightarrow> Value r | Some c \<Rightarrow> f c r)"

definition apply_text :: "(string \<Rightarrow> 'r \<Rightarrow> 'r) \<Rightarrow> string \<Rightarrow> 'r \<Rightarrow> 'r result" where
  "apply_text record_text content r =
     (let trimmed = trim_attribute content in Value (if trimmed = [] then r else record_text trimmed r))"

text \<open>
  The buffer of \<open>read_link_basename\<close> doubles from 256 bytes, at most to 8192. \<^const>\<open>None\<close> is a link that is
  not there (\<open>resolved == false\<close>).
\<close>

definition link_basename :: "string \<Rightarrow> string" where
  "link_basename target = (case rfind_char (CHR ''/'') target of None \<Rightarrow> target | Some base \<Rightarrow> drop (base + 1) target)"

function link_loop :: "(nat \<Rightarrow> int + string) \<Rightarrow> nat \<Rightarrow> string option result" where
  "link_loop readlink doublings =
     (let buffer_size = 256 * 2 ^ doublings;
          grow = (if buffer_size > 4096 then fail_errno EOVERFLOW else link_loop readlink (doublings + 1))
      in case readlink buffer_size of
           Inl e \<Rightarrow> if e = ENOENT then Value None else if e \<noteq> ERANGE then fail_errno e else grow
         | Inr target \<Rightarrow>
             let copied_text = take buffer_size target in
             if length copied_text < buffer_size then Value (Some (link_basename copied_text)) else grow)"
  by pat_completeness auto
termination
proof (relation "measure (\<lambda>(r, k). 5 - k)", goal_cases)
  case (2 r k n)
  have "k < 5"
  proof (rule ccontr)
    assume "\<not> k < 5"
    then have "(2::nat) ^ 5 \<le> 2 ^ k" by (intro power_increasing) simp_all
    then show False using 2 by simp
  qed
  then show ?case by simp
qed simp

declare link_loop.simps [simp del]

definition read_link_basename :: "(string \<Rightarrow> nat \<Rightarrow> int + string) \<Rightarrow> string \<Rightarrow> string option result" where
  "read_link_basename readlink path = link_loop (readlink path) 0"

definition drive_capacity :: "string \<Rightarrow> drive_record \<Rightarrow> drive_record result" where
  "drive_capacity content r =
     and_then (parse_number_u64 content) (\<lambda>sectors.
     and_then (capacity_in_bytes sectors) (\<lambda>bytes.
       Value (r\<lparr>dr_has_capacity_bytes := True, dr_capacity_bytes := bytes\<rparr>)))"

definition drive_logical :: "string \<Rightarrow> drive_record \<Rightarrow> drive_record result" where
  "drive_logical content r =
     and_then (parse_number_u32 content) (\<lambda>v.
       Value (r\<lparr>dr_has_logical_sector_size_bytes := True, dr_logical_sector_size_bytes := v\<rparr>))"

definition drive_physical :: "string \<Rightarrow> drive_record \<Rightarrow> drive_record result" where
  "drive_physical content r =
     and_then (parse_number_u32 content) (\<lambda>v.
       Value (r\<lparr>dr_has_physical_sector_size_bytes := True, dr_physical_sector_size_bytes := v\<rparr>))"

definition drive_rotational :: "string \<Rightarrow> drive_record \<Rightarrow> drive_record result" where
  "drive_rotational content r =
     and_then (parse_flag content) (\<lambda>v. Value (r\<lparr>dr_has_rotational := True, dr_rotational := v\<rparr>))"

definition drive_removable :: "string \<Rightarrow> drive_record \<Rightarrow> drive_record result" where
  "drive_removable content r = and_then (parse_flag content) (\<lambda>v. Value (r\<lparr>dr_removable := v\<rparr>))"

definition drive_attributes :: "storage_host \<Rightarrow> string \<Rightarrow> drive_record \<Rightarrow> drive_record result" where
  "drive_attributes host entry r0 =
     (let attribute = read_optional_attribute host entry in
      and_then (with_attribute (attribute ''size'') drive_capacity r0) (\<lambda>r1.
      and_then (with_attribute (attribute ''queue/logical_block_size'') drive_logical r1) (\<lambda>r2.
      and_then (with_attribute (attribute ''queue/physical_block_size'') drive_physical r2) (\<lambda>r3.
      and_then (with_attribute (attribute ''queue/rotational'') drive_rotational r3) (\<lambda>r4.
      and_then (with_attribute (attribute ''removable'') drive_removable r4) (\<lambda>r5.
      and_then (with_attribute (attribute ''device/vendor'')
          (apply_text (\<lambda>t r. r\<lparr>dr_has_vendor := True, dr_vendor := t\<rparr>)) r5) (\<lambda>r6.
      and_then (with_attribute (attribute ''device/model'')
          (apply_text (\<lambda>t r. r\<lparr>dr_has_model := True, dr_model := t\<rparr>)) r6)
        (with_attribute (attribute ''device/rev'')
          (apply_text (\<lambda>t r. r\<lparr>dr_has_firmware_revision := True, dr_firmware_revision := t\<rparr>))))))))))"

text \<open>\<^const>\<open>None\<close> is a snapshot that is not recorded.\<close>

definition collect_drive :: "storage_host \<Rightarrow> string \<Rightarrow> drive_record option result" where
  "collect_drive host entry =
     (let device_path = block_root @ entry @ ''/device'' in
      case sh_lstat host device_path of
        Some e \<Rightarrow> if e = ENOENT then Value None else fail_errno e
      | None \<Rightarrow>
          and_then (read_link_basename (sh_readlink host) (device_path @ ''/subsystem'')) (\<lambda>subsystem.
            case subsystem of
              None \<Rightarrow> Value None
            | Some name \<Rightarrow>
                and_then (drive_attributes host entry (new_drive entry (classify_subsystem name))) (\<lambda>r.
                and_then (read_link_basename (sh_readlink_after host) (device_path @ ''/subsystem'')) (\<lambda>final.
                  Value (if backing_subsystem_unchanged name final then Some r else None)))))"

text \<open>The loop over the directory skips hidden names and stops at the first error.\<close>

definition visible_entries :: "(string \<Rightarrow> 's \<Rightarrow> 's result) \<Rightarrow> directory_event list \<Rightarrow> 's \<Rightarrow> 's result" where
  "visible_entries visit es s = each_entry (\<lambda>name s. if hidden name then Value s else visit name s) es s"

definition walk_block_devices :: "storage_host \<Rightarrow> (string \<Rightarrow> 's \<Rightarrow> 's result) \<Rightarrow> 's \<Rightarrow> 's result" where
  "walk_block_devices host visit s =
     (case ho_opendir host block_root of
        Some e \<Rightarrow> if e = ENOENT then Value s else fail_errno e
      | None \<Rightarrow> visible_entries visit (ho_entries host block_root) s)"

definition record_drive :: "storage_host \<Rightarrow> string \<Rightarrow> drive_record list \<Rightarrow> drive_record list result" where
  "record_drive host name records =
     and_then (collect_drive host name) (\<lambda>snapshot.
       Value (case snapshot of None \<Rightarrow> records | Some r \<Rightarrow> records @ [r]))"

definition drives :: "storage_host \<Rightarrow> drive_record list result" where
  "drives host =
     and_then (walk_block_devices host (record_drive host) []) (\<lambda>records.
       Value (std_sort (\<lambda>a b. dr_identifier a < dr_identifier b) records))"

section \<open>Partitions\<close>

definition collect_mount_table :: "storage_host \<Rightarrow> mount_entry list result" where
  "collect_mount_table host =
     and_then (ho_read host ''/proc/self/mounts'' default_maximum_size) parse_mount_table"

definition partition_start :: "string \<Rightarrow> partition_record \<Rightarrow> partition_record result" where
  "partition_start content r =
     and_then (parse_number_u64 content) (\<lambda>sectors.
     and_then (capacity_in_bytes sectors) (\<lambda>bytes.
       Value (r\<lparr>pr_has_start_offset_bytes := True, pr_start_offset_bytes := bytes\<rparr>)))"

definition partition_size :: "string \<Rightarrow> partition_record \<Rightarrow> partition_record result" where
  "partition_size content r =
     and_then (parse_number_u64 content) (\<lambda>sectors.
     and_then (capacity_in_bytes sectors) (\<lambda>bytes.
       Value (r\<lparr>pr_has_size_bytes := True, pr_size_bytes := bytes\<rparr>)))"

definition partition_read_only :: "string \<Rightarrow> partition_record \<Rightarrow> partition_record result" where
  "partition_read_only content r =
     and_then (parse_flag content) (\<lambda>v. Value (r\<lparr>pr_is_read_only := v\<rparr>))"

definition uevent_line :: "string \<Rightarrow> partition_record \<Rightarrow> partition_record" where
  "uevent_line line r =
     (case find_from (CHR ''='') line 0 of
        None \<Rightarrow> r
      | Some eq \<Rightarrow>
          let key = take eq line; v = trim_attribute (drop (eq + 1) line) in
          if key = ''PARTNAME'' \<and> v \<noteq> [] then r\<lparr>pr_has_name := True, pr_name := v\<rparr>
          else if key = ''PARTUUID'' \<and> v \<noteq> [] then r\<lparr>pr_has_uuid := True, pr_uuid := v\<rparr>
          else r)"

definition partition_uevent :: "string \<Rightarrow> partition_record \<Rightarrow> partition_record result" where
  "partition_uevent content r = Value (fold uevent_line (lines_of content) r)"

definition partition_scheme_of :: "partition_record \<Rightarrow> partition_record" where
  "partition_scheme_of r =
     r\<lparr>pr_scheme := classify_partition_scheme (if pr_has_uuid r then pr_uuid r else [])\<rparr>"

text \<open>The first mount of the device.\<close>

definition partition_mount :: "mount_entry list \<Rightarrow> partition_record \<Rightarrow> partition_record" where
  "partition_mount mounts r =
     (case find (\<lambda>m. me_device_name m = pr_identifier r) mounts of
        None \<Rightarrow> r
      | Some m \<Rightarrow>
          let r = r\<lparr>pr_is_mounted := True, pr_mount_point := me_mount_point m\<rparr> in
          if me_fstype m \<noteq> [] then r\<lparr>pr_has_filesystem_type := True, pr_filesystem_type := me_fstype m\<rparr> else r)"

definition partition_attributes :: "storage_host \<Rightarrow> string \<Rightarrow> partition_record \<Rightarrow> partition_record result" where
  "partition_attributes host part_path r0 =
     (let file = (\<lambda>name. read_optional_file host (part_path @ name)) in
      and_then (with_attribute (file ''/start'') partition_start r0) (\<lambda>r1.
      and_then (with_attribute (file ''/size'') partition_size r1) (\<lambda>r2.
      and_then (with_attribute (file ''/ro'') partition_read_only r2)
        (with_attribute (file ''/uevent'') partition_uevent))))"

definition collect_partition ::
    "storage_host \<Rightarrow> string \<Rightarrow> string \<Rightarrow> mount_entry list \<Rightarrow> partition_record option result" where
  "collect_partition host disk_entry part_entry mounts =
     (let part_path = block_root @ disk_entry @ ''/'' @ part_entry in
      case ho_read host (part_path @ ''/partition'') default_maximum_size of
        Unexpected e \<Rightarrow> if is_missing e \<or> e = errno_code ENOTDIR then Value None else Unexpected e
      | Value partn_content \<Rightarrow>
          and_then (parse_number_u32 partn_content) (\<lambda>partn.
          and_then (partition_attributes host part_path (new_partition part_entry disk_entry partn)) (\<lambda>r.
            Value (Some (partition_mount mounts (partition_scheme_of r))))))"

definition record_partition ::
    "storage_host \<Rightarrow> string \<Rightarrow> mount_entry list \<Rightarrow> string \<Rightarrow> partition_record list \<Rightarrow> partition_record list result" where
  "record_partition host disk_name mounts name records =
     and_then (collect_partition host disk_name name mounts) (\<lambda>part.
       Value (case part of None \<Rightarrow> records | Some r \<Rightarrow> records @ [r]))"

definition record_disk ::
    "storage_host \<Rightarrow> mount_entry list \<Rightarrow> string \<Rightarrow> partition_record list \<Rightarrow> partition_record list result" where
  "record_disk host mounts disk_name records =
     and_then (collect_drive host disk_name) (\<lambda>drive.
       case drive of
         None \<Rightarrow> Value records
       | Some d \<Rightarrow>
           (case ho_opendir host (block_root @ disk_name) of
              Some e \<Rightarrow> if e = ENOENT then Value records else fail_errno e
            | None \<Rightarrow> visible_entries (record_partition host disk_name mounts)
                (ho_entries host (block_root @ disk_name)) records))"

definition partitions :: "storage_host \<Rightarrow> partition_record list result" where
  "partitions host =
     and_then (collect_mount_table host) (\<lambda>mounts.
     and_then (walk_block_devices host (record_disk host mounts) []) (\<lambda>records.
       Value (std_sort (\<lambda>a b. pr_identifier a < pr_identifier b) records)))"

section \<open>Health\<close>

text \<open>The first entry of the directory with a usable temperature, in thousandths of a degree.\<close>

fun hwmon_temperature :: "storage_host \<Rightarrow> string \<Rightarrow> directory_event list \<Rightarrow> int option" where
  "hwmon_temperature host dir [] = None"
| "hwmon_temperature host dir (Readdir_error e # es) = None"
| "hwmon_temperature host dir (Entry name # es) =
     (if hidden name then hwmon_temperature host dir es
      else (case and_then (ho_read host (dir @ ''/'' @ name @ ''/temp1_input'') default_maximum_size) parse_number_i64 of
          Unexpected e \<Rightarrow> hwmon_temperature host dir es
        | Value milli \<Rightarrow>
            if milli \<ge> - 50000 \<and> milli \<le> 150000 then Some milli else hwmon_temperature host dir es))"

definition read_linux_hwmon_temperature :: "storage_host \<Rightarrow> string \<Rightarrow> health_record \<Rightarrow> health_record" where
  "read_linux_hwmon_temperature host block_name r =
     (let dir = block_root @ block_name @ ''/device/hwmon'' in
      if ho_opendir host dir \<noteq> None then r
      else (case hwmon_temperature host dir (ho_entries host dir) of
          None \<Rightarrow> r
        | Some c \<Rightarrow> r\<lparr>hr_has_temperature_celsius := True, hr_temperature_celsius := c\<rparr>))"

text \<open>Opening the device node: \<^const>\<open>None\<close> is a node that is not there, on which both queries give up.\<close>

definition open_device :: "storage_host \<Rightarrow> string \<Rightarrow> unit option result" where
  "open_device host dev_path =
     (case sh_open host dev_path of
        None \<Rightarrow> Value (Some ())
      | Some e \<Rightarrow>
          if e = ENOENT \<or> e = ENODEV \<or> e = ENXIO then Value None
          else if e = EACCES \<or> e = EPERM then fail errc.permission_denied
          else fail_errno e)"

definition query_linux_nvme_smart :: "storage_host \<Rightarrow> string \<Rightarrow> health_record \<Rightarrow> health_record result" where
  "query_linux_nvme_smart host block_name r =
     (let dev_path = ''/dev/'' @ block_name in
      and_then (open_device host dev_path) (\<lambda>opened.
        if opened = None then Value r
        else (let (rc, system_errno, buffer) = sh_nvme host dev_path;
                  sys_errno = (if rc < 0 then system_errno else 0)
          in and_then (classify_linux_nvme_ioctl_status rc sys_errno) (\<lambda>u.
               if rc \<noteq> 0 then Value r else parse_nvme_smart_log_buffer buffer r))))"

text \<open>The descriptors are looked at only in descriptor-format sense data of a request that succeeded.\<close>

definition ata_registers :: "int \<Rightarrow> linux_sg_io_hdr \<Rightarrow> (u8 \<times> u8) option" where
  "ata_registers rc hdr =
     (case sg_sbp hdr of
        None \<Rightarrow> None
      | Some sense \<Rightarrow>
          if rc = 0 \<and> sg_sb_len_wr hdr \<ge> 14 \<and> (sense ! 0 = 0x72 \<or> sense ! 0 = 0x73)
          then ata_descriptor sense (unat (sg_sb_len_wr hdr)) 8 else None)"

definition query_linux_scsi_smart :: "storage_host \<Rightarrow> string \<Rightarrow> health_record \<Rightarrow> health_record result" where
  "query_linux_scsi_smart host block_name r =
     (let dev_path = ''/dev/'' @ block_name in
      and_then (open_device host dev_path) (\<lambda>opened.
        if opened = None then Value r
        else (let (rc, system_errno, hdr) = sh_sg host dev_path;
                  sys_errno = (if rc < 0 then system_errno else 0);
                  registers = ata_registers rc hdr
          in and_then (classify_linux_scsi_ioctl_status rc sys_errno hdr (registers \<noteq> None)) (\<lambda>u.
               case registers of
                 None \<Rightarrow> Value r
               | Some (lba_mid, lba_high) \<Rightarrow> parse_ata_smart_status_values lba_mid lba_high r))))"

definition subsystem_health :: "storage_host \<Rightarrow> string \<Rightarrow> string option \<Rightarrow> health_record \<Rightarrow> health_record result" where
  "subsystem_health host entry subsystem r =
     (if subsystem = Some ''nvme'' then query_linux_nvme_smart host entry r
      else if subsystem = Some ''scsi'' then query_linux_scsi_smart host entry r
      else Value r)"

definition collect_drive_health :: "storage_host \<Rightarrow> string \<Rightarrow> health_record result" where
  "collect_drive_health host entry =
     (let block_path = block_root @ entry; device_path = block_path @ ''/device'' in
      case sh_lstat host device_path of
        Some e \<Rightarrow> if e = ENOENT then fail errc.not_found else fail_errno e
      | None \<Rightarrow>
          (case sh_lstat host (block_path @ ''/partition'') of
             None \<Rightarrow> fail errc.not_found
           | Some e \<Rightarrow>
               if e \<noteq> ENOENT then fail_errno e
               else and_then (read_link_basename (sh_readlink host) (device_path @ ''/subsystem'')) (\<lambda>subsystem.
                 and_then (subsystem_health host entry subsystem (new_health entry)) (\<lambda>r.
                   Value (if \<not> hr_has_temperature_celsius r then read_linux_hwmon_temperature host entry r
                          else r)))))"

definition health :: "storage_host \<Rightarrow> string \<Rightarrow> health_record result" where
  "health host disk_identifier =
     (if \<not> is_valid_disk_identifier disk_identifier then fail errc.invalid_argument
      else collect_drive_health host disk_identifier)"

definition record_health :: "storage_host \<Rightarrow> string \<Rightarrow> health_record list \<Rightarrow> health_record list result" where
  "record_health host disk_name records =
     and_then (collect_drive host disk_name) (\<lambda>drive.
       case drive of
         None \<Rightarrow> Value records
       | Some d \<Rightarrow> and_then (collect_drive_health host disk_name) (\<lambda>h. Value (records @ [h])))"

definition all_drive_health :: "storage_host \<Rightarrow> health_record list result" where
  "all_drive_health host =
     and_then (walk_block_devices host (record_health host) []) (\<lambda>records.
       Value (std_sort (\<lambda>a b. hr_identifier a < hr_identifier b) records))"

section \<open>The public entries and queries\<close>

record drive_entry =
  de_identifier :: string
  de_has_vendor :: bool
  de_vendor :: string
  de_has_model :: bool
  de_model :: string
  de_has_firmware_revision :: bool
  de_firmware_revision :: string
  de_bus :: bus_type
  de_has_capacity_bytes :: bool
  de_capacity_bytes :: u64
  de_has_logical_sector_size_bytes :: bool
  de_logical_sector_size_bytes :: u32
  de_has_physical_sector_size_bytes :: bool
  de_physical_sector_size_bytes :: u32
  de_has_rotational :: bool
  de_rotational :: bool
  de_removable :: bool

record partition_entry =
  pe_identifier :: string
  pe_disk_identifier :: string
  pe_partition_number :: u32
  pe_has_start_offset_bytes :: bool
  pe_start_offset_bytes :: u64
  pe_has_size_bytes :: bool
  pe_size_bytes :: u64
  pe_scheme :: partition_scheme
  pe_has_type_identifier :: bool
  pe_type_identifier :: string
  pe_has_name :: bool
  pe_name :: string
  pe_has_uuid :: bool
  pe_uuid :: string
  pe_has_filesystem_type :: bool
  pe_filesystem_type :: string
  pe_is_read_only :: bool
  pe_is_bootable :: bool
  pe_is_mounted :: bool
  pe_mount_point :: string

record drive_health =
  dv_identifier :: string
  dv_status :: drive_health_status
  dv_has_failure_predicted :: bool
  dv_failure_predicted :: bool
  dv_has_temperature_celsius :: bool
  dv_temperature_celsius :: int
  dv_has_percent_used :: bool
  dv_percent_used :: u32
  dv_has_available_spare_percent :: bool
  dv_available_spare_percent :: u32
  dv_has_power_on_hours :: bool
  dv_power_on_hours :: u64
  dv_has_power_cycles :: bool
  dv_power_cycles :: u64
  dv_has_unsafe_shutdowns :: bool
  dv_unsafe_shutdowns :: u64
  dv_has_media_errors :: bool
  dv_media_errors :: u64
  dv_has_data_units_read_bytes :: bool
  dv_data_units_read_bytes :: u64
  dv_has_data_units_written_bytes :: bool
  dv_data_units_written_bytes :: u64

definition public_drive :: "drive_record \<Rightarrow> drive_entry" where
  "public_drive record0 = \<lparr>
     de_identifier = dr_identifier record0, de_has_vendor = dr_has_vendor record0,
     de_vendor = dr_vendor record0, de_has_model = dr_has_model record0, de_model = dr_model record0,
     de_has_firmware_revision = dr_has_firmware_revision record0,
     de_firmware_revision = dr_firmware_revision record0, de_bus = dr_bus record0,
     de_has_capacity_bytes = dr_has_capacity_bytes record0,
     de_capacity_bytes = dr_capacity_bytes record0,
     de_has_logical_sector_size_bytes = dr_has_logical_sector_size_bytes record0,
     de_logical_sector_size_bytes = dr_logical_sector_size_bytes record0,
     de_has_physical_sector_size_bytes = dr_has_physical_sector_size_bytes record0,
     de_physical_sector_size_bytes = dr_physical_sector_size_bytes record0,
     de_has_rotational = dr_has_rotational record0, de_rotational = dr_rotational record0,
     de_removable = dr_removable record0\<rparr>"

definition public_partition :: "partition_record \<Rightarrow> partition_entry" where
  "public_partition record0 = \<lparr>
     pe_identifier = pr_identifier record0, pe_disk_identifier = pr_disk_identifier record0,
     pe_partition_number = pr_partition_number record0,
     pe_has_start_offset_bytes = pr_has_start_offset_bytes record0,
     pe_start_offset_bytes = pr_start_offset_bytes record0,
     pe_has_size_bytes = pr_has_size_bytes record0, pe_size_bytes = pr_size_bytes record0,
     pe_scheme = pr_scheme record0, pe_has_type_identifier = pr_has_type_identifier record0,
     pe_type_identifier = pr_type_identifier record0, pe_has_name = pr_has_name record0,
     pe_name = pr_name record0, pe_has_uuid = pr_has_uuid record0, pe_uuid = pr_uuid record0,
     pe_has_filesystem_type = pr_has_filesystem_type record0,
     pe_filesystem_type = pr_filesystem_type record0, pe_is_read_only = pr_is_read_only record0,
     pe_is_bootable = pr_is_bootable record0, pe_is_mounted = pr_is_mounted record0,
     pe_mount_point = pr_mount_point record0\<rparr>"

definition public_health :: "health_record \<Rightarrow> drive_health" where
  "public_health record0 = \<lparr>
     dv_identifier = hr_identifier record0, dv_status = hr_status record0,
     dv_has_failure_predicted = hr_has_failure_predicted record0,
     dv_failure_predicted = hr_failure_predicted record0,
     dv_has_temperature_celsius = hr_has_temperature_celsius record0,
     dv_temperature_celsius = hr_temperature_celsius record0,
     dv_has_percent_used = hr_has_percent_used record0, dv_percent_used = hr_percent_used record0,
     dv_has_available_spare_percent = hr_has_available_spare_percent record0,
     dv_available_spare_percent = hr_available_spare_percent record0,
     dv_has_power_on_hours = hr_has_power_on_hours record0,
     dv_power_on_hours = hr_power_on_hours record0, dv_has_power_cycles = hr_has_power_cycles record0,
     dv_power_cycles = hr_power_cycles record0,
     dv_has_unsafe_shutdowns = hr_has_unsafe_shutdowns record0,
     dv_unsafe_shutdowns = hr_unsafe_shutdowns record0,
     dv_has_media_errors = hr_has_media_errors record0, dv_media_errors = hr_media_errors record0,
     dv_has_data_units_read_bytes = hr_has_data_units_read_bytes record0,
     dv_data_units_read_bytes = hr_data_units_read_bytes record0,
     dv_has_data_units_written_bytes = hr_has_data_units_written_bytes record0,
     dv_data_units_written_bytes = hr_data_units_written_bytes record0\<rparr>"

text \<open>The identifier a caller passes, in the order of its checks.\<close>

definition check_disk_identifier :: "string \<Rightarrow> unit result" where
  "check_disk_identifier disk_identifier =
     (if disk_identifier = [] then fail errc.invalid_argument
      else if \<not> is_valid_utf8 disk_identifier then fail errc.invalid_encoding
      else if nul \<in> set disk_identifier \<or> CHR ''/'' \<in> set disk_identifier \<or> backslash \<in> set disk_identifier \<or>
              disk_identifier = ''.'' \<or> disk_identifier = ''..''
      then fail errc.invalid_argument
      else Value ())"

definition public_drives :: "storage_host \<Rightarrow> drive_entry list result" where
  "public_drives host =
     and_then (validate_drive_records (drives host)) (\<lambda>records. Value (map public_drive records))"

definition public_partitions :: "storage_host \<Rightarrow> partition_entry list result" where
  "public_partitions host =
     and_then (validate_partition_records (partitions host)) (\<lambda>records. Value (map public_partition records))"

definition disk_partitions :: "storage_host \<Rightarrow> string \<Rightarrow> partition_entry list result" where
  "disk_partitions host disk_identifier =
     and_then (check_disk_identifier disk_identifier) (\<lambda>u.
     and_then (public_partitions host) (\<lambda>all_entries.
       Value (filter (\<lambda>entry. pe_disk_identifier entry = disk_identifier) all_entries)))"

definition public_drive_health :: "storage_host \<Rightarrow> string \<Rightarrow> drive_health result" where
  "public_drive_health host disk_identifier =
     and_then (check_disk_identifier disk_identifier) (\<lambda>u.
     and_then (validate_health_record (health host disk_identifier)) (\<lambda>r. Value (public_health r)))"

definition public_all_drive_health :: "storage_host \<Rightarrow> drive_health list result" where
  "public_all_drive_health host =
     and_then (validate_health_records (all_drive_health host)) (\<lambda>records. Value (map public_health records))"

end
