(* ===== verification/Storage_Correct.thy ===== *)
theory Storage_Correct
  imports Virtualization_Correct Storage_Linux
begin

text \<open>
  What the storage queries promise: mount tables read back exactly or refused as stated, and the decoders of
  mount fields in the program agree where this one accepts; an NVMe health log is the little-endian values
  it holds or is refused; no byte of the sense buffer beyond what the device wrote is looked at; every partition
  belongs to a recorded drive and passes the structural checks of the boundary.
\<close>

unbundle bit_operations_syntax

section \<open>Mount fields\<close>

definition mount_special :: "char \<Rightarrow> bool" where
  "mount_special c \<longleftrightarrow> c \<in> {CHR '' '', tab, newline, backslash}"

lemma decode_special:
  assumes "mount_special c"
  shows "\<exists>x y z. mangle_char c = [backslash, x, y, z] \<and> decode_mount_escape (x # y # z # s) = Value c"
proof -
  have "decode_mount_escape (tl (mangle_char c) @ s) = Value c"
    using assms by (auto simp: mount_special_def mangle_char_def octal_char_def decode_mount_escape_def
        octal_digit_value_def Let_def)
  then show ?thesis by (simp add: mangle_char_def)
qed

lemma decode_mount_field_mangle: "decode_mount_field (mangle mount_special s) = Value s"
proof (induction s)
  case (Cons c s)
  show ?case
  proof (cases "mount_special c")
    case True
    obtain x y z where "mangle_char c = [backslash, x, y, z]"
      "decode_mount_escape (x # y # z # mangle mount_special s) = Value c"
      using decode_special [OF True] by blast
    then show ?thesis using True Cons by (simp add: mangle_def)
  next
    case False
    then have "c \<noteq> backslash" by (simp add: mount_special_def)
    then show ?thesis using False Cons by (simp add: mangle_def)
  qed
qed (simp add: mangle_def)

lemma decode_mount_escape_octal:
  assumes "decode_mount_escape cs = Value d"
  obtains a b c rest where "cs = a # b # c # rest" "is_octal a" "is_octal b" "is_octal c"
    "uchar d = (uchar a - 48) * 64 + ((uchar b - 48) * 8 + (uchar c - 48))"
proof -
  obtain a b c rest where cs: "cs = a # b # c # rest"
    using assms by (auto simp: decode_mount_escape_def split: list.splits)
  have o: "is_octal a" "is_octal b" "is_octal c"
    using assms cs by (auto simp: decode_mount_escape_def octal_digit_value_def is_octal_def Let_def split: if_splits)
  then have v: "octal_digit_value a = int (uchar a - 48)" "octal_digit_value b = int (uchar b - 48)"
    "octal_digit_value c = int (uchar c - 48)"
    by (auto simp: octal_digit_value_def is_octal_def)
  have "int (uchar d) = octal_digit_value a * 64 + octal_digit_value b * 8 + octal_digit_value c"
    using assms cs by (auto simp: decode_mount_escape_def Let_def split: if_splits)
  then have "uchar d = (uchar a - 48) * 64 + ((uchar b - 48) * 8 + (uchar c - 48))"
    unfolding v by linarith
  then show thesis using that cs o by blast
qed

lemma unat_octal: "is_octal c \<Longrightarrow> unat (octal_u32 c) = uchar c - 48 \<and> unat (octal_u32 c) < 8"
proof -
  assume "is_octal c"
  then have "uchar c - 48 < 8" by (auto simp: is_octal_def)
  then show ?thesis
    unfolding octal_u32_def by (simp add: unat_of_nat take_bit_nat_eq_self del: of_nat_diff)
qed

lemma decoders_agree: "decode_mount_field s = Value t \<Longrightarrow> unescape_mountinfo_path s = t"
proof (induction s arbitrary: t rule: decode_mount_field.induct)
  case (2 c cs)
  show ?case
  proof (cases "c = backslash")
    case False
    then show ?thesis using 2 by (auto simp: and_then_Value_iff unescape_plain)
  next
    case True
    then obtain d u where d: "decode_mount_escape cs = Value d" "decode_mount_field (drop 3 cs) = Value u" "t = d # u"
      using "2.prems" by (auto simp: and_then_Value_iff)
    obtain x y z rest where cs: "cs = x # y # z # rest" "is_octal x" "is_octal y" "is_octal z"
      "uchar d = (uchar x - 48) * 64 + ((uchar y - 48) * 8 + (uchar z - 48))"
      using decode_mount_escape_octal [OF d(1)] by metis
    have "unat (push_bit 6 (octal_u32 x) OR push_bit 3 (octal_u32 y) OR octal_u32 z) = uchar d"
      using cs(5) unat_octal [OF cs(2)] unat_octal [OF cs(3)] unat_octal [OF cs(4)]
      by (subst unat_octal_join) simp_all
    then have "to_char (push_bit 6 (octal_u32 x) OR push_bit 3 (octal_u32 y) OR octal_u32 z) = d"
      by (simp add: to_char_def)
    moreover have "unescape_mountinfo_path rest = u" using "2.IH"(2) [OF _ d(2)] True cs(1) by simp
    ultimately show ?thesis using True cs d(3) by simp
  qed
qed simp

lemma decode_mount_escape_error: "decode_mount_escape s = Unexpected e \<Longrightarrow> e = make_error_code errc.malformed_data"
  by (auto simp: decode_mount_escape_def Let_def fail_def split: list.splits if_splits)

lemma decode_mount_field_error: "decode_mount_field s = Unexpected e \<Longrightarrow> e = make_error_code errc.malformed_data"
proof (induction s arbitrary: e rule: decode_mount_field.induct)
  case (2 c cs)
  show ?case
  proof (cases "c = backslash")
    case False
    then show ?thesis using 2 by (cases "decode_mount_field cs") auto
  next
    case True
    show ?thesis
    proof (cases "decode_mount_escape cs")
      case (Value d)
      then show ?thesis using 2 True by (cases "decode_mount_field (drop 3 cs)") auto
    next
      case (Unexpected e')
      then show ?thesis using "2.prems" True decode_mount_escape_error by simp
    qed
  qed
qed simp

text \<open>
  C34. The decoders of mount fields agree: a field this module decodes is decoded to the same text by the
  virtualization module, which accepts every octal escape where this one refuses all but the four of the
  mount table.
\<close>

theorem storage_mount_decoder_agrees:
  "case decode_mount_field s of
     Value t \<Rightarrow> unescape_mountinfo_path s = t
   | Unexpected e \<Rightarrow> e = make_error_code errc.malformed_data"
  by (cases "decode_mount_field s") (simp_all add: decoders_agree decode_mount_field_error)

section \<open>Mount tables\<close>

text \<open>
  A mount as the kernel knows it, and the line it writes for it: four fields and two zeros. Blanks, line
  breaks and backslashes are escaped in the first three fields; kernels of \<open>hash\<close> escape \<open>#\<close> as well, in the
  source and the type. The options are the text of the file system, which leaves no blank in it.
\<close>

record mount_row =
  mr_source :: string
  mr_target :: string
  mr_fstype :: string
  mr_options :: string

definition row_ok :: "mount_row \<Rightarrow> bool" where
  "row_ok m \<longleftrightarrow> mr_target m \<noteq> [] \<and> mr_fstype m \<noteq> [] \<and> mr_options m \<noteq> [] \<and>
     list_all (\<lambda>c. \<not> mount_blank c \<and> c \<noteq> newline) (mr_options m)"

definition source_special :: "bool \<Rightarrow> char \<Rightarrow> bool" where
  "source_special hash c \<longleftrightarrow> mount_special c \<or> hash \<and> c = CHR ''#''"

definition row_line :: "bool \<Rightarrow> mount_row \<Rightarrow> string" where
  "row_line hash m = mangle (source_special hash) (mr_source m) @ CHR '' '' # mangle mount_special (mr_target m) @
     CHR '' '' # mangle (source_special hash) (mr_fstype m) @ CHR '' '' # mr_options m @ '' 0 0''"

text \<open>The entry of a mount: mounts of something below \<open>/dev/\<close> have one, all others none.\<close>

definition names_device :: "mount_row \<Rightarrow> bool" where
  "names_device m \<longleftrightarrow> has_prefix ''/dev/'' (mr_source m) \<and> 5 < length (mr_source m)"

definition row_entry :: "mount_row \<Rightarrow> mount_entry option" where
  "row_entry m = (if names_device m
     then Some \<lparr>me_device_name = drop 5 (mr_source m), me_mount_point = mr_target m, me_fstype = mr_fstype m\<rparr>
     else None)"

text \<open>
  The lines the parser refuses: those without a source, which have five fields, and those of devices with
  an escaped \<open>#\<close>.
\<close>

definition row_refused :: "bool \<Rightarrow> mount_row \<Rightarrow> bool" where
  "row_refused hash m \<longleftrightarrow> mr_source m = [] \<or>
     names_device m \<and> hash \<and> (CHR ''#'' \<in> set (mr_source m) \<or> CHR ''#'' \<in> set (mr_fstype m))"

lemma octal_not_blank: "is_octal c \<Longrightarrow> \<not> mount_blank c \<and> c \<noteq> newline"
  by (auto simp: is_octal_def mount_blank_def)

lemma mangle_Cons: "mangle P (c # s) = (if P c then mangle_char c else [c]) @ mangle P s"
  by (simp add: mangle_def)

lemma mangle_empty [simp]: "mangle P s = [] \<longleftrightarrow> s = []"
  by (cases s) (simp_all add: mangle_Cons mangle_char_def, simp add: mangle_def)

lemma mangle_Nil [simp]: "mangle P [] = []"
  by (simp add: mangle_def)

lemma mangle_free:
  assumes "\<And>c. mount_special c \<Longrightarrow> P c"
  shows "list_all (\<lambda>c. \<not> mount_blank c \<and> c \<noteq> newline) (mangle P s)"
proof (induction s)
  case (Cons c s)
  have "list_all (\<lambda>c. \<not> mount_blank c \<and> c \<noteq> newline) (mangle_char c)"
    using octal_not_blank [OF octal_char_props(1)] by (simp add: mangle_char_def mount_blank_def)
  then show ?case using Cons assms [of c] by (auto simp: mangle_Cons mount_special_def mount_blank_def)
qed (simp add: mangle_def)

lemma mangle_words:
  "list_all (\<lambda>c. \<not> mount_blank c) (mangle mount_special s)" "newline \<notin> set (mangle mount_special s)"
  "list_all (\<lambda>c. \<not> mount_blank c) (mangle (source_special hash) s)"
  "newline \<notin> set (mangle (source_special hash) s)"
  using mangle_free [of mount_special s] mangle_free [of "source_special hash" s]
  unfolding list_all_iff source_special_def by blast+

text \<open>Escaping does not touch a prefix of plain characters, and makes none.\<close>

lemma mangle_prefix:
  "list_all (\<lambda>c. \<not> P c \<and> c \<noteq> backslash) p \<Longrightarrow> has_prefix p (mangle P s) \<longleftrightarrow> has_prefix p s"
proof (induction p arbitrary: s)
  case (Cons c p)
  then show ?case by (cases s) (auto simp: has_prefix_def mangle_Cons mangle_char_def mangle_def)
qed (simp add: has_prefix_def)

lemma device_prefix: "has_prefix ''/dev/'' (mangle (source_special hash) s) \<longleftrightarrow> has_prefix ''/dev/'' s"
  by (rule mangle_prefix) (simp add: source_special_def mount_special_def)

lemma device_name: "has_prefix ''/dev/'' s \<Longrightarrow> s = ''/dev/'' @ drop 5 s"
  using append_take_drop_id [of "length ''/dev/''" s] by (simp add: has_prefix_def eval_nat_numeral)

lemma device_split:
  assumes "has_prefix ''/dev/'' s"
  shows "mangle (source_special hash) s = ''/dev/'' @ mangle (source_special hash) (drop 5 s)"
  by (subst device_name [OF assms]) (simp add: mangle_Cons source_special_def mount_special_def)

lemma decode_hash: "decode_mount_field (mangle_char (CHR ''#'') @ s) = fail errc.malformed_data"
  by (simp add: mangle_char_def octal_char_def decode_mount_escape_def octal_digit_value_def Let_def)

lemma decode_mount_field_source:
  "decode_mount_field (mangle (source_special hash) s) =
     (if hash \<and> CHR ''#'' \<in> set s then fail errc.malformed_data else Value s)"
proof (induction s)
  case (Cons c s)
  consider "mount_special c" | "hash" "c = CHR ''#''" | "\<not> source_special hash c" "\<not> mount_special c"
    by (auto simp: source_special_def)
  then show ?case
  proof cases
    case 1
    obtain x y z where "mangle_char c = [backslash, x, y, z]"
      "decode_mount_escape (x # y # z # mangle (source_special hash) s) = Value c"
      using decode_special [OF 1] by blast
    moreover have "c \<noteq> CHR ''#''" "source_special hash c" using 1 by (auto simp: mount_special_def source_special_def)
    ultimately show ?thesis using Cons by (simp add: mangle_Cons)
  next
    case 2
    then show ?thesis by (simp add: mangle_Cons source_special_def decode_hash)
  next
    case 3
    then have "c \<noteq> backslash" "\<not> (hash \<and> c = CHR ''#'')" by (auto simp: source_special_def mount_special_def)
    then show ?thesis using 3 Cons by (auto simp: mangle_Cons)
  qed
qed (simp add: mangle_def)

lemma zeros_tokens: "tokens_of mount_blank '' 0 0'' = [''0'', ''0'']"
proof -
  have "tokens_of mount_blank (''0'' @ '' 0'') = ''0'' # tokens_of mount_blank '' 0''"
    by (rule tokens_of_word) (simp_all add: mount_blank_def)
  moreover have "tokens_of mount_blank (''0'' @ []) = [''0'']"
    by (subst tokens_of_word) (simp_all add: mount_blank_def)
  ultimately show ?thesis by (simp add: mount_blank_def)
qed

lemma word_then_blank:
  "w \<noteq> [] \<Longrightarrow> list_all (\<lambda>c. \<not> mount_blank c) w \<Longrightarrow>
   tokens_of mount_blank (w @ CHR '' '' # s) = w # tokens_of mount_blank s"
  by (subst tokens_of_word) (simp_all add: mount_blank_def)

lemma row_tokens:
  assumes "row_ok m"
  shows "tokens_of mount_blank (row_line hash m) =
    (if mr_source m = [] then [] else [mangle (source_special hash) (mr_source m)]) @
    [mangle mount_special (mr_target m), mangle (source_special hash) (mr_fstype m), mr_options m, ''0'', ''0'']"
proof -
  have "list_all (\<lambda>c. \<not> mount_blank c) (mr_options m)"
    using assms by (auto simp: row_ok_def list_all_iff)
  then have "tokens_of mount_blank (mr_options m @ '' 0 0'') = [mr_options m, ''0'', ''0'']"
    using assms zeros_tokens by (subst tokens_of_word) (simp_all add: row_ok_def mount_blank_def)
  moreover have "tokens_of mount_blank (CHR '' '' # s) = tokens_of mount_blank s" for s
    by (simp add: mount_blank_def)
  ultimately show ?thesis
    using assms by (auto simp: row_line_def row_ok_def word_then_blank mangle_words)
qed

lemma parse_row:
  assumes "row_ok m"
  shows "parse_mount_line (row_line hash m) =
    (if row_refused hash m then fail errc.malformed_data else Value (row_entry m))"
proof -
  have "row_line hash m \<noteq> []" by (simp add: row_line_def)
  moreover have "CHR ''#'' \<in> set (drop 5 (mr_source m)) \<longleftrightarrow> CHR ''#'' \<in> set (mr_source m)" if "names_device m"
    using that by (subst (2) device_name) (simp_all add: names_device_def)
  ultimately show ?thesis
    using assms device_prefix [of hash "mr_source m"] device_split [of "mr_source m" hash]
    by (auto simp: parse_mount_line_def row_tokens row_ok_def row_refused_def row_entry_def names_device_def
        decode_mount_field_mangle decode_mount_field_source)
qed

lemma row_newline: "row_ok m \<Longrightarrow> newline \<notin> set (row_line hash m)"
  using mangle_words(2,4) by (auto simp: row_line_def row_ok_def list_all_iff)

lemma mount_lines_rows:
  "list_all row_ok rows \<Longrightarrow> mount_lines (map (row_line hash) rows) =
     (if list_ex (row_refused hash) rows then fail errc.malformed_data else Value (List.map_filter row_entry rows))"
  by (induction rows) (auto simp: parse_row map_filter_simps split: option.split)

text \<open>
  C33. The mount table round trip, for every table the kernel can list: sources of any kind (devices,
  shares, paths, plain names), any options, and blanks, line breaks and backslashes escaped in the fields.
  \<open>parse_mount_table\<close> returns the mounts of devices below \<open>/dev/\<close>, these and no others, in order with their
  names, mount points and file systems; the whole table is refused as malformed exactly when a mount has an
  empty source, or when the kernel escapes \<open>#\<close> and the source or type of a mounted device contains it.
\<close>

theorem mount_table_roundtrip:
  assumes "list_all row_ok rows"
  shows "parse_mount_table (concat (map (\<lambda>m. row_line hash m @ [newline]) rows)) =
    (if list_ex (row_refused hash) rows then fail errc.malformed_data
     else Value (List.map_filter row_entry rows))"
proof -
  have "lines_of (concat (map (\<lambda>m. row_line hash m @ [newline]) rows)) = map (row_line hash) rows"
    using lines_of_unlines [of "map (row_line hash) rows"] assms row_newline
    by (simp add: list_all_iff comp_def)
  then show ?thesis using mount_lines_rows [OF assms] by (simp add: parse_mount_table_def)
qed

text \<open>A device on a path with a blank, a share, and a device whose name has a \<open>#\<close>.\<close>

definition example_rows :: "mount_row list" where
  "example_rows =
    [\<lparr>mr_source = ''/dev/sda1'', mr_target = ''/a b'', mr_fstype = ''ext4'', mr_options = ''rw''\<rparr>,
     \<lparr>mr_source = ''//server/dev/share'', mr_target = ''/net'', mr_fstype = ''cifs'', mr_options = ''rw''\<rparr>,
     \<lparr>mr_source = ''/dev/b#1'', mr_target = ''/b'', mr_fstype = ''xfs'', mr_options = ''ro''\<rparr>]"

theorem mount_table_roundtrip_witness:
  "list_all row_ok example_rows \<and>
   parse_mount_table (concat (map (\<lambda>m. row_line False m @ [newline]) example_rows)) =
     Value [\<lparr>me_device_name = ''sda1'', me_mount_point = ''/a b'', me_fstype = ''ext4''\<rparr>,
       \<lparr>me_device_name = ''b#1'', me_mount_point = ''/b'', me_fstype = ''xfs''\<rparr>] \<and>
   parse_mount_table (concat (map (\<lambda>m. row_line True m @ [newline]) example_rows)) = fail errc.malformed_data"
proof -
  have ok: "list_all row_ok example_rows" by (simp add: row_ok_def example_rows_def mount_blank_def)
  show ?thesis
    using ok mount_table_roundtrip [OF ok, of False] mount_table_roundtrip [OF ok, of True]
    by (simp add: example_rows_def map_filter_simps row_refused_def row_entry_def names_device_def has_prefix_def)
qed

section \<open>Health logs\<close>

text \<open>The little-endian number in \<open>n\<close> bytes of a buffer.\<close>

definition le_value :: "u8 list \<Rightarrow> nat \<Rightarrow> nat \<Rightarrow> nat" where
  "le_value buf offset n = (\<Sum>i<n. unat (buf ! (offset + i)) * 256 ^ i)"

lemma le_value_Suc: "le_value buf offset (Suc n) = le_value buf offset n + unat (buf ! (offset + n)) * 256 ^ n"
  by (simp add: le_value_def)

lemma le_value_less: "le_value buf offset n < 256 ^ n"
proof (induction n)
  case (Suc n)
  have "unat (buf ! (offset + n)) \<le> 255" using unsigned_less [of "buf ! (offset + n)", where ?'a = nat] by simp
  then have "unat (buf ! (offset + n)) * 256 ^ n \<le> 255 * 256 ^ n" by (rule mult_le_mono1)
  moreover have "(256::nat) ^ Suc n = 256 ^ n + 255 * 256 ^ n" by simp
  ultimately show ?case using Suc unfolding le_value_Suc by linarith
qed (simp add: le_value_def)

lemma le_value_append: "le_value buf offset (n + m) = le_value buf offset n + 256 ^ n * le_value buf (offset + n) m"
  by (induction m) (simp_all add: le_value_Suc le_value_def [of _ _ 0] power_add algebra_simps)

lemma le_fold:
  "k \<le> 8 \<Longrightarrow> unat (foldl (\<lambda>low i. low OR push_bit (i * 8) (ucast (buf ! (offset + i)))) (0 :: u64) [0..<k]) =
     le_value buf offset k"
proof (induction k)
  case (Suc k)
  let ?b = "ucast (buf ! (offset + k)) :: u64"
  and ?low = "foldl (\<lambda>low i. low OR push_bit (i * 8) (ucast (buf ! (offset + i)))) (0 :: u64) [0..<k]"
  have low: "unat ?low = le_value buf offset k" using Suc by simp
  have e: "(256::nat) ^ k = 2 ^ (k * 8)" using power_mult [of "2::nat" 8 k] by (simp add: mult.commute)
  have b: "unat ?b = unat (buf ! (offset + k))" by (simp add: unat_ucast_up)
  have "unat ?b * 2 ^ (k * 8) < 2 ^ 8 * 2 ^ (k * 8)"
    using unsigned_less [of "buf ! (offset + k)", where ?'a = nat] by (simp add: b)
  also have "(2::nat) ^ 8 * 2 ^ (k * 8) \<le> 2 ^ 64"
    using Suc.prems by (simp only: power_add [symmetric]) (rule power_increasing, simp_all)
  finally have fits: "unat ?b * 2 ^ (k * 8) < 2 ^ LENGTH(64)" by simp
  have "unat (push_bit (k * 8) ?b OR ?low) = unat ?b * 2 ^ (k * 8) + unat ?low"
    by (rule unat_shift_or [OF _ fits]) (use le_value_less [of buf offset k] low e in simp)
  then show ?case by (simp add: le_value_Suc low b e or.commute)
qed (simp add: le_value_def)

lemma read_u128_le_value:
  "read_u128_le buf offset = (low, high) \<Longrightarrow>
     unat low = le_value buf offset 8 \<and> unat high = le_value buf (offset + 8) 8"
  using le_fold [of 8 buf offset] le_fold [of 8 buf "offset + 8"]
  by (auto simp: read_u128_le_def add.assoc)

lemma le_16: "le_value buf offset 16 = le_value buf offset 8 + 2 ^ 64 * le_value buf (offset + 8) 8"
  using le_value_append [of buf offset 8 8] by simp

lemma nvme_count_exact:
  "nvme_count buf offset =
     (if le_value buf offset 16 \<ge> 2 ^ 64 then fail errc.value_too_large
      else Value (of_nat (le_value buf offset 16)))"
proof -
  obtain low high where p: "read_u128_le buf offset = (low, high)" by (rule prod.exhaust)
  note v = read_u128_le_value [OF p]
  have "high \<noteq> 0 \<longleftrightarrow> le_value buf offset 16 \<ge> 2 ^ 64"
    using v le_value_less [of buf offset 8] unat_eq_zero [of high] unfolding le_16 by (cases "unat high") auto
  moreover have "high = 0 \<Longrightarrow> low = of_nat (le_value buf offset 16)"
    using v of_nat_u64 [of "unat low"] le_value_less [of buf offset 8] unfolding le_16 by (simp add: word_unat_eq_iff)
  ultimately show ?thesis unfolding nvme_count_def p by (cases "high = 0") simp_all
qed

lemma nvme_units_exact:
  "nvme_units buf offset =
     (if le_value buf offset 16 * 512000 \<ge> 2 ^ 64 then fail errc.value_too_large
      else Value (of_nat (le_value buf offset 16 * 512000)))"
proof -
  obtain low high where p: "read_u128_le buf offset = (low, high)" by (rule prod.exhaust)
  note v = read_u128_le_value [OF p]
  have m: "low > 0xFFFFFFFFFFFFFFFF div nvme_unit_multiplier \<longleftrightarrow> 2 ^ 64 \<le> unat low * 512000"
    by (simp add: word_less_nat_alt unat_div nvme_unit_multiplier_def) linarith
  show ?thesis
  proof (cases "high = 0")
    case True
    then have "unat low = le_value buf offset 16" using v unfolding le_16 by simp
    then have "low * nvme_unit_multiplier = of_nat (le_value buf offset 16 * 512000)"
      by (simp add: nvme_unit_multiplier_def flip: \<open>unat low = _\<close>)
    then show ?thesis
      using True m \<open>unat low = le_value buf offset 16\<close> by (simp add: nvme_units_def p)
  next
    case False
    then have "0 < unat high" by (simp add: unat_gt_0)
    then have "2 ^ 64 \<le> le_value buf offset 16" using v unfolding le_16 by (cases "unat high") simp_all
    then show ?thesis using False by (simp add: nvme_units_def p)
  qed
qed

text \<open>The record a readable log describes.\<close>

definition smart_record :: "u8 list \<Rightarrow> health_record \<Rightarrow> health_record" where
  "smart_record buf r =
     (nvme_status (buf ! 0) (buf ! 3) (buf ! 4) (buf ! 5)
        ((nvme_temperature (of_nat (le_value buf 1 2)) r)
           \<lparr>hr_has_available_spare_percent := True, hr_available_spare_percent := ucast (buf ! 3),
            hr_has_percent_used := True, hr_percent_used := ucast (buf ! 5)\<rparr>))
       \<lparr>hr_has_data_units_read_bytes := True, hr_data_units_read_bytes := of_nat (le_value buf 32 16 * 512000),
        hr_has_data_units_written_bytes := True, hr_data_units_written_bytes := of_nat (le_value buf 48 16 * 512000),
        hr_has_power_cycles := True, hr_power_cycles := of_nat (le_value buf 112 16),
        hr_has_power_on_hours := True, hr_power_on_hours := of_nat (le_value buf 128 16),
        hr_has_unsafe_shutdowns := True, hr_unsafe_shutdowns := of_nat (le_value buf 144 16),
        hr_has_media_errors := True, hr_media_errors := of_nat (le_value buf 160 16)\<rparr>"

lemma kelvin_value:
  "ucast ((ucast (a :: u8) :: u32) OR push_bit 8 (ucast (b :: u8))) = (of_nat (unat a + unat b * 256) :: u16)"
proof -
  have l: "unat a < 256" "unat b < 256"
    using unsigned_less [of a, where ?'a = nat] unsigned_less [of b, where ?'a = nat] by simp_all
  then have "unat ((ucast a :: u32) OR push_bit 8 (ucast b)) = unat a + unat b * 256"
    using unat_shift_or [of "ucast a :: u32" 8 "ucast b"] by (simp add: unat_ucast_up or.commute)
  moreover have "unat a + unat b * 256 < 2 ^ 16" using l by simp
  ultimately show ?thesis
    by (simp add: word_unat_eq_iff unsigned_ucast_eq unat_of_nat take_bit_nat_eq_self del: of_nat_add of_nat_mult)
qed

lemma le_value_2: "le_value buf 1 2 = unat (buf ! 1) + unat (buf ! 2) * 256"
  by (simp add: le_value_def eval_nat_numeral)

lemma and_then_guard: "and_then (if b then fail e else Value v) f = (if b then fail e else f v)"
  by simp

lemma list_ex_list: "list_ex P [a, b] \<longleftrightarrow> P a \<or> P b" "list_ex P [a, b, c, d] \<longleftrightarrow> P a \<or> P b \<or> P c \<or> P d"
  by simp_all

lemma nested_guard: "(if a then x else if b then x else y) = (if a \<or> b then x else y)"
  by simp

text \<open>
  C35. \<open>parse_nvme_smart_log_buffer\<close> is exact on every buffer: a short one and percentages above 100 are
  malformed; a count that does not fit 64 bits, or a number of bytes read or written that does not, is too
  large; otherwise every field is the little-endian number at its place, the data units times 512000.
\<close>

theorem nvme_log_exact:
  "parse_nvme_smart_log_buffer buf r =
     (if length buf < 512 \<or> buf ! 3 > 100 \<or> buf ! 4 > 100 then fail errc.malformed_data
      else if list_ex (\<lambda>offset. le_value buf offset 16 * 512000 \<ge> 2 ^ 64) [32, 48] \<or>
              list_ex (\<lambda>offset. le_value buf offset 16 \<ge> 2 ^ 64) [112, 128, 144, 160]
      then fail errc.value_too_large
      else Value (smart_record buf r))"
  unfolding parse_nvme_smart_log_buffer_def nvme_units_exact nvme_count_exact Let_def kelvin_value
    smart_record_def le_value_2 and_then_guard nested_guard list_ex_list disj_assoc
  by (simp only: simp_thms)

section \<open>Sense data\<close>

text \<open>The header with the bytes the device did not write cut off.\<close>

definition written_sense :: "linux_sg_io_hdr \<Rightarrow> linux_sg_io_hdr" where
  "written_sense hdr = hdr\<lparr>sg_sbp := map_option (take (unat (sg_sb_len_wr hdr))) (sg_sbp hdr)\<rparr>"

lemma written_sense_simps:
  "sg_status (written_sense hdr) = sg_status hdr" "sg_sb_len_wr (written_sense hdr) = sg_sb_len_wr hdr"
  "sg_host_status (written_sense hdr) = sg_host_status hdr"
  "sg_driver_status (written_sense hdr) = sg_driver_status hdr"
  "sg_sbp (written_sense hdr) = map_option (take (unat (sg_sb_len_wr hdr))) (sg_sbp hdr)"
  by (simp_all add: written_sense_def)

lemma ata_descriptor_take: "ata_descriptor (take n sense) n offset = ata_descriptor sense n offset"
proof (induction sense n offset rule: ata_descriptor.induct)
  case (1 sense n offset)
  show ?case
  proof (cases "offset + 1 < n")
    case True
    then have "(take n sense) ! offset = sense ! offset" "(take n sense) ! (offset + 1) = sense ! (offset + 1)"
      by simp_all
    moreover have "(take n sense) ! (offset + 9) = sense ! (offset + 9) \<and>
        (take n sense) ! (offset + 11) = sense ! (offset + 11)"
      if "12 \<le> unat (sense ! (offset + 1))" "offset + 2 + unat (sense ! (offset + 1)) \<le> n"
      using that by simp
    ultimately show ?thesis
      using 1 True
      by (subst (1 2) ata_descriptor.simps) (auto simp: Let_def word_le_nat_alt)
  qed (simp add: ata_descriptor.simps)
qed

lemma scsi_sense_key_take: "0 < n \<Longrightarrow> scsi_sense_key (take n sense) n = scsi_sense_key sense n"
  by (simp add: scsi_sense_key_def Let_def)

lemma ata_registers_written: "ata_registers rc (written_sense hdr) = ata_registers rc hdr"
proof (cases "sg_sbp hdr")
  case (Some sense)
  show ?thesis
  proof (cases "sg_sb_len_wr hdr \<ge> 14")
    case True
    then have "0 < unat (sg_sb_len_wr hdr)" by (simp add: word_le_nat_alt)
    then have "take (unat (sg_sb_len_wr hdr)) sense ! 0 = sense ! 0" by (rule nth_take)
    then show ?thesis
      unfolding ata_registers_def written_sense_simps Some option.map option.case ata_descriptor_take by (simp only:)
  next
    case False
    then show ?thesis using Some by (simp add: ata_registers_def written_sense_simps)
  qed
qed (simp add: ata_registers_def written_sense_simps)

lemma classify_sense_written:
  "(case map_option (take (unat n)) sbp of
      None \<Rightarrow> fail errc.io_error
    | Some sense \<Rightarrow> if n = 0 then fail errc.io_error else classify_sense_key (scsi_sense_key sense (unat n))) =
   (case sbp of
      None \<Rightarrow> fail errc.io_error
    | Some sense \<Rightarrow> if n = 0 then fail errc.io_error else classify_sense_key (scsi_sense_key sense (unat n)))"
  for n :: u8
  by (cases sbp) (simp_all add: scsi_sense_key_take unat_gt_0)

text \<open>
  C36. Only sense bytes the device wrote are looked at: both the search for the ATA registers and the
  classification of a SCSI request give the same answer when the buffer is cut off behind them, whatever
  descriptors, lengths and response codes it holds.
\<close>

theorem sense_reads_inside:
  "ata_registers rc (written_sense hdr) = ata_registers rc hdr \<and>
   classify_linux_scsi_ioctl_status rc system_errno (written_sense hdr) found =
     classify_linux_scsi_ioctl_status rc system_errno hdr found"
  unfolding classify_linux_scsi_ioctl_status_def written_sense_simps classify_sense_written
  using ata_registers_written by simp

section \<open>Partitions\<close>

lemma decode_mount_field_nonempty: "decode_mount_field s = Value t \<Longrightarrow> s \<noteq> [] \<Longrightarrow> t \<noteq> []"
  by (cases s) (auto simp: and_then_Value_iff split: if_splits)

lemma parse_mount_line_nonempty: "parse_mount_line line = Value (Some m) \<Longrightarrow> me_mount_point m \<noteq> []"
proof -
  assume a: "parse_mount_line line = Value (Some m)"
  let ?fs = "tokens_of mount_blank line"
  have "length ?fs \<ge> 6" and d: "decode_mount_field (?fs ! 1) = Value (me_mount_point m)"
    using a by (auto simp: parse_mount_line_def Let_def and_then_Value_iff split: if_splits)
  then have "?fs ! 1 \<noteq> []" using tokens_of_props [of "?fs ! 1" mount_blank line] by simp
  then show ?thesis using decode_mount_field_nonempty [OF d] by simp
qed

lemma mount_lines_nonempty: "mount_lines ls = Value ms \<Longrightarrow> list_all (\<lambda>m. me_mount_point m \<noteq> []) ms"
proof (induction ls arbitrary: ms)
  case (Cons l ls)
  then obtain e ms' where "parse_mount_line l = Value e" "mount_lines ls = Value ms'"
    "ms = (case e of None \<Rightarrow> ms' | Some m \<Rightarrow> m # ms')"
    by (auto simp: and_then_Value_iff)
  then show ?case using Cons.IH parse_mount_line_nonempty by (cases e) auto
qed simp

text \<open>What the attribute files leave in a record before its scheme and its mount are added.\<close>

definition attributes_ok :: "string \<Rightarrow> string \<Rightarrow> partition_record \<Rightarrow> bool" where
  "attributes_ok disk part r \<longleftrightarrow>
     pr_identifier r = part \<and> pr_disk_identifier r = disk \<and>
     (pr_has_start_offset_bytes r \<longrightarrow> 512 dvd unat (pr_start_offset_bytes r)) \<and>
     (pr_has_size_bytes r \<longrightarrow> 512 dvd unat (pr_size_bytes r)) \<and>
     (pr_has_name r \<longrightarrow> pr_name r \<noteq> []) \<and> (pr_has_uuid r \<longrightarrow> pr_uuid r \<noteq> []) \<and>
     \<not> pr_has_type_identifier r \<and> \<not> pr_has_filesystem_type r \<and> \<not> pr_is_mounted r \<and> pr_mount_point r = []"

lemma capacity_in_bytes_exact: "capacity_in_bytes n = Value v \<Longrightarrow> unat v = unat n * 512"
proof -
  assume "capacity_in_bytes n = Value v"
  then have "v = n * 512" "\<not> n > 0xFFFFFFFFFFFFFFFF div 512"
    by (simp_all add: capacity_in_bytes_def size_unit_bytes_def split: if_splits)
  moreover from this have "unat n * unat (512 :: u64) < 2 ^ LENGTH(64)" by (simp add: word_less_nat_alt unat_div)
  ultimately show ?thesis using unat_mult_small [of n 512] by simp
qed

lemma attribute_steps:
  "attributes_ok d p r \<Longrightarrow> partition_start c r = Value r' \<Longrightarrow> attributes_ok d p r'"
  "attributes_ok d p r \<Longrightarrow> partition_size c r = Value r' \<Longrightarrow> attributes_ok d p r'"
  "attributes_ok d p r \<Longrightarrow> partition_read_only c r = Value r' \<Longrightarrow> attributes_ok d p r'"
  by (auto simp: attributes_ok_def partition_start_def partition_size_def partition_read_only_def
      and_then_Value_iff capacity_in_bytes_exact)

lemma uevent_step: "attributes_ok d p r \<Longrightarrow> attributes_ok d p (uevent_line l r)"
  by (auto simp: uevent_line_def attributes_ok_def Let_def split: option.split)

lemma uevent_steps: "attributes_ok d p r \<Longrightarrow> partition_uevent c r = Value r' \<Longrightarrow> attributes_ok d p r'"
proof -
  have "attributes_ok d p r \<Longrightarrow> attributes_ok d p (fold uevent_line ls r)" for ls
    by (induction ls arbitrary: r) (simp_all add: uevent_step)
  then show "attributes_ok d p r \<Longrightarrow> partition_uevent c r = Value r' \<Longrightarrow> attributes_ok d p r'"
    by (auto simp: partition_uevent_def)
qed

lemma with_attribute_keeps:
  assumes "with_attribute a f r = Value r'" "I r" "\<And>c r r'. I r \<Longrightarrow> f c r = Value r' \<Longrightarrow> I r'"
  shows "I r'"
  using assms(1,2) assms(3) by (auto simp: with_attribute_def and_then_Value_iff split: option.splits)

lemma partition_attributes_ok:
  assumes "partition_attributes host path r = Value r'" "attributes_ok d p r"
  shows "attributes_ok d p r'"
proof -
  obtain r1 r2 r3 where
    "with_attribute (read_optional_file host (path @ ''/start'')) partition_start r = Value r1"
    "with_attribute (read_optional_file host (path @ ''/size'')) partition_size r1 = Value r2"
    "with_attribute (read_optional_file host (path @ ''/ro'')) partition_read_only r2 = Value r3"
    "with_attribute (read_optional_file host (path @ ''/uevent'')) partition_uevent r3 = Value r'"
    using assms(1) by (auto simp: partition_attributes_def Let_def and_then_Value_iff)
  note steps = this
  note keeps = with_attribute_keeps [where I = "attributes_ok d p"]
  have "attributes_ok d p r1" by (rule keeps [OF steps(1) assms(2)]) (rule attribute_steps)
  then have "attributes_ok d p r2" by (rule keeps [OF steps(2)]) (rule attribute_steps)
  then have "attributes_ok d p r3" by (rule keeps [OF steps(3)]) (rule attribute_steps)
  then show ?thesis by (rule keeps [OF steps(4)]) (rule uevent_steps)
qed

text \<open>
  A partition as it is reported: of a recorded drive, on sector boundaries, its scheme that of its
  identifier, its mount the first of its device, and passing the structural checks of the boundary, which
  can only refuse it for the encoding of a text.
\<close>

definition partition_ok :: "storage_host \<Rightarrow> mount_entry list \<Rightarrow> partition_record \<Rightarrow> bool" where
  "partition_ok host mounts r \<longleftrightarrow>
     (case collect_drive host (pr_disk_identifier r) of Value (Some d) \<Rightarrow> True | _ \<Rightarrow> False) \<and>
     (pr_has_start_offset_bytes r \<longrightarrow> 512 dvd unat (pr_start_offset_bytes r)) \<and>
     (pr_has_size_bytes r \<longrightarrow> 512 dvd unat (pr_size_bytes r)) \<and>
     pr_scheme r = classify_partition_scheme (if pr_has_uuid r then pr_uuid r else []) \<and>
     (case find (\<lambda>m. me_device_name m = pr_identifier r) mounts of
        None \<Rightarrow> \<not> pr_is_mounted r
      | Some m \<Rightarrow> pr_is_mounted r \<and> pr_mount_point r = me_mount_point m \<and>
          (if me_fstype m = [] then \<not> pr_has_filesystem_type r
           else pr_has_filesystem_type r \<and> pr_filesystem_type r = me_fstype m)) \<and>
     (partition_usable r = Value () \<or> partition_usable r = fail errc.invalid_encoding)"

lemma attributes_new: "attributes_ok d p (new_partition p d n)"
  by (simp add: attributes_ok_def new_partition_def)

lemma partition_usable_cases:
  assumes "pr_has_type_identifier r \<longrightarrow> pr_type_identifier r \<noteq> []" "pr_has_name r \<longrightarrow> pr_name r \<noteq> []"
    "pr_has_uuid r \<longrightarrow> pr_uuid r \<noteq> []" "pr_has_filesystem_type r \<longrightarrow> pr_filesystem_type r \<noteq> []"
    "pr_is_mounted r \<longleftrightarrow> pr_mount_point r \<noteq> []"
  shows "partition_usable r = Value () \<or> partition_usable r = fail errc.invalid_encoding"
proof -
  have "\<not> ((pr_has_type_identifier r \<and> pr_type_identifier r = []) \<or> (pr_has_name r \<and> pr_name r = []) \<or>
      (pr_has_uuid r \<and> pr_uuid r = []) \<or> (pr_has_filesystem_type r \<and> pr_filesystem_type r = []) \<or>
      (pr_is_mounted r \<and> pr_mount_point r = []) \<or> (\<not> pr_is_mounted r \<and> pr_mount_point r \<noteq> []))"
    using assms by blast
  then show ?thesis by (simp only: partition_usable_def) (simp split: if_split)
qed

lemma partition_mount_ok:
  assumes "attributes_ok disk part r0" "list_all (\<lambda>m. me_mount_point m \<noteq> []) mounts"
    and "collect_drive host disk = Value (Some d)"
  shows "partition_ok host mounts (partition_mount mounts (partition_scheme_of r0))"
proof -
  let ?r = "partition_mount mounts (partition_scheme_of r0)"
  have usable: "partition_usable ?r = Value () \<or> partition_usable ?r = fail errc.invalid_encoding"
  proof (rule partition_usable_cases)
    have "me_mount_point m \<noteq> []" if "find (\<lambda>m. me_device_name m = part) mounts = Some m" for m
      using that assms(2) by (auto simp: find_Some_iff list_all_length)
    then show "pr_is_mounted ?r \<longleftrightarrow> pr_mount_point ?r \<noteq> []"
      using assms(1)
      by (cases "find (\<lambda>m. me_device_name m = part) mounts")
        (simp_all add: partition_mount_def partition_scheme_of_def attributes_ok_def Let_def)
  qed (use assms(1) in \<open>auto simp: partition_mount_def partition_scheme_of_def attributes_ok_def Let_def
      split: option.split\<close>)
  show ?thesis
    using assms(1,3) usable unfolding partition_ok_def
    by (cases "find (\<lambda>m. me_device_name m = part) mounts")
      (simp_all add: partition_mount_def partition_scheme_of_def attributes_ok_def Let_def)
qed

lemma collect_partition_ok:
  assumes "collect_partition host disk part mounts = Value (Some r)"
    and "list_all (\<lambda>m. me_mount_point m \<noteq> []) mounts" "collect_drive host disk = Value (Some d)"
  shows "partition_ok host mounts r"
proof -
  obtain n r0 where "partition_attributes host (block_root @ disk @ ''/'' @ part) (new_partition part disk n) = Value r0"
    "r = partition_mount mounts (partition_scheme_of r0)"
    using assms(1) by (auto simp: collect_partition_def Let_def and_then_Value_iff split: result.splits if_splits)
  then show ?thesis
    using partition_mount_ok [OF partition_attributes_ok assms(2,3)] attributes_new by metis
qed

lemma visible_entries_invariant:
  assumes "visible_entries visit es s = Value s'" "I s"
    and "\<And>name s s'. I s \<Longrightarrow> visit name s = Value s' \<Longrightarrow> I s'"
  shows "I s'"
  using assms(1) unfolding visible_entries_def
  by (rule each_entry_invariant [rotated 2]) (use assms(2,3) in \<open>auto split: if_splits\<close>)

lemma record_disk_ok:
  assumes "record_disk host mounts disk rs = Value rs'" "list_all (partition_ok host mounts) rs"
    and "list_all (\<lambda>m. me_mount_point m \<noteq> []) mounts"
  shows "list_all (partition_ok host mounts) rs'"
proof -
  obtain drive where drive: "collect_drive host disk = Value drive"
    using assms(1) by (auto simp: record_disk_def and_then_Value_iff)
  show ?thesis
  proof (cases drive)
    case (Some d)
    then have d: "collect_drive host disk = Value (Some d)" using drive by simp
    show ?thesis
    proof (cases "ho_opendir host (block_root @ disk)")
      case None
      then have "visible_entries (record_partition host disk mounts) (ho_entries host (block_root @ disk)) rs = Value rs'"
        using assms(1) d by (simp add: record_disk_def)
      then show ?thesis
      proof (rule visible_entries_invariant [where I = "list_all (partition_ok host mounts)", OF _ assms(2)])
        fix name s s'
        assume "list_all (partition_ok host mounts) s" "record_partition host disk mounts name s = Value s'"
        then show "list_all (partition_ok host mounts) s'"
          using collect_partition_ok [OF _ assms(3) d]
          by (auto simp: record_partition_def and_then_Value_iff split: option.splits)
      qed
    next
      case (Some e)
      then show ?thesis using assms(1,2) d by (simp add: record_disk_def split: if_splits)
    qed
  qed (use assms drive in \<open>simp add: record_disk_def\<close>)
qed

lemma walk_block_devices_invariant:
  assumes "walk_block_devices host visit s = Value s'" "I s"
    and "\<And>name s s'. I s \<Longrightarrow> visit name s = Value s' \<Longrightarrow> I s'"
  shows "I s'"
proof (cases "ho_opendir host block_root")
  case None
  then show ?thesis
    using assms(1) visible_entries_invariant [where I = I, OF _ assms(2,3)] by (simp add: walk_block_devices_def)
next
  case (Some e)
  then show ?thesis using assms(1,2) by (simp add: walk_block_devices_def split: if_splits)
qed

interpretation partition_name: strict_weak_order "\<lambda>a b. pr_identifier a < pr_identifier b"
  by (rule swo_key)

text \<open>
  C37. The partition table is consistent: every partition belongs to a drive that is recorded, starts and
  ends on a sector, has the scheme of its identifier and the mount point and file system of the first
  mount of its device, and the boundary can refuse it only for the encoding of a text; the list is in the
  order of the names.
\<close>

theorem partitions_consistent:
  "case partitions host of
     Unexpected e \<Rightarrow> True
   | Value ps \<Rightarrow>
       (case collect_mount_table host of
          Value mounts \<Rightarrow>
            list_all (partition_ok host mounts) ps \<and> in_order (\<lambda>a b. pr_identifier a < pr_identifier b) ps
        | Unexpected e \<Rightarrow> False)"
proof (cases "partitions host")
  case (Value ps)
  then obtain mounts rs where *: "collect_mount_table host = Value mounts"
    "walk_block_devices host (record_disk host mounts) [] = Value rs"
    "ps = std_sort (\<lambda>a b. pr_identifier a < pr_identifier b) rs"
    by (auto simp: partitions_def and_then_Value_iff)
  have m: "list_all (\<lambda>m. me_mount_point m \<noteq> []) mounts"
    using *(1) mount_lines_nonempty by (auto simp: collect_mount_table_def parse_mount_table_def and_then_Value_iff)
  have "list_all (partition_ok host mounts) rs"
    by (rule walk_block_devices_invariant [OF *(2)]) (auto intro: record_disk_ok [OF _ _ m])
  then show ?thesis using Value *(1) partition_name.std_sort_in_order by (simp add: *(3) list_all_iff)
qed simp

end
