(* ===== verification/Power_Supply.thy ===== *)
theory Power_Supply
  imports Storage_Linux
begin

text \<open>
  Batteries and power sources on Linux (\<open>power.hpp\<close>, \<open>detail/power/common.hpp\<close> and
  \<open>detail/power/linux.hpp\<close>). Numbers are words of the width of the code where it multiplies or converts
  them; a temperature is an integer in tenths of a degree, the unit the kernel reports. The negation of
  the smallest 64-bit integer, which C++ leaves undefined, is the outcome \<^const>\<open>None\<close> of a query. Trimming,
  optional attributes and the directory loop are those of the storage module, which this module repeats.
  The properties are in theory Power_Correct.
\<close>

section \<open>Types\<close>

datatype battery_state = unknown | charging | discharging | not_charging | full

datatype battery_health =
    unknown | good | dead | overheat | over_voltage | under_voltage | blown_fuse | cell_imbalance
  | unspecified_failure | cold | warm | cool | hot

datatype battery_technology =
    unknown | lithium_ion | lithium_polymer | nickel_metal_hydride | nickel_cadmium | lead_acid | other

datatype power_source_type = unknown | mains | usb | usb_pd | wireless | ups | other

datatype external_presence = no_evidence | connected | disconnected

record battery_record =
  br_identifier :: string
  br_present :: bool
  br_condition :: battery_state
  br_has_charge_percent :: bool
  br_charge_percent :: u32
  br_has_cycle_count :: bool
  br_cycle_count :: u64
  br_health :: battery_health
  br_technology :: battery_technology
  br_manufacturer :: string
  br_model_name :: string
  br_serial_number :: string
  br_has_health_percent :: bool
  br_health_percent :: u32
  br_has_energy_design_mwh :: bool
  br_energy_design_mwh :: u64
  br_has_energy_full_mwh :: bool
  br_energy_full_mwh :: u64
  br_has_energy_now_mwh :: bool
  br_energy_now_mwh :: u64
  br_has_charge_design_mah :: bool
  br_charge_design_mah :: u64
  br_has_charge_full_mah :: bool
  br_charge_full_mah :: u64
  br_has_charge_now_mah :: bool
  br_charge_now_mah :: u64
  br_has_voltage_millivolts :: bool
  br_voltage_millivolts :: u32
  br_has_voltage_min_design_millivolts :: bool
  br_voltage_min_design_millivolts :: u32
  br_has_power_rate_milliwatts :: bool
  br_power_rate_milliwatts :: int
  br_has_temperature_celsius :: bool
  br_temperature_celsius :: int

record power_source_record =
  ps_identifier :: string
  ps_type :: power_source_type
  ps_has_online :: bool
  ps_online :: bool
  ps_description :: string
  ps_has_max_voltage_millivolts :: bool
  ps_max_voltage_millivolts :: u32
  ps_has_max_power_milliwatts :: bool
  ps_max_power_milliwatts :: u32

definition new_battery :: "string \<Rightarrow> battery_record" where
  "new_battery identifier = \<lparr>
     br_identifier = identifier, br_present = True, br_condition = battery_state.unknown,
     br_has_charge_percent = False, br_charge_percent = 0, br_has_cycle_count = False,
     br_cycle_count = 0, br_health = battery_health.unknown,
     br_technology = battery_technology.unknown, br_manufacturer = [], br_model_name = [],
     br_serial_number = [], br_has_health_percent = False, br_health_percent = 0,
     br_has_energy_design_mwh = False, br_energy_design_mwh = 0, br_has_energy_full_mwh = False,
     br_energy_full_mwh = 0, br_has_energy_now_mwh = False, br_energy_now_mwh = 0,
     br_has_charge_design_mah = False, br_charge_design_mah = 0, br_has_charge_full_mah = False,
     br_charge_full_mah = 0, br_has_charge_now_mah = False, br_charge_now_mah = 0,
     br_has_voltage_millivolts = False, br_voltage_millivolts = 0,
     br_has_voltage_min_design_millivolts = False, br_voltage_min_design_millivolts = 0,
     br_has_power_rate_milliwatts = False, br_power_rate_milliwatts = 0,
     br_has_temperature_celsius = False, br_temperature_celsius = 0\<rparr>"

definition new_power_source :: "string \<Rightarrow> power_source_type \<Rightarrow> power_source_record" where
  "new_power_source identifier source_type = \<lparr>
     ps_identifier = identifier, ps_type = source_type, ps_has_online = False, ps_online = False,
     ps_description = [], ps_has_max_voltage_millivolts = False, ps_max_voltage_millivolts = 0,
     ps_has_max_power_milliwatts = False, ps_max_power_milliwatts = 0\<rparr>"

section \<open>Validation at the boundary\<close>

definition battery_usable :: "battery_record \<Rightarrow> unit result" where
  "battery_usable r =
     (if \<not> is_valid_utf8 (br_identifier r) \<or> \<not> is_valid_utf8 (br_manufacturer r) \<or>
         \<not> is_valid_utf8 (br_model_name r) \<or> \<not> is_valid_utf8 (br_serial_number r)
      then fail errc.invalid_encoding
      else if br_has_charge_percent r \<and> br_charge_percent r > 100 then fail errc.malformed_data
      else Value ())"

definition validate_battery_records :: "battery_record list result \<Rightarrow> battery_record list result" where
  "validate_battery_records records = validate_each battery_usable records"

definition power_source_usable :: "power_source_record \<Rightarrow> unit result" where
  "power_source_usable r =
     (if \<not> is_valid_utf8 (ps_identifier r) \<or> \<not> is_valid_utf8 (ps_description r)
      then fail errc.invalid_encoding else Value ())"

definition validate_power_source_records :: "power_source_record list result \<Rightarrow> power_source_record list result" where
  "validate_power_source_records records = validate_each power_source_usable records"

section \<open>Attributes\<close>

definition power_supply_root :: string where "power_supply_root = ''/sys/class/power_supply/''"

datatype supply_class = battery | external_source

definition supply_trim :: "string \<Rightarrow> string" where
  "supply_trim v = trim_both attribute_blank v"

definition parse_supply_status :: "string \<Rightarrow> battery_state result" where
  "parse_supply_status input =
     (let v = supply_trim input in
      if v = ''Charging'' then Value battery_state.charging
      else if v = ''Discharging'' then Value battery_state.discharging
      else if v = ''Not charging'' then Value battery_state.not_charging
      else if v = ''Full'' then Value battery_state.full
      else if v = ''Unknown'' then Value battery_state.unknown
      else fail errc.malformed_data)"

definition parse_health :: "string \<Rightarrow> battery_health result" where
  "parse_health input =
     (let v = supply_trim input in
      if v = ''Good'' then Value battery_health.good
      else if v = ''Overheat'' \<or> v = ''Over heat'' then Value battery_health.overheat
      else if v = ''Dead'' then Value battery_health.dead
      else if v = ''Over voltage'' \<or> v = ''Overvoltage'' then Value battery_health.over_voltage
      else if v = ''Under voltage'' \<or> v = ''Undervoltage'' then Value battery_health.under_voltage
      else if v = ''Blown fuse'' then Value battery_health.blown_fuse
      else if v = ''Cell imbalance'' then Value battery_health.cell_imbalance
      else if v = ''Unspecified failure'' \<or> v = ''Safety timer expire'' \<or> v = ''Watchdog timer expire'' \<or>
              v = ''Calibration required'' \<or> v = ''Over current'' then Value battery_health.unspecified_failure
      else if v = ''Cold'' then Value battery_health.cold
      else if v = ''Warm'' then Value battery_health.warm
      else if v = ''Cool'' then Value battery_health.cool
      else if v = ''Hot'' then Value battery_health.hot
      else if v = ''Unknown'' \<or> v = ''No battery'' then Value battery_health.unknown
      else fail errc.malformed_data)"

definition parse_technology :: "string \<Rightarrow> battery_technology result" where
  "parse_technology input =
     (let v = supply_trim input in
      if v = ''Li-ion'' \<or> v = ''Li-Ion'' \<or> v = ''Lithium-ion'' then Value battery_technology.lithium_ion
      else if v = ''Li-poly'' \<or> v = ''Li-Poly'' \<or> v = ''Li-Po'' \<or> v = ''Lithium-polymer''
      then Value battery_technology.lithium_polymer
      else if v = ''NiMH'' \<or> v = ''Ni-MH'' then Value battery_technology.nickel_metal_hydride
      else if v = ''NiCd'' \<or> v = ''Ni-Cd'' then Value battery_technology.nickel_cadmium
      else if v = ''Lead-acid'' \<or> v = ''Pb-acid'' \<or> v = ''PbAc'' then Value battery_technology.lead_acid
      else if v = ''Unknown'' then Value battery_technology.unknown
      else if v \<noteq> [] then Value battery_technology.other
      else fail errc.malformed_data)"

definition parse_power_source_type :: "string \<Rightarrow> power_source_type result" where
  "parse_power_source_type input =
     (let v = supply_trim input in
      if v = ''Mains'' then Value power_source_type.mains
      else if v = ''USB'' then Value power_source_type.usb
      else if v = ''Wireless'' then Value power_source_type.wireless
      else if v = ''UPS'' then Value power_source_type.ups
      else if v = ''Battery'' then fail errc.malformed_data
      else if v = ''Unknown'' then Value power_source_type.unknown
      else if v \<noteq> [] then Value power_source_type.other
      else fail errc.malformed_data)"

definition names_usb_pd :: "string \<Rightarrow> bool" where
  "names_usb_pd active \<longleftrightarrow> active \<in> {''PD'', ''PD_DRP'', ''PD_PPS'', ''USB_PD'', ''USB_PD_DRP''}"

text \<open>A bracketed active type decides; without brackets the whole text does.\<close>

definition parse_usb_power_type :: "string \<Rightarrow> power_source_type" where
  "parse_usb_power_type usb_type_content =
     (let trimmed = supply_trim usb_type_content;
          whole = (if names_usb_pd trimmed \<or> trimmed = ''USB-PD'' then power_source_type.usb_pd
                   else power_source_type.usb)
      in case find_from (CHR ''['') trimmed 0 of
           None \<Rightarrow> whole
         | Some open_bracket \<Rightarrow>
             (case find_from (CHR '']'') trimmed open_bracket of
                None \<Rightarrow> whole
              | Some close_bracket \<Rightarrow>
                  if close_bracket > open_bracket + 1 then
                    (if names_usb_pd (substr trimmed (open_bracket + 1) (close_bracket - open_bracket - 1))
                     then power_source_type.usb_pd else power_source_type.usb)
                  else whole))"

definition parse_u64 :: "string \<Rightarrow> u64 result" where
  "parse_u64 input =
     (let v = supply_trim input in
      if v = [] then fail errc.malformed_data else and_then (whole_unsigned 64 v) (\<lambda>n. Value (of_nat n)))"

definition parse_i64 :: "string \<Rightarrow> int result" where
  "parse_i64 input =
     (let v = supply_trim input in if v = [] then fail errc.malformed_data else whole_signed 64 v)"

text \<open>Any failure of the conversion, a number out of range included, is malformed.\<close>

definition malformed_otherwise :: "'a result \<Rightarrow> 'a result" where
  "malformed_otherwise r = (case r of Unexpected e \<Rightarrow> fail errc.malformed_data | Value v \<Rightarrow> Value v)"

definition parse_temperature :: "string \<Rightarrow> int result" where
  "parse_temperature input =
     (let v = supply_trim input in
      if v = [] then fail errc.malformed_data else malformed_otherwise (whole_signed 64 v))"

definition parse_capacity_percent :: "string \<Rightarrow> u32 result" where
  "parse_capacity_percent input =
     (let v = supply_trim input in
      if v = [] then fail errc.malformed_data
      else and_then (malformed_otherwise (whole_unsigned 32 v)) (\<lambda>n.
        let percent = (of_nat n :: u32) in
        if percent > 100 then fail errc.malformed_data else Value percent))"

definition supply_flag :: "string \<Rightarrow> bool result" where
  "supply_flag input =
     (let v = supply_trim input in
      if v = ''0'' then Value False else if v = ''1'' then Value True else fail errc.malformed_data)"

definition parse_online :: "string \<Rightarrow> bool result" where
  "parse_online input =
     (let v = supply_trim input in
      if v = ''0'' then Value False
      else if v = ''1'' \<or> v = ''2'' then Value True
      else fail errc.malformed_data)"

definition parse_cycle_count :: "string \<Rightarrow> u64 result" where
  "parse_cycle_count input = parse_u64 input"

definition classify_supply_type :: "string \<Rightarrow> supply_class result" where
  "classify_supply_type input =
     (let v = supply_trim input in
      if v = ''Battery'' then Value supply_class.battery
      else if v = ''Mains'' \<or> v = ''UPS'' \<or> v = ''USB'' \<or> v = ''Wireless'' \<or> v = ''Unknown''
      then Value supply_class.external_source
      else fail errc.malformed_data)"

definition read_supply_attribute :: "host \<Rightarrow> string \<Rightarrow> string \<Rightarrow> attribute_read result" where
  "read_supply_attribute host entry attribute =
     (case ho_read host (power_supply_root @ entry @ ''/'' @ attribute) default_maximum_size of
        Unexpected e \<Rightarrow> if is_missing e then Value None else Unexpected e
      | Value content \<Rightarrow> Value (Some content))"

section \<open>Batteries\<close>

definition battery_present :: "string \<Rightarrow> battery_record \<Rightarrow> battery_record result" where
  "battery_present c r = and_then (supply_flag c) (\<lambda>v. Value (r\<lparr>br_present := v\<rparr>))"

definition battery_status :: "string \<Rightarrow> battery_record \<Rightarrow> battery_record result" where
  "battery_status c r = and_then (parse_supply_status c) (\<lambda>v. Value (r\<lparr>br_condition := v\<rparr>))"

definition battery_health_of :: "string \<Rightarrow> battery_record \<Rightarrow> battery_record result" where
  "battery_health_of c r = and_then (parse_health c) (\<lambda>v. Value (r\<lparr>br_health := v\<rparr>))"

definition battery_technology_of :: "string \<Rightarrow> battery_record \<Rightarrow> battery_record result" where
  "battery_technology_of c r = and_then (parse_technology c) (\<lambda>v. Value (r\<lparr>br_technology := v\<rparr>))"

definition battery_capacity :: "string \<Rightarrow> battery_record \<Rightarrow> battery_record result" where
  "battery_capacity c r =
     and_then (parse_capacity_percent c) (\<lambda>v. Value (r\<lparr>br_has_charge_percent := True, br_charge_percent := v\<rparr>))"

definition battery_cycles :: "string \<Rightarrow> battery_record \<Rightarrow> battery_record result" where
  "battery_cycles c r =
     and_then (parse_cycle_count c) (\<lambda>v.
       Value (if v \<noteq> 0 then r\<lparr>br_has_cycle_count := True, br_cycle_count := v\<rparr> else r))"

definition in_thousands :: "(u64 \<Rightarrow> 'r \<Rightarrow> 'r) \<Rightarrow> string \<Rightarrow> 'r \<Rightarrow> 'r result" where
  "in_thousands store c r = and_then (parse_u64 c) (\<lambda>v. Value (store (v div 1000) r))"

text \<open>The attributes that are read before the health percentage is computed.\<close>

definition battery_identity :: "(string \<Rightarrow> attribute_read result) \<Rightarrow> battery_record \<Rightarrow> battery_record result" where
  "battery_identity attribute r0 =
     (and_then (with_attribute (attribute ''present'') battery_present r0) (\<lambda>r1.
      and_then (with_attribute (attribute ''status'') battery_status r1) (\<lambda>r2.
      and_then (with_attribute (attribute ''health'') battery_health_of r2) (\<lambda>r3.
      and_then (with_attribute (attribute ''technology'') battery_technology_of r3) (\<lambda>r4.
      and_then (with_attribute (attribute ''manufacturer'') (\<lambda>c r. Value (r\<lparr>br_manufacturer := supply_trim c\<rparr>)) r4) (\<lambda>r5.
      and_then (with_attribute (attribute ''model_name'') (\<lambda>c r. Value (r\<lparr>br_model_name := supply_trim c\<rparr>)) r5) (\<lambda>r6.
      and_then (with_attribute (attribute ''serial_number'') (\<lambda>c r. Value (r\<lparr>br_serial_number := supply_trim c\<rparr>)) r6) (\<lambda>r7.
      and_then (with_attribute (attribute ''capacity'') battery_capacity r7)
        (with_attribute (attribute ''cycle_count'') battery_cycles)))))))))"

definition battery_energy :: "(string \<Rightarrow> attribute_read result) \<Rightarrow> battery_record \<Rightarrow> battery_record result" where
  "battery_energy attribute r0 =
     (and_then (with_attribute (attribute ''energy_full_design'')
        (in_thousands (\<lambda>v r. r\<lparr>br_has_energy_design_mwh := True, br_energy_design_mwh := v\<rparr>)) r0) (\<lambda>r1.
      and_then (with_attribute (attribute ''energy_full'')
        (in_thousands (\<lambda>v r. r\<lparr>br_has_energy_full_mwh := True, br_energy_full_mwh := v\<rparr>)) r1) (\<lambda>r2.
      and_then (with_attribute (attribute ''energy_now'')
        (in_thousands (\<lambda>v r. r\<lparr>br_has_energy_now_mwh := True, br_energy_now_mwh := v\<rparr>)) r2) (\<lambda>r3.
      and_then (with_attribute (attribute ''charge_full_design'')
        (in_thousands (\<lambda>v r. r\<lparr>br_has_charge_design_mah := True, br_charge_design_mah := v\<rparr>)) r3) (\<lambda>r4.
      and_then (with_attribute (attribute ''charge_full'')
        (in_thousands (\<lambda>v r. r\<lparr>br_has_charge_full_mah := True, br_charge_full_mah := v\<rparr>)) r4)
        (with_attribute (attribute ''charge_now'')
          (in_thousands (\<lambda>v r. r\<lparr>br_has_charge_now_mah := True, br_charge_now_mah := v\<rparr>))))))))"

text \<open>\<open>static_cast<std::uint32_t>((full * 100) / design)\<close>, with the product at 64 bits.\<close>

definition health_ratio :: "u64 \<Rightarrow> u64 \<Rightarrow> u32" where
  "health_ratio full_capacity design = ucast ((full_capacity * 100) div design)"

definition battery_health_percent :: "battery_record \<Rightarrow> battery_record" where
  "battery_health_percent r =
     (if br_has_energy_full_mwh r \<and> br_has_energy_design_mwh r \<and> br_energy_design_mwh r > 0
      then r\<lparr>br_has_health_percent := True,
             br_health_percent := health_ratio (br_energy_full_mwh r) (br_energy_design_mwh r)\<rparr>
      else if br_has_charge_full_mah r \<and> br_has_charge_design_mah r \<and> br_charge_design_mah r > 0
      then r\<lparr>br_has_health_percent := True,
             br_health_percent := health_ratio (br_charge_full_mah r) (br_charge_design_mah r)\<rparr>
      else r)"

text \<open>The voltage in microvolts stays available to the power rate.\<close>

definition battery_voltage :: "attribute_read result \<Rightarrow> battery_record \<Rightarrow> (u64 \<times> battery_record) result" where
  "battery_voltage attribute r =
     and_then attribute (\<lambda>content.
       case content of
         None \<Rightarrow> Value (0, r)
       | Some c \<Rightarrow> and_then (parse_u64 c) (\<lambda>uv.
           Value (uv, r\<lparr>br_has_voltage_millivolts := True, br_voltage_millivolts := ucast (uv div 1000)\<rparr>)))"

text \<open>Division of signed integers truncates towards zero.\<close>

definition signed_quotient :: "int \<Rightarrow> int \<Rightarrow> int" where
  "signed_quotient a b = sgn a * (\<bar>a\<bar> div b)"

definition reported_rate :: "battery_state \<Rightarrow> int \<Rightarrow> int" where
  "reported_rate condition mw =
     (if condition = battery_state.discharging then (if mw < 0 then mw else - mw)
      else (if mw < 0 then - mw else mw))"

definition battery_power :: "string \<Rightarrow> battery_record \<Rightarrow> battery_record result" where
  "battery_power c r =
     and_then (parse_i64 c) (\<lambda>raw_uw.
       Value (r\<lparr>br_has_power_rate_milliwatts := True,
                br_power_rate_milliwatts := reported_rate (br_condition r) (signed_quotient raw_uw 1000)\<rparr>))"

text \<open>The rate from a current and a voltage: the product is formed at 64 bits. \<open>- raw_ua\<close> may overflow.\<close>

definition derived_rate :: "int \<Rightarrow> u64 \<Rightarrow> int option" where
  "derived_rate raw_ua uv_now =
     (if raw_ua = - (2 ^ 63) then None
      else let abs_ua = (of_int \<bar>raw_ua\<bar> :: u64) in Some (sint ((abs_ua * uv_now) div 1000000000)))"

definition battery_current :: "u64 \<Rightarrow> attribute_read \<Rightarrow> battery_record \<Rightarrow> battery_record result option" where
  "battery_current uv_now content r =
     (case content of
        None \<Rightarrow> Some (Value r)
      | Some c \<Rightarrow>
          if uv_now > 0 then
            (case parse_i64 c of
               Unexpected e \<Rightarrow> Some (Unexpected e)
             | Value raw_ua \<Rightarrow>
                 map_option (\<lambda>mw. Value (r\<lparr>br_has_power_rate_milliwatts := True,
                     br_power_rate_milliwatts :=
                       (if br_condition r = battery_state.discharging then - mw else mw)\<rparr>))
                   (derived_rate raw_ua uv_now))
          else Some (Value r))"

definition battery_rate ::
    "(string \<Rightarrow> attribute_read result) \<Rightarrow> u64 \<Rightarrow> battery_record \<Rightarrow> battery_record result option" where
  "battery_rate attribute uv_now r =
     (case attribute ''power_now'' of
        Unexpected e \<Rightarrow> Some (Unexpected e)
      | Value (Some c) \<Rightarrow> Some (battery_power c r)
      | Value None \<Rightarrow>
          (case attribute ''current_now'' of
             Unexpected e \<Rightarrow> Some (Unexpected e)
           | Value content \<Rightarrow> battery_current uv_now content r))"

definition battery_temperature :: "string \<Rightarrow> battery_record \<Rightarrow> battery_record result" where
  "battery_temperature c r =
     and_then (parse_temperature c) (\<lambda>deg.
       Value (r\<lparr>br_has_temperature_celsius := True, br_temperature_celsius := deg\<rparr>))"

text \<open>Everything up to the power rate, with the voltage it needs.\<close>

definition battery_attributes ::
    "(string \<Rightarrow> attribute_read result) \<Rightarrow> battery_record \<Rightarrow> (u64 \<times> battery_record) result" where
  "battery_attributes attribute r0 =
     and_then (battery_identity attribute r0) (\<lambda>r1.
     and_then (battery_energy attribute r1) (\<lambda>r2.
     and_then (battery_voltage (attribute ''voltage_now'') (battery_health_percent r2)) (\<lambda>(uv_now, r3).
     and_then (with_attribute (attribute ''voltage_min_design'') (in_thousands (\<lambda>v r.
         r\<lparr>br_has_voltage_min_design_millivolts := True, br_voltage_min_design_millivolts := ucast v\<rparr>)) r3) (\<lambda>r4.
       Value (uv_now, r4)))))"

definition battery_supply :: "attribute_read result \<Rightarrow> bool result" where
  "battery_supply type_attribute =
     and_then type_attribute (\<lambda>content.
       case content of
         None \<Rightarrow> Value False
       | Some c \<Rightarrow> and_then (classify_supply_type c) (\<lambda>classified. Value (classified = supply_class.battery)))"

text \<open>The outcome \<^const>\<open>None\<close> is undefined; a value of \<^const>\<open>None\<close> is a snapshot that is not recorded.\<close>

definition collect_battery :: "host \<Rightarrow> string \<Rightarrow> battery_record option result option" where
  "collect_battery host entry =
     (let attribute = read_supply_attribute host entry in
      case battery_supply (attribute ''type'') of
        Unexpected e \<Rightarrow> Some (Unexpected e)
      | Value False \<Rightarrow> Some (Value None)
      | Value True \<Rightarrow>
          (case battery_attributes attribute (new_battery entry) of
             Unexpected e \<Rightarrow> Some (Unexpected e)
           | Value (uv_now, r) \<Rightarrow>
               map_option (\<lambda>rated. and_then rated (\<lambda>r.
                   and_then (with_attribute (attribute ''temp'') battery_temperature r) (\<lambda>r. Value (Some r))))
                 (battery_rate attribute uv_now r)))"

section \<open>External supplies\<close>

definition supply_source_type :: "(string \<Rightarrow> attribute_read result) \<Rightarrow> string \<Rightarrow> power_source_type result" where
  "supply_source_type attribute type_str =
     (if type_str = ''Mains'' then Value power_source_type.mains
      else if type_str = ''UPS'' then Value power_source_type.ups
      else if type_str = ''Wireless'' then Value power_source_type.wireless
      else if type_str = ''USB'' then
        and_then (attribute ''usb_type'') (\<lambda>content.
          Value (case content of None \<Rightarrow> power_source_type.usb | Some c \<Rightarrow> parse_usb_power_type c))
      else if type_str = ''Unknown'' then Value power_source_type.unknown
      else if type_str \<noteq> [] then Value power_source_type.other
      else fail errc.malformed_data)"

definition source_online :: "string \<Rightarrow> power_source_record \<Rightarrow> power_source_record result" where
  "source_online c r = and_then (parse_online c) (\<lambda>v. Value (r\<lparr>ps_has_online := True, ps_online := v\<rparr>))"

definition collect_power_source :: "host \<Rightarrow> string \<Rightarrow> power_source_record option result" where
  "collect_power_source host entry =
     (let attribute = read_supply_attribute host entry in
      and_then (attribute ''type'') (\<lambda>type_attr.
        case type_attr of
          None \<Rightarrow> Value None
        | Some content \<Rightarrow>
            let type_str = supply_trim content in
            if type_str = ''Battery'' then Value None
            else
              and_then (supply_source_type attribute type_str) (\<lambda>source_type.
              and_then (with_attribute (attribute ''online'') source_online (new_power_source entry source_type)) (\<lambda>r1.
              and_then (with_attribute (attribute ''model_name'')
                  (\<lambda>c r. Value (r\<lparr>ps_description := supply_trim c\<rparr>)) r1) (\<lambda>r2.
              and_then (with_attribute (attribute ''voltage_max'') (in_thousands (\<lambda>v r.
                  r\<lparr>ps_has_max_voltage_millivolts := True, ps_max_voltage_millivolts := ucast v\<rparr>)) r2) (\<lambda>r3.
                Value (Some r3)))))))"

section \<open>Queries\<close>

definition walk_supplies :: "host \<Rightarrow> (string \<Rightarrow> 's \<Rightarrow> 's result) \<Rightarrow> 's \<Rightarrow> 's result" where
  "walk_supplies host visit s =
     (case ho_opendir host power_supply_root of
        Some e \<Rightarrow> if e = ENOENT then Value s else fail_errno e
      | None \<Rightarrow> visible_entries visit (ho_entries host power_supply_root) s)"

text \<open>The same loop with a visitor whose outcome may be undefined.\<close>

fun battery_entries :: "host \<Rightarrow> directory_event list \<Rightarrow> battery_record list \<Rightarrow> battery_record list result option" where
  "battery_entries host [] records = Some (Value records)"
| "battery_entries host (Readdir_error e # es) records = Some (if e \<noteq> 0 then fail_errno e else Value records)"
| "battery_entries host (Entry name # es) records =
     (if hidden name then battery_entries host es records
      else (case collect_battery host name of
          None \<Rightarrow> None
        | Some (Unexpected e) \<Rightarrow> Some (Unexpected e)
        | Some (Value snapshot) \<Rightarrow>
            battery_entries host es (case snapshot of None \<Rightarrow> records | Some r \<Rightarrow> records @ [r])))"

definition batteries :: "host \<Rightarrow> battery_record list result option" where
  "batteries host =
     (case ho_opendir host power_supply_root of
        Some e \<Rightarrow> Some (if e = ENOENT then Value [] else fail_errno e)
      | None \<Rightarrow>
          map_option (\<lambda>records. and_then records (\<lambda>rs. Value (std_sort (\<lambda>a b. br_identifier a < br_identifier b) rs)))
            (battery_entries host (ho_entries host power_supply_root) []))"

definition record_source :: "host \<Rightarrow> string \<Rightarrow> power_source_record list \<Rightarrow> power_source_record list result" where
  "record_source host name records =
     and_then (collect_power_source host name) (\<lambda>snapshot.
       Value (case snapshot of None \<Rightarrow> records | Some r \<Rightarrow> records @ [r]))"

definition power_sources :: "host \<Rightarrow> power_source_record list result" where
  "power_sources host =
     and_then (walk_supplies host (record_source host) []) (\<lambda>records.
       Value (std_sort (\<lambda>a b. ps_identifier a < ps_identifier b) records))"

text \<open>The two flags of the search for evidence: connected and disconnected.\<close>

definition supply_evidence :: "host \<Rightarrow> string \<Rightarrow> bool \<times> bool \<Rightarrow> (bool \<times> bool) result" where
  "supply_evidence host entry saw =
     (let attribute = read_supply_attribute host entry in
      and_then (attribute ''type'') (\<lambda>type_attr.
        case type_attr of
          None \<Rightarrow> Value saw
        | Some content \<Rightarrow>
            and_then (classify_supply_type content) (\<lambda>classified.
              case classified of
                external_source \<Rightarrow>
                  with_attribute (attribute ''online'') (\<lambda>c saw.
                    and_then (parse_online c) (\<lambda>active.
                      Value (if active then (True, snd saw) else (fst saw, True)))) saw
              | battery \<Rightarrow>
                  with_attribute (attribute ''status'') (\<lambda>c saw.
                    and_then (parse_supply_status c) (\<lambda>condition.
                      Value (if condition = battery_state.discharging then (fst saw, True) else saw))) saw)))"

definition external_power_online :: "host \<Rightarrow> external_presence result" where
  "external_power_online host =
     and_then (walk_supplies host (supply_evidence host) (False, False)) (\<lambda>(saw_connected, saw_disconnected).
       Value (if saw_connected then external_presence.connected
              else if saw_disconnected then external_presence.disconnected
              else external_presence.no_evidence))"

definition seconds_until_empty :: "u64 result" where
  "seconds_until_empty = fail errc.not_supported"

section \<open>The public entries and queries\<close>

record battery_entry =
  be_identifier :: string
  be_present :: bool
  be_state :: battery_state
  be_has_charge_percent :: bool
  be_charge_percent :: u32
  be_has_cycle_count :: bool
  be_cycle_count :: u64
  be_health :: battery_health
  be_technology :: battery_technology
  be_manufacturer :: string
  be_model_name :: string
  be_serial_number :: string
  be_has_health_percent :: bool
  be_health_percent :: u32
  be_has_energy_design_mwh :: bool
  be_energy_design_mwh :: u64
  be_has_energy_full_mwh :: bool
  be_energy_full_mwh :: u64
  be_has_energy_now_mwh :: bool
  be_energy_now_mwh :: u64
  be_has_charge_design_mah :: bool
  be_charge_design_mah :: u64
  be_has_charge_full_mah :: bool
  be_charge_full_mah :: u64
  be_has_charge_now_mah :: bool
  be_charge_now_mah :: u64
  be_has_voltage_millivolts :: bool
  be_voltage_millivolts :: u32
  be_has_voltage_min_design_millivolts :: bool
  be_voltage_min_design_millivolts :: u32
  be_has_power_rate_milliwatts :: bool
  be_power_rate_milliwatts :: int
  be_has_temperature_celsius :: bool
  be_temperature_celsius :: int

record power_source_entry =
  pq_identifier :: string
  pq_type :: power_source_type
  pq_has_online :: bool
  pq_online :: bool
  pq_description :: string
  pq_has_max_voltage_millivolts :: bool
  pq_max_voltage_millivolts :: u32
  pq_has_max_power_milliwatts :: bool
  pq_max_power_milliwatts :: u32

definition public_battery :: "battery_record \<Rightarrow> battery_entry" where
  "public_battery record0 = \<lparr>
     be_identifier = br_identifier record0, be_present = br_present record0,
     be_state = br_condition record0, be_has_charge_percent = br_has_charge_percent record0,
     be_charge_percent = br_charge_percent record0, be_has_cycle_count = br_has_cycle_count record0,
     be_cycle_count = br_cycle_count record0, be_health = br_health record0,
     be_technology = br_technology record0, be_manufacturer = br_manufacturer record0,
     be_model_name = br_model_name record0, be_serial_number = br_serial_number record0,
     be_has_health_percent = br_has_health_percent record0,
     be_health_percent = br_health_percent record0,
     be_has_energy_design_mwh = br_has_energy_design_mwh record0,
     be_energy_design_mwh = br_energy_design_mwh record0,
     be_has_energy_full_mwh = br_has_energy_full_mwh record0,
     be_energy_full_mwh = br_energy_full_mwh record0,
     be_has_energy_now_mwh = br_has_energy_now_mwh record0,
     be_energy_now_mwh = br_energy_now_mwh record0,
     be_has_charge_design_mah = br_has_charge_design_mah record0,
     be_charge_design_mah = br_charge_design_mah record0,
     be_has_charge_full_mah = br_has_charge_full_mah record0,
     be_charge_full_mah = br_charge_full_mah record0,
     be_has_charge_now_mah = br_has_charge_now_mah record0,
     be_charge_now_mah = br_charge_now_mah record0,
     be_has_voltage_millivolts = br_has_voltage_millivolts record0,
     be_voltage_millivolts = br_voltage_millivolts record0,
     be_has_voltage_min_design_millivolts = br_has_voltage_min_design_millivolts record0,
     be_voltage_min_design_millivolts = br_voltage_min_design_millivolts record0,
     be_has_power_rate_milliwatts = br_has_power_rate_milliwatts record0,
     be_power_rate_milliwatts = br_power_rate_milliwatts record0,
     be_has_temperature_celsius = br_has_temperature_celsius record0,
     be_temperature_celsius = br_temperature_celsius record0\<rparr>"

definition public_power_source :: "power_source_record \<Rightarrow> power_source_entry" where
  "public_power_source record0 = \<lparr>
     pq_identifier = ps_identifier record0, pq_type = ps_type record0,
     pq_has_online = ps_has_online record0, pq_online = ps_online record0,
     pq_description = ps_description record0,
     pq_has_max_voltage_millivolts = ps_has_max_voltage_millivolts record0,
     pq_max_voltage_millivolts = ps_max_voltage_millivolts record0,
     pq_has_max_power_milliwatts = ps_has_max_power_milliwatts record0,
     pq_max_power_milliwatts = ps_max_power_milliwatts record0\<rparr>"

definition public_batteries :: "host \<Rightarrow> battery_entry list result option" where
  "public_batteries host =
     map_option (\<lambda>records. and_then (validate_battery_records records) (\<lambda>rs. Value (map public_battery rs)))
       (batteries host)"

definition public_power_sources :: "host \<Rightarrow> power_source_entry list result" where
  "public_power_sources host =
     and_then (validate_power_source_records (power_sources host)) (\<lambda>rs. Value (map public_power_source rs))"

definition public_external_power_online :: "host \<Rightarrow> bool result" where
  "public_external_power_online host =
     and_then (external_power_online host) (\<lambda>presence.
       case presence of
         connected \<Rightarrow> Value True
       | disconnected \<Rightarrow> Value False
       | no_evidence \<Rightarrow> fail errc.not_found)"

end
