(* ===== verification/Power_Supply_Correct.thy ===== *)
theory Power_Supply_Correct
  imports Virtualization_Limits Power_Supply
begin

text \<open>
  What the power queries promise: every battery record is consistent and the boundary can refuse it only
  for the encoding of a text; whether the system is on external power is decided by the supplies together,
  not by their order; and the power rate derived from current and voltage is exact as long as the product
  fits 64 bits, and wrong beyond.
\<close>

section \<open>Batteries\<close>

text \<open>The direction of the rate is the operating condition; counts and percentages are in range.\<close>

definition rate_ok :: "battery_record \<Rightarrow> bool" where
  "rate_ok r \<longleftrightarrow>
     (br_has_power_rate_milliwatts r \<longrightarrow>
       (if br_condition r = battery_state.discharging then br_power_rate_milliwatts r \<le> 0
        else 0 \<le> br_power_rate_milliwatts r))"

definition percent_ok :: "battery_record \<Rightarrow> bool" where
  "percent_ok r \<longleftrightarrow>
     (br_has_charge_percent r \<longrightarrow> br_charge_percent r \<le> 100) \<and> (br_has_cycle_count r \<longrightarrow> br_cycle_count r \<noteq> 0)"

definition unrated_ok :: "battery_record \<Rightarrow> bool" where
  "unrated_ok r \<longleftrightarrow> percent_ok r \<and> \<not> br_has_power_rate_milliwatts r"

definition battery_ok :: "battery_record \<Rightarrow> bool" where
  "battery_ok r \<longleftrightarrow>
     rate_ok r \<and> percent_ok r \<and> (battery_usable r = Value () \<or> battery_usable r = fail errc.invalid_encoding)"

lemma attribute_step:
  assumes "with_attribute a f r = Value r'" "I r" "\<And>c r r'. f c r = Value r' \<Longrightarrow> I r \<Longrightarrow> I r'"
  shows "I r'"
  using assms by (auto simp: with_attribute_def and_then_Value_iff split: option.splits)

lemma in_thousands_keeps:
  "in_thousands store c r = Value r' \<Longrightarrow> (\<And>v r. unrated_ok (store v r) = unrated_ok r) \<Longrightarrow> unrated_ok r \<Longrightarrow> unrated_ok r'"
  by (auto simp: in_thousands_def and_then_Value_iff)

lemma battery_steps:
  "battery_present c r = Value r' \<Longrightarrow> unrated_ok r \<Longrightarrow> unrated_ok r'"
  "battery_status c r = Value r' \<Longrightarrow> unrated_ok r \<Longrightarrow> unrated_ok r'"
  "battery_health_of c r = Value r' \<Longrightarrow> unrated_ok r \<Longrightarrow> unrated_ok r'"
  "battery_technology_of c r = Value r' \<Longrightarrow> unrated_ok r \<Longrightarrow> unrated_ok r'"
  "battery_capacity c r = Value r' \<Longrightarrow> unrated_ok r \<Longrightarrow> unrated_ok r'"
  "battery_cycles c r = Value r' \<Longrightarrow> unrated_ok r \<Longrightarrow> unrated_ok r'"
  by (auto simp: battery_present_def battery_status_def battery_health_of_def battery_technology_of_def
      battery_capacity_def battery_cycles_def parse_capacity_percent_def Let_def and_then_Value_iff
      unrated_ok_def percent_ok_def split: if_splits)

lemma text_steps:
  "Value (r\<lparr>br_manufacturer := t\<rparr>) = Value r' \<Longrightarrow> unrated_ok r \<Longrightarrow> unrated_ok r'"
  "Value (r\<lparr>br_model_name := t\<rparr>) = Value r' \<Longrightarrow> unrated_ok r \<Longrightarrow> unrated_ok r'"
  "Value (r\<lparr>br_serial_number := t\<rparr>) = Value r' \<Longrightarrow> unrated_ok r \<Longrightarrow> unrated_ok r'"
  by (auto simp: unrated_ok_def percent_ok_def)

lemma battery_identity_ok:
  assumes "battery_identity attribute r = Value r'" "unrated_ok r"
  shows "unrated_ok r'"
proof -
  obtain r1 r2 r3 r4 r5 r6 r7 r8 where s:
    "with_attribute (attribute ''present'') battery_present r = Value r1"
    "with_attribute (attribute ''status'') battery_status r1 = Value r2"
    "with_attribute (attribute ''health'') battery_health_of r2 = Value r3"
    "with_attribute (attribute ''technology'') battery_technology_of r3 = Value r4"
    "with_attribute (attribute ''manufacturer'') (\<lambda>c r. Value (r\<lparr>br_manufacturer := supply_trim c\<rparr>)) r4 = Value r5"
    "with_attribute (attribute ''model_name'') (\<lambda>c r. Value (r\<lparr>br_model_name := supply_trim c\<rparr>)) r5 = Value r6"
    "with_attribute (attribute ''serial_number'') (\<lambda>c r. Value (r\<lparr>br_serial_number := supply_trim c\<rparr>)) r6 = Value r7"
    "with_attribute (attribute ''capacity'') battery_capacity r7 = Value r8"
    "with_attribute (attribute ''cycle_count'') battery_cycles r8 = Value r'"
    using assms(1) unfolding battery_identity_def and_then_Value_iff by blast
  note step = attribute_step [where I = unrated_ok]
  have "unrated_ok r1" by (rule step [OF s(1) assms(2)]) (rule battery_steps)
  then have "unrated_ok r2" by (rule step [OF s(2)]) (rule battery_steps)
  then have "unrated_ok r3" by (rule step [OF s(3)]) (rule battery_steps)
  then have "unrated_ok r4" by (rule step [OF s(4)]) (rule battery_steps)
  then have "unrated_ok r5" by (rule step [OF s(5)]) (rule text_steps)
  then have "unrated_ok r6" by (rule step [OF s(6)]) (rule text_steps)
  then have "unrated_ok r7" by (rule step [OF s(7)]) (rule text_steps)
  then have "unrated_ok r8" by (rule step [OF s(8)]) (rule battery_steps)
  then show ?thesis by (rule step [OF s(9)]) (rule battery_steps)
qed

text \<open>The attributes in thousands differ only in the field they store.\<close>

lemma thousands_step:
  assumes "with_attribute a (in_thousands store) r = Value r'" "unrated_ok r"
    and "\<And>v r. unrated_ok (store v r) = unrated_ok r"
  shows "unrated_ok r'"
  using assms(1,2) by (rule attribute_step) (rule in_thousands_keeps [OF _ assms(3)])

lemma battery_energy_ok:
  assumes "battery_energy attribute r = Value r'" "unrated_ok r"
  shows "unrated_ok r'"
  using assms unfolding battery_energy_def and_then_Value_iff
  by (elim exE conjE) (drule (1) thousands_step, simp add: unrated_ok_def percent_ok_def)+

lemma battery_attributes_ok:
  assumes "battery_attributes attribute r = Value (uv, r')" "unrated_ok r"
  shows "unrated_ok r'"
proof -
  obtain r1 r2 uv3 r3 r4 where s: "battery_identity attribute r = Value r1" "battery_energy attribute r1 = Value r2"
    "battery_voltage (attribute ''voltage_now'') (battery_health_percent r2) = Value (uv3, r3)"
    "with_attribute (attribute ''voltage_min_design'') (in_thousands (\<lambda>v r.
         r\<lparr>br_has_voltage_min_design_millivolts := True, br_voltage_min_design_millivolts := ucast v\<rparr>)) r3 = Value r4"
    "r' = r4"
    using assms(1) unfolding battery_attributes_def and_then_Value_iff by (auto simp: and_then_Value_iff)
  have "unrated_ok r2" by (rule battery_energy_ok [OF s(2) battery_identity_ok [OF s(1) assms(2)]])
  then have "unrated_ok (battery_health_percent r2)"
    by (simp add: battery_health_percent_def unrated_ok_def percent_ok_def)
  then have "unrated_ok r3"
    using s(3) by (auto simp: battery_voltage_def and_then_Value_iff unrated_ok_def percent_ok_def split: option.splits)
  then show ?thesis
    unfolding s(5) by (rule thousands_step [OF s(4)]) (simp add: unrated_ok_def percent_ok_def)
qed

section \<open>The rate derived from current and voltage\<close>

lemma sint_quotient: "sint (w div 1000000000) = uint w div 1000000000" for w :: u64
proof -
  have w: "uint w < 2 ^ 64" using uint_bounded [of w] by simp
  have "uint (w div 1000000000) = uint w div 1000000000" by (simp add: uint_div)
  moreover have "uint w div 1000000000 < 2 ^ 63" using w zdiv_mono1 [of "uint w" "2 ^ 64" 1000000000] by simp
  moreover have "0 \<le> uint w div 1000000000" by (simp add: pos_imp_zdiv_nonneg_iff)
  ultimately show ?thesis by (simp add: sint_uint signed_take_bit_int_eq_self)
qed

lemma derived_rate_nonneg: "derived_rate ua uv = Some mw \<Longrightarrow> 0 \<le> mw"
  by (auto simp: derived_rate_def Let_def sint_quotient pos_imp_zdiv_nonneg_iff split: if_splits)

text \<open>The remainder of a number that does not fit gives another quotient.\<close>

lemma quotient_fits:
  fixes p :: int
  assumes "0 \<le> p"
  shows "p mod 2 ^ 64 div 1000000000 = p div 1000000000 \<longleftrightarrow> p < 2 ^ 64"
proof
  assume eq: "p mod 2 ^ 64 div 1000000000 = p div 1000000000"
  show "p < 2 ^ 64"
  proof (rule ccontr)
    assume "\<not> p < 2 ^ 64"
    then have "p mod 2 ^ 64 \<le> p - 2 ^ 64"
      using assms by (metis linorder_not_less minus_mod_int_eq mod_add_self2 diff_add_cancel zmod_le_nonneg_dividend
          diff_ge_0_iff_ge)
    then have "p mod 2 ^ 64 + 1000000000 \<le> p" by simp
    then have "(p mod 2 ^ 64 + 1000000000) div 1000000000 \<le> p div 1000000000" by (rule zdiv_mono1) simp
    then show False using eq by simp
  qed
qed (use assms in simp)

text \<open>
  C38. The power rate derived from a current and a voltage is their exact product, in whole milliwatts, if
  and only if the current is not the least 64-bit number and the product fits 64 bits: the code forms the
  product at 64 bits without a check, so a larger one is reported wrapped around.
\<close>

theorem derived_rate_exact_iff:
  "derived_rate (sint (ua :: 64 word)) uv = Some (\<bar>sint ua\<bar> * uint uv div 1000000000) \<longleftrightarrow>
     sint ua \<noteq> - (2 ^ 63) \<and> \<bar>sint ua\<bar> * uint uv < 2 ^ 64"
proof -
  have ua: "\<bar>sint ua\<bar> \<le> 2 ^ 63" using sint_greater_eq [of ua] sint_less [of ua] by simp
  have "uint (of_int \<bar>sint ua\<bar> * uv) = \<bar>sint ua\<bar> * uint uv mod 2 ^ 64"
    using ua by (simp add: uint_word_ariths uint_word_of_int mod_simps)
  moreover have "0 \<le> \<bar>sint ua\<bar> * uint uv" by simp
  ultimately show ?thesis using quotient_fits by (simp add: derived_rate_def Let_def sint_quotient)
qed

section \<open>Every battery is consistent\<close>

lemma battery_current_ok:
  assumes "battery_current uv content r = Some (Value r')" "unrated_ok r"
  shows "rate_ok r' \<and> percent_ok r'"
proof (cases content)
  case None
  then show ?thesis using assms by (simp add: battery_current_def unrated_ok_def rate_ok_def)
next
  case (Some c)
  show ?thesis
  proof (cases "uv > 0")
    case False
    then show ?thesis using assms Some by (simp add: battery_current_def unrated_ok_def rate_ok_def)
  next
    case True
    then obtain ua where "parse_i64 c = Value ua" using assms(1) Some by (cases "parse_i64 c") (simp_all add: battery_current_def)
    then obtain mw where mw: "derived_rate ua uv = Some mw"
      "r' = r\<lparr>br_has_power_rate_milliwatts := True,
              br_power_rate_milliwatts := (if br_condition r = battery_state.discharging then - mw else mw)\<rparr>"
      using assms(1) Some True by (cases "derived_rate ua uv") (simp_all add: battery_current_def)
    show ?thesis
      using assms(2) derived_rate_nonneg [OF mw(1)] by (simp add: mw(2) rate_ok_def percent_ok_def unrated_ok_def)
  qed
qed

lemma battery_rate_ok:
  assumes "battery_rate attribute uv r = Some (Value r')" "unrated_ok r"
  shows "rate_ok r' \<and> percent_ok r'"
proof (cases "attribute ''power_now''")
  case (Value content)
  show ?thesis
  proof (cases content)
    case None
    then obtain c where c: "battery_current uv c r = Some (Value r')"
      using assms(1) Value by (auto simp: battery_rate_def split: result.splits)
    show ?thesis by (rule battery_current_ok [OF c assms(2)])
  next
    case (Some c)
    then show ?thesis
      using assms Value
      by (auto simp: battery_rate_def battery_power_def and_then_Value_iff reported_rate_def rate_ok_def
          percent_ok_def unrated_ok_def)
  qed
qed (use assms(1) in \<open>simp add: battery_rate_def\<close>)

lemma unrated_new: "unrated_ok (new_battery name)"
  by (simp add: unrated_ok_def percent_ok_def new_battery_def)

lemma percent_usable: "percent_ok r \<Longrightarrow> battery_usable r = Value () \<or> battery_usable r = fail errc.invalid_encoding"
  by (auto simp: percent_ok_def battery_usable_def)

lemma collect_battery_ok:
  assumes "collect_battery host name = Some (Value (Some r))"
  shows "battery_ok r"
proof -
  obtain uv r1 r2 where s: "battery_attributes (read_supply_attribute host name) (new_battery name) = Value (uv, r1)"
    "battery_rate (read_supply_attribute host name) uv r1 = Some (Value r2)"
    "with_attribute (read_supply_attribute host name ''temp'') battery_temperature r2 = Value r"
    using assms
    by (auto simp: collect_battery_def Let_def and_then_Value_iff split: result.splits bool.splits)
  have "rate_ok r2 \<and> percent_ok r2" by (rule battery_rate_ok [OF s(2) battery_attributes_ok [OF s(1) unrated_new]])
  with s(3) have "rate_ok r \<and> percent_ok r"
    by (rule attribute_step [where I = "\<lambda>r. rate_ok r \<and> percent_ok r"])
      (auto simp: battery_temperature_def and_then_Value_iff rate_ok_def percent_ok_def)
  then show ?thesis using percent_usable by (simp add: battery_ok_def)
qed

lemma battery_entries_ok:
  "battery_entries host es rs = Some (Value rs') \<Longrightarrow> list_all battery_ok rs \<Longrightarrow> list_all battery_ok rs'"
proof (induction es arbitrary: rs)
  case (Cons ev es)
  show ?case
  proof (cases ev)
    case (Entry name)
    show ?thesis
    proof (cases "hidden name")
      case False
      then obtain snapshot where c: "collect_battery host name = Some (Value snapshot)"
        "battery_entries host es (case snapshot of None \<Rightarrow> rs | Some r \<Rightarrow> rs @ [r]) = Some (Value rs')"
        using Cons.prems(1) Entry by (auto split: option.splits result.splits)
      then have "list_all battery_ok (case snapshot of None \<Rightarrow> rs | Some r \<Rightarrow> rs @ [r])"
        using Cons.prems(2) collect_battery_ok by (auto split: option.split)
      then show ?thesis by (rule Cons.IH [OF c(2)])
    qed (use Cons Entry in auto)
  qed (use Cons.prems in \<open>simp split: if_splits\<close>)
qed simp

interpretation battery_name: strict_weak_order "\<lambda>a b. br_identifier a < br_identifier b"
  by (rule swo_key)

text \<open>
  C39. Every battery the query returns is consistent: its rate is not positive exactly when it is being
  discharged, its charge is at most one hundred percent, its count of cycles is not zero, and the boundary
  can refuse it only for the encoding of a text; the list is in the order of the names.
\<close>

theorem batteries_consistent:
  "case batteries host of
     Some (Value rs) \<Rightarrow> list_all battery_ok rs \<and> in_order (\<lambda>a b. br_identifier a < br_identifier b) rs
   | _ \<Rightarrow> True"
proof (cases "ho_opendir host power_supply_root")
  case None
  then show ?thesis
    using battery_entries_ok [of host "ho_entries host power_supply_root" "[]"] battery_name.std_sort_in_order
    by (cases "battery_entries host (ho_entries host power_supply_root) []")
      (auto simp: batteries_def list_all_iff and_then_Value_iff split: result.split)
qed (simp add: batteries_def fail_errno_def)

section \<open>External power\<close>

text \<open>What one supply says: that power is connected, that it is not, or nothing.\<close>

definition supply_says :: "host \<Rightarrow> string \<Rightarrow> bool option result" where
  "supply_says host name =
     (let attribute = read_supply_attribute host name;
          ask = (\<lambda>file f. and_then (attribute file) (\<lambda>c. case c of None \<Rightarrow> Value None | Some t \<Rightarrow> f t))
      in ask ''type'' (\<lambda>t. and_then (classify_supply_type t) (\<lambda>class.
           if class = external_source then ask ''online'' (\<lambda>t. and_then (parse_online t) (\<lambda>on. Value (Some on)))
           else ask ''status'' (\<lambda>t. and_then (parse_supply_status t) (\<lambda>condition.
             Value (if condition = battery_state.discharging then Some False else None))))))"

definition weigh :: "bool \<times> bool \<Rightarrow> bool option list \<Rightarrow> bool \<times> bool" where
  "weigh saw says = (fst saw \<or> Some True \<in> set says, snd saw \<or> Some False \<in> set says)"

lemma weigh_one:
  "(\<lambda>active. Value (if active then (True, snd saw) else (fst saw, True))) = (\<lambda>on. Value (weigh saw [Some on]))"
  "(\<lambda>condition. Value (if condition = battery_state.discharging then (fst saw, True) else saw)) =
     (\<lambda>condition. Value (weigh saw [if condition = battery_state.discharging then Some False else None]))"
  "weigh saw [None] = saw"
  by (auto simp: weigh_def fun_eq_iff)

lemma supply_evidence_says:
  "supply_evidence host name saw = and_then (supply_says host name) (\<lambda>say. Value (weigh saw [say]))"
proof (cases "read_supply_attribute host name ''type''")
  case (Value content)
  show ?thesis
  proof (cases content)
    case (Some t)
    show ?thesis
      by (cases "classify_supply_type t"; cases "read_supply_attribute host name ''online''";
          cases "read_supply_attribute host name ''status''")
        (simp_all add: supply_evidence_def supply_says_def Let_def Value Some with_attribute_def weigh_one
          and_then_assoc split: supply_class.split option.split result.split)
  qed (simp add: supply_evidence_def supply_says_def Value weigh_one)
qed (simp add: supply_evidence_def supply_says_def)

lemma weigh_append: "weigh (weigh saw [say]) says = weigh saw (say # says)"
  by (auto simp: weigh_def)

lemma dot_entry_hidden: "dot_entry name \<Longrightarrow> hidden name"
  by (auto simp: dot_entry_def hidden_def)

lemma evidence_loop:
  "visible_entries (supply_evidence host) (map Entry names) saw =
     and_then (all_values (map (supply_says host) (filter (\<lambda>n. \<not> hidden n) names))) (\<lambda>says. Value (weigh saw says))"
proof (induction names arbitrary: saw)
  case (Cons n ns)
  then show ?case
    by (cases "supply_says host n"; cases "all_values (map (supply_says host) (filter (\<lambda>n. \<not> hidden n) ns))")
      (auto simp: visible_entries_def supply_evidence_says weigh_append dot_entry_hidden)
qed (simp add: visible_entries_def weigh_def)

text \<open>
  C40. Whether the system is on external power is decided by all the supplies together: one supply in use
  suffices, one that is not, or a battery that is being discharged, counts only where no other is in use,
  and the order in which the directory lists them does not matter; only an error of a supply stops.
\<close>

theorem external_power_exact:
  "external_power_online (host\<lparr>ho_opendir := (\<lambda>path. None), ho_entries := (\<lambda>path. map Entry names)\<rparr>) =
     and_then (all_values (map (supply_says host) (filter (\<lambda>n. \<not> hidden n) names))) (\<lambda>says.
       Value (if Some True \<in> set says then external_presence.connected
              else if Some False \<in> set says then external_presence.disconnected
              else external_presence.no_evidence))"
proof -
  let ?host = "host\<lparr>ho_opendir := (\<lambda>path. None), ho_entries := (\<lambda>path. map Entry names)\<rparr>"
  have "read_supply_attribute ?host = read_supply_attribute host"
    by (simp add: fun_eq_iff read_supply_attribute_def)
  then have "supply_says ?host = supply_says host" unfolding fun_eq_iff supply_says_def by metis
  then show ?thesis
    unfolding external_power_online_def walk_supplies_def
    by (cases "all_values (map (supply_says host) (filter (\<lambda>n. \<not> hidden n) names))")
      (simp_all add: evidence_loop weigh_def)
qed

end
