(* ===== verification/Spec2Isabelle.thy ===== *)
theory Spec2Isabelle
  imports Utf8_Correct Virtualization_Correct Hardware_Correct Network Memory_Correct Printer_Linux Software_Inventory Display_Correct Security_Correct Bluetooth_Correct Cpu_Correct Process_List Virtualization_Limits Storage_Correct Power_Supply_Correct
begin

text \<open>
  A verification library for Syscape, a header-only C++ library that answers questions about the machine
  it runs on: memory, processors, processes, storage, power, printers, software, security, virtual machines
  and containers. Paths below are relative to \<open>src/include/syscape/\<close>.

  \<^bold>\<open>The program.\<close> Every module has three layers. A public header (\<open>memory.hpp\<close>, \<open>cpu.hpp\<close>, ...) holds the
  types a caller sees and functions that return \<open>result<T>\<close>, a value or an error code (\<open>result.hpp\<close>,
  \<open>error.hpp\<close>). A shared part (\<open>detail/<module>/common.hpp\<close>) holds internal records, parsers and the
  validation every record passes before it reaches the caller. A backend per platform
  (\<open>detail/<module>/linux.hpp\<close>, ...) collects the records. The backends share readers of files and
  directories (\<open>detail/linux/\<close>), the lookup of users (\<open>detail/posix/passwd.hpp\<close>) and the text codec
  (\<open>detail/utf8.hpp\<close>). The library keeps no state between calls: a query is a function of what the system
  answers while it runs.

  \<^bold>\<open>What is modelled.\<close> The shared parts of the modules listed below, their Linux backends, and of the
  Windows backend the decoding of the firmware tables.

  \<^item> \<open>Syscape_Prelude\<close>, \<open>Text_Scan\<close>, \<open>Ordering\<close>, \<open>From_Chars\<close>: the collections of rewrite rules, bytes and
    digits, what the code uses of \<open>std::string_view\<close>, \<open>std::sort\<close> under a strict weak order (a locale,
    interpreted for every comparison the code sorts with), and \<open>std::from_chars\<close> with its three outcomes.
  \<^item> \<open>Foundation\<close>: \<open>error.hpp\<close>, \<open>result.hpp\<close> and the capability vocabulary. A \<open>result<T>\<close> is a datatype with
    the constructors \<open>Value\<close> and \<open>Unexpected\<close>; the early return of an error is \<open>and_then\<close>. The contract of
    the boundary validators is a locale that is interpreted for each of them.
  \<^item> \<open>Utf8\<close>, \<open>Utf8_Correct\<close>: \<open>detail/utf8.hpp\<close>.
  \<^item> \<open>Linux_Io\<close>, \<open>Linux_Files\<close>: \<open>detail/linux/file.hpp\<close>, \<open>detail/linux/directory.hpp\<close>,
    \<open>detail/linux/process_metrics.hpp\<close>, \<open>detail/posix/passwd.hpp\<close>, and the record \<open>host\<close>.
  \<^item> \<open>Virtualization\<close>, \<open>Virtualization_Linux\<close>, \<open>Virtualization_Correct\<close>, \<open>Virtualization_Limits\<close>:
    \<open>detail/virtualization/\<close> and \<open>virtualization.hpp\<close>: hypervisors, containers, control groups, namespaces.
  \<^item> \<open>Hardware\<close>, \<open>Smbios_Identity\<close>, \<open>Hardware_Correct\<close>, \<open>Smbios_Correct\<close>, \<open>Uuid_Correct\<close>:
    \<open>hardware.hpp\<close>, \<open>detail/hardware/common.hpp\<close> and the table parsers of \<open>detail/hardware/windows.hpp\<close>.
  \<^item> \<open>Network\<close>: \<open>detail/network/common.hpp\<close>.
  \<^item> \<open>Memory\<close>, \<open>Memory_Correct\<close>: \<open>detail/memory/common.hpp\<close> and \<open>detail/memory/linux.hpp\<close>.
  \<^item> \<open>Printer_Text\<close>, \<open>Printer_Http\<close>, \<open>Printer\<close>, \<open>Printer_Conf\<close>, \<open>Printer_Linux\<close>, \<open>Http_Correct\<close>, \<open>Ipp_Correct\<close>:
    \<open>detail/printer/common.hpp\<close> (HTTP, IPP and the CUPS configuration) and \<open>detail/printer/linux.hpp\<close>.
  \<^item> \<open>Software\<close>, \<open>Software_Parse\<close>, \<open>Software_Linux\<close>, \<open>Software_Inventory\<close>, \<open>Software_Parse_Correct\<close>:
    \<open>software.hpp\<close>, \<open>detail/software/common.hpp\<close> and \<open>detail/software/linux.hpp\<close>.
  \<^item> \<open>Display\<close>, \<open>Display_Correct\<close>: \<open>display.hpp\<close>, \<open>detail/display/common.hpp\<close>, \<open>detail/display/linux.hpp\<close>.
  \<^item> \<open>Security\<close>, \<open>Security_Linux\<close>, \<open>Security_Correct\<close>: \<open>security.hpp\<close>, \<open>detail/security/\<close>.
  \<^item> \<open>Wifi\<close>, \<open>Wifi_Correct\<close> and \<open>Bluetooth\<close>, \<open>Bluetooth_Correct\<close>: \<open>detail/wifi/\<close> and \<open>detail/bluetooth/\<close>.
  \<^item> \<open>Cpu\<close>, \<open>Cpu_Correct\<close>: \<open>cpu.hpp\<close>, \<open>detail/cpu/common.hpp\<close>, \<open>detail/cpu/linux.hpp\<close>.
  \<^item> \<open>Os\<close>: \<open>detail/os/common.hpp\<close>, \<open>detail/os/linux.hpp\<close>.
  \<^item> \<open>Process_List\<close>: \<open>process_list.hpp\<close>, \<open>detail/process_list/\<close>.
  \<^item> \<open>Storage\<close>, \<open>Storage_Linux\<close>, \<open>Storage_Correct\<close>: \<open>storage.hpp\<close>, \<open>detail/storage/common.hpp\<close>,
    \<open>detail/storage/linux.hpp\<close>.
  \<^item> \<open>Power_Supply\<close>, \<open>Power_Supply_Correct\<close>: \<open>power.hpp\<close>, \<open>detail/power/common.hpp\<close>, \<open>detail/power/linux.hpp\<close>.
\<close>

text \<open>
  \<^bold>\<open>How the code is translated.\<close> A \<open>struct\<close> is a record, an \<open>enum class\<close> a datatype with its constructors, an
  unsigned integer on which arithmetic happens a word of its width, a text a list of characters. Integers that
  are only read and compared are \<open>int\<close> or \<open>nat\<close> with the bounds of \<open>std::from_chars\<close>. A \<open>double\<close> that holds
  a decimal fraction of an integer (temperatures, percentages, frequencies) is that integer in the smaller
  unit. Names are those of the code, with a prefix or suffix where they clash. A pair of \<open>has_x\<close> and \<open>x\<close> is
  kept as such in the internal records, \<open>std::optional\<close> is \<open>option\<close>. An outcome that the C++ standard leaves
  undefined is \<open>None\<close> of an outer \<open>option\<close>, so that its absence or presence is a statement.

  \<^bold>\<open>What the system answers\<close> is an argument. The record \<open>host\<close> maps each path to the outcome of reading,
  opening and testing it and to the events of reading a directory; \<open>process_host\<close>, \<open>virt_host\<close> and
  \<open>storage_host\<close> extend it with the answers of \<open>readlink\<close>, \<open>getpwuid_r\<close>, \<open>sysconf\<close>, \<open>cpuid\<close>, \<open>statfs\<close>,
  \<open>stat\<close>, \<open>lstat\<close> and the device requests. Where the code asks twice and acts on a change in between (the
  subsystem of a disk, the size of the firmware table), the two answers are separate. Clocks, \<open>uname\<close>,
  \<open>gethostname\<close>, the ioctl interfaces of the radio modules and \<open>realpath\<close> are arguments of the functions
  that use them.

  \<^bold>\<open>Loops and bounds.\<close> Walks over a text are structural recursion or recursion on the length that remains.
  A loop whose end the environment decides takes the list of what it answers: the events of a directory, the
  outcomes of \<open>read\<close> (\<open>read_loop\<close>, \<open>cap_reads\<close>, \<open>connected_loop\<close>: \<open>None\<close> when the list ends before the
  loop does). Loops that double a buffer (user lookup, symbolic links, host name, user name) end at the
  maximum of the code and recurse on the room that is left; \<open>lookup_with_growth_bounded\<close> counts their calls. The
  ancestors of a control group are a list computed from its path; the layers below an encrypted block device are
  inspected to the depth the code allows (nine levels), and cache and processor indices are bounded as there.

  \<^bold>\<open>What the theorems show.\<close>

  \<^item> Round trips: texts and tables written as the kernel, a firmware, CUPS or a package database writes them
    are read back exactly (\<open>utf8_utf16_inverse\<close>, \<open>parse_smbios_table_roundtrip\<close>, \<open>http_response_roundtrip\<close>,
    \<open>parse_edid_roundtrip\<close>, \<open>cpu_list_roundtrip\<close>, \<open>mount_table_roundtrip\<close>, ...).
  \<^item> Exactness: the answer of a routine for every input, errors included (\<open>is_valid_utf8_iff\<close>,
    \<open>positive_ratio_less_exact\<close>, \<open>interpret_uuid_exact\<close>, \<open>cache_descriptors_exact\<close>, \<open>nvme_log_exact\<close>,
    \<open>external_power_exact\<close>).
  \<^item> Refinement of a specification (\<open>parse_meminfo_refines\<close>, \<open>ipp_response_refines\<close>,
    \<open>package_databases_refine\<close>, \<open>effective_cpu_refines\<close>) and agreement of two routines
    (\<open>process_table_consistent\<close>, \<open>storage_mount_decoder_agrees\<close>).
  \<^item> Safety: no byte outside the input decides an answer (\<open>smbios_reads_inside\<close>, \<open>sense_reads_inside\<close>), a
    process cannot forge fields by its name (\<open>stat_entry_unforgeable\<close>), a verdict on a namespace rests on
    evidence (\<open>namespace_verdicts_sound\<close>).
  \<^item> Invariants of what a query returns (\<open>inventories_ordered_unique\<close>, \<open>partitions_consistent\<close>,
    \<open>batteries_consistent\<close>), termination and liveness of the loops.
  \<^item> Errors: conditions under which the code does not do what it is meant to: \<open>unterminated_line_lost\<close>,
    \<open>clock_conversions_exact\<close>, \<open>vanished_namespace_lost\<close>, \<open>derived_rate_exact_iff\<close>, and the refusal of
    escaped \<open>#\<close> in \<open>mount_table_roundtrip\<close>.
\<close>

text \<open>
  \<^bold>\<open>Not modelled.\<close> The backends of the other platforms: those of Windows, Apple, BSD, Unix and mobile systems
  are calls of system interfaces whose source is not part of the repository, with the conversion of their
  answers, and those of embedded systems and WebAssembly answer almost every query with a constant. Of the
  Windows backend of the hardware module only the firmware tables are modelled. Of the Linux backends those of
  the modules ipc, sensor, input, hardware, network, camera, gpu, user, audio, numa, locale, environment,
  filesystem, process, resource and connection are left out; they read sysfs and procfs with the steps that
  are modelled here, or pass on answers of the C library. The choice of a backend by the preprocessor, the
  constants of the execution environment, allocation failures and the release of handles have no counterpart
  in the model. The tests, examples and build files are not modelled.
\<close>

end
